(* ===== verification/Prelude.thy ===== *)
theory Prelude
  imports Complex_Main "HOL-Library.Multiset" "HOL-Library.Sublist"
begin

text \<open>
  Shared vocabulary of the development.

  \<^item> Python values: \<open>pyfloat\<close> (a float: a finite number, an infinity or NaN),
    \<open>pyval\<close> (a dynamically typed value, for the code that asks \<open>isinstance\<close>) and
    \<open>py_exc\<close> (the built-in exceptions the code can raise).
    Finite floats are exact real numbers: the special values and every guard on them are modelled,
    the rounding of binary64 arithmetic is not.
  \<^item> Python strings over the code points 0 to 255 (one Isabelle character each), with the
    methods the code calls: strip, lower, upper, split, partition, startswith, isdigit.
  \<^item> Built-in functions: \<open>round\<close> (half to even at a number of decimals), \<open>float\<close> and the
    arguments of \<open>math.isnan\<close>, \<open>math.isinf\<close> and \<open>math.isfinite\<close>.
  \<^item> Results \<open>error + value\<close> and the traversal of a list by a fallible function.
\<close>

section \<open>Collections of facts\<close>

named_theorems str_simps \<open>evaluation of the string methods\<close>
named_theorems wf_intros \<open>introduction rules for well-formedness\<close>

section \<open>Results\<close>

text \<open>An exception is \<open>Inl\<close>, a value \<open>Inr\<close>.\<close>

fun rbind :: "'e + 'a \<Rightarrow> ('a \<Rightarrow> 'e + 'b) \<Rightarrow> 'e + 'b" where
  "rbind (Inl e) f = Inl e"
| "rbind (Inr a) f = f a"

lemma rbind_eq_Inr [simp]: "rbind m f = Inr b \<longleftrightarrow> (\<exists>a. m = Inr a \<and> f a = Inr b)"
  by (cases m) auto

lemma rbind_eq_Inl: "rbind m f = Inl e \<longleftrightarrow> m = Inl e \<or> (\<exists>a. m = Inr a \<and> f a = Inl e)"
  by (cases m) auto

fun traverse :: "('a \<Rightarrow> 'e + 'b) \<Rightarrow> 'a list \<Rightarrow> 'e + 'b list" where
  "traverse f [] = Inr []"
| "traverse f (x # xs) =
     rbind (f x) (\<lambda>y. rbind (traverse f xs) (\<lambda>ys. Inr (y # ys)))"

lemma traverse_Inr_length: "traverse f xs = Inr ys \<Longrightarrow> length ys = length xs"
  by (induction xs arbitrary: ys) auto

lemma traverse_Inr_iff: "traverse f xs = Inr ys \<longleftrightarrow> list_all2 (\<lambda>x y. f x = Inr y) xs ys"
  by (induction xs arbitrary: ys) (auto simp: list_all2_Cons1)

section \<open>Python floats\<close>

datatype pyfloat = Fin real | PInf | NInf | NaN

datatype py_exc =
  ValueError | TypeError | KeyError | OverflowError | ZeroDivisionError | AttributeError

fun is_finite :: "pyfloat \<Rightarrow> bool" where
  "is_finite (Fin _) = True"
| "is_finite _ = False"

definition isnan :: "pyfloat \<Rightarrow> bool" where
  "isnan f = (f = NaN)"

definition isinf :: "pyfloat \<Rightarrow> bool" where
  "isinf f = (f = PInf \<or> f = NInf)"

text \<open>The comparisons are false whenever an operand is NaN.\<close>

fun fl_lt :: "pyfloat \<Rightarrow> pyfloat \<Rightarrow> bool" where
  "fl_lt NaN _ = False"
| "fl_lt _ NaN = False"
| "fl_lt (Fin a) (Fin b) = (a < b)"
| "fl_lt NInf b = (b \<noteq> NInf)"
| "fl_lt _ NInf = False"
| "fl_lt PInf _ = False"
| "fl_lt (Fin _) PInf = True"

definition fl_le :: "pyfloat \<Rightarrow> pyfloat \<Rightarrow> bool" where
  "fl_le a b = (a \<noteq> NaN \<and> b \<noteq> NaN \<and> \<not> fl_lt b a)"

lemma fl_le_Fin [simp]: "fl_le (Fin a) (Fin b) \<longleftrightarrow> a \<le> b"
  by (auto simp: fl_le_def)

fun the_fin :: "pyfloat \<Rightarrow> real" where
  "the_fin (Fin a) = a"
| "the_fin _ = 0"

lemma isnan_isinf_finite [simp]: "(isnan f \<or> isinf f) = (\<not> is_finite f)"
  by (cases f) (auto simp: isnan_def isinf_def)

lemma not_isnan_isinf [simp]: "(\<not> isnan f \<and> \<not> isinf f) = is_finite f"
  by (cases f) (auto simp: isnan_def isinf_def)

lemma isnan_simps [simp]: "isnan NaN" "\<not> isnan (Fin a)" "\<not> isnan PInf" "\<not> isnan NInf"
  by (auto simp: isnan_def)

lemma isinf_simps [simp]: "isinf PInf" "isinf NInf" "\<not> isinf (Fin a)" "\<not> isinf NaN"
  by (auto simp: isinf_def)

lemma is_finite_iff: "is_finite f \<longleftrightarrow> (\<exists>a. f = Fin a)"
  by (cases f) auto

lemma Fin_the_fin [simp]: "is_finite f \<Longrightarrow> Fin (the_fin f) = f"
  by (cases f) auto

text \<open>Addition, subtraction and multiplication with the IEEE rules for the special values.\<close>

fun fl_add :: "pyfloat \<Rightarrow> pyfloat \<Rightarrow> pyfloat" where
  "fl_add (Fin a) (Fin b) = Fin (a + b)"
| "fl_add NaN _ = NaN"
| "fl_add _ NaN = NaN"
| "fl_add PInf NInf = NaN"
| "fl_add NInf PInf = NaN"
| "fl_add PInf _ = PInf"
| "fl_add _ PInf = PInf"
| "fl_add NInf _ = NInf"
| "fl_add _ NInf = NInf"

fun fl_neg :: "pyfloat \<Rightarrow> pyfloat" where
  "fl_neg (Fin a) = Fin (- a)"
| "fl_neg PInf = NInf"
| "fl_neg NInf = PInf"
| "fl_neg NaN = NaN"

definition fl_sub :: "pyfloat \<Rightarrow> pyfloat \<Rightarrow> pyfloat" where
  "fl_sub a b = fl_add a (fl_neg b)"

definition fl_sum :: "pyfloat list \<Rightarrow> pyfloat" where
  "fl_sum xs = foldl fl_add (Fin 0) xs"

text \<open>
  Multiplication; division raises ZeroDivisionError on a zero divisor, as Python's \<open>/\<close> does.
\<close>

definition fl_inf :: "bool \<Rightarrow> pyfloat" where
  "fl_inf negative = (if negative then NInf else PInf)"

fun fl_negative :: "pyfloat \<Rightarrow> bool" where
  "fl_negative (Fin a) = (a < 0)"
| "fl_negative NInf = True"
| "fl_negative _ = False"

fun fl_mul :: "pyfloat \<Rightarrow> pyfloat \<Rightarrow> pyfloat" where
  "fl_mul (Fin a) (Fin b) = Fin (a * b)"
| "fl_mul a b =
     (if a = NaN \<or> b = NaN \<or> a = Fin 0 \<or> b = Fin 0 then NaN
      else fl_inf (fl_negative a \<noteq> fl_negative b))"

fun fl_div :: "pyfloat \<Rightarrow> pyfloat \<Rightarrow> py_exc + pyfloat" where
  "fl_div a (Fin b) =
     (if b = 0 then Inl ZeroDivisionError
      else Inr (case a of
          Fin x \<Rightarrow> Fin (x / b)
        | NaN \<Rightarrow> NaN
        | _ \<Rightarrow> fl_inf (fl_negative a \<noteq> (b < 0))))"
| "fl_div a NaN = Inr NaN"
| "fl_div a b = Inr (case a of Fin _ \<Rightarrow> Fin 0 | _ \<Rightarrow> NaN)"

lemma fl_add_finite [simp]: "is_finite (fl_add a b) \<longleftrightarrow> is_finite a \<and> is_finite b"
  by (cases a; cases b) auto

lemma foldl_fl_add_Fin: "foldl fl_add (Fin a) (map Fin xs) = Fin (a + sum_list xs)"
  by (induction xs arbitrary: a) (auto simp: algebra_simps)

lemma fl_sum_Fin [simp]: "fl_sum (map Fin xs) = Fin (sum_list xs)"
  by (simp add: fl_sum_def foldl_fl_add_Fin)

section \<open>round\<close>

text \<open>
  \<open>round(x, d)\<close> of a finite float: the nearest multiple of \<open>10^-d\<close>, ties to the even one.
\<close>

definition round_half_even :: "real \<Rightarrow> int" where
  "round_half_even x =
     (let f = \<lfloor>x\<rfloor>; d = x - of_int f
      in if d < 1/2 then f else if d > 1/2 then f + 1 else if even f then f else f + 1)"

definition py_round :: "real \<Rightarrow> nat \<Rightarrow> real" where
  "py_round x d = of_int (round_half_even (x * 10 ^ d)) / 10 ^ d"

lemma round_half_even_error: "\<bar>of_int (round_half_even x) - x\<bar> \<le> 1/2"
  unfolding round_half_even_def Let_def by (auto simp: abs_if) linarith+

lemma round_half_even_of_int [simp]: "round_half_even (of_int n) = n"
  by (simp add: round_half_even_def)

lemma round_half_even_mono:
  assumes "x \<le> y"
  shows "round_half_even x \<le> round_half_even y"
proof (cases "\<lfloor>x\<rfloor> = \<lfloor>y\<rfloor>")
  case True
  with assms show ?thesis by (auto simp: round_half_even_def Let_def)
next
  case False
  with floor_mono [OF assms] have "\<lfloor>x\<rfloor> + 1 \<le> \<lfloor>y\<rfloor>" by simp
  moreover have "round_half_even x \<le> \<lfloor>x\<rfloor> + 1" by (auto simp: round_half_even_def Let_def)
  moreover have "\<lfloor>y\<rfloor> \<le> round_half_even y" by (auto simp: round_half_even_def Let_def)
  ultimately show ?thesis by linarith
qed

lemma py_round_error: "\<bar>py_round x d - x\<bar> \<le> 1 / (2 * 10 ^ d)"
proof -
  have "\<bar>of_int (round_half_even (x * 10 ^ d)) - x * 10 ^ d\<bar> / 10 ^ d \<le> (1/2) / 10 ^ d"
    by (rule divide_right_mono [OF round_half_even_error]) simp
  moreover have "\<bar>of_int (round_half_even (x * 10 ^ d)) - x * 10 ^ d\<bar> / 10 ^ d =
      \<bar>py_round x d - x\<bar>"
    by (simp add: py_round_def diff_divide_distrib flip: abs_divide)
      (metis abs_divide abs_of_pos diff_divide_distrib nonzero_mult_div_cancel_right
        power_not_zero zero_less_numeral zero_less_power zero_neq_numeral)
  ultimately show ?thesis by simp
qed

lemma py_round_cents: "\<bar>py_round x 2 - x\<bar> \<le> 1 / 200"
  using py_round_error [of x 2] by simp

lemma py_round_mono: "x \<le> y \<Longrightarrow> py_round x d \<le> py_round y d"
  by (simp add: py_round_def divide_right_mono round_half_even_mono)

lemma py_round_of_int [simp]: "py_round (of_int n) d = of_int n"
proof -
  have "(of_int n :: real) * 10 ^ d = of_int (n * 10 ^ d)" by simp
  then show ?thesis by (simp only: py_round_def round_half_even_of_int) simp
qed

lemma py_round_0 [simp]: "py_round 0 d = 0"
  using py_round_of_int [of 0 d] by simp

lemma py_round_numeral [simp]: "py_round (numeral n) d = numeral n"
  using py_round_of_int [of "numeral n" d] by simp

lemma py_round_nonneg [simp]: "0 \<le> x \<Longrightarrow> 0 \<le> py_round x d"
  using py_round_mono [of 0 x d] by simp

fun fl_round :: "pyfloat \<Rightarrow> nat \<Rightarrow> pyfloat" where
  "fl_round (Fin a) d = Fin (py_round a d)"
| "fl_round f d = f"

section \<open>Dynamically typed values\<close>

text \<open>
  What a JSON body, a parsed document or an untyped argument can hold. A dict is the list of its
  items in insertion order.
\<close>

datatype pyval =
    VNone
  | VBool bool
  | VInt int
  | VFloat pyfloat
  | VStr string
  | VList "pyval list"
  | VDict "(string \<times> pyval) list"

text \<open>\<open>isinstance(v, int)\<close> and \<open>isinstance(v, (int, float))\<close>: a bool is an int in Python.\<close>

fun is_int :: "pyval \<Rightarrow> bool" where
  "is_int (VBool _) = True"
| "is_int (VInt _) = True"
| "is_int _ = False"

fun is_number :: "pyval \<Rightarrow> bool" where
  "is_number (VFloat _) = True"
| "is_number v = is_int v"

fun is_bool :: "pyval \<Rightarrow> bool" where
  "is_bool (VBool _) = True"
| "is_bool _ = False"

text \<open>The truth value of an object: the operators \<open>or\<close> and \<open>not\<close>.\<close>

fun truthy :: "pyval \<Rightarrow> bool" where
  "truthy VNone = False"
| "truthy (VBool b) = b"
| "truthy (VInt n) = (n \<noteq> 0)"
| "truthy (VFloat x) = (x \<noteq> Fin 0)"
| "truthy (VStr s) = (s \<noteq> [])"
| "truthy (VList vs) = (vs \<noteq> [])"
| "truthy (VDict d) = (d \<noteq> [])"

text \<open>The value of an instance of \<open>int\<close>.\<close>

fun int_of :: "pyval \<Rightarrow> int" where
  "int_of (VBool b) = (if b then 1 else 0)"
| "int_of (VInt n) = n"
| "int_of _ = 0"

text \<open>
  The conversion to a double that \<open>float(v)\<close> and every function of \<open>math\<close> apply to a number.
  An int at or beyond the point that rounds to \<open>2^1024\<close> raises OverflowError.
\<close>

definition float_limit :: int where
  "float_limit = 2 ^ 1024 - 2 ^ 970"

fun to_float :: "pyval \<Rightarrow> py_exc + pyfloat" where
  "to_float (VBool b) = Inr (Fin (if b then 1 else 0))"
| "to_float (VInt n) =
     (if \<bar>n\<bar> < float_limit then Inr (Fin (of_int n)) else Inl OverflowError)"
| "to_float (VFloat f) = Inr f"
| "to_float _ = Inl TypeError"

lemma to_float_number: "is_number v \<Longrightarrow> to_float v \<noteq> Inl TypeError"
  by (cases v) auto

lemma float_limit_pos [simp]: "0 < float_limit"
  unfolding float_limit_def by simp

text \<open>A dict's \<open>d.get(k)\<close>, \<open>k in d\<close> and \<open>d[k] = v\<close>.\<close>

definition dict_get :: "(string \<times> 'v) list \<Rightarrow> string \<Rightarrow> 'v option" where
  "dict_get d k = map_of d k"

fun dict_set :: "('k \<times> 'v) list \<Rightarrow> 'k \<Rightarrow> 'v \<Rightarrow> ('k \<times> 'v) list" where
  "dict_set [] k v = [(k, v)]"
| "dict_set ((k', v') # d) k v =
     (if k' = k then (k, v) # d else (k', v') # dict_set d k v)"

lemma map_of_dict_set [simp]: "map_of (dict_set d k v) = (map_of d)(k \<mapsto> v)"
  by (induction d) auto

lemma keys_dict_set: "fst ` set (dict_set d k v) = insert k (fst ` set d)"
proof (induction d)
  case (Cons a d)
  then show ?case by (cases a) auto
qed simp

lemma distinct_dict_set: "distinct (map fst d) \<Longrightarrow> distinct (map fst (dict_set d k v))"
proof (induction d)
  case (Cons a d)
  have "fst a \<notin> fst ` set (dict_set d k v)" if "fst a \<noteq> k"
    using that Cons.prems by (simp add: keys_dict_set)
  with Cons show ?case by (cases a) auto
qed auto

text \<open>
  \<open>d.get(k, default)\<close> and \<open>d[k]\<close> of a value that may not be a dict, and \<open>for x in v\<close>: a dict gives its
  keys, a text its characters.
\<close>

fun py_get :: "pyval \<Rightarrow> string \<Rightarrow> pyval \<Rightarrow> py_exc + pyval" where
  "py_get (VDict d) k def = Inr (case dict_get d k of Some v \<Rightarrow> v | None \<Rightarrow> def)"
| "py_get _ k def = Inl AttributeError"

fun py_item :: "pyval \<Rightarrow> string \<Rightarrow> py_exc + pyval" where
  "py_item (VDict d) k = (case dict_get d k of Some v \<Rightarrow> Inr v | None \<Rightarrow> Inl KeyError)"
| "py_item _ k = Inl TypeError"

fun iter_value :: "pyval \<Rightarrow> py_exc + pyval list" where
  "iter_value (VList vs) = Inr vs"
| "iter_value (VDict d) = Inr (map (\<lambda>(k, _). VStr k) d)"
| "iter_value (VStr s) = Inr (map (\<lambda>c. VStr [c]) s)"
| "iter_value _ = Inl TypeError"

section \<open>Strings\<close>

text \<open>\<open>str.isspace\<close>, \<open>str.lower\<close> and \<open>str.upper\<close> on the code points 0 to 255.\<close>

definition code_of :: "char \<Rightarrow> nat" where
  "code_of c = of_char c"

definition is_ws :: "char \<Rightarrow> bool" where
  "is_ws c = (let n = code_of c
     in (9 \<le> n \<and> n \<le> 13) \<or> (28 \<le> n \<and> n \<le> 32) \<or> n = 133 \<or> n = 160)"

definition lower_char :: "char \<Rightarrow> char" where
  "lower_char c = (let n = code_of c
     in if (65 \<le> n \<and> n \<le> 90) \<or> (192 \<le> n \<and> n \<le> 222 \<and> n \<noteq> 215) then char_of (n + 32) else c)"

definition upper_char :: "char \<Rightarrow> string" where
  "upper_char c = (let n = code_of c
     in if (97 \<le> n \<and> n \<le> 122) \<or> (224 \<le> n \<and> n \<le> 254 \<and> n \<noteq> 247) then [char_of (n - 32)]
        else if n = 223 then ''SS'' else [c])"

definition lower :: "string \<Rightarrow> string" where
  "lower s = map lower_char s"

definition upper :: "string \<Rightarrow> string" where
  "upper s = concat (map upper_char s)"

definition lstrip :: "string \<Rightarrow> string" where
  "lstrip s = dropWhile is_ws s"

definition rstrip :: "string \<Rightarrow> string" where
  "rstrip s = rev (dropWhile is_ws (rev s))"

definition strip :: "string \<Rightarrow> string" where
  "strip s = rstrip (lstrip s)"

lemma strip_Nil [simp]: "strip [] = []"
  by (simp add: strip_def lstrip_def rstrip_def)

definition newline :: char where
  "newline = char_of (10 :: nat)"

definition is_ascii :: "char \<Rightarrow> bool" where
  "is_ascii c = (code_of c < 128)"

definition is_digit :: "char \<Rightarrow> bool" where
  "is_digit c = (48 \<le> code_of c \<and> code_of c \<le> 57)"

text \<open>\<open>str.isdigit\<close> also accepts the superscripts one, two and three.\<close>

definition isdigit_char :: "char \<Rightarrow> bool" where
  "isdigit_char c = (is_digit c \<or> code_of c = 178 \<or> code_of c = 179 \<or> code_of c = 185)"

definition isdigit :: "string \<Rightarrow> bool" where
  "isdigit s = (s \<noteq> [] \<and> list_all isdigit_char s)"

definition startswith :: "string \<Rightarrow> string \<Rightarrow> bool" where
  "startswith s p = (take (length p) s = p)"

definition endswith :: "string \<Rightarrow> string \<Rightarrow> bool" where
  "endswith s p = (length p \<le> length s \<and> drop (length s - length p) s = p)"

text \<open>\<open>p in s\<close>\<close>

fun str_in :: "string \<Rightarrow> string \<Rightarrow> bool" where
  "str_in p [] = (p = [])"
| "str_in p (c # cs) = (startswith (c # cs) p \<or> str_in p cs)"

text \<open>\<open>s.split(c)\<close> for a one-character separator.\<close>

fun split_on :: "char \<Rightarrow> string \<Rightarrow> string list" where
  "split_on c [] = [[]]"
| "split_on c (x # xs) =
     (if x = c then [] # split_on c xs
      else case split_on c xs of [] \<Rightarrow> [[x]] | w # ws \<Rightarrow> (x # w) # ws)"

text \<open>\<open>s.split()\<close>: the maximal runs of characters that are not whitespace.\<close>

fun words_acc :: "string \<Rightarrow> string \<Rightarrow> string list" where
  "words_acc acc [] = (if acc = [] then [] else [rev acc])"
| "words_acc acc (x # xs) =
     (if is_ws x then (if acc = [] then words_acc [] xs else rev acc # words_acc [] xs)
      else words_acc (x # acc) xs)"

definition words :: "string \<Rightarrow> string list" where
  "words s = words_acc [] s"

text \<open>\<open>not s or not s.strip()\<close>: blank strings.\<close>

definition blank :: "string \<Rightarrow> bool" where
  "blank s = (s = [] \<or> strip s = [])"

lemma blank_iff: "blank s \<longleftrightarrow> (\<forall>c \<in> set s. is_ws c)"
proof -
  have "strip s = [] \<longleftrightarrow> (\<forall>c \<in> set (lstrip s). is_ws c)"
    by (simp add: strip_def rstrip_def)
  also have "\<dots> \<longleftrightarrow> (\<forall>c \<in> set s. is_ws c)"
  proof -
    have "\<forall>c \<in> set (takeWhile is_ws s). is_ws c" by (auto dest: set_takeWhileD)
    moreover have "set s = set (takeWhile is_ws s) \<union> set (lstrip s)"
      by (metis lstrip_def set_append takeWhile_dropWhile_id)
    ultimately show ?thesis by blast
  qed
  finally show ?thesis by (auto simp: blank_def)
qed

lemma split_on_ne [simp]: "split_on c s \<noteq> []"
  by (cases s) (auto split: list.splits)

lemma startswith_append [simp]: "startswith (p @ s) p"
  by (simp add: startswith_def)

lemma startswith_iff: "startswith s p \<longleftrightarrow> (\<exists>t. s = p @ t)"
  by (metis append_eq_conv_conj append_take_drop_id startswith_def)

lemma str_in_iff: "str_in p s \<longleftrightarrow> (\<exists>u v. s = u @ p @ v)"
proof (induction s)
  case Nil
  show ?case by auto
next
  case (Cons c cs)
  have "(\<exists>u v. c # cs = u @ p @ v) \<longleftrightarrow> (\<exists>v. c # cs = p @ v) \<or> (\<exists>u v. cs = u @ p @ v)"
    by (metis append_Cons append_Nil list.exhaust list.inject)
  with Cons show ?case by (simp add: startswith_iff)
qed

lemma lower_char_idem [simp]: "lower_char (lower_char c) = lower_char c"
  by (simp add: lower_char_def code_of_def Let_def)

lemma lower_idem [simp]: "lower (lower s) = lower s"
  by (simp add: lower_def)

lemma length_lower [simp]: "length (lower s) = length s"
  by (simp add: lower_def)

text \<open>\<open>str(n)\<close> of a natural number and \<open>int(s)\<close> of a string of ASCII digits.\<close>

definition digit_char :: "nat \<Rightarrow> char" where
  "digit_char d = char_of (48 + d)"

definition digit_val :: "char \<Rightarrow> nat" where
  "digit_val c = code_of c - 48"

fun dec :: "nat \<Rightarrow> string" where
  "dec n = (if n < 10 then [digit_char n] else dec (n div 10) @ [digit_char (n mod 10)])"

declare dec.simps [simp del]

definition parse_dec :: "string \<Rightarrow> nat" where
  "parse_dec s = foldl (\<lambda>n c. 10 * n + digit_val c) 0 s"

definition dec_int :: "int \<Rightarrow> string" where
  "dec_int n = (if n < 0 then CHR ''-'' # dec (nat (- n)) else dec (nat n))"

lemma digit_val_char [simp]: "d < 10 \<Longrightarrow> digit_val (digit_char d) = d"
  by (simp add: digit_val_def digit_char_def code_of_def)

lemma digit_char_val [simp]: "is_digit c \<Longrightarrow> digit_char (digit_val c) = c"
  by (simp add: digit_val_def digit_char_def code_of_def is_digit_def)

lemma digit_val_less: "is_digit c \<Longrightarrow> digit_val c < 10"
  unfolding digit_val_def is_digit_def by linarith

lemma digit_char_0: "digit_char 0 = CHR ''0''"
  by code_simp

lemma is_digit_char [simp]: "d < 10 \<Longrightarrow> is_digit (digit_char d)"
  by (simp add: digit_char_def code_of_def is_digit_def)

lemma parse_dec_snoc [simp]: "parse_dec (s @ [c]) = 10 * parse_dec s + digit_val c"
  by (simp add: parse_dec_def)

lemma parse_dec_dec [simp]: "parse_dec (dec n) = n"
proof (induction n rule: dec.induct)
  case (1 n)
  show ?case
  proof (cases "n < 10")
    case True
    then show ?thesis by (subst dec.simps) (simp add: parse_dec_def)
  next
    case False
    with 1 show ?thesis by (subst dec.simps) simp
  qed
qed

lemma dec_digits: "list_all is_digit (dec n)"
proof (induction n rule: dec.induct)
  case (1 n)
  then show ?case by (subst dec.simps) auto
qed

lemma dec_ne [simp]: "dec n \<noteq> []"
  by (subst dec.simps) simp

text \<open>A digit string without a leading zero is the decimal notation of its value.\<close>

lemma dec_parse_dec:
  "list_all is_digit s \<Longrightarrow> s \<noteq> [] \<Longrightarrow> hd s \<noteq> digit_char 0 \<Longrightarrow>
     0 < parse_dec s \<and> dec (parse_dec s) = s"
proof (induction s rule: rev_induct)
  case (snoc c s)
  have c: "is_digit c" using snoc.prems by simp
  show ?case
  proof (cases "s = []")
    case True
    with snoc.prems c have "digit_val c \<noteq> 0" by (metis append_Nil digit_char_val list.sel(1))
    with True c show ?thesis
      by (subst dec.simps) (simp add: parse_dec_def digit_val_less)
  next
    case False
    with snoc have IH: "0 < parse_dec s" "dec (parse_dec s) = s" by auto
    have d: "digit_val c < 10" using c by (rule digit_val_less)
    have "dec (10 * parse_dec s + digit_val c) = dec (parse_dec s) @ [digit_char (digit_val c)]"
      using IH(1) d by (subst dec.simps) simp
    with IH c show ?thesis by simp
  qed
qed simp

section \<open>Lists\<close>

lemma sum_list_map_nonneg: "(\<And>x. x \<in> set xs \<Longrightarrow> 0 \<le> f x) \<Longrightarrow> 0 \<le> sum_list (map f xs)"
  for f :: "'a \<Rightarrow> real"
  by (induction xs) auto

lemma sum_list_map_divide: "sum_list (map (\<lambda>x. f x / c) xs) = sum_list (map f xs) / c"
  for f :: "'a \<Rightarrow> real"
  by (induction xs) (auto simp: add_divide_distrib)

lemma sum_list_map_diff:
  "sum_list (map (\<lambda>x. f x - g x) xs) = sum_list (map f xs) - sum_list (map g xs)"
  for f :: "'a \<Rightarrow> real"
  by (induction xs) auto

lemma sum_list_map_error:
  fixes f g :: "'a \<Rightarrow> real" and e :: real
  assumes "\<And>x. x \<in> set xs \<Longrightarrow> \<bar>f x - g x\<bar> \<le> e"
  shows "\<bar>sum_list (map f xs) - sum_list (map g xs)\<bar> \<le> real (length xs) * e"
  using assms
proof (induction xs)
  case (Cons a xs)
  have "\<bar>sum_list (map f xs) - sum_list (map g xs)\<bar> \<le> real (length xs) * e"
    by (rule Cons.IH) (simp add: Cons.prems)
  moreover have "\<bar>f a - g a\<bar> \<le> e" by (simp add: Cons.prems)
  ultimately show ?case by (simp add: algebra_simps)
qed simp

end
