(* ===== verification/Journal.thy ===== *)
theory Journal
  imports Prelude
begin

text \<open>
  \<^verbatim>\<open>analytics/pae/decision/journal.py\<close>: the decision journal's entry, its validation and the
  confidence calibration computed from completed entries.

  The annotated field types are not enforced by the dataclass: the tool layer passes JSON values
  through, and the code asks \<open>isinstance\<close> for the fields it validates. Those fields are
  \<open>pyval\<close>; the free-text fields, which no code of this module inspects, are strings.
\<close>

section \<open>Data\<close>

datatype EmotionalState = CALM | ANXIOUS | EXCITED | FEARFUL | CONFIDENT | UNCERTAIN | NEUTRAL

fun emotional_value :: "EmotionalState \<Rightarrow> string" where
  "emotional_value CALM = ''calm''"
| "emotional_value ANXIOUS = ''anxious''"
| "emotional_value EXCITED = ''excited''"
| "emotional_value FEARFUL = ''fearful''"
| "emotional_value CONFIDENT = ''confident''"
| "emotional_value UNCERTAIN = ''uncertain''"
| "emotional_value NEUTRAL = ''neutral''"

definition valid_emotional_states :: "string list" where
  "valid_emotional_states =
     map emotional_value [CALM, ANXIOUS, EXCITED, FEARFUL, CONFIDENT, UNCERTAIN, NEUTRAL]"

definition CONFIDENCE_MIN :: int where "CONFIDENCE_MIN = 1"
definition CONFIDENCE_MAX :: int where "CONFIDENCE_MAX = 10"

record decision_entry =
  entry_id :: string
  timestamp :: string
  action :: string
  symbols_affected :: "pyval list"
  rationale :: string
  alternatives_considered :: "pyval list"
  thesis :: string
  confidence :: pyval
  time_horizon :: string
  what_could_go_wrong :: string
  max_acceptable_loss_pct :: pyval
  emotional_state :: pyval
  market_context :: string
  trigger :: string
  outcome_30d :: pyval
  outcome_90d :: pyval
  outcome_180d :: pyval
  outcome_notes :: string
  was_thesis_correct :: "bool option"

text \<open>The field defaults; the generated identifier and the clock reading are arguments.\<close>

definition default_entry :: "string \<Rightarrow> string \<Rightarrow> decision_entry" where
  "default_entry eid now =
     \<lparr>entry_id = eid, timestamp = now, action = [], symbols_affected = [], rationale = [],
      alternatives_considered = [], thesis = [], confidence = VInt 5, time_horizon = [],
      what_could_go_wrong = [], max_acceptable_loss_pct = VFloat (Fin 0),
      emotional_state = VStr (emotional_value NEUTRAL), market_context = [], trigger = [],
      outcome_30d = VNone, outcome_90d = VNone, outcome_180d = VNone, outcome_notes = [],
      was_thesis_correct = None\<rparr>"

section \<open>validate_entry\<close>

datatype entry_error =
    ConfidenceNotInt
  | ConfidenceOutOfRange int
  | EmotionalStateInvalid pyval
  | LossNotNumeric
  | LossNotFinite
  | LossNegative
  | OutcomeNotNumeric string
  | OutcomeNotFinite string

definition confidence_errors :: "pyval \<Rightarrow> entry_error list" where
  "confidence_errors v =
     (if \<not> is_int v then [ConfidenceNotInt]
      else if int_of v < CONFIDENCE_MIN \<or> int_of v > CONFIDENCE_MAX
      then [ConfidenceOutOfRange (int_of v)] else [])"

text \<open>
  \<open>v not in frozenset\<close>: a list or a dict is not hashable and the test itself raises TypeError;
  any other value that is not one of the strings is simply not a member.
\<close>

fun emotional_errors :: "pyval \<Rightarrow> py_exc + entry_error list" where
  "emotional_errors (VStr s) =
     Inr (if s \<in> set valid_emotional_states then [] else [EmotionalStateInvalid (VStr s)])"
| "emotional_errors (VList _) = Inl TypeError"
| "emotional_errors (VDict _) = Inl TypeError"
| "emotional_errors v = Inr [EmotionalStateInvalid v]"

definition loss_errors :: "pyval \<Rightarrow> py_exc + entry_error list" where
  "loss_errors v =
     (if \<not> is_number v then Inr [LossNotNumeric]
      else rbind (to_float v) (\<lambda>f.
        if isnan f \<or> isinf f then Inr [LossNotFinite]
        else if fl_lt f (Fin 0) then Inr [LossNegative] else Inr []))"

definition outcome_errors :: "string \<Rightarrow> pyval \<Rightarrow> py_exc + entry_error list" where
  "outcome_errors field v =
     (if v = VNone then Inr []
      else if \<not> is_number v then Inr [OutcomeNotNumeric field]
      else rbind (to_float v) (\<lambda>f.
        if isnan f \<or> isinf f then Inr [OutcomeNotFinite field] else Inr []))"

text \<open>The loop over the three outcome fields: the values are read with \<open>getattr\<close>.\<close>

definition outcome_fields :: "decision_entry \<Rightarrow> (string \<times> pyval) list" where
  "outcome_fields e =
     [(''outcome_30d'', outcome_30d e), (''outcome_90d'', outcome_90d e),
      (''outcome_180d'', outcome_180d e)]"

definition validate_entry :: "decision_entry \<Rightarrow> py_exc + entry_error list" where
  "validate_entry e =
     rbind (emotional_errors (emotional_state e)) (\<lambda>emo.
     rbind (loss_errors (max_acceptable_loss_pct e)) (\<lambda>loss.
     rbind (traverse (\<lambda>(field, v). outcome_errors field v) (outcome_fields e)) (\<lambda>outs.
     Inr (confidence_errors (confidence e) @ emo @ loss @ concat outs))))"

section \<open>compute_calibration\<close>

record calibration_metric =
  confidence_bucket :: string
  total_decisions :: nat
  positive_outcomes :: nat
  accuracy_pct :: real

text \<open>
  The loop body. The counters of a bucket are (total, positive). The value is None when the
  entry is skipped, else the bucket's name and whether the outcome is positive; the finiteness
  test of a huge int raises OverflowError.
\<close>

definition bucket_of :: "int \<Rightarrow> string" where
  "bucket_of c = (if c \<ge> 8 then ''8-10'' else if c \<ge> 5 then ''5-7'' else ''1-4'')"

definition classify_entry :: "decision_entry \<Rightarrow> py_exc + (string \<times> bool) option" where
  "classify_entry e =
     (if outcome_90d e = VNone then Inr None
      else if \<not> is_int (confidence e) then Inr None
      else if int_of (confidence e) < CONFIDENCE_MIN \<or> int_of (confidence e) > CONFIDENCE_MAX
      then Inr None
      else if \<not> is_number (outcome_90d e) then Inr None
      else rbind (to_float (outcome_90d e)) (\<lambda>f.
        if isnan f \<or> isinf f then Inr None
        else Inr (Some (bucket_of (int_of (confidence e)), fl_lt (Fin 0) f))))"

type_synonym buckets = "(string \<times> nat \<times> nat) list"

definition empty_buckets :: buckets where
  "empty_buckets = [(''8-10'', 0, 0), (''5-7'', 0, 0), (''1-4'', 0, 0)]"

fun bump_bucket :: "string \<times> bool \<Rightarrow> buckets \<Rightarrow> buckets" where
  "bump_bucket (b, p) [] = []"
| "bump_bucket (b, p) ((name, tot, pos) # bs) =
     (if name = b then (name, tot + 1, if p then pos + 1 else pos) # bs
      else (name, tot, pos) # bump_bucket (b, p) bs)"

fun fill_buckets :: "decision_entry list \<Rightarrow> buckets \<Rightarrow> py_exc + buckets" where
  "fill_buckets [] bs = Inr bs"
| "fill_buckets (e # es) bs =
     rbind (classify_entry e) (\<lambda>r. case r of
       None \<Rightarrow> fill_buckets es bs
     | Some hit \<Rightarrow> fill_buckets es (bump_bucket hit bs))"

definition metric_of :: "string \<times> nat \<times> nat \<Rightarrow> calibration_metric" where
  "metric_of = (\<lambda>(name, tot, pos).
     \<lparr>confidence_bucket = name, total_decisions = tot, positive_outcomes = pos,
      accuracy_pct = py_round (if tot > 0 then real pos / real tot * 100 else 0) 1\<rparr>)"

datatype entries_arg = EntryList "decision_entry list" | NotAList

fun compute_calibration :: "entries_arg \<Rightarrow> py_exc + calibration_metric list" where
  "compute_calibration NotAList = Inl TypeError"
| "compute_calibration (EntryList es) =
     rbind (fill_buckets es empty_buckets) (\<lambda>bs. Inr (map metric_of bs))"

section \<open>Lemmas: validation\<close>

lemma valid_emotional_states_ne [simp]: "valid_emotional_states \<noteq> []"
  by (simp add: valid_emotional_states_def)

lemma set_valid_emotional_states: "set valid_emotional_states = range emotional_value"
proof -
  have "(UNIV :: EmotionalState set) = set [CALM, ANXIOUS, EXCITED, FEARFUL, CONFIDENT, UNCERTAIN, NEUTRAL]"
    using EmotionalState.exhaust by auto
  then show ?thesis by (simp only: valid_emotional_states_def set_map)
qed

lemma emotional_errors_Nil:
  "emotional_errors v = Inr [] \<longleftrightarrow> (\<exists>st. v = VStr (emotional_value st))"
  by (cases v rule: emotional_errors.cases) (auto simp: set_valid_emotional_states)

lemma loss_errors_Nil:
  "loss_errors v = Inr [] \<longleftrightarrow> is_number v \<and> (\<exists>x \<ge> 0. to_float v = Inr (Fin x))"
  by (cases "to_float v"; cases "projr (to_float v)")
    (auto simp: loss_errors_def not_less)

lemma outcome_errors_Nil:
  "outcome_errors k v = Inr [] \<longleftrightarrow> v = VNone \<or> (is_number v \<and> (\<exists>x. to_float v = Inr (Fin x)))"
  by (cases "to_float v"; cases "projr (to_float v)") (auto simp: outcome_errors_def)

lemma confidence_errors_Nil:
  "confidence_errors v = [] \<longleftrightarrow> is_int v \<and> 1 \<le> int_of v \<and> int_of v \<le> 10"
  by (auto simp: confidence_errors_def CONFIDENCE_MIN_def CONFIDENCE_MAX_def)

lemma validate_entry_Nil:
  "validate_entry e = Inr [] \<longleftrightarrow>
     confidence_errors (confidence e) = [] \<and>
     emotional_errors (emotional_state e) = Inr [] \<and>
     loss_errors (max_acceptable_loss_pct e) = Inr [] \<and>
     (\<forall>(k, v) \<in> set (outcome_fields e). outcome_errors k v = Inr [])"
  by (auto simp: validate_entry_def outcome_fields_def)

section \<open>Lemmas: calibration\<close>

definition bucket_total :: "buckets \<Rightarrow> nat" where
  "bucket_total bs = sum_list (map (\<lambda>(_, tot, _). tot) bs)"

definition buckets_ok :: "buckets \<Rightarrow> bool" where
  "buckets_ok bs \<longleftrightarrow> map fst bs = [''8-10'', ''5-7'', ''1-4''] \<and> (\<forall>(_, t, p) \<in> set bs. p \<le> t)"

definition counted :: "decision_entry \<Rightarrow> bool" where
  "counted e \<longleftrightarrow> (\<exists>hit. classify_entry e = Inr (Some hit))"

lemma bucket_of_mem: "bucket_of c \<in> {''8-10'', ''5-7'', ''1-4''}"
  by (simp add: bucket_of_def)

lemma map_fst_bump [simp]: "map fst (bump_bucket hit bs) = map fst bs"
  by (induction hit bs rule: bump_bucket.induct) auto

lemma bump_pos_le:
  "\<forall>(_, t, p) \<in> set bs. p \<le> t \<Longrightarrow> \<forall>(_, t, p) \<in> set (bump_bucket hit bs). p \<le> t"
  by (induction hit bs rule: bump_bucket.induct) auto

lemma buckets_ok_bump [wf_intros]: "buckets_ok bs \<Longrightarrow> buckets_ok (bump_bucket hit bs)"
  using bump_pos_le [of bs hit] by (simp add: buckets_ok_def)

lemma bucket_total_bump:
  "fst hit \<in> fst ` set bs \<Longrightarrow> bucket_total (bump_bucket hit bs) = Suc (bucket_total bs)"
  by (induction hit bs rule: bump_bucket.induct) (auto simp: bucket_total_def)

lemma classify_entry_bucket:
  "classify_entry e = Inr (Some (b, p)) \<Longrightarrow> b \<in> {''8-10'', ''5-7'', ''1-4''}"
  using bucket_of_mem by (auto simp: classify_entry_def split: if_splits)

lemma fill_buckets_ok:
  "fill_buckets es bs = Inr bs' \<Longrightarrow> buckets_ok bs \<Longrightarrow>
     buckets_ok bs' \<and> bucket_total bs' = bucket_total bs + length (filter counted es)"
proof (induction es arbitrary: bs)
  case (Cons e es)
  from Cons.prems(1) obtain r where r: "classify_entry e = Inr r" by auto
  show ?case
  proof (cases r)
    case None
    with Cons r show ?thesis by (auto simp: counted_def)
  next
    case (Some hit)
    with r have "fst hit \<in> {''8-10'', ''5-7'', ''1-4''}"
      using classify_entry_bucket [of e "fst hit" "snd hit"] by simp
    also have "\<dots> = fst ` set bs"
      using arg_cong [where f = set, of _ _, OF conjunct1 [OF Cons.prems(2) [unfolded buckets_ok_def]]]
      by simp
    finally have "bucket_total (bump_bucket hit bs) = Suc (bucket_total bs)"
      by (rule bucket_total_bump)
    moreover have "counted e" using r Some by (auto simp: counted_def)
    moreover have "fill_buckets es (bump_bucket hit bs) = Inr bs'" using Cons.prems(1) r Some by simp
    moreover have "buckets_ok (bump_bucket hit bs)" using Cons.prems(2) by (rule wf_intros)
    ultimately show ?thesis using Cons.IH [of "bump_bucket hit bs"] by simp
  qed
qed simp

lemma metric_of_bounds:
  assumes "p \<le> t"
  shows "0 \<le> accuracy_pct (metric_of (b, t, p))" and "accuracy_pct (metric_of (b, t, p)) \<le> 100"
proof -
  let ?a = "if t > 0 then real p / real t * 100 else 0"
  have "0 \<le> ?a" and "?a \<le> 100" using assms by (auto simp: divide_le_eq)
  then have "0 \<le> py_round ?a 1" and "py_round ?a 1 \<le> py_round 100 1"
    by (blast intro: py_round_nonneg, blast intro: py_round_mono)
  moreover have "accuracy_pct (metric_of (b, t, p)) = py_round ?a 1" by (simp add: metric_of_def)
  ultimately show "0 \<le> accuracy_pct (metric_of (b, t, p))"
    and "accuracy_pct (metric_of (b, t, p)) \<le> 100"
    by (simp_all only: py_round_numeral)
qed

section \<open>Properties\<close>

text \<open>C31: an entry passes validation exactly when its confidence is an int (a bool counts as one)
  in 1..10, its emotional state is one of the seven recognised strings, its acceptable loss is a
  finite non-negative number and each recorded outcome is None or a finite number.\<close>

theorem validate_entry_accepts_iff:
  "validate_entry e = Inr [] \<longleftrightarrow>
     is_int (confidence e) \<and> 1 \<le> int_of (confidence e) \<and> int_of (confidence e) \<le> 10 \<and>
     (\<exists>st. emotional_state e = VStr (emotional_value st)) \<and>
     is_number (max_acceptable_loss_pct e) \<and>
     (\<exists>x \<ge> 0. to_float (max_acceptable_loss_pct e) = Inr (Fin x)) \<and>
     (\<forall>v \<in> {outcome_30d e, outcome_90d e, outcome_180d e}.
        v = VNone \<or> (is_number v \<and> (\<exists>x. to_float v = Inr (Fin x))))"
  by (auto simp: validate_entry_Nil emotional_errors_Nil loss_errors_Nil outcome_errors_Nil
      confidence_errors_Nil outcome_fields_def)

theorem validate_entry_accepts_iff_witness:
  "\<exists>x \<ge> 0. to_float (max_acceptable_loss_pct (default_entry ''a1'' ''t'')) = Inr (Fin x)"
proof -
  have "validate_entry (default_entry ''a1'' ''t'') = Inr []"
    by (simp add: validate_entry_Nil confidence_errors_Nil loss_errors_def outcome_errors_def
        outcome_fields_def default_entry_def set_valid_emotional_states del: emotional_value.simps)
  then show ?thesis by (simp only: validate_entry_accepts_iff)
qed

text \<open>Calibration reports the three buckets in the order high, medium, low; every entry that is
  not skipped is counted in exactly one of them, the positive outcomes of a bucket never exceed
  its total, and the reported accuracy lies between 0 and 100.\<close>

lemma compute_calibration_sound:
  assumes "compute_calibration (EntryList es) = Inr ms"
  shows "map confidence_bucket ms = [''8-10'', ''5-7'', ''1-4''] \<and>
    sum_list (map total_decisions ms) = length (filter counted es) \<and>
    (\<forall>m \<in> set ms. positive_outcomes m \<le> total_decisions m \<and>
       0 \<le> accuracy_pct m \<and> accuracy_pct m \<le> 100)"
proof -
  from assms obtain bs where bs: "fill_buckets es empty_buckets = Inr bs" and ms: "ms = map metric_of bs"
    by auto
  have "buckets_ok empty_buckets" and "bucket_total empty_buckets = 0"
    by (auto simp: buckets_ok_def empty_buckets_def bucket_total_def)
  with fill_buckets_ok [OF bs] have ok: "buckets_ok bs"
    and total: "bucket_total bs = length (filter counted es)" by auto
  have "map confidence_bucket ms = map fst bs" and
      "map total_decisions ms = map (\<lambda>(_, t, _). t) bs"
    by (auto simp: ms metric_of_def split: prod.splits)
  moreover have "\<forall>m \<in> set ms. positive_outcomes m \<le> total_decisions m \<and>
       0 \<le> accuracy_pct m \<and> accuracy_pct m \<le> 100"
    using ok metric_of_bounds by (fastforce simp: ms buckets_ok_def metric_of_def)
  ultimately show ?thesis
    using ok total by (simp add: buckets_ok_def bucket_total_def)
qed

definition sample_entry :: decision_entry where
  "sample_entry = (default_entry ''a1'' ''t'')\<lparr>confidence := VInt 9, outcome_90d := VFloat (Fin (1/2))\<rparr>"

lemma calibration_sample:
  "compute_calibration (EntryList [sample_entry]) =
     Inr [metric_of (''8-10'', 1, 1), metric_of (''5-7'', 0, 0), metric_of (''1-4'', 0, 0)]"
  by (simp add: sample_entry_def default_entry_def classify_entry_def CONFIDENCE_MIN_def
      CONFIDENCE_MAX_def bucket_of_def empty_buckets_def)

lemma compute_calibration_sound_witness:
  "sum_list (map total_decisions
     [metric_of (''8-10'', 1, 1), metric_of (''5-7'', 0, 0), metric_of (''1-4'', 0, 0)]) =
   length (filter counted [sample_entry])"
  using compute_calibration_sound [OF calibration_sample] by blast

text \<open>An entry that passes validation and has a 90-day outcome is always counted by the
  calibration (and never raises there): validation is strong enough for calibration.\<close>

lemma validated_entry_is_counted:
  assumes "validate_entry e = Inr []" and "outcome_90d e \<noteq> VNone"
  shows "counted e"
proof -
  from assms obtain x where "is_number (outcome_90d e)" and "to_float (outcome_90d e) = Inr (Fin x)"
    by (auto simp: validate_entry_Nil outcome_errors_Nil outcome_fields_def)
  with assms show ?thesis
    by (simp add: validate_entry_Nil confidence_errors_Nil counted_def classify_entry_def
        CONFIDENCE_MIN_def CONFIDENCE_MAX_def)
qed

lemma validated_entry_is_counted_witness:
  "validate_entry sample_entry = Inr [] \<and> counted sample_entry"
proof -
  have v: "validate_entry sample_entry = Inr []"
    by (simp add: validate_entry_Nil confidence_errors_Nil loss_errors_def outcome_errors_def
        outcome_fields_def sample_entry_def default_entry_def set_valid_emotional_states
        del: emotional_value.simps)
  moreover have "outcome_90d sample_entry \<noteq> VNone" by (simp add: sample_entry_def)
  ultimately show ?thesis using validated_entry_is_counted by blast
qed

text \<open>Validation is not total: an acceptable loss given as an int too large for a double makes
  the finiteness test raise OverflowError, so no list of messages is returned.\<close>

lemma validate_entry_overflow:
  "float_limit \<le> n \<Longrightarrow>
     validate_entry ((default_entry i t)\<lparr>max_acceptable_loss_pct := VInt n\<rparr>) = Inl OverflowError"
  by (auto simp: validate_entry_def default_entry_def loss_errors_def)

lemma validate_entry_overflow_witness:
  "validate_entry ((default_entry [] [])\<lparr>max_acceptable_loss_pct := VInt (2 ^ 1024)\<rparr>) =
     Inl OverflowError"
  by (rule validate_entry_overflow) (simp add: float_limit_def)

end
