(* ===== verification/Brinson.thy ===== *)
theory Brinson
  imports Prelude
begin

text \<open>
  \<^verbatim>\<open>analytics/pae/models/brinson.py\<close>: validation of the two segment lists and the
  Brinson-Hood-Beebower attribution. Segments are dynamically typed dicts, as the code receives
  them; every raise of the validation is a constructor of \<open>brinson_exc\<close>.
\<close>

section \<open>Validation\<close>

definition WEIGHT_SUM_TOLERANCE :: real where "WEIGHT_SUM_TOLERANCE = 1 / 10 ^ 6"

datatype brinson_exc =
    EmptySegments string
  | NotADict string nat
  | MissingName string nat
  | DuplicatedName string string
  | MissingKey string string string
  | NonNumeric string string string pyval
  | WeightOutside string string real
  | WeightSum string real
  | Raised py_exc

definition check_number ::
  "string \<Rightarrow> string \<Rightarrow> (string \<times> pyval) list \<Rightarrow> string \<Rightarrow> brinson_exc + real" where
  "check_number side name d key =
     (case dict_get d key of
        None \<Rightarrow> Inl (MissingKey side name key)
      | Some v \<Rightarrow>
          if is_bool v \<or> \<not> is_number v then Inl (NonNumeric side name key v)
          else case to_float v of
              Inl e \<Rightarrow> Inl (Raised e)
            | Inr f \<Rightarrow> if \<not> is_finite f then Inl (NonNumeric side name key v)
                       else Inr (the_fin f))"

text \<open>A present string value, the test of \<open>isinstance(name, str)\<close> on \<open>seg.get("segment")\<close>.\<close>

fun str_of :: "pyval option \<Rightarrow> string option" where
  "str_of (Some (VStr s)) = Some s"
| "str_of _ = None"

definition check_segment ::
  "string \<Rightarrow> nat \<Rightarrow> string list \<Rightarrow> pyval \<Rightarrow> brinson_exc + string \<times> real" where
  "check_segment side i names seg =
     (case seg of
        VDict d \<Rightarrow>
          (case str_of (dict_get d ''segment'') of
             None \<Rightarrow> Inl (MissingName side i)
           | Some name \<Rightarrow>
               if blank name then Inl (MissingName side i)
               else if name \<in> set names then Inl (DuplicatedName side name)
               else rbind (check_number side name d ''weight'') (\<lambda>w.
                    rbind (check_number side name d ''return'') (\<lambda>_.
                    if w < 0 \<or> w > 1 then Inl (WeightOutside side name w)
                    else Inr (name, w))))
      | _ \<Rightarrow> Inl (NotADict side i))"

fun validate_from ::
  "string \<Rightarrow> nat \<Rightarrow> string list \<Rightarrow> real \<Rightarrow> pyval list \<Rightarrow> brinson_exc + real" where
  "validate_from side i names wsum [] = Inr wsum"
| "validate_from side i names wsum (seg # segs) =
     rbind (check_segment side i names seg) (\<lambda>(name, w).
       validate_from side (Suc i) (name # names) (wsum + w) segs)"

definition validate_segments :: "pyval list \<Rightarrow> string \<Rightarrow> brinson_exc + unit" where
  "validate_segments segs side =
     (if segs = [] then Inl (EmptySegments side)
      else rbind (validate_from side 0 [] 0 segs) (\<lambda>wsum.
        if \<bar>wsum - 1\<bar> > WEIGHT_SUM_TOLERANCE then Inl (WeightSum side wsum) else Inr ()))"

section \<open>Attribution\<close>

record segment_attribution =
  segment :: string
  portfolio_weight :: real
  benchmark_weight :: real
  portfolio_return :: real
  benchmark_return :: real
  allocation_effect :: real
  selection_effect :: real
  interaction_effect :: real
  active_contribution :: real

record brinson_attribution =
  total_portfolio_return :: real
  total_benchmark_return :: real
  active_return :: real
  total_allocation :: real
  total_selection :: real
  total_interaction :: real
  segments :: "segment_attribution list"

text \<open>
  \<open>s["segment"]\<close>, \<open>float(s["weight"])\<close> and \<open>float(s["return"])\<close>; read after validation only, which
  guarantees the keys and their types.
\<close>

definition read_number :: "pyval \<Rightarrow> string \<Rightarrow> real" where
  "read_number seg key =
     (case seg of
        VDict d \<Rightarrow>
          (case dict_get d key of
             Some v \<Rightarrow> (case to_float v of Inr f \<Rightarrow> the_fin f | Inl _ \<Rightarrow> 0)
           | None \<Rightarrow> 0)
      | _ \<Rightarrow> 0)"

definition seg_name :: "pyval \<Rightarrow> string" where
  "seg_name seg =
     (case seg of
        VDict d \<Rightarrow> (case str_of (dict_get d ''segment'') of Some name \<Rightarrow> name | None \<Rightarrow> [])
      | _ \<Rightarrow> [])"

type_synonym seg_table = "(string \<times> real \<times> real) list"

definition by_name :: "pyval list \<Rightarrow> seg_table" where
  "by_name segs = map (\<lambda>s. (seg_name s, read_number s ''weight'', read_number s ''return'')) segs"

definition weighted_total :: "seg_table \<Rightarrow> real" where
  "weighted_total t = sum_list (map (\<lambda>(_, w, r). w * r) t)"

definition all_names :: "seg_table \<Rightarrow> seg_table \<Rightarrow> string list" where
  "all_names p b = map fst p @ filter (\<lambda>n. map_of p n = None) (map fst b)"

definition attribute_segment :: "seg_table \<Rightarrow> seg_table \<Rightarrow> string \<Rightarrow> segment_attribution" where
  "attribute_segment p b name =
     (let p_total = weighted_total p;
          b_total = weighted_total b;
          (w_p, r_p) = (case map_of p name of Some x \<Rightarrow> x | None \<Rightarrow> (0, p_total));
          (w_b, r_b) = (case map_of b name of Some x \<Rightarrow> x | None \<Rightarrow> (0, b_total));
          allocation = (w_p - w_b) * (r_b - b_total);
          selection = w_b * (r_p - r_b);
          interaction = (w_p - w_b) * (r_p - r_b)
      in \<lparr>segment = name, portfolio_weight = w_p, benchmark_weight = w_b,
          portfolio_return = r_p, benchmark_return = r_b,
          allocation_effect = allocation, selection_effect = selection,
          interaction_effect = interaction,
          active_contribution = allocation + selection + interaction\<rparr>)"

definition attribute_tables :: "seg_table \<Rightarrow> seg_table \<Rightarrow> brinson_attribution" where
  "attribute_tables p b =
     (let segs = map (attribute_segment p b) (all_names p b)
      in \<lparr>total_portfolio_return = weighted_total p,
          total_benchmark_return = weighted_total b,
          active_return = weighted_total p - weighted_total b,
          total_allocation = sum_list (map allocation_effect segs),
          total_selection = sum_list (map selection_effect segs),
          total_interaction = sum_list (map interaction_effect segs),
          segments = segs\<rparr>)"

definition attribute :: "pyval list \<Rightarrow> pyval list \<Rightarrow> brinson_exc + brinson_attribution" where
  "attribute ps bs =
     rbind (validate_segments ps ''portfolio'') (\<lambda>_.
     rbind (validate_segments bs ''benchmark'') (\<lambda>_.
     Inr (attribute_tables (by_name ps) (by_name bs))))"

section \<open>Lemmas: validation\<close>

text \<open>What a validated segment looks like.\<close>

definition good_number :: "pyval \<Rightarrow> bool" where
  "good_number v \<longleftrightarrow> is_number v \<and> \<not> is_bool v \<and> (\<exists>x. to_float v = Inr (Fin x))"

definition good_segment :: "pyval \<Rightarrow> bool" where
  "good_segment seg \<longleftrightarrow> (\<exists>d name w r. seg = VDict d \<and>
     str_of (dict_get d ''segment'') = Some name \<and> \<not> blank name \<and>
     dict_get d ''weight'' = Some w \<and> good_number w \<and>
     dict_get d ''return'' = Some r \<and> good_number r \<and>
     0 \<le> read_number seg ''weight'' \<and> read_number seg ''weight'' \<le> 1)"

lemma check_number_Inr:
  "check_number side name d key = Inr x \<longleftrightarrow>
     (\<exists>v. dict_get d key = Some v \<and> good_number v \<and> to_float v = Inr (Fin x))"
  by (auto simp: check_number_def good_number_def is_finite_iff split: option.splits sum.splits
      if_splits)

lemma check_segment_Inr:
  "check_segment side i names seg = Inr (name, w) \<longleftrightarrow>
     good_segment seg \<and> name = seg_name seg \<and> w = read_number seg ''weight'' \<and>
     name \<notin> set names"
proof (cases seg)
  case (VDict d)
  show ?thesis
  proof (cases "str_of (dict_get d ''segment'')")
    case None
    then show ?thesis by (simp add: check_segment_def good_segment_def VDict)
  next
    case (Some n)
    then show ?thesis
      by (auto simp: check_segment_def good_segment_def VDict seg_name_def read_number_def
          check_number_Inr good_number_def) (rule exI [where x = w], simp)
  qed
qed (auto simp: check_segment_def good_segment_def)

lemma validate_from_Inr:
  "validate_from side i names acc segs = Inr s \<longleftrightarrow>
     list_all good_segment segs \<and> distinct (map seg_name segs) \<and>
     set (map seg_name segs) \<inter> set names = {} \<and>
     s = acc + sum_list (map (\<lambda>g. read_number g ''weight'') segs)"
proof (induction segs arbitrary: i names acc)
  case (Cons g gs)
  have "validate_from side i names acc (g # gs) = Inr s \<longleftrightarrow>
      (\<exists>name w. check_segment side i names g = Inr (name, w) \<and>
         validate_from side (Suc i) (name # names) (acc + w) gs = Inr s)"
    by (auto split: prod.splits)
  then show ?case by (simp add: check_segment_Inr Cons.IH) (auto simp: algebra_simps)
qed auto

lemma validate_segments_Inr:
  "validate_segments segs side = Inr u \<longleftrightarrow>
     segs \<noteq> [] \<and> list_all good_segment segs \<and> distinct (map seg_name segs) \<and>
     \<bar>sum_list (map (\<lambda>g. read_number g ''weight'') segs) - 1\<bar> \<le> WEIGHT_SUM_TOLERANCE"
  by (auto simp: validate_segments_def validate_from_Inr)

lemma map_fst_by_name: "map fst (by_name segs) = map seg_name segs"
  by (simp add: by_name_def comp_def)

definition total_weight :: "seg_table \<Rightarrow> real" where
  "total_weight t = sum_list (map (\<lambda>(_, w, _). w) t)"

lemma total_weight_by_name:
  "total_weight (by_name segs) = sum_list (map (\<lambda>g. read_number g ''weight'') segs)"
  by (simp add: total_weight_def by_name_def comp_def)

lemmas attribute_Inr = attribute_def validate_segments_Inr map_fst_by_name total_weight_by_name

section \<open>Lemmas: attribution\<close>

lemma distinct_all_names:
  "distinct (map fst p) \<Longrightarrow> distinct (map fst b) \<Longrightarrow> distinct (all_names p b)"
  by (auto simp: all_names_def map_of_eq_None_iff)

lemma set_all_names: "set (all_names p b) = fst ` set p \<union> fst ` set b"
  by (auto simp: all_names_def map_of_eq_None_iff)

text \<open>A sum over the table is a sum over the names, the absent ones counting zero.\<close>

lemma sum_table:
  fixes f :: "'b \<Rightarrow> real"
  assumes "distinct (map fst t)" and "finite A" and "fst ` set t \<subseteq> A"
  shows "(\<Sum>n\<in>A. case map_of t n of Some x \<Rightarrow> f x | None \<Rightarrow> 0) = sum_list (map (f \<circ> snd) t)"
    (is "sum ?g A = _")
proof -
  have "\<forall>n \<in> A - fst ` set t. ?g n = 0"
    by (metis DiffE map_of_eq_None_iff option.simps(4))
  with assms have "sum ?g A = sum ?g (fst ` set t)"
    by (intro sum.mono_neutral_right) auto
  also have "\<dots> = sum_list (map (?g \<circ> fst) t)"
    using assms(1) by (metis (no_types, lifting) list.map_comp list.set_map sum_list_distinct_conv_sum_set)
  also have "map (?g \<circ> fst) t = map (f \<circ> snd) t"
    using assms(1) by (auto simp: map_of_eq_Some_iff split: option.splits dest: eq_key_imp_eq_value)
  finally show ?thesis .
qed

definition p_of :: "seg_table \<Rightarrow> string \<Rightarrow> real \<times> real" where
  "p_of t n = (case map_of t n of Some x \<Rightarrow> x | None \<Rightarrow> (0, weighted_total t))"

lemma attribute_segment_effects:
  "allocation_effect (attribute_segment p b n) =
     (fst (p_of p n) - fst (p_of b n)) * (snd (p_of b n) - weighted_total b)"
  "selection_effect (attribute_segment p b n) =
     fst (p_of b n) * (snd (p_of p n) - snd (p_of b n))"
  "interaction_effect (attribute_segment p b n) =
     (fst (p_of p n) - fst (p_of b n)) * (snd (p_of p n) - snd (p_of b n))"
  "segment (attribute_segment p b n) = n"
  "portfolio_weight (attribute_segment p b n) = fst (p_of p n)"
  "benchmark_weight (attribute_segment p b n) = fst (p_of b n)"
  "active_contribution (attribute_segment p b n) =
     allocation_effect (attribute_segment p b n) + selection_effect (attribute_segment p b n) +
     interaction_effect (attribute_segment p b n)"
  by (simp_all add: attribute_segment_def p_of_def Let_def split: prod.splits)

lemma attribute_segment_total:
  "active_contribution (attribute_segment p b n) =
     fst (p_of p n) * snd (p_of p n) - fst (p_of b n) * snd (p_of b n)
     - weighted_total b * (fst (p_of p n) - fst (p_of b n))"
  by (simp add: attribute_segment_effects algebra_simps)

lemma sum_weights:
  assumes "distinct (map fst t)" and "finite A" and "fst ` set t \<subseteq> A"
  shows "(\<Sum>n\<in>A. fst (p_of t n)) = total_weight t"
    and "(\<Sum>n\<in>A. fst (p_of t n) * snd (p_of t n)) = weighted_total t"
proof -
  have "(\<Sum>n\<in>A. fst (p_of t n)) = (\<Sum>n\<in>A. case map_of t n of Some x \<Rightarrow> fst x | None \<Rightarrow> 0)"
    by (rule sum.cong) (auto simp: p_of_def split: option.splits)
  then show "(\<Sum>n\<in>A. fst (p_of t n)) = total_weight t"
    by (simp add: sum_table [OF assms] total_weight_def comp_def case_prod_unfold)
  have "(\<Sum>n\<in>A. fst (p_of t n) * snd (p_of t n)) =
      (\<Sum>n\<in>A. case map_of t n of Some x \<Rightarrow> fst x * snd x | None \<Rightarrow> 0)"
    by (rule sum.cong) (auto simp: p_of_def split: option.splits)
  then show "(\<Sum>n\<in>A. fst (p_of t n) * snd (p_of t n)) = weighted_total t"
    by (simp add: sum_table [OF assms] weighted_total_def comp_def case_prod_unfold)
qed

lemma sum_contributions:
  assumes "distinct (map fst p)" and "distinct (map fst b)"
  shows "sum_list (map active_contribution (segments (attribute_tables p b))) =
    weighted_total p - weighted_total b - weighted_total b * (total_weight p - total_weight b)"
proof -
  let ?A = "set (all_names p b)"
  have A: "finite ?A" "fst ` set p \<subseteq> ?A" "fst ` set b \<subseteq> ?A" by (auto simp: set_all_names)
  have "sum_list (map active_contribution (segments (attribute_tables p b))) =
      (\<Sum>n\<in>?A. active_contribution (attribute_segment p b n))"
    using distinct_all_names [OF assms]
    by (simp add: attribute_tables_def comp_def sum_list_distinct_conv_sum_set)
  also have "\<dots> = weighted_total p - weighted_total b
      - weighted_total b * (total_weight p - total_weight b)"
    using sum_weights [OF assms(1) A(1,2)] sum_weights [OF assms(2) A(1,3)]
    by (simp add: attribute_segment_total sum_subtractf flip: sum_distrib_left)
  finally show ?thesis .
qed

lemma totals_are_contributions:
  "total_allocation r + total_selection r + total_interaction r =
     sum_list (map active_contribution (segments r))" if "r = attribute_tables p b"
proof -
  have "sum_list (map active_contribution (map (attribute_segment p b) ns)) =
      sum_list (map allocation_effect (map (attribute_segment p b) ns)) +
      sum_list (map selection_effect (map (attribute_segment p b) ns)) +
      sum_list (map interaction_effect (map (attribute_segment p b) ns))" for ns
    by (induction ns) (simp_all add: attribute_segment_effects(7))
  then show ?thesis using that by (simp add: attribute_tables_def Let_def)
qed

section \<open>Properties\<close>

text \<open>Attribution succeeds exactly when each side is a non-empty list of well-formed segments
  with pairwise distinct names, weights in [0, 1] and a weight sum within the tolerance of one.\<close>

lemma attribute_succeeds_iff:
  "(\<exists>r. attribute ps bs = Inr r) \<longleftrightarrow>
     (\<forall>side \<in> {ps, bs}. side \<noteq> [] \<and> list_all good_segment side \<and>
        distinct (map seg_name side) \<and>
        \<bar>sum_list (map (\<lambda>g. read_number g ''weight'') side) - 1\<bar> \<le> WEIGHT_SUM_TOLERANCE)"
  by (auto simp: attribute_def validate_segments_Inr)

definition sample_segment :: "string \<Rightarrow> real \<Rightarrow> real \<Rightarrow> pyval" where
  "sample_segment n w r = VDict [(''segment'', VStr n), (''weight'', VFloat (Fin w)),
     (''return'', VFloat (Fin r))]"

lemma sample_segment [simp]:
  "seg_name (sample_segment n w r) = n"
  "read_number (sample_segment n w r) ''weight'' = w"
  "read_number (sample_segment n w r) ''return'' = r"
  "good_segment (sample_segment n w r) \<longleftrightarrow> \<not> blank n \<and> 0 \<le> w \<and> w \<le> 1"
  by (auto simp: sample_segment_def seg_name_def read_number_def good_segment_def good_number_def
      dict_get_def)

definition sample_p :: "pyval list" where
  "sample_p = [sample_segment ''eq'' (3/4) (1/10), sample_segment ''new'' (1/4) (1/5)]"

definition sample_b :: "pyval list" where
  "sample_b = [sample_segment ''eq'' (1/2) (1/20), sample_segment ''bond'' (1/2) (1/50)]"

definition sample_attribution :: brinson_attribution where
  "sample_attribution = attribute_tables (by_name sample_p) (by_name sample_b)"

lemma sample_valid: "attribute sample_p sample_b = Inr sample_attribution"
proof -
  have "validate_segments sample_p side = Inr ()" and "validate_segments sample_b side = Inr ()" for side
    by (simp_all add: validate_segments_Inr, simp_all add: sample_p_def sample_b_def blank_iff
        is_ws_def code_of_def WEIGHT_SUM_TOLERANCE_def)
  then show ?thesis by (simp add: attribute_def sample_attribution_def)
qed

lemma attribute_succeeds_iff_witness:
  "sample_p \<noteq> [] \<and> distinct (map seg_name sample_p)"
  using attribute_succeeds_iff [of sample_p sample_b] sample_valid by simp

text \<open>C29: the three effects add up to the active return, less the benchmark's return times the
  difference of the two weight sums: the identity is exact when both sides' weights have the
  same sum.\<close>

theorem effects_sum_to_active_return:
  assumes "attribute ps bs = Inr r"
  shows "total_allocation r + total_selection r + total_interaction r =
    active_return r - total_benchmark_return r *
      (sum_list (map (\<lambda>g. read_number g ''weight'') ps) -
       sum_list (map (\<lambda>g. read_number g ''weight'') bs))"
proof -
  from assms have r: "r = attribute_tables (by_name ps) (by_name bs)"
    and "distinct (map fst (by_name ps))" and "distinct (map fst (by_name bs))"
    by (auto simp: attribute_Inr)
  then show ?thesis
    using totals_are_contributions [OF r] sum_contributions [of "by_name ps" "by_name bs"]
    by (simp add: total_weight_by_name) (simp add: attribute_tables_def)
qed

theorem effects_sum_to_active_return_witness:
  "total_allocation sample_attribution + total_selection sample_attribution +
     total_interaction sample_attribution = active_return sample_attribution"
  using effects_sum_to_active_return [OF sample_valid] by (simp add: sample_p_def sample_b_def)

text \<open>On validated input the effects miss the active return by at most twice the weight-sum
  tolerance times the benchmark's return.\<close>

lemma effects_residual_bound:
  assumes "attribute ps bs = Inr r"
  shows "\<bar>active_return r - (total_allocation r + total_selection r + total_interaction r)\<bar>
    \<le> 2 * WEIGHT_SUM_TOLERANCE * \<bar>total_benchmark_return r\<bar>"
proof -
  let ?s = "\<lambda>gs. sum_list (map (\<lambda>g. read_number g ''weight'') gs)"
  from assms have "\<bar>?s ps - 1\<bar> \<le> WEIGHT_SUM_TOLERANCE" and "\<bar>?s bs - 1\<bar> \<le> WEIGHT_SUM_TOLERANCE"
    by (auto simp: attribute_Inr)
  then have "\<bar>?s ps - ?s bs\<bar> \<le> 2 * WEIGHT_SUM_TOLERANCE" by linarith
  then have "\<bar>?s ps - ?s bs\<bar> * \<bar>total_benchmark_return r\<bar> \<le>
      2 * WEIGHT_SUM_TOLERANCE * \<bar>total_benchmark_return r\<bar>"
    by (rule mult_right_mono) simp
  moreover have "active_return r - (total_allocation r + total_selection r + total_interaction r) =
      total_benchmark_return r * (?s ps - ?s bs)"
    using totals_are_contributions sum_contributions assms
    by (auto simp: attribute_Inr total_weight_by_name) (simp add: attribute_tables_def)
  ultimately show ?thesis by (simp add: abs_mult mult.commute)
qed

lemma effects_residual_bound_witness:
  "\<bar>active_return sample_attribution - (total_allocation sample_attribution +
      total_selection sample_attribution + total_interaction sample_attribution)\<bar>
    \<le> 2 * WEIGHT_SUM_TOLERANCE * \<bar>total_benchmark_return sample_attribution\<bar>"
  using effects_residual_bound [OF sample_valid] by simp

text \<open>Every segment of either side is attributed exactly once.\<close>

lemma attribution_covers_segments:
  assumes "attribute ps bs = Inr r"
  shows "distinct (map segment (segments r)) \<and>
    set (map segment (segments r)) = seg_name ` set ps \<union> seg_name ` set bs"
proof -
  from assms have r: "r = attribute_tables (by_name ps) (by_name bs)"
    and d: "distinct (map fst (by_name ps))" "distinct (map fst (by_name bs))"
    by (auto simp: attribute_Inr)
  have "map segment (segments r) = all_names (by_name ps) (by_name bs)"
    by (simp add: r attribute_tables_def comp_def attribute_segment_effects)
  moreover have "fst ` set (by_name gs) = seg_name ` set gs" for gs
    by (metis list.set_map map_fst_by_name)
  ultimately show ?thesis using distinct_all_names [OF d] by (simp add: set_all_names)
qed

lemma attribution_covers_segments_witness:
  "distinct (map segment (segments sample_attribution))"
  using attribution_covers_segments [OF sample_valid] by simp

text \<open>A segment only the portfolio holds has no allocation and no selection effect, and an
  interaction effect equal to its weight times its excess over the benchmark's total; a segment
  only the benchmark holds has selection and interaction effects that cancel.\<close>

lemma one_sided_segment_effects:
  "(map_of b n = None \<longrightarrow> map_of p n = Some (w, x) \<longrightarrow>
      allocation_effect (attribute_segment p b n) = 0 \<and>
      selection_effect (attribute_segment p b n) = 0 \<and>
      interaction_effect (attribute_segment p b n) = w * (x - weighted_total b)) \<and>
   (map_of p n = None \<longrightarrow> map_of b n = Some (w, x) \<longrightarrow>
      selection_effect (attribute_segment p b n) = w * (weighted_total p - x) \<and>
      interaction_effect (attribute_segment p b n) = - (w * (weighted_total p - x)))"
  by (auto simp: attribute_segment_effects p_of_def)

lemma one_sided_segment_effects_witness:
  "interaction_effect (attribute_segment [(''new'', 1, 1/5)] [(''bond'', 1, 1/50)] ''new'') = 9/50"
proof -
  have "weighted_total [(''bond'', 1, 1/50)] = 1/50" by (simp add: weighted_total_def)
  then show ?thesis
    using one_sided_segment_effects [of "[(''bond'', 1, 1/50)]" "''new''" "[(''new'', 1, 1/5)]" 1 "1/5"]
    by simp
qed

end
