(* ===== verification/Carry.thy ===== *)
theory Carry
  imports Prelude
begin

text \<open>
  \<^verbatim>\<open>analytics/pae/models/carry.py\<close>: validation of the holdings and of the margin parameters, and
  the carry analysis of a leveraged portfolio. A holding is a dict with dynamically typed values;
  the two margin parameters are floats. Every raise is a constructor of \<open>carry_exc\<close> (with the index
  of the holding it concerns).
\<close>

section \<open>Validation\<close>

datatype carry_exc =
    EmptyHoldings
  | MissingSymbol nat
  | MissingMarketValue nat
  | InvalidMarketValue nat
  | NegativeMarketValue nat
  | InvalidYield nat
  | InvalidMargin
  | NegativeMargin
  | InvalidRate
  | NegativeRate
  | CarryRaised py_exc

type_synonym holding_dict = "(string \<times> pyval) list"

text \<open>\<open>str(v).strip()\<close> is empty for a blank string only: every other value prints as some text.\<close>

fun blank_str_of :: "pyval \<Rightarrow> bool" where
  "blank_str_of (VStr s) = blank s"
| "blank_str_of _ = False"

definition get_yield :: "holding_dict \<Rightarrow> pyval" where
  "get_yield h = (case dict_get h ''yield_pct'' of Some v \<Rightarrow> v | None \<Rightarrow> VFloat (Fin 0))"

definition check_holding :: "nat \<Rightarrow> holding_dict \<Rightarrow> carry_exc + unit" where
  "check_holding i h =
     (case dict_get h ''symbol'' of
        None \<Rightarrow> Inl (MissingSymbol i)
      | Some sy \<Rightarrow>
          if blank_str_of sy then Inl (MissingSymbol i)
          else case dict_get h ''market_value'' of
              None \<Rightarrow> Inl (MissingMarketValue i)
            | Some mv \<Rightarrow>
                if \<not> is_number mv then Inl (InvalidMarketValue i)
                else case to_float mv of
                    Inl e \<Rightarrow> Inl (CarryRaised e)
                  | Inr f \<Rightarrow>
                      if isnan f \<or> isinf f then Inl (InvalidMarketValue i)
                      else if fl_lt f (Fin 0) then Inl (NegativeMarketValue i)
                      else if is_number (get_yield h)
                      then (case to_float (get_yield h) of
                              Inl e \<Rightarrow> Inl (CarryRaised e)
                            | Inr y \<Rightarrow> if isnan y \<or> isinf y then Inl (InvalidYield i) else Inr ())
                      else Inr ())"

fun check_holdings :: "nat \<Rightarrow> holding_dict list \<Rightarrow> carry_exc + unit" where
  "check_holdings i [] = Inr ()"
| "check_holdings i (h # hs) = rbind (check_holding i h) (\<lambda>_. check_holdings (Suc i) hs)"

definition validate_holdings :: "holding_dict list \<Rightarrow> carry_exc + unit" where
  "validate_holdings hs = (if hs = [] then Inl EmptyHoldings else check_holdings 0 hs)"

definition validate_margin_params :: "pyfloat \<Rightarrow> pyfloat \<Rightarrow> carry_exc + unit" where
  "validate_margin_params total_margin margin_rate =
     (if isnan total_margin \<or> isinf total_margin then Inl InvalidMargin
      else if fl_lt total_margin (Fin 0) then Inl NegativeMargin
      else if isnan margin_rate \<or> isinf margin_rate then Inl InvalidRate
      else if fl_lt margin_rate (Fin 0) then Inl NegativeRate
      else Inr ())"

section \<open>Analysis\<close>

record position_carry =
  pc_symbol :: pyval
  pc_market_value :: real
  pc_yield_pct :: real
  annual_income :: real
  margin_allocated :: real
  pc_margin_rate :: real
  annual_margin_cost :: real
  pc_net_carry :: real
  carry_spread :: real

record portfolio_carry =
  total_nav :: real
  total_long_value :: real
  total_margin :: real
  leverage_ratio :: real
  total_annual_income :: real
  total_annual_margin_cost :: real
  net_carry :: real
  income_coverage_ratio :: pyfloat
  margin_as_pct_of_nav :: real
  positions :: "position_carry list"

text \<open>\<open>h["market_value"]\<close> of a validated holding.\<close>

definition market_value_of :: "holding_dict \<Rightarrow> real" where
  "market_value_of h =
     (case dict_get h ''market_value'' of
        Some v \<Rightarrow> (case to_float v of Inr f \<Rightarrow> the_fin f | Inl _ \<Rightarrow> 0)
      | None \<Rightarrow> 0)"

definition symbol_of :: "holding_dict \<Rightarrow> pyval" where
  "symbol_of h = (case dict_get h ''symbol'' of Some v \<Rightarrow> v | None \<Rightarrow> VNone)"

text \<open>
  The yield used by the loop: None counts as zero, and the division by 100 raises TypeError for
  any value that is not a number (the validation lets those through).
\<close>

definition yield_of :: "holding_dict \<Rightarrow> carry_exc + real" where
  "yield_of h =
     (case get_yield h of
        VNone \<Rightarrow> Inr 0
      | v \<Rightarrow> (case to_float v of Inr f \<Rightarrow> Inr (the_fin f) | Inl e \<Rightarrow> Inl (CarryRaised e)))"

definition margin_share :: "real \<Rightarrow> real \<Rightarrow> real \<Rightarrow> real" where
  "margin_share total_long tm mv = (if total_long > 0 then mv / total_long * tm else 0)"

definition position_of :: "real \<Rightarrow> real \<Rightarrow> real \<Rightarrow> holding_dict \<times> real \<Rightarrow> position_carry" where
  "position_of total_long tm rate = (\<lambda>(h, yld).
     let mv = market_value_of h;
         income = mv * (yld / 100);
         share = margin_share total_long tm mv;
         cost = share * rate;
         net = income - cost;
         spread = yld / 100 - rate
     in \<lparr>pc_symbol = symbol_of h, pc_market_value = mv, pc_yield_pct = yld,
         annual_income = py_round income 2, margin_allocated = py_round share 2,
         pc_margin_rate = rate, annual_margin_cost = py_round cost 2,
         pc_net_carry = py_round net 2, carry_spread = py_round spread 4\<rparr>)"

definition income_of :: "holding_dict \<times> real \<Rightarrow> real" where
  "income_of = (\<lambda>(h, yld). market_value_of h * (yld / 100))"

definition coverage_of :: "real \<Rightarrow> real \<Rightarrow> pyfloat" where
  "coverage_of income cost =
     (if cost > 0 then Fin (income / cost) else if income > 0 then PInf else Fin 0)"

definition carry_report :: "(holding_dict \<times> real) list \<Rightarrow> real \<Rightarrow> real \<Rightarrow> portfolio_carry" where
  "carry_report hs tm rate =
     (let total_long = sum_list (map (market_value_of \<circ> fst) hs);
          nav = total_long - tm;
          income = sum_list (map income_of hs);
          cost = tm * rate;
          leverage = (if nav > 0 then total_long / nav else 0);
          margin_pct = (if nav > 0 then py_round (tm / nav * 100) 1 else 0)
      in \<lparr>total_nav = py_round nav 2, total_long_value = py_round total_long 2,
          total_margin = py_round tm 2, leverage_ratio = py_round leverage 2,
          total_annual_income = py_round income 2, total_annual_margin_cost = py_round cost 2,
          net_carry = py_round (income - cost) 2,
          income_coverage_ratio = fl_round (coverage_of income cost) 2,
          margin_as_pct_of_nav = margin_pct,
          positions = map (position_of total_long tm rate) hs\<rparr>)"

definition analyze_carry ::
  "holding_dict list \<Rightarrow> pyfloat \<Rightarrow> pyfloat \<Rightarrow> carry_exc + portfolio_carry" where
  "analyze_carry holdings tm rate =
     rbind (validate_holdings holdings) (\<lambda>_.
     rbind (validate_margin_params tm rate) (\<lambda>_.
     rbind (traverse yield_of holdings) (\<lambda>ylds.
     Inr (carry_report (zip holdings ylds) (the_fin tm) (the_fin rate)))))"

section \<open>Lemmas\<close>

definition good_holding :: "holding_dict \<Rightarrow> bool" where
  "good_holding h \<longleftrightarrow>
     (\<exists>sy. dict_get h ''symbol'' = Some sy \<and> \<not> blank_str_of sy) \<and>
     (\<exists>mv x. dict_get h ''market_value'' = Some mv \<and> is_number mv \<and>
        to_float mv = Inr (Fin x) \<and> 0 \<le> x) \<and>
     (is_number (get_yield h) \<longrightarrow> (\<exists>y. to_float (get_yield h) = Inr (Fin y)))"

lemma check_holding_Inr: "check_holding i h = Inr u \<longleftrightarrow> good_holding h"
proof (cases "dict_get h ''symbol''"; cases "dict_get h ''market_value''")
  fix sy mv
  assume "dict_get h ''symbol'' = Some sy" and "dict_get h ''market_value'' = Some mv"
  then show ?thesis
    by (auto simp: check_holding_def good_holding_def is_finite_iff not_less split: sum.splits)
qed (auto simp: check_holding_def good_holding_def)

lemma check_holdings_Inr: "check_holdings i hs = Inr u \<longleftrightarrow> list_all good_holding hs"
  by (induction hs arbitrary: i) (auto simp: check_holding_Inr)

lemma validate_holdings_Inr: "validate_holdings hs = Inr u \<longleftrightarrow> hs \<noteq> [] \<and> list_all good_holding hs"
  by (simp add: validate_holdings_def check_holdings_Inr)

lemma validate_margin_params_Inr:
  "validate_margin_params tm rate = Inr u \<longleftrightarrow>
     (\<exists>m r. tm = Fin m \<and> rate = Fin r \<and> 0 \<le> m \<and> 0 \<le> r)"
  by (cases tm; cases rate) (auto simp: validate_margin_params_def)

lemma yield_of_Inr:
  "good_holding h \<Longrightarrow> (\<exists>y. yield_of h = Inr y) \<longleftrightarrow> get_yield h = VNone \<or> is_number (get_yield h)"
  by (cases "get_yield h") (auto simp: yield_of_def good_holding_def split: if_splits)

lemma market_value_nonneg: "good_holding h \<Longrightarrow> 0 \<le> market_value_of h"
  by (auto simp: good_holding_def market_value_of_def)

lemma traverse_ex: "(\<exists>ys. traverse f xs = Inr ys) \<longleftrightarrow> (\<forall>x \<in> set xs. \<exists>y. f x = Inr y)"
  by (induction xs) auto

lemma analyze_carry_Inr:
  "analyze_carry hs tm rate = Inr r \<longleftrightarrow>
     (\<exists>m q ylds. tm = Fin m \<and> rate = Fin q \<and> 0 \<le> m \<and> 0 \<le> q \<and> hs \<noteq> [] \<and>
        list_all good_holding hs \<and> traverse yield_of hs = Inr ylds \<and>
        r = carry_report (zip hs ylds) m q)"
  by (auto simp: analyze_carry_def validate_holdings_Inr validate_margin_params_Inr)

lemma sum_margin_share:
  "total_long > 0 \<Longrightarrow>
     sum_list (map (margin_share total_long tm \<circ> f) xs) = sum_list (map f xs) / total_long * tm"
  by (induction xs) (auto simp: margin_share_def add_divide_distrib algebra_simps)

section \<open>Properties\<close>

text \<open>The analysis succeeds exactly when both margin parameters are finite and non-negative,
  there is at least one holding, and each has a non-blank symbol, a finite non-negative market
  value and a yield that is absent, None or a finite number.\<close>

lemma analyze_carry_succeeds_iff:
  "(\<exists>r. analyze_carry hs tm rate = Inr r) \<longleftrightarrow>
     (\<exists>m q. tm = Fin m \<and> rate = Fin q \<and> 0 \<le> m \<and> 0 \<le> q) \<and> hs \<noteq> [] \<and>
     list_all (\<lambda>h. good_holding h \<and> (get_yield h = VNone \<or> is_number (get_yield h))) hs"
proof -
  have "list_all good_holding hs \<and> (\<exists>ylds. traverse yield_of hs = Inr ylds) \<longleftrightarrow>
      list_all (\<lambda>h. good_holding h \<and> (get_yield h = VNone \<or> is_number (get_yield h))) hs"
    using yield_of_Inr by (auto simp: traverse_ex list_all_iff)
  then show ?thesis by (auto simp: analyze_carry_Inr)
qed

text \<open>When the portfolio has a positive long value the margin is distributed over the
  positions: their rounded shares add up to the margin, and their rounded net carries to the
  income less the whole margin cost, within half a cent per position.\<close>

lemma margin_is_distributed:
  assumes "total_long = sum_list (map (market_value_of \<circ> fst) hs)" and "total_long > 0"
    and "r = carry_report hs tm rate"
  shows "\<bar>sum_list (map margin_allocated (positions r)) - tm\<bar> \<le> length hs * (1 / 200) \<and>
    \<bar>sum_list (map pc_net_carry (positions r)) - (sum_list (map income_of hs) - tm * rate)\<bar>
      \<le> length hs * (1 / 200)"
proof -
  let ?share = "\<lambda>p. margin_share total_long tm (market_value_of (fst p))"
  have pos: "positions r = map (position_of total_long tm rate) hs"
    by (simp add: assms(3) carry_report_def Let_def flip: assms(1))
  have share: "sum_list (map ?share hs) = tm"
    using sum_margin_share [OF assms(2), of tm "market_value_of \<circ> fst" hs] assms(1,2)
    by (simp add: comp_def)
  have "\<bar>sum_list (map (\<lambda>p. py_round (?share p) 2) hs) - sum_list (map ?share hs)\<bar>
      \<le> length hs * (1 / 200)"
    by (rule sum_list_map_error) (rule py_round_cents)
  moreover have "map margin_allocated (positions r) = map (\<lambda>p. py_round (?share p) 2) hs"
    by (simp add: pos position_of_def Let_def case_prod_unfold)
  ultimately have 1: "\<bar>sum_list (map margin_allocated (positions r)) - tm\<bar> \<le> length hs * (1 / 200)"
    by (simp add: share)
  have "\<bar>sum_list (map (\<lambda>p. py_round (income_of p - ?share p * rate) 2) hs)
      - sum_list (map (\<lambda>p. income_of p - ?share p * rate) hs)\<bar> \<le> length hs * (1 / 200)"
    by (rule sum_list_map_error) (rule py_round_cents)
  moreover have "map pc_net_carry (positions r) =
      map (\<lambda>p. py_round (income_of p - ?share p * rate) 2) hs"
    by (simp add: pos position_of_def income_of_def Let_def case_prod_unfold)
  moreover have "sum_list (map (\<lambda>p. income_of p - ?share p * rate) hs) =
      sum_list (map income_of hs) - tm * rate"
    by (simp add: sum_list_map_diff sum_list_mult_const share)
  ultimately show ?thesis using 1 by simp
qed

definition sample_carry_holding :: holding_dict where
  "sample_carry_holding = [(''symbol'', VStr ''XEQ''), (''market_value'', VFloat (Fin 300))]"

lemma margin_is_distributed_witness:
  "\<bar>sum_list (map margin_allocated (positions (carry_report [(sample_carry_holding, 4)] 100 (1/20)))) - 100\<bar>
     \<le> 1 / 200"
proof -
  have "market_value_of sample_carry_holding = 300"
    by (simp add: sample_carry_holding_def market_value_of_def dict_get_def)
  then show ?thesis
    using margin_is_distributed [of 300 "[(sample_carry_holding, 4)]", OF _ _ refl] by simp
qed

text \<open>With no long value the whole margin cost stays in the portfolio totals while every
  position is allocated nothing: net carry of a position is its income.\<close>

lemma zero_long_allocates_nothing:
  assumes "list_all good_holding (map fst hs)"
    and "sum_list (map (market_value_of \<circ> fst) hs) = 0"
    and "r = carry_report hs tm rate"
  shows "(\<forall>p \<in> set (positions r). margin_allocated p = 0 \<and> annual_margin_cost p = 0 \<and> pc_net_carry p = 0) \<and>
    total_annual_margin_cost r = py_round (tm * rate) 2 \<and> net_carry r = py_round (- (tm * rate)) 2 \<and>
    leverage_ratio r = 0"
proof -
  have nonneg: "\<forall>h \<in> set hs. 0 \<le> market_value_of (fst h)"
    using assms(1) market_value_nonneg by (auto simp: list_all_iff)
  then have zero: "\<forall>h \<in> set hs. market_value_of (fst h) = 0"
    using assms(2) by (subst (asm) sum_list_nonneg_eq_0_iff) auto
  then have "sum_list (map income_of hs) = 0"
    by (induction hs) (auto simp: income_of_def case_prod_unfold)
  with zero assms(2,3) show ?thesis
    by (auto simp: carry_report_def position_of_def margin_share_def Let_def comp_def)
qed

text \<open>On success the reported leverage is at least one when the net asset value is positive
  and zero otherwise, and the income coverage is infinite exactly when there is income but no
  margin cost.\<close>

lemma leverage_and_coverage:
  assumes "analyze_carry hs (Fin m) (Fin q) = Inr r"
  shows "(if sum_list (map market_value_of hs) > m then 1 \<le> leverage_ratio r else leverage_ratio r = 0) \<and>
    (income_coverage_ratio r = PInf \<longleftrightarrow> m * q = 0 \<and>
      0 < sum_list (map income_of (zip hs (projr (traverse yield_of hs)))))"
proof -
  from assms obtain ylds where m: "0 \<le> m" "0 \<le> q" and y: "traverse yield_of hs = Inr ylds"
    and r: "r = carry_report (zip hs ylds) m q"
    by (auto simp: analyze_carry_Inr)
  let ?long = "sum_list (map market_value_of hs)"
  have "map fst (zip hs ylds) = hs" using traverse_Inr_length [OF y] by simp
  then have "sum_list (map (market_value_of \<circ> fst) (zip hs ylds)) = ?long"
    by (metis list.map_comp)
  then have lev: "leverage_ratio r = py_round (if ?long - m > 0 then ?long / (?long - m) else 0) 2"
    and cov: "income_coverage_ratio r = fl_round (coverage_of (sum_list (map income_of (zip hs ylds))) (m * q)) 2"
    by (simp_all add: r carry_report_def Let_def)
  have "1 \<le> leverage_ratio r" if "?long > m"
  proof -
    from that m have "1 \<le> ?long / (?long - m)" by (simp add: le_divide_eq)
    from py_round_mono [OF this, of 2] show ?thesis
      using that lev py_round_of_int [of 1 2] by simp
  qed
  moreover have "leverage_ratio r = 0" if "\<not> ?long > m" using that lev by simp
  moreover have "income_coverage_ratio r = PInf \<longleftrightarrow> m * q = 0 \<and> 0 < sum_list (map income_of (zip hs ylds))"
    using mult_nonneg_nonneg [OF m] by (auto simp: cov coverage_of_def simp del: mult_eq_0_iff)
  ultimately show ?thesis by (simp add: y)
qed

lemma sample_analysis: "\<exists>r. analyze_carry [sample_carry_holding] (Fin 100) (Fin (1/20)) = Inr r"
  by (simp add: analyze_carry_Inr good_holding_def sample_carry_holding_def dict_get_def get_yield_def
      yield_of_def blank_iff is_ws_def code_of_def) (rule exI [where x = "1/20"], simp)

lemma analyze_carry_succeeds_iff_witness: "good_holding sample_carry_holding"
  using analyze_carry_succeeds_iff [of "[sample_carry_holding]" "Fin 100" "Fin (1/20)"] sample_analysis
  by simp

lemma leverage_and_coverage_witness:
  "\<exists>r. analyze_carry [sample_carry_holding] (Fin 100) (Fin (1/20)) = Inr r \<and> 1 \<le> leverage_ratio r"
proof -
  have "market_value_of sample_carry_holding = 300"
    by (simp add: sample_carry_holding_def market_value_of_def dict_get_def)
  then show ?thesis
    using sample_analysis leverage_and_coverage [of "[sample_carry_holding]" 100 "1/20"] by fastforce
qed

lemma zero_long_allocates_nothing_witness:
  "net_carry (carry_report [([(''symbol'', VStr ''X''), (''market_value'', VInt 0)], 4)] 100 (1/10)) = - 10"
proof -
  let ?h = "[(''symbol'', VStr ''X''), (''market_value'', VInt 0)] :: holding_dict"
  have "good_holding ?h" and "market_value_of ?h = 0"
    by (auto simp: good_holding_def dict_get_def get_yield_def market_value_of_def blank_iff
        is_ws_def code_of_def)
  then have "net_carry (carry_report [(?h, 4)] 100 (1/10)) = py_round (- (100 * (1/10))) 2"
    using zero_long_allocates_nothing [of "[(?h, 4)]", OF _ _ refl] by simp
  then show ?thesis using py_round_of_int [of "- 10" 2] by simp
qed

end
