(* ===== verification/Tables.thy ===== *)
theory Tables
  imports Prelude
begin

text \<open>
  The keyed tables of the SQLite store: a table is the list of its rows in insertion order, with a
  primary key. \<open>keyed_table\<close> is the interface the database layer is written against, with the laws
  the SQL statements rely on; it is interpreted once on the list model, for any key.
\<close>

section \<open>Statements on one table\<close>

definition tbl_lookup :: "('r \<Rightarrow> 'k) \<Rightarrow> 'r list \<Rightarrow> 'k \<Rightarrow> 'r option" where
  "tbl_lookup key t k = find (\<lambda>r. key r = k) t"

text \<open>\<open>INSERT INTO\<close>: None is the violation of the primary key.\<close>

definition tbl_insert :: "('r \<Rightarrow> 'k) \<Rightarrow> 'r \<Rightarrow> 'r list \<Rightarrow> 'r list option" where
  "tbl_insert key r t = (if key r \<in> key ` set t then None else Some (t @ [r]))"

text \<open>\<open>INSERT OR REPLACE\<close>: a row of the same key is deleted first.\<close>

definition tbl_replace :: "('r \<Rightarrow> 'k) \<Rightarrow> 'r \<Rightarrow> 'r list \<Rightarrow> 'r list" where
  "tbl_replace key r t = filter (\<lambda>x. key x \<noteq> key r) t @ [r]"

definition tbl_delete :: "('r \<Rightarrow> 'k) \<Rightarrow> 'k \<Rightarrow> 'r list \<Rightarrow> 'r list" where
  "tbl_delete key k t = filter (\<lambda>r. key r \<noteq> k) t"

definition tbl_update :: "('r \<Rightarrow> 'k) \<Rightarrow> 'k \<Rightarrow> ('r \<Rightarrow> 'r) \<Rightarrow> 'r list \<Rightarrow> 'r list" where
  "tbl_update key k f t = map (\<lambda>r. if key r = k then f r else r) t"

definition tbl_wf :: "('r \<Rightarrow> 'k) \<Rightarrow> 'r list \<Rightarrow> bool" where
  "tbl_wf key t = distinct (map key t)"

section \<open>The interface\<close>

locale keyed_table =
  fixes key :: "'r \<Rightarrow> 'k"
    and lookup :: "'t \<Rightarrow> 'k \<Rightarrow> 'r option"
    and insert :: "'r \<Rightarrow> 't \<Rightarrow> 't option"
    and delete :: "'k \<Rightarrow> 't \<Rightarrow> 't"
    and rows :: "'t \<Rightarrow> 'r list"
    and wf :: "'t \<Rightarrow> bool"
  assumes lookup_key: "lookup t k = Some r \<Longrightarrow> key r = k"
    and lookup_row: "wf t \<Longrightarrow> lookup t k = Some r \<longleftrightarrow> r \<in> set (rows t) \<and> key r = k"
    and insert_None: "insert r t = None \<longleftrightarrow> lookup t (key r) \<noteq> None"
    and rows_insert: "insert r t = Some t' \<Longrightarrow> rows t' = rows t @ [r]"
    and wf_insert: "wf t \<Longrightarrow> insert r t = Some t' \<Longrightarrow> wf t'"
    and rows_delete: "rows (delete k t) = filter (\<lambda>r. key r \<noteq> k) (rows t)"
    and wf_delete: "wf t \<Longrightarrow> wf (delete k t)"
begin

lemma lookup_insert:
  assumes "wf t" and "insert r t = Some t'"
  shows "lookup t' k = (if k = key r then Some r else lookup t k)"
proof -
  have t': "wf t'" using assms by (rule wf_insert)
  have none: "lookup t (key r) = None" by (metis assms(2) insert_None option.distinct(1))
  show ?thesis
  proof (cases "k = key r")
    case True
    then show ?thesis using lookup_row [OF t', of k r] rows_insert [OF assms(2)] by simp
  next
    case False
    have "lookup t' k = Some x \<longleftrightarrow> lookup t k = Some x" for x
      using False lookup_row [OF t'] lookup_row [OF assms(1)] rows_insert [OF assms(2)] by auto
    then show ?thesis using False by (metis not_None_eq)
  qed
qed

lemma lookup_delete:
  assumes "wf t"
  shows "lookup (delete k t) k' = (if k' = k then None else lookup t k')"
proof -
  have "lookup (delete k t) k' = Some x \<longleftrightarrow> k' \<noteq> k \<and> lookup t k' = Some x" for x
    using lookup_row [OF wf_delete [OF assms]] lookup_row [OF assms] by (auto simp: rows_delete)
  then show ?thesis by (metis not_None_eq)
qed

text \<open>Deleting what was just inserted restores the rows.\<close>

lemma delete_insert:
  assumes "wf t" and "insert r t = Some t'"
  shows "rows (delete (key r) t') = rows t"
proof -
  have "lookup t (key r) = None" by (metis assms(2) insert_None option.distinct(1))
  then have "key x \<noteq> key r" if "x \<in> set (rows t)" for x
    using that lookup_row [OF assms(1), of "key r" x] by auto
  then have "filter (\<lambda>x. key x \<noteq> key r) (rows t) = rows t" by (simp add: filter_id_conv)
  then show ?thesis by (simp add: rows_delete rows_insert [OF assms(2)])
qed

end

section \<open>The list model provides it\<close>

lemma sort_key_map: "sort_key f (map g xs) = map g (sort_key (f \<circ> g) xs)"
proof (induction xs)
  case (Cons x xs)
  have "insort_key f (g x) (map g ys) = map g (insort_key (f \<circ> g) x ys)" for ys
    by (induction ys) auto
  with Cons show ?case by (simp add: o_def)
qed simp

lemma tbl_lookup_row:
  "tbl_wf key t \<Longrightarrow> tbl_lookup key t k = Some r \<longleftrightarrow> r \<in> set t \<and> key r = k"
  unfolding tbl_wf_def tbl_lookup_def
  by (induction t) auto

lemma tbl_lookup_None: "tbl_lookup key t k = None \<longleftrightarrow> k \<notin> key ` set t"
  by (auto simp: tbl_lookup_def find_None_iff)

interpretation tbl: keyed_table key "tbl_lookup key" "tbl_insert key" "tbl_delete key"
  "\<lambda>t. t" "tbl_wf key" for key :: "'r \<Rightarrow> 'k"
proof unfold_locales
  fix t :: "'r list" and k r t'
  show "tbl_lookup key t k = Some r \<Longrightarrow> key r = k"
    by (auto simp: tbl_lookup_def find_Some_iff)
  show "tbl_wf key t \<Longrightarrow> tbl_lookup key t k = Some r \<longleftrightarrow> r \<in> set t \<and> key r = k"
    by (rule tbl_lookup_row)
  show "tbl_insert key r t = None \<longleftrightarrow> tbl_lookup key t (key r) \<noteq> None"
    using tbl_lookup_None [of key t "key r"] by (auto simp: tbl_insert_def)
  show "tbl_insert key r t = Some t' \<Longrightarrow> t' = t @ [r]"
    by (auto simp: tbl_insert_def split: if_splits)
  show "tbl_wf key t \<Longrightarrow> tbl_insert key r t = Some t' \<Longrightarrow> tbl_wf key t'"
    by (auto simp: tbl_insert_def tbl_wf_def split: if_splits)
  show "tbl_delete key k t = filter (\<lambda>r. key r \<noteq> k) t"
    by (rule tbl_delete_def)
  show "tbl_wf key t \<Longrightarrow> tbl_wf key (tbl_delete key k t)"
    by (simp add: tbl_delete_def tbl_wf_def distinct_map_filter)
qed

section \<open>Further facts of the list model\<close>

lemma tbl_lookup_append:
  "tbl_lookup key (t @ u) k =
     (case tbl_lookup key t k of None \<Rightarrow> tbl_lookup key u k | Some r \<Rightarrow> Some r)"
  by (induction t) (auto simp: tbl_lookup_def)

lemma tbl_lookup_single [simp]: "tbl_lookup key [r] k = (if key r = k then Some r else None)"
  by (simp add: tbl_lookup_def)

lemma tbl_update_id:
  "(\<And>r. key (f r) = key r) \<Longrightarrow> map key (tbl_update key k f t) = map key t"
  by (simp add: tbl_update_def)

lemma tbl_wf_update [wf_intros]:
  "(\<And>r. key (f r) = key r) \<Longrightarrow> tbl_wf key t \<Longrightarrow> tbl_wf key (tbl_update key k f t)"
  by (simp only: tbl_wf_def tbl_update_id)

lemma tbl_lookup_update:
  "(\<And>r. key (f r) = key r) \<Longrightarrow>
     tbl_lookup key (tbl_update key k f t) k' =
       (if k' = k then map_option f (tbl_lookup key t k) else tbl_lookup key t k')"
  by (induction t) (auto simp: tbl_lookup_def tbl_update_def)

lemma tbl_update_absent: "k \<notin> key ` set t \<Longrightarrow> tbl_update key k f t = t"
  by (induction t) (auto simp: tbl_update_def)

lemma tbl_wf_replace [wf_intros]: "tbl_wf key t \<Longrightarrow> tbl_wf key (tbl_replace key r t)"
  by (auto simp: tbl_replace_def tbl_wf_def distinct_map_filter)

lemma tbl_lookup_replace:
  "tbl_lookup key (tbl_replace key r t) k = (if k = key r then Some r else tbl_lookup key t k)"
proof -
  have "find P (xs @ ys) = (case find P xs of None \<Rightarrow> find P ys | Some x \<Rightarrow> Some x)"
    for P and xs ys :: "'a list"
    by (induction xs) auto
  moreover have "find (\<lambda>x. key x = k) (filter (\<lambda>x. key x \<noteq> key r) t) =
      (if k = key r then None else find (\<lambda>x. key x = k) t)"
    by (induction t) auto
  ultimately show ?thesis by (auto simp: tbl_lookup_def tbl_replace_def split: option.splits)
qed

end
