(* ===== verification/Db.thy ===== *)
theory Db
  imports Tables Journal "HOL-Library.List_Lexorder" "HOL-Library.Char_ord"
begin

text \<open>
  \<^verbatim>\<open>analytics/pae/storage/db.py\<close>: the SQLite store of accounts, portfolios, holdings and journal
  entries. The state is the record \<open>db\<close> of its tables; an operation takes the state and returns its
  result or exception with the new state. The primary keys, the NOT NULL constraints, the two
  foreign keys (ON DELETE CASCADE and ON DELETE SET NULL), and the commit and rollback of a
  transaction, whose statements change what the connection sees as they run, are written out. \<open>json.loads\<close> and \<open>json.dumps\<close> are the parameters \<open>loads\<close> and \<open>dumps\<close>; generated
  identifiers and clock readings are arguments.
\<close>

section \<open>Data\<close>

record account =
  acc_id :: string
  acc_name :: string
  acc_type :: string
  acc_broker :: string
  acc_currency :: string
  acc_created_at :: string

record portfolio =
  pf_id :: string
  pf_name :: string
  pf_description :: string
  pf_created_at :: string
  pf_updated_at :: string

text \<open>
  A holding object has a string account (empty for none), a row of the table a nullable one.
\<close>

record 'acc holding_rec =
  h_id :: string
  h_portfolio_id :: string
  h_account_id :: 'acc
  h_symbol :: string
  h_name :: string
  h_asset_class :: string
  h_quantity :: pyfloat
  h_market_value :: pyfloat
  h_cost_basis :: pyfloat
  h_weight :: pyfloat
  h_yield_pct :: pyfloat
  h_currency :: string
  h_returns_json :: string
  h_created_at :: string
  h_updated_at :: string

type_synonym holding = "string holding_rec"
type_synonym holding_row = "string option holding_rec"

record journal_row =
  j_entry_id :: string
  j_timestamp :: string
  j_action :: string
  j_symbols :: string
  j_rationale :: string
  j_alternatives :: string
  j_thesis :: string
  j_confidence :: int
  j_time_horizon :: string
  j_wrong :: string
  j_loss :: pyfloat
  j_emotional :: string
  j_context :: string
  j_trigger :: string
  j_30d :: "pyfloat option"
  j_90d :: "pyfloat option"
  j_180d :: "pyfloat option"
  j_notes :: string
  j_correct :: "int option"

record db =
  accounts :: "account list"
  portfolios :: "portfolio list"
  holdings :: "holding_row list"
  journal :: "journal_row list"
  versions :: "nat list"

definition empty_db :: db where
  "empty_db = \<lparr>accounts = [], portfolios = [], holdings = [], journal = [], versions = []\<rparr>"

section \<open>Errors and transactions\<close>

datatype validation_msg =
    AccountNameEmpty
  | InvalidAccountType string
  | PortfolioNameEmpty
  | SymbolEmpty
  | PortfolioIdRequired
  | MarketValueNegative pyfloat
  | QuantityNegative pyfloat
  | ReturnsNotArray
  | ReturnsNotNumber nat
  | ReturnsInvalidJson

text \<open>
  \<open>ValidationErr\<close> and \<open>NotFoundErr\<close> are the two subclasses of the module's DatabaseError.
  \<open>IntegrityErr\<close> is sqlite3.IntegrityError and \<open>BindOverflow\<close> the OverflowError of binding an int
  beyond 64 bits, \<open>BindError\<close> the error of binding a list or a dict: none is a DatabaseError.
  \<open>Unsupported\<close> marks the bindings that the model leaves out (a value stored under a type other than
  the column's).
\<close>

datatype db_exc =
    ValidationErr validation_msg
  | NotFoundErr string
  | IntegrityErr
  | BindOverflow
  | BindError
  | Unsupported

fun is_database_error :: "db_exc \<Rightarrow> bool" where
  "is_database_error (ValidationErr _) = True"
| "is_database_error (NotFoundErr _) = True"
| "is_database_error _ = False"

section \<open>Statements and transactions\<close>

text \<open>
  A block of statements runs on the state the connection sees and leaves it changed by the
  statements it has executed, also when it raises. A single statement is atomic in SQLite: one that
  fails changes nothing. The names follow the cursor's calls: \<open>stmt\<close> is \<open>cur.execute\<close>, \<open>sql_then\<close> the
  sequence, \<open>sql_raise\<close> an exception of the block.
\<close>

type_synonym 'a sql = "db \<Rightarrow> (db_exc + 'a) \<times> db"

definition stmt :: "(db \<Rightarrow> db_exc + 'a \<times> db) \<Rightarrow> 'a sql" where
  "stmt f d = (case f d of Inl e \<Rightarrow> (Inl e, d) | Inr (a, d') \<Rightarrow> (Inr a, d'))"

definition sql_return :: "'a \<Rightarrow> 'a sql" where
  "sql_return a d = (Inr a, d)"

definition sql_raise :: "db_exc \<Rightarrow> 'a sql" where
  "sql_raise e d = (Inl e, d)"

definition sql_then :: "'a sql \<Rightarrow> ('a \<Rightarrow> 'b sql) \<Rightarrow> 'b sql" where
  "sql_then m k d = (case m d of (Inl e, d') \<Rightarrow> (Inl e, d') | (Inr a, d') \<Rightarrow> k a d')"

text \<open>
  The connection: what is committed to the file, and what its own statements and queries see.
  \<open>run_transaction\<close> is the context manager: it commits after the body, and when the body raises it
  rolls back and re-raises.
\<close>

record connection =
  committed :: db
  working :: db

definition commit :: "connection \<Rightarrow> connection" where
  "commit c = c\<lparr>committed := working c\<rparr>"

definition rollback :: "connection \<Rightarrow> connection" where
  "rollback c = c\<lparr>working := committed c\<rparr>"

definition run_transaction :: "'a sql \<Rightarrow> connection \<Rightarrow> (db_exc + 'a) \<times> connection" where
  "run_transaction body c =
     (case body (working c) of
        (Inl e, w) \<Rightarrow> (Inl e, rollback (c\<lparr>working := w\<rparr>))
      | (Inr a, w) \<Rightarrow> (Inr a, commit (c\<lparr>working := w\<rparr>)))"

text \<open>An operation of the store starts on a connection with nothing pending; what the connection
  sees after it is the state that the next operation finds.\<close>

definition connected :: "db \<Rightarrow> connection" where
  "connected d = \<lparr>committed = d, working = d\<rparr>"

definition transaction :: "'a sql \<Rightarrow> db \<Rightarrow> (db_exc + 'a) \<times> db" where
  "transaction body d = (case run_transaction body (connected d) of (r, c) \<Rightarrow> (r, working c))"

lemmas sql_defs =
  transaction_def run_transaction_def connected_def commit_def rollback_def
  stmt_def sql_return_def sql_raise_def sql_then_def

section \<open>Schema version and migration\<close>

definition SCHEMA_VERSION :: nat where "SCHEMA_VERSION = 2"

definition null_if_empty :: "string option \<Rightarrow> string option" where
  "null_if_empty a = (if a = Some [] then None else a)"

definition migrate_v2_account_nullable :: "db \<Rightarrow> db" where
  "migrate_v2_account_nullable d =
     d\<lparr>holdings := map (\<lambda>r. r\<lparr>h_account_id := null_if_empty (h_account_id r)\<rparr>) (holdings d)\<rparr>"

definition apply_migrations :: "db \<Rightarrow> db" where
  "apply_migrations d =
     (let current = (if versions d = [] then 0 else Max (set (versions d)))
      in if current \<ge> SCHEMA_VERSION then d
         else let d' = (if 0 < current \<and> current < 2 then migrate_v2_account_nullable d else d)
              in d'\<lparr>versions := (if SCHEMA_VERSION \<in> set (versions d') then versions d'
                                 else versions d' @ [SCHEMA_VERSION])\<rparr>)"

text \<open>\<open>initialize\<close>: the tables are created if missing (the model has them from the start).\<close>

definition initialize :: "db \<Rightarrow> db" where
  "initialize d = apply_migrations d"

section \<open>Accounts and portfolios\<close>

definition account_types :: "string list" where
  "account_types = [''rrsp'', ''tfsa'', ''lira'', ''taxable'', ''margin'', ''other'']"

definition insert_account :: "account \<Rightarrow> db \<Rightarrow> (db_exc + account) \<times> db" where
  "insert_account a d =
     (if acc_name a = [] then (Inl (ValidationErr AccountNameEmpty), d)
      else if acc_type a \<notin> set account_types
      then (Inl (ValidationErr (InvalidAccountType (acc_type a))), d)
      else transaction (stmt (\<lambda>d. case tbl_insert acc_id a (accounts d) of
          None \<Rightarrow> Inl IntegrityErr
        | Some t \<Rightarrow> Inr (a, d\<lparr>accounts := t\<rparr>))) d)"

definition get_accounts :: "db \<Rightarrow> account list" where
  "get_accounts d = sort_key acc_name (accounts d)"

definition set_null :: "string \<Rightarrow> holding_row \<Rightarrow> holding_row" where
  "set_null aid r = (if h_account_id r = Some aid then r\<lparr>h_account_id := None\<rparr> else r)"

text \<open>
  The DELETE statement with the action of the foreign key on the deleted rows; its value is the
  cursor's \<open>rowcount\<close>, which the operation tests afterwards.
\<close>

definition sql_delete_account :: "string \<Rightarrow> nat sql" where
  "sql_delete_account aid = stmt (\<lambda>d.
     let deleted = filter (\<lambda>a. acc_id a = aid) (accounts d)
     in Inr (length deleted,
          d\<lparr>accounts := tbl_delete acc_id aid (accounts d),
            holdings := map (\<lambda>r. foldr (\<lambda>a. set_null (acc_id a)) deleted r) (holdings d)\<rparr>))"

definition not_found_unless :: "string \<Rightarrow> nat \<Rightarrow> unit sql" where
  "not_found_unless i rowcount =
     (if rowcount = 0 then sql_raise (NotFoundErr i) else sql_return ())"

definition delete_account :: "string \<Rightarrow> db \<Rightarrow> (db_exc + unit) \<times> db" where
  "delete_account aid d =
     transaction (sql_then (sql_delete_account aid) (not_found_unless aid)) d"

definition insert_portfolio :: "portfolio \<Rightarrow> db \<Rightarrow> (db_exc + portfolio) \<times> db" where
  "insert_portfolio p d =
     (if pf_name p = [] then (Inl (ValidationErr PortfolioNameEmpty), d)
      else transaction (stmt (\<lambda>d. case tbl_insert pf_id p (portfolios d) of
          None \<Rightarrow> Inl IntegrityErr
        | Some t \<Rightarrow> Inr (p, d\<lparr>portfolios := t\<rparr>))) d)"

definition get_portfolios :: "db \<Rightarrow> portfolio list" where
  "get_portfolios d = sort_key pf_name (portfolios d)"

definition sql_delete_portfolio :: "string \<Rightarrow> nat sql" where
  "sql_delete_portfolio pid = stmt (\<lambda>d.
     let deleted = filter (\<lambda>p. pf_id p = pid) (portfolios d)
     in Inr (length deleted,
          d\<lparr>portfolios := tbl_delete pf_id pid (portfolios d),
            holdings := filter (\<lambda>r. h_portfolio_id r \<notin> pf_id ` set deleted) (holdings d)\<rparr>))"

definition delete_portfolio :: "string \<Rightarrow> db \<Rightarrow> (db_exc + unit) \<times> db" where
  "delete_portfolio pid d =
     transaction (sql_then (sql_delete_portfolio pid) (not_found_unless pid)) d"

section \<open>Holdings\<close>

fun first_not_number :: "nat \<Rightarrow> pyval list \<Rightarrow> nat option" where
  "first_not_number i [] = None"
| "first_not_number i (v # vs) = (if is_number v then first_not_number (Suc i) vs else Some i)"

definition validate_holding ::
  "(string \<Rightarrow> pyval option) \<Rightarrow> holding \<Rightarrow> db_exc + unit" where
  "validate_holding loads h =
     (if blank (h_symbol h) then Inl (ValidationErr SymbolEmpty)
      else if h_portfolio_id h = [] then Inl (ValidationErr PortfolioIdRequired)
      else if fl_lt (h_market_value h) (Fin 0)
      then Inl (ValidationErr (MarketValueNegative (h_market_value h)))
      else if fl_lt (h_quantity h) (Fin 0)
      then Inl (ValidationErr (QuantityNegative (h_quantity h)))
      else case loads (h_returns_json h) of
          None \<Rightarrow> Inl (ValidationErr ReturnsInvalidJson)
        | Some (VList vs) \<Rightarrow>
            (case first_not_number 0 vs of
               None \<Rightarrow> Inr ()
             | Some i \<Rightarrow> Inl (ValidationErr (ReturnsNotNumber i)))
        | Some _ \<Rightarrow> Inl (ValidationErr ReturnsNotArray))"

text \<open>The tuple of the INSERT: an empty account is stored as NULL.\<close>

definition to_row :: "holding \<Rightarrow> holding_row" where
  "to_row h =
     \<lparr>h_id = h_id h, h_portfolio_id = h_portfolio_id h,
      h_account_id = (if h_account_id h = [] then None else Some (h_account_id h)),
      h_symbol = h_symbol h, h_name = h_name h, h_asset_class = h_asset_class h,
      h_quantity = h_quantity h, h_market_value = h_market_value h,
      h_cost_basis = h_cost_basis h, h_weight = h_weight h, h_yield_pct = h_yield_pct h,
      h_currency = h_currency h, h_returns_json = h_returns_json h,
      h_created_at = h_created_at h, h_updated_at = h_updated_at h\<rparr>"

definition of_row :: "holding_row \<Rightarrow> holding" where
  "of_row r =
     \<lparr>h_id = h_id r, h_portfolio_id = h_portfolio_id r,
      h_account_id = (case h_account_id r of None \<Rightarrow> [] | Some a \<Rightarrow> a),
      h_symbol = h_symbol r, h_name = h_name r, h_asset_class = h_asset_class r,
      h_quantity = h_quantity r, h_market_value = h_market_value r,
      h_cost_basis = h_cost_basis r, h_weight = h_weight r, h_yield_pct = h_yield_pct r,
      h_currency = h_currency r, h_returns_json = h_returns_json r,
      h_created_at = h_created_at r, h_updated_at = h_updated_at r\<rparr>"

text \<open>SQLite stores NaN as NULL, which the NOT NULL columns reject.\<close>

definition has_nan :: "'a holding_rec \<Rightarrow> bool" where
  "has_nan r = (NaN \<in> set [h_quantity r, h_market_value r, h_cost_basis r, h_weight r, h_yield_pct r])"

definition fk_ok :: "db \<Rightarrow> holding_row \<Rightarrow> bool" where
  "fk_ok d r = (h_portfolio_id r \<in> pf_id ` set (portfolios d) \<and>
     (case h_account_id r of None \<Rightarrow> True | Some a \<Rightarrow> a \<in> acc_id ` set (accounts d)))"

definition sql_insert_holding :: "holding \<Rightarrow> unit sql" where
  "sql_insert_holding h = stmt (\<lambda>d.
     let r = to_row h
     in if has_nan r \<or> \<not> fk_ok d r then Inl IntegrityErr
        else case tbl_insert h_id r (holdings d) of
            None \<Rightarrow> Inl IntegrityErr
          | Some t \<Rightarrow> Inr ((), d\<lparr>holdings := t\<rparr>))"

definition insert_holding ::
  "(string \<Rightarrow> pyval option) \<Rightarrow> holding \<Rightarrow> db \<Rightarrow> (db_exc + holding) \<times> db" where
  "insert_holding loads h d =
     (case validate_holding loads h of
        Inl e \<Rightarrow> (Inl e, d)
      | Inr _ \<Rightarrow> transaction (sql_then (sql_insert_holding h) (\<lambda>_. sql_return h)) d)"

text \<open>The SET clause of the UPDATE: identifier, portfolio, account and creation time stay.\<close>

definition set_columns :: "holding \<Rightarrow> holding_row \<Rightarrow> holding_row" where
  "set_columns h r =
     r\<lparr>h_symbol := h_symbol h, h_name := h_name h, h_asset_class := h_asset_class h,
       h_quantity := h_quantity h, h_market_value := h_market_value h,
       h_cost_basis := h_cost_basis h, h_weight := h_weight h, h_yield_pct := h_yield_pct h,
       h_currency := h_currency h, h_returns_json := h_returns_json h,
       h_updated_at := h_updated_at h\<rparr>"

definition sql_update_holding :: "holding \<Rightarrow> nat sql" where
  "sql_update_holding h = stmt (\<lambda>d.
     let found = filter (\<lambda>r. h_id r = h_id h) (holdings d)
     in if found \<noteq> [] \<and> has_nan h then Inl IntegrityErr
        else Inr (length found,
               d\<lparr>holdings := tbl_update h_id (h_id h) (set_columns h) (holdings d)\<rparr>))"

definition update_holding ::
  "(string \<Rightarrow> pyval option) \<Rightarrow> string \<Rightarrow> holding \<Rightarrow> db \<Rightarrow> (db_exc + holding) \<times> db" where
  "update_holding loads now h d =
     (case validate_holding loads h of
        Inl e \<Rightarrow> (Inl e, d)
      | Inr _ \<Rightarrow>
          let h' = h\<lparr>h_updated_at := now\<rparr>
          in transaction
               (sql_then (sql_update_holding h') (\<lambda>rowcount.
                sql_then (not_found_unless (h_id h') rowcount) (\<lambda>_. sql_return h'))) d)"

definition sql_delete_holding :: "string \<Rightarrow> nat sql" where
  "sql_delete_holding hid = stmt (\<lambda>d.
     Inr (length (filter (\<lambda>r. h_id r = hid) (holdings d)),
          d\<lparr>holdings := tbl_delete h_id hid (holdings d)\<rparr>))"

definition delete_holding :: "string \<Rightarrow> db \<Rightarrow> (db_exc + unit) \<times> db" where
  "delete_holding hid d =
     transaction (sql_then (sql_delete_holding hid) (not_found_unless hid)) d"

text \<open>An absent or empty filter is not applied; the rows come in the order of their symbols.\<close>

definition filter_ok :: "string option \<Rightarrow> string option \<Rightarrow> bool" where
  "filter_ok f v = (case f of None \<Rightarrow> True | Some [] \<Rightarrow> True | Some s \<Rightarrow> v = Some s)"

definition get_holdings :: "string option \<Rightarrow> string option \<Rightarrow> db \<Rightarrow> holding list" where
  "get_holdings pid aid d =
     map of_row (sort_key h_symbol
       (filter (\<lambda>r. filter_ok pid (Some (h_portfolio_id r)) \<and> filter_ok aid (h_account_id r))
          (holdings d)))"

definition get_holding_by_id :: "string \<Rightarrow> db \<Rightarrow> db_exc + holding" where
  "get_holding_by_id hid d =
     (case tbl_lookup h_id (holdings d) hid of
        None \<Rightarrow> Inl (NotFoundErr hid)
      | Some r \<Rightarrow> Inr (of_row r))"

text \<open>The loop of the bulk insert: the rows before a failing one are already inserted.\<close>

fun sql_insert_holdings :: "holding list \<Rightarrow> unit sql" where
  "sql_insert_holdings [] = sql_return ()"
| "sql_insert_holdings (h # hs) =
     sql_then (sql_insert_holding h) (\<lambda>_. sql_insert_holdings hs)"

definition bulk_insert_holdings ::
  "(string \<Rightarrow> pyval option) \<Rightarrow> holding list \<Rightarrow> db \<Rightarrow> (db_exc + nat) \<times> db" where
  "bulk_insert_holdings loads hs d =
     (case traverse (validate_holding loads) hs of
        Inl e \<Rightarrow> (Inl e, d)
      | Inr _ \<Rightarrow> transaction
          (sql_then (sql_insert_holdings hs) (\<lambda>_. sql_return (length hs))) d)"

section \<open>Aggregates\<close>

record portfolio_summary =
  ps_portfolio_id :: string
  ps_holding_count :: nat
  ps_total_market_value :: pyfloat
  ps_total_cost_basis :: pyfloat
  ps_unrealized_pnl :: pyfloat
  ps_unrealized_pnl_pct :: pyfloat

text \<open>\<open>COALESCE(SUM(x), 0)\<close>: the sum of no row is NULL, and so is a sum that is NaN.\<close>

definition sql_sum :: "pyfloat list \<Rightarrow> pyfloat" where
  "sql_sum xs = (if fl_sum xs = NaN then Fin 0 else fl_sum xs)"

definition get_portfolio_summary :: "string \<Rightarrow> db \<Rightarrow> py_exc + portfolio_summary" where
  "get_portfolio_summary pid d =
     (let rows = filter (\<lambda>r. h_portfolio_id r = pid) (holdings d);
          value = sql_sum (map h_market_value rows);
          cost = sql_sum (map h_cost_basis rows);
          pnl = fl_sub value cost
      in rbind (if fl_lt (Fin 0) cost then rbind (fl_div pnl cost) (\<lambda>q. Inr (fl_mul q (Fin 100)))
                else Inr (Fin 0)) (\<lambda>pct.
         Inr \<lparr>ps_portfolio_id = pid, ps_holding_count = length rows,
              ps_total_market_value = fl_round value 2, ps_total_cost_basis = fl_round cost 2,
              ps_unrealized_pnl = fl_round pnl 2, ps_unrealized_pnl_pct = fl_round pct 2\<rparr>))"

record engine_holding =
  eh_symbol :: string
  eh_weight :: pyfloat
  eh_returns :: pyval
  eh_yield_pct :: pyfloat
  eh_cost_basis :: pyfloat
  eh_market_value :: pyfloat
  eh_asset_class :: string

definition engine_row ::
  "(string \<Rightarrow> pyval option) \<Rightarrow> pyfloat \<Rightarrow> holding \<Rightarrow> py_exc + engine_holding" where
  "engine_row loads tot h =
     rbind (fl_div (h_market_value h) tot) (\<lambda>w.
       Inr \<lparr>eh_symbol = h_symbol h, eh_weight = w,
            eh_returns = (case loads (h_returns_json h) of None \<Rightarrow> VList [] | Some v \<Rightarrow> v),
            eh_yield_pct = h_yield_pct h, eh_cost_basis = h_cost_basis h,
            eh_market_value = h_market_value h, eh_asset_class = h_asset_class h\<rparr>)"

definition get_holdings_for_engine ::
  "(string \<Rightarrow> pyval option) \<Rightarrow> string \<Rightarrow> db \<Rightarrow> py_exc + engine_holding list" where
  "get_holdings_for_engine loads pid d =
     (let hs = get_holdings (Some pid) None d
      in if hs = [] then Inr []
         else let tot = fl_sum (map h_market_value hs)
              in if fl_le tot (Fin 0) then Inr [] else traverse (engine_row loads tot) hs)"

section \<open>Decision journal\<close>

text \<open>What sqlite3 binds for a Python value; NaN is bound as NULL.\<close>

datatype bound = BNull | BInt int | BReal pyfloat | BText string

fun bind_value :: "pyval \<Rightarrow> db_exc + bound" where
  "bind_value VNone = Inr BNull"
| "bind_value (VBool b) = Inr (BInt (if b then 1 else 0))"
| "bind_value (VInt n) = (if - (2 ^ 63) \<le> n \<and> n < 2 ^ 63 then Inr (BInt n) else Inl BindOverflow)"
| "bind_value (VFloat f) = Inr (if f = NaN then BNull else BReal f)"
| "bind_value (VStr s) = Inr (BText s)"
| "bind_value (VList _) = Inl BindError"
| "bind_value (VDict _) = Inl BindError"

text \<open>The column of an INTEGER NOT NULL, a REAL NOT NULL, a REAL and a TEXT NOT NULL.\<close>

fun int_column :: "bound \<Rightarrow> db_exc + int" where
  "int_column (BInt n) = Inr n"
| "int_column BNull = Inl IntegrityErr"
| "int_column _ = Inl Unsupported"

fun real_column :: "bound \<Rightarrow> db_exc + pyfloat option" where
  "real_column (BInt n) = Inr (Some (Fin (of_int n)))"
| "real_column (BReal f) = Inr (Some f)"
| "real_column BNull = Inr None"
| "real_column (BText _) = Inl Unsupported"

definition real_not_null :: "bound \<Rightarrow> db_exc + pyfloat" where
  "real_not_null b =
     rbind (real_column b) (\<lambda>f. case f of None \<Rightarrow> Inl IntegrityErr | Some x \<Rightarrow> Inr x)"

fun text_column :: "bound \<Rightarrow> db_exc + string" where
  "text_column (BText s) = Inr s"
| "text_column BNull = Inl IntegrityErr"
| "text_column _ = Inl Unsupported"

definition entry_row :: "(pyval \<Rightarrow> string) \<Rightarrow> decision_entry \<Rightarrow> db_exc + journal_row" where
  "entry_row dumps e =
     rbind (bind_value (confidence e)) (\<lambda>bc.
     rbind (bind_value (max_acceptable_loss_pct e)) (\<lambda>bl.
     rbind (bind_value (emotional_state e)) (\<lambda>be.
     rbind (bind_value (outcome_30d e)) (\<lambda>b30.
     rbind (bind_value (outcome_90d e)) (\<lambda>b90.
     rbind (bind_value (outcome_180d e)) (\<lambda>b180.
     rbind (int_column bc) (\<lambda>c.
     rbind (real_not_null bl) (\<lambda>l.
     rbind (text_column be) (\<lambda>em.
     rbind (real_column b30) (\<lambda>o30.
     rbind (real_column b90) (\<lambda>o90.
     rbind (real_column b180) (\<lambda>o180.
     Inr \<lparr>j_entry_id = entry_id e, j_timestamp = timestamp e, j_action = action e,
          j_symbols = dumps (VList (symbols_affected e)), j_rationale = rationale e,
          j_alternatives = dumps (VList (alternatives_considered e)), j_thesis = thesis e,
          j_confidence = c, j_time_horizon = time_horizon e, j_wrong = what_could_go_wrong e,
          j_loss = l, j_emotional = em, j_context = market_context e, j_trigger = trigger e,
          j_30d = o30, j_90d = o90, j_180d = o180, j_notes = outcome_notes e,
          j_correct = map_option (\<lambda>b. if b then 1 else 0) (was_thesis_correct e)\<rparr>))))))))))))"

definition insert_journal_entry ::
  "(pyval \<Rightarrow> string) \<Rightarrow> decision_entry \<Rightarrow> db \<Rightarrow> (db_exc + decision_entry) \<times> db" where
  "insert_journal_entry dumps e d =
     transaction (stmt (\<lambda>d. rbind (entry_row dumps e) (\<lambda>r.
       case tbl_insert j_entry_id r (journal d) of
         None \<Rightarrow> Inl IntegrityErr
       | Some t \<Rightarrow> Inr (e, d\<lparr>journal := t\<rparr>)))) d"

text \<open>A JSON column read back: an empty text, invalid JSON or another value than a list is [].\<close>

definition json_list :: "(string \<Rightarrow> pyval option) \<Rightarrow> string \<Rightarrow> pyval list" where
  "json_list loads s =
     (case loads (if s = [] then ''[]'' else s) of Some (VList vs) \<Rightarrow> vs | _ \<Rightarrow> [])"

definition float_or_none :: "pyfloat option \<Rightarrow> pyval" where
  "float_or_none f = (case f of None \<Rightarrow> VNone | Some x \<Rightarrow> VFloat x)"

definition row_to_journal_entry ::
  "(string \<Rightarrow> pyval option) \<Rightarrow> journal_row \<Rightarrow> decision_entry" where
  "row_to_journal_entry loads r =
     \<lparr>entry_id = j_entry_id r, timestamp = j_timestamp r, action = j_action r,
      symbols_affected = json_list loads (j_symbols r), rationale = j_rationale r,
      alternatives_considered = json_list loads (j_alternatives r), thesis = j_thesis r,
      confidence = VInt (j_confidence r), time_horizon = j_time_horizon r,
      what_could_go_wrong = j_wrong r, max_acceptable_loss_pct = VFloat (j_loss r),
      emotional_state = VStr (if j_emotional r = [] then ''neutral'' else j_emotional r),
      market_context = j_context r, trigger = j_trigger r,
      outcome_30d = float_or_none (j_30d r), outcome_90d = float_or_none (j_90d r),
      outcome_180d = float_or_none (j_180d r), outcome_notes = j_notes r,
      was_thesis_correct = map_option (\<lambda>n. n \<noteq> 0) (j_correct r)\<rparr>"

definition get_journal_entry ::
  "(string \<Rightarrow> pyval option) \<Rightarrow> string \<Rightarrow> db \<Rightarrow> db_exc + decision_entry" where
  "get_journal_entry loads eid d =
     (case tbl_lookup j_entry_id (journal d) eid of
        None \<Rightarrow> Inl (NotFoundErr eid)
      | Some r \<Rightarrow> Inr (row_to_journal_entry loads r))"

text \<open>
  The index on the timestamp is scanned backwards, so rows of equal timestamps come newest row
  first; a negative LIMIT is no limit.
\<close>

definition get_journal_entries ::
  "(string \<Rightarrow> pyval option) \<Rightarrow> int \<Rightarrow> db \<Rightarrow> db_exc + decision_entry list" where
  "get_journal_entries loads limit d =
     (if limit < - (2 ^ 63) \<or> 2 ^ 63 \<le> limit then Inl BindOverflow
      else let rows = rev (sort_key j_timestamp (journal d))
           in Inr (map (row_to_journal_entry loads)
                (if limit < 0 then rows else take (nat limit) rows)))"

section \<open>Operations as steps\<close>

datatype db_op =
    InsertAccount account
  | DeleteAccount string
  | InsertPortfolio portfolio
  | DeletePortfolio string
  | InsertHolding holding
  | UpdateHolding string holding
  | DeleteHolding string
  | BulkInsert "holding list"
  | InsertEntry decision_entry
  | Initialize

definition drop_value :: "(db_exc + 'a) \<times> db \<Rightarrow> (db_exc + unit) \<times> db" where
  "drop_value r = (case fst r of Inl e \<Rightarrow> Inl e | Inr _ \<Rightarrow> Inr (), snd r)"

fun exec_op ::
  "(string \<Rightarrow> pyval option) \<Rightarrow> (pyval \<Rightarrow> string) \<Rightarrow> db_op \<Rightarrow> db \<Rightarrow> (db_exc + unit) \<times> db" where
  "exec_op loads dumps (InsertAccount a) d = drop_value (insert_account a d)"
| "exec_op loads dumps (DeleteAccount i) d = delete_account i d"
| "exec_op loads dumps (InsertPortfolio p) d = drop_value (insert_portfolio p d)"
| "exec_op loads dumps (DeletePortfolio i) d = delete_portfolio i d"
| "exec_op loads dumps (InsertHolding h) d = drop_value (insert_holding loads h d)"
| "exec_op loads dumps (UpdateHolding now h) d = drop_value (update_holding loads now h d)"
| "exec_op loads dumps (DeleteHolding i) d = delete_holding i d"
| "exec_op loads dumps (BulkInsert hs) d = drop_value (bulk_insert_holdings loads hs d)"
| "exec_op loads dumps (InsertEntry e) d = drop_value (insert_journal_entry dumps e d)"
| "exec_op loads dumps Initialize d = (Inr (), initialize d)"

inductive db_reachable ::
  "(string \<Rightarrow> pyval option) \<Rightarrow> (pyval \<Rightarrow> string) \<Rightarrow> db \<Rightarrow> bool"
  for loads dumps where
  start: "db_reachable loads dumps (initialize empty_db)"
| step: "db_reachable loads dumps d \<Longrightarrow> exec_op loads dumps op d = (r, d') \<Longrightarrow>
     db_reachable loads dumps d'"

end
