(* ===== verification/Db_Correct.thy ===== *)
theory Db_Correct
  imports Db
begin

text \<open>
  The correctness of \<^verbatim>\<open>analytics/pae/storage/db.py\<close>: the invariant of the reachable databases, the
  atomicity of every operation, and the functional behaviour of the operations and queries.
\<close>

section \<open>The invariant\<close>

definition row_ok :: "(string \<Rightarrow> pyval option) \<Rightarrow> holding_row \<Rightarrow> bool" where
  "row_ok loads r =
     (\<not> blank (h_symbol r) \<and> h_portfolio_id r \<noteq> [] \<and>
      h_account_id r \<noteq> Some [] \<and> \<not> has_nan r \<and>
      fl_le (Fin 0) (h_market_value r) \<and> fl_le (Fin 0) (h_quantity r) \<and>
      (\<exists>vs. loads (h_returns_json r) = Some (VList vs) \<and> list_all is_number vs))"

definition account_ok :: "account \<Rightarrow> bool" where
  "account_ok a = (acc_name a \<noteq> [] \<and> acc_type a \<in> set account_types)"

definition db_wf :: "(string \<Rightarrow> pyval option) \<Rightarrow> db \<Rightarrow> bool" where
  "db_wf loads d =
     (tbl_wf acc_id (accounts d) \<and> tbl_wf pf_id (portfolios d) \<and> tbl_wf h_id (holdings d) \<and>
      tbl_wf j_entry_id (journal d) \<and>
      list_all account_ok (accounts d) \<and> list_all (\<lambda>p. pf_name p \<noteq> []) (portfolios d) \<and>
      list_all (\<lambda>r. row_ok loads r \<and> fk_ok d r) (holdings d) \<and>
      SCHEMA_VERSION \<in> set (versions d))"

section \<open>Lemmas on the single statements\<close>

lemma of_row_to_row [simp]: "of_row (to_row h) = h"
  by (simp add: of_row_def to_row_def)

lemma tbl_insert_Some: "tbl_insert key r t = Some t' \<longleftrightarrow> key r \<notin> key ` set t \<and> t' = t @ [r]"
  by (auto simp: tbl_insert_def)

lemma first_not_number_None: "first_not_number i vs = None \<longleftrightarrow> list_all is_number vs"
  by (induction vs arbitrary: i) auto

lemma first_not_number_Some: "first_not_number i vs = Some k \<Longrightarrow> \<not> list_all is_number vs"
  by (metis first_not_number_None option.distinct(1))

lemma fk_ok_iff:
  "fk_ok d r \<longleftrightarrow> h_portfolio_id r \<in> pf_id ` set (portfolios d) \<and>
     (\<forall>a. h_account_id r = Some a \<longrightarrow> a \<in> acc_id ` set (accounts d))"
  by (auto simp: fk_ok_def split: option.splits)

lemma fl_le_zero: "x \<noteq> NaN \<Longrightarrow> fl_le (Fin 0) x \<longleftrightarrow> \<not> fl_lt x (Fin 0)"
  by (auto simp: fl_le_def)

lemma validate_holding_ok_iff:
  "validate_holding loads h = Inr () \<longleftrightarrow>
     \<not> blank (h_symbol h) \<and> h_portfolio_id h \<noteq> [] \<and>
     \<not> fl_lt (h_market_value h) (Fin 0) \<and> \<not> fl_lt (h_quantity h) (Fin 0) \<and>
     (\<exists>vs. loads (h_returns_json h) = Some (VList vs) \<and> list_all is_number vs)"
  by (auto simp: validate_holding_def first_not_number_None dest: first_not_number_Some
      split: option.splits pyval.splits if_splits)

lemma to_row_ok:
  assumes "validate_holding loads h = Inr u" and "\<not> has_nan (to_row h)"
  shows "row_ok loads (to_row h)"
  using assms(1) [unfolded old.unit.exhaust] validate_holding_ok_iff [of loads h] assms(2)
  by (auto simp: row_ok_def to_row_def has_nan_def fl_le_zero)

lemma to_row_id [simp]: "h_id (to_row h) = h_id h"
  by (simp add: to_row_def)

lemma sql_insert_holding_eq:
  "sql_insert_holding h d =
     (if has_nan (to_row h) \<or> \<not> fk_ok d (to_row h) \<or> h_id h \<in> h_id ` set (holdings d)
      then (Inl IntegrityErr, d)
      else (Inr (), d\<lparr>holdings := holdings d @ [to_row h]\<rparr>))"
  by (simp add: sql_insert_holding_def stmt_def Let_def tbl_insert_def)

lemma sql_insert_holding_Inr:
  "sql_insert_holding h d = (Inr u, d') \<longleftrightarrow>
     \<not> has_nan (to_row h) \<and> fk_ok d (to_row h) \<and> h_id h \<notin> h_id ` set (holdings d) \<and>
     d' = d\<lparr>holdings := holdings d @ [to_row h]\<rparr>"
  by (auto simp: sql_insert_holding_eq)

lemma sql_then_Inr:
  "sql_then m k d = (Inr b, d') \<longleftrightarrow> (\<exists>a d1. m d = (Inr a, d1) \<and> k a d1 = (Inr b, d'))"
  by (auto simp: sql_then_def split: prod.splits sum.splits)

lemma sql_inserts_error:
  "sql_insert_holdings hs d = (Inl e, d') \<Longrightarrow> e = IntegrityErr"
  by (induction hs arbitrary: d)
    (auto simp: sql_then_def sql_return_def sql_insert_holding_eq split: if_splits)

section \<open>Transactions\<close>

text \<open>After a transaction nothing is pending, and after a failed one the connection is as before,
  whatever statements its body had executed.\<close>

lemma run_transaction_settles:
  "run_transaction body (connected d) = (r, c) \<Longrightarrow>
     committed c = working c \<and> (\<forall>e. r = Inl e \<longrightarrow> c = connected d)"
  by (auto simp: sql_defs split: prod.splits sum.splits)

lemma transaction_failed: "transaction body d = (Inl e, d') \<Longrightarrow> d' = d"
  by (auto simp: sql_defs split: prod.splits sum.splits)

lemma transaction_failed_snd: "fst (transaction body d) = Inl e \<Longrightarrow> snd (transaction body d) = d"
  using transaction_failed [of body d e "snd (transaction body d)"] by (simp add: prod_eq_iff)

lemma transaction_eq:
  "transaction body d =
     (case body d of (Inl e, _) \<Rightarrow> (Inl e, d) | (Inr a, d') \<Rightarrow> (Inr a, d'))"
  by (simp add: sql_defs split: prod.splits sum.splits)

section \<open>The operations as functions of the state\<close>

lemma set_null_idem: "set_null i (set_null i r) = set_null i r"
  by (simp add: set_null_def)

lemma foldr_set_null:
  "\<forall>a \<in> set as. acc_id a = i \<Longrightarrow>
     foldr (\<lambda>a. set_null (acc_id a)) as r = (if as = [] then r else set_null i r)"
  by (induction as) (auto simp: set_null_idem)

lemma filter_key_Nil: "filter (\<lambda>r. key r = k) t = [] \<longleftrightarrow> k \<notin> key ` set t"
  by (auto simp: filter_empty_conv)

lemma insert_account_eq:
  "insert_account a d =
     (if acc_name a = [] then (Inl (ValidationErr AccountNameEmpty), d)
      else if acc_type a \<notin> set account_types
      then (Inl (ValidationErr (InvalidAccountType (acc_type a))), d)
      else if acc_id a \<in> acc_id ` set (accounts d) then (Inl IntegrityErr, d)
      else (Inr a, d\<lparr>accounts := accounts d @ [a]\<rparr>))"
  by (simp add: insert_account_def transaction_eq stmt_def tbl_insert_def)

lemma insert_portfolio_eq:
  "insert_portfolio p d =
     (if pf_name p = [] then (Inl (ValidationErr PortfolioNameEmpty), d)
      else if pf_id p \<in> pf_id ` set (portfolios d) then (Inl IntegrityErr, d)
      else (Inr p, d\<lparr>portfolios := portfolios d @ [p]\<rparr>))"
  by (simp add: insert_portfolio_def transaction_eq stmt_def tbl_insert_def)

lemma delete_account_eq:
  "delete_account i d =
     (if i \<notin> acc_id ` set (accounts d) then (Inl (NotFoundErr i), d)
      else (Inr (), d\<lparr>accounts := tbl_delete acc_id i (accounts d),
                      holdings := map (set_null i) (holdings d)\<rparr>))"
proof -
  let ?del = "filter (\<lambda>a. acc_id a = i) (accounts d)"
  have "foldr (\<lambda>a. set_null (acc_id a)) ?del r = (if ?del = [] then r else set_null i r)" for r
    by (rule foldr_set_null) simp
  then show ?thesis using filter_key_Nil [of acc_id i "accounts d"]
    by (simp add: delete_account_def sql_delete_account_def not_found_unless_def transaction_eq
        sql_then_def stmt_def sql_raise_def sql_return_def Let_def)
qed

lemma delete_portfolio_eq:
  "delete_portfolio i d =
     (if i \<notin> pf_id ` set (portfolios d) then (Inl (NotFoundErr i), d)
      else (Inr (), d\<lparr>portfolios := tbl_delete pf_id i (portfolios d),
                      holdings := filter (\<lambda>r. h_portfolio_id r \<noteq> i) (holdings d)\<rparr>))"
proof -
  let ?del = "filter (\<lambda>p. pf_id p = i) (portfolios d)"
  have "i \<in> pf_id ` set (portfolios d) \<Longrightarrow> pf_id ` set ?del = {i}" by auto
  then show ?thesis using filter_key_Nil [of pf_id i "portfolios d"]
    by (auto simp: delete_portfolio_def sql_delete_portfolio_def not_found_unless_def transaction_eq
        sql_then_def stmt_def sql_raise_def sql_return_def Let_def)
qed

lemma delete_holding_eq:
  "delete_holding i d =
     (if i \<notin> h_id ` set (holdings d) then (Inl (NotFoundErr i), d)
      else (Inr (), d\<lparr>holdings := tbl_delete h_id i (holdings d)\<rparr>))"
  using filter_key_Nil [of h_id i "holdings d"]
  by (simp add: delete_holding_def sql_delete_holding_def not_found_unless_def transaction_eq
      sql_then_def stmt_def sql_raise_def sql_return_def)

lemma insert_holding_eq:
  "insert_holding loads h d =
     (case validate_holding loads h of
        Inl e \<Rightarrow> (Inl e, d)
      | Inr _ \<Rightarrow>
          if has_nan (to_row h) \<or> \<not> fk_ok d (to_row h) \<or> h_id h \<in> h_id ` set (holdings d)
          then (Inl IntegrityErr, d)
          else (Inr h, d\<lparr>holdings := holdings d @ [to_row h]\<rparr>))"
  by (simp add: insert_holding_def transaction_eq sql_then_def sql_insert_holding_eq sql_return_def
      split: sum.split)

lemma update_holding_eq:
  "update_holding loads now h d =
     (case validate_holding loads h of
        Inl e \<Rightarrow> (Inl e, d)
      | Inr _ \<Rightarrow>
          let h' = h\<lparr>h_updated_at := now\<rparr>
          in if h_id h \<notin> h_id ` set (holdings d) then (Inl (NotFoundErr (h_id h)), d)
             else if has_nan h' then (Inl IntegrityErr, d)
             else (Inr h', d\<lparr>holdings := tbl_update h_id (h_id h) (set_columns h') (holdings d)\<rparr>))"
  using filter_key_Nil [of h_id "h_id h" "holdings d"]
  by (simp add: update_holding_def sql_update_holding_def not_found_unless_def transaction_eq
      sql_then_def stmt_def sql_raise_def sql_return_def Let_def split: sum.split)

lemma bulk_insert_eq:
  "bulk_insert_holdings loads hs d =
     (case traverse (validate_holding loads) hs of
        Inl e \<Rightarrow> (Inl e, d)
      | Inr _ \<Rightarrow> (case sql_insert_holdings hs d of
            (Inl e, _) \<Rightarrow> (Inl e, d)
          | (Inr _, d') \<Rightarrow> (Inr (length hs), d')))"
  by (simp add: bulk_insert_holdings_def transaction_eq sql_then_def sql_return_def
      split: sum.split prod.split)

lemma insert_journal_entry_eq:
  "insert_journal_entry dumps e d =
     (case entry_row dumps e of
        Inl x \<Rightarrow> (Inl x, d)
      | Inr r \<Rightarrow> if j_entry_id r \<in> j_entry_id ` set (journal d) then (Inl IntegrityErr, d)
                else (Inr e, d\<lparr>journal := journal d @ [r]\<rparr>))"
  by (simp add: insert_journal_entry_def transaction_eq stmt_def tbl_insert_def split: sum.split)

lemmas operation_eqs =
  insert_account_eq insert_portfolio_eq delete_account_eq delete_portfolio_eq delete_holding_eq
  insert_holding_eq update_holding_eq bulk_insert_eq insert_journal_entry_eq

lemma fk_ok_holdings [simp]: "fk_ok (d\<lparr>holdings := t\<rparr>) = fk_ok d"
  by (rule ext) (simp add: fk_ok_iff)

lemma fk_ok_journal [simp]: "fk_ok (d\<lparr>journal := t\<rparr>) = fk_ok d"
  by (rule ext) (simp add: fk_ok_iff)

lemma fk_ok_versions [simp]: "fk_ok (d\<lparr>versions := t\<rparr>) = fk_ok d"
  by (rule ext) (simp add: fk_ok_iff)

lemma tbl_wf_append: "tbl_wf key t \<Longrightarrow> key r \<notin> key ` set t \<Longrightarrow> tbl_wf key (t @ [r])"
  by (simp add: tbl_wf_def)

lemma tbl_wf_filter: "tbl_wf key t \<Longrightarrow> tbl_wf key (filter P t)"
  by (simp add: tbl_wf_def distinct_map_filter)

lemma tbl_wf_map: "(\<And>r. key (f r) = key r) \<Longrightarrow> tbl_wf key (map f t) = tbl_wf key t"
  by (simp add: tbl_wf_def comp_def)

section \<open>Each operation keeps the invariant\<close>

lemma wf_sql_insert:
  assumes "db_wf loads d" and "validate_holding loads h = Inr u" and "sql_insert_holding h d = (Inr x, d')"
  shows "db_wf loads d'"
  using assms to_row_ok [OF assms(2)]
  by (auto simp: sql_insert_holding_Inr db_wf_def tbl_wf_append)

lemma wf_sql_inserts:
  assumes "sql_insert_holdings hs d = (Inr (), d')" and "db_wf loads d"
    and "\<And>h. h \<in> set hs \<Longrightarrow> validate_holding loads h = Inr ()"
  shows "db_wf loads d'"
  using assms
proof (induction hs arbitrary: d)
  case (Cons h hs)
  from Cons.prems(1) obtain d1 where d1: "sql_insert_holding h d = (Inr (), d1)"
    and rest: "sql_insert_holdings hs d1 = (Inr (), d')" by (auto simp: sql_then_Inr)
  have "db_wf loads d1" by (rule wf_sql_insert [OF Cons.prems(2) Cons.prems(3) d1]) simp
  then show ?case by (rule Cons.IH [OF rest]) (simp add: Cons.prems(3))
qed (simp add: sql_return_def)

lemma wf_insert_account:
  "db_wf loads d \<Longrightarrow> db_wf loads (snd (insert_account a d))"
  by (auto simp: insert_account_eq db_wf_def account_ok_def
      tbl_wf_append list_all_iff fk_ok_iff split: option.splits)

lemma wf_insert_portfolio:
  "db_wf loads d \<Longrightarrow> db_wf loads (snd (insert_portfolio p d))"
  by (auto simp: insert_portfolio_eq db_wf_def
      tbl_wf_append list_all_iff fk_ok_iff split: option.splits)

lemma row_ok_set_null: "row_ok loads r \<Longrightarrow> row_ok loads (set_null i r)"
  by (auto simp: row_ok_def set_null_def has_nan_def)

lemma set_null_id [simp]: "h_id (set_null i r) = h_id r"
  by (simp add: set_null_def)

lemma fk_ok_set_null:
  "fk_ok d r \<Longrightarrow>
     fk_ok (d\<lparr>accounts := tbl_delete acc_id i (accounts d)\<rparr>) (set_null i r)"
  by (cases "h_account_id r = Some i") (auto simp: fk_ok_iff set_null_def tbl_delete_def)

lemma wf_delete_account:
  assumes "db_wf loads d"
  shows "db_wf loads (snd (delete_account i d))"
proof -
  let ?d' = "d\<lparr>accounts := tbl_delete acc_id i (accounts d), holdings := map (set_null i) (holdings d)\<rparr>"
  have "list_all (\<lambda>r. row_ok loads r \<and> fk_ok ?d' r) (holdings ?d')"
    using assms by (auto simp: db_wf_def list_all_iff row_ok_set_null fk_ok_set_null)
  then have "db_wf loads ?d'" using assms
    by (simp add: db_wf_def tbl.wf_delete tbl_wf_map) (auto simp: tbl_delete_def list_all_iff)
  with assms show ?thesis by (simp add: delete_account_eq)
qed

lemma wf_delete_portfolio:
  "db_wf loads d \<Longrightarrow> db_wf loads (snd (delete_portfolio i d))"
  by (auto simp: delete_portfolio_eq tbl_delete_def db_wf_def tbl_wf_filter
      list_all_iff fk_ok_iff)

lemma wf_insert_holding:
  assumes "db_wf loads d"
  shows "db_wf loads (snd (insert_holding loads h d))"
proof (cases "validate_holding loads h")
  case (Inr u)
  then show ?thesis
    using wf_sql_insert [OF assms Inr, of "()" "d\<lparr>holdings := holdings d @ [to_row h]\<rparr>"] assms
    by (auto simp: insert_holding_eq sql_insert_holding_Inr)
qed (use assms in \<open>simp add: insert_holding_eq\<close>)

lemma wf_bulk_insert:
  assumes "db_wf loads d"
  shows "db_wf loads (snd (bulk_insert_holdings loads hs d))"
proof (cases "traverse (validate_holding loads) hs")
  case (Inr us)
  then have v: "validate_holding loads h = Inr ()" if "h \<in> set hs" for h
    using that by (auto simp: traverse_Inr_iff list_all2_conv_all_nth in_set_conv_nth)
  show ?thesis
    using wf_sql_inserts [OF _ assms v] assms
    by (auto simp: bulk_insert_eq split: sum.splits prod.splits)
qed (use assms in \<open>simp add: bulk_insert_eq\<close>)

lemma set_columns_simps [simp]:
  "h_id (set_columns h r) = h_id r" "h_portfolio_id (set_columns h r) = h_portfolio_id r"
  "h_account_id (set_columns h r) = h_account_id r" "h_created_at (set_columns h r) = h_created_at r"
  by (simp_all add: set_columns_def)

lemma row_ok_set_columns:
  assumes "row_ok loads r" and "validate_holding loads h = Inr u" and "\<not> has_nan h"
  shows "row_ok loads (set_columns (h\<lparr>h_updated_at := t\<rparr>) r)"
  using assms validate_holding_ok_iff [of loads h]
  by (auto simp: row_ok_def set_columns_def has_nan_def fl_le_zero)

lemma has_nan_updated [simp]: "has_nan (h\<lparr>h_updated_at := t\<rparr>) = has_nan h"
  by (simp add: has_nan_def)

lemma wf_update_holding:
  assumes "db_wf loads d"
  shows "db_wf loads (snd (update_holding loads now h d))"
proof (cases "validate_holding loads h")
  case (Inr u)
  have fk: "fk_ok d (set_columns h' r) = fk_ok d r" for h' r by (simp add: fk_ok_iff)
  show ?thesis
    using assms Inr row_ok_set_columns [OF _ Inr, where t = now]
    by (auto simp: update_holding_eq Let_def db_wf_def tbl_wf_update
        list_all_iff tbl_update_def fk tbl_wf_map)
qed (use assms in \<open>simp add: update_holding_def\<close>)

lemma wf_delete_holding: "db_wf loads d \<Longrightarrow> db_wf loads (snd (delete_holding i d))"
  by (auto simp: delete_holding_eq tbl_delete_def db_wf_def tbl_wf_filter
      list_all_iff)

lemma entry_row_id: "entry_row dumps e = Inr r \<Longrightarrow> j_entry_id r = entry_id e"
  by (auto simp: entry_row_def)

lemma wf_insert_entry: "db_wf loads d \<Longrightarrow> db_wf loads (snd (insert_journal_entry dumps e d))"
  by (cases "entry_row dumps e")
    (auto simp: insert_journal_entry_eq db_wf_def tbl_wf_append)

lemma wf_initialize:
  assumes "db_wf loads d"
  shows "initialize d = d"
proof -
  have "versions d \<noteq> []" using assms by (auto simp: db_wf_def)
  moreover have "SCHEMA_VERSION \<le> Max (set (versions d))"
    using assms by (intro Max_ge) (auto simp: db_wf_def)
  ultimately show ?thesis by (simp add: initialize_def apply_migrations_def)
qed

lemma wf_exec: "db_wf loads d \<Longrightarrow> db_wf loads (snd (exec_op loads dumps op d))"
  by (cases op)
    (auto simp: drop_value_def wf_insert_account wf_delete_account wf_insert_portfolio
      wf_delete_portfolio wf_insert_holding wf_update_holding wf_delete_holding wf_bulk_insert
      wf_insert_entry wf_initialize simp del: One_nat_def)

lemma wf_start: "db_wf loads (initialize empty_db)"
  by (simp add: initialize_def apply_migrations_def empty_db_def db_wf_def tbl_wf_def
      SCHEMA_VERSION_def)

section \<open>Lemmas for the queries\<close>

lemma holdings_bulk:
  "sql_insert_holdings hs d = (Inr u, d') \<Longrightarrow> d' = d\<lparr>holdings := holdings d @ map to_row hs\<rparr>"
proof (induction hs arbitrary: d)
  case (Cons h hs)
  then obtain d1 where "sql_insert_holding h d = (Inr (), d1)"
    and "sql_insert_holdings hs d1 = (Inr u, d')" by (auto simp: sql_then_Inr)
  with Cons.IH [of d1] show ?case by (simp add: sql_insert_holding_Inr)
qed (simp add: sql_return_def)

lemma bulk_succeeds_iff:
  "(\<exists>d'. sql_insert_holdings hs d = (Inr (), d')) \<longleftrightarrow>
     (\<forall>h \<in> set hs. \<not> has_nan (to_row h) \<and> fk_ok d (to_row h) \<and> h_id h \<notin> h_id ` set (holdings d)) \<and>
     distinct (map h_id hs)"
proof (induction hs arbitrary: d)
  case (Cons h hs)
  let ?d1 = "d\<lparr>holdings := holdings d @ [to_row h]\<rparr>"
  have "(\<exists>d'. sql_insert_holdings (h # hs) d = (Inr (), d')) \<longleftrightarrow>
      \<not> has_nan (to_row h) \<and> fk_ok d (to_row h) \<and> h_id h \<notin> h_id ` set (holdings d) \<and>
      (\<exists>d'. sql_insert_holdings hs ?d1 = (Inr (), d'))"
    by (auto simp: sql_then_Inr sql_insert_holding_Inr)
  also note Cons.IH [of ?d1]
  finally show ?case by (auto simp: image_iff)
qed (simp add: sql_return_def)

lemma fl_sum_map_Fin:
  "list_all is_finite (map f xs) \<Longrightarrow> fl_sum (map f xs) = Fin (\<Sum>x\<leftarrow>xs. the_fin (f x))"
proof -
  assume "list_all is_finite (map f xs)"
  then have "map f xs = map Fin (map (\<lambda>x. the_fin (f x)) xs)"
    by (auto simp: list_all_iff)
  then show ?thesis by (simp only: fl_sum_Fin)
qed

definition engine_value :: "(string \<Rightarrow> pyval option) \<Rightarrow> real \<Rightarrow> holding \<Rightarrow> engine_holding" where
  "engine_value loads tot h =
     \<lparr>eh_symbol = h_symbol h, eh_weight = Fin (the_fin (h_market_value h) / tot),
      eh_returns = (case loads (h_returns_json h) of None \<Rightarrow> VList [] | Some v \<Rightarrow> v),
      eh_yield_pct = h_yield_pct h, eh_cost_basis = h_cost_basis h,
      eh_market_value = h_market_value h, eh_asset_class = h_asset_class h\<rparr>"

lemma traverse_engine_row:
  assumes "t \<noteq> 0" and "\<And>h. h \<in> set hs \<Longrightarrow> is_finite (h_market_value h)"
  shows "traverse (engine_row loads (Fin t)) hs = Inr (map (engine_value loads t) hs)"
  using assms(2)
proof (induction hs)
  case (Cons h hs)
  have "is_finite (h_market_value h)" by (simp add: Cons.prems)
  then obtain m where "h_market_value h = Fin m" by (auto simp: is_finite_iff)
  then have "engine_row loads (Fin t) h = Inr (engine_value loads t h)"
    using assms(1) by (simp add: engine_row_def engine_value_def)
  with Cons show ?case by simp
qed simp

lemma get_holdings_rows:
  "h \<in> set (get_holdings pid aid d) \<Longrightarrow> \<exists>r \<in> set (holdings d). h = of_row r"
  by (auto simp: get_holdings_def)

lemma of_row_simps [simp]:
  "h_id (of_row r) = h_id r" "h_market_value (of_row r) = h_market_value r"
  "h_symbol (of_row r) = h_symbol r" "h_portfolio_id (of_row r) = h_portfolio_id r"
  "h_created_at (of_row r) = h_created_at r" "h_returns_json (of_row r) = h_returns_json r"
  by (simp_all add: of_row_def)

lemma stored_value_nonneg:
  assumes "db_wf loads d" and "h \<in> set (get_holdings pid aid d)" and "is_finite (h_market_value h)"
  shows "0 \<le> the_fin (h_market_value h)"
proof -
  from assms(1,2) have "fl_le (Fin 0) (h_market_value h)"
    by (auto simp: get_holdings_def db_wf_def list_all_iff row_ok_def)
  with assms(3) show ?thesis by (auto simp: is_finite_iff)
qed

lemma total_zero_iff:
  assumes "\<And>h. h \<in> set hs \<Longrightarrow> is_finite (h_market_value h) \<and> 0 \<le> the_fin (h_market_value h)"
  shows "(\<Sum>h\<leftarrow>hs. the_fin (h_market_value h)) = 0 \<longleftrightarrow> (\<forall>h \<in> set hs. h_market_value h = Fin 0)"
proof -
  have "(\<Sum>h\<leftarrow>hs. the_fin (h_market_value h)) = 0 \<longleftrightarrow>
      (\<forall>x \<in> set (map (\<lambda>h. the_fin (h_market_value h)) hs). x = 0)"
    by (rule sum_list_nonneg_eq_0_iff) (auto simp: assms)
  also have "\<dots> \<longleftrightarrow> (\<forall>h \<in> set hs. h_market_value h = Fin 0)"
    using assms by (auto simp: is_finite_iff) force
  finally show ?thesis .
qed

lemma engine_weights:
  assumes "T = (\<Sum>h\<leftarrow>hs. the_fin (h_market_value h))" and "T \<noteq> 0"
  shows "fl_sum (map eh_weight (map (engine_value loads T) hs)) = Fin 1"
proof -
  have "map eh_weight (map (engine_value loads T) hs) =
      map Fin (map (\<lambda>h. the_fin (h_market_value h) / T) hs)"
    by (simp add: engine_value_def)
  then have "fl_sum (map eh_weight (map (engine_value loads T) hs)) =
      Fin (\<Sum>h\<leftarrow>hs. the_fin (h_market_value h) / T)" by (simp only: fl_sum_Fin)
  with assms show ?thesis by (simp add: sum_list_map_divide)
qed

section \<open>Lemmas for the journal\<close>

definition entry_numbers :: "decision_entry \<Rightarrow> pyval set" where
  "entry_numbers e =
     {confidence e, max_acceptable_loss_pct e, outcome_30d e, outcome_90d e, outcome_180d e}"

fun fits_int64 :: "pyval \<Rightarrow> bool" where
  "fits_int64 (VInt n) = (- (2 ^ 63) \<le> n \<and> n < 2 ^ 63)"
| "fits_int64 _ = True"

text \<open>A number as a REAL column gives it back.\<close>

fun stored_real :: "pyval \<Rightarrow> pyval" where
  "stored_real VNone = VNone"
| "stored_real v = VFloat (projr (to_float v))"

lemma real_column_bind:
  assumes "is_number v" and "to_float v = Inr (Fin x)" and "fits_int64 v"
  shows "\<exists>b. bind_value v = Inr b \<and> real_column b = Inr (Some (Fin x)) \<and>
    real_not_null b = Inr (Fin x) \<and> stored_real v = VFloat (Fin x)"
  using assms by (cases v) (auto simp: real_not_null_def split: if_splits)

lemma real_column_outcome:
  assumes "outcome_errors k v = Inr []" and "fits_int64 v"
  shows "\<exists>b c. bind_value v = Inr b \<and> real_column b = Inr c \<and> float_or_none c = stored_real v"
proof (cases "v = VNone")
  case False
  with assms(1) obtain x where "is_number v" and "to_float v = Inr (Fin x)"
    by (auto simp: outcome_errors_Nil)
  from real_column_bind [OF this assms(2)] show ?thesis by (auto simp: float_or_none_def)
qed (simp add: float_or_none_def)

lemma loss_column:
  assumes "loss_errors v = Inr []" and "fits_int64 v"
  shows "\<exists>b x. bind_value v = Inr b \<and> real_not_null b = Inr x \<and> VFloat x = stored_real v"
proof -
  from assms(1) obtain x where "is_number v" and "to_float v = Inr (Fin x)"
    by (auto simp: loss_errors_Nil)
  from real_column_bind [OF this assms(2)] show ?thesis by auto
qed

lemma confidence_column:
  assumes "confidence_errors v = []"
  shows "\<exists>b. bind_value v = Inr b \<and> int_column b = Inr (int_of v)"
  using assms by (cases v) (auto simp: confidence_errors_Nil)

lemma emotional_column:
  assumes "emotional_errors v = Inr []"
  shows "\<exists>s. v = VStr s \<and> s \<noteq> []"
proof (cases v)
  case (VStr s)
  with assms have "s \<in> set valid_emotional_states" by (simp split: if_splits)
  then have "s \<noteq> []" by (auto simp: valid_emotional_states_def)
  with VStr show ?thesis by simp
qed (use assms in auto)

lemma json_list_dumps:
  "dumps (VList vs) \<noteq> [] \<Longrightarrow> loads (dumps (VList vs)) = Some (VList vs) \<Longrightarrow>
     json_list loads (dumps (VList vs)) = vs"
  by (simp add: json_list_def)

lemma map_option_flag: "map_option (\<lambda>n. n \<noteq> (0::int)) (map_option (\<lambda>b. if b then 1 else 0) f) = f"
  by (cases f) auto

lemma validate_entry_columns:
  assumes "validate_entry e = Inr []" and fits: "\<forall>v \<in> entry_numbers e. fits_int64 v"
  shows "\<exists>r. entry_row dumps e = Inr r \<and> j_entry_id r = entry_id e \<and>
    ((\<forall>vs \<in> {symbols_affected e, alternatives_considered e}.
        dumps (VList vs) \<noteq> [] \<and> loads (dumps (VList vs)) = Some (VList vs)) \<longrightarrow>
      row_to_journal_entry loads r =
        e\<lparr>confidence := VInt (int_of (confidence e)),
           max_acceptable_loss_pct := stored_real (max_acceptable_loss_pct e),
           outcome_30d := stored_real (outcome_30d e), outcome_90d := stored_real (outcome_90d e),
           outcome_180d := stored_real (outcome_180d e)\<rparr>)"
proof -
  note v = assms(1) [unfolded validate_entry_Nil outcome_fields_def]
  note f = fits [unfolded entry_numbers_def]
  obtain bc where bc: "bind_value (confidence e) = Inr bc" "int_column bc = Inr (int_of (confidence e))"
    using confidence_column v by blast
  obtain bl l where bl: "bind_value (max_acceptable_loss_pct e) = Inr bl" "real_not_null bl = Inr l"
      "stored_real (max_acceptable_loss_pct e) = VFloat l"
    using loss_column [of "max_acceptable_loss_pct e"] v f by auto
  obtain s where s: "emotional_state e = VStr s" "s \<noteq> []" using emotional_column v by blast
  obtain b3 o3 where o3: "bind_value (outcome_30d e) = Inr b3" "real_column b3 = Inr o3"
      "stored_real (outcome_30d e) = float_or_none o3"
    using real_column_outcome [of _ "outcome_30d e"] v f by fastforce
  obtain b9 o9 where o9: "bind_value (outcome_90d e) = Inr b9" "real_column b9 = Inr o9"
      "stored_real (outcome_90d e) = float_or_none o9"
    using real_column_outcome [of _ "outcome_90d e"] v f by fastforce
  obtain b18 o18 where o18: "bind_value (outcome_180d e) = Inr b18" "real_column b18 = Inr o18"
      "stored_real (outcome_180d e) = float_or_none o18"
    using real_column_outcome [of _ "outcome_180d e"] v f by fastforce
  show ?thesis
    using s by (simp add: entry_row_def bc bl o3 o9 o18 row_to_journal_entry_def json_list_dumps
        map_option_flag)
qed

text \<open>
  Validation bounds the acceptable loss by the range of a double, binding by 64 bits: between the
  two a validated entry cannot be stored, and the OverflowError is not a DatabaseError.
\<close>

lemma validated_entry_may_not_bind:
  "validate_entry ((default_entry ''e'' ''t'')\<lparr>max_acceptable_loss_pct := VInt (2 ^ 63)\<rparr>) = Inr [] \<and>
   fst (insert_journal_entry dumps ((default_entry ''e'' ''t'')\<lparr>max_acceptable_loss_pct := VInt (2 ^ 63)\<rparr>) d) =
     Inl BindOverflow \<and> \<not> is_database_error BindOverflow"
  by (simp add: validate_entry_Nil confidence_errors_Nil loss_errors_def float_limit_def default_entry_def
      outcome_fields_def outcome_errors_def valid_emotional_states_def insert_journal_entry_eq
      entry_row_def)

section \<open>Properties\<close>

text \<open>C3: every database reached by any sequence of operations, failed ones included, is
  well-formed: identifiers are unique, every holding refers to an existing portfolio and to no or an
  existing account, and every stored row satisfies what its insertion validates.\<close>

theorem reachable_db_wf:
  assumes "db_reachable loads dumps d"
  shows "db_wf loads d"
  using assms
proof induction
  case start
  show ?case by (rule wf_start)
next
  case (step d op r d')
  then show ?case using wf_exec [of loads d dumps op] by simp
qed

lemma reachable_db_wf_witness:
  "db_wf (\<lambda>_. None) (snd (exec_op (\<lambda>_. None) (\<lambda>_. []) (DeletePortfolio ''p'') (initialize empty_db)))"
  by (rule reachable_db_wf, rule db_reachable.step [OF db_reachable.start], rule prod.collapse [symmetric])

text \<open>C12: a transaction leaves nothing pending, and one whose body raises, after whatever
  statements it has executed, leaves the connection as it was. Every operation of the store that
  raises therefore leaves the database as it was: a failed bulk insert keeps none of the rows
  inserted before the failing one.\<close>

theorem failed_op_unchanged:
  assumes "exec_op loads dumps op d = (Inl e, d')"
  shows "d' = d \<and>
    (\<forall>body r c. run_transaction (body :: unit sql) (connected d) = (r, c) \<longrightarrow>
       committed c = working c \<and> working c = (if isl r then d else snd (body d)))"
proof
  show "d' = d" using assms
    by (cases op)
      (auto simp: drop_value_def insert_account_def delete_account_def insert_portfolio_def
        delete_portfolio_def insert_holding_def update_holding_def delete_holding_def
        bulk_insert_holdings_def insert_journal_entry_def Let_def
        dest: transaction_failed transaction_failed_snd split: if_splits sum.splits prod.splits)
  show "\<forall>body r c. run_transaction (body :: unit sql) (connected d) = (r, c) \<longrightarrow>
      committed c = working c \<and> working c = (if isl r then d else snd (body d))"
    by (auto simp: sql_defs split: prod.splits sum.splits)
qed

definition sample_holding :: "string \<Rightarrow> string \<Rightarrow> string \<Rightarrow> real \<Rightarrow> holding" where
  "sample_holding i acc s v =
     \<lparr>h_id = i, h_portfolio_id = ''p'', h_account_id = acc, h_symbol = s, h_name = s,
      h_asset_class = ''equity'', h_quantity = Fin 1, h_market_value = Fin v, h_cost_basis = Fin 1,
      h_weight = Fin 0, h_yield_pct = Fin 0, h_currency = ''CAD'', h_returns_json = ''[]'',
      h_created_at = ''t0'', h_updated_at = ''t0''\<rparr>"

definition sample_db :: db where
  "sample_db =
     \<lparr>accounts = [\<lparr>acc_id = ''a'', acc_name = ''A'', acc_type = ''tfsa'', acc_broker = [],
                   acc_currency = ''CAD'', acc_created_at = ''t0''\<rparr>],
      portfolios = [\<lparr>pf_id = ''p'', pf_name = ''P'', pf_description = [], pf_created_at = ''t0'',
                     pf_updated_at = ''t0''\<rparr>],
      holdings = [to_row (sample_holding ''h1'' ''a'' ''XIU'' 30),
                  to_row (sample_holding ''h2'' [] ''BND'' 10)],
      journal = [], versions = [2]\<rparr>"

definition sample_loads :: "string \<Rightarrow> pyval option" where
  "sample_loads s = (if s = ''[]'' then Some (VList []) else None)"

text \<open>The first row of this bulk insert is inserted before the second one fails on its key.\<close>

lemma failed_op_unchanged_witness:
  "snd (sql_insert_holdings [sample_holding ''h3'' [] ''GLD'' 5, sample_holding ''h1'' [] ''GLD'' 5]
     sample_db) \<noteq> sample_db \<and>
   snd (exec_op sample_loads (\<lambda>_. []) (BulkInsert [sample_holding ''h3'' [] ''GLD'' 5,
     sample_holding ''h1'' [] ''GLD'' 5]) sample_db) = sample_db"
proof -
  let ?hs = "[sample_holding ''h3'' [] ''GLD'' 5, sample_holding ''h1'' [] ''GLD'' 5]"
  have "blank ''GLD'' = False" by (simp add: blank_iff is_ws_def code_of_def)
  then have v: "traverse (validate_holding sample_loads) ?hs = Inr [(), ()]"
    by (simp add: sample_holding_def sample_loads_def validate_holding_def)
  have ins: "sql_insert_holdings ?hs sample_db =
      (Inl IntegrityErr, sample_db\<lparr>holdings := holdings sample_db @ [to_row (hd ?hs)]\<rparr>)"
    by (simp add: sql_then_def sql_insert_holding_eq sample_db_def sample_holding_def to_row_def
        has_nan_def fk_ok_def)
  from v ins have "exec_op sample_loads (\<lambda>_. []) (BulkInsert ?hs) sample_db =
      (Inl IntegrityErr, snd (exec_op sample_loads (\<lambda>_. []) (BulkInsert ?hs) sample_db))"
    by (simp add: bulk_insert_eq drop_value_def)
  from failed_op_unchanged [OF this] have
    "snd (exec_op sample_loads (\<lambda>_. []) (BulkInsert ?hs) sample_db) = sample_db" by blast
  with ins show ?thesis by (simp add: sample_db_def)
qed

text \<open>C13: a bulk insert stores all of its holdings, in order, or none: it succeeds exactly when every
  holding is valid, has no NaN, refers to existing rows and has a fresh identifier, and then returns
  their number.\<close>

lemma bulk_insert_all_or_nothing:
  "bulk_insert_holdings loads hs d =
     (if (\<forall>h \<in> set hs. validate_holding loads h = Inr () \<and> \<not> has_nan (to_row h) \<and>
            fk_ok d (to_row h) \<and> h_id h \<notin> h_id ` set (holdings d)) \<and> distinct (map h_id hs)
      then (Inr (length hs), d\<lparr>holdings := holdings d @ map to_row hs\<rparr>)
      else (Inl (projl (fst (bulk_insert_holdings loads hs d))), d))"
proof -
  have v: "(\<exists>us. traverse (validate_holding loads) hs = Inr us) \<longleftrightarrow>
      (\<forall>h \<in> set hs. validate_holding loads h = Inr ())"
    by (induction hs) auto
  show ?thesis
  proof (cases "traverse (validate_holding loads) hs")
    case (Inl e)
    then show ?thesis using v by (auto simp: bulk_insert_holdings_def)
  next
    case (Inr us)
    with v have val: "\<forall>h \<in> set hs. validate_holding loads h = Inr ()" by blast
    obtain q w where w: "sql_insert_holdings hs d = (q, w)" by (cases "sql_insert_holdings hs d")
    show ?thesis
    proof (cases q)
      case (Inl e)
      with w show ?thesis using bulk_succeeds_iff [of hs d] Inr
        by (auto simp: bulk_insert_eq)
    next
      case (Inr u)
      with w have w: "sql_insert_holdings hs d = (Inr (), w)" by simp
      then show ?thesis
        using bulk_succeeds_iff [of hs d] holdings_bulk [OF w] val
          \<open>traverse (validate_holding loads) hs = Inr us\<close>
        by (auto simp: bulk_insert_eq)
    qed
  qed
qed

lemma bulk_insert_all_or_nothing_witness:
  "fst (bulk_insert_holdings sample_loads [sample_holding ''h3'' [] ''GLD'' 5] sample_db) = Inr 1"
proof -
  have "blank ''GLD'' = False" by (simp add: blank_iff is_ws_def code_of_def)
  then show ?thesis
    by (subst bulk_insert_all_or_nothing)
      (simp add: sample_db_def sample_holding_def sample_loads_def validate_holding_def to_row_def
        has_nan_def fk_ok_def)
qed

text \<open>What a successful insertion stores is read back unchanged by its identifier (an empty
  account included, though it is stored as NULL), and no other holding is affected.\<close>

lemma insert_holding_roundtrip:
  assumes "insert_holding loads h d = (Inr h', d')"
  shows "h' = h \<and> get_holding_by_id i d' = (if i = h_id h then Inr h else get_holding_by_id i d)"
proof -
  have "h' = h" and d': "d' = d\<lparr>holdings := holdings d @ [to_row h]\<rparr>"
    and "tbl_lookup h_id (holdings d) (h_id h) = None"
    using assms by (auto simp: insert_holding_eq tbl_lookup_None split: sum.splits if_splits)
  then have "tbl_lookup h_id (holdings d') i =
      (if i = h_id h then Some (to_row h) else tbl_lookup h_id (holdings d) i)"
    by (auto simp: tbl_lookup_append split: option.splits)
  with \<open>h' = h\<close> show ?thesis by (simp add: get_holding_by_id_def)
qed

lemma insert_holding_roundtrip_witness:
  "get_holding_by_id ''h3'' (snd (insert_holding sample_loads (sample_holding ''h3'' [] ''GLD'' 5)
     sample_db)) = Inr (sample_holding ''h3'' [] ''GLD'' 5)"
proof -
  let ?h = "sample_holding ''h3'' [] ''GLD'' 5"
  have "blank ''GLD'' = False" by (simp add: blank_iff is_ws_def code_of_def)
  then have "insert_holding sample_loads ?h sample_db = (Inr ?h, sample_db\<lparr>holdings := holdings sample_db @ [to_row ?h]\<rparr>)"
    by (simp add: sample_db_def sample_holding_def sample_loads_def insert_holding_eq
        validate_holding_def to_row_def has_nan_def fk_ok_def)
  from insert_holding_roundtrip [OF this, of "''h3''"] this show ?thesis
    by (simp add: sample_holding_def)
qed

text \<open>A successful update changes the row of its identifier and no other, and never its
  portfolio, its account or its creation time: the row read back has those of the old row, whatever
  the argument and the returned object say.\<close>

lemma update_holding_frame:
  assumes "update_holding loads now h d = (Inr h', d')"
  shows "\<exists>old. get_holding_by_id (h_id h) d = Inr old \<and>
    get_holding_by_id i d' =
      (if i = h_id h
       then Inr (h\<lparr>h_portfolio_id := h_portfolio_id old, h_account_id := h_account_id old,
                   h_created_at := h_created_at old, h_updated_at := now\<rparr>)
       else get_holding_by_id i d)"
proof -
  from assms have mem: "h_id h \<in> h_id ` set (holdings d)"
    and d': "d' = d\<lparr>holdings := tbl_update h_id (h_id h) (set_columns (h\<lparr>h_updated_at := now\<rparr>)) (holdings d)\<rparr>"
    by (auto simp: update_holding_eq Let_def split: sum.splits if_splits)
  from mem obtain r where r: "tbl_lookup h_id (holdings d) (h_id h) = Some r"
    using tbl_lookup_None [of h_id "holdings d" "h_id h"] by (cases "tbl_lookup h_id (holdings d) (h_id h)") auto
  then have "h_id r = h_id h" by (rule tbl.lookup_key)
  have "tbl_lookup h_id (holdings d') i = (if i = h_id h
      then Some (set_columns (h\<lparr>h_updated_at := now\<rparr>) r) else tbl_lookup h_id (holdings d) i)"
    using r by (simp add: d' tbl_lookup_update)
  with r \<open>h_id r = h_id h\<close> show ?thesis
    by (intro exI [where x = "of_row r"])
      (simp add: get_holding_by_id_def of_row_def set_columns_def)
qed

lemma update_holding_frame_witness:
  "get_holding_by_id ''h1'' (snd (update_holding sample_loads ''t1''
     (sample_holding ''h1'' [] ''XIU'' 99) sample_db)) =
     Inr ((sample_holding ''h1'' ''a'' ''XIU'' 99)\<lparr>h_updated_at := ''t1''\<rparr>)"
proof -
  let ?h = "sample_holding ''h1'' [] ''XIU'' 99"
  have "blank ''XIU'' = False" by (simp add: blank_iff is_ws_def code_of_def)
  then have "fst (update_holding sample_loads ''t1'' ?h sample_db) = Inr (?h\<lparr>h_updated_at := ''t1''\<rparr>)"
    by (simp add: sample_db_def sample_holding_def sample_loads_def update_holding_eq
        validate_holding_def to_row_def has_nan_def Let_def)
  then have "update_holding sample_loads ''t1'' ?h sample_db =
      (Inr (?h\<lparr>h_updated_at := ''t1''\<rparr>), snd (update_holding sample_loads ''t1'' ?h sample_db))"
    by (simp add: prod_eq_iff)
  from update_holding_frame [OF this, of "''h1''"] show ?thesis
    by (auto simp: sample_db_def sample_holding_def get_holding_by_id_def tbl_lookup_def to_row_def
        of_row_def)
qed

lemma get_holdings_filter:
  "get_holdings None None (d\<lparr>holdings := filter (\<lambda>r. P (of_row r)) (holdings d)\<rparr>) =
     filter P (get_holdings None None d)"
  by (simp add: get_holdings_def filter_ok_def filter_map comp_def filter_sort)

text \<open>A holding as the queries return it once its account is gone.\<close>

definition detach :: "string \<Rightarrow> holding \<Rightarrow> holding" where
  "detach i h = (if h_account_id h = i then h\<lparr>h_account_id := []\<rparr> else h)"

lemma of_row_set_null:
  "h_account_id r \<noteq> Some [] \<Longrightarrow> of_row (set_null i r) = detach i (of_row r)"
  by (cases "h_account_id r") (auto simp: of_row_def set_null_def detach_def)

lemma get_holdings_detach:
  assumes "db_wf loads d"
  shows "get_holdings None None (d\<lparr>holdings := map (set_null i) (holdings d)\<rparr>) =
    map (detach i) (get_holdings None None d)"
proof -
  have "h_symbol (set_null i r) = h_symbol r" for r by (simp add: set_null_def)
  moreover have "of_row (set_null i r) = detach i (of_row r)" if "r \<in> set (holdings d)" for r
    using assms that by (intro of_row_set_null) (auto simp: db_wf_def list_all_iff row_ok_def)
  ultimately show ?thesis
    by (simp add: get_holdings_def filter_ok_def sort_key_map comp_def)
qed

lemma detach_absent:
  assumes "db_wf loads d" and "i \<notin> acc_id ` set (accounts d)"
  shows "map (detach i) (get_holdings None None d) = get_holdings None None d"
proof (rule map_idI)
  fix h assume "h \<in> set (get_holdings None None d)"
  then obtain r where r: "r \<in> set (holdings d)" "h = of_row r" using get_holdings_rows by blast
  with assms have "h_account_id r \<noteq> Some i" by (auto simp: db_wf_def list_all_iff fk_ok_iff)
  with r(2) show "detach i h = h" by (cases "h_account_id r") (auto simp: detach_def of_row_def)
qed

lemma cascade_absent:
  assumes "db_wf loads d" and "i \<notin> pf_id ` set (portfolios d)"
  shows "filter (\<lambda>h. h_portfolio_id h \<noteq> i) (get_holdings None None d) = get_holdings None None d"
  using assms by (auto simp: filter_id_conv db_wf_def list_all_iff fk_ok_iff dest: get_holdings_rows)

lemma delete_portfolio_queries:
  assumes "db_wf loads d" and "delete_portfolio pid d = (r, d')"
  shows "r = (if pid \<in> pf_id ` set (get_portfolios d) then Inr () else Inl (NotFoundErr pid)) \<and>
    get_portfolios d' = filter (\<lambda>p. pf_id p \<noteq> pid) (get_portfolios d) \<and>
    get_holdings None None d' = filter (\<lambda>h. h_portfolio_id h \<noteq> pid) (get_holdings None None d) \<and>
    accounts d' = accounts d \<and> journal d' = journal d \<and> versions d' = versions d"
proof (cases "pid \<in> pf_id ` set (portfolios d)")
  case True
  with assms(2) show ?thesis
    using get_holdings_filter [where d = d and P = "\<lambda>h. h_portfolio_id h \<noteq> pid"]
    by (auto simp: delete_portfolio_eq get_portfolios_def tbl_delete_def filter_sort get_holdings_def)
next
  case False
  with assms(2) have "r = Inl (NotFoundErr pid)" "d' = d" by (auto simp: delete_portfolio_eq)
  with False cascade_absent [OF assms(1) False] show ?thesis
    by (auto simp: get_portfolios_def filter_id_conv intro: filter_True [symmetric])
qed

lemma delete_account_queries:
  assumes "db_wf loads d" and "delete_account aid d = (r, d')"
  shows "r = (if aid \<in> acc_id ` set (get_accounts d) then Inr () else Inl (NotFoundErr aid)) \<and>
    get_accounts d' = filter (\<lambda>a. acc_id a \<noteq> aid) (get_accounts d) \<and>
    get_holdings None None d' = map (detach aid) (get_holdings None None d) \<and>
    portfolios d' = portfolios d \<and> journal d' = journal d \<and> versions d' = versions d"
proof (cases "aid \<in> acc_id ` set (accounts d)")
  case True
  with assms(2) show ?thesis
    using get_holdings_detach [OF assms(1), of aid]
    by (auto simp: delete_account_eq get_accounts_def tbl_delete_def filter_sort get_holdings_def)
next
  case False
  with assms(2) have "r = Inl (NotFoundErr aid)" "d' = d" by (auto simp: delete_account_eq)
  with False detach_absent [OF assms(1) False] show ?thesis
    by (auto simp: get_accounts_def filter_id_conv intro: filter_True [symmetric])
qed

text \<open>C14: over a well-formed database, what the queries return after a deletion. Deleting a
  portfolio takes it from the portfolios and its holdings from the holdings; deleting an account takes
  it from the accounts and leaves every holding in its place, those of the account without an account
  and all others as they were. An unknown identifier is reported and nothing changes, and no deletion
  touches another table.\<close>

theorem delete_cascades:
  assumes "db_wf loads d"
  shows
    "(case delete_portfolio pid d of (r, d') \<Rightarrow>
        r = (if pid \<in> pf_id ` set (get_portfolios d) then Inr () else Inl (NotFoundErr pid)) \<and>
        get_portfolios d' = filter (\<lambda>p. pf_id p \<noteq> pid) (get_portfolios d) \<and>
        get_holdings None None d' =
          filter (\<lambda>h. h_portfolio_id h \<noteq> pid) (get_holdings None None d) \<and>
        accounts d' = accounts d \<and> journal d' = journal d \<and> versions d' = versions d) \<and>
     (case delete_account aid d of (r, d') \<Rightarrow>
        r = (if aid \<in> acc_id ` set (get_accounts d) then Inr () else Inl (NotFoundErr aid)) \<and>
        get_accounts d' = filter (\<lambda>a. acc_id a \<noteq> aid) (get_accounts d) \<and>
        get_holdings None None d' =
          map (\<lambda>h. if h_account_id h = aid then h\<lparr>h_account_id := []\<rparr> else h)
            (get_holdings None None d) \<and>
        portfolios d' = portfolios d \<and> journal d' = journal d \<and> versions d' = versions d)"
  using delete_portfolio_queries [OF assms prod.collapse [symmetric], of pid]
    delete_account_queries [OF assms prod.collapse [symmetric], of aid]
  unfolding detach_def [abs_def] by (simp add: case_prod_unfold)

text \<open>The list of holdings is sorted by symbol and consists of exactly the rows that the given
  filters select.\<close>

lemma get_holdings_sorted_selection:
  "sorted (map h_symbol (get_holdings pid aid d)) \<and>
   mset (get_holdings pid aid d) =
     image_mset of_row (filter_mset (\<lambda>r. (pid \<in> {None, Some []} \<or> pid = Some (h_portfolio_id r)) \<and>
       (aid \<in> {None, Some []} \<or> aid = h_account_id r)) (mset (holdings d)))"
proof -
  have f: "filter_ok f v \<longleftrightarrow> f \<in> {None, Some []} \<or> f = v" for f v
    by (auto simp: filter_ok_def split: option.splits list.splits)
  show ?thesis by (simp add: get_holdings_def comp_def f flip: mset_filter)
qed

text \<open>Over a well-formed database whose market values are finite, the holdings for the engine
  are one per holding of the portfolio, with non-negative weights that sum to one, or none when the
  total is zero; the division never raises.\<close>

lemma engine_weights_sum_to_one:
  assumes wf: "db_wf loads d"
    and fin: "\<forall>h \<in> set (get_holdings (Some pid) None d). is_finite (h_market_value h)"
  shows "\<exists>es. get_holdings_for_engine loads pid d = Inr es \<and>
    (es = [] \<longleftrightarrow> (\<forall>h \<in> set (get_holdings (Some pid) None d). h_market_value h = Fin 0)) \<and>
    (es \<noteq> [] \<longrightarrow> map eh_symbol es = map h_symbol (get_holdings (Some pid) None d) \<and>
       fl_sum (map eh_weight es) = Fin 1 \<and> (\<forall>e \<in> set es. fl_le (Fin 0) (eh_weight e)))"
proof -
  let ?hs = "get_holdings (Some pid) None d"
  define T where "T = (\<Sum>h\<leftarrow>?hs. the_fin (h_market_value h))"
  have nn: "0 \<le> the_fin (h_market_value h)" if "h \<in> set ?hs" for h
    using stored_value_nonneg [OF wf that] fin that by blast
  have tot: "fl_sum (map h_market_value ?hs) = Fin T"
    unfolding T_def by (rule fl_sum_map_Fin) (use fin in \<open>simp add: list_all_iff\<close>)
  have T0: "T = 0 \<longleftrightarrow> (\<forall>h \<in> set ?hs. h_market_value h = Fin 0)"
    unfolding T_def by (rule total_zero_iff) (use fin nn in blast)
  have "0 \<le> T" unfolding T_def by (rule sum_list_map_nonneg) (rule nn)
  show ?thesis
  proof (cases "T = 0")
    case True
    then have "get_holdings_for_engine loads pid d = Inr []"
      by (simp add: get_holdings_for_engine_def tot Let_def)
    with True T0 show ?thesis by simp
  next
    case False
    then have "?hs \<noteq> []" by (auto simp: T_def)
    with False \<open>0 \<le> T\<close> fin
    have "get_holdings_for_engine loads pid d = Inr (map (engine_value loads T) ?hs)"
      by (simp add: get_holdings_for_engine_def tot Let_def traverse_engine_row)
    with engine_weights [OF T_def False] False T0 \<open>?hs \<noteq> []\<close> \<open>0 \<le> T\<close> nn show ?thesis
      by (intro exI [where x = "map (engine_value loads T) ?hs"]) (auto simp: engine_value_def comp_def)
  qed
qed

lemma sample_db_wf: "db_wf sample_loads sample_db"
proof -
  have "blank ''XIU'' = False" and "blank ''BND'' = False"
    by (simp_all add: blank_iff is_ws_def code_of_def)
  then show ?thesis
    by (simp add: db_wf_def sample_db_def tbl_wf_def account_ok_def account_types_def row_ok_def
        fk_ok_def to_row_def sample_holding_def has_nan_def sample_loads_def SCHEMA_VERSION_def)
qed

lemma delete_cascades_witness:
  "get_holdings None None (snd (delete_account ''a'' sample_db)) =
     [sample_holding ''h2'' [] ''BND'' 10, sample_holding ''h1'' [] ''XIU'' 30]"
proof -
  have "get_holdings None None sample_db =
      [sample_holding ''h2'' [] ''BND'' 10, sample_holding ''h1'' ''a'' ''XIU'' 30]"
    by (simp add: get_holdings_def sample_db_def sample_holding_def filter_ok_def to_row_def
        of_row_def)
  with delete_cascades [OF sample_db_wf, of "[]" "''a''"] show ?thesis
    by (auto simp: sample_holding_def split: prod.splits)
qed

lemma engine_weights_sum_to_one_witness:
  "\<exists>es. get_holdings_for_engine sample_loads ''p'' sample_db = Inr es \<and> es \<noteq> [] \<and>
     fl_sum (map eh_weight es) = Fin 1"
proof -
  have "\<forall>h \<in> set (get_holdings (Some ''p'') None sample_db). is_finite (h_market_value h)"
    and "\<exists>h \<in> set (get_holdings (Some ''p'') None sample_db). h_market_value h \<noteq> Fin 0"
    by (simp_all add: get_holdings_def sample_db_def sample_holding_def filter_ok_def to_row_def
        of_row_def)
  with engine_weights_sum_to_one [OF sample_db_wf this(1)] show ?thesis by blast
qed

text \<open>A validated journal entry with a new identifier whose numbers fit in 64 bits and whose
  lists survive JSON is stored, and read back with every text, list and flag unchanged and its
  numbers as the column types represent them.\<close>

lemma journal_roundtrip:
  assumes valid: "validate_entry e = Inr []"
    and fresh: "entry_id e \<notin> j_entry_id ` set (journal d)"
    and fits: "\<forall>v \<in> entry_numbers e. fits_int64 v"
    and json: "\<forall>vs \<in> {symbols_affected e, alternatives_considered e}.
      dumps (VList vs) \<noteq> [] \<and> loads (dumps (VList vs)) = Some (VList vs)"
  shows "\<exists>d'. insert_journal_entry dumps e d = (Inr e, d') \<and>
    get_journal_entry loads (entry_id e) d' =
      Inr (e\<lparr>confidence := VInt (int_of (confidence e)),
             max_acceptable_loss_pct := stored_real (max_acceptable_loss_pct e),
             outcome_30d := stored_real (outcome_30d e), outcome_90d := stored_real (outcome_90d e),
             outcome_180d := stored_real (outcome_180d e)\<rparr>)"
proof -
  note v = validate_entry_columns [OF valid fits]
  from v obtain r where r: "entry_row dumps e = Inr r" and id: "j_entry_id r = entry_id e"
    and read: "(\<forall>vs \<in> {symbols_affected e, alternatives_considered e}.
        dumps (VList vs) \<noteq> [] \<and> loads (dumps (VList vs)) = Some (VList vs)) \<longrightarrow>
      row_to_journal_entry loads r =
        e\<lparr>confidence := VInt (int_of (confidence e)),
           max_acceptable_loss_pct := stored_real (max_acceptable_loss_pct e),
           outcome_30d := stored_real (outcome_30d e), outcome_90d := stored_real (outcome_90d e),
           outcome_180d := stored_real (outcome_180d e)\<rparr>"
    by blast
  from fresh have "tbl_lookup j_entry_id (journal d) (entry_id e) = None"
    by (simp add: tbl_lookup_None)
  with r id fresh read json show ?thesis
    by (simp add: insert_journal_entry_eq get_journal_entry_def
        tbl_lookup_append)
qed

lemma journal_roundtrip_witness:
  "\<exists>d'. insert_journal_entry (\<lambda>_. ''[]'') (default_entry ''e'' ''t'') sample_db =
     (Inr (default_entry ''e'' ''t''), d') \<and>
   get_journal_entry sample_loads ''e'' d' = Inr (default_entry ''e'' ''t'')"
proof -
  let ?e = "default_entry ''e'' ''t''"
  have "validate_entry ?e = Inr []"
    by (simp add: validate_entry_Nil confidence_errors_Nil loss_errors_def default_entry_def
        outcome_fields_def outcome_errors_def valid_emotional_states_def)
  moreover have "entry_id ?e \<notin> j_entry_id ` set (journal sample_db)" by (simp add: sample_db_def)
  moreover have "\<forall>v \<in> entry_numbers ?e. fits_int64 v"
    by (simp add: entry_numbers_def default_entry_def)
  moreover have "\<forall>vs \<in> {symbols_affected ?e, alternatives_considered ?e}.
      (\<lambda>_::pyval. ''[]'') (VList vs) \<noteq> [] \<and>
      sample_loads ((\<lambda>_. ''[]'') (VList vs)) = Some (VList vs)"
    by (simp add: default_entry_def sample_loads_def)
  ultimately show ?thesis
    using journal_roundtrip [of ?e sample_db "\<lambda>_. ''[]''" sample_loads]
    by (simp add: default_entry_def)
qed

end
