(* ===== verification/Return_Series.thy ===== *)
theory Return_Series
  imports Db_Correct
begin

text \<open>
  The return series of \<^verbatim>\<open>analytics/pae/server.py\<close>: the weighted period returns of a portfolio, the
  cumulative growth and the drawdown, and the series endpoint that composes them.
\<close>

section \<open>_portfolio_period_returns\<close>

datatype series_exc = Http nat | Py py_exc

definition lift_py :: "py_exc + 'a \<Rightarrow> series_exc + 'a" where
  "lift_py r = (case r of Inl e \<Rightarrow> Inl (Py e) | Inr a \<Rightarrow> Inr a)"

definition clean_returns :: "pyval \<Rightarrow> py_exc + pyfloat list" where
  "clean_returns v =
     rbind (iter_value v) (\<lambda>vs.
       traverse to_float (filter (\<lambda>r. is_number r \<and> r \<noteq> VFloat NaN) vs))"

text \<open>The loop over the holdings: the series and the weight of every holding that has returns.\<close>

fun collect_series ::
  "(string \<Rightarrow> pyval option) \<Rightarrow> pyfloat \<Rightarrow> holding list \<Rightarrow> py_exc + (pyfloat list \<times> pyfloat) list" where
  "collect_series loads tot [] = Inr []"
| "collect_series loads tot (h # hs) =
     rbind (clean_returns (case loads (h_returns_json h) of None \<Rightarrow> VList [] | Some v \<Rightarrow> v)) (\<lambda>clean.
       if clean = [] then collect_series loads tot hs
       else rbind (fl_div (h_market_value h) tot) (\<lambda>w.
            rbind (collect_series loads tot hs) (\<lambda>rest. Inr ((clean, w) # rest))))"

definition last_n :: "nat \<Rightarrow> 'a list \<Rightarrow> 'a list" where
  "last_n n xs = drop (length xs - n) xs"

definition weighted_period :: "(pyfloat list \<times> pyfloat) list \<Rightarrow> pyfloat \<Rightarrow> nat \<Rightarrow> py_exc + pyfloat" where
  "weighted_period tails wsum t =
     fl_div (fl_sum (map (\<lambda>(s, w). fl_mul (s ! t) w) tails)) wsum"

definition combine_series :: "(pyfloat list \<times> pyfloat) list \<Rightarrow> py_exc + (pyfloat list \<times> nat)" where
  "combine_series sw =
     (let n = Min (set (map (length \<circ> fst) sw));
          tails = map (\<lambda>(s, w). (last_n n s, w)) sw;
          wsum = fl_sum (map snd sw)
      in rbind (traverse (weighted_period tails wsum) [0..<n]) (\<lambda>ps. Inr (ps, n)))"

definition portfolio_period_returns ::
  "(string \<Rightarrow> pyval option) \<Rightarrow> string \<Rightarrow> db \<Rightarrow> series_exc + (pyfloat list \<times> nat)" where
  "portfolio_period_returns loads pid d =
     (let hs = get_holdings (Some pid) None d;
          tot = fl_sum (map h_market_value hs)
      in if hs = [] then Inl (Http 404)
         else if fl_le tot (Fin 0) then Inl (Http 404)
         else rbind (lift_py (collect_series loads tot hs)) (\<lambda>sw.
              if sw = [] then Inl (Http 422) else lift_py (combine_series sw)))"

section \<open>Growth and drawdown\<close>

fun growth_from :: "pyfloat \<Rightarrow> pyfloat list \<Rightarrow> pyfloat list" where
  "growth_from value [] = []"
| "growth_from value (r # rs) =
     (let v = fl_mul value (fl_add (Fin 1) r) in v # growth_from v rs)"

definition cumulative_growth :: "pyfloat list \<Rightarrow> pyfloat list" where
  "cumulative_growth rs = growth_from (Fin 1) rs"

fun drawdown_from :: "pyfloat \<Rightarrow> pyfloat list \<Rightarrow> py_exc + pyfloat list" where
  "drawdown_from peak [] = Inr []"
| "drawdown_from peak (v # vs) =
     (let peak' = (if fl_lt peak v then v else peak)
      in rbind (if peak' = Fin 0 then Inr (Fin 0) else fl_div (fl_sub v peak') peak') (\<lambda>x.
         rbind (drawdown_from peak' vs) (\<lambda>xs. Inr (x # xs))))"

definition drawdown_series :: "pyfloat list \<Rightarrow> py_exc + pyfloat list" where
  "drawdown_series cumulative =
     drawdown_from (case cumulative of [] \<Rightarrow> Fin 1 | v # _ \<Rightarrow> v) cumulative"

record series_response =
  sr_n_periods :: nat
  sr_period_returns :: "pyfloat list"
  sr_cumulative :: "pyfloat list"
  sr_drawdown :: "pyfloat list"

definition portfolio_series ::
  "(string \<Rightarrow> pyval option) \<Rightarrow> string \<Rightarrow> db \<Rightarrow> series_exc + series_response" where
  "portfolio_series loads pid d =
     rbind (portfolio_period_returns loads pid d) (\<lambda>(ps, n).
       let cumulative = cumulative_growth ps
       in rbind (lift_py (drawdown_series cumulative)) (\<lambda>dd.
          Inr \<lparr>sr_n_periods = n, sr_period_returns = ps, sr_cumulative = cumulative, sr_drawdown = dd\<rparr>))"

section \<open>Lemmas: the weighted mean\<close>

lemma length_last_n: "n \<le> length xs \<Longrightarrow> length (last_n n xs) = n"
  by (simp add: last_n_def)

lemma set_last_n: "set (last_n n xs) \<subseteq> set xs"
  by (simp add: last_n_def set_drop_subset)

lemma last_n_map: "last_n n (map f xs) = map f (last_n n xs)"
  by (simp add: last_n_def drop_map)

text \<open>The finite view of the collected series.\<close>

lemma weighted_mean_between:
  fixes w x :: "'a \<Rightarrow> real"
  assumes "\<And>a. a \<in> set as \<Longrightarrow> 0 \<le> w a \<and> lo \<le> x a \<and> x a \<le> hi"
    and "0 < (\<Sum>a\<leftarrow>as. w a)"
  shows "lo \<le> (\<Sum>a\<leftarrow>as. x a * w a) / (\<Sum>a\<leftarrow>as. w a) \<and>
    (\<Sum>a\<leftarrow>as. x a * w a) / (\<Sum>a\<leftarrow>as. w a) \<le> hi"
proof -
  have "lo * (\<Sum>a\<leftarrow>as. w a) \<le> (\<Sum>a\<leftarrow>as. x a * w a) \<and> (\<Sum>a\<leftarrow>as. x a * w a) \<le> hi * (\<Sum>a\<leftarrow>as. w a)"
    using assms(1)
  proof (induction as)
    case (Cons a as)
    have "lo * w a \<le> x a * w a" "x a * w a \<le> hi * w a"
      using Cons.prems [of a] by (auto intro: mult_right_mono)
    with Cons show ?case by (simp add: algebra_simps)
  qed simp
  with assms(2) show ?thesis by (simp add: pos_le_divide_eq pos_divide_le_eq)
qed

definition fin_series :: "(real list \<times> real) list \<Rightarrow> (pyfloat list \<times> pyfloat) list" where
  "fin_series sw = map (\<lambda>a. (map Fin (fst a), Fin (snd a))) sw"

lemma traverse_cong: "xs = ys \<Longrightarrow> (\<And>x. x \<in> set ys \<Longrightarrow> f x = g x) \<Longrightarrow> traverse f xs = traverse g ys"
  by (induction xs arbitrary: ys) auto

lemma traverse_Inr_map: "(\<And>x. x \<in> set xs \<Longrightarrow> f x = Inr (g x)) \<Longrightarrow> traverse f xs = Inr (map g xs)"
  by (induction xs) auto

lemma combine_parts:
  fixes sw :: "(real list \<times> real) list"
  defines "n \<equiv> Min (set (map (length \<circ> fst) sw))"
  shows "combine_series (fin_series sw) =
    rbind (traverse (\<lambda>t. fl_div (Fin (\<Sum>a\<leftarrow>sw. last_n n (fst a) ! t * snd a)) (Fin (sum_list (map snd sw))))
      [0..<n]) (\<lambda>ps. Inr (ps, n))"
proof -
  have n': "Min (set (map (length \<circ> fst) (fin_series sw))) = n"
    by (simp add: n_def fin_series_def comp_def)
  have le: "n \<le> length (fst a)" if "a \<in> set sw" for a
    unfolding n_def using that by (intro Min_le) auto
  have ws: "fl_sum (map snd (fin_series sw)) = Fin (sum_list (map snd sw))"
    using fl_sum_Fin [of "map snd sw"] by (simp add: fin_series_def comp_def)
  have wp: "weighted_period (map (\<lambda>(s, w). (last_n n s, w)) (fin_series sw)) W t =
      fl_div (Fin (\<Sum>a\<leftarrow>sw. last_n n (fst a) ! t * snd a)) W" if "t \<in> set [0..<n]" for t W
  proof -
    have "map (\<lambda>(s, w). fl_mul (s ! t) w) (map (\<lambda>(s, w). (last_n n s, w)) (fin_series sw)) =
        map Fin (map (\<lambda>a. last_n n (fst a) ! t * snd a) sw)"
      using that le by (auto simp: fin_series_def last_n_map length_last_n)
    then show ?thesis by (simp only: weighted_period_def fl_sum_Fin)
  qed
  have "traverse (weighted_period (map (\<lambda>(s, w). (last_n n s, w)) (fin_series sw)) W) [0..<n] =
      traverse (\<lambda>t. fl_div (Fin (\<Sum>a\<leftarrow>sw. last_n n (fst a) ! t * snd a)) W) [0..<n]" for W
    by (rule traverse_cong [OF refl]) (rule wp)
  then show ?thesis by (simp only: combine_series_def Let_def n' ws)
qed

lemma combine_bounds:
  assumes res: "combine_series (fin_series rw) = Inr (ps, n)" and "rw \<noteq> []"
    and rw: "\<And>a. a \<in> set rw \<Longrightarrow> fst a \<noteq> [] \<and> 0 \<le> snd a \<and> (\<forall>x \<in> set (fst a). lo \<le> x \<and> x \<le> hi)"
  shows "0 < n \<and> length ps = n \<and> (\<forall>p \<in> set ps. \<exists>x. p = Fin x \<and> lo \<le> x \<and> x \<le> hi)"
proof -
  define W where "W = sum_list (map snd rw)"
  define f where "f t = (\<Sum>a\<leftarrow>rw. last_n n (fst a) ! t * snd a)" for t
  from res have n: "n = Min (set (map (length \<circ> fst) rw))"
    and tr: "traverse (\<lambda>t. fl_div (Fin (f t)) (Fin W)) [0..<n] = Inr ps"
    unfolding combine_parts f_def W_def by auto
  have le: "n \<le> length (fst a)" if "a \<in> set rw" for a
    unfolding n using that by (intro Min_le) auto
  have "0 < n" unfolding n using rw \<open>rw \<noteq> []\<close> by (subst Min_gr_iff) auto
  have "W \<noteq> 0"
  proof
    assume "W = 0"
    with tr \<open>0 < n\<close> show False by (cases n) (simp_all add: upt_conv_Cons del: upt_Suc)
  qed
  moreover have "0 \<le> W" unfolding W_def using rw by (intro sum_list_map_nonneg) auto
  ultimately have "0 < W" by simp
  have ps: "ps = map (\<lambda>t. Fin (f t / W)) [0..<n]"
    using tr \<open>W \<noteq> 0\<close> by (simp add: traverse_Inr_map [where g = "\<lambda>t. Fin (f t / W)"])
  have "lo \<le> f t / W \<and> f t / W \<le> hi" if "t < n" for t
    unfolding f_def W_def
  proof (rule weighted_mean_between)
    fix a assume a: "a \<in> set rw"
    have "last_n n (fst a) ! t \<in> set (fst a)"
      using set_last_n length_last_n [OF le [OF a]] that nth_mem by (metis subsetD)
    with rw [OF a] show "0 \<le> snd a \<and> lo \<le> last_n n (fst a) ! t \<and> last_n n (fst a) ! t \<le> hi" by blast
  qed (use \<open>0 < W\<close> in \<open>simp add: W_def\<close>)
  with ps \<open>0 < n\<close> show ?thesis by auto
qed

lemma clean_returns_finite:
  assumes "clean_returns v = Inr c"
    and "\<And>vs r f. v = VList vs \<Longrightarrow> r \<in> set vs \<Longrightarrow> to_float r = Inr f \<Longrightarrow> f \<noteq> NaN \<Longrightarrow>
      is_finite f \<and> lo \<le> the_fin f \<and> the_fin f \<le> hi"
  shows "\<forall>f \<in> set c. is_finite f \<and> lo \<le> the_fin f \<and> the_fin f \<le> hi"
proof
  fix f assume f: "f \<in> set c"
  from assms(1) obtain vs where vs: "iter_value v = Inr vs"
    and tr: "traverse to_float (filter (\<lambda>r. is_number r \<and> r \<noteq> VFloat NaN) vs) = Inr c"
    by (auto simp: clean_returns_def)
  from tr [unfolded traverse_Inr_iff] f obtain r where
    r: "r \<in> set vs" "is_number r" "r \<noteq> VFloat NaN" "to_float r = Inr f"
    by (auto simp: list_all2_conv_all_nth in_set_conv_nth [of f]) (metis (mono_tags, lifting) mem_Collect_eq nth_mem set_filter)
  have "f \<noteq> NaN" by (cases r) (use r in \<open>auto split: if_splits\<close>)
  moreover have "v = VList vs" by (cases v) (use vs r in auto)
  ultimately show "is_finite f \<and> lo \<le> the_fin f \<and> the_fin f \<le> hi" using assms(2) r by blast
qed

lemma collect_series_sound:
  assumes "collect_series loads (Fin T) hs = Inr sw" and "0 < T"
    and "\<And>h. h \<in> set hs \<Longrightarrow> is_finite (h_market_value h) \<and> 0 \<le> the_fin (h_market_value h)"
    and "\<And>h vs r f. h \<in> set hs \<Longrightarrow> loads (h_returns_json h) = Some (VList vs) \<Longrightarrow> r \<in> set vs \<Longrightarrow>
      to_float r = Inr f \<Longrightarrow> f \<noteq> NaN \<Longrightarrow> is_finite f \<and> lo \<le> the_fin f \<and> the_fin f \<le> hi"
  shows "\<exists>rw. sw = fin_series rw \<and>
    (\<forall>(s, w) \<in> set rw. s \<noteq> [] \<and> 0 \<le> w \<and> (\<forall>x \<in> set s. lo \<le> x \<and> x \<le> hi))"
  using assms(1,3,4)
proof (induction hs arbitrary: sw)
  case Nil
  then show ?case by (intro exI [where x = "[]"]) (simp add: fin_series_def)
next
  case (Cons h hs)
  let ?v = "case loads (h_returns_json h) of None \<Rightarrow> VList [] | Some v \<Rightarrow> v"
  from Cons.prems(1) obtain c where c: "clean_returns ?v = Inr c" by auto
  have cf: "\<forall>f \<in> set c. is_finite f \<and> lo \<le> the_fin f \<and> the_fin f \<le> hi"
    by (rule clean_returns_finite [OF c]) (use Cons.prems(3) [of h] in \<open>auto split: option.splits\<close>)
  have IH: "\<exists>rw. sw' = fin_series rw \<and>
      (\<forall>(s, w) \<in> set rw. s \<noteq> [] \<and> 0 \<le> w \<and> (\<forall>x \<in> set s. lo \<le> x \<and> x \<le> hi))"
    if "collect_series loads (Fin T) hs = Inr sw'" for sw'
  proof (rule Cons.IH [OF that])
    show "is_finite (h_market_value k) \<and> 0 \<le> the_fin (h_market_value k)" if "k \<in> set hs" for k
      using Cons.prems(2) [of k] that by simp
    show "is_finite f \<and> lo \<le> the_fin f \<and> the_fin f \<le> hi"
      if "k \<in> set hs" "loads (h_returns_json k) = Some (VList vs)" "r \<in> set vs" "to_float r = Inr f"
        "f \<noteq> NaN" for k vs r f
      using Cons.prems(3) [of k vs r f] that by simp
  qed
  show ?case
  proof (cases "c = []")
    case True
    with Cons.prems(1) c have "collect_series loads (Fin T) hs = Inr sw" by simp
    then show ?thesis by (rule IH)
  next
    case False
    obtain m where m: "h_market_value h = Fin m" "0 \<le> m"
      using Cons.prems(2) [of h] by (auto simp: is_finite_iff)
    with Cons.prems(1) c False \<open>0 < T\<close> obtain sw' where
      "collect_series loads (Fin T) hs = Inr sw'" and sw: "sw = (c, Fin (m / T)) # sw'" by auto
    from IH [OF this(1)] obtain rw where rw: "sw' = fin_series rw"
      "\<forall>(s, w) \<in> set rw. s \<noteq> [] \<and> 0 \<le> w \<and> (\<forall>x \<in> set s. lo \<le> x \<and> x \<le> hi)" by blast
    have "map Fin (map the_fin c) = c" using cf by (simp add: map_idI)
    then have "sw = fin_series ((map the_fin c, m / T) # rw)"
      by (simp add: sw rw(1) fin_series_def del: map_map)
    moreover have "0 \<le> m / T" using m \<open>0 < T\<close> by simp
    ultimately show ?thesis using rw(2) cf False
      by (intro exI [where x = "(map the_fin c, m / T) # rw"]) auto
  qed
qed

section \<open>Lemmas: growth and drawdown\<close>

lemma growth_from_Fin:
  "growth_from (Fin v) (map Fin rs) = map Fin (map (\<lambda>k. v * (\<Prod>r\<leftarrow>take (Suc k) rs. 1 + r)) [0..<length rs])"
proof (induction rs arbitrary: v)
  case (Cons r rs)
  have "[0..<length (r # rs)] = 0 # map Suc [0..<length rs]"
    by (simp add: upt_conv_Cons map_Suc_upt del: upt_Suc)
  then show ?case using Cons [of "v * (1 + r)"] by (simp add: comp_def mult.assoc del: upt_Suc)
qed simp

lemma prod_list_pos: "(\<And>x. x \<in> set xs \<Longrightarrow> 0 < f x) \<Longrightarrow> 0 < (\<Prod>x\<leftarrow>xs. f x)" for f :: "'a \<Rightarrow> real"
  by (induction xs) auto

lemma drawdown_from_pos:
  assumes "0 < p" and "\<forall>v \<in> set vs. 0 < v"
  shows "\<exists>ds. drawdown_from (Fin p) (map Fin vs) = Inr (map Fin ds) \<and> length ds = length vs \<and>
    (\<forall>k < length vs. ds ! k = vs ! k / Max (insert p (set (take (Suc k) vs))) - 1)"
  using assms
proof (induction vs arbitrary: p)
  case (Cons v vs)
  define q where "q = max p v"
  have q: "0 < q" "(if p < v then v else p) = q" using Cons.prems by (auto simp: q_def)
  obtain ds where ds: "drawdown_from (Fin q) (map Fin vs) = Inr (map Fin ds)" "length ds = length vs"
    "\<forall>k < length vs. ds ! k = vs ! k / Max (insert q (set (take (Suc k) vs))) - 1"
    using Cons.IH [OF q(1)] Cons.prems by auto
  have "drawdown_from (Fin p) (map Fin (v # vs)) = Inr (map Fin (((v - q) / q) # ds))"
    using q ds(1) by (auto simp: fl_sub_def Let_def split: if_splits)
  moreover have "(((v - q) / q) # ds) ! k = (v # vs) ! k / Max (insert p (set (take (Suc k) (v # vs)))) - 1"
    if "k < length (v # vs)" for k
  proof (cases k)
    case 0
    then show ?thesis using q by (simp add: q_def diff_divide_distrib)
  next
    case (Suc j)
    have "Max (insert p (insert v (set (take (Suc j) vs)))) = Max (insert q (set (take (Suc j) vs)))"
      by (cases "set (take (Suc j) vs) = {}") (simp_all add: q_def max.assoc)
    with Suc that ds(3) show ?thesis by simp
  qed
  ultimately show ?case using ds(2) by (intro exI [where x = "((v - q) / q) # ds"]) auto
qed simp

section \<open>Properties\<close>

text \<open>When the period returns of a well-formed portfolio are computed, there is at least one
  period, one return per period, and each is a weighted mean: it lies within whatever bounds hold
  for the returns recorded by the portfolio's holdings.\<close>

lemma period_returns_are_means:
  assumes wf: "db_wf loads d"
    and fin: "\<forall>h \<in> set (get_holdings (Some pid) None d). is_finite (h_market_value h)"
    and rets: "\<forall>h \<in> set (get_holdings (Some pid) None d). \<forall>vs. loads (h_returns_json h) = Some (VList vs) \<longrightarrow>
      (\<forall>r \<in> set vs. \<forall>f. to_float r = Inr f \<and> f \<noteq> NaN \<longrightarrow> is_finite f \<and> lo \<le> the_fin f \<and> the_fin f \<le> hi)"
    and res: "portfolio_period_returns loads pid d = Inr (ps, n)"
  shows "0 < n \<and> length ps = n \<and> (\<forall>p \<in> set ps. \<exists>x. p = Fin x \<and> lo \<le> x \<and> x \<le> hi)"
proof -
  let ?hs = "get_holdings (Some pid) None d"
  define T where "T = (\<Sum>h\<leftarrow>?hs. the_fin (h_market_value h))"
  have tot: "fl_sum (map h_market_value ?hs) = Fin T"
    unfolding T_def by (rule fl_sum_map_Fin) (use fin in \<open>simp add: list_all_iff\<close>)
  from res obtain sw where T: "0 < T" and sw: "collect_series loads (Fin T) ?hs = Inr sw" "sw \<noteq> []"
    and comb: "combine_series sw = Inr (ps, n)"
    by (auto simp: portfolio_period_returns_def Let_def tot lift_py_def split: if_splits sum.splits)
  have "\<exists>rw. sw = fin_series rw \<and>
    (\<forall>(s, w) \<in> set rw. s \<noteq> [] \<and> 0 \<le> w \<and> (\<forall>x \<in> set s. lo \<le> x \<and> x \<le> hi))"
    by (rule collect_series_sound [OF sw(1) T]) (use fin stored_value_nonneg [OF wf] rets in blast)+
  then obtain rw where rw: "sw = fin_series rw"
    "\<And>s w. (s, w) \<in> set rw \<Longrightarrow> s \<noteq> [] \<and> 0 \<le> w \<and> (\<forall>x \<in> set s. lo \<le> x \<and> x \<le> hi)" by blast
  show ?thesis by (rule combine_bounds [OF comb [unfolded rw(1)]]) (use rw sw(2) in \<open>force simp: fin_series_def\<close>)+
qed

definition series_holding :: "string \<Rightarrow> real \<Rightarrow> string \<Rightarrow> holding" where
  "series_holding i v rs = (sample_holding i [] ''XIU'' v)\<lparr>h_returns_json := rs\<rparr>"

definition series_loads :: "string \<Rightarrow> pyval option" where
  "series_loads s =
     (if s = ''[]'' then Some (VList []) else if s = ''[2]'' then Some (VList [VInt 2]) else None)"

definition series_db :: "holding list \<Rightarrow> db" where
  "series_db hs = sample_db\<lparr>holdings := map to_row hs\<rparr>"

lemmas series_eval = series_db_def series_holding_def series_loads_def sample_db_def
  sample_holding_def get_holdings_def filter_ok_def of_row_def to_row_def

lemma period_returns_are_means_witness:
  "portfolio_period_returns series_loads ''p'' (series_db [series_holding ''h'' 30 ''[2]'']) = Inr ([Fin 2], 1) \<and>
   (\<exists>x. Fin 2 = Fin x \<and> 2 \<le> x \<and> x \<le> (2 :: real))"
proof -
  let ?d = "series_db [series_holding ''h'' 30 ''[2]'']"
  have "blank ''XIU'' = False" by (simp add: blank_iff is_ws_def code_of_def)
  then have wf: "db_wf series_loads ?d"
    by (simp add: series_eval db_wf_def tbl_wf_def account_ok_def account_types_def row_ok_def
        fk_ok_def has_nan_def SCHEMA_VERSION_def)
  have res: "portfolio_period_returns series_loads ''p'' ?d = Inr ([Fin 2], 1)"
    by (simp add: series_eval portfolio_period_returns_def fl_sum_def lift_py_def clean_returns_def
        combine_series_def weighted_period_def last_n_def float_limit_def)
  have fin: "\<forall>h \<in> set (get_holdings (Some ''p'') None ?d). is_finite (h_market_value h)"
    by (simp add: series_eval)
  have "\<forall>h \<in> set (get_holdings (Some ''p'') None ?d). \<forall>vs. series_loads (h_returns_json h) = Some (VList vs) \<longrightarrow>
      (\<forall>r \<in> set vs. \<forall>f. to_float r = Inr f \<and> f \<noteq> NaN \<longrightarrow> is_finite f \<and> 2 \<le> the_fin f \<and> the_fin f \<le> 2)"
    by (auto simp: series_eval split: if_splits)
  from period_returns_are_means [OF wf fin this res] res show ?thesis by auto
qed

text \<open>
  The weights are normalised over the holdings that have returns. When all the market value lies in
  holdings without returns, their total is zero and the division raises: the request fails with
  an unhandled exception in place of the 422 for unusable series.
\<close>

lemma zero_weight_series_raises:
  "portfolio_period_returns series_loads ''p''
     (series_db [series_holding ''h1'' 0 ''[2]'', series_holding ''h2'' 30 ''[]'']) =
   Inl (Py ZeroDivisionError)"
  by (simp add: series_eval portfolio_period_returns_def fl_sum_def lift_py_def clean_returns_def
      combine_series_def weighted_period_def last_n_def float_limit_def)

text \<open>C30: for period returns above minus one, the growth after a period is the product of the gross
  returns so far, and the drawdown there is its relative distance to the running maximum: above -1,
  at most 0, and 0 exactly where the growth is at its maximum so far; nothing is divided by zero.\<close>

theorem growth_and_drawdown:
  assumes "\<forall>r \<in> set rs. -1 < r"
  shows "\<exists>cs ds. cumulative_growth (map Fin rs) = map Fin cs \<and>
    drawdown_series (map Fin cs) = Inr (map Fin ds) \<and> length cs = length rs \<and> length ds = length rs \<and>
    (\<forall>k < length rs. cs ! k = (\<Prod>r\<leftarrow>take (Suc k) rs. 1 + r) \<and>
       ds ! k = cs ! k / Max (set (take (Suc k) cs)) - 1 \<and> -1 < ds ! k \<and> ds ! k \<le> 0 \<and>
       (ds ! k = 0 \<longleftrightarrow> cs ! k = Max (set (take (Suc k) cs))))"
proof -
  define cs where "cs = map (\<lambda>k. \<Prod>r\<leftarrow>take (Suc k) rs. 1 + r) [0..<length rs]"
  have growth: "cumulative_growth (map Fin rs) = map Fin cs"
    unfolding cumulative_growth_def growth_from_Fin cs_def by simp
  have pos: "\<forall>c \<in> set cs. 0 < c"
  proof -
    have "0 < (\<Prod>r\<leftarrow>take (Suc k) rs. 1 + r)" for k
      by (rule prod_list_pos) (use assms in_set_takeD in fastforce)
    then show ?thesis by (auto simp: cs_def)
  qed
  define p where "p = (case cs of [] \<Rightarrow> 1 | c # _ \<Rightarrow> c)"
  have "0 < p" using pos by (cases cs) (auto simp: p_def)
  from drawdown_from_pos [OF this pos] obtain ds where
    ds: "drawdown_from (Fin p) (map Fin cs) = Inr (map Fin ds)" "length ds = length cs"
    and val: "\<forall>k < length cs. ds ! k = cs ! k / Max (insert p (set (take (Suc k) cs))) - 1" by blast
  have dd: "drawdown_series (map Fin cs) = Inr (map Fin ds)"
    using ds(1) by (cases cs) (simp_all add: drawdown_series_def p_def)
  have at: "ds ! k = cs ! k / M - 1 \<and> -1 < ds ! k \<and> ds ! k \<le> 0 \<and> (ds ! k = 0 \<longleftrightarrow> cs ! k = M)"
    if "k < length cs" and M: "M = Max (set (take (Suc k) cs))" for k M
  proof -
    have "insert p (set (take (Suc k) cs)) = set (take (Suc k) cs)"
      using that by (cases cs) (auto simp: p_def)
    moreover have "cs ! k \<in> set (take (Suc k) cs)" using that by (auto simp: in_set_conv_nth)
    then have "cs ! k \<le> M" by (simp add: M)
    moreover have "0 < cs ! k" using pos that by simp
    ultimately show ?thesis using val that by (auto simp: M divide_le_eq)
  qed
  have len: "length cs = length rs" by (simp add: cs_def)
  have "\<forall>k < length rs. cs ! k = (\<Prod>r\<leftarrow>take (Suc k) rs. 1 + r) \<and>
       ds ! k = cs ! k / Max (set (take (Suc k) cs)) - 1 \<and> -1 < ds ! k \<and> ds ! k \<le> 0 \<and>
       (ds ! k = 0 \<longleftrightarrow> cs ! k = Max (set (take (Suc k) cs)))"
  proof (intro allI impI)
    fix k assume "k < length rs"
    then have "cs ! k = (\<Prod>r\<leftarrow>take (Suc k) rs. 1 + r)" and k: "k < length cs"
      by (simp_all add: cs_def)
    with at [OF k refl] show "cs ! k = (\<Prod>r\<leftarrow>take (Suc k) rs. 1 + r) \<and>
       ds ! k = cs ! k / Max (set (take (Suc k) cs)) - 1 \<and> -1 < ds ! k \<and> ds ! k \<le> 0 \<and>
       (ds ! k = 0 \<longleftrightarrow> cs ! k = Max (set (take (Suc k) cs)))" by blast
  qed
  moreover have "length ds = length rs" using ds(2) len by simp
  ultimately show ?thesis using growth dd len by blast
qed

lemma growth_and_drawdown_witness:
  "\<exists>ds. drawdown_series (cumulative_growth (map Fin [1, -1/2])) = Inr (map Fin ds) \<and>
     length ds = 2 \<and> ds ! 1 \<le> 0 \<and> -1 < ds ! 1"
proof -
  have "\<forall>r \<in> set [1, -1/2 :: real]. -1 < r" by simp
  from growth_and_drawdown [OF this] show ?thesis by fastforce
qed

end
