(* ===== verification/Guard.thy ===== *)
theory Guard
  imports Prelude
begin

text \<open>
  The loopback guard of \<^verbatim>\<open>analytics/pae/server.py\<close>: the hostname of an authority, the loopback
  test (with the string parsers of the standard library's \<open>ipaddress\<close> that it relies on), the
  origin test and the ASGI middleware that decides whether a request reaches the application.
\<close>

section \<open>ipaddress\<close>

text \<open>\<open>IPv4Address(s)\<close>: four octets of ASCII digits without leading zeros.\<close>

definition parse_octet :: "string \<Rightarrow> nat option" where
  "parse_octet s =
     (if s = [] \<or> \<not> list_all is_digit s \<or> length s > 3 \<or> (s \<noteq> ''0'' \<and> hd s = CHR ''0'')
         \<or> parse_dec s > 255
      then None else Some (parse_dec s))"

definition parse_ipv4 :: "string \<Rightarrow> nat option" where
  "parse_ipv4 s =
     (case split_on CHR ''.'' s of
        [a, b, c, d] \<Rightarrow>
          (case (parse_octet a, parse_octet b, parse_octet c, parse_octet d) of
             (Some w, Some x, Some y, Some z) \<Rightarrow> Some (((w * 256 + x) * 256 + y) * 256 + z)
           | _ \<Rightarrow> None)
      | _ \<Rightarrow> None)"

definition ipv4_is_loopback :: "nat \<Rightarrow> bool" where
  "ipv4_is_loopback n = (n div 2 ^ 24 = 127)"

text \<open>
  \<open>IPv6Address(s)\<close>: an optional scope after a percent sign, groups separated by colons, at most
  one \<open>::\<close>, and a last group that may be a dotted IPv4 address.
\<close>

definition hex_val :: "char \<Rightarrow> nat option" where
  "hex_val c =
     (let n = code_of c
      in if 48 \<le> n \<and> n \<le> 57 then Some (n - 48)
         else if 97 \<le> n \<and> n \<le> 102 then Some (n - 87)
         else if 65 \<le> n \<and> n \<le> 70 then Some (n - 55) else None)"

fun hex_acc :: "nat \<Rightarrow> string \<Rightarrow> nat option" where
  "hex_acc acc [] = Some acc"
| "hex_acc acc (c # cs) =
     (case hex_val c of None \<Rightarrow> None | Some d \<Rightarrow> hex_acc (16 * acc + d) cs)"

definition parse_hextet :: "string \<Rightarrow> nat option" where
  "parse_hextet s = (if s = [] \<or> length s > 4 then None else hex_acc 0 s)"

text \<open>A hextet given as text, or as the half of an embedded IPv4 address.\<close>

datatype part = Text string | Half nat

fun part_value :: "part \<Rightarrow> nat option" where
  "part_value (Text s) = parse_hextet s"
| "part_value (Half n) = Some n"

definition expand_ipv4_tail :: "string list \<Rightarrow> part list option" where
  "expand_ipv4_tail ps =
     (if CHR ''.'' \<in> set (last ps)
      then (case parse_ipv4 (last ps) of
              None \<Rightarrow> None
            | Some n \<Rightarrow> Some (map Text (butlast ps) @ [Half (n div 65536), Half (n mod 65536)]))
      else Some (map Text ps))"

definition empty_inner :: "part list \<Rightarrow> nat list" where
  "empty_inner ps = filter (\<lambda>i. ps ! i = Text []) [1..<length ps - 1]"

fun fold_parts :: "nat \<Rightarrow> part list \<Rightarrow> nat option" where
  "fold_parts acc [] = Some acc"
| "fold_parts acc (p # ps) =
     (case part_value p of None \<Rightarrow> None | Some v \<Rightarrow> fold_parts (acc * 65536 + v) ps)"

definition parse_parts :: "part list \<Rightarrow> nat option" where
  "parse_parts ps =
     (if length ps > 9 then None
      else case empty_inner ps of
        [] \<Rightarrow> if length ps \<noteq> 8 \<or> hd ps = Text [] \<or> last ps = Text [] then None
              else fold_parts 0 ps
      | [k] \<Rightarrow>
          (let lead = (hd ps = Text []); trail = (last ps = Text []);
               hi = (if lead then k - 1 else k);
               lo = (if trail then length ps - k - 2 else length ps - k - 1)
           in if (lead \<and> hi \<noteq> 0) \<or> (trail \<and> lo \<noteq> 0) \<or> 8 < hi + lo + 1 then None
              else (case fold_parts 0 (take hi ps) of
                      None \<Rightarrow> None
                    | Some v \<Rightarrow> fold_parts (v * 65536 ^ (8 - (hi + lo))) (drop (length ps - lo) ps)))
      | _ \<Rightarrow> None)"

definition parse_ipv6 :: "string \<Rightarrow> nat option" where
  "parse_ipv6 s =
     (let addr = takeWhile (\<lambda>c. c \<noteq> CHR ''%'') s; scope = drop (length addr) s
      in if CHR ''/'' \<in> set s \<or> (scope \<noteq> [] \<and> (tl scope = [] \<or> CHR ''%'' \<in> set (tl scope)))
         then None
         else let ps = split_on CHR '':'' addr
              in if length ps < 3 then None
                 else (case expand_ipv4_tail ps of None \<Rightarrow> None | Some qs \<Rightarrow> parse_parts qs))"

text \<open>
  \<open>is_loopback\<close> of an IPv6 address. From Python 3.13 on it also looks through an IPv4-mapped
  address; \<open>mapped\<close> says whether the interpreter does.
\<close>

definition ipv6_is_loopback :: "bool \<Rightarrow> nat \<Rightarrow> bool" where
  "ipv6_is_loopback mapped n =
     (if mapped \<and> n div 2 ^ 32 = 65535 then ipv4_is_loopback (n mod 2 ^ 32) else n = 1)"

definition ip_is_loopback :: "bool \<Rightarrow> string \<Rightarrow> bool" where
  "ip_is_loopback mapped s =
     (case parse_ipv4 s of
        Some n \<Rightarrow> ipv4_is_loopback n
      | None \<Rightarrow> (case parse_ipv6 s of Some n \<Rightarrow> ipv6_is_loopback mapped n | None \<Rightarrow> False))"

section \<open>The guard\<close>

text \<open>\<open>s.rpartition(c)\<close> when \<open>c\<close> occurs: what precedes and what follows its last occurrence.\<close>

definition rpartition :: "char \<Rightarrow> string \<Rightarrow> string \<times> string" where
  "rpartition c s =
     (let tail = rev (takeWhile (\<lambda>x. x \<noteq> c) (rev s))
      in (take (length s - length tail - 1) s, tail))"

definition authority_hostname :: "string \<Rightarrow> string" where
  "authority_hostname authority =
     (let a = strip authority
      in if startswith a ''['' then takeWhile (\<lambda>c. c \<noteq> CHR '']'') (tl a)
         else let (host, port) = rpartition CHR '':'' a
              in if CHR '':'' \<in> set a \<and> isdigit port then host else a)"

definition is_loopback_hostname :: "bool \<Rightarrow> string \<Rightarrow> bool" where
  "is_loopback_hostname mapped hostname =
     (lower hostname = ''localhost'' \<or> ip_is_loopback mapped hostname)"

definition is_loopback_authority :: "bool \<Rightarrow> string \<Rightarrow> bool" where
  "is_loopback_authority mapped authority =
     is_loopback_hostname mapped (authority_hostname authority)"

text \<open>\<open>s.partition('://')\<close>: what follows the first occurrence, if there is one.\<close>

fun after_scheme :: "string \<Rightarrow> string option" where
  "after_scheme [] = None"
| "after_scheme (c # cs) =
     (if startswith (c # cs) ''://'' then Some (drop 3 (c # cs)) else after_scheme cs)"

definition origin_is_loopback :: "bool \<Rightarrow> string \<Rightarrow> bool" where
  "origin_is_loopback mapped origin =
     (case after_scheme (strip origin) of
        None \<Rightarrow> False
      | Some rest \<Rightarrow> is_loopback_authority mapped (takeWhile (\<lambda>c. c \<noteq> CHR ''/'') rest))"

definition mutating_methods :: "string list" where
  "mutating_methods = [''POST'', ''PUT'', ''DELETE'', ''PATCH'']"

text \<open>
  The part of the ASGI scope that the guard reads; the headers are those that Starlette's
  \<open>Headers.get\<close> returns.
\<close>

record scope =
  sc_type :: string
  sc_host :: "string option"
  sc_origin :: "string option"
  sc_server :: "string option"
  sc_method :: "string option"

datatype guard_result = Forward | NonLoopbackHost | CrossSiteOrigin

definition loopback_guard :: "bool \<Rightarrow> scope \<Rightarrow> guard_result" where
  "loopback_guard mapped sc =
     (if sc_type sc \<noteq> ''http'' then Forward
      else let host = (case sc_host sc of Some h \<Rightarrow> h
                       | None \<Rightarrow> (case sc_server sc of Some a \<Rightarrow> a | None \<Rightarrow> []))
      in if \<not> is_loopback_authority mapped host then NonLoopbackHost
         else if sc_method sc \<in> Some ` set mutating_methods
         then (case sc_origin sc of
                 None \<Rightarrow> Forward
               | Some org \<Rightarrow> if origin_is_loopback mapped org then Forward else CrossSiteOrigin)
         else Forward)"

section \<open>Lemmas: dotted addresses\<close>

definition show_ipv4 :: "nat \<Rightarrow> nat \<Rightarrow> nat \<Rightarrow> nat \<Rightarrow> string" where
  "show_ipv4 a b c d = dec a @ ''.'' @ dec b @ ''.'' @ dec c @ ''.'' @ dec d"

lemma parse_dec_0: "parse_dec ''0'' = 0"
  by (simp add: parse_dec_def digit_val_def code_of_def)

lemma is_digit_0: "is_digit CHR ''0''"
  by (simp add: is_digit_def code_of_def)

lemma dec_0: "dec 0 = ''0''"
  by (subst dec.simps) (simp add: digit_char_0)

lemma parse_octet_sound:
  assumes "parse_octet s = Some n"
  shows "n < 256 \<and> s = dec n"
proof (cases "s = ''0''")
  case True
  with assms show ?thesis by (auto simp: parse_octet_def parse_dec_0 dec_0 split: if_splits)
next
  case False
  with assms have "s \<noteq> []" "list_all is_digit s" "hd s \<noteq> digit_char 0" "n = parse_dec s" "n \<le> 255"
    by (auto simp: parse_octet_def digit_char_0 split: if_splits)
  then show ?thesis using dec_parse_dec by simp
qed

lemma hd_dec: "0 < n \<Longrightarrow> hd (dec n) \<noteq> digit_char 0"
proof (induction n rule: dec.induct)
  case (1 n)
  show ?case
  proof (cases "n < 10")
    case True
    with 1 show ?thesis by (subst dec.simps) (metis digit_val_char gr_implies_not0 list.sel(1) zero_less_numeral)
  next
    case False
    with 1 show ?thesis by (subst dec.simps) (simp add: div_greater_zero_iff)
  qed
qed

lemma length_dec: "n < 1000 \<Longrightarrow> length (dec n) \<le> 3"
proof -
  assume n: "n < 1000"
  have one: "length (dec k) = 1" if "k < 10" for k using that by (subst dec.simps) simp
  have two: "length (dec k) \<le> 2" if "k < 100" for k
    using that one [of "k div 10"] by (subst dec.simps) auto
  show ?thesis using n two [of "n div 10"] by (subst dec.simps) auto
qed

lemma parse_octet_dec: "n < 256 \<Longrightarrow> parse_octet (dec n) = Some n"
  using hd_dec [of n] length_dec [of n] dec_digits [of n] dec_0
  by (cases "n = 0") (auto simp: parse_octet_def digit_char_0 parse_dec_0 is_digit_0)

lemma split_on_append:
  "c \<notin> set u \<Longrightarrow> split_on c (u @ c # v) = u # split_on c v"
  by (induction u) auto

lemma split_on_none: "c \<notin> set u \<Longrightarrow> split_on c u = [u]"
  by (induction u) auto

lemma split_on_notin: "u \<in> set (split_on c s) \<Longrightarrow> c \<notin> set u"
  by (induction s arbitrary: u) (auto split: list.splits if_splits)

lemma split_on_join4:
  "split_on k s = [a, b, c, d] \<Longrightarrow> s = a @ k # b @ k # c @ k # d"
proof -
  have gen: "s = concat (map (\<lambda>w. w @ [k]) (butlast (split_on k s))) @ last (split_on k s)" for s
  proof (induction s)
    case (Cons x s)
    show ?case
    proof (cases "split_on k s")
      case (Cons w ws)
      then show ?thesis using Cons.IH by (cases ws) (auto split: if_splits)
    qed simp
  qed simp
  assume "split_on k s = [a, b, c, d]"
  with gen [of s] show ?thesis by simp
qed

lemma dot_notin_dec: "CHR ''.'' \<notin> set (dec n)" "CHR '':'' \<notin> set (dec n)"
  using dec_digits [of n] by (auto simp: list_all_iff is_digit_def code_of_def)

lemma parse_ipv4_show:
  "a < 256 \<Longrightarrow> b < 256 \<Longrightarrow> c < 256 \<Longrightarrow> d < 256 \<Longrightarrow>
     parse_ipv4 (show_ipv4 a b c d) = Some (((a * 256 + b) * 256 + c) * 256 + d)"
  by (simp add: parse_ipv4_def show_ipv4_def split_on_append split_on_none dot_notin_dec
      parse_octet_dec)

lemma parse_ipv4_sound:
  assumes "parse_ipv4 s = Some n"
  shows "\<exists>a b c d. a < 256 \<and> b < 256 \<and> c < 256 \<and> d < 256 \<and> s = show_ipv4 a b c d \<and>
    n = ((a * 256 + b) * 256 + c) * 256 + d"
proof -
  from assms obtain p q r t where sp: "split_on CHR ''.'' s = [p, q, r, t]"
    by (auto simp: parse_ipv4_def split: list.splits)
  from assms sp obtain a b c d where
    o: "parse_octet p = Some a" "parse_octet q = Some b" "parse_octet r = Some c" "parse_octet t = Some d"
    and n: "n = ((a * 256 + b) * 256 + c) * 256 + d"
    by (auto simp: parse_ipv4_def split: option.splits)
  note oct = parse_octet_sound [OF o(1)] parse_octet_sound [OF o(2)] parse_octet_sound [OF o(3)]
    parse_octet_sound [OF o(4)]
  have "s = show_ipv4 a b c d"
    using split_on_join4 [OF sp] oct by (simp add: show_ipv4_def)
  with oct n show ?thesis by blast
qed

lemma ipv4_loopback_octets:
  "a < 256 \<Longrightarrow> b < 256 \<Longrightarrow> c < 256 \<Longrightarrow> d < 256 \<Longrightarrow>
     ipv4_is_loopback (((a * 256 + b) * 256 + c) * 256 + d) \<longleftrightarrow> a = 127"
  unfolding ipv4_is_loopback_def by auto

lemma parse_ipv6_colon:
  assumes "CHR '':'' \<notin> set s"
  shows "parse_ipv6 s = None"
proof -
  have "CHR '':'' \<notin> set (takeWhile (\<lambda>c. c \<noteq> CHR ''%'') s)" using assms set_takeWhileD by fastforce
  then show ?thesis by (simp add: parse_ipv6_def split_on_none Let_def)
qed

lemma strip_id: "\<forall>c \<in> set s. \<not> is_ws c \<Longrightarrow> strip s = s"
proof -
  assume a: "\<forall>c \<in> set s. \<not> is_ws c"
  have "dropWhile is_ws u = u" if "\<forall>c \<in> set u. \<not> is_ws c" for u
    using that by (cases u) auto
  from this [of s] this [of "rev s"] a show ?thesis by (simp add: strip_def lstrip_def rstrip_def)
qed

lemma rpartition_append: "c \<notin> set v \<Longrightarrow> rpartition c (u @ c # v) = (u, v)"
proof -
  assume "c \<notin> set v"
  then have "takeWhile (\<lambda>x. x \<noteq> c) (rev v @ c # rev u) = rev v" by (subst takeWhile_append2) auto
  then show ?thesis by (simp add: rpartition_def Let_def)
qed

lemma isdigit_no_colon: "isdigit p \<Longrightarrow> CHR '':'' \<notin> set p"
  by (auto simp: isdigit_def list_all_iff isdigit_char_def is_digit_def code_of_def)

section \<open>Properties\<close>

text \<open>Among the host names without a colon the guard accepts exactly localhost, in any case, and
  the canonical dotted spellings of 127.0.0.0/8: no other name, such as 127.0.0.1.example.com, and no
  other spelling of the address, such as 0177.0.0.1 or 2130706433, passes for loopback.\<close>

lemma loopback_hostname_iff:
  assumes "CHR '':'' \<notin> set h"
  shows "is_loopback_hostname mapped h \<longleftrightarrow>
    lower h = ''localhost'' \<or>
    (\<exists>b c d. b < 256 \<and> c < 256 \<and> d < 256 \<and> h = show_ipv4 127 b c d)"
proof -
  have "ip_is_loopback mapped h \<longleftrightarrow>
      (\<exists>b c d. b < 256 \<and> c < 256 \<and> d < 256 \<and> h = show_ipv4 127 b c d)"
  proof (cases "parse_ipv4 h")
    case None
    then show ?thesis using parse_ipv6_colon [OF assms] parse_ipv4_show [of 127]
      by (auto simp: ip_is_loopback_def)
  next
    case (Some n)
    from parse_ipv4_sound [OF this] obtain p q r t where
      le: "p < 256" "q < 256" "r < 256" "t < 256" and h: "h = show_ipv4 p q r t"
      and n: "n = ((p * 256 + q) * 256 + r) * 256 + t" by blast
    have "ip_is_loopback mapped h \<longleftrightarrow> p = 127"
      using Some ipv4_loopback_octets [OF le] n by (simp add: ip_is_loopback_def)
    moreover have "p = 127" if "b < 256" "c < 256" "d < 256" "h = show_ipv4 127 b c d" for b c d
    proof -
      have "n = ((127 * 256 + b) * 256 + c) * 256 + d"
        using parse_ipv4_show [of 127 b c d] that Some by simp
      then have "ipv4_is_loopback n" using ipv4_loopback_octets [of 127 b c d] that by simp
      then show "p = 127" using ipv4_loopback_octets [OF le] n by simp
    qed
    ultimately show ?thesis using le h by blast
  qed
  then show ?thesis by (simp add: is_loopback_hostname_def)
qed

lemma loopback_hostname_iff_witness:
  "is_loopback_hostname True (show_ipv4 127 0 0 1) \<and> \<not> is_loopback_hostname True ''127.1''"
proof
  have "CHR '':'' \<notin> set (show_ipv4 127 0 0 1)" by (simp add: show_ipv4_def dot_notin_dec)
  moreover have "\<exists>b c d. b < 256 \<and> c < 256 \<and> d < 256 \<and> show_ipv4 127 0 0 1 = show_ipv4 127 b c d"
    by (rule exI [of _ 0], rule exI [of _ 0], rule exI [of _ 1]) simp
  ultimately show "is_loopback_hostname True (show_ipv4 127 0 0 1)"
    using loopback_hostname_iff [of "show_ipv4 127 0 0 1" True] by blast
  have "parse_ipv4 ''127.1'' = None" by (simp add: parse_ipv4_def)
  then have "\<not> (\<exists>b c d. b < 256 \<and> c < 256 \<and> d < 256 \<and> ''127.1'' = show_ipv4 127 b c d)"
    using parse_ipv4_show [of 127] by force
  moreover have "lower ''127.1'' \<noteq> ''localhost''" by (simp add: lower_def)
  ultimately show "\<not> is_loopback_hostname True ''127.1''"
    using loopback_hostname_iff [of "''127.1''" True] by simp
qed

text \<open>C5: an HTTP request that reaches the application has a loopback host, and if its method changes
  state and it carries an origin, that origin has a scheme and a loopback authority; conversely every
  such request is forwarded, and a decimal port never changes the decision.\<close>

theorem guard_forwards_iff:
  "(sc_type sc = ''http'' \<longrightarrow>
     (loopback_guard mapped sc = Forward \<longleftrightarrow>
        (\<exists>host. host = (case sc_host sc of Some h \<Rightarrow> h | None \<Rightarrow> case_option [] (\<lambda>a. a) (sc_server sc)) \<and>
           is_loopback_hostname mapped (authority_hostname host)) \<and>
        (\<forall>org. sc_method sc \<in> Some ` {''POST'', ''PUT'', ''DELETE'', ''PATCH''} \<and> sc_origin sc = Some org \<longrightarrow>
           (\<exists>rest. after_scheme (strip org) = Some rest \<and>
              is_loopback_hostname mapped (authority_hostname (takeWhile (\<lambda>c. c \<noteq> CHR ''/'') rest)))))) \<and>
   (isdigit port \<and> h \<noteq> [] \<and> hd h \<noteq> CHR ''['' \<and> CHR '':'' \<notin> set h \<and>
      (\<forall>c \<in> set (h @ port). \<not> is_ws c) \<longrightarrow>
    is_loopback_authority mapped (h @ '':'' @ port) = is_loopback_authority mapped h)"
proof (intro conjI impI)
  assume "sc_type sc = ''http''"
  then show "loopback_guard mapped sc = Forward \<longleftrightarrow>
        (\<exists>host. host = (case sc_host sc of Some h \<Rightarrow> h | None \<Rightarrow> case_option [] (\<lambda>a. a) (sc_server sc)) \<and>
           is_loopback_hostname mapped (authority_hostname host)) \<and>
        (\<forall>org. sc_method sc \<in> Some ` {''POST'', ''PUT'', ''DELETE'', ''PATCH''} \<and> sc_origin sc = Some org \<longrightarrow>
           (\<exists>rest. after_scheme (strip org) = Some rest \<and>
              is_loopback_hostname mapped (authority_hostname (takeWhile (\<lambda>c. c \<noteq> CHR ''/'') rest))))"
    by (simp add: loopback_guard_def is_loopback_authority_def mutating_methods_def Let_def
        origin_is_loopback_def split: option.splits)
next
  assume a: "isdigit port \<and> h \<noteq> [] \<and> hd h \<noteq> CHR ''['' \<and> CHR '':'' \<notin> set h \<and>
    (\<forall>c \<in> set (h @ port). \<not> is_ws c)"
  have w: "\<not> is_ws CHR '':''" by (simp add: is_ws_def code_of_def)
  have s1: "strip (h @ '':'' @ port) = h @ '':'' @ port" by (rule strip_id) (use a w in auto)
  have s2: "strip h = h" by (rule strip_id) (use a in auto)
  have b: "\<not> startswith (h @ t) ''[''" for t using a by (cases h) (auto simp: startswith_def)
  have "authority_hostname (h @ '':'' @ port) = h"
    using a b [of "'':'' @ port"] rpartition_append [OF isdigit_no_colon, of port h] s1
    by (simp add: authority_hostname_def Let_def)
  moreover have "authority_hostname h = h"
    using a b [of "[]"] s2 by (simp add: authority_hostname_def Let_def)
  ultimately show "is_loopback_authority mapped (h @ '':'' @ port) = is_loopback_authority mapped h"
    by (simp add: is_loopback_authority_def)
qed

lemma guard_forwards_iff_witness:
  "is_loopback_authority False (''localhost'' @ '':'' @ ''8000'')"
proof -
  have "isdigit ''8000'' \<and> ''localhost'' \<noteq> [] \<and> hd ''localhost'' \<noteq> CHR ''['' \<and>
      CHR '':'' \<notin> set ''localhost'' \<and> (\<forall>c \<in> set (''localhost'' @ ''8000''). \<not> is_ws c)"
    by code_simp
  from mp [OF conjunct2 [OF guard_forwards_iff] this, of False]
  show ?thesis by (simp only:) code_simp
qed

text \<open>
  Without a Host header the middleware falls back to the socket's address. An IPv6 loopback socket
  reports \<open>::1\<close>, which the authority parser reads as a host and a port, so the request is refused;
  in brackets the same address passes.
\<close>

lemma bare_ipv6_fallback_refused:
  "loopback_guard m \<lparr>sc_type = ''http'', sc_host = None, sc_origin = None, sc_server = Some ''::1'',
      sc_method = Some ''GET''\<rparr> = NonLoopbackHost \<and>
   loopback_guard m \<lparr>sc_type = ''http'', sc_host = Some ''[::1]:8000'', sc_origin = None,
      sc_server = Some ''::1'', sc_method = Some ''GET''\<rparr> = Forward"
  by (simp add: loopback_guard_def is_loopback_authority_def authority_hostname_def
      is_loopback_hostname_def ip_is_loopback_def parse_ipv4_def parse_ipv6_def parse_parts_def
      expand_ipv4_tail_def empty_inner_def strip_def lstrip_def rstrip_def is_ws_def code_of_def
      startswith_def rpartition_def isdigit_def isdigit_char_def is_digit_def lower_def
      mutating_methods_def ipv6_is_loopback_def parse_hextet_def hex_val_def upt_rec)

end
