(* ===== verification/Auth.thy ===== *)
theory Auth
  imports Prelude
begin

text \<open>
  \<^verbatim>\<open>analytics/pae/auth.py\<close>: where the agent token lives, how it is read or created, the two
  authorisation dependencies, and the race of several processes that create the token file at once
  as a step relation. The environment is a map of its variables; the random token is an argument.
\<close>

section \<open>The token file\<close>

text \<open>
  \<open>UserPath s\<close> stands for \<open>Path(s).expanduser()\<close>, \<open>UnderPath s\<close> for that directory's
  \<^verbatim>\<open>data/agent-token\<close> and \<open>UnderHome\<close> for \<^verbatim>\<open>~/.pae/agent-token\<close>.
\<close>

datatype token_path = UserPath string | UnderPath string | UnderHome

type_synonym env = "string \<Rightarrow> string option"

definition env_get :: "env \<Rightarrow> string \<Rightarrow> string" where
  "env_get env k = (case env k of None \<Rightarrow> [] | Some v \<Rightarrow> v)"

definition agent_token_path :: "env \<Rightarrow> token_path" where
  "agent_token_path env =
     (let override = strip (env_get env ''PAE_AGENT_TOKEN_PATH'')
      in if override \<noteq> [] then UserPath override
         else let home = strip (env_get env ''PAE_HOME'')
              in if home \<noteq> [] then UnderPath home else UnderHome)"

type_synonym files = "token_path \<Rightarrow> string option"

text \<open>One process alone: the token and the files afterwards.\<close>

definition get_or_create_agent_token :: "env \<Rightarrow> string \<Rightarrow> files \<Rightarrow> string \<times> files" where
  "get_or_create_agent_token env fresh fs =
     (let env_token = strip (env_get env ''PAE_AGENT_TOKEN'')
      in if env_token \<noteq> [] then (env_token, fs)
         else let path = agent_token_path env;
                  existing = (case fs path of None \<Rightarrow> [] | Some text \<Rightarrow> strip text)
              in if existing \<noteq> [] then (existing, fs)
                 else case fs path of
                     Some text \<Rightarrow> (strip text, fs)
                   | None \<Rightarrow> (fresh, fs(path \<mapsto> fresh @ [newline])))"

section \<open>Authorisation\<close>

datatype auth_result = Pass | Unauthorized | Raise py_exc

text \<open>\<open>hmac.compare_digest\<close> of two texts raises TypeError unless both are ASCII.\<close>

definition compare_digest :: "string \<Rightarrow> string \<Rightarrow> py_exc + bool" where
  "compare_digest a b =
     (if list_all is_ascii a \<and> list_all is_ascii b then Inr (a = b) else Inl TypeError)"

definition bearer :: "string option \<Rightarrow> string" where
  "bearer authorization =
     (case authorization of
        None \<Rightarrow> []
      | Some a \<Rightarrow> if a \<noteq> [] \<and> startswith a ''Bearer '' then strip (drop (length ''Bearer '') a) else [])"

definition check_secret :: "string \<Rightarrow> string \<Rightarrow> auth_result" where
  "check_secret provided expected =
     (if provided = [] then Unauthorized
      else case compare_digest provided expected of
          Inl e \<Rightarrow> Raise e
        | Inr same \<Rightarrow> if same then Pass else Unauthorized)"

definition require_agent_token ::
  "env \<Rightarrow> string \<Rightarrow> files \<Rightarrow> string option \<Rightarrow> auth_result \<times> files" where
  "require_agent_token env fresh fs authorization =
     (let (expected, fs') = get_or_create_agent_token env fresh fs
      in (check_secret (bearer authorization) expected, fs'))"

definition require_api_key :: "env \<Rightarrow> string option \<Rightarrow> string option \<Rightarrow> auth_result" where
  "require_api_key env authorization x_api_key =
     (let expected = env_get env ''PAE_API_KEY''
      in if expected = [] then Pass
         else let key = (case x_api_key of None \<Rightarrow> [] | Some k \<Rightarrow> k)
              in check_secret (if key = [] then bearer authorization else key) expected)"

section \<open>Processes racing for the file\<close>

text \<open>
  The program counter of a process in \<open>get_or_create_agent_token\<close> without PAE_AGENT_TOKEN: before the read,
  after a read that found no token, after its exclusive open succeeded (the file is empty until the
  write), after the open found the file, and returned. Each process has its own fresh token.
\<close>

datatype pc = Begin | NoToken | Opened | Exists | Returned string

record race =
  token_file :: "string option"
  pcs :: "nat \<Rightarrow> pc"

definition race_start :: race where
  "race_start = \<lparr>token_file = None, pcs = (\<lambda>_. Begin)\<rparr>"

inductive race_step :: "(nat \<Rightarrow> string) \<Rightarrow> race \<Rightarrow> race \<Rightarrow> bool" for fresh where
  read_missing: "pcs s i = Begin \<Longrightarrow> token_file s = None \<Longrightarrow>
     race_step fresh s (s\<lparr>pcs := (pcs s)(i := NoToken)\<rparr>)"
| read_blank: "pcs s i = Begin \<Longrightarrow> token_file s = Some text \<Longrightarrow> strip text = [] \<Longrightarrow>
     race_step fresh s (s\<lparr>pcs := (pcs s)(i := NoToken)\<rparr>)"
| read_token: "pcs s i = Begin \<Longrightarrow> token_file s = Some text \<Longrightarrow> strip text \<noteq> [] \<Longrightarrow>
     race_step fresh s (s\<lparr>pcs := (pcs s)(i := Returned (strip text))\<rparr>)"
| open_new: "pcs s i = NoToken \<Longrightarrow> token_file s = None \<Longrightarrow>
     race_step fresh s (s\<lparr>token_file := Some [], pcs := (pcs s)(i := Opened)\<rparr>)"
| open_exists: "pcs s i = NoToken \<Longrightarrow> token_file s = Some text \<Longrightarrow>
     race_step fresh s (s\<lparr>pcs := (pcs s)(i := Exists)\<rparr>)"
| store_token: "pcs s i = Opened \<Longrightarrow>
     race_step fresh s (s\<lparr>token_file := Some (fresh i @ [newline]), pcs := (pcs s)(i := Returned (fresh i))\<rparr>)"
| reread: "pcs s i = Exists \<Longrightarrow> token_file s = Some text \<Longrightarrow>
     race_step fresh s (s\<lparr>pcs := (pcs s)(i := Returned (strip text))\<rparr>)"

inductive race_reachable :: "(nat \<Rightarrow> string) \<Rightarrow> race \<Rightarrow> bool" for fresh where
  init: "race_reachable fresh race_start"
| advance: "race_reachable fresh s \<Longrightarrow> race_step fresh s s' \<Longrightarrow> race_reachable fresh s'"

inductive_cases race_step_cases: "race_step fresh s s'"

section \<open>Lemmas: the race\<close>

definition good_token :: "string \<Rightarrow> bool" where
  "good_token t = (t \<noteq> [] \<and> strip (t @ [newline]) = t)"

text \<open>
  Before the file exists nobody has opened it or returned; while it is empty its creator alone is
  between open and write; afterwards it holds the token of one process for good.
\<close>

definition race_inv :: "(nat \<Rightarrow> string) \<Rightarrow> race \<Rightarrow> bool" where
  "race_inv fresh s =
     (case token_file s of
        None \<Rightarrow> (\<forall>i. pcs s i = Begin \<or> pcs s i = NoToken)
      | Some [] \<Rightarrow> (\<exists>k. pcs s k = Opened \<and> (\<forall>i. i \<noteq> k \<longrightarrow> pcs s i \<in> {Begin, NoToken, Exists, Returned []}))
      | Some text \<Rightarrow> (\<exists>k. text = fresh k @ [newline]) \<and>
          (\<forall>i. pcs s i \<in> {Begin, NoToken, Exists, Returned [], Returned (strip text)}))"

lemma race_inv_None: "token_file s = None \<Longrightarrow>
    race_inv fresh s \<longleftrightarrow> (\<forall>i. pcs s i = Begin \<or> pcs s i = NoToken)"
  by (simp add: race_inv_def)

lemma race_inv_empty: "token_file s = Some [] \<Longrightarrow>
    race_inv fresh s \<longleftrightarrow>
      (\<exists>k. pcs s k = Opened \<and> (\<forall>i. i \<noteq> k \<longrightarrow> pcs s i \<in> {Begin, NoToken, Exists, Returned []}))"
  by (simp add: race_inv_def)

lemma race_inv_full: "token_file s = Some t \<Longrightarrow> t \<noteq> [] \<Longrightarrow>
    race_inv fresh s \<longleftrightarrow> (\<exists>k. t = fresh k @ [newline]) \<and>
      (\<forall>i. pcs s i \<in> {Begin, NoToken, Exists, Returned [], Returned (strip t)})"
  by (cases t) (simp_all add: race_inv_def)

lemmas race_inv_simps = race_inv_None race_inv_empty race_inv_full

lemma race_inv_empty_move:
  assumes "race_inv fresh s" and "token_file s = Some []" and "pcs s i \<noteq> Opened"
    and "c \<in> {Begin, NoToken, Exists, Returned []}"
  shows "race_inv fresh (s\<lparr>pcs := (pcs s)(i := c)\<rparr>)"
proof -
  from assms(1,2) obtain k where "pcs s k = Opened"
    "\<forall>j. j \<noteq> k \<longrightarrow> pcs s j \<in> {Begin, NoToken, Exists, Returned []}" by (auto simp: race_inv_empty)
  with assms(2-4) show ?thesis
    by (subst race_inv_empty) (auto intro!: exI [where x = k])
qed

lemma race_inv_step:
  assumes "race_step fresh s s'" and inv: "race_inv fresh s" and good: "\<And>i. good_token (fresh i)"
  shows "race_inv fresh s'"
  using assms(1)
proof cases
  case (read_missing i)
  then show ?thesis using inv by (simp add: race_inv_simps)
next
  case (read_blank i t)
  show ?thesis
  proof (cases "t = []")
    case True
    with read_blank inv show ?thesis by (auto intro!: race_inv_empty_move)
  qed (use read_blank inv in \<open>auto simp: race_inv_simps\<close>)
next
  case (read_token i t)
  then have "t \<noteq> []" by auto
  with read_token inv show ?thesis by (auto simp: race_inv_simps)
next
  case (open_new i)
  with inv show ?thesis by (auto simp: race_inv_simps)
next
  case (open_exists i t)
  show ?thesis
  proof (cases "t = []")
    case True
    with open_exists inv show ?thesis by (auto intro!: race_inv_empty_move)
  qed (use open_exists inv in \<open>auto simp: race_inv_simps\<close>)
next
  case (store_token i)
  have "token_file s = Some []"
  proof (cases "token_file s")
    case None
    with inv have "\<forall>i. pcs s i = Begin \<or> pcs s i = NoToken" by (simp add: race_inv_None)
    from spec [OF this, of i] store_token show ?thesis by auto
  next
    case (Some t)
    show ?thesis
    proof (rule ccontr)
      assume "\<not> ?thesis"
      with Some inv have "pcs s i \<in> {Begin, NoToken, Exists, Returned [], Returned (strip t)}"
        by (simp add: race_inv_full)
      with store_token show False by auto
    qed
  qed
  with inv obtain k where "pcs s k = Opened"
    "\<forall>j. j \<noteq> k \<longrightarrow> pcs s j \<in> {Begin, NoToken, Exists, Returned []}" by (auto simp: race_inv_empty)
  with store_token have "\<forall>j. j \<noteq> i \<longrightarrow> pcs s j \<in> {Begin, NoToken, Exists, Returned []}" by (metis insertE pc.distinct singletonD)
  with store_token good [of i] show ?thesis by (auto simp: race_inv_full good_token_def)
next
  case (reread i t)
  show ?thesis
  proof (cases "t = []")
    case True
    with reread inv show ?thesis by (auto intro!: race_inv_empty_move)
  qed (use reread inv in \<open>auto simp: race_inv_simps\<close>)
qed

lemma race_reachable_inv:
  "race_reachable fresh s \<Longrightarrow> (\<And>i. good_token (fresh i)) \<Longrightarrow> race_inv fresh s"
proof (induction rule: race_reachable.induct)
  case init
  show ?case by (simp add: race_inv_def race_start_def)
qed (blast intro: race_inv_step)

lemma check_secret_pass [simp]:
  "check_secret p e = Pass \<longleftrightarrow> p \<noteq> [] \<and> p = e \<and> list_all is_ascii e"
  by (auto simp: check_secret_def compare_digest_def)

section \<open>Properties\<close>

text \<open>C6: the agent surfaces are never open: the dependency passes exactly when the request's bearer
  token is present, ASCII and equal to the resolved token, so an empty resolved token admits nobody;
  the API key, once configured, admits exactly the requests that present it.\<close>

theorem auth_passes_iff:
  "(fst (require_agent_token env fresh fs authorization) = Pass \<longleftrightarrow>
     (\<exists>a t. authorization = Some (''Bearer '' @ a) \<and> strip a = t \<and> t \<noteq> [] \<and> list_all is_ascii t \<and>
        t = fst (get_or_create_agent_token env fresh fs))) \<and>
   (env_get env ''PAE_API_KEY'' \<noteq> [] \<longrightarrow>
     (require_api_key env authorization x_api_key = Pass \<longleftrightarrow>
        list_all is_ascii (env_get env ''PAE_API_KEY'') \<and>
        (x_api_key = Some (env_get env ''PAE_API_KEY'') \<or>
         (x_api_key \<in> {None, Some []} \<and>
          (\<exists>a. authorization = Some (''Bearer '' @ a) \<and> strip a = env_get env ''PAE_API_KEY'')))))"
proof -
  have b: "bearer authorization = t \<and> t \<noteq> [] \<longleftrightarrow>
      (\<exists>a. authorization = Some (''Bearer '' @ a) \<and> strip a = t \<and> t \<noteq> [])" for t
    by (auto simp: bearer_def startswith_iff split: option.splits)
  have "fst (require_agent_token env fresh fs authorization) = Pass \<longleftrightarrow>
      bearer authorization \<noteq> [] \<and> bearer authorization = fst (get_or_create_agent_token env fresh fs) \<and>
      list_all is_ascii (fst (get_or_create_agent_token env fresh fs))"
    by (simp add: require_agent_token_def case_prod_beta)
  moreover have "require_api_key env authorization x_api_key = Pass \<longleftrightarrow>
      list_all is_ascii (env_get env ''PAE_API_KEY'') \<and>
      (x_api_key = Some (env_get env ''PAE_API_KEY'') \<or>
       (x_api_key \<in> {None, Some []} \<and> bearer authorization = env_get env ''PAE_API_KEY''))"
    if "env_get env ''PAE_API_KEY'' \<noteq> []"
    using that by (cases x_api_key) (auto simp: require_api_key_def Let_def)
  ultimately show ?thesis using b by metis
qed

lemma auth_passes_iff_witness:
  "require_api_key [''PAE_API_KEY'' \<mapsto> ''k''] None (Some ''k'') = Pass \<and>
   require_api_key [''PAE_API_KEY'' \<mapsto> ''k''] None None \<noteq> Pass"
  using auth_passes_iff [of "[''PAE_API_KEY'' \<mapsto> ''k'']" _ _ None "Some ''k''"]
    auth_passes_iff [of "[''PAE_API_KEY'' \<mapsto> ''k'']" _ _ None None]
  by (simp add: env_get_def is_ascii_def code_of_def)

text \<open>
  An authorisation value with a character beyond ASCII makes the comparison raise: the request ends
  in a server error in place of the documented 401.
\<close>

lemma non_ascii_token_raises:
  "fst (require_agent_token [''PAE_AGENT_TOKEN'' \<mapsto> ''k''] fresh fs (Some (''Bearer '' @ [char_of (233 :: nat)]))) =
     Raise TypeError"
  by (simp add: require_agent_token_def get_or_create_agent_token_def env_get_def bearer_def
      startswith_def check_secret_def compare_digest_def is_ascii_def code_of_def strip_def lstrip_def
      rstrip_def is_ws_def)

text \<open>C10: processes that race for a missing token file agree: the first exclusive open wins, at most one
  process writes, and any two tokens they return are equal unless one of them is empty; a returned
  non-empty token is the file's content.\<close>

theorem race_tokens_agree:
  assumes "race_reachable fresh s" and "\<And>i. good_token (fresh i)"
  shows "(pcs s i = Opened \<and> pcs s j = Opened \<longrightarrow> i = j) \<and>
    (pcs s i = Returned a \<and> pcs s j = Returned b \<and> a \<noteq> [] \<and> b \<noteq> [] \<longrightarrow>
       a = b \<and> (\<exists>text. token_file s = Some text \<and> strip text = a))"
proof -
  note inv = race_reachable_inv [OF assms]
  show ?thesis
  proof (cases "token_file s")
    case None
    with inv have "\<forall>i. pcs s i = Begin \<or> pcs s i = NoToken" by (simp add: race_inv_None)
    from spec [OF this, of i] spec [OF this, of j] show ?thesis by auto
  next
    case (Some t)
    show ?thesis
    proof (cases "t = []")
      case True
      with Some inv obtain k where
        "\<forall>i. i \<noteq> k \<longrightarrow> pcs s i \<in> {Begin, NoToken, Exists, Returned []}" "pcs s k = Opened"
        by (auto simp: race_inv_empty)
      then show ?thesis by (metis insertE pc.distinct pc.inject singletonD)
    next
      case False
      with Some inv have "\<forall>i. pcs s i \<in> {Begin, NoToken, Exists, Returned [], Returned (strip t)}"
        by (simp add: race_inv_full)
      from spec [OF this, of i] spec [OF this, of j] Some show ?thesis by auto
    qed
  qed
qed

lemma good_token_letters: "good_token ''abc''"
  by (simp add: good_token_def strip_def lstrip_def rstrip_def is_ws_def code_of_def newline_def)

lemma race_tokens_agree_witness:
  "\<exists>s. race_reachable (\<lambda>_. ''abc'') s \<and> pcs s 0 = Returned ''abc'' \<and>
     (\<forall>j b. pcs s j = Returned b \<and> b \<noteq> [] \<longrightarrow> b = ''abc'')"
proof -
  let ?f = "\<lambda>_::nat. ''abc''"
  let ?s1 = "race_start\<lparr>pcs := (pcs race_start)(0 := NoToken)\<rparr>"
  let ?s2 = "?s1\<lparr>token_file := Some [], pcs := (pcs ?s1)(0 := Opened)\<rparr>"
  let ?s3 = "?s2\<lparr>token_file := Some (?f 0 @ [newline]), pcs := (pcs ?s2)(0 := Returned (?f 0))\<rparr>"
  have "race_reachable ?f ?s1"
    by (rule advance [OF init], rule read_missing) (simp_all add: race_start_def)
  then have "race_reachable ?f ?s2"
    by (rule advance) (rule open_new, simp_all add: race_start_def)
  then have r: "race_reachable ?f ?s3" by (rule advance) (rule store_token, simp)
  from race_tokens_agree [OF r good_token_letters, of 0 _ "''abc''"]
  show ?thesis using r by (intro exI [where x = ?s3]) (simp add: race_start_def)
qed

text \<open>How many steps a process has left at most.\<close>

fun steps_left :: "pc \<Rightarrow> nat" where
  "steps_left Begin = 3"
| "steps_left NoToken = 2"
| "steps_left Opened = 1"
| "steps_left Exists = 1"
| "steps_left (Returned _) = 0"

lemma race_step_moves_one:
  assumes "race_step fresh s s'"
  shows "\<exists>i. steps_left (pcs s' i) < steps_left (pcs s i) \<and> (\<forall>j. j \<noteq> i \<longrightarrow> pcs s' j = pcs s j)"
  using assms
proof cases
  case (read_missing i)
  then show ?thesis by (intro exI [of _ i]) simp
next
  case (read_blank i tx)
  then show ?thesis by (intro exI [of _ i]) simp
next
  case (read_token i tx)
  then show ?thesis by (intro exI [of _ i]) simp
next
  case (open_new i)
  then show ?thesis by (intro exI [of _ i]) simp
next
  case (open_exists i tx)
  then show ?thesis by (intro exI [of _ i]) simp
next
  case (store_token i)
  then show ?thesis by (intro exI [of _ i]) simp
next
  case (reread i tx)
  then show ?thesis by (intro exI [of _ i]) simp
qed

text \<open>No process waits for another: one that has not returned can always take its next step.\<close>

lemma race_not_blocked:
  assumes inv: "race_inv fresh s" and unfinished: "\<And>t. pcs s i \<noteq> Returned t"
  shows "\<exists>c f. race_step fresh s (s\<lparr>token_file := f, pcs := (pcs s)(i := c)\<rparr>)"
proof -
  have same: "s\<lparr>pcs := p\<rparr> = s\<lparr>token_file := token_file s, pcs := p\<rparr>" for p by simp
  show ?thesis
  proof (cases "token_file s")
    case None
    with inv have "pcs s i = Begin \<or> pcs s i = NoToken" by (simp add: race_inv_None)
    then show ?thesis using read_missing [of s i fresh] open_new [of s i fresh] None same by metis
  next
    case (Some tx)
    show ?thesis
    proof (cases "pcs s i")
      case Begin
      with Some show ?thesis using read_blank [of s i tx fresh] read_token [of s i tx fresh] same by metis
    next
      case NoToken
      with Some show ?thesis using open_exists [of s i tx fresh] same by metis
    next
      case Opened
      then show ?thesis using store_token [of s i fresh] by blast
    next
      case Exists
      with Some show ?thesis using reread [of s i tx fresh] same by metis
    qed (use unfinished in blast)
  qed
qed

lemma race_step_changes:
  assumes "race_step fresh s s'"
  obtains i where "pcs s' i \<noteq> pcs s i" and "\<forall>t. pcs s i \<noteq> Returned t"
proof -
  from assms have "\<exists>i. pcs s' i \<noteq> pcs s i \<and> (\<forall>t. pcs s i \<noteq> Returned t)"
  proof cases
    case (read_missing i) then show ?thesis by (intro exI [of _ i]) simp
  next
    case (read_blank i) then show ?thesis by (intro exI [of _ i]) simp
  next
    case (read_token i) then show ?thesis by (intro exI [of _ i]) simp
  next
    case (open_new i) then show ?thesis by (intro exI [of _ i]) simp
  next
    case (open_exists i) then show ?thesis by (intro exI [of _ i]) simp
  next
    case (store_token i) then show ?thesis by (intro exI [of _ i]) simp
  next
    case (reread i) then show ?thesis by (intro exI [of _ i]) simp
  qed
  then show ?thesis using that by blast
qed

text \<open>A step of one of the first \<open>n\<close> processes.\<close>

definition moves :: "(nat \<Rightarrow> string) \<Rightarrow> nat \<Rightarrow> race \<Rightarrow> race \<Rightarrow> bool" where
  "moves fresh n s s' = (race_step fresh s s' \<and> (\<forall>j \<ge> n. pcs s' j = pcs s j))"

lemma moves_decrease:
  assumes "moves fresh n s s'"
  shows "(\<Sum>i<n. steps_left (pcs s' i)) < (\<Sum>i<n. steps_left (pcs s i))"
proof -
  obtain i where i: "steps_left (pcs s' i) < steps_left (pcs s i)" "\<forall>j. j \<noteq> i \<longrightarrow> pcs s' j = pcs s j"
    using assms race_step_moves_one unfolding moves_def by blast
  have "i < n"
  proof (rule ccontr)
    assume "\<not> i < n"
    with assms have "pcs s' i = pcs s i" by (simp add: moves_def)
    with i(1) show False by simp
  qed
  moreover have "steps_left (pcs s' j) \<le> steps_left (pcs s j)" for j using i by (cases "j = i") auto
  ultimately show ?thesis using i(1) by (intro sum_strict_mono_ex1) auto
qed

lemma moves_reachable: "(moves fresh n ^^ m) s s' \<Longrightarrow> race_reachable fresh s \<Longrightarrow> race_reachable fresh s'"
proof (induction m arbitrary: s')
  case (Suc m)
  then obtain t where "race_reachable fresh t" and "moves fresh n t s'" by auto
  then show ?case by (auto simp: moves_def intro: advance)
qed simp

lemma moves_bounded: "(moves fresh n ^^ m) s s' \<Longrightarrow>
    m + (\<Sum>i<n. steps_left (pcs s' i)) \<le> (\<Sum>i<n. steps_left (pcs s i))"
proof (induction m arbitrary: s')
  case (Suc m)
  then obtain t where "(moves fresh n ^^ m) s t" and "moves fresh n t s'" by auto
  with Suc.IH [of t] moves_decrease [of fresh n t s'] show ?case by simp
qed simp

text \<open>The process whose token is in the file has returned it.\<close>

lemma race_winner:
  assumes "race_reachable fresh s" and "token_file s = Some t" and "t \<noteq> []"
  shows "\<exists>k. t = fresh k @ [newline] \<and> pcs s k = Returned (fresh k)"
  using assms
proof (induction arbitrary: t rule: race_reachable.induct)
  case (advance s s')
  have kept: "\<exists>k. t = fresh k @ [newline] \<and> pcs s' k = Returned (fresh k)"
    if "token_file s = Some t" and "pcs s' = (pcs s)(i := c)" and "\<forall>x. pcs s i \<noteq> Returned x" for i c
  proof -
    from advance.IH [OF that(1) advance.prems(2)] obtain k where
      k: "t = fresh k @ [newline]" "pcs s k = Returned (fresh k)" by blast
    with that(3) have "k \<noteq> i" by auto
    with k that(2) show ?thesis by (intro exI [of _ k]) simp
  qed
  from advance.hyps(2) show ?case
  proof cases
    case (read_missing i)
    with advance.prems show ?thesis by simp
  next
    case (read_blank i tx)
    then show ?thesis using advance.prems(1) by (intro kept [of i]) simp_all
  next
    case (read_token i tx)
    then show ?thesis using advance.prems(1) by (intro kept [of i]) simp_all
  next
    case (open_new i)
    with advance.prems show ?thesis by simp
  next
    case (open_exists i tx)
    then show ?thesis using advance.prems(1) by (intro kept [of i]) simp_all
  next
    case (store_token i)
    with advance.prems show ?thesis by (intro exI [of _ i]) simp
  next
    case (reread i tx)
    then show ?thesis using advance.prems(1) by (intro kept [of i]) simp_all
  qed
qed (simp add: race_start_def)

lemma moves_others: "(moves fresh n ^^ m) race_start s \<Longrightarrow> n \<le> i \<Longrightarrow> pcs s i = Begin"
proof (induction m arbitrary: s)
  case (Suc m)
  then obtain t where "(moves fresh n ^^ m) race_start t" and "moves fresh n t s" by auto
  from Suc.IH [OF this(1) Suc.prems(2)] have "pcs t i = Begin" .
  with \<open>moves fresh n t s\<close> Suc.prems(2) show ?case by (auto simp: moves_def)
qed (simp add: race_start_def)

lemma moves_stuck:
  assumes inv: "race_inv fresh s" and stuck: "\<nexists>s'. moves fresh n s s'" and i: "i < n"
  shows "\<exists>t. pcs s i = Returned t"
proof (rule ccontr)
  assume "\<not> ?thesis"
  then obtain c f where "race_step fresh s (s\<lparr>token_file := f, pcs := (pcs s)(i := c)\<rparr>)"
    using race_not_blocked [OF inv] by blast
  then have "moves fresh n s (s\<lparr>token_file := f, pcs := (pcs s)(i := c)\<rparr>)" using i by (simp add: moves_def)
  with stuck show False by blast
qed

lemma race_final:
  assumes run: "(moves fresh n ^^ m) race_start s" and good: "\<And>i. good_token (fresh i)"
    and stuck: "\<nexists>s'. moves fresh n s s'" and "0 < n"
  shows "\<exists>k<n. token_file s = Some (fresh k @ [newline]) \<and> pcs s k = Returned (fresh k) \<and>
    (\<forall>i<n. pcs s i \<in> {Returned (fresh k), Returned []})"
proof -
  have reach: "race_reachable fresh s" by (rule moves_reachable [OF run init])
  note inv = race_reachable_inv [OF reach good]
  note ended = moves_stuck [OF inv stuck]
  note others = moves_others [OF run]
  show ?thesis
  proof (cases "token_file s")
    case None
    with inv have "pcs s 0 = Begin \<or> pcs s 0 = NoToken" by (simp add: race_inv_None)
    with ended [OF \<open>0 < n\<close>] show ?thesis by auto
  next
    case (Some t)
    show ?thesis
    proof (cases "t = []")
      case True
      with Some inv obtain k where k: "pcs s k = Opened" by (auto simp: race_inv_empty)
      with others [of k] have "k < n" by (cases "k < n") auto
      with ended [of k] k show ?thesis by auto
    next
      case False
      with race_winner [OF reach Some] obtain k where
        k: "t = fresh k @ [newline]" "pcs s k = Returned (fresh k)" by blast
      have "k < n" using others [of k] k(2) by (cases "k < n") auto
      have strip: "strip t = fresh k" using good [of k] k(1) by (simp add: good_token_def)
      from False Some inv have "\<forall>i. pcs s i \<in> {Begin, NoToken, Exists, Returned [], Returned (fresh k)}"
        by (simp add: race_inv_full strip)
      then have "pcs s i \<in> {Returned (fresh k), Returned []}" if "i < n" for i
        using ended [OF that] by (elim allE [of _ i]) auto
      with \<open>k < n\<close> k Some show ?thesis by (intro exI [of _ k]) simp
    qed
  qed
qed

text \<open>C11: the race for a missing token file ends with one token. However the steps of \<open>n\<close> processes
  interleave, they take at most three steps each in all; and when no step is possible any more, one of
  the processes has created the file, which holds its token, and every process has returned this token or
  the empty one (as a process does that loses the open and reads before the winner has written).\<close>

theorem race_ends_with_one_token:
  assumes run: "(moves fresh n ^^ m) race_start s" and good: "\<And>i. good_token (fresh i)" and "0 < n"
  shows "m \<le> 3 * n \<and>
    ((\<nexists>s'. moves fresh n s s') \<longrightarrow>
      (\<exists>k<n. token_file s = Some (fresh k @ [newline]) \<and> pcs s k = Returned (fresh k) \<and>
         (\<forall>i<n. pcs s i \<in> {Returned (fresh k), Returned []})))"
proof -
  have "(\<Sum>i<n. steps_left (pcs race_start i)) = 3 * n" by (simp add: race_start_def)
  with moves_bounded [OF run] have "m \<le> 3 * n" by simp
  with race_final [OF run good _ \<open>0 < n\<close>] show ?thesis by blast
qed

theorem race_ends_with_one_token_witness:
  "\<exists>s. (moves (\<lambda>_. ''abc'') 1 ^^ 3) race_start s \<and> token_file s = Some (''abc'' @ [newline]) \<and>
     pcs s 0 = Returned ''abc''"
proof -
  let ?s1 = "race_start\<lparr>pcs := (pcs race_start)(0 := NoToken)\<rparr>"
  let ?s2 = "?s1\<lparr>token_file := Some [], pcs := (pcs ?s1)(0 := Opened)\<rparr>"
  let ?s3 = "?s2\<lparr>token_file := Some (''abc'' @ [newline]), pcs := (pcs ?s2)(0 := Returned ''abc'')\<rparr>"
  have "race_step (\<lambda>_. ''abc'') race_start ?s1" by (rule read_missing) (simp_all add: race_start_def)
  moreover have "race_step (\<lambda>_. ''abc'') ?s1 ?s2" by (rule open_new) (simp_all add: race_start_def)
  moreover have "race_step (\<lambda>_. ''abc'') ?s2 ?s3" by (rule store_token) simp
  ultimately have "moves (\<lambda>_. ''abc'') 1 race_start ?s1" "moves (\<lambda>_. ''abc'') 1 ?s1 ?s2" "moves (\<lambda>_. ''abc'') 1 ?s2 ?s3"
    by (auto simp: moves_def)
  then have run: "(moves (\<lambda>_. ''abc'') 1 ^^ 3) race_start ?s3"
    unfolding numeral_3_eq_3 by (meson relpowp_0_I relpowp_Suc_I)
  have "\<nexists>s'. moves (\<lambda>_. ''abc'') 1 ?s3 s'"
  proof
    assume "\<exists>s'. moves (\<lambda>_. ''abc'') 1 ?s3 s'"
    then obtain s' where "race_step (\<lambda>_. ''abc'') ?s3 s'" and "\<forall>j \<ge> 1. pcs s' j = pcs ?s3 j"
      by (auto simp: moves_def)
    from race_step_changes [OF this(1)] obtain i where i: "pcs s' i \<noteq> pcs ?s3 i" "\<forall>t. pcs ?s3 i \<noteq> Returned t" by blast
    have "i \<noteq> 0" using i(2) by (cases "i = 0") auto
    with i(1) \<open>\<forall>j \<ge> 1. pcs s' j = pcs ?s3 j\<close> show False by simp
  qed
  with race_ends_with_one_token [OF run good_token_letters] run show ?thesis by auto
qed

text \<open>
  The agreement is only up to the empty token: a process that loses the open and reads before the
  winner has written returns the empty token, unlike what the docstring says of convergence.
\<close>

lemma race_loser_may_return_empty:
  "\<exists>s. race_reachable fresh s \<and> pcs s 0 = Opened \<and> pcs s 1 = Returned []"
proof -
  let ?s1 = "race_start\<lparr>pcs := (pcs race_start)(0 := NoToken)\<rparr>"
  let ?s2 = "?s1\<lparr>pcs := (pcs ?s1)(1 := NoToken)\<rparr>"
  let ?s3 = "?s2\<lparr>token_file := Some [], pcs := (pcs ?s2)(0 := Opened)\<rparr>"
  let ?s4 = "?s3\<lparr>pcs := (pcs ?s3)(1 := Exists)\<rparr>"
  let ?s5 = "?s4\<lparr>pcs := (pcs ?s4)(1 := Returned (strip []))\<rparr>"
  have "race_reachable fresh ?s1"
    by (rule advance [OF init], rule read_missing) (simp_all add: race_start_def)
  then have "race_reachable fresh ?s2"
    by (rule advance) (rule read_missing, simp_all add: race_start_def)
  then have "race_reachable fresh ?s3"
    by (rule advance) (rule open_new, simp_all add: race_start_def)
  then have "race_reachable fresh ?s4"
    by (rule advance) (rule open_exists, simp_all add: race_start_def)
  then have "race_reachable fresh ?s5"
    by (rule advance) (rule reread, simp_all add: race_start_def)
  then show ?thesis by (intro exI [where x = ?s5]) (simp add: race_start_def)
qed

end
