(* ===== verification/Vectors.thy ===== *)
theory Vectors
  imports Prelude
begin

text \<open>
  Vectors and matrices as lists, with the products that NumPy's \<open>@\<close> and \<open>dot\<close> compute, over exact
  reals, and the bilinearity facts shared by the optimiser and the factor regression.
\<close>

section \<open>Vectors and matrices\<close>

type_synonym vec = "real list"
type_synonym mat = "real list list"

definition dot :: "vec \<Rightarrow> vec \<Rightarrow> real" where
  "dot u v = (\<Sum>(a, b)\<leftarrow>zip u v. a * b)"

definition matvec :: "mat \<Rightarrow> vec \<Rightarrow> vec" where
  "matvec m v = map (\<lambda>r. dot r v) m"

definition quad :: "vec \<Rightarrow> mat \<Rightarrow> real" where
  "quad w m = dot w (matvec m w)"

section \<open>Bilinearity\<close>

lemma length_matvec [simp]: "length (matvec m v) = length m"
  by (simp add: matvec_def)

lemma sum_list_divide: "sum_list (map (\<lambda>x. x / c) xs) = sum_list xs / (c::real)"
  using sum_list_map_divide [of "\<lambda>x. x" c xs] by simp

lemma dot_diff_left: "length u = length v \<Longrightarrow> dot (map2 (-) u v) x = dot u x - dot v x"
proof (induction u v arbitrary: x rule: list_induct2)
  case (Cons a u b v)
  then show ?case by (cases x) (auto simp: dot_def algebra_simps)
qed (simp add: dot_def)

lemma dot_comm: "dot u v = dot v u"
proof (induction u arbitrary: v)
  case (Cons a u)
  then show ?case by (cases v) (auto simp: dot_def)
qed (simp add: dot_def)

lemma dot_diff_right: "length u = length v \<Longrightarrow> dot x (map2 (-) u v) = dot x u - dot x v"
  by (simp only: dot_comm [of x] dot_diff_left)

lemma matvec_diff: "length u = length v \<Longrightarrow> matvec m (map2 (-) u v) = map2 (-) (matvec m u) (matvec m v)"
  by (induction m) (simp_all add: matvec_def dot_diff_right)

lemma dot_replicate: "length v = n \<Longrightarrow> dot v (replicate n c) = c * sum_list v"
proof (induction v arbitrary: n)
  case (Cons a v)
  then show ?case by (cases n) (auto simp: dot_def algebra_simps)
qed (simp add: dot_def)

lemma matvec_divide: "matvec m (map (\<lambda>x. x / c) v) = map (\<lambda>x. x / c) (matvec m v)"
proof -
  have "dot r (map (\<lambda>x. x / c) v) = dot r v / c" for r
  proof (induction r arbitrary: v)
    case (Cons a r)
    then show ?case by (cases v) (auto simp: dot_def add_divide_distrib)
  qed (simp add: dot_def)
  then show ?thesis by (simp add: matvec_def)
qed

end
