(* ===== verification/Optimize.thy ===== *)
theory Optimize
  imports Vectors
begin

text \<open>
  \<^verbatim>\<open>analytics/pae/models/optimize.py\<close>: the long-only portfolio optimiser. Vectors are lists of reals and
  matrices lists of rows; NumPy's elementwise arithmetic, sums and products are written out over exact
  reals. \<open>numpy.linalg.inv\<close>, \<open>numpy.linalg.eigh\<close> and \<open>scipy.optimize.minimize\<close> are the fields of the
  parameter \<open>num\<close>. The messages of the notes and errors are constructors.
\<close>

section \<open>Matrices and external routines\<close>

definition diag :: "mat \<Rightarrow> vec" where
  "diag m = map (\<lambda>i. m ! i ! i) [0..<length m]"

definition symmetrize :: "mat \<Rightarrow> mat" where
  "symmetrize m = map (\<lambda>i. map (\<lambda>j. (m ! i ! j + m ! j ! i) / 2) [0..<length m]) [0..<length m]"

definition max_list :: "vec \<Rightarrow> real" where
  "max_list xs = Max (set xs)"

text \<open>
  \<open>np_inv\<close> is None for a LinAlgError; \<open>np_eigh\<close> gives the ascending eigenvalues and the matrix whose
  columns are the eigenvectors; \<open>slsqp objective start constraints\<close> is None for an unsuccessful solve.
\<close>

record numerics =
  np_inv :: "mat \<Rightarrow> mat option"
  np_eigh :: "mat \<Rightarrow> vec \<times> mat"
  slsqp :: "(vec \<Rightarrow> real) \<Rightarrow> vec \<Rightarrow> (vec \<Rightarrow> real) list \<Rightarrow> vec option"

section \<open>Results and errors\<close>

record portfolio_mix =
  mx_label :: string
  mx_weights :: vec
  mx_expected_return :: real
  mx_volatility :: real
  mx_sharpe_ratio :: real
  mx_method :: string

record frontier_point =
  fp_expected_return :: real
  fp_volatility :: real
  fp_weights :: vec

datatype opt_note =
    Asymmetric real
  | Regularized real real
  | AllZeroCovariance
  | SingleHolding
  | NoExcessReturn
  | SharpeNumerical
  | MinVarianceNumerical
  | RiskParityFallback
  | FrontierCarried real

record optimization_result =
  op_symbols :: "string list"
  op_risk_free_rate :: real
  op_max_sharpe :: portfolio_mix
  op_min_variance :: portfolio_mix
  op_risk_parity :: portfolio_mix
  op_frontier :: "frontier_point list"
  op_regularized :: bool
  op_reg_amount :: real
  op_notes :: "opt_note list"

datatype value_msg =
    SymbolsEmpty
  | SymbolBlank
  | SymbolsNotUnique
  | ReturnsLength nat
  | ReturnsNotFinite
  | CovarianceShape
  | CovarianceNotFinite
  | RiskFreeInvalid
  | FrontierPointsTooFew int

datatype opt_exc =
    OptValueError value_msg
  | NoUsableSeries
  | TooFewPeriods nat
  | SharpeSolveFailed
  | MinVarianceSolveFailed
  | OptRaise py_exc

definition weights_dict :: "string list \<Rightarrow> vec \<Rightarrow> (string \<times> real) list" where
  "weights_dict syms ws = foldl (\<lambda>d (s, w). dict_set d s (py_round w 6)) [] (zip syms ws)"

definition mix_dict :: "string list \<Rightarrow> portfolio_mix \<Rightarrow> (string \<times> real) list \<times> portfolio_mix" where
  "mix_dict syms m =
     (weights_dict syms (mx_weights m),
      m\<lparr>mx_expected_return := py_round (mx_expected_return m) 6,
        mx_volatility := py_round (mx_volatility m) 6,
        mx_sharpe_ratio := py_round (mx_sharpe_ratio m) 6\<rparr>)"

section \<open>Input handling\<close>

definition validate_inputs ::
  "string list \<Rightarrow> pyfloat list \<Rightarrow> pyfloat list list \<Rightarrow> pyfloat \<Rightarrow> int \<Rightarrow>
     opt_exc + (string list \<times> vec \<times> mat \<times> opt_note list)" where
  "validate_inputs symbols expected_returns covariance rf frontier_points =
     (let syms = map strip symbols; n = length syms
      in if syms = [] then Inl (OptValueError SymbolsEmpty)
         else if [] \<in> set syms then Inl (OptValueError SymbolBlank)
         else if \<not> distinct syms then Inl (OptValueError SymbolsNotUnique)
         else if length expected_returns \<noteq> n
         then Inl (OptValueError (ReturnsLength (length expected_returns)))
         else if \<not> list_all is_finite expected_returns then Inl (OptValueError ReturnsNotFinite)
         else if length covariance \<noteq> n \<or> \<not> list_all (\<lambda>r. length r = n) covariance
         then Inl (OptValueError CovarianceShape)
         else if \<not> list_all (list_all is_finite) covariance then Inl (OptValueError CovarianceNotFinite)
         else if \<not> is_finite rf then Inl (OptValueError RiskFreeInvalid)
         else if frontier_points < 2 then Inl (OptValueError (FrontierPointsTooFew frontier_points))
         else let cov = map (map the_fin) covariance;
                  asym = max_list (concat (map (\<lambda>i. map (\<lambda>j. \<bar>cov ! i ! j - cov ! j ! i\<bar>) [0..<n]) [0..<n]))
              in Inr (syms, map the_fin expected_returns, symmetrize cov,
                      if asym > 1 / 10 ^ 8 then [Asymmetric asym] else []))"

text \<open>\<open>isinstance(r, (int, float)) and math.isfinite(r)\<close>, then \<open>float(r)\<close>.\<close>

fun clean_finite :: "pyval list \<Rightarrow> py_exc + vec" where
  "clean_finite [] = Inr []"
| "clean_finite (v # vs) =
     (if \<not> is_number v then clean_finite vs
      else rbind (to_float v) (\<lambda>f.
           rbind (clean_finite vs) (\<lambda>rest. Inr (if is_finite f then the_fin f # rest else rest))))"

fun parse_rows ::
  "(string \<Rightarrow> pyval option) \<Rightarrow> (string \<times> string) list \<Rightarrow> py_exc + (string \<times> vec) list" where
  "parse_rows loads [] = Inr []"
| "parse_rows loads ((symbol, returns_json) # rows) =
     (case loads returns_json of
        Some (VList raw) \<Rightarrow>
          rbind (clean_finite raw) (\<lambda>clean.
          rbind (parse_rows loads rows) (\<lambda>rest.
          Inr (if clean \<noteq> [] then (symbol, clean) # rest else rest)))
      | _ \<Rightarrow> parse_rows loads rows)"

definition mean :: "vec \<Rightarrow> real" where
  "mean xs = sum_list xs / real (length xs)"

definition sample_cov :: "vec \<Rightarrow> vec \<Rightarrow> real" where
  "sample_cov xs ys =
     (\<Sum>(x, y)\<leftarrow>zip xs ys. (x - mean xs) * (y - mean ys)) / (real (length xs) - 1)"

definition holdings_to_inputs ::
  "(string \<Rightarrow> pyval option) \<Rightarrow> (string \<times> string) list \<Rightarrow> opt_exc + (string list \<times> vec \<times> mat)" where
  "holdings_to_inputs loads rows =
     (case parse_rows loads rows of
        Inl e \<Rightarrow> Inl (OptRaise e)
      | Inr parsed \<Rightarrow>
          if parsed = [] then Inl NoUsableSeries
          else let n = Min (set (map (length \<circ> snd) parsed))
               in if n < 2 then Inl (TooFewPeriods n)
                  else let tails = map (\<lambda>(_, r). drop (length r - n) r) parsed
                       in Inr (map fst parsed, map mean tails,
                               map (\<lambda>x. map (sample_cov x) tails) tails))"

section \<open>Regularisation and statistics\<close>

definition rebuild :: "mat \<Rightarrow> vec \<Rightarrow> mat" where
  "rebuild vecs vals = map (\<lambda>r. map (\<lambda>s. \<Sum>(a, c)\<leftarrow>zip (map2 (*) r vals) s. a * c) vecs) vecs"

definition eig_floor :: "vec \<Rightarrow> real" where
  "eig_floor vals = 1 / 10 ^ 8 * max 1 (last vals)"

definition regularize_covariance :: "numerics \<Rightarrow> mat \<Rightarrow> mat \<times> bool \<times> real \<times> opt_note list" where
  "regularize_covariance num cov =
     (let (vals, vecs) = np_eigh num cov; fl = eig_floor vals
      in if hd vals \<ge> fl then (cov, False, 0, [])
         else let amount = fl - hd vals
              in (symmetrize (rebuild vecs (map (\<lambda>x. max x fl) vals)), True, amount,
                  [Regularized fl amount]))"

definition stats :: "vec \<Rightarrow> vec \<Rightarrow> mat \<Rightarrow> real \<Rightarrow> bool \<Rightarrow> real \<times> real \<times> real" where
  "stats w mu cov rf zero_vol =
     (let r = dot w mu
      in if zero_vol then (r, 0, 0)
         else let vol = sqrt (max (quad w cov) 0)
              in (r, vol, if vol > 1 / 10 ^ 12 then (r - rf) / vol else 0))"

definition clean_weights :: "vec \<Rightarrow> vec" where
  "clean_weights w =
     (let c = map (\<lambda>x. max x 0) w; s = sum_list c
      in if s \<le> 0 then replicate (length w) (1 / real (length w)) else map (\<lambda>x. x / s) c)"

section \<open>Closed forms and numerical solves\<close>

definition all_nonpos :: "vec \<Rightarrow> bool" where
  "all_nonpos v = list_all (\<lambda>x. x \<le> 0) v"

definition closed_form_max_sharpe :: "numerics \<Rightarrow> vec \<Rightarrow> mat \<Rightarrow> real \<Rightarrow> vec option" where
  "closed_form_max_sharpe num mu cov rf =
     (let excess = map (\<lambda>m. m - rf) mu
      in if all_nonpos excess then None
         else case np_inv num cov of
             None \<Rightarrow> None
           | Some im \<Rightarrow>
               let raw = matvec im excess; denom = sum_list raw
               in if denom \<le> 0 then None
                  else let w = map (\<lambda>x. x / denom) raw
                       in if list_ex (\<lambda>x. x < - (1 / 10 ^ 9)) w then None else Some (clean_weights w))"

definition closed_form_min_variance :: "numerics \<Rightarrow> mat \<Rightarrow> vec option" where
  "closed_form_min_variance num cov =
     (case np_inv num cov of
        None \<Rightarrow> None
      | Some im \<Rightarrow>
          let raw = matvec im (replicate (length cov) 1); denom = sum_list raw
          in if denom = 0 then None
             else let w = map (\<lambda>x. x / denom) raw
                  in if list_ex (\<lambda>x. x < - (1 / 10 ^ 9)) w then None else Some (clean_weights w))"

definition sum_one :: "vec \<Rightarrow> real" where
  "sum_one w = sum_list w - 1"

definition numerical_max_sharpe :: "numerics \<Rightarrow> vec \<Rightarrow> mat \<Rightarrow> real \<Rightarrow> vec \<Rightarrow> opt_exc + vec" where
  "numerical_max_sharpe num mu cov rf w0 =
     (let excess = map (\<lambda>m. m - rf) mu;
          neg_sharpe = (\<lambda>w. if quad w cov \<le> 0 then 0 else - dot w excess / sqrt (quad w cov))
      in case slsqp num neg_sharpe w0 [sum_one] of
           None \<Rightarrow> Inl SharpeSolveFailed
         | Some x \<Rightarrow> Inr (clean_weights x))"

definition numerical_min_variance :: "numerics \<Rightarrow> mat \<Rightarrow> vec \<Rightarrow> opt_exc + vec" where
  "numerical_min_variance num cov w0 =
     (case slsqp num (\<lambda>w. quad w cov) w0 [sum_one] of
        None \<Rightarrow> Inl MinVarianceSolveFailed
      | Some x \<Rightarrow> Inr (clean_weights x))"

definition closed_form_start :: "numerics \<Rightarrow> vec \<Rightarrow> mat \<Rightarrow> vec option" where
  "closed_form_start num mu cov =
     (case np_inv num cov of
        None \<Rightarrow> None
      | Some im \<Rightarrow>
          let raw = map (\<lambda>x. max x 0) (matvec im mu); s = sum_list raw
          in if s \<le> 0 then None else Some (map (\<lambda>x. x / s) raw))"

section \<open>Risk parity\<close>

definition rp_update :: "mat \<Rightarrow> vec \<Rightarrow> vec" where
  "rp_update cov w =
     (let vol = sqrt (quad w cov);
          u = map (\<lambda>m. vol / real (length cov) / max m (1 / 10 ^ 16)) (matvec cov w)
      in map (\<lambda>x. x / sum_list u) u)"

fun rp_loop :: "nat \<Rightarrow> mat \<Rightarrow> real \<Rightarrow> vec \<Rightarrow> vec \<times> bool" where
  "rp_loop 0 cov tol w = (w, False)"
| "rp_loop (Suc k) cov tol w =
     (if quad w cov \<le> 0 then (w, True)
      else let w' = rp_update cov w
           in if max_list (map2 (\<lambda>a b. \<bar>a - b\<bar>) w' w) < tol then (w', True)
              else rp_loop k cov tol w')"

definition inverse_volatility :: "mat \<Rightarrow> vec" where
  "inverse_volatility cov =
     (let variances = diag cov;
          sc = (if length cov \<noteq> 0 then max_list variances else 0);
          fl = (if sc > 0 then 1 / 10 ^ 12 * sc else 1 / 10 ^ 300);
          inv_vol = map (\<lambda>v. 1 / sqrt (max v fl)) variances
      in map (\<lambda>x. x / sum_list inv_vol) inv_vol)"

definition risk_parity_weights :: "mat \<Rightarrow> vec \<times> bool" where
  "risk_parity_weights cov =
     (let n = length cov;
          (w, converged) = rp_loop 5000 cov (1 / 10 ^ 12) (replicate n (1 / real n))
      in (clean_weights (if converged then w else inverse_volatility cov), converged))"

section \<open>Efficient frontier\<close>

definition solve_frontier_point :: "numerics \<Rightarrow> vec \<Rightarrow> mat \<Rightarrow> real \<Rightarrow> vec \<Rightarrow> vec option" where
  "solve_frontier_point num mu cov target w0 =
     map_option clean_weights
       (slsqp num (\<lambda>w. quad w cov) w0 [sum_one, \<lambda>w. dot w mu - target])"

definition argmax :: "vec \<Rightarrow> nat" where
  "argmax xs = length (takeWhile (\<lambda>x. x < max_list xs) xs)"

definition one_hot :: "nat \<Rightarrow> nat \<Rightarrow> vec" where
  "one_hot n k = (replicate n 0)[k := 1]"

definition linspace_inner :: "real \<Rightarrow> real \<Rightarrow> nat \<Rightarrow> vec" where
  "linspace_inner a b n = map (\<lambda>k. a + real k * ((b - a) / (real n - 1))) [1..<n - 1]"

fun frontier_steps :: "numerics \<Rightarrow> vec \<Rightarrow> mat \<Rightarrow> vec \<Rightarrow> vec \<Rightarrow> vec list \<times> opt_note list" where
  "frontier_steps num mu cov [] w_prev = ([], [])"
| "frontier_steps num mu cov (t # ts) w_prev =
     (let (w, notes) = (case solve_frontier_point num mu cov t w_prev of
            None \<Rightarrow> (w_prev, [FrontierCarried t])
          | Some w \<Rightarrow> (w, []));
          (ws, ns) = frontier_steps num mu cov ts w
      in (w # ws, notes @ ns))"

definition frontier_entry :: "vec \<Rightarrow> mat \<Rightarrow> real \<Rightarrow> bool \<Rightarrow> vec \<Rightarrow> frontier_point" where
  "frontier_entry mu cov rf zero_vol w =
     (let (r, v, _) = stats w mu cov rf zero_vol
      in \<lparr>fp_expected_return = r, fp_volatility = v, fp_weights = w\<rparr>)"

definition efficient_frontier ::
  "numerics \<Rightarrow> vec \<Rightarrow> mat \<Rightarrow> real \<Rightarrow> vec \<Rightarrow> nat \<Rightarrow> bool \<Rightarrow> frontier_point list \<times> opt_note list" where
  "efficient_frontier num mu cov rf w_minvar n_points zero_vol =
     (let ret_minvar = dot w_minvar mu; top = argmax mu; ret_max = mu ! top;
          w_maxret = one_hot (length mu) top;
          point = frontier_entry mu cov rf zero_vol
      in if ret_max - ret_minvar < 1 / 10 ^ 12 \<or> n_points = 2
         then ([point w_minvar, point w_maxret], [])
         else let (ws, ns) = frontier_steps num mu cov (linspace_inner ret_minvar ret_max n_points) w_minvar
              in (point w_minvar # map point ws @ [point w_maxret], ns))"

section \<open>optimize\<close>

definition make_mix :: "vec \<Rightarrow> mat \<Rightarrow> real \<Rightarrow> bool \<Rightarrow> string \<Rightarrow> vec \<Rightarrow> string \<Rightarrow> portfolio_mix" where
  "make_mix mu cov rf zero_vol label w meth =
     (let (r, v, s) = stats w mu cov rf zero_vol
      in \<lparr>mx_label = label, mx_weights = w, mx_expected_return = r, mx_volatility = v,
          mx_sharpe_ratio = s, mx_method = meth\<rparr>)"

definition max_sharpe_mix ::
  "numerics \<Rightarrow> vec \<Rightarrow> mat \<Rightarrow> real \<Rightarrow> vec \<Rightarrow> opt_exc + (vec \<times> string \<times> opt_note list)" where
  "max_sharpe_mix num mu cov rf equal_w =
     (case closed_form_max_sharpe num mu cov rf of
        Some w \<Rightarrow> Inr (w, ''closed-form'', [])
      | None \<Rightarrow>
          if all_nonpos (map (\<lambda>m. m - rf) mu)
          then rbind (case closed_form_min_variance num cov of
                        Some w \<Rightarrow> Inr w
                      | None \<Rightarrow> numerical_min_variance num cov equal_w) (\<lambda>w.
               Inr (w, ''fallback'', [NoExcessReturn]))
          else rbind (numerical_max_sharpe num mu cov rf
                 (case closed_form_start num mu cov of Some s \<Rightarrow> s | None \<Rightarrow> equal_w)) (\<lambda>w.
               Inr (w, ''numerical (SLSQP)'', [SharpeNumerical])))"

definition min_variance_mix :: "numerics \<Rightarrow> mat \<Rightarrow> vec \<Rightarrow> opt_exc + (vec \<times> string \<times> opt_note list)" where
  "min_variance_mix num cov equal_w =
     (case closed_form_min_variance num cov of
        Some w \<Rightarrow> Inr (w, ''closed-form'', [])
      | None \<Rightarrow> rbind (numerical_min_variance num cov equal_w) (\<lambda>w.
          Inr (w, ''numerical (SLSQP)'', [MinVarianceNumerical])))"

definition optimize ::
  "numerics \<Rightarrow> string list \<Rightarrow> pyfloat list \<Rightarrow> pyfloat list list \<Rightarrow> pyfloat \<Rightarrow> int \<Rightarrow>
     opt_exc + optimization_result" where
  "optimize num symbols expected_returns covariance risk_free frontier_points =
     rbind (validate_inputs symbols expected_returns covariance risk_free frontier_points)
       (\<lambda>(syms, mu, cov, notes0).
     let rf = the_fin risk_free;
         (cov_reg, regularized, amount, reg_notes) = regularize_covariance num cov;
         degenerate = list_all (list_all (\<lambda>x. x = 0)) cov;
         notes = notes0 @ reg_notes @ (if degenerate then [AllZeroCovariance] else []);
         n = length syms;
         equal_w = replicate n (1 / real n);
         mix = make_mix mu cov_reg rf degenerate
     in if n = 1
        then let m = (\<lambda>label. mix label [1] ''single-holding'')
             in Inr \<lparr>op_symbols = syms, op_risk_free_rate = rf, op_max_sharpe = m ''Maximum Sharpe'',
                     op_min_variance = m ''Minimum variance'', op_risk_parity = m ''Risk parity'',
                     op_frontier = [frontier_entry mu cov_reg rf degenerate [1]],
                     op_regularized = regularized, op_reg_amount = amount,
                     op_notes = notes @ [SingleHolding]\<rparr>
        else rbind (max_sharpe_mix num mu cov_reg rf equal_w) (\<lambda>(w_sharpe, sharpe_method, ns).
             rbind (min_variance_mix num cov_reg equal_w) (\<lambda>(w_minvar, minvar_method, nm).
             let (w_rp, converged) = risk_parity_weights cov_reg;
                 (frontier, nf) = efficient_frontier num mu cov_reg rf w_minvar (nat frontier_points) degenerate
             in Inr \<lparr>op_symbols = syms, op_risk_free_rate = rf,
                     op_max_sharpe = mix ''Maximum Sharpe'' w_sharpe sharpe_method,
                     op_min_variance = mix ''Minimum variance'' w_minvar minvar_method,
                     op_risk_parity = mix ''Risk parity'' w_rp
                       (if converged then ''cyclical coordinate descent'' else ''inverse-volatility fallback''),
                     op_frontier = frontier, op_regularized = regularized, op_reg_amount = amount,
                     op_notes = notes @ ns @ nm @ (if converged then [] else [RiskParityFallback]) @ nf\<rparr>)))"

section \<open>Lemmas: the simplex\<close>

definition simplex :: "nat \<Rightarrow> vec \<Rightarrow> bool" where
  "simplex n w = (length w = n \<and> (\<forall>x \<in> set w. 0 \<le> x) \<and> sum_list w = 1)"

lemma simplex_replicate: "0 < n \<Longrightarrow> simplex n (replicate n (1 / real n))"
  by (auto simp: simplex_def sum_list_replicate)

lemma clean_weights_simplex:
  assumes "w \<noteq> []"
  shows "simplex (length w) (clean_weights w)"
proof -
  let ?c = "map (\<lambda>x. max x 0) w"
  show ?thesis
  proof (cases "sum_list ?c \<le> 0")
    case True
    then show ?thesis using simplex_replicate [of "length w"] assms
      by (simp add: clean_weights_def Let_def)
  next
    case False
    then have "sum_list (map (\<lambda>x. x / sum_list ?c) ?c) = 1"
      by (subst sum_list_divide) simp
    with False show ?thesis by (auto simp: clean_weights_def Let_def simplex_def)
  qed
qed

lemma clean_weights_id:
  assumes "\<forall>x \<in> set w. 0 \<le> x" and "sum_list w = 1"
  shows "clean_weights w = w"
proof -
  have "map (\<lambda>x. max x 0) w = w" using assms(1) by (simp add: map_idI)
  with assms(2) show ?thesis by (simp add: clean_weights_def)
qed

lemma length_clean [simp]: "length (clean_weights w) = length w"
  by (simp add: clean_weights_def Let_def)

lemma length_symmetrize [simp]: "length (symmetrize m) = length m"
  by (simp add: symmetrize_def)

lemma length_rebuild [simp]: "length (rebuild v l) = length v"
  by (simp add: rebuild_def)

lemma sum_list_one_hot: "k < n \<Longrightarrow> sum_list (one_hot n k) = 1"
proof (induction n arbitrary: k)
  case (Suc n)
  then show ?case by (cases k) (auto simp: one_hot_def sum_list_replicate)
qed simp

lemma one_hot_simplex: "k < n \<Longrightarrow> simplex n (one_hot n k)"
  using sum_list_one_hot [of k n]
  by (auto simp: simplex_def one_hot_def dest!: set_update_subset_insert [THEN subsetD])

lemma argmax_less: "xs \<noteq> [] \<Longrightarrow> argmax xs < length xs"
proof -
  assume "xs \<noteq> []"
  then have "max_list xs \<in> set xs" by (simp add: max_list_def)
  then have "takeWhile (\<lambda>x. x < max_list xs) xs \<noteq> xs" by (metis less_irrefl set_takeWhileD)
  then show ?thesis unfolding argmax_def
    by (metis length_takeWhile_le nat_less_le takeWhile_eq_all_conv takeWhile_eq_take take_all_iff order_refl)
qed

lemma argmax_is_max: "xs \<noteq> [] \<Longrightarrow> x \<in> set xs \<Longrightarrow> x \<le> xs ! argmax xs"
proof -
  assume ne: "xs \<noteq> []" and x: "x \<in> set xs"
  have "\<not> xs ! argmax xs < max_list xs"
    using argmax_less [OF ne] unfolding argmax_def by (rule nth_length_takeWhile)
  moreover have "x \<le> max_list xs" using x by (simp add: max_list_def)
  ultimately show ?thesis by simp
qed

section \<open>Lemmas: the mixes are feasible\<close>

text \<open>What the external routines are relied on for: the shapes of their results.\<close>

definition numerics_shapes :: "numerics \<Rightarrow> bool" where
  "numerics_shapes num \<longleftrightarrow>
     (\<forall>m i. np_inv num m = Some i \<longrightarrow> length i = length m) \<and>
     (\<forall>m. length (snd (np_eigh num m)) = length m) \<and>
     (\<forall>f w cs x. slsqp num f w cs = Some x \<longrightarrow> length x = length w)"

lemma clean_simplex: "length w = n \<Longrightarrow> 0 < n \<Longrightarrow> simplex n (clean_weights w)"
  using clean_weights_simplex [of w] by auto

lemma regularize_length:
  "numerics_shapes num \<Longrightarrow> length (fst (regularize_covariance num cov)) = length cov"
  by (auto simp: regularize_covariance_def numerics_shapes_def Let_def split: prod.splits)
    (metis snd_conv)

lemma closed_max_sharpe_simplex:
  "numerics_shapes num \<Longrightarrow> cov \<noteq> [] \<Longrightarrow> closed_form_max_sharpe num mu cov rf = Some w \<Longrightarrow>
     simplex (length cov) w"
  by (auto simp: closed_form_max_sharpe_def Let_def numerics_shapes_def intro!: clean_simplex
      split: if_splits option.splits)

lemma closed_min_variance_simplex:
  "numerics_shapes num \<Longrightarrow> cov \<noteq> [] \<Longrightarrow> closed_form_min_variance num cov = Some w \<Longrightarrow>
     simplex (length cov) w"
  by (auto simp: closed_form_min_variance_def Let_def numerics_shapes_def intro!: clean_simplex
      split: if_splits option.splits)

lemma numerical_max_sharpe_simplex:
  "numerics_shapes num \<Longrightarrow> length w0 = n \<Longrightarrow> 0 < n \<Longrightarrow>
     numerical_max_sharpe num mu cov rf w0 = Inr w \<Longrightarrow> simplex n w"
  by (auto simp: numerical_max_sharpe_def Let_def numerics_shapes_def intro!: clean_simplex
      split: option.splits)

lemma numerical_min_variance_simplex:
  "numerics_shapes num \<Longrightarrow> length w0 = n \<Longrightarrow> 0 < n \<Longrightarrow>
     numerical_min_variance num cov w0 = Inr w \<Longrightarrow> simplex n w"
  by (auto simp: numerical_min_variance_def numerics_shapes_def intro!: clean_simplex
      split: option.splits)

lemma closed_start_length:
  "numerics_shapes num \<Longrightarrow> closed_form_start num mu cov = Some s \<Longrightarrow> length s = length cov"
  by (auto simp: closed_form_start_def Let_def numerics_shapes_def split: option.splits if_splits)

lemma max_sharpe_mix_simplex:
  assumes num: "numerics_shapes num" and n: "length cov = n" "0 < n" "length eq = n"
    and res: "max_sharpe_mix num mu cov rf eq = Inr (w, m, ns)"
  shows "simplex n w"
proof (cases "closed_form_max_sharpe num mu cov rf")
  case (Some w')
  with res closed_max_sharpe_simplex [OF num _ Some] n show ?thesis
    by (auto simp: max_sharpe_mix_def)
next
  case None
  have ne: "cov \<noteq> []" using n by auto
  show ?thesis
  proof (cases "all_nonpos (map (\<lambda>m. m - rf) mu)")
    case True
    show ?thesis
    proof (cases "closed_form_min_variance num cov")
      case (Some v)
      with res None True have "w = v" by (simp add: max_sharpe_mix_def)
      with closed_min_variance_simplex [OF num ne Some] n show ?thesis by simp
    next
      case none: None
      with res None True have "numerical_min_variance num cov eq = Inr w"
        by (auto simp: max_sharpe_mix_def)
      then show ?thesis by (rule numerical_min_variance_simplex [OF num n(3,2)])
    qed
  next
    case False
    let ?w0 = "case closed_form_start num mu cov of Some s \<Rightarrow> s | None \<Rightarrow> eq"
    have "length ?w0 = n" using closed_start_length [OF num, of mu cov] n
      by (cases "closed_form_start num mu cov") auto
    moreover from res None False have "numerical_max_sharpe num mu cov rf ?w0 = Inr w"
      by (auto simp: max_sharpe_mix_def)
    ultimately show ?thesis by (rule numerical_max_sharpe_simplex [OF num _ n(2)])
  qed
qed

lemma min_variance_mix_simplex:
  "numerics_shapes num \<Longrightarrow> length cov = n \<Longrightarrow> 0 < n \<Longrightarrow> length eq = n \<Longrightarrow>
     min_variance_mix num cov eq = Inr (w, m, ns) \<Longrightarrow> simplex n w"
  using closed_min_variance_simplex [of num cov] numerical_min_variance_simplex [of num eq n cov]
  by (auto simp: min_variance_mix_def split: option.splits)

lemma length_rp_update [simp]: "length (rp_update cov w) = length cov"
  by (simp add: rp_update_def Let_def)

lemma length_rp_loop: "length w = length cov \<Longrightarrow> length (fst (rp_loop k cov tol w)) = length cov"
  by (induction k cov tol w rule: rp_loop.induct) (auto simp: Let_def)

lemma length_inverse_volatility: "length (inverse_volatility cov) = length cov"
  by (simp only: inverse_volatility_def Let_def length_map diag_def length_upt diff_zero)

lemma risk_parity_simplex:
  assumes "cov \<noteq> []"
  shows "simplex (length cov) (fst (risk_parity_weights cov))"
proof -
  let ?n = "length cov"
  obtain w c where l: "rp_loop 5000 cov (1 / 10 ^ 12) (replicate ?n (1 / real ?n)) = (w, c)"
    by fastforce
  have "length w = ?n"
    using length_rp_loop [of "replicate ?n (1 / real ?n)" cov 5000 "1 / 10 ^ 12"]
    unfolding l by simp
  then have "simplex ?n (clean_weights (if c then w else inverse_volatility cov))"
    using assms length_inverse_volatility [of cov] by (intro clean_simplex) auto
  then show ?thesis by (simp only: risk_parity_weights_def Let_def l prod.case fst_conv)
qed

lemma frontier_steps_simplex:
  assumes "numerics_shapes num" and "simplex n w" and "0 < n"
  shows "length (fst (frontier_steps num mu cov ts w)) = length ts \<and>
    (\<forall>v \<in> set (fst (frontier_steps num mu cov ts w)). simplex n v)"
  using assms(2)
proof (induction ts arbitrary: w)
  case (Cons t ts)
  have step: "simplex n v" if "solve_frontier_point num mu cov t w = Some v" for v
    using that assms(1,3) Cons.prems
    by (auto simp: solve_frontier_point_def numerics_shapes_def simplex_def [of n w] intro!: clean_simplex)
  show ?case
    using Cons.IH [OF Cons.prems] Cons.IH [OF step]
    by (auto simp: Let_def step Cons.prems split: option.splits prod.splits)
qed simp

lemma frontier_entry_weights [simp]: "fp_weights (frontier_entry mu cov rf z w) = w"
  by (simp add: frontier_entry_def split: prod.splits)

lemma make_mix_weights [simp]: "mx_weights (make_mix mu cov rf z l w m) = w"
  by (simp add: make_mix_def split: prod.splits)

lemma frontier_feasible:
  assumes num: "numerics_shapes num" and w: "simplex (length mu) w" and mu: "mu \<noteq> []" and np: "2 \<le> n_points"
    and fr: "efficient_frontier num mu cov rf w n_points z = (fr, nf)"
  shows "(\<forall>p \<in> set fr. simplex (length mu) (fp_weights p)) \<and> fp_weights (hd fr) = w \<and>
    fp_weights (last fr) = one_hot (length mu) (argmax mu) \<and> (length fr = 2 \<or> length fr = n_points)"
proof -
  have top: "simplex (length mu) (one_hot (length mu) (argmax mu))"
    by (rule one_hot_simplex) (rule argmax_less [OF mu])
  let ?P = "frontier_entry mu cov rf z"
  let ?top = "one_hot (length mu) (argmax mu)"
  let ?ts = "linspace_inner (dot w mu) (mu ! argmax mu) n_points"
  note steps = frontier_steps_simplex [OF num w, of mu cov ?ts]
  show ?thesis
  proof (cases "mu ! argmax mu - dot w mu < 1 / 10 ^ 12 \<or> n_points = 2")
    case True
    with fr have "fr = [?P w, ?P ?top]" by (simp add: efficient_frontier_def Let_def)
    with w top show ?thesis by simp
  next
    case False
    then have "fr = ?P w # map ?P (fst (frontier_steps num mu cov ?ts w)) @ [?P ?top]"
      using fr by (simp only: efficient_frontier_def Let_def if_False split: prod.splits) simp
    moreover have "length ?ts = n_points - 2" by (simp add: linspace_inner_def)
    ultimately show ?thesis using w top steps np mu by auto
  qed
qed

lemma validate_inputs_shape:
  "validate_inputs symbols er covariance rf k = Inr (syms, mu, cov, ns) \<Longrightarrow>
     syms = map strip symbols \<and> syms \<noteq> [] \<and> length mu = length syms \<and> length cov = length syms \<and> 2 \<le> k"
  by (auto simp: validate_inputs_def Let_def split: if_splits)

section \<open>Properties\<close>

text \<open>C9: whenever the optimiser returns, every reported mix and every frontier point is a long-only
  portfolio over the given symbols (one non-negative weight per symbol, summing to one), the frontier
  starts at the minimum-variance mix and ends entirely in an asset of the highest expected return, and
  it has one, two or the requested number of points.\<close>

theorem optimize_mixes_feasible:
  assumes "optimize num symbols er covariance rf k = Inr r" and num: "numerics_shapes num"
  shows "op_symbols r = map strip symbols \<and>
    (\<forall>w \<in> {mx_weights (op_max_sharpe r), mx_weights (op_min_variance r), mx_weights (op_risk_parity r)}
       \<union> fp_weights ` set (op_frontier r). simplex (length symbols) w) \<and>
    fp_weights (hd (op_frontier r)) = mx_weights (op_min_variance r) \<and>
    fp_weights (last (op_frontier r)) = one_hot (length symbols) (argmax (map the_fin er)) \<and>
    length (op_frontier r) \<in> {1, 2, nat k}"
proof -
  obtain syms mu cov n0 where v: "validate_inputs symbols er covariance rf k = Inr (syms, mu, cov, n0)"
    using assms(1) by (auto simp: optimize_def)
  note sh = validate_inputs_shape [OF v]
  have mu: "mu = map the_fin er" using v by (auto simp: validate_inputs_def Let_def split: if_splits)
  obtain cr b am rn where reg: "regularize_covariance num cov = (cr, b, am, rn)"
    by (cases "regularize_covariance num cov") auto
  have cr: "length cr = length syms" using regularize_length [OF num, of cov] reg sh by simp
  have n: "length syms = length symbols" "0 < length syms" "mu \<noteq> []" "cr \<noteq> []" using sh cr by auto
  show ?thesis
  proof (cases "length syms = 1")
    case True
    then have "one_hot 1 (argmax mu) = [1]"
      using argmax_less [OF n(3)] sh by (simp add: one_hot_def)
    with assms(1) v reg True n sh mu show ?thesis
      by (auto simp: optimize_def Let_def simplex_def)
  next
    case False
    let ?eq = "replicate (length syms) (1 / real (length syms))"
    obtain wr cv where rp: "risk_parity_weights cr = (wr, cv)" by fastforce
    let ?z = "list_all (list_all (\<lambda>x. x = 0)) cov"
    obtain ws ms ns wm mm nm where
      s: "max_sharpe_mix num mu cr (the_fin rf) ?eq = Inr (ws, ms, ns)"
      and m: "min_variance_mix num cr ?eq = Inr (wm, mm, nm)"
      using assms(1) False by (auto simp: optimize_def v reg rp Let_def)
    obtain fr nf where f: "efficient_frontier num mu cr (the_fin rf) wm (nat k) ?z = (fr, nf)"
      by fastforce
    have r: "mx_weights (op_max_sharpe r) = ws" "mx_weights (op_min_variance r) = wm"
        "mx_weights (op_risk_parity r) = wr" "op_frontier r = fr" "op_symbols r = syms"
      using assms(1) False by (auto simp: optimize_def v reg rp Let_def s m f)
    have "simplex (length syms) ws" by (rule max_sharpe_mix_simplex [OF num cr n(2) _ s]) simp
    moreover have wm: "simplex (length syms) wm" by (rule min_variance_mix_simplex [OF num cr n(2) _ m]) simp
    moreover have "simplex (length syms) wr" using risk_parity_simplex [OF n(4)] rp cr by simp
    moreover have "simplex (length mu) wm" "2 \<le> nat k" using wm sh by auto
    from frontier_feasible [OF num this(1) n(3) this(2) f]
    have "(\<forall>p \<in> set fr. simplex (length mu) (fp_weights p)) \<and> fp_weights (hd fr) = wm \<and>
      fp_weights (last fr) = one_hot (length mu) (argmax mu) \<and> (length fr = 2 \<or> length fr = nat k)" .
    ultimately show ?thesis using r sh mu n by auto
  qed
qed

definition sample_num :: numerics where
  "sample_num =
     \<lparr>np_inv = (\<lambda>m. if m = [[1, 0], [0, 1]] then Some m else None), np_eigh = (\<lambda>m. ([1, 1], m)),
      slsqp = (\<lambda>f w cs. Some w)\<rparr>"

lemma sample_num_shapes: "numerics_shapes sample_num"
  by (simp add: numerics_shapes_def sample_num_def)

lemma optimize_mixes_feasible_witness:
  "\<exists>r. optimize sample_num [''A'', '' B''] [Fin 1, Fin 2] [[Fin 1, Fin 0], [Fin 0, Fin 1]] (Fin 0) 2 = Inr r \<and>
     op_symbols r = [''A'', ''B''] \<and> fp_weights (last (op_frontier r)) = [0, 1]"
proof -
  have strip: "strip ''A'' = ''A''" "strip '' B'' = ''B''"
    by (simp_all add: strip_def lstrip_def rstrip_def is_ws_def code_of_def)
  have sym: "symmetrize [[1, 0], [0, 1]] = [[1, 0], [0, 1]]"
    by (simp add: symmetrize_def upt_rec)
  have v: "validate_inputs [''A'', '' B''] [Fin 1, Fin 2] [[Fin 1, Fin 0], [Fin 0, Fin 1]] (Fin 0) 2 =
      Inr ([''A'', ''B''], [1, 2], [[1, 0], [0, 1]], [])"
    by (simp add: validate_inputs_def strip Let_def sym max_list_def upt_rec)
  have reg: "regularize_covariance sample_num [[1, 0], [0, 1]] = ([[1, 0], [0, 1]], False, 0, [])"
    by (simp add: regularize_covariance_def sample_num_def eig_floor_def)
  obtain wr cv where rp: "risk_parity_weights [[1, 0], [0, 1]] = (wr, cv)" by fastforce
  obtain ws ms ns where sh: "max_sharpe_mix sample_num [1, 2] [[1, 0], [0, 1]] 0 [1 / 2, 1 / 2] = Inr (ws, ms, ns)"
    by (simp add: max_sharpe_mix_def closed_form_max_sharpe_def sample_num_def all_nonpos_def
        matvec_def dot_def)
  obtain wm mm nm where mv: "min_variance_mix sample_num [[1, 0], [0, 1]] [1 / 2, 1 / 2] = Inr (wm, mm, nm)"
    by (simp add: min_variance_mix_def closed_form_min_variance_def sample_num_def matvec_def dot_def)
  have "\<exists>r. optimize sample_num [''A'', '' B''] [Fin 1, Fin 2] [[Fin 1, Fin 0], [Fin 0, Fin 1]] (Fin 0) 2 = Inr r"
    by (simp add: optimize_def v reg rp numeral_2_eq_2 sh [unfolded numeral_2_eq_2] mv [unfolded numeral_2_eq_2]
        efficient_frontier_def Let_def)
  then obtain r where r: "optimize sample_num [''A'', '' B''] [Fin 1, Fin 2] [[Fin 1, Fin 0], [Fin 0, Fin 1]] (Fin 0) 2 = Inr r"
    by blast
  have "op_symbols r = [''A'', ''B'']" "fp_weights (last (op_frontier r)) = one_hot (Suc (Suc 0)) (argmax [1, 2])"
    using optimize_mixes_feasible [OF r sample_num_shapes] by (simp_all add: strip)
  moreover have "one_hot (Suc (Suc 0)) (argmax [1, 2]) = [0, 1]"
    by (simp add: argmax_def max_list_def one_hot_def)
  ultimately show ?thesis using r by auto
qed

text \<open>C28: when the closed form's weights are non-negative before cleaning, the mix it returns has the
  least variance of all fully invested portfolios, short positions included, provided the covariance
  is symmetric and positive semidefinite and the inverse solves the linear system it is used for.\<close>

theorem closed_form_min_variance_optimal:
  assumes res: "closed_form_min_variance num cov = Some w"
    and inv: "np_inv num cov = Some im" "length im = length cov"
      "matvec cov (matvec im (replicate (length cov) 1)) = replicate (length cov) 1"
    and sym: "\<And>u v. length u = length cov \<Longrightarrow> length v = length cov \<Longrightarrow>
      dot u (matvec cov v) = dot v (matvec cov u)"
    and psd: "\<And>v. length v = length cov \<Longrightarrow> 0 \<le> quad v cov"
    and long: "\<forall>x \<in> set (matvec im (replicate (length cov) 1)). 0 \<le> x"
    and v: "length v = length cov" "sum_list v = 1"
  shows "sum_list w = 1 \<and> quad w cov \<le> quad v cov"
proof -
  let ?n = "length cov"
  define raw where "raw = matvec im (replicate ?n 1)"
  define d where "d = sum_list raw"
  have "0 \<le> d" unfolding d_def by (rule sum_list_nonneg) (use long in \<open>simp add: raw_def\<close>)
  moreover have "d \<noteq> 0" using res inv(1) by (auto simp: closed_form_min_variance_def d_def raw_def Let_def)
  ultimately have d: "0 < d" by simp
  let ?w = "map (\<lambda>x. x / d) raw"
  have one: "sum_list ?w = 1" using d by (simp add: sum_list_divide d_def)
  have "w = clean_weights ?w"
    using res inv(1) by (auto simp: closed_form_min_variance_def d_def raw_def Let_def split: if_splits)
  also have "\<dots> = ?w"
    by (rule clean_weights_id [OF _ one]) (use long d in \<open>auto simp: raw_def\<close>)
  finally have w: "w = ?w" .
  have len: "length w = ?n" by (simp add: w raw_def inv(2))
  have cw: "matvec cov w = replicate ?n (1 / d)"
    unfolding w matvec_divide raw_def using inv(3) by simp
  have sw: "sum_list w = 1" using one by (simp only: w)
  have qw: "quad w cov = 1 / d" "dot v (matvec cov w) = 1 / d"
    using dot_replicate [OF len] dot_replicate [OF v(1)] sw v(2) by (simp_all add: quad_def cw)
  let ?x = "map2 (-) v w"
  have lx: "length v = length w" using v(1) len by simp
  have "0 \<le> quad ?x cov" by (rule psd) (simp add: v(1) len)
  also have "quad ?x cov = quad v cov - dot v (matvec cov w) - dot w (matvec cov v) + quad w cov"
    using lx by (simp add: quad_def matvec_diff dot_diff_left dot_diff_right)
  also have "\<dots> = quad v cov - 1 / d"
    using sym [OF len v(1)] qw by simp
  finally show ?thesis using qw sw by simp
qed

lemma closed_form_min_variance_optimal_witness:
  "closed_form_min_variance sample_num [[1, 0], [0, 1]] = Some [1 / 2, 1 / 2] \<and>
   quad [1 / 2, 1 / 2] [[1, 0], [0, 1]] \<le> quad [3, -2] [[1, 0], [0, 1]]"
proof -
  let ?c = "[[1, 0], [0, 1]] :: mat"
  have res: "closed_form_min_variance sample_num ?c = Some [1 / 2, 1 / 2]"
    by (simp add: closed_form_min_variance_def sample_num_def matvec_def dot_def clean_weights_def)
  have two: "\<exists>a b. u = [a, b]" if "length u = length ?c" for u :: vec
    using that by (cases u; cases "tl u") auto
  have "sum_list [1 / 2, 1 / 2 :: real] = 1 \<and> quad [1 / 2, 1 / 2] ?c \<le> quad [3, -2] ?c"
  proof (rule closed_form_min_variance_optimal [OF res, where im = ?c])
    show "dot u (matvec ?c v) = dot v (matvec ?c u)"
      if "length u = length ?c" "length v = length ?c" for u v
      using two [OF that(1)] two [OF that(2)] by (auto simp: matvec_def dot_def)
    show "0 \<le> quad v ?c" if "length v = length ?c" for v
      using two [OF that] by (auto simp: quad_def matvec_def dot_def)
  qed (simp_all add: sample_num_def matvec_def dot_def)
  with res show ?thesis by simp
qed

end
