(* ===== verification/Factor.thy ===== *)
theory Factor
  imports Vectors
begin

text \<open>
  \<^verbatim>\<open>analytics/pae/models/factor.py\<close>: the ordinary-least-squares factor decomposition. The inverse of the
  Gram matrix is the parameter \<open>inv_fn\<close>, None for a LinAlgError; its entries are floats, which for a
  near-singular matrix may be infinite or NaN, and the coefficients computed from them are tested as
  the code tests them. The rest of the arithmetic is written out over exact reals.
\<close>

section \<open>Data and validation\<close>

record factor_exposure =
  fe_name :: string
  fe_beta :: real
  fe_t_stat :: real
  fe_contribution_pct :: real

record factor_decomposition =
  fd_alpha :: real
  fd_alpha_t_stat :: real
  fd_r_squared :: real
  fd_exposures :: "factor_exposure list"
  fd_residual_risk_pct :: real

datatype factor_exc =
    PortfolioReturnsEmpty
  | NoFactors
  | TooFewObservations nat nat
  | FactorLength string nat nat
  | PortfolioNotFinite
  | FactorNotFinite string
  | SingularFactors
  | CoefficientsNotFinite

fun check_lengths :: "nat \<Rightarrow> (string \<times> pyfloat list) list \<Rightarrow> factor_exc + unit" where
  "check_lengths n [] = Inr ()"
| "check_lengths n ((name, fr) # rest) =
     (if length fr \<noteq> n then Inl (FactorLength name (length fr) n) else check_lengths n rest)"

fun check_finite :: "(string \<times> pyfloat list) list \<Rightarrow> factor_exc + unit" where
  "check_finite [] = Inr ()"
| "check_finite ((name, fr) # rest) =
     (if \<not> list_all is_finite fr then Inl (FactorNotFinite name) else check_finite rest)"

definition validate_returns ::
  "pyfloat list \<Rightarrow> (string \<times> pyfloat list) list \<Rightarrow> factor_exc + unit" where
  "validate_returns prs frs =
     (if prs = [] then Inl PortfolioReturnsEmpty
      else if frs = [] then Inl NoFactors
      else if length prs < length frs + 2 then Inl (TooFewObservations (length frs + 2) (length prs))
      else rbind (check_lengths (length prs) frs) (\<lambda>_.
           if \<not> list_all is_finite prs then Inl PortfolioNotFinite else check_finite frs))"

section \<open>Regression\<close>

text \<open>\<open>X @ betas\<close> for the matrix with the given columns.\<close>

fun lincomb :: "nat \<Rightarrow> vec list \<Rightarrow> vec \<Rightarrow> vec" where
  "lincomb n (c # cs) (x # xs) = map2 (\<lambda>a t. a * x + t) c (lincomb n cs xs)"
| "lincomb n _ _ = replicate n 0"

definition gram :: "vec list \<Rightarrow> mat" where
  "gram cols = map (\<lambda>c. map (dot c) cols) cols"

definition sum_squares :: "vec \<Rightarrow> real" where
  "sum_squares v = (\<Sum>x\<leftarrow>v. x ^ 2)"

definition deviations :: "vec \<Rightarrow> vec" where
  "deviations v = map (\<lambda>x. x - sum_list v / real (length v)) v"

definition sample_var :: "vec \<Rightarrow> real" where
  "sample_var v = sum_squares (deviations v) / (real (length v) - 1)"

definition ratio_if_pos :: "real \<Rightarrow> real \<Rightarrow> real" where
  "ratio_if_pos a b = (if b > 0 then a / b else 0)"

definition exposure_of :: "real \<Rightarrow> (string \<times> vec) \<times> real \<times> real \<Rightarrow> factor_exposure" where
  "exposure_of portfolio_var = (\<lambda>((name, fr), beta, se).
     \<lparr>fe_name = name, fe_beta = beta, fe_t_stat = ratio_if_pos beta se,
      fe_contribution_pct = ratio_if_pos (beta ^ 2 * sample_var fr) portfolio_var * 100\<rparr>)"

text \<open>\<open>xtx_inv @ (X.T @ y)\<close> with the IEEE rules: an entry of the inverse that is not finite makes its
  coefficient not finite.\<close>

type_synonym fl_mat = "pyfloat list list"

definition fl_matvec :: "fl_mat \<Rightarrow> vec \<Rightarrow> pyfloat list" where
  "fl_matvec m v = map (\<lambda>r. fl_sum (map2 fl_mul r (map Fin v))) m"

definition regress ::
  "(mat \<Rightarrow> fl_mat option) \<Rightarrow> vec \<Rightarrow> (string \<times> vec) list \<Rightarrow> factor_exc + factor_decomposition" where
  "regress inv_fn y frs =
     (let n = length y; k = length frs; cols = replicate n 1 # map snd frs
      in case inv_fn (gram cols) of
           None \<Rightarrow> Inl SingularFactors
         | Some raw_inv \<Rightarrow>
             let raw_betas = fl_matvec raw_inv (map (\<lambda>c. dot c y) cols);
                 betas = map the_fin raw_betas;
                 xtx_inv = map (map the_fin) raw_inv;
                 residuals = map2 (-) y (lincomb n cols betas);
                 ss_res = sum_squares residuals;
                 ss_tot = sum_squares (deviations y);
                 dof = n - k - 1;
                 sigma2 = (if dof > 0 then ss_res / real dof else 0);
                 se = map (\<lambda>i. sqrt (max (xtx_inv ! i ! i * sigma2) 0)) [0..<length xtx_inv];
                 exposures = map (exposure_of (sample_var y)) (zip frs (zip (tl betas) (tl se)));
                 explained = (\<Sum>e\<leftarrow>exposures. fe_contribution_pct e / 100)
             in if \<not> list_all is_finite raw_betas then Inl CoefficientsNotFinite
                else Inr \<lparr>fd_alpha = hd betas, fd_alpha_t_stat = ratio_if_pos (hd betas) (hd se),
                     fd_r_squared = (if ss_tot > 0 then 1 - ss_res / ss_tot else 0),
                     fd_exposures = exposures, fd_residual_risk_pct = max ((1 - explained) * 100) 0\<rparr>)"

definition decompose ::
  "(mat \<Rightarrow> fl_mat option) \<Rightarrow> pyfloat list \<Rightarrow> (string \<times> pyfloat list) list \<Rightarrow>
     factor_exc + factor_decomposition" where
  "decompose inv_fn prs frs =
     rbind (validate_returns prs frs) (\<lambda>_.
       regress inv_fn (map the_fin prs) (map (\<lambda>(name, fr). (name, map the_fin fr)) frs))"

section \<open>Lemmas: projections\<close>

lemma length_lincomb: "\<forall>c \<in> set cs. length c = n \<Longrightarrow> length (lincomb n cs xs) = n"
  by (induction n cs xs rule: lincomb.induct) auto

lemma dot_Nil [simp]: "dot [] v = 0" "dot v [] = 0"
  by (simp_all add: dot_def)

lemma dot_map2_scale:
  "length u = length a \<Longrightarrow> length a = length t \<Longrightarrow> dot u (map2 (\<lambda>a t. a * x + t) a t) = dot u a * x + dot u t"
proof (induction u a t rule: list_induct3)
  case (Cons p u q a r t)
  then show ?case by (auto simp: dot_def algebra_simps)
qed (simp add: dot_def)

lemma dot_zero: "dot u (replicate n 0) = 0"
proof (induction u arbitrary: n)
  case (Cons a u)
  then show ?case by (cases n) (auto simp: dot_def)
qed (simp add: dot_def)

lemma dot_lincomb:
  "\<forall>c \<in> set cs. length c = n \<Longrightarrow> length u = n \<Longrightarrow>
     dot u (lincomb n cs xs) = dot (map (dot u) cs) xs"
proof (induction n cs xs rule: lincomb.induct)
  case (1 n c cs x xs)
  then show ?case
    by (simp add: dot_map2_scale length_lincomb) (simp add: dot_def)
qed (auto simp: dot_zero)

lemma lincomb_diff:
  "length xs = length cs \<Longrightarrow> length ys = length cs \<Longrightarrow> \<forall>c \<in> set cs. length c = n \<Longrightarrow>
     lincomb n cs (map2 (-) xs ys) = map2 (-) (lincomb n cs xs) (lincomb n cs ys)"
proof (induction cs arbitrary: xs ys)
  case (Cons c cs)
  then obtain x xs' y ys' where xs: "xs = x # xs'" "ys = y # ys'"
    by (cases xs; cases ys) auto
  have IH: "lincomb n cs (map2 (-) xs' ys') = map2 (-) (lincomb n cs xs') (lincomb n cs ys')"
    using Cons xs by simp
  have l: "length (lincomb n cs xs') = length c" "length (lincomb n cs ys') = length c"
    using Cons.prems by (auto simp: length_lincomb)
  show ?case
    by (rule nth_equalityI) (use l in \<open>auto simp: xs IH algebra_simps\<close>)
qed (auto intro: nth_equalityI)

lemma sum_squares_dot: "sum_squares v = dot v v"
  by (induction v) (auto simp: sum_squares_def dot_def power2_eq_square)

lemma sum_squares_nonneg: "0 \<le> sum_squares v"
  by (auto simp: sum_squares_def intro!: sum_list_nonneg)

lemma dot_add_square:
  "length u = length v \<Longrightarrow> sum_squares (map2 (+) u v) = sum_squares u + 2 * dot u v + sum_squares v"
proof (induction u v rule: list_induct2)
  case (Cons a u b v)
  then show ?case by (auto simp: sum_squares_def dot_def power2_eq_square algebra_simps)
qed (simp add: sum_squares_def dot_def)

definition residual :: "vec \<Rightarrow> vec list \<Rightarrow> vec \<Rightarrow> vec" where
  "residual y cols b = map2 (-) y (lincomb (length y) cols b)"

text \<open>The normal equations make the residual orthogonal to every column.\<close>

lemma normal_orthogonal:
  assumes cols: "\<forall>c \<in> set cols. length c = length y"
    and normal: "matvec (gram cols) b = map (\<lambda>c. dot c y) cols" and c: "c \<in> set cols"
  shows "dot c (residual y cols b) = 0"
proof -
  have "dot c (residual y cols b) = dot c y - dot c (lincomb (length y) cols b)"
    unfolding residual_def using cols by (intro dot_diff_right) (simp add: length_lincomb)
  also have "dot c (lincomb (length y) cols b) = dot (map (dot c) cols) b"
    using cols c by (intro dot_lincomb) auto
  also have "\<dots> = dot c y"
  proof -
    have "map (\<lambda>c. dot (map (dot c) cols) b) cols = map (\<lambda>c. dot c y) cols"
      using normal by (simp add: matvec_def gram_def comp_def)
    then show ?thesis using c by (simp add: map_eq_conv)
  qed
  finally show ?thesis by simp
qed

lemma least_squares:
  assumes cols: "\<forall>c \<in> set cols. length c = length y" and b: "length b = length cols"
    and normal: "matvec (gram cols) b = map (\<lambda>c. dot c y) cols" and d: "length d = length cols"
  shows "sum_squares (residual y cols b) \<le> sum_squares (residual y cols d)"
proof -
  let ?e = "map2 (-) b d"
  let ?l = "lincomb (length y) cols ?e"
  have len: "length (residual y cols b) = length y" "length ?l = length y"
    using cols by (simp_all add: residual_def length_lincomb)
  have "residual y cols d = map2 (+) (residual y cols b) ?l"
    unfolding lincomb_diff [OF b d cols]
    by (rule nth_equalityI) (use cols in \<open>auto simp: residual_def length_lincomb\<close>)
  then have "sum_squares (residual y cols d) =
      sum_squares (residual y cols b) + 2 * dot (residual y cols b) ?l + sum_squares ?l"
    using dot_add_square len by simp
  moreover have "dot (residual y cols b) ?l = 0"
  proof -
    have "dot (residual y cols b) ?l = dot (map (dot (residual y cols b)) cols) ?e"
      using dot_lincomb [OF cols len(1)] .
    also have "map (dot (residual y cols b)) cols = replicate (length cols) 0"
      using normal_orthogonal [OF cols normal] by (intro nth_equalityI) (auto simp: dot_comm [of "residual y cols b"])
    finally show ?thesis by (simp add: dot_comm [of "replicate _ _"] dot_zero)
  qed
  ultimately show ?thesis using sum_squares_nonneg [of ?l] by simp
qed

lemma lincomb_zeros: "\<forall>c \<in> set cs. length c = n \<Longrightarrow> lincomb n cs (replicate (length cs) 0) = replicate n 0"
  by (induction cs) (auto intro!: nth_equalityI)

lemma residual_constant:
  assumes "\<forall>c \<in> set cs. length c = length y"
  shows "residual y (replicate (length y) 1 # cs) (m # replicate (length cs) 0) = map (\<lambda>x. x - m) y"
  by (rule nth_equalityI) (use assms in \<open>auto simp: residual_def lincomb_zeros\<close>)

lemma check_lengths_Inr: "check_lengths n frs = Inr u \<Longrightarrow> \<forall>f \<in> set frs. length (snd f) = n"
  by (induction n frs rule: check_lengths.induct) (auto split: if_splits)

text \<open>The guard on the coefficients: it passes exactly when the used entries of the inverse are finite, and
  then the coefficients are the exact product.\<close>

lemma fl_mul_finite [simp]: "is_finite (fl_mul a (Fin x)) \<longleftrightarrow> is_finite a"
  by (cases a) (auto simp: fl_inf_def)

lemma fl_sum_finite: "is_finite (fl_sum xs) \<longleftrightarrow> list_all is_finite xs"
proof -
  have "is_finite (foldl fl_add a xs) \<longleftrightarrow> is_finite a \<and> list_all is_finite xs" for a
    by (induction xs arbitrary: a) auto
  then show ?thesis by (simp add: fl_sum_def)
qed

lemma fl_row_finite:
  "length r = length v \<Longrightarrow> list_all is_finite (map2 fl_mul r (map Fin v)) \<longleftrightarrow> list_all is_finite r"
  by (induction r v rule: list_induct2) auto

lemma fl_row_exact:
  "list_all is_finite r \<Longrightarrow> map2 fl_mul r (map Fin v) = map Fin (map2 (*) (map the_fin r) v)"
proof (induction r arbitrary: v)
  case (Cons a r)
  then show ?case by (cases v; cases a) auto
qed simp

lemma fl_matvec_finite:
  assumes "\<forall>r \<in> set m. length r = length v" and "list_all is_finite (fl_matvec m v)"
  shows "list_all (list_all is_finite) m"
    and "map the_fin (fl_matvec m v) = matvec (map (map the_fin) m) v"
proof -
  show fin: "list_all (list_all is_finite) m"
    unfolding list_all_iff [of _ m]
  proof
    fix r assume r: "r \<in> set m"
    with assms(2) have "list_all is_finite (map2 fl_mul r (map Fin v))"
      by (simp add: fl_matvec_def list_all_iff [of _ m] list.pred_map comp_def fl_sum_finite)
    with assms(1) r show "list_all is_finite r" by (simp add: fl_row_finite)
  qed
  have "the_fin (fl_sum (map2 fl_mul r (map Fin v))) = dot (map the_fin r) v" if "r \<in> set m" for r
  proof -
    have "list_all is_finite r" using fin that by (simp add: list_all_iff)
    then show ?thesis by (simp only: fl_row_exact fl_sum_Fin the_fin.simps dot_def)
  qed
  then show "map the_fin (fl_matvec m v) = matvec (map (map the_fin) m) v"
    by (simp add: fl_matvec_def matvec_def)
qed

section \<open>Properties\<close>

text \<open>C4: for an inverse of the right shape that solves the normal equations when it is finite, the reported intercept and exposures are
  the least-squares fit: no other coefficients give a smaller residual sum of squares, the residual
  is orthogonal to the constant and to every factor, R-squared lies in 0..1, and the factors are
  reported in the order given.\<close>

theorem decompose_is_least_squares:
  fixes prs frs inv_fn
  defines "y \<equiv> map the_fin prs"
    and "cols \<equiv> replicate (length prs) 1 # map (map the_fin \<circ> snd) frs"
  assumes res: "decompose inv_fn prs frs = Inr r"
    and inv: "\<And>im. inv_fn (gram cols) = Some im \<Longrightarrow>
      length im = length cols \<and> (\<forall>row \<in> set im. length row = length cols) \<and>
      (list_all (list_all is_finite) im \<longrightarrow>
        (\<forall>v. length v = length cols \<longrightarrow> matvec (gram cols) (matvec (map (map the_fin) im) v) = v))"
  shows "map fe_name (fd_exposures r) = map fst frs \<and>
    (let b = fd_alpha r # map fe_beta (fd_exposures r)
     in length b = length cols \<and>
        (\<forall>c \<in> set cols. dot c (residual y cols b) = 0) \<and>
        (\<forall>d. length d = length cols \<longrightarrow>
           sum_squares (residual y cols b) \<le> sum_squares (residual y cols d))) \<and>
    0 \<le> fd_r_squared r \<and> fd_r_squared r \<le> 1"
proof -
  let ?frs = "map (\<lambda>(name, fr). (name, map the_fin fr)) frs"
  have cols_eq: "replicate (length y) 1 # map snd ?frs = cols"
    by (simp add: cols_def y_def case_prod_beta comp_def)
  from res have val: "validate_returns prs frs = Inr ()" and reg: "regress inv_fn y ?frs = Inr r"
    by (auto simp: decompose_def y_def)
  from val have "check_lengths (length prs) frs = Inr ()"
    by (auto simp: validate_returns_def split: if_splits)
  note cl = check_lengths_Inr [OF this]
  from cl have lens: "\<forall>c \<in> set cols. length c = length y" by (auto simp: cols_def y_def)
  have "inv_fn (gram cols) \<noteq> None"
  proof
    assume "inv_fn (gram cols) = None"
    with reg show False unfolding regress_def Let_def cols_eq by simp
  qed
  then obtain raw where raw: "inv_fn (gram cols) = Some raw" by blast
  define im where "im = map (map the_fin) raw"
  have ok: "list_all is_finite (fl_matvec raw (map (\<lambda>c. dot c y) cols))"
    using reg unfolding regress_def Let_def cols_eq raw by (auto split: if_splits)
  have "\<forall>r \<in> set raw. length r = length (map (\<lambda>c. dot c y) cols)" using inv [OF raw] by simp
  note exact = fl_matvec_finite [OF this ok]
  define b where "b = matvec im (map (\<lambda>c. dot c y) cols)"
  have b: "length b = length cols" and normal: "matvec (gram cols) b = map (\<lambda>c. dot c y) cols"
    using inv [OF raw] exact(1) by (simp_all add: b_def im_def)
  define se where "se = (\<lambda>s2. map (\<lambda>i. sqrt (max (im ! i ! i * s2) 0)) [0..<length im])"
  have parts: "fd_alpha r = hd b" "\<exists>s2. fd_exposures r = map (exposure_of (sample_var y)) (zip ?frs (zip (tl b) (tl (se s2))))"
    "fd_r_squared r = (if sum_squares (deviations y) > 0
       then 1 - sum_squares (residual y cols b) / sum_squares (deviations y) else 0)"
    using reg ok exact(2) unfolding regress_def Let_def cols_eq raw residual_def b_def se_def im_def by auto
  obtain s2 where ex: "fd_exposures r = map (exposure_of (sample_var y)) (zip ?frs (zip (tl b) (tl (se s2))))"
    using parts(2) by blast
  have l: "length (tl b) = length frs" "length (tl (se s2)) = length frs"
    using b inv [OF raw] by (simp_all add: cols_def se_def im_def)
  have names: "map fe_name (fd_exposures r) = map fst frs"
    by (rule nth_equalityI) (use l in \<open>auto simp: ex exposure_of_def case_prod_beta\<close>)
  have "map fe_beta (fd_exposures r) = tl b"
    by (rule nth_equalityI) (use l in \<open>auto simp: ex exposure_of_def case_prod_beta\<close>)
  with parts(1) b have coeffs: "fd_alpha r # map fe_beta (fd_exposures r) = b"
    by (cases b) (auto simp: cols_def)
  let ?m = "sum_list y / real (length y)"
  have "sum_squares (residual y cols b) \<le> sum_squares (residual y cols (?m # replicate (length frs) 0))"
    by (rule least_squares [OF lens b normal]) (simp add: cols_def)
  also have "residual y cols (?m # replicate (length frs) 0) = deviations y"
    using residual_constant [of "map snd ?frs" y ?m] lens
    by (simp add: cols_eq deviations_def cols_def y_def case_prod_beta comp_def)
  finally have "0 \<le> fd_r_squared r \<and> fd_r_squared r \<le> 1"
    using parts(3) sum_squares_nonneg [of "residual y cols b"] by (auto simp: divide_le_eq)
  with names coeffs b normal_orthogonal [OF lens normal] least_squares [OF lens b normal]
  show ?thesis by (simp add: Let_def)
qed

definition sample_inv :: "mat \<Rightarrow> fl_mat option" where
  "sample_inv m = (if m = [[3, 0], [0, 2]] then Some [[Fin (1 / 3), Fin 0], [Fin 0, Fin (1 / 2)]] else None)"

lemma decompose_is_least_squares_witness:
  "\<exists>r. decompose sample_inv [Fin 1, Fin 3, Fin 2] [(''Mkt'', [Fin (-1), Fin 0, Fin 1])] = Inr r \<and>
     fd_alpha r = 2 \<and> map fe_name (fd_exposures r) = [''Mkt''] \<and> 0 \<le> fd_r_squared r \<and> fd_r_squared r \<le> 1"
proof -
  let ?frs = "[(''Mkt'', [Fin (-1), Fin 0, Fin 1])]"
  have ones: "replicate 3 (1::real) = [1, 1, 1]" by (simp add: numeral_3_eq_3)
  have gram: "gram [[1, 1, 1], [-1, 0, 1]] = [[3, 0], [0, 2]]" by (simp add: gram_def dot_def)
  have val: "validate_returns [Fin 1, Fin 3, Fin 2] ?frs = Inr ()" by (simp add: validate_returns_def)
  obtain r where r: "decompose sample_inv [Fin 1, Fin 3, Fin 2] ?frs = Inr r" and a: "fd_alpha r = 2"
    by (simp add: decompose_def val regress_def Let_def ones gram sample_inv_def fl_matvec_def fl_sum_def dot_def)
  let ?cols = "replicate (length [Fin 1, Fin 3, Fin 2]) 1 # map (map the_fin \<circ> snd) ?frs"
  have cols: "?cols = [[1, 1, 1], [-1, 0, 1]]" by simp
  have "length im = length ?cols \<and> (\<forall>row \<in> set im. length row = length ?cols) \<and>
      (list_all (list_all is_finite) im \<longrightarrow>
        (\<forall>v. length v = length ?cols \<longrightarrow> matvec (gram ?cols) (matvec (map (map the_fin) im) v) = v))"
    if "sample_inv (gram ?cols) = Some im" for im
  proof -
    have im: "im = [[Fin (1 / 3), Fin 0], [Fin 0, Fin (1 / 2)]]" using that by (simp add: gram [simplified] sample_inv_def gram_def dot_def)
    have "matvec [[3, 0], [0, 2]] (matvec (map (map the_fin) im) v) = v" if "length v = 2" for v
    proof -
      from that obtain p q where "v = [p, q]" by (cases v; cases "tl v") auto
      then show ?thesis by (simp add: im matvec_def dot_def)
    qed
    then show ?thesis unfolding cols gram by (simp add: im)
  qed
  from decompose_is_least_squares [OF r this] r a show ?thesis by auto
qed

end
