(* ===== verification/Float_Text.thy ===== *)
theory Float_Text
  imports Prelude
begin

text \<open>
  Python's \<open>float(s)\<close> on a text, \<open>s.replace(t, '')\<close>, and \<open>float\<close> of a dynamically typed value.
\<close>

section \<open>float of a text\<close>

fun remove_sub :: "string \<Rightarrow> string \<Rightarrow> string" where
  "remove_sub t [] = []"
| "remove_sub t (c # cs) =
     (if t \<noteq> [] \<and> startswith (c # cs) t then remove_sub t (drop (length t - 1) cs)
      else c # remove_sub t cs)"

text \<open>Digits, with single underscores between them.\<close>

definition digit_part :: "string \<Rightarrow> string option" where
  "digit_part s =
     (let ps = split_on CHR ''_'' s
      in if list_all (\<lambda>p. p \<noteq> [] \<and> list_all is_digit p) ps then Some (concat ps) else None)"

definition opt_digits :: "string \<Rightarrow> string option" where
  "opt_digits s = (if s = [] then Some [] else digit_part s)"

fun split_sign :: "string \<Rightarrow> bool \<times> string" where
  "split_sign [] = (False, [])"
| "split_sign (c # cs) =
     (if c = CHR ''-'' then (True, cs) else if c = CHR ''+'' then (False, cs) else (False, c # cs))"

definition parse_exponent :: "string \<Rightarrow> int option" where
  "parse_exponent s =
     (if s = [] then Some 0
      else let (neg, ds) = split_sign (tl s)
           in map_option (\<lambda>x. if neg then - int (parse_dec x) else int (parse_dec x)) (digit_part ds))"

definition parse_mantissa :: "string \<Rightarrow> real option" where
  "parse_mantissa s =
     (let a = takeWhile (\<lambda>c. c \<noteq> CHR ''.'') s; rest = drop (length a) s; b = tl rest
      in if rest = [] then map_option (\<lambda>x. real (parse_dec x)) (digit_part a)
         else if a = [] \<and> b = [] then None
         else case (opt_digits a, opt_digits b) of
             (Some x, Some y) \<Rightarrow> Some (real (parse_dec x) + real (parse_dec y) / 10 ^ length y)
           | _ \<Rightarrow> None)"

definition is_exp :: "char \<Rightarrow> bool" where
  "is_exp c = (c = CHR ''e'' \<or> c = CHR ''E'')"

definition power_of_ten :: "int \<Rightarrow> real" where
  "power_of_ten e = (if e \<ge> 0 then 10 ^ nat e else 1 / 10 ^ nat (- e))"

definition float_of_text :: "string \<Rightarrow> pyfloat option" where
  "float_of_text text =
     (let (neg, s) = split_sign (strip text)
      in if lower s \<in> {''inf'', ''infinity''} then Some (if neg then NInf else PInf)
         else if lower s = ''nan'' then Some NaN
         else let m = takeWhile (\<lambda>c. \<not> is_exp c) s
              in case (parse_mantissa m, parse_exponent (drop (length m) s)) of
                  (Some x, Some e) \<Rightarrow>
                    let v = x * power_of_ten e
                    in Some (if v \<ge> of_int float_limit then (if neg then NInf else PInf)
                             else Fin (if neg then - v else v))
                | _ \<Rightarrow> None)"

fun float_of_value :: "pyval \<Rightarrow> py_exc + pyfloat" where
  "float_of_value (VStr s) = (case float_of_text s of Some f \<Rightarrow> Inr f | None \<Rightarrow> Inl ValueError)"
| "float_of_value v = to_float v"

end
