(* ===== verification/Csv.thy ===== *)
theory Csv
  imports Db_Correct Float_Text
begin

text \<open>
  \<^verbatim>\<open>analytics/pae/storage/csv_import.py\<close>: the CSV import. The first part is the standard library's
  \<open>csv.reader\<close> (excel dialect), which the import relies on; then the column
  matching, the row parser and the import; last the endpoint of \<^verbatim>\<open>analytics/pae/server.py\<close> that saves an
  import. Generated identifiers and clock readings are the parameter \<open>gen\<close>, by row number.
\<close>

section \<open>csv.reader\<close>

datatype csv_mode = StartRecord | StartField | InField | InQuoted | QuoteInQuoted | EatCrnl

text \<open>
  The reader's state: its mode, the current field and the finished fields of the record, both
  reversed. A token is a character, or None for the end of a line.
\<close>

record csv_state =
  cs_mode :: csv_mode
  cs_field :: string
  cs_fields :: "string list"

definition csv_start :: csv_state where
  "csv_start = \<lparr>cs_mode = StartRecord, cs_field = [], cs_fields = []\<rparr>"

definition nl :: char where "nl = char_of (10 :: nat)"
definition cr :: char where "cr = char_of (13 :: nat)"
definition quote :: char where "quote = char_of (34 :: nat)"

definition field_limit :: nat where "field_limit = 131072"

definition add_char :: "csv_mode \<Rightarrow> char \<Rightarrow> csv_state \<Rightarrow> csv_state option" where
  "add_char m c s =
     (if field_limit \<le> length (cs_field s) then None
      else Some (s\<lparr>cs_mode := m, cs_field := c # cs_field s\<rparr>))"

definition save_field :: "csv_mode \<Rightarrow> csv_state \<Rightarrow> csv_state" where
  "save_field m s = s\<lparr>cs_mode := m, cs_field := [], cs_fields := rev (cs_field s) # cs_fields s\<rparr>"

definition field_char :: "csv_state \<Rightarrow> char option \<Rightarrow> csv_state option" where
  "field_char s t =
     (case t of
        None \<Rightarrow> Some (save_field StartRecord s)
      | Some c \<Rightarrow>
          if c = nl \<or> c = cr then Some (save_field EatCrnl s)
          else if c = CHR '','' then Some (save_field StartField s)
          else add_char InField c s)"

definition start_field :: "csv_state \<Rightarrow> char option \<Rightarrow> csv_state option" where
  "start_field s t = (if t = Some quote then Some (s\<lparr>cs_mode := InQuoted\<rparr>) else field_char s t)"

definition csv_step :: "csv_state \<Rightarrow> char option \<Rightarrow> csv_state option" where
  "csv_step s t =
     (case cs_mode s of
        StartRecord \<Rightarrow>
          (case t of
             None \<Rightarrow> Some s
           | Some c \<Rightarrow> if c = nl \<or> c = cr then Some (s\<lparr>cs_mode := EatCrnl\<rparr>) else start_field s t)
      | StartField \<Rightarrow> start_field s t
      | InField \<Rightarrow> field_char s t
      | InQuoted \<Rightarrow>
          (case t of
             None \<Rightarrow> Some s
           | Some c \<Rightarrow> if c = quote then Some (s\<lparr>cs_mode := QuoteInQuoted\<rparr>) else add_char InQuoted c s)
      | QuoteInQuoted \<Rightarrow>
          (if t = Some quote then add_char InQuoted quote s else field_char s t)
      | EatCrnl \<Rightarrow>
          (case t of
             None \<Rightarrow> Some (s\<lparr>cs_mode := StartRecord\<rparr>)
           | Some c \<Rightarrow> if c = nl \<or> c = cr then Some s else None))"

text \<open>The lines of the text, each followed by the end-of-line token.\<close>

fun tokens :: "string \<Rightarrow> char option list" where
  "tokens [] = []"
| "tokens (c # cs) =
     Some c # (if c = nl then None # tokens cs else if cs = [] then [None] else tokens cs)"

text \<open>A record ends at an end of line that leaves the reader in StartRecord; None is \<open>csv.Error\<close>.\<close>

fun csv_run :: "csv_state \<Rightarrow> char option list \<Rightarrow> string list list option" where
  "csv_run s [] =
     (if cs_mode s = InQuoted \<or> cs_field s \<noteq> []
      then Some [rev (cs_fields (save_field StartRecord s))] else Some [])"
| "csv_run s (t # ts) =
     (case csv_step s t of
        None \<Rightarrow> None
      | Some s' \<Rightarrow>
          if t = None \<and> cs_mode s' = StartRecord
          then (case csv_run csv_start ts of None \<Rightarrow> None | Some rows \<Rightarrow> Some (rev (cs_fields s') # rows))
          else csv_run s' ts)"

definition csv_rows :: "string \<Rightarrow> string list list option" where
  "csv_rows s = csv_run csv_start (tokens s)"

section \<open>Numbers\<close>

definition parse_float :: "string \<Rightarrow> real" where
  "parse_float value =
     (if blank value then 0
      else let cleaned = remove_sub ''USD'' (remove_sub ''CAD''
                 (remove_sub ''$'' (remove_sub '','' (strip value))))
           in case float_of_text cleaned of Some (Fin x) \<Rightarrow> x | _ \<Rightarrow> 0)"

section \<open>Columns and rows\<close>

definition header_signatures :: "(string \<times> string list) list" where
  "header_signatures =
     [(''ibkr'', [''symbol'', ''financial instrument'', ''position'', ''market value'', ''cost basis'']),
      (''questrade'', [''symbol'', ''description'', ''quantity'', ''market value'', ''book cost'']),
      (''wealthsimple'', [''symbol'', ''name'', ''quantity'', ''market value'', ''book value'']),
      (''generic'', [''symbol'', ''quantity'', ''market_value''])]"

definition norm_headers :: "string list \<Rightarrow> string list" where
  "norm_headers hs = map (\<lambda>h. lower (strip h)) hs"

definition detect_format :: "string list \<Rightarrow> string" where
  "detect_format headers =
     (case find (\<lambda>(_, sig). list_all (\<lambda>x. list_ex (str_in x) (norm_headers headers)) sig) header_signatures of
        Some (fmt, _) \<Rightarrow> fmt
      | None \<Rightarrow> ''generic'')"

fun index_where :: "('a \<Rightarrow> bool) \<Rightarrow> 'a list \<Rightarrow> nat option" where
  "index_where P [] = None"
| "index_where P (x # xs) = (if P x then Some 0 else map_option Suc (index_where P xs))"

fun find_column :: "string list \<Rightarrow> string list \<Rightarrow> nat option" where
  "find_column headers [] = None"
| "find_column headers (c # cs) =
     (case index_where (str_in c) (norm_headers headers) of
        Some i \<Rightarrow> Some i
      | None \<Rightarrow> find_column headers cs)"

definition cell :: "string list \<Rightarrow> nat option \<Rightarrow> string option" where
  "cell row i = (case i of None \<Rightarrow> None | Some k \<Rightarrow> if k < length row then Some (row ! k) else None)"

definition cell_number :: "string list \<Rightarrow> nat option \<Rightarrow> real" where
  "cell_number row i = parse_float (case cell row i of Some v \<Rightarrow> v | None \<Rightarrow> ''0'')"

datatype row_warning = NegativeQuantity real | NegativeMarketValue real | ZeroValue
datatype row_error =
    ParsingFailed
  | TooFewRows
  | NoSymbolColumn
  | EmptySymbol
  | FileMissing
  | FileType string
  | FileTooLarge nat
  | FileUnreadable

definition asset_class_map :: "(string \<times> string) list" where
  "asset_class_map =
     [(''stock'', ''equity''), (''stocks'', ''equity''), (''etf'', ''equity''),
      (''bond'', ''fixed_income''), (''bonds'', ''fixed_income''), (''fixed income'', ''fixed_income''),
      (''commodity'', ''commodity''), (''gold'', ''commodity''), (''silver'', ''commodity''),
      (''real estate'', ''real_estate''), (''reit'', ''real_estate''),
      (''cash'', ''cash''), (''money market'', ''cash''),
      (''crypto'', ''crypto''), (''cryptocurrency'', ''crypto''),
      (''preferred'', ''preferred''), (''pfd'', ''preferred'')]"

definition asset_classes :: "string list" where
  "asset_classes =
     [''equity'', ''fixed_income'', ''commodity'', ''real_estate'', ''cash'', ''crypto'', ''preferred'']"

definition normalize_asset_class :: "string \<Rightarrow> string" where
  "normalize_asset_class a =
     (let b = (case map_of asset_class_map a of Some c \<Rightarrow> c | None \<Rightarrow> a)
      in if b \<in> set asset_classes then b else ''equity'')"

text \<open>The generated identifier and the two clock readings of a new holding.\<close>

type_synonym generator = "nat \<Rightarrow> string \<times> string \<times> string"

definition build_holding ::
  "generator \<Rightarrow> string list \<Rightarrow> string list \<Rightarrow> nat \<Rightarrow> string \<Rightarrow> string \<Rightarrow> string \<Rightarrow> holding" where
  "build_holding gen row headers n pid aid symbol =
     (let text = (\<lambda>cands def f. case cell row (find_column headers cands) of Some v \<Rightarrow> f (strip v) | None \<Rightarrow> def);
          num = (\<lambda>cands. Fin (cell_number row (find_column headers cands)));
          (i, created, updated) = gen n
      in \<lparr>h_id = i, h_portfolio_id = pid, h_account_id = aid, h_symbol = symbol,
          h_name = text [''name'', ''description'', ''financial instrument''] [] (\<lambda>v. v),
          h_asset_class = normalize_asset_class
            (text [''asset class'', ''asset_class'', ''type'', ''category''] ''equity'' lower),
          h_quantity = num [''quantity'', ''position'', ''shares'', ''qty''],
          h_market_value = num [''market value'', ''market_value'', ''current value''],
          h_cost_basis = num [''cost basis'', ''cost_basis'', ''book cost'', ''book value'', ''avg cost''],
          h_weight = Fin 0,
          h_yield_pct = num [''yield'', ''dividend yield'', ''yield_pct''],
          h_currency = text [''currency'', ''curr''] ''CAD'' upper,
          h_returns_json = ''[]'', h_created_at = created, h_updated_at = updated\<rparr>)"

definition row_warnings :: "real \<Rightarrow> real \<Rightarrow> row_warning list" where
  "row_warnings quantity value =
     (if quantity < 0 then [NegativeQuantity quantity] else []) @
     (if value < 0 then [NegativeMarketValue value] else [])"

definition parse_row ::
  "generator \<Rightarrow> string list \<Rightarrow> string list \<Rightarrow> nat \<Rightarrow> string \<Rightarrow> string \<Rightarrow>
     holding option \<times> (nat \<times> row_warning) list \<times> (nat \<times> row_error) list" where
  "parse_row gen row headers n pid aid =
     (case find_column headers [''symbol'', ''ticker''] of
        None \<Rightarrow> (None, [], [(n, NoSymbolColumn)])
      | Some k \<Rightarrow>
          let symbol = (if k < length row then upper (strip (row ! k)) else [])
          in if symbol = [] then (None, [], [(n, EmptySymbol)])
             else let h = build_holding gen row headers n pid aid symbol;
                      q = the_fin (h_quantity h); v = the_fin (h_market_value h);
                      ws = map (Pair n) (row_warnings q v)
                  in if v = 0 \<and> q = 0 then (None, ws @ [(n, ZeroValue)], []) else (Some h, ws, []))"

section \<open>The import\<close>

record import_result =
  im_holdings :: "holding list"
  im_warnings :: "(nat \<times> row_warning) list"
  im_errors :: "(nat \<times> row_error) list"
  im_format :: string
  im_rows_parsed :: nat
  im_rows_skipped :: nat

definition empty_result :: import_result where
  "empty_result = \<lparr>im_holdings = [], im_warnings = [], im_errors = [], im_format = ''unknown'',
     im_rows_parsed = 0, im_rows_skipped = 0\<rparr>"

definition import_row ::
  "generator \<Rightarrow> string list \<Rightarrow> string \<Rightarrow> string \<Rightarrow> nat \<times> string list \<Rightarrow> import_result \<Rightarrow> import_result" where
  "import_row gen headers pid aid nr r =
     (let (n, row) = nr
      in if list_all (\<lambda>c. strip c = []) row then r
         else let (h, ws, es) = parse_row gen row headers n pid aid
              in r\<lparr>im_rows_parsed := im_rows_parsed r + 1,
                   im_warnings := im_warnings r @ ws, im_errors := im_errors r @ es,
                   im_holdings := im_holdings r @ (case h of Some x \<Rightarrow> [x] | None \<Rightarrow> []),
                   im_rows_skipped := im_rows_skipped r + (if h = None then 1 else 0)\<rparr>)"

definition assign_weights :: "holding list \<Rightarrow> holding list" where
  "assign_weights hs =
     (let s = sum_list (map (the_fin \<circ> h_market_value) hs)
      in if s > 0 then map (\<lambda>h. h\<lparr>h_weight := Fin (py_round (the_fin (h_market_value h) / s) 6)\<rparr>) hs
         else hs)"

definition import_csv_string :: "generator \<Rightarrow> string \<Rightarrow> string \<Rightarrow> string \<Rightarrow> import_result" where
  "import_csv_string gen text pid aid =
     (case csv_rows text of
        None \<Rightarrow> empty_result\<lparr>im_errors := [(0, ParsingFailed)]\<rparr>
      | Some rows \<Rightarrow>
          if length rows < 2 then empty_result\<lparr>im_errors := [(0, TooFewRows)]\<rparr>
          else let headers = hd rows;
                   r = fold (import_row gen headers pid aid) (zip [2..<2 + length (tl rows)] (tl rows))
                         (empty_result\<lparr>im_format := detect_format headers\<rparr>)
               in r\<lparr>im_holdings := assign_weights (im_holdings r)\<rparr>)"

text \<open>
  \<open>import_csv_file\<close>: the path is a missing file or its suffix, its size and what \<open>read_text\<close> gives, None for
  an error of the system or of the decoding.
\<close>

record csv_file =
  fi_suffix :: string
  fi_size :: nat
  fi_read :: "string option"

definition MAX_CSV_FILE :: nat where "MAX_CSV_FILE = 10 * 1024 * 1024"

definition failed_import :: "row_error \<Rightarrow> import_result" where
  "failed_import e = empty_result\<lparr>im_errors := [(0, e)]\<rparr>"

definition import_csv_file :: "generator \<Rightarrow> csv_file option \<Rightarrow> string \<Rightarrow> string \<Rightarrow> nat \<Rightarrow> import_result" where
  "import_csv_file gen file pid aid max_size =
     (case file of
        None \<Rightarrow> failed_import FileMissing
      | Some f \<Rightarrow>
          if lower (fi_suffix f) \<notin> {''.csv'', ''.tsv'', ''.txt''} then failed_import (FileType (fi_suffix f))
          else if fi_size f > max_size then failed_import (FileTooLarge (fi_size f))
          else case fi_read f of
              None \<Rightarrow> failed_import FileUnreadable
            | Some content \<Rightarrow> import_csv_string gen content pid aid)"

text \<open>\<^verbatim>\<open>server.confirm_import\<close>: the decoded upload is parsed and saved in one step.\<close>

datatype confirm_exc = ImportErrors "(nat \<times> row_error) list" | Database db_exc

definition confirm_import ::
  "(string \<Rightarrow> pyval option) \<Rightarrow> generator \<Rightarrow> string \<Rightarrow> string \<Rightarrow> string \<Rightarrow> db \<Rightarrow> (confirm_exc + nat) \<times> db" where
  "confirm_import loads gen text pid aid d =
     (let r = import_csv_string gen text pid aid
      in if im_errors r \<noteq> [] then (Inl (ImportErrors (im_errors r)), d)
         else case bulk_insert_holdings loads (im_holdings r) d of
             (Inl e, d') \<Rightarrow> (Inl (Database e), d')
           | (Inr n, d') \<Rightarrow> (Inr n, d'))"

end
