(* ===== verification/Csv_Correct.thy ===== *)
theory Csv_Correct
  imports Csv
begin

text \<open>
  The correctness of the CSV import: which rows of the text become holdings, errors and warnings, that
  every imported holding is in the form the database validates, and that saving an import fails only
  for the reasons listed. The first section shows that the model of \<open>csv.reader\<close> inverts the quoting
  of a table; the examples below use it.
\<close>

section \<open>The reader inverts quoting\<close>

definition escape :: "string \<Rightarrow> string" where
  "escape f = concat (map (\<lambda>c. if c = quote then [quote, quote] else [c]) f)"

definition render_field :: "string \<Rightarrow> string" where
  "render_field f = quote # escape f @ [quote]"

fun render_row :: "string list \<Rightarrow> string" where
  "render_row [] = []"
| "render_row [f] = render_field f"
| "render_row (f # g # fs) = render_field f @ CHR '','' # render_row (g # fs)"

definition render :: "string list list \<Rightarrow> string" where
  "render rows = concat (map (\<lambda>r. render_row r @ [nl]) rows)"

definition tok :: "char \<Rightarrow> char option list" where
  "tok c = (if c = nl then [Some nl, None] else [Some c])"

lemma char_neqs [simp]:
  "nl \<noteq> quote" "quote \<noteq> nl" "cr \<noteq> quote" "quote \<noteq> cr" "CHR '','' \<noteq> quote" "quote \<noteq> CHR '',''"
  "CHR '','' \<noteq> nl" "nl \<noteq> CHR '',''" "CHR '','' \<noteq> cr" "nl \<noteq> cr" "cr \<noteq> nl"
  by code_simp+

lemma tokens_line: "tokens (s @ nl # t) = concat (map tok (s @ [nl])) @ tokens t"
  by (induction s) (auto simp: tok_def)

lemma tok_other [simp]: "c \<noteq> nl \<Longrightarrow> tok c = [Some c]"
  by (simp add: tok_def)

lemma csv_state_eq: "s\<lparr>cs_field := cs_field s\<rparr> = s"
  by simp

lemma run_char:
  "csv_step s (Some c) = Some s' \<Longrightarrow> csv_run s (Some c # ts) = csv_run s' ts"
  by simp

lemma run_quoted:
  "cs_mode s = InQuoted \<Longrightarrow> length (cs_field s) + length f \<le> field_limit \<Longrightarrow>
     csv_run s (concat (map tok (escape f)) @ rest) = csv_run (s\<lparr>cs_field := rev f @ cs_field s\<rparr>) rest"
proof (induction f arbitrary: s)
  case (Cons c f)
  let ?s = "s\<lparr>cs_field := c # cs_field s\<rparr>"
  have IH: "csv_run ?s (concat (map tok (escape f)) @ rest) =
      csv_run (?s\<lparr>cs_field := rev f @ cs_field ?s\<rparr>) rest"
    by (rule Cons.IH) (use Cons.prems in auto)
  have "csv_run s (concat (map tok (escape (c # f))) @ rest) =
      csv_run ?s (concat (map tok (escape f)) @ rest)"
  proof (cases "c = quote")
    case True
    then show ?thesis using Cons.prems
      by (cases s) (simp add: escape_def csv_step_def add_char_def)
  next
    case False
    then show ?thesis using Cons.prems
      by (cases s; cases "c = nl") (simp_all add: escape_def csv_step_def add_char_def tok_def)
  qed
  with IH show ?case by simp
qed (simp add: escape_def)

lemma run_field:
  assumes "cs_mode s \<in> {StartRecord, StartField}" and "cs_field s = []" and "length f \<le> field_limit"
  shows "csv_run s (concat (map tok (render_field f)) @ rest) =
    csv_run (s\<lparr>cs_mode := QuoteInQuoted, cs_field := rev f\<rparr>) rest"
proof -
  let ?q = "s\<lparr>cs_mode := InQuoted\<rparr>"
  have "csv_step s (Some quote) = Some ?q"
    using assms(1) by (auto simp: csv_step_def start_field_def)
  then have "csv_run s (concat (map tok (render_field f)) @ rest) =
      csv_run ?q (concat (map tok (escape f)) @ Some quote # rest)"
    by (simp add: render_field_def)
  also have "\<dots> = csv_run (?q\<lparr>cs_field := rev f\<rparr>) (Some quote # rest)"
    using run_quoted [of ?q f] assms(2,3) by simp
  also have "\<dots> = csv_run (s\<lparr>cs_mode := QuoteInQuoted, cs_field := rev f\<rparr>) rest"
    by (cases s) (simp add: csv_step_def)
  finally show ?thesis .
qed

definition add_row :: "string list \<Rightarrow> string list list option \<Rightarrow> string list list option" where
  "add_row r rows = (case rows of None \<Rightarrow> None | Some rs \<Rightarrow> Some (r # rs))"

lemma run_row:
  assumes "r \<noteq> []" and "\<forall>f \<in> set r. length f \<le> field_limit"
    and "cs_mode s \<in> {StartRecord, StartField}" and "cs_field s = []"
  shows "csv_run s (concat (map tok (render_row r)) @ Some nl # None # rest) =
    add_row (rev (cs_fields s) @ r) (csv_run csv_start rest)"
  using assms
proof (induction r arbitrary: s rule: render_row.induct)
  case (2 f)
  then show ?case
    by (cases s) (simp add: run_field csv_step_def field_char_def save_field_def add_row_def split: option.split)
next
  case (3 f g fs)
  let ?s = "save_field StartField (s\<lparr>cs_mode := QuoteInQuoted, cs_field := rev f\<rparr>)"
  have "csv_run s (concat (map tok (render_row (f # g # fs))) @ Some nl # None # rest) =
      csv_run ?s (concat (map tok (render_row (g # fs))) @ Some nl # None # rest)"
    using 3(3-5) by (simp add: run_field) (simp add: csv_step_def field_char_def)
  also have "\<dots> = add_row (rev (cs_fields ?s) @ g # fs) (csv_run csv_start rest)"
    by (rule 3(1)) (use 3(3) in \<open>auto simp: save_field_def\<close>)
  finally show ?case by (simp add: save_field_def)
qed simp

lemma csv_rows_render:
  assumes "\<forall>r \<in> set rows. r \<noteq> [] \<and> (\<forall>f \<in> set r. length f \<le> field_limit)"
  shows "csv_rows (render rows) = Some rows"
  using assms
proof (induction rows)
  case Nil
  show ?case by (simp add: csv_rows_def render_def csv_start_def)
next
  case (Cons r rows)
  have "tokens (render (r # rows)) = concat (map tok (render_row r)) @ Some nl # None # tokens (render rows)"
    by (simp add: render_def tokens_line [of "render_row r"]) (simp add: tok_def)
  then have "csv_rows (render (r # rows)) = add_row r (csv_rows (render rows))"
    unfolding csv_rows_def using Cons.prems
    by (simp add: run_row csv_start_def)
  with Cons show ?case by (simp add: add_row_def)
qed

section \<open>Lemmas: rows\<close>

lemma upper_char_nonblank: "\<not> is_ws c \<Longrightarrow> \<exists>d \<in> set (upper_char c). \<not> is_ws d"
  by (auto simp: upper_char_def is_ws_def code_of_def Let_def)

lemma strip_ne: "strip s \<noteq> [] \<Longrightarrow> \<exists>c \<in> set (strip s). \<not> is_ws c"
proof -
  assume "strip s \<noteq> []"
  moreover have "\<not> is_ws (last (strip s))" if "strip s \<noteq> []"
    using that hd_dropWhile [of is_ws "rev (lstrip s)"]
    by (simp add: strip_def rstrip_def last_rev)
  ultimately show ?thesis by (meson last_in_set)
qed

lemma upper_strip_not_blank: "upper (strip s) \<noteq> [] \<Longrightarrow> \<not> blank (upper (strip s))"
proof -
  assume "upper (strip s) \<noteq> []"
  then have "strip s \<noteq> []" by (auto simp: upper_def)
  then obtain c where "c \<in> set (strip s)" "\<not> is_ws c" using strip_ne by blast
  with upper_char_nonblank [of c] show ?thesis by (auto simp: blank_iff upper_def)
qed

definition importable :: "string \<Rightarrow> holding \<Rightarrow> bool" where
  "importable pid h =
     (h_portfolio_id h = pid \<and> \<not> blank (h_symbol h) \<and> h_asset_class h \<in> set asset_classes \<and>
      is_finite (h_quantity h) \<and> is_finite (h_market_value h) \<and> is_finite (h_cost_basis h) \<and>
      is_finite (h_weight h) \<and> is_finite (h_yield_pct h) \<and> h_returns_json h = ''[]'')"

definition flagged :: "(nat \<times> row_warning) list \<Rightarrow> holding \<Rightarrow> bool" where
  "flagged ws h =
     ((the_fin (h_quantity h) < 0 \<longrightarrow> (\<exists>n. (n, NegativeQuantity (the_fin (h_quantity h))) \<in> set ws)) \<and>
      (the_fin (h_market_value h) < 0 \<longrightarrow>
         (\<exists>n. (n, NegativeMarketValue (the_fin (h_market_value h))) \<in> set ws)))"

lemma normalize_in: "normalize_asset_class a \<in> set asset_classes"
  by (simp add: normalize_asset_class_def Let_def asset_classes_def)

lemma parse_row_Some:
  assumes "parse_row gen row headers n pid aid = (Some h, ws, es)"
  shows "importable pid h \<and> flagged ws h \<and> es = []"
proof -
  from assms obtain k where k: "find_column headers [''symbol'', ''ticker''] = Some k"
    and len: "k < length row" and ne: "upper (strip (row ! k)) \<noteq> []"
    and h: "h = build_holding gen row headers n pid aid (upper (strip (row ! k)))"
    and ws: "ws = map (Pair n) (row_warnings (the_fin (h_quantity h)) (the_fin (h_market_value h)))"
    and es: "es = []"
    by (auto simp: parse_row_def Let_def split: option.splits if_splits)
  have "importable pid h"
    using upper_strip_not_blank [OF ne] normalize_in
    by (simp add: importable_def h build_holding_def Let_def split: prod.splits)
  moreover have "flagged ws h" by (auto simp: flagged_def ws row_warnings_def)
  ultimately show ?thesis using es by simp
qed

lemma parse_row_None:
  "parse_row gen row headers n pid aid = (None, ws, es) \<Longrightarrow> es \<noteq> [] \<or> (n, ZeroValue) \<in> set ws"
  by (auto simp: parse_row_def Let_def split: option.splits if_splits)

definition import_ok :: "string \<Rightarrow> import_result \<Rightarrow> bool" where
  "import_ok pid r =
     (im_rows_parsed r = length (im_holdings r) + im_rows_skipped r \<and>
      (\<forall>h \<in> set (im_holdings r). importable pid h \<and> flagged (im_warnings r) h) \<and>
      im_rows_skipped r \<le> length (im_errors r) + length (filter (\<lambda>w. snd w = ZeroValue) (im_warnings r)))"

lemma flagged_append: "flagged ws h \<Longrightarrow> flagged (ws @ vs) h" "flagged vs h \<Longrightarrow> flagged (ws @ vs) h"
  by (auto simp: flagged_def)

lemma import_ok_row:
  assumes "import_ok pid r"
  shows "import_ok pid (import_row gen headers pid aid nr r)"
proof -
  obtain n row where nr: "nr = (n, row)" by fastforce
  obtain h ws es where p: "parse_row gen row headers n pid aid = (h, ws, es)"
    using prod_cases3 by blast
  show ?thesis
  proof (cases h)
    case None
    from parse_row_None [OF p [unfolded None]]
    have "1 \<le> length es + length (filter (\<lambda>w. snd w = ZeroValue) ws)"
    proof
      assume "(n, ZeroValue) \<in> set ws"
      then have "filter (\<lambda>w. snd w = ZeroValue) ws \<noteq> []" by (force simp: filter_empty_conv)
      then show ?thesis by (cases "filter (\<lambda>w. snd w = ZeroValue) ws") auto
    qed (cases es, auto)
    with None assms p show ?thesis
      by (auto simp: import_row_def nr import_ok_def flagged_append)
  next
    case (Some x)
    from parse_row_Some [OF p [unfolded Some]] Some assms p show ?thesis
      by (auto simp: import_row_def nr import_ok_def flagged_append)
  qed
qed

lemma import_ok_fold:
  "import_ok pid r \<Longrightarrow> import_ok pid (fold (import_row gen headers pid aid) rows r)"
  by (induction rows arbitrary: r) (auto intro: import_ok_row)

lemma assign_weights_fields:
  "h \<in> set (assign_weights hs) \<Longrightarrow> \<exists>g \<in> set hs. h = g \<or> (\<exists>w. is_finite w \<and> h = g\<lparr>h_weight := w\<rparr>)"
  by (auto simp: assign_weights_def Let_def split: if_splits) (metis is_finite.simps(1))

lemma length_assign_weights [simp]: "length (assign_weights hs) = length hs"
  by (simp add: assign_weights_def Let_def)

lemma importable_weight: "importable pid h \<Longrightarrow> is_finite w \<Longrightarrow> importable pid (h\<lparr>h_weight := w\<rparr>)"
  by (simp add: importable_def)

lemma flagged_weight: "flagged ws (h\<lparr>h_weight := w\<rparr>) = flagged ws h"
  by (simp add: flagged_def)

lemma import_ok_weights: "import_ok pid r \<Longrightarrow> import_ok pid (r\<lparr>im_holdings := assign_weights (im_holdings r)\<rparr>)"
  using assign_weights_fields [of _ "im_holdings r"]
  by (fastforce simp: import_ok_def importable_weight flagged_weight)

lemma import_ok_empty: "import_ok pid (empty_result\<lparr>im_format := f\<rparr>)" "import_ok pid (empty_result\<lparr>im_errors := es\<rparr>)"
  by (simp_all add: import_ok_def empty_result_def)

lemma import_csv_ok: "import_ok pid (import_csv_string gen content pid aid)"
  by (auto simp: import_csv_string_def Let_def intro!: import_ok_weights import_ok_fold import_ok_empty
      split: option.splits)

section \<open>The rows of the text\<close>

text \<open>
  What a row of the table says, read off the header: its symbol, unless the column or the cell is
  missing or blank, and its numbers. The data rows are those after the header with a cell that is not
  blank, with their line numbers.
\<close>

definition csv_data_rows :: "string list list \<Rightarrow> (nat \<times> string list) list" where
  "csv_data_rows rows = filter (\<lambda>(n, row). \<exists>c \<in> set row. strip c \<noteq> []) (enumerate 2 (tl rows))"

definition row_symbol :: "string list \<Rightarrow> string list \<Rightarrow> string option" where
  "row_symbol headers row =
     (case find_column headers [''symbol'', ''ticker''] of
        None \<Rightarrow> None
      | Some k \<Rightarrow> if k < length row \<and> strip (row ! k) \<noteq> [] then Some (upper (strip (row ! k))) else None)"

definition row_quantity :: "string list \<Rightarrow> string list \<Rightarrow> real" where
  "row_quantity headers row =
     cell_number row (find_column headers [''quantity'', ''position'', ''shares'', ''qty''])"

definition row_value :: "string list \<Rightarrow> string list \<Rightarrow> real" where
  "row_value headers row =
     cell_number row (find_column headers [''market value'', ''market_value'', ''current value''])"

text \<open>A row that becomes a holding.\<close>

definition row_held :: "string list \<Rightarrow> string list \<Rightarrow> bool" where
  "row_held headers row =
     (row_symbol headers row \<noteq> None \<and> (row_quantity headers row \<noteq> 0 \<or> row_value headers row \<noteq> 0))"

lemma upper_strip_Nil: "upper (strip s) = [] \<longleftrightarrow> strip s = []"
proof
  assume u: "upper (strip s) = []"
  show "strip s = []"
  proof (rule ccontr)
    assume "strip s \<noteq> []"
    then obtain c where "c \<in> set (strip s)" "\<not> is_ws c" using strip_ne by blast
    with upper_char_nonblank [of c] u show False by (auto simp: upper_def)
  qed
qed (simp add: upper_def)

lemma build_holding_fields:
  "h_id (build_holding gen row headers n pid aid s) = fst (gen n)"
  "h_symbol (build_holding gen row headers n pid aid s) = s"
  "h_portfolio_id (build_holding gen row headers n pid aid s) = pid"
  "h_account_id (build_holding gen row headers n pid aid s) = aid"
  "h_quantity (build_holding gen row headers n pid aid s) = Fin (row_quantity headers row)"
  "h_market_value (build_holding gen row headers n pid aid s) = Fin (row_value headers row)"
  "h_weight (build_holding gen row headers n pid aid s) = Fin 0"
  by (simp_all add: build_holding_def Let_def row_quantity_def row_value_def split: prod.splits)

lemma parse_row_eq:
  "parse_row gen row headers n pid aid =
     (case row_symbol headers row of
        None \<Rightarrow> (None, [], [(n, if find_column headers [''symbol'', ''ticker''] = None
                                then NoSymbolColumn else EmptySymbol)])
      | Some s \<Rightarrow>
          let ws = map (Pair n) (row_warnings (row_quantity headers row) (row_value headers row))
          in if row_held headers row then (Some (build_holding gen row headers n pid aid s), ws, [])
             else (None, ws @ [(n, ZeroValue)], []))"
proof (cases "find_column headers [''symbol'', ''ticker'']")
  case (Some k)
  then show ?thesis
    by (cases "k < length row")
      (auto simp: parse_row_def row_symbol_def row_held_def build_holding_fields upper_strip_Nil Let_def)
qed (simp add: parse_row_def row_symbol_def)

text \<open>The loop over the rows, as what it appends to each list.\<close>

lemma import_rows_fold:
  fixes gen headers pid aid
  defines "p \<equiv> \<lambda>(n, row). parse_row gen row headers n pid aid"
  defines "ys \<equiv> \<lambda>xs. filter (\<lambda>(n, row). \<exists>c \<in> set row. strip c \<noteq> []) (xs :: (nat \<times> string list) list)"
  shows "fold (import_row gen headers pid aid) xs r =
    r\<lparr>im_rows_parsed := im_rows_parsed r + length (ys xs),
      im_warnings := im_warnings r @ concat (map (fst \<circ> snd \<circ> p) (ys xs)),
      im_errors := im_errors r @ concat (map (snd \<circ> snd \<circ> p) (ys xs)),
      im_holdings := im_holdings r @ List.map_filter (fst \<circ> p) (ys xs),
      im_rows_skipped := im_rows_skipped r + length (filter (\<lambda>x. fst (p x) = None) (ys xs))\<rparr>"
proof (induction xs arbitrary: r)
  case (Cons x xs)
  obtain n row where x: "x = (n, row)" by fastforce
  show ?case
  proof (cases "\<exists>c \<in> set row. strip c \<noteq> []")
    case True
    obtain h ws es where prs: "parse_row gen row headers n pid aid = (h, ws, es)" using prod_cases3 by blast
    from True prs have "import_row gen headers pid aid x r =
        r\<lparr>im_rows_parsed := im_rows_parsed r + 1, im_warnings := im_warnings r @ ws,
          im_errors := im_errors r @ es,
          im_holdings := im_holdings r @ (case h of Some x \<Rightarrow> [x] | None \<Rightarrow> []),
          im_rows_skipped := im_rows_skipped r + (if h = None then 1 else 0)\<rparr>"
      by (auto simp: import_row_def x list_all_iff)
    with True prs Cons.IH show ?thesis
      by (cases h) (auto simp: x ys_def p_def List.map_filter_simps)
  next
    case False
    then have "import_row gen headers pid aid x r = r" by (simp add: import_row_def x list_all_iff)
    with False Cons.IH show ?thesis by (simp add: x ys_def)
  qed
qed (simp add: ys_def List.map_filter_simps)

text \<open>The fields of the import in terms of the data rows.\<close>

definition row_holding ::
  "generator \<Rightarrow> string list \<Rightarrow> string \<Rightarrow> string \<Rightarrow> nat \<times> string list \<Rightarrow> holding" where
  "row_holding gen headers pid aid = (\<lambda>(n, row).
     build_holding gen row headers n pid aid (the (row_symbol headers row)))"

definition row_problem :: "string list \<Rightarrow> nat \<times> string list \<Rightarrow> nat \<times> row_error" where
  "row_problem headers = (\<lambda>(n, row).
     (n, if find_column headers [''symbol'', ''ticker''] = None then NoSymbolColumn else EmptySymbol))"

lemma parse_row_parts:
  "fst (parse_row gen row headers n pid aid) =
     (if row_held headers row then Some (row_holding gen headers pid aid (n, row)) else None)"
  "snd (snd (parse_row gen row headers n pid aid)) =
     (if row_symbol headers row = None then [row_problem headers (n, row)] else [])"
  by (cases "row_symbol headers row";
      simp add: parse_row_eq row_holding_def row_problem_def row_held_def Let_def)+

lemma parse_row_warnings:
  "w \<in> set (fst (snd (parse_row gen row headers n pid aid))) \<longleftrightarrow> row_symbol headers row \<noteq> None \<and>
     (w = (n, NegativeQuantity (row_quantity headers row)) \<and> row_quantity headers row < 0 \<or>
      w = (n, NegativeMarketValue (row_value headers row)) \<and> row_value headers row < 0 \<or>
      w = (n, ZeroValue) \<and> row_quantity headers row = 0 \<and> row_value headers row = 0)"
proof (cases "row_symbol headers row")
  case None
  then show ?thesis by (simp add: parse_row_eq)
next
  case (Some s)
  have "w \<in> set (map (Pair n) (row_warnings q v)) \<longleftrightarrow>
      w = (n, NegativeQuantity q) \<and> q < 0 \<or> w = (n, NegativeMarketValue v) \<and> v < 0" for q v
    by (auto simp: row_warnings_def)
  with Some show ?thesis by (auto simp: parse_row_eq row_held_def Let_def)
qed

lemma held_rows:
  "List.map_filter (fst \<circ> (\<lambda>(n, row). parse_row gen row headers n pid aid)) ys =
     map (row_holding gen headers pid aid) (filter (\<lambda>(n, row). row_held headers row) ys)"
proof (induction ys)
  case (Cons y ys)
  then show ?case by (cases y) (simp add: List.map_filter_simps parse_row_parts)
qed (simp add: List.map_filter_simps)

lemma problem_rows:
  "concat (map (snd \<circ> snd \<circ> (\<lambda>(n, row). parse_row gen row headers n pid aid)) ys) =
     map (row_problem headers) (filter (\<lambda>(n, row). row_symbol headers row = None) ys)"
proof (induction ys)
  case (Cons y ys)
  then show ?case by (cases y) (simp add: parse_row_parts)
qed simp

lemma skipped_rows:
  "length (filter (\<lambda>x. fst ((\<lambda>(n, row). parse_row gen row headers n pid aid) x) = None) ys) =
     length ys - length (filter (\<lambda>(n, row). row_held headers row) ys)"
proof -
  have "filter (\<lambda>x. fst ((\<lambda>(n, row). parse_row gen row headers n pid aid) x) = None) ys =
      filter (\<lambda>x. \<not> (\<lambda>(n, row). row_held headers row) x) ys"
    by (rule filter_cong) (auto simp: parse_row_parts)
  then show ?thesis using sum_length_filter_compl [of "\<lambda>(n, row). row_held headers row" ys] by simp
qed

lemma warned_rows:
  "w \<in> set (concat (map (fst \<circ> snd \<circ> (\<lambda>(n, row). parse_row gen row headers n pid aid)) ys)) \<longleftrightarrow>
     (\<exists>(n, row) \<in> set ys. row_symbol headers row \<noteq> None \<and>
        (w = (n, NegativeQuantity (row_quantity headers row)) \<and> row_quantity headers row < 0 \<or>
         w = (n, NegativeMarketValue (row_value headers row)) \<and> row_value headers row < 0 \<or>
         w = (n, ZeroValue) \<and> row_quantity headers row = 0 \<and> row_value headers row = 0))"
proof (induction ys)
  case (Cons y ys)
  obtain n row where y: "y = (n, row)" by fastforce
  show ?case using Cons.IH parse_row_warnings [of w gen row headers n pid aid] by (simp add: y)
qed simp

lemma import_rows:
  assumes "csv_rows content = Some rows" and "\<not> length rows < 2"
  defines "held \<equiv> filter (\<lambda>(n, row). row_held (hd rows) row) (csv_data_rows rows)"
  shows "im_rows_parsed (import_csv_string gen content pid aid) = length (csv_data_rows rows)"
    and "im_rows_skipped (import_csv_string gen content pid aid) = length (csv_data_rows rows) - length held"
    and "im_errors (import_csv_string gen content pid aid) =
      map (row_problem (hd rows)) (filter (\<lambda>(n, row). row_symbol (hd rows) row = None) (csv_data_rows rows))"
    and "im_holdings (import_csv_string gen content pid aid) =
      assign_weights (map (row_holding gen (hd rows) pid aid) held)"
    and "im_warnings (import_csv_string gen content pid aid) =
      concat (map (fst \<circ> snd \<circ> (\<lambda>(n, row). parse_row gen row (hd rows) n pid aid)) (csv_data_rows rows))"
proof -
  let ?xs = "enumerate 2 (tl rows)"
  let ?r = "fold (import_row gen (hd rows) pid aid) ?xs (empty_result\<lparr>im_format := detect_format (hd rows)\<rparr>)"
  have "import_csv_string gen content pid aid = ?r\<lparr>im_holdings := assign_weights (im_holdings ?r)\<rparr>"
    using assms(1,2) by (simp only: import_csv_string_def option.case if_False Let_def enumerate_eq_zip)
  moreover note f = import_rows_fold [of gen "hd rows" pid aid ?xs
      "empty_result\<lparr>im_format := detect_format (hd rows)\<rparr>", folded csv_data_rows_def,
      unfolded held_rows problem_rows skipped_rows, folded held_def]
  ultimately have r: "import_csv_string gen content pid aid = ?r\<lparr>im_holdings := assign_weights (im_holdings ?r)\<rparr>"
    by simp
  show "im_rows_parsed (import_csv_string gen content pid aid) = length (csv_data_rows rows)"
    unfolding r f by (simp add: empty_result_def)
  show "im_rows_skipped (import_csv_string gen content pid aid) = length (csv_data_rows rows) - length held"
    unfolding r f by (simp add: empty_result_def)
  show "im_errors (import_csv_string gen content pid aid) =
      map (row_problem (hd rows)) (filter (\<lambda>(n, row). row_symbol (hd rows) row = None) (csv_data_rows rows))"
    unfolding r f by (simp add: empty_result_def)
  show "im_holdings (import_csv_string gen content pid aid) =
      assign_weights (map (row_holding gen (hd rows) pid aid) held)"
    unfolding r f by (simp add: empty_result_def)
  show "im_warnings (import_csv_string gen content pid aid) =
      concat (map (fst \<circ> snd \<circ> (\<lambda>(n, row). parse_row gen row (hd rows) n pid aid)) (csv_data_rows rows))"
    unfolding r f by (simp add: empty_result_def)
qed

lemma assigned_weights:
  assumes "\<And>x. x \<in> set xs \<Longrightarrow> h_market_value (f x) = Fin (v x) \<and> h_weight (f x) = Fin 0"
    and "\<And>x w. x \<in> set xs \<Longrightarrow> g ((f x)\<lparr>h_weight := w\<rparr>) = k x w"
  shows "map g (assign_weights (map f xs)) =
    map (\<lambda>x. k x (Fin (if 0 < sum_list (map v xs) then py_round (v x / sum_list (map v xs)) 6 else 0))) xs"
proof -
  have s: "sum_list (map (the_fin \<circ> h_market_value) (map f xs)) = sum_list (map v xs)"
    using assms(1) by (induction xs) auto
  have z: "g (f x) = k x (Fin 0)" if "x \<in> set xs" for x
  proof -
    have "(f x)\<lparr>h_weight := Fin 0\<rparr> = f x" using assms(1) [OF that] by (cases "f x") simp
    with assms(2) [OF that, of "Fin 0"] show ?thesis by simp
  qed
  show ?thesis unfolding assign_weights_def Let_def s
    using assms z by simp
qed

section \<open>Properties of the import\<close>

text \<open>C16: an import accounts for every row of the text. Text that is no CSV or has no data row is
  refused as a whole. Otherwise the parsed rows are the rows after the header with a cell that is not
  blank; each of them, in order, with a symbol and a quantity or a value other than zero becomes one
  holding with its identifier, symbol, quantity, value and share of the total value; each without a
  symbol becomes one error with its row number; and the warnings are exactly the negative quantities, the
  negative values and the rows with a symbol and neither quantity nor value, which are skipped. Every holding
  has the requested portfolio and account, an asset class of the seven and finite numbers.\<close>

theorem import_accounts_for_rows:
  "let r = import_csv_string gen content pid aid
   in case csv_rows content of
        None \<Rightarrow> r = failed_import ParsingFailed
      | Some rows \<Rightarrow>
          if length rows < 2 then r = failed_import TooFewRows
          else let hs = hd rows; data = csv_data_rows rows;
                   held = filter (\<lambda>(n, row). row_held hs row) data;
                   tot = sum_list (map (\<lambda>(n, row). row_value hs row) held)
            in im_rows_parsed r = length data \<and> im_rows_skipped r = length data - length held \<and>
               map (\<lambda>h. (h_id h, h_symbol h, h_quantity h, h_market_value h, h_weight h)) (im_holdings r) =
                 map (\<lambda>(n, row). (fst (gen n), the (row_symbol hs row), Fin (row_quantity hs row),
                   Fin (row_value hs row),
                   Fin (if 0 < tot then py_round (row_value hs row / tot) 6 else 0))) held \<and>
               im_errors r = map (\<lambda>(n, row). (n, if find_column hs [''symbol'', ''ticker''] = None
                                                  then NoSymbolColumn else EmptySymbol))
                 (filter (\<lambda>(n, row). row_symbol hs row = None) data) \<and>
               (\<forall>w. w \<in> set (im_warnings r) \<longleftrightarrow> (\<exists>(n, row) \<in> set data. row_symbol hs row \<noteq> None \<and>
                  (w = (n, NegativeQuantity (row_quantity hs row)) \<and> row_quantity hs row < 0 \<or>
                   w = (n, NegativeMarketValue (row_value hs row)) \<and> row_value hs row < 0 \<or>
                   w = (n, ZeroValue) \<and> row_quantity hs row = 0 \<and> row_value hs row = 0))) \<and>
               (\<forall>h \<in> set (im_holdings r). h_portfolio_id h = pid \<and> h_account_id h = aid \<and>
                  \<not> blank (h_symbol h) \<and> h_asset_class h \<in> set asset_classes \<and>
                  list_all is_finite [h_quantity h, h_market_value h, h_cost_basis h, h_weight h, h_yield_pct h])"
proof (cases "csv_rows content")
  case (Some rows)
  show ?thesis
  proof (cases "length rows < 2")
    case False
    let ?r = "import_csv_string gen content pid aid" and ?hs = "hd rows"
    let ?held = "filter (\<lambda>(n, row). row_held ?hs row) (csv_data_rows rows)"
    let ?tot = "sum_list (map (\<lambda>(n, row). row_value ?hs row) ?held)"
    note r = import_rows [OF Some False, of gen pid aid]
    have ok: "h_portfolio_id h = pid \<and> h_account_id h = aid \<and>
        \<not> blank (h_symbol h) \<and> h_asset_class h \<in> set asset_classes \<and>
        list_all is_finite [h_quantity h, h_market_value h, h_cost_basis h, h_weight h, h_yield_pct h]"
      if "h \<in> set (im_holdings ?r)" for h
    proof -
      have "importable pid h" using import_csv_ok [of pid gen content aid] that by (simp add: import_ok_def)
      moreover have "h_account_id h = aid"
        using that unfolding r(4) by (auto simp: row_holding_def build_holding_fields dest!: assign_weights_fields)
      ultimately show ?thesis by (simp add: importable_def)
    qed
    have rows: "map (\<lambda>h. (h_id h, h_symbol h, h_quantity h, h_market_value h, h_weight h)) (im_holdings ?r) =
        map (\<lambda>x. (\<lambda>(n, row) w. (fst (gen n), the (row_symbol ?hs row), Fin (row_quantity ?hs row),
          Fin (row_value ?hs row), w)) x
            (Fin (if 0 < ?tot then py_round ((\<lambda>(n, row). row_value ?hs row) x / ?tot) 6 else 0))) ?held"
      unfolding r(4) by (rule assigned_weights) (auto simp: row_holding_def build_holding_fields)
    show ?thesis
      unfolding Let_def Some option.case if_not_P [OF False]
    proof (intro conjI allI ballI)
      show "map (\<lambda>h. (h_id h, h_symbol h, h_quantity h, h_market_value h, h_weight h)) (im_holdings ?r) =
          map (\<lambda>(n, row). (fst (gen n), the (row_symbol ?hs row), Fin (row_quantity ?hs row),
            Fin (row_value ?hs row), Fin (if 0 < ?tot then py_round (row_value ?hs row / ?tot) 6 else 0))) ?held"
        unfolding rows by (rule map_cong [OF refl]) (simp add: case_prod_beta)
      show "im_errors ?r = map (\<lambda>(n, row). (n, if find_column ?hs [''symbol'', ''ticker''] = None
            then NoSymbolColumn else EmptySymbol))
          (filter (\<lambda>(n, row). row_symbol ?hs row = None) (csv_data_rows rows))"
        unfolding r(3) row_problem_def ..
    next
      fix w
      show "w \<in> set (im_warnings ?r) \<longleftrightarrow> (\<exists>(n, row) \<in> set (csv_data_rows rows). row_symbol ?hs row \<noteq> None \<and>
          (w = (n, NegativeQuantity (row_quantity ?hs row)) \<and> row_quantity ?hs row < 0 \<or>
           w = (n, NegativeMarketValue (row_value ?hs row)) \<and> row_value ?hs row < 0 \<or>
           w = (n, ZeroValue) \<and> row_quantity ?hs row = 0 \<and> row_value ?hs row = 0))"
        unfolding r(5) by (rule warned_rows)
    qed (use r(1,2) ok in blast)+
  qed (simp add: import_csv_string_def failed_import_def Some Let_def)
qed (simp add: import_csv_string_def failed_import_def)

lemma traverse_Inl: "traverse f xs = Inl e \<Longrightarrow> \<exists>x \<in> set xs. f x = Inl e"
  by (induction xs) (auto simp: rbind_eq_Inl)

lemma validate_importable:
  assumes "importable pid h" and "pid \<noteq> []" and "loads ''[]'' = Some (VList [])"
    and "validate_holding loads h = Inl e"
  shows "the_fin (h_quantity h) < 0 \<or> the_fin (h_market_value h) < 0"
proof (rule ccontr)
  assume "\<not> ?thesis"
  moreover have "\<not> fl_lt f (Fin 0)" if "is_finite f" "\<not> the_fin f < 0" for f
    using that by (cases f) auto
  ultimately have "validate_holding loads h = Inr ()"
    using assms(1-3) by (auto simp: importable_def validate_holding_def)
  with assms(4) show False by simp
qed

text \<open>Saving an import stores all of its holdings or changes nothing; with a portfolio given, the
  database refuses an import without row errors only for an integrity violation or for a negative
  quantity or value, which the preview reports as a mere warning.\<close>

lemma confirm_import_outcome:
  assumes "loads ''[]'' = Some (VList [])" and "pid \<noteq> []"
  shows "let r = import_csv_string gen content pid aid; res = confirm_import loads gen content pid aid d
    in case fst res of
         Inr n \<Rightarrow> im_errors r = [] \<and> n = length (im_holdings r) \<and>
           snd res = d\<lparr>holdings := holdings d @ map to_row (im_holdings r)\<rparr>
       | Inl (ImportErrors es) \<Rightarrow> es = im_errors r \<and> es \<noteq> [] \<and> snd res = d
       | Inl (Database e) \<Rightarrow> snd res = d \<and>
           (e = IntegrityErr \<or>
            (\<exists>n x. (n, NegativeQuantity x) \<in> set (im_warnings r) \<or> (n, NegativeMarketValue x) \<in> set (im_warnings r)))"
proof -
  define r where "r = import_csv_string gen content pid aid"
  define hs where "hs = im_holdings r"
  have ok: "importable pid h \<and> flagged (im_warnings r) h" if "h \<in> set hs" for h
    using import_csv_ok [of pid gen content aid] that by (simp add: import_ok_def r_def hs_def)
  note unf = confirm_import_def bulk_insert_eq Let_def
    r_def [symmetric] hs_def [symmetric]
  show ?thesis
  proof (cases "traverse (validate_holding loads) hs")
    case (Inl e)
    from traverse_Inl [OF Inl] obtain h where h: "h \<in> set hs" "validate_holding loads h = Inl e" by blast
    from validate_importable [OF _ assms(2,1) h(2)] ok [OF h(1)]
    have "\<exists>n x. (n, NegativeQuantity x) \<in> set (im_warnings r) \<or> (n, NegativeMarketValue x) \<in> set (im_warnings r)"
      by (auto simp: flagged_def)
    then show ?thesis unfolding unf Inl by simp
  next
    case (Inr us)
    note v = this
    obtain q w where w: "sql_insert_holdings hs d = (q, w)" by (cases "sql_insert_holdings hs d")
    show ?thesis
    proof (cases q)
      case (Inl e)
      with sql_inserts_error w show ?thesis unfolding unf v by auto
    next
      case (Inr u)
      with holdings_bulk w show ?thesis unfolding unf v by auto
    qed
  qed
qed

definition sample_csv :: "string \<Rightarrow> string" where
  "sample_csv value = render [[''Symbol'', ''Qty'', ''Market Value''], [''xiu'', ''2'', value]]"

definition sample_gen :: generator where
  "sample_gen n = (''h3'', ''t1'', ''t1'')"

lemma sample_strip [simp]:
  "strip ''Symbol'' = ''Symbol''" "strip ''Qty'' = ''Qty''" "strip ''Market Value'' = ''Market Value''"
  "strip ''xiu'' = ''xiu''" "strip ''2'' = ''2''" "strip ''-3'' = ''-3''" "strip ''3'' = ''3''"
  by code_simp+

lemma sample_columns [simp]:
  "find_column [''Symbol'', ''Qty'', ''Market Value''] [''symbol'', ''ticker''] = Some 0"
  "find_column [''Symbol'', ''Qty'', ''Market Value''] [''quantity'', ''position'', ''shares'', ''qty''] = Some 1"
  "find_column [''Symbol'', ''Qty'', ''Market Value''] [''market value'', ''market_value'', ''current value''] = Some 2"
  by code_simp+

lemma sample_upper [simp]: "upper ''xiu'' = ''XIU''"
  by code_simp

lemma sample_no_columns [simp]:
  "find_column [''Symbol'', ''Qty'', ''Market Value''] [''name'', ''description'', ''financial instrument''] = None"
  "find_column [''Symbol'', ''Qty'', ''Market Value''] [''asset class'', ''asset_class'', ''type'', ''category''] = None"
  "find_column [''Symbol'', ''Qty'', ''Market Value'']
     [''cost basis'', ''cost_basis'', ''book cost'', ''book value'', ''avg cost''] = None"
  "find_column [''Symbol'', ''Qty'', ''Market Value''] [''yield'', ''dividend yield'', ''yield_pct''] = None"
  "find_column [''Symbol'', ''Qty'', ''Market Value''] [''currency'', ''curr''] = None"
  by code_simp+

lemma sample_cleaned:
  "remove_sub ''USD'' (remove_sub ''CAD'' (remove_sub ''$'' (remove_sub '','' ''2''))) = ''2''"
  "remove_sub ''USD'' (remove_sub ''CAD'' (remove_sub ''$'' (remove_sub '','' ''0''))) = ''0''"
  "remove_sub ''USD'' (remove_sub ''CAD'' (remove_sub ''$'' (remove_sub '','' ''3''))) = ''3''"
  "remove_sub ''USD'' (remove_sub ''CAD'' (remove_sub ''$'' (remove_sub '','' ''-3''))) = ''-3''"
  by code_simp+

lemma sample_strip_0: "strip ''0'' = ''0''" by code_simp

lemma sample_floats [simp]:
  "parse_float ''2'' = 2" "parse_float ''0'' = 0" "parse_float ''3'' = 3" "parse_float ''-3'' = -3"
  by (simp_all add: parse_float_def blank_iff sample_cleaned sample_strip_0 float_of_text_def lower_def
      parse_mantissa_def parse_exponent_def is_exp_def digit_part_def is_digit_def code_of_def is_ws_def
      parse_dec_def digit_val_def power_of_ten_def float_limit_def lower_char_def Let_def
      del: remove_sub.simps)

lemma sample_equity [simp]: "normalize_asset_class ''equity'' = ''equity''"
  by code_simp

lemma sample_import:
  assumes "parse_float value = v" and "v \<noteq> 0" and "length value \<le> field_limit" and "strip value \<noteq> []"
  shows "\<exists>h. im_holdings (import_csv_string sample_gen (sample_csv value) ''p'' []) = [h] \<and>
    h_quantity h = Fin 2 \<and> h_market_value h = Fin v \<and> h_id h = ''h3'' \<and> h_account_id h = [] \<and>
    im_errors (import_csv_string sample_gen (sample_csv value) ''p'' []) = []"
proof -
  have rows: "csv_rows (sample_csv value) = Some [[''Symbol'', ''Qty'', ''Market Value''], [''xiu'', ''2'', value]]"
    unfolding sample_csv_def by (rule csv_rows_render) (use assms(3) in \<open>simp add: field_limit_def\<close>)
  show ?thesis using assms
    by (simp add: import_csv_string_def rows import_row_def parse_row_def build_holding_def cell_def
        cell_number_def sample_gen_def empty_result_def row_warnings_def assign_weights_def Let_def
        del: find_column.simps)
qed

lemma import_accounts_for_rows_witness:
  "let r = import_csv_string sample_gen (sample_csv ''-3'') ''p'' []
   in im_rows_parsed r = 1 \<and> im_rows_skipped r = 0 \<and> im_errors r = [] \<and>
      map h_market_value (im_holdings r) = [Fin (-3)] \<and> (2, NegativeMarketValue (-3)) \<in> set (im_warnings r)"
proof -
  let ?hs = "[''Symbol'', ''Qty'', ''Market Value'']" and ?row = "[''xiu'', ''2'', ''-3'']"
  have rows: "csv_rows (sample_csv ''-3'') = Some [?hs, ?row]"
    unfolding sample_csv_def by (rule csv_rows_render) (simp add: field_limit_def)
  have data: "csv_data_rows [?hs, ?row] = [(2, ?row)]" by (simp add: csv_data_rows_def)
  have row: "row_symbol ?hs ?row = Some ''XIU''" "row_quantity ?hs ?row = 2" "row_value ?hs ?row = -3"
    by (simp_all add: row_symbol_def row_quantity_def row_value_def cell_number_def cell_def del: find_column.simps)
  then have held: "row_held ?hs ?row" by (simp add: row_held_def)
  note p = import_accounts_for_rows [of sample_gen "sample_csv ''-3''" "''p''" "[]",
      unfolded rows Let_def option.case]
  have m: "map h_market_value hs = map (\<lambda>(_, _, _, v, _). v)
      (map (\<lambda>h. (h_id h, h_symbol h, h_quantity h, h_market_value h, h_weight h)) hs)" for hs
    by simp
  show ?thesis unfolding Let_def m
    using p by (auto simp: data row held simp del: find_column.simps map_map)
qed

lemma confirm_import_outcome_witness:
  "case fst (confirm_import sample_loads sample_gen (sample_csv ''3'') ''p'' [] sample_db) of
     Inr n \<Rightarrow> n = 1
   | Inl (ImportErrors es) \<Rightarrow> False
   | Inl (Database e) \<Rightarrow>
       snd (confirm_import sample_loads sample_gen (sample_csv ''3'') ''p'' [] sample_db) = sample_db"
proof -
  obtain h where h: "im_holdings (import_csv_string sample_gen (sample_csv ''3'') ''p'' []) = [h]"
    "im_errors (import_csv_string sample_gen (sample_csv ''3'') ''p'' []) = []"
    using sample_import [of "''3''" 3] by (auto simp: field_limit_def)
  have "sample_loads ''[]'' = Some (VList [])" by (simp add: sample_loads_def)
  note confirm_import_outcome [of sample_loads "''p''" sample_gen "sample_csv ''3''" "[]" sample_db, OF this]
  then show ?thesis using h by (auto simp: Let_def split: sum.splits confirm_exc.splits)
qed

end
