(* ===== verification/Cache.thy ===== *)
theory Cache
  imports Tables "HOL-Library.List_Lexorder" "HOL-Library.Char_ord"
begin

text \<open>
  \<^verbatim>\<open>analytics/pae/data/cache.py\<close>: the SQLite cache with time-to-live and integrity check. The clock
  readings are arguments; \<open>sha\<close> is SHA-256, \<open>loads\<close> and \<open>dumps\<close> are \<open>json.loads\<close> and \<open>json.dumps\<close>
  (None when they raise). The interface of a cache, \<open>ttl_cache\<close>, is what the data adapters rely on.
\<close>

section \<open>State\<close>

record cache_row =
  c_key :: string
  c_value :: string
  c_source :: string
  c_created :: real
  c_expires :: real
  c_checksum :: string

record data_cache =
  c_open :: bool
  c_rows :: "cache_row list"

record cache_entry =
  ce_key :: string
  ce_value :: pyval
  ce_source :: string
  ce_created :: real
  ce_expires :: real
  ce_checksum :: string

datatype cache_exc = CacheClosed | CacheSerialize | CacheKeyEmpty | CacheTtl

definition new_cache :: data_cache where
  "new_cache = \<lparr>c_open = True, c_rows = []\<rparr>"

section \<open>Operations on the rows\<close>

text \<open>The row that the SELECT of \<open>get\<close> finds, if its checksum is intact.\<close>

definition select_row :: "real \<Rightarrow> string \<Rightarrow> cache_row list \<Rightarrow> cache_row option" where
  "select_row now k rows =
     (case tbl_lookup c_key rows k of
        None \<Rightarrow> None
      | Some r \<Rightarrow> if c_expires r > now then Some r else None)"

definition intact :: "(string \<Rightarrow> string) \<Rightarrow> cache_row \<Rightarrow> bool" where
  "intact sha r = (sha (c_value r) = c_checksum r)"

definition get_raw :: "(string \<Rightarrow> string) \<Rightarrow> real \<Rightarrow> string \<Rightarrow> cache_row list \<Rightarrow> cache_row option" where
  "get_raw sha now k rows =
     (case select_row now k rows of
        None \<Rightarrow> None
      | Some r \<Rightarrow> if intact sha r then Some r else None)"

definition make_row :: "(string \<Rightarrow> string) \<Rightarrow> real \<Rightarrow> real \<Rightarrow> string \<Rightarrow> string \<Rightarrow> string \<Rightarrow> cache_row" where
  "make_row sha now ttl source k v =
     \<lparr>c_key = k, c_value = v, c_source = source, c_created = now, c_expires = now + ttl,
      c_checksum = sha v\<rparr>"

definition put_raw ::
  "(string \<Rightarrow> string) \<Rightarrow> real \<Rightarrow> real \<Rightarrow> string \<Rightarrow> string \<Rightarrow> string \<Rightarrow> cache_row list \<Rightarrow> cache_row list" where
  "put_raw sha now ttl source k v rows = tbl_replace c_key (make_row sha now ttl source k v) rows"

definition drop_expired :: "real \<Rightarrow> cache_row list \<Rightarrow> cache_row list" where
  "drop_expired now rows = filter (\<lambda>r. \<not> c_expires r \<le> now) rows"

section \<open>DataCache\<close>

definition cache_delete :: "string \<Rightarrow> data_cache \<Rightarrow> (cache_exc + unit) \<times> data_cache" where
  "cache_delete k c =
     (if \<not> c_open c then (Inl CacheClosed, c)
      else (Inr (), c\<lparr>c_rows := tbl_delete c_key k (c_rows c)\<rparr>))"

definition cache_get ::
  "(string \<Rightarrow> string) \<Rightarrow> (string \<Rightarrow> pyval option) \<Rightarrow> real \<Rightarrow> string \<Rightarrow> data_cache \<Rightarrow>
     (cache_exc + cache_entry option) \<times> data_cache" where
  "cache_get sha loads now k c =
     (if blank k then (Inr None, c)
      else if \<not> c_open c then (Inl CacheClosed, c)
      else case select_row now k (c_rows c) of
          None \<Rightarrow> (Inr None, c)
        | Some r \<Rightarrow>
            if \<not> intact sha r then (Inr None, snd (cache_delete k c))
            else (case loads (c_value r) of
                    None \<Rightarrow> (Inr None, snd (cache_delete k c))
                  | Some v \<Rightarrow>
                      (Inr (Some \<lparr>ce_key = c_key r, ce_value = v, ce_source = c_source r,
                         ce_created = c_created r, ce_expires = c_expires r,
                         ce_checksum = c_checksum r\<rparr>), c)))"

definition cache_put ::
  "(string \<Rightarrow> string) \<Rightarrow> (pyval \<Rightarrow> string option) \<Rightarrow> real \<Rightarrow> real \<Rightarrow> string \<Rightarrow> string \<Rightarrow> pyval \<Rightarrow>
     data_cache \<Rightarrow> (cache_exc + unit) \<times> data_cache" where
  "cache_put sha dumps now ttl source k v c =
     (if blank k then (Inl CacheKeyEmpty, c)
      else if ttl \<le> 0 then (Inl CacheTtl, c)
      else if \<not> c_open c then (Inl CacheClosed, c)
      else case dumps v of
          None \<Rightarrow> (Inl CacheSerialize, c)
        | Some raw \<Rightarrow> (Inr (), c\<lparr>c_rows := put_raw sha now ttl source k raw (c_rows c)\<rparr>))"

definition evict_expired :: "real \<Rightarrow> data_cache \<Rightarrow> (cache_exc + nat) \<times> data_cache" where
  "evict_expired now c =
     (if \<not> c_open c then (Inl CacheClosed, c)
      else (Inr (length (filter (\<lambda>r. c_expires r \<le> now) (c_rows c))),
            c\<lparr>c_rows := drop_expired now (c_rows c)\<rparr>))"

definition clear_source :: "string \<Rightarrow> data_cache \<Rightarrow> (cache_exc + nat) \<times> data_cache" where
  "clear_source source c =
     (if \<not> c_open c then (Inl CacheClosed, c)
      else (Inr (length (filter (\<lambda>r. c_source r = source) (c_rows c))),
            c\<lparr>c_rows := filter (\<lambda>r. c_source r \<noteq> source) (c_rows c)\<rparr>))"

record cache_statistics =
  cst_total :: nat
  cst_expired :: nat
  cst_active :: nat
  cst_sources :: "(string \<times> nat) list"

definition count_sources :: "cache_row list \<Rightarrow> (string \<times> nat) list" where
  "count_sources rows =
     map (\<lambda>s. (s, length (filter (\<lambda>r. c_source r = s) rows))) (sort (remdups (map c_source rows)))"

definition cache_stats :: "real \<Rightarrow> data_cache \<Rightarrow> cache_exc + cache_statistics" where
  "cache_stats now c =
     (if \<not> c_open c then Inl CacheClosed
      else let n = length (c_rows c); e = length (filter (\<lambda>r. c_expires r \<le> now) (c_rows c))
           in Inr \<lparr>cst_total = n, cst_expired = e, cst_active = n - e,
                   cst_sources = count_sources (c_rows c)\<rparr>)"

definition cache_close :: "data_cache \<Rightarrow> data_cache" where
  "cache_close c = c\<lparr>c_open := False\<rparr>"

section \<open>The interface\<close>

text \<open>
  A store with expiry: what was put under a key is found until it expires and not after, another key
  is not affected, and dropping expired rows never changes a later lookup.
\<close>

locale ttl_cache =
  fixes find_at :: "real \<Rightarrow> string \<Rightarrow> 'c \<Rightarrow> 'r option"
    and store :: "real \<Rightarrow> real \<Rightarrow> string \<Rightarrow> string \<Rightarrow> string \<Rightarrow> 'c \<Rightarrow> 'c"
    and purge :: "real \<Rightarrow> 'c \<Rightarrow> 'c"
    and row :: "real \<Rightarrow> real \<Rightarrow> string \<Rightarrow> string \<Rightarrow> string \<Rightarrow> 'r"
    and valid :: "'c \<Rightarrow> bool"
  assumes find_store: "find_at t k (store now ttl src k' v c) =
      (if k = k' then (if t < now + ttl then Some (row now ttl src k v) else None) else find_at t k c)"
    and find_purge: "valid c \<Longrightarrow> now \<le> t \<Longrightarrow> find_at t k (purge now c) = find_at t k c"
    and valid_store: "valid c \<Longrightarrow> valid (store now ttl src k v c)"
    and valid_purge: "valid c \<Longrightarrow> valid (purge now c)"
begin

text \<open>Storing twice under one key is storing the second value.\<close>

lemma find_store_twice:
  "find_at t k (store n2 t2 s2 k' v2 (store n1 t1 s1 k' v1 c)) = find_at t k (store n2 t2 s2 k' v2 c)"
  by (simp add: find_store)

text \<open>A purge between a store and a lookup is not observable.\<close>

lemma find_purge_store:
  assumes "valid c" and "n \<le> t"
  shows "find_at t k (purge n (store now ttl src k' v c)) = find_at t k (store now ttl src k' v c)"
  using assms by (intro find_purge valid_store)

end

lemma lookup_filter:
  assumes "tbl_wf key rows"
  shows "tbl_lookup key (filter P rows) k =
    (case tbl_lookup key rows k of None \<Rightarrow> None | Some r \<Rightarrow> if P r then Some r else None)"
  using assms
proof (induction rows)
  case (Cons a rows)
  have "tbl_lookup key rows k = None" if "key a = k"
    using Cons.prems that by (auto simp: tbl_wf_def tbl_lookup_None)
  with Cons show ?case by (auto simp: tbl_lookup_def tbl_wf_def)
qed (simp add: tbl_lookup_def)

interpretation dc: ttl_cache "get_raw sha" "put_raw sha" drop_expired "make_row sha" "tbl_wf c_key"
  for sha :: "string \<Rightarrow> string"
proof unfold_locales
  fix t now ttl :: real and k k' src v and c :: "cache_row list"
  show "get_raw sha t k (put_raw sha now ttl src k' v c) =
      (if k = k' then (if t < now + ttl then Some (make_row sha now ttl src k v) else None)
       else get_raw sha t k c)"
    by (auto simp: get_raw_def select_row_def put_raw_def tbl_lookup_replace make_row_def intact_def)
  show "get_raw sha t k (drop_expired now c) = get_raw sha t k c" if "tbl_wf c_key c" "now \<le> t"
    using that by (auto simp: get_raw_def select_row_def drop_expired_def lookup_filter split: option.splits)
  show "tbl_wf c_key (put_raw sha now ttl src k v c)" if "tbl_wf c_key c"
    unfolding put_raw_def using that by (rule tbl_wf_replace)
  show "tbl_wf c_key (drop_expired now c)" if "tbl_wf c_key c"
    using that by (simp add: drop_expired_def tbl_wf_def distinct_map_filter)
qed

section \<open>Lemmas\<close>

definition entry_of :: "cache_row \<Rightarrow> pyval \<Rightarrow> cache_entry" where
  "entry_of r v = \<lparr>ce_key = c_key r, ce_value = v, ce_source = c_source r, ce_created = c_created r,
     ce_expires = c_expires r, ce_checksum = c_checksum r\<rparr>"

text \<open>The result of a lookup depends on the intact unexpired row only.\<close>

lemma cache_get_result:
  "fst (cache_get sha loads now k c) =
     (if blank k then Inr None else if \<not> c_open c then Inl CacheClosed
      else Inr (case get_raw sha now k (c_rows c) of
             None \<Rightarrow> None
           | Some r \<Rightarrow> map_option (entry_of r) (loads (c_value r))))"
  by (auto simp: cache_get_def get_raw_def entry_of_def split: option.splits)

lemma cache_put_ok:
  "cache_put sha dumps now ttl source k v c = (Inr u, c') \<longleftrightarrow>
     \<not> blank k \<and> 0 < ttl \<and> c_open c \<and>
     (\<exists>raw. dumps v = Some raw \<and> c' = c\<lparr>c_rows := put_raw sha now ttl source k raw (c_rows c)\<rparr>)"
  by (auto simp: cache_put_def split: option.splits)

section \<open>Reading through the cache\<close>

text \<open>
  How the data adapters use the cache: a hit is decoded; otherwise the value is fetched, which may
  fail, and stored. \<open>t\<close> and \<open>t2\<close> are the clock readings of the lookup and of the store, \<open>wrap\<close> makes an
  error of the cache one of the adapter.
\<close>

definition through_cache ::
  "(string \<Rightarrow> string) \<Rightarrow> (string \<Rightarrow> pyval option) \<Rightarrow> (pyval \<Rightarrow> string option) \<Rightarrow> (cache_exc \<Rightarrow> 'e) \<Rightarrow> real \<Rightarrow>
     string \<Rightarrow> string \<Rightarrow> real \<Rightarrow> real \<Rightarrow> (pyval \<Rightarrow> 'e + 's) \<Rightarrow> 'e + 's \<Rightarrow> ('s \<Rightarrow> pyval) \<Rightarrow> data_cache \<Rightarrow>
     ('e + 's) \<times> data_cache" where
  "through_cache sha loads dumps wrap ttl source k t t2 decode fetched encode c =
     (case cache_get sha loads t k c of
        (Inl e, c1) \<Rightarrow> (Inl (wrap e), c1)
      | (Inr (Some entry), c1) \<Rightarrow> (decode (ce_value entry), c1)
      | (Inr None, c1) \<Rightarrow>
          (case fetched of
             Inl e \<Rightarrow> (Inl e, c1)
           | Inr s \<Rightarrow>
               (case cache_put sha dumps t2 ttl source k (encode s) c1 of
                  (Inl e, c2) \<Rightarrow> (Inl (wrap e), c2)
                | (Inr _, c2) \<Rightarrow> (Inr s, c2))))"

text \<open>
  After a read that missed the cache and succeeded, the same read before the expiry is a hit that
  decodes to the same value, whatever a fetch would give now.
\<close>

lemma through_cache_stored:
  assumes first: "through_cache sha loads dumps wrap ttl source k t t2 decode fetched encode c = (Inr s, c')"
    and miss: "fst (cache_get sha loads t k c) = Inr None"
    and k: "\<not> blank k"
    and json: "\<And>v raw. dumps v = Some raw \<Longrightarrow> loads raw = Some v"
    and soon: "t3 < t2 + ttl"
  shows "\<exists>entry. cache_get sha loads t3 k c' = (Inr (Some entry), c') \<and> ce_value entry = encode s"
proof -
  obtain c1 where c1: "cache_get sha loads t k c = (Inr None, c1)"
    using miss by (cases "cache_get sha loads t k c") auto
  from first c1 obtain raw where raw: "dumps (encode s) = Some raw" and op: "c_open c1"
    and c': "c' = c1\<lparr>c_rows := put_raw sha t2 ttl source k raw (c_rows c1)\<rparr>"
    by (auto simp: through_cache_def cache_put_ok split: option.splits sum.splits prod.splits)
  have "get_raw sha t3 k (c_rows c') = Some (make_row sha t2 ttl source k raw)"
    using soon by (simp add: c' dc.find_store)
  then have row: "select_row t3 k (c_rows c') = Some (make_row sha t2 ttl source k raw)"
    "intact sha (make_row sha t2 ttl source k raw)"
    by (auto simp: get_raw_def split: option.splits if_splits)
  from json [OF raw] have "cache_get sha loads t3 k c' =
      (Inr (Some (entry_of (make_row sha t2 ttl source k raw) (encode s))), c')"
    using k op row by (simp add: cache_get_def c' entry_of_def make_row_def)
  then show ?thesis by (simp add: entry_of_def)
qed

lemma through_cache_again:
  assumes first: "through_cache sha loads dumps wrap ttl source k t t2 decode fetched encode c = (Inr s, c')"
    and miss: "fst (cache_get sha loads t k c) = Inr None"
    and k: "\<not> blank k" and inverse: "decode (encode s) = Inr s"
    and json: "\<And>v raw. dumps v = Some raw \<Longrightarrow> loads raw = Some v"
    and soon: "t3 < t2 + ttl"
  shows "through_cache sha loads dumps' wrap' ttl' source' k t3 t4 decode fetched' encode' c' = (Inr s, c')"
  using through_cache_stored [OF first miss k json soon] inverse by (auto simp: through_cache_def)

text \<open>The texts and the numbers of a cached list.\<close>

fun strings_of :: "pyval list \<Rightarrow> string list option" where
  "strings_of [] = Some []"
| "strings_of (VStr s # vs) = map_option ((#) s) (strings_of vs)"
| "strings_of _ = None"

fun floats_in :: "pyval list \<Rightarrow> pyfloat list option" where
  "floats_in [] = Some []"
| "floats_in (VFloat x # vs) = map_option ((#) x) (floats_in vs)"
| "floats_in _ = None"

lemma strings_of_map [simp]: "strings_of (map VStr ss) = Some ss"
  by (induction ss) simp_all

lemma floats_in_map [simp]: "floats_in (map VFloat xs) = Some xs"
  by (induction xs) simp_all

section \<open>Properties\<close>

text \<open>C15: a value stored under a key is what every lookup returns until the time to live has passed,
  with its source and times, and nothing is returned from then on; lookups of other keys are not
  affected, and evicting expired entries in between is not observable.\<close>

theorem cache_ttl_semantics:
  assumes put: "cache_put sha dumps now ttl source k v c = (Inr u, c')"
    and json: "\<And>raw. dumps v = Some raw \<Longrightarrow> loads raw = Some v"
    and wf: "tbl_wf c_key (c_rows c)" and later: "n \<le> t"
  shows "(\<exists>sum. fst (cache_get sha loads t k (snd (evict_expired n c'))) =
      Inr (if t < now + ttl
           then Some \<lparr>ce_key = k, ce_value = v, ce_source = source, ce_created = now,
                       ce_expires = now + ttl, ce_checksum = sum\<rparr>
           else None)) \<and>
    (k' \<noteq> k \<longrightarrow>
       fst (cache_get sha loads t k' (snd (evict_expired n c'))) = fst (cache_get sha loads t k' c))"
proof -
  from put obtain raw where k: "\<not> blank k" "c_open c" and raw: "dumps v = Some raw"
    and c': "c' = c\<lparr>c_rows := put_raw sha now ttl source k raw (c_rows c)\<rparr>"
    by (auto simp: cache_put_ok)
  have ev: "c_rows (snd (evict_expired n c')) = drop_expired n (put_raw sha now ttl source k raw (c_rows c))"
    "c_open (snd (evict_expired n c'))"
    using k by (simp_all add: evict_expired_def c')
  note found = dc.find_purge_store [OF wf later, of sha, unfolded dc.find_store]
  show ?thesis
    using k json [OF raw]
    by (auto simp: cache_get_result ev found make_row_def entry_of_def)
qed

lemma cache_ttl_semantics_witness:
  "\<exists>sum. fst (cache_get (\<lambda>s. s) (\<lambda>_. Some (VInt 1)) 5 ''k''
      (snd (evict_expired 3 (snd (cache_put (\<lambda>s. s) (\<lambda>_. Some ''1'') 0 10 ''src'' ''k'' (VInt 1) new_cache))))) =
     Inr (Some \<lparr>ce_key = ''k'', ce_value = VInt 1, ce_source = ''src'', ce_created = 0,
                ce_expires = 10, ce_checksum = sum\<rparr>)"
proof -
  have "blank ''k'' = False" by (simp add: blank_iff is_ws_def code_of_def)
  then have "cache_put (\<lambda>s. s) (\<lambda>_. Some ''1'') 0 10 ''src'' ''k'' (VInt 1) new_cache =
      (Inr (), snd (cache_put (\<lambda>s. s) (\<lambda>_. Some ''1'') 0 10 ''src'' ''k'' (VInt 1) new_cache))"
    by (simp add: cache_put_def new_cache_def)
  from cache_ttl_semantics [OF this, of "\<lambda>_. Some (VInt 1)" 3 5 "''x''"] show ?thesis
    by (simp add: new_cache_def tbl_wf_def)
qed

end
