(* ===== verification/Sources.thy ===== *)
theory Sources
  imports Cache Float_Text
begin

text \<open>
  The cached first sources: \<^verbatim>\<open>analytics/pae/data/boc.py\<close> (Bank of Canada Valet) and
  \<^verbatim>\<open>analytics/pae/data/eia.py\<close> (EIA). The HTTP request is the parameter \<open>http\<close>: the decoded JSON document
  of a URL, None when the request or the decoding fails; \<open>str_of_val\<close> is \<open>str\<close> of a value that is no text;
  \<open>urlencode\<close> is the standard library's. Both adapters are clients of the cache.
\<close>

section \<open>Shared parts\<close>

datatype source_exc =
    RequestFailed string
  | NotArmed
  | UnknownEnergyKey string
  | SourcePy py_exc
  | SourceCache cache_exc

definition lift_source :: "py_exc + 'a \<Rightarrow> source_exc + 'a" where
  "lift_source r = (case r of Inl e \<Rightarrow> Inl (SourcePy e) | Inr a \<Rightarrow> Inr a)"

fun text_of :: "(pyval \<Rightarrow> string) \<Rightarrow> pyval \<Rightarrow> string" where
  "text_of str_of_val (VStr s) = s"
| "text_of str_of_val v = str_of_val v"

definition absent :: "pyval \<Rightarrow> bool" where
  "absent v = (v = VNone \<or> v = VStr [])"

definition TTL_SERIES :: real where "TTL_SERIES = 3600"

definition floats_of :: "pyval \<Rightarrow> py_exc + pyfloat list" where
  "floats_of v = rbind (iter_value v) (traverse float_of_value)"

text \<open>What the two adapters need of their environment.\<close>

record source_env =
  se_sha :: "string \<Rightarrow> string"
  se_loads :: "string \<Rightarrow> pyval option"
  se_dumps :: "pyval \<Rightarrow> string option"
  se_http :: "string \<Rightarrow> pyval option"
  se_str :: "pyval \<Rightarrow> string"

text \<open>
  The cached fetch of both adapters: a hit is decoded; otherwise the document is fetched, parsed and
  stored for an hour.
\<close>

definition cached_fetch ::
  "source_env \<Rightarrow> real \<Rightarrow> real \<Rightarrow> string \<Rightarrow> string \<Rightarrow> string \<Rightarrow> (pyval \<Rightarrow> py_exc + 's) \<Rightarrow>
     (pyval \<Rightarrow> py_exc + 's) \<Rightarrow> ('s \<Rightarrow> pyval) \<Rightarrow> data_cache \<Rightarrow> (source_exc + 's) \<times> data_cache" where
  "cached_fetch env t t2 k source url decode parse encode c =
     through_cache (se_sha env) (se_loads env) (se_dumps env) SourceCache TTL_SERIES source k t t2
       (\<lambda>v. lift_source (decode v))
       (case se_http env url of None \<Rightarrow> Inl (RequestFailed url) | Some doc \<Rightarrow> lift_source (parse doc))
       encode c"

section \<open>Bank of Canada\<close>

record boc_series =
  bs_series_name :: pyval
  bs_dates :: "pyval list"
  bs_values :: "pyfloat list"

definition VALET_BASE :: string where
  "VALET_BASE = ''https://www.bankofcanada.ca/valet''"

fun parse_observations ::
  "(pyval \<Rightarrow> string) \<Rightarrow> string \<Rightarrow> pyval list \<Rightarrow> py_exc + (pyval list \<times> pyfloat list)" where
  "parse_observations st name [] = Inr ([], [])"
| "parse_observations st name (obs # rest) =
     rbind (py_get obs name (VDict [])) (\<lambda>cl.
     rbind (py_get cl ''v'' VNone) (\<lambda>raw.
     if absent raw then parse_observations st name rest
     else rbind (py_get obs ''d'' (VStr [])) (\<lambda>d.
          rbind (float_of_value raw) (\<lambda>x.
          rbind (parse_observations st name rest) (\<lambda>(ds, xs).
          Inr (VStr (text_of st d) # ds, x # xs))))))"

definition parse_boc :: "(pyval \<Rightarrow> string) \<Rightarrow> string \<Rightarrow> pyval \<Rightarrow> py_exc + boc_series" where
  "parse_boc st name doc =
     rbind (py_get doc ''observations'' (VList [])) (\<lambda>v.
     rbind (iter_value v) (\<lambda>obs.
     rbind (parse_observations st name obs) (\<lambda>(ds, xs).
     Inr \<lparr>bs_series_name = VStr name, bs_dates = ds, bs_values = xs\<rparr>)))"

definition decode_boc :: "pyval \<Rightarrow> py_exc + boc_series" where
  "decode_boc data =
     rbind (py_item data ''series_name'') (\<lambda>n.
     rbind (py_item data ''dates'') (\<lambda>d.
     rbind (iter_value d) (\<lambda>ds.
     rbind (py_item data ''values'') (\<lambda>v.
     rbind (floats_of v) (\<lambda>xs.
     Inr \<lparr>bs_series_name = n, bs_dates = ds, bs_values = xs\<rparr>)))))"

definition encode_boc :: "boc_series \<Rightarrow> pyval" where
  "encode_boc s = VDict [(''series_name'', bs_series_name s), (''dates'', VList (bs_dates s)),
     (''values'', VList (map VFloat (bs_values s)))]"

definition boc_key :: "string \<Rightarrow> int option \<Rightarrow> string" where
  "boc_key name recent = ''boc:'' @ name @ '':'' @
     (case recent of None \<Rightarrow> ''all'' | Some n \<Rightarrow> if n = 0 then ''all'' else dec_int n)"

definition boc_url :: "string \<Rightarrow> int option \<Rightarrow> string" where
  "boc_url name recent = VALET_BASE @ ''/observations/'' @ name @ ''/json'' @
     (case recent of None \<Rightarrow> [] | Some n \<Rightarrow> if n = 0 then [] else ''?recent='' @ dec_int n)"

definition boc_get_series ::
  "source_env \<Rightarrow> real \<Rightarrow> real \<Rightarrow> string \<Rightarrow> int option \<Rightarrow> data_cache \<Rightarrow> (source_exc + boc_series) \<times> data_cache" where
  "boc_get_series env t t2 series_name recent c =
     (let name = upper (strip series_name)
      in cached_fetch env t t2 (boc_key name recent) ''bank-of-canada'' (boc_url name recent)
           decode_boc (parse_boc (se_str env) name) encode_boc c)"

definition boc_get_fx_rate ::
  "source_env \<Rightarrow> real \<Rightarrow> real \<Rightarrow> string \<Rightarrow> data_cache \<Rightarrow> (source_exc + boc_series) \<times> data_cache" where
  "boc_get_fx_rate env t t2 pair c = boc_get_series env t t2 (''FX'' @ upper (strip pair)) None c"

section \<open>EIA\<close>

record eia_series =
  es_series_id :: pyval
  es_description :: pyval
  es_units :: pyval
  es_dates :: "pyval list"
  es_values :: "pyfloat list"

definition ENERGY_SERIES :: "(string \<times> string) list" where
  "ENERGY_SERIES =
     [(''wti_crude'', ''PET.RWTC.D''), (''brent_crude'', ''PET.RBRTE.D''),
      (''henry_hub_gas'', ''NG.RNGWHHD.D'')]"

text \<open>The loop over the rows, oldest first; the units are those of the last row that names some.\<close>

fun parse_eia_rows ::
  "(pyval \<Rightarrow> string) \<Rightarrow> string \<Rightarrow> pyval list \<Rightarrow> py_exc + (string \<times> pyval list \<times> pyfloat list)" where
  "parse_eia_rows st units [] = Inr (units, [], [])"
| "parse_eia_rows st units (row # rest) =
     rbind (py_get row ''value'' VNone) (\<lambda>raw.
     if absent raw then parse_eia_rows st units rest
     else rbind (py_get row ''period'' (VStr [])) (\<lambda>p.
          rbind (float_of_value raw) (\<lambda>x.
          rbind (py_get row ''units'' (VStr units)) (\<lambda>u.
          rbind (parse_eia_rows st (text_of st u) rest) (\<lambda>(u', ds, xs).
          Inr (u', VStr (text_of st p) # ds, x # xs))))))"

fun sequence_of :: "pyval \<Rightarrow> py_exc + pyval list" where
  "sequence_of (VList vs) = Inr vs"
| "sequence_of (VStr s) = Inr (map (\<lambda>c. VStr [c]) s)"
| "sequence_of (VDict d) = Inr (map (\<lambda>(k, _). VStr k) d)"
| "sequence_of _ = Inl TypeError"

definition parse_series_payload :: "(pyval \<Rightarrow> string) \<Rightarrow> string \<Rightarrow> pyval \<Rightarrow> py_exc + eia_series" where
  "parse_series_payload st series_id payload =
     rbind (py_get payload ''response'' (VDict [])) (\<lambda>response.
     rbind (py_get response ''data'' (VList [])) (\<lambda>v.
     rbind (py_get response ''description'' (VStr [])) (\<lambda>desc.
     rbind (sequence_of v) (\<lambda>rows.
     rbind (parse_eia_rows st [] (rev rows)) (\<lambda>(units, ds, xs).
     Inr \<lparr>es_series_id = VStr series_id, es_description = VStr (text_of st desc), es_units = VStr units,
          es_dates = ds, es_values = xs\<rparr>)))))"

definition decode_eia :: "pyval \<Rightarrow> py_exc + eia_series" where
  "decode_eia data =
     rbind (py_item data ''series_id'') (\<lambda>i.
     rbind (py_get data ''description'' (VStr [])) (\<lambda>desc.
     rbind (py_get data ''units'' (VStr [])) (\<lambda>u.
     rbind (py_item data ''dates'') (\<lambda>d.
     rbind (iter_value d) (\<lambda>ds.
     rbind (py_item data ''values'') (\<lambda>v.
     rbind (floats_of v) (\<lambda>xs.
     Inr \<lparr>es_series_id = i, es_description = desc, es_units = u, es_dates = ds, es_values = xs\<rparr>)))))))"

definition encode_eia :: "eia_series \<Rightarrow> pyval" where
  "encode_eia s = VDict [(''series_id'', es_series_id s), (''description'', es_description s),
     (''units'', es_units s), (''dates'', VList (es_dates s)), (''values'', VList (map VFloat (es_values s)))]"

definition eia_url :: "((string \<times> string) list \<Rightarrow> string) \<Rightarrow> string \<Rightarrow> string \<Rightarrow> int \<Rightarrow> string" where
  "eia_url urlencode api_key series_id len =
     ''https://api.eia.gov/v2/seriesid/'' @ series_id @ ''?'' @
     urlencode [(''api_key'', api_key), (''length'', dec_int len)]"

definition eia_get_series ::
  "source_env \<Rightarrow> ((string \<times> string) list \<Rightarrow> string) \<Rightarrow> string \<Rightarrow> real \<Rightarrow> real \<Rightarrow> string \<Rightarrow> int \<Rightarrow>
     data_cache \<Rightarrow> (source_exc + eia_series) \<times> data_cache" where
  "eia_get_series env urlencode api_key t t2 series len c =
     (let series_id = upper (strip series)
      in if strip api_key = [] then (Inl NotArmed, c)
         else cached_fetch env t t2 (''eia:'' @ series_id @ '':'' @ dec_int len) ''eia''
                (eia_url urlencode (strip api_key) series_id len)
                decode_eia (parse_series_payload (se_str env) series_id) encode_eia c)"

definition eia_get_energy_price ::
  "source_env \<Rightarrow> ((string \<times> string) list \<Rightarrow> string) \<Rightarrow> string \<Rightarrow> real \<Rightarrow> real \<Rightarrow> string \<Rightarrow> int \<Rightarrow>
     data_cache \<Rightarrow> (source_exc + eia_series) \<times> data_cache" where
  "eia_get_energy_price env urlencode api_key t t2 key len c =
     (case map_of ENERGY_SERIES (lower (strip key)) of
        None \<Rightarrow> (Inl (UnknownEnergyKey key), c)
      | Some i \<Rightarrow> eia_get_series env urlencode api_key t t2 i len c)"

section \<open>Lemmas\<close>

lemma floats_of_map [simp]: "floats_of (VList (map VFloat xs)) = Inr xs"
  by (simp add: floats_of_def traverse_Inr_iff list_all2_map1 list_all2_refl)

lemma decode_encode_boc: "decode_boc (encode_boc s) = Inr s"
  by (simp add: decode_boc_def encode_boc_def dict_get_def)

lemma decode_encode_eia: "decode_eia (encode_eia s) = Inr s"
  by (simp add: decode_eia_def encode_eia_def dict_get_def)

lemma boc_key_not_blank: "\<not> blank (boc_key name recent)"
  by (simp add: boc_key_def blank_iff is_ws_def code_of_def)

lemma eia_key_not_blank: "\<not> blank (''eia:'' @ i)"
  by (simp add: blank_iff is_ws_def code_of_def)

text \<open>
  After a fetch that missed the cache, the same request before the expiry is a hit that decodes to the
  same series, whatever the network would answer now.
\<close>

lemma cached_fetch_again:
  assumes first: "cached_fetch env t t2 k source url decode parse encode c = (Inr s, c')"
    and miss: "fst (cache_get (se_sha env) (se_loads env) t k c) = Inr None"
    and k: "\<not> blank k" and inv: "\<And>x. decode (encode x) = Inr x"
    and json: "\<And>v raw. se_dumps env v = Some raw \<Longrightarrow> se_loads env raw = Some v"
    and soon: "t3 < t2 + TTL_SERIES"
  shows "cached_fetch (env\<lparr>se_http := http\<rparr>) t3 t4 k source url decode parse' encode c' = (Inr s, c')"
  using first [unfolded cached_fetch_def]
  by (auto simp: cached_fetch_def lift_source_def inv intro!: through_cache_again [OF _ miss k _ json soon])

text \<open>Without a key the EIA adapter answers before it looks at the cache or the network.\<close>

lemma eia_unarmed: "strip api_key = [] \<Longrightarrow> eia_get_series env ue api_key t t2 i n c = (Inl NotArmed, c)"
  by (simp add: eia_get_series_def)

section \<open>Properties\<close>

text \<open>A series fetched from the Bank of Canada or from EIA is served again from the cache, unchanged
  and without a request, to every equal call within the hour that follows, whether or not the network
  is still available; and without an API key the EIA adapter touches neither cache nor network.\<close>

lemma fetched_series_served_from_cache:
  assumes json: "\<And>v raw. se_dumps env v = Some raw \<Longrightarrow> se_loads env raw = Some v"
    and soon: "t3 < t2 + 3600"
  shows "(boc_get_series env t t2 name recent c = (Inr s, c') \<and>
      fst (cache_get (se_sha env) (se_loads env) t (boc_key (upper (strip name)) recent) c) = Inr None \<longrightarrow>
      boc_get_series (env\<lparr>se_http := http\<rparr>) t3 t4 name recent c' = (Inr s, c')) \<and>
    (eia_get_series env ue api_key t t2 i n c = (Inr e, c'') \<and>
      fst (cache_get (se_sha env) (se_loads env) t (''eia:'' @ upper (strip i) @ '':'' @ dec_int n) c) = Inr None \<longrightarrow>
      eia_get_series (env\<lparr>se_http := http\<rparr>) ue api_key t3 t4 i n c'' = (Inr e, c'')) \<and>
    (strip api_key = [] \<longrightarrow> eia_get_series env ue api_key t t2 i n c = (Inl NotArmed, c))"
proof (intro conjI impI)
  have soon': "t3 < t2 + TTL_SERIES" using soon by (simp add: TTL_SERIES_def)
  {
    assume a: "boc_get_series env t t2 name recent c = (Inr s, c') \<and>
      fst (cache_get (se_sha env) (se_loads env) t (boc_key (upper (strip name)) recent) c) = Inr None"
    then have "cached_fetch env t t2 (boc_key (upper (strip name)) recent) ''bank-of-canada''
        (boc_url (upper (strip name)) recent) decode_boc (parse_boc (se_str env) (upper (strip name)))
        encode_boc c = (Inr s, c')" by (simp add: boc_get_series_def Let_def)
    from cached_fetch_again [OF this conjunct2 [OF a] boc_key_not_blank decode_encode_boc json soon']
    show "boc_get_series (env\<lparr>se_http := http\<rparr>) t3 t4 name recent c' = (Inr s, c')"
      by (simp add: boc_get_series_def Let_def)
  next
    assume a: "eia_get_series env ue api_key t t2 i n c = (Inr e, c'') \<and>
      fst (cache_get (se_sha env) (se_loads env) t (''eia:'' @ upper (strip i) @ '':'' @ dec_int n) c) = Inr None"
    then have armed: "strip api_key \<noteq> []" by (auto simp: eia_get_series_def Let_def)
    with a have "cached_fetch env t t2 (''eia:'' @ upper (strip i) @ '':'' @ dec_int n) ''eia''
        (eia_url ue (strip api_key) (upper (strip i)) n) decode_eia
        (parse_series_payload (se_str env) (upper (strip i))) encode_eia c = (Inr e, c'')"
      by (simp add: eia_get_series_def Let_def)
    from cached_fetch_again [OF this conjunct2 [OF a] eia_key_not_blank decode_encode_eia json soon'] armed
    show "eia_get_series (env\<lparr>se_http := http\<rparr>) ue api_key t3 t4 i n c'' = (Inr e, c'')"
      by (simp add: eia_get_series_def Let_def)
  next
    assume "strip api_key = []"
    then show "eia_get_series env ue api_key t t2 i n c = (Inl NotArmed, c)" by (rule eia_unarmed)
  }
qed

definition sample_env :: source_env where
  "sample_env = \<lparr>se_sha = (\<lambda>s. s), se_loads = (\<lambda>s. if s = [] then None else Some (encode_boc
       \<lparr>bs_series_name = VStr ''V1'', bs_dates = [], bs_values = []\<rparr>)),
     se_dumps = (\<lambda>v. if v = encode_boc \<lparr>bs_series_name = VStr ''V1'', bs_dates = [], bs_values = []\<rparr>
       then Some ''x'' else None), se_http = (\<lambda>_. Some (VDict [])), se_str = (\<lambda>_. [])\<rparr>"

lemma fetched_series_served_from_cache_witness:
  "boc_get_series (sample_env\<lparr>se_http := \<lambda>_. None\<rparr>) 5 6 ''v1'' None
     (snd (boc_get_series sample_env 0 1 ''v1'' None new_cache)) =
   (Inr \<lparr>bs_series_name = VStr ''V1'', bs_dates = [], bs_values = []\<rparr>,
    snd (boc_get_series sample_env 0 1 ''v1'' None new_cache))"
proof -
  let ?s = "\<lparr>bs_series_name = VStr ''V1'', bs_dates = [], bs_values = []\<rparr>"
  have up: "upper (strip ''v1'') = ''V1''" by code_simp
  have miss: "fst (cache_get (se_sha sample_env) (se_loads sample_env) 0 (boc_key (upper (strip ''v1'')) None) new_cache) = Inr None"
    by (simp add: cache_get_def boc_key_not_blank new_cache_def select_row_def tbl_lookup_def)
  have first: "boc_get_series sample_env 0 1 ''v1'' None new_cache =
      (Inr ?s, snd (boc_get_series sample_env 0 1 ''v1'' None new_cache))"
    using boc_key_not_blank [of "''V1''" None]
    by (simp add: boc_get_series_def up cached_fetch_def cache_get_def new_cache_def
        select_row_def tbl_lookup_def sample_env_def parse_boc_def dict_get_def cache_put_def TTL_SERIES_def Let_def
        through_cache_def lift_source_def)
  have json: "se_loads sample_env raw = Some v" if "se_dumps sample_env v = Some raw" for v raw
    using that by (auto simp: sample_env_def split: if_splits)
  have soon: "(5::real) < 1 + 3600" by simp
  from fetched_series_served_from_cache [of sample_env, OF json soon] first miss show ?thesis by blast
qed

end
