(* ===== verification/Factor_Data.thy ===== *)
theory Factor_Data
  imports Cache Csv
begin

text \<open>
  \<^verbatim>\<open>analytics/pae/data/factors.py\<close>: factor returns from the French data library and macro series from
  FRED. Parameters: the download of a URL (\<open>fe_http\<close>), the content of a zip archive (\<open>fe_unzip\<close>, None for
  a broken one), UTF-8 decoding with replacement, \<open>urlencode\<close>, and the codec and checksum of the cache.
\<close>

section \<open>Data and errors\<close>

record factor_data =
  fd_name :: string
  fd_dates :: "string list"
  fd_returns :: "pyfloat list"
  fd_description :: string

record macro_series =
  ms_series_id :: string
  ms_name :: string
  ms_dates :: "string list"
  ms_values :: "pyfloat list"
  ms_units :: string

text \<open>
  \<open>FactorDataError\<close> with its message, the ValueError of an empty identifier, an error of the cache, and
  any other exception; \<open>Escaped\<close> is one of the download that is neither a URLError nor an OSError, such as
  http.client.IncompleteRead, and is not caught. \<open>CachedUntyped\<close> stands for a cached value that this adapter did not write.
\<close>

datatype factor_data_exc =
    TooLarge string
  | DownloadFailed string string
  | NetworkError string string
  | Unparseable string
  | EmptyResponse string
  | CsvMalformed
  | BadZip
  | NoCsvInZip
  | NoFactorColumns
  | NoDataRows
  | SeriesOwnedBy string string
  | SeriesNotAllowed string
  | NoValidData string
  | SeriesIdEmpty
  | FactorCache cache_exc
  | FactorPy py_exc
  | Escaped string
  | CachedUntyped

datatype download = Downloaded string | UrlFailed string | OsFailed string | OtherRaised string

record factor_env =
  fe_sha :: "string \<Rightarrow> string"
  fe_loads :: "string \<Rightarrow> pyval option"
  fe_dumps :: "pyval \<Rightarrow> string option"
  fe_http :: "string \<Rightarrow> download"
  fe_unzip :: "string \<Rightarrow> (string \<times> string) list option"
  fe_decode :: "string \<Rightarrow> string"
  fe_urlencode :: "(string \<times> string) list \<Rightarrow> string"
  fe_str :: "pyval \<Rightarrow> string"

section \<open>Downloads\<close>

text \<open>\<open>s.replace(p, r)\<close> for a non-empty \<open>p\<close>.\<close>

fun replace_sub :: "string \<Rightarrow> string \<Rightarrow> string \<Rightarrow> string" where
  "replace_sub p r [] = []"
| "replace_sub p r (c # cs) =
     (if p \<noteq> [] \<and> startswith (c # cs) p then r @ replace_sub p r (drop (length p - 1) cs)
      else c # replace_sub p r cs)"

text \<open>\<open>re.sub\<close> of the pattern \<open>(api_key=)[^&\s"']+\<close>, the key of a keyed request.\<close>

definition key_end :: "char \<Rightarrow> bool" where
  "key_end c = (c = CHR ''&'' \<or> is_ws c \<or> c = CHR 0x22 \<or> c = CHR 0x27)"

definition key_run :: "string \<Rightarrow> string" where
  "key_run s = takeWhile (\<lambda>c. \<not> key_end c) s"

function redact_keys :: "string \<Rightarrow> string" where
  "redact_keys [] = []"
| "redact_keys (c # cs) =
     (let rest = drop 8 (c # cs)
      in if startswith (c # cs) ''api_key='' \<and> key_run rest \<noteq> []
         then ''api_key=<redacted>'' @ redact_keys (drop (length (key_run rest)) rest)
         else c # redact_keys cs)"
  by pat_completeness auto
termination by (relation "measure length") (auto simp: Let_def)

definition redact_url_and_key :: "string \<Rightarrow> string \<Rightarrow> string" where
  "redact_url_and_key text url =
     redact_keys (if url \<noteq> [] then replace_sub url ''<url>'' text else text)"

definition MAX_DOWNLOAD_BYTES :: nat where "MAX_DOWNLOAD_BYTES = 10 * 1024 * 1024"

definition safe_download :: "factor_env \<Rightarrow> string \<Rightarrow> string \<Rightarrow> factor_data_exc + string" where
  "safe_download env url desc =
     (case fe_http env url of
        Downloaded content \<Rightarrow> if length content > MAX_DOWNLOAD_BYTES then Inl (TooLarge desc) else Inr content
      | UrlFailed e \<Rightarrow> Inl (DownloadFailed desc (redact_url_and_key e url))
      | OsFailed e \<Rightarrow> Inl (NetworkError desc (redact_url_and_key e url))
      | OtherRaised e \<Rightarrow> Inl (Escaped e))"

definition lift_factor :: "py_exc + 'a \<Rightarrow> factor_data_exc + 'a" where
  "lift_factor r = (case r of Inl e \<Rightarrow> Inl (FactorPy e) | Inr a \<Rightarrow> Inr a)"

section \<open>French data library\<close>

definition FRENCH_BASE_URL :: string where
  "FRENCH_BASE_URL = ''https://mba.tuck.dartmouth.edu/pages/faculty/ken.french/ftp''"

definition FRENCH_FF3_FILE :: string where "FRENCH_FF3_FILE = ''F-F_Research_Data_Factors_CSV.zip''"
definition FRENCH_FF5_FILE :: string where "FRENCH_FF5_FILE = ''F-F_Research_Data_5_Factors_2x3_CSV.zip''"

definition factor_descriptions :: "(string \<times> string) list" where
  "factor_descriptions =
    [(''Mkt-RF'', ''Market excess return (market minus risk-free)''),
     (''SMB'', ''Small minus big (size factor)''),
     (''HML'', ''High minus low (value factor)''),
     (''RMW'', ''Robust minus weak (profitability factor)''),
     (''CMA'', ''Conservative minus aggressive (investment factor)''),
     (''RF'', ''Risk-free rate (1-month T-bill)'')]"

definition empty_factor :: "string \<Rightarrow> factor_data" where
  "empty_factor col =
     \<lparr>fd_name = col, fd_dates = [], fd_returns = [],
      fd_description = (case map_of factor_descriptions col of Some t \<Rightarrow> t | None \<Rightarrow> col)\<rparr>"

definition cells_of :: "string \<Rightarrow> string list" where
  "cells_of line = map strip (split_on CHR '','' (strip line))"

definition column_indices :: "string list \<Rightarrow> string list \<Rightarrow> (string \<times> nat) list" where
  "column_indices cols parts =
     foldl (\<lambda>d (j, p). if p \<in> set cols then dict_set d p j else d) [] (enumerate 0 parts)"

text \<open>The first line with one of the columns, and the lines after it.\<close>

fun find_header :: "string list \<Rightarrow> string list \<Rightarrow> ((string \<times> nat) list \<times> string list) option" where
  "find_header cols [] = None"
| "find_header cols (line # rest) =
     (if strip line = [] then find_header cols rest
      else if list_ex (\<lambda>c. c \<in> set (cells_of line)) cols then Some (column_indices cols (cells_of line), rest)
      else find_header cols rest)"

type_synonym factors = "(string \<times> factor_data) list"

definition add_observation :: "string \<Rightarrow> pyfloat \<Rightarrow> factor_data \<Rightarrow> factor_data" where
  "add_observation date v f = f\<lparr>fd_dates := fd_dates f @ [date], fd_returns := fd_returns f @ [v]\<rparr>"

text \<open>\<open>round(float(cell) / 100.0, 8)\<close>; the divisor is not zero.\<close>

definition percent_of :: "pyfloat \<Rightarrow> pyfloat" where
  "percent_of x = fl_round (case fl_div x (Fin 100) of Inr q \<Rightarrow> q | Inl _ \<Rightarrow> NaN) 8"

definition add_cell :: "string \<Rightarrow> string list \<Rightarrow> factors \<Rightarrow> string \<times> nat \<Rightarrow> factors" where
  "add_cell date parts fs ci =
     (if snd ci < length parts
      then (case float_of_text (parts ! snd ci) of
              None \<Rightarrow> fs
            | Some x \<Rightarrow> map (\<lambda>(k, f). (k, if k = fst ci then add_observation date (percent_of x) f else f)) fs)
      else fs)"

definition monthly_date :: "string \<Rightarrow> bool" where
  "monthly_date s = (length s = 6 \<and> isdigit s)"

fun read_rows :: "(string \<times> nat) list \<Rightarrow> string list \<Rightarrow> factors \<Rightarrow> factors" where
  "read_rows cols [] fs = fs"
| "read_rows cols (line # rest) fs =
     (let parts = cells_of line; date = hd parts
      in if strip line = [] \<or> length parts < 2 then read_rows cols rest fs
         else if \<not> monthly_date date then fs
         else read_rows cols rest (foldl (add_cell (take 4 date @ ''-'' @ drop 4 date) parts) fs cols))"

definition csv_member :: "(string \<times> string) list \<Rightarrow> string option" where
  "csv_member files = map_option snd (find (\<lambda>(n, _). endswith n ''.CSV'' \<or> endswith n ''.csv'') files)"

definition parse_french_text :: "string list \<Rightarrow> string \<Rightarrow> factor_data_exc + factors" where
  "parse_french_text cols content =
     (case find_header cols (split_on newline (strip content)) of
        None \<Rightarrow> Inl NoFactorColumns
      | Some (idx, rest) \<Rightarrow>
          let fs = read_rows idx rest (map (\<lambda>c. (c, empty_factor c)) cols)
          in if list_all (\<lambda>(_, f). fd_returns f = []) fs then Inl NoDataRows else Inr fs)"

definition parse_french_csv :: "factor_env \<Rightarrow> string list \<Rightarrow> string \<Rightarrow> factor_data_exc + factors" where
  "parse_french_csv env cols raw =
     (case fe_unzip env raw of
        None \<Rightarrow> Inl BadZip
      | Some files \<Rightarrow>
          (case csv_member files of
             None \<Rightarrow> Inl NoCsvInZip
           | Some content \<Rightarrow> parse_french_text cols (fe_decode env content)))"

text \<open>The cached form of the factors, and back.\<close>

definition encode_factor :: "factor_data \<Rightarrow> pyval" where
  "encode_factor f = VDict [(''name'', VStr (fd_name f)), (''dates'', VList (map VStr (fd_dates f))),
     (''returns'', VList (map VFloat (fd_returns f))), (''description'', VStr (fd_description f))]"

definition encode_factors :: "factors \<Rightarrow> pyval" where
  "encode_factors fs = VDict (map (\<lambda>(k, f). (k, encode_factor f)) fs)"

definition decode_factor :: "pyval \<Rightarrow> factor_data_exc + factor_data" where
  "decode_factor v =
     (case v of
        VDict [(''name'', VStr n), (''dates'', VList ds), (''returns'', VList rs), (''description'', VStr t)] \<Rightarrow>
          (case (strings_of ds, floats_in rs) of
             (Some ds', Some rs') \<Rightarrow> Inr \<lparr>fd_name = n, fd_dates = ds', fd_returns = rs', fd_description = t\<rparr>
           | _ \<Rightarrow> Inl CachedUntyped)
      | _ \<Rightarrow> Inl CachedUntyped)"

fun decode_factors :: "pyval \<Rightarrow> factor_data_exc + factors" where
  "decode_factors (VDict d) = traverse (\<lambda>(k, v). rbind (decode_factor v) (\<lambda>f. Inr (k, f))) d"
| "decode_factors _ = Inl CachedUntyped"

definition TTL_FACTORS :: real where "TTL_FACTORS = 86400"

definition get_french ::
  "factor_env \<Rightarrow> string \<Rightarrow> string \<Rightarrow> string \<Rightarrow> string list \<Rightarrow> real \<Rightarrow> real \<Rightarrow> data_cache \<Rightarrow>
     (factor_data_exc + factors) \<times> data_cache" where
  "get_french env k file desc cols t t2 c =
     through_cache (fe_sha env) (fe_loads env) (fe_dumps env) FactorCache TTL_FACTORS ''french'' k t t2
       decode_factors
       (rbind (safe_download env (FRENCH_BASE_URL @ ''/'' @ file) desc) (parse_french_csv env cols))
       encode_factors c"

definition get_ff3_factors where
  "get_ff3_factors env t t2 c = get_french env ''french:ff3:monthly'' FRENCH_FF3_FILE
     ''Fama-French 3-factor data'' [''Mkt-RF'', ''SMB'', ''HML'', ''RF''] t t2 c"

definition get_ff5_factors where
  "get_ff5_factors env t t2 c = get_french env ''french:ff5:monthly'' FRENCH_FF5_FILE
     ''Fama-French 5-factor data'' [''Mkt-RF'', ''SMB'', ''HML'', ''RMW'', ''CMA'', ''RF''] t t2 c"

section \<open>FRED\<close>

definition FRED_BASE_URL :: string where "FRED_BASE_URL = ''https://fred.stlouisfed.org/graph/fredgraph.csv''"
definition FRED_API_BASE :: string where "FRED_API_BASE = ''https://api.stlouisfed.org/fred/series/observations''"

definition FRED_SERIES_OWNERS :: "(string \<times> string) list" where
  "FRED_SERIES_OWNERS =
    [(''DGS3MO'', ''Board of Governors, H.15''), (''DGS2'', ''Board of Governors, H.15''),
     (''DGS10'', ''Board of Governors, H.15''), (''DGS30'', ''Board of Governors, H.15''),
     (''FEDFUNDS'', ''Board of Governors, H.15''), (''DFEDTARU'', ''Board of Governors (FOMC target range)''),
     (''DFEDTARL'', ''Board of Governors (FOMC target range)''),
     (''T10YIE'', ''Federal Reserve Bank of St. Louis (calculated)''),
     (''DTWEXBGS'', ''Board of Governors, H.10''), (''DEXUSAL'', ''Board of Governors, H.10''),
     (''DEXCAUS'', ''Board of Governors, H.10''), (''DEXUSEU'', ''Board of Governors, H.10''),
     (''DEXJPUS'', ''Board of Governors, H.10''), (''DEXUSUK'', ''Board of Governors, H.10''),
     (''WALCL'', ''Board of Governors, H.4.1'')]"

definition FRED_EXCLUDED_SERIES :: "(string \<times> string) list" where
  "FRED_EXCLUDED_SERIES =
    [(''CPIAUCSL'', ''U.S. Bureau of Labor Statistics''), (''UNRATE'', ''U.S. Bureau of Labor Statistics''),
     (''A191RL1Q225SBEA'', ''U.S. Bureau of Economic Analysis''), (''SP500'', ''S&P Dow Jones Indices''),
     (''VIXCLS'', ''Cboe''), (''BAAFFM'', ''ICE / BofA index data'')]"

definition FRED_SERIES :: "(string \<times> string) list" where
  "FRED_SERIES =
    [(''risk_free_rate'', ''DGS3MO''), (''fed_funds_rate'', ''FEDFUNDS''), (''yield_10y'', ''DGS10''),
     (''yield_2y'', ''DGS2''), (''breakeven_inflation_10y'', ''T10YIE''), (''usd_index'', ''DTWEXBGS'')]"

text \<open>The observations of the keyed API.\<close>

fun read_observations :: "(pyval \<Rightarrow> string) \<Rightarrow> pyval list \<Rightarrow> py_exc + (string list \<times> pyfloat list)" where
  "read_observations st [] = Inr ([], [])"
| "read_observations st (obs # rest) =
     rbind (py_get obs ''value'' (VStr [])) (\<lambda>v.
       let val = strip (case v of VStr s \<Rightarrow> s | _ \<Rightarrow> st v)
       in if val = [] \<or> val = ''.'' then read_observations st rest
          else case float_of_text val of
              None \<Rightarrow> read_observations st rest
            | Some x \<Rightarrow>
                rbind (py_get obs ''date'' (VStr [])) (\<lambda>d.
                rbind (read_observations st rest) (\<lambda>(ds, xs).
                  Inr ((case d of VStr s \<Rightarrow> s | _ \<Rightarrow> st d) # ds, x # xs))))"

definition fred_api_url :: "factor_env \<Rightarrow> string \<Rightarrow> string \<Rightarrow> string \<Rightarrow> string" where
  "fred_api_url env series start key =
     FRED_API_BASE @ ''?'' @ fe_urlencode env
       [(''series_id'', series), (''api_key'', key), (''file_type'', ''json''), (''observation_start'', start)]"

definition fetch_fred_api ::
  "factor_env \<Rightarrow> string \<Rightarrow> string \<Rightarrow> string \<Rightarrow> factor_data_exc + (string list \<times> pyfloat list)" where
  "fetch_fred_api env series start key =
     rbind (safe_download env (fred_api_url env series start key) (''FRED API series '' @ series)) (\<lambda>raw.
       case fe_loads env (fe_decode env raw) of
         None \<Rightarrow> Inl (Unparseable series)
       | Some payload \<Rightarrow>
           lift_factor (rbind (py_get payload ''observations'' (VList [])) (\<lambda>v.
             rbind (iter_value v) (read_observations (fe_str env)))))"

text \<open>The rows of the keyless CSV.\<close>

fun read_fred_rows :: "string list list \<Rightarrow> string list \<times> pyfloat list" where
  "read_fred_rows [] = ([], [])"
| "read_fred_rows (row # rest) =
     (let (ds, xs) = read_fred_rows rest
      in case row of
           d # v # _ \<Rightarrow>
             if strip v = ''.'' \<or> strip v = [] then (ds, xs)
             else (case float_of_text (strip v) of None \<Rightarrow> (ds, xs) | Some x \<Rightarrow> (strip d # ds, x # xs))
         | _ \<Rightarrow> (ds, xs))"

definition fred_csv_url :: "string \<Rightarrow> string \<Rightarrow> string" where
  "fred_csv_url series start =
     FRED_BASE_URL @ ''?id='' @ series @ ''&cosd='' @ start @
     ''&coed=9999-12-31&fq=Daily&fam=avg&vintage_date=&nd=&revision_date=''"

definition fetch_fred_csv :: "factor_env \<Rightarrow> string \<Rightarrow> string \<Rightarrow> factor_data_exc + (string list \<times> pyfloat list)" where
  "fetch_fred_csv env series start =
     rbind (safe_download env (fred_csv_url series start) (''FRED series '' @ series)) (\<lambda>raw.
       case csv_rows (fe_decode env raw) of
         None \<Rightarrow> Inl CsvMalformed
       | Some [] \<Rightarrow> Inl (EmptyResponse series)
       | Some (_ # rows) \<Rightarrow> Inr (read_fred_rows rows))"

definition fred_names :: "(string \<times> string) list" where
  "fred_names =
    [(''DGS3MO'', ''3-Month Treasury Rate''), (''DGS2'', ''2-Year Treasury Rate''),
     (''DGS10'', ''10-Year Treasury Rate''), (''DGS30'', ''30-Year Treasury Rate''),
     (''FEDFUNDS'', ''Federal Funds Rate''), (''DFEDTARU'', ''Fed Funds Target Range (upper)''),
     (''DFEDTARL'', ''Fed Funds Target Range (lower)''), (''T10YIE'', ''10-Year Breakeven Inflation Rate''),
     (''DTWEXBGS'', ''Broad Trade-Weighted USD Index''), (''WALCL'', ''Federal Reserve Total Assets'')]"

definition macro_of :: "string \<Rightarrow> string list \<times> pyfloat list \<Rightarrow> macro_series" where
  "macro_of series obs =
     \<lparr>ms_series_id = series, ms_name = (case map_of fred_names series of Some n \<Rightarrow> n | None \<Rightarrow> series),
      ms_dates = fst obs, ms_values = snd obs,
      ms_units = (if startswith series ''DTWEX'' \<or> startswith series ''DEX'' then ''Index''
                  else if series = ''WALCL'' then ''Millions of dollars'' else ''Percent'')\<rparr>"

definition fetch_macro :: "factor_env \<Rightarrow> string option \<Rightarrow> string \<Rightarrow> string \<Rightarrow> factor_data_exc + macro_series" where
  "fetch_macro env env_key series start =
     rbind (case map_option strip env_key of
              Some (c # cs) \<Rightarrow> fetch_fred_api env series start (c # cs)
            | _ \<Rightarrow> fetch_fred_csv env series start) (\<lambda>obs.
       if snd obs = [] then Inl (NoValidData series) else Inr (macro_of series obs))"

definition encode_macro :: "macro_series \<Rightarrow> pyval" where
  "encode_macro m = VDict [(''series_id'', VStr (ms_series_id m)), (''name'', VStr (ms_name m)),
     (''dates'', VList (map VStr (ms_dates m))), (''values'', VList (map VFloat (ms_values m))),
     (''units'', VStr (ms_units m))]"

definition decode_macro :: "pyval \<Rightarrow> factor_data_exc + macro_series" where
  "decode_macro v =
     (case v of
        VDict [(''series_id'', VStr i), (''name'', VStr n), (''dates'', VList ds), (''values'', VList xs),
               (''units'', VStr u)] \<Rightarrow>
          (case (strings_of ds, floats_in xs) of
             (Some ds', Some xs') \<Rightarrow>
               Inr \<lparr>ms_series_id = i, ms_name = n, ms_dates = ds', ms_values = xs', ms_units = u\<rparr>
           | _ \<Rightarrow> Inl CachedUntyped)
      | _ \<Rightarrow> Inl CachedUntyped)"

definition TTL_MACRO :: real where "TTL_MACRO = 86400"

definition fred_key :: "string \<Rightarrow> string \<Rightarrow> string" where
  "fred_key series start = ''fred:'' @ series @ '':'' @ start"

definition get_fred_series ::
  "factor_env \<Rightarrow> string option \<Rightarrow> real \<Rightarrow> real \<Rightarrow> string \<Rightarrow> string \<Rightarrow> data_cache \<Rightarrow>
     (factor_data_exc + macro_series) \<times> data_cache" where
  "get_fred_series env env_key t t2 series_id start c =
     (if blank series_id then (Inl SeriesIdEmpty, c)
      else let series = upper (strip series_id)
           in case map_of FRED_SERIES_OWNERS series of
                None \<Rightarrow> (Inl (case map_of FRED_EXCLUDED_SERIES series of
                               Some owner \<Rightarrow> SeriesOwnedBy series owner
                             | None \<Rightarrow> SeriesNotAllowed series), c)
              | Some _ \<Rightarrow>
                  through_cache (fe_sha env) (fe_loads env) (fe_dumps env) FactorCache TTL_MACRO ''fred''
                    (fred_key series start) t t2 decode_macro (fetch_macro env env_key series start) encode_macro c)"

definition get_fred_risk_free ::
  "factor_env \<Rightarrow> string option \<Rightarrow> real \<Rightarrow> real \<Rightarrow> data_cache \<Rightarrow> (factor_data_exc + pyfloat) \<times> data_cache" where
  "get_fred_risk_free env env_key t t2 c =
     (case get_fred_series env env_key t t2 ''DGS3MO'' ''2000-01-01'' c of
        (Inl e, c') \<Rightarrow> (Inl e, c')
      | (Inr m, c') \<Rightarrow>
          (if ms_values m = [] then Inl (NoValidData ''DGS3MO'')
           else lift_factor (fl_div (last (ms_values m)) (Fin 100)), c'))"

end
