(* ===== verification/Factor_Data_Correct.thy ===== *)
theory Factor_Data_Correct
  imports Factor_Data
begin

text \<open>
  The correctness of \<^verbatim>\<open>analytics/pae/data/factors.py\<close>: no error text shows an API key, the loop over a
  French file builds the columns of its monthly rows, and only allowlisted series are served.
\<close>

section \<open>Redaction\<close>

text \<open>After \<open>api_key=\<close> a text shows nothing, or the mask and then the end of the value.\<close>

definition masked :: "string \<Rightarrow> bool" where
  "masked b = (key_run b = [] \<or> key_run b = ''<redacted>'')"

definition no_key_shown :: "string \<Rightarrow> bool" where
  "no_key_shown s = (\<forall>a b. s = a @ ''api_key='' @ b \<longrightarrow> masked b)"

lemma key_run_Nil: "key_run s = [] \<longleftrightarrow> s = [] \<or> key_end (hd s)"
  by (cases s) (auto simp: key_run_def)

lemma redact_hd: "redact_keys s = x # r \<Longrightarrow> x \<noteq> CHR ''a'' \<Longrightarrow> \<exists>s'. s = x # s' \<and> r = redact_keys s'"
  by (cases s) (auto simp: Let_def split: if_splits)

lemma redact_prefix:
  "redact_keys s = p @ r \<Longrightarrow> CHR ''a'' \<notin> set p \<Longrightarrow> \<exists>s'. s = p @ s' \<and> r = redact_keys s'"
proof (induction p arbitrary: s)
  case (Cons x p)
  then obtain s' where "s = x # s'" "p @ r = redact_keys s'" using redact_hd [of s x "p @ r"] by auto
  with Cons show ?case by auto
qed simp

lemma redact_end:
  assumes "key_run s = []"
  shows "key_run (redact_keys s) = []"
proof (cases s)
  case (Cons c cs)
  with assms have e: "key_end c" by (simp add: key_run_Nil)
  then have "c \<noteq> CHR ''a''" by (auto simp: key_end_def is_ws_def code_of_def)
  then have "\<not> startswith (c # cs) ''api_key=''" by (simp add: startswith_def)
  with e Cons show ?thesis by (simp add: key_run_def)
qed (simp add: key_run_def)

lemma key_run_mask:
  assumes "key_run r = []"
  shows "key_run (''<redacted>'' @ r) = ''<redacted>''"
  using assms by (simp add: key_run_def key_end_def is_ws_def code_of_def)

lemma key_run_drop: "key_run (drop (length (key_run s)) s) = []"
  unfolding key_run_def by (induction s) auto

lemma mask_occurrence:
  assumes "''api_key=<redacted>'' @ r = a @ ''api_key='' @ b"
  shows "(a = [] \<and> b = ''<redacted>'' @ r) \<or> (\<exists>a'. a = ''api_key=<redacted>'' @ a' \<and> r = a' @ ''api_key='' @ b)"
  using assms by (auto simp: Cons_eq_append_conv append_eq_Cons_conv)

lemma redact_keys_masks: "no_key_shown (redact_keys s)"
proof (induction s rule: redact_keys.induct)
  case 1
  show ?case by (simp add: no_key_shown_def)
next
  case (2 c cs)
  let ?rest = "drop 8 (c # cs)"
  let ?tail = "drop (length (key_run ?rest)) ?rest"
  show ?case
  proof (cases "startswith (c # cs) ''api_key='' \<and> key_run ?rest \<noteq> []")
    case True
    then have eq: "redact_keys (c # cs) = ''api_key=<redacted>'' @ redact_keys ?tail" by (simp add: Let_def)
    have IH: "no_key_shown (redact_keys ?tail)" using 2(1) True by simp
    have "key_run (redact_keys ?tail) = []" by (intro redact_end key_run_drop)
    with IH show ?thesis unfolding eq no_key_shown_def
      by (auto dest!: mask_occurrence simp: masked_def key_run_mask simp del: append.simps)
  next
    case False
    then have eq: "redact_keys (c # cs) = c # redact_keys cs" by (auto simp: Let_def)
    have IH: "no_key_shown (redact_keys cs)" using 2(2) False by (auto simp: Let_def)
    have "masked b" if occ: "c # redact_keys cs = a @ ''api_key='' @ b" for a b
    proof (cases a)
      case Nil
      with occ have "c = CHR ''a''" and "redact_keys cs = ''pi_key='' @ b" by auto
      then obtain s' where s': "cs = ''pi_key='' @ s'" "b = redact_keys s'"
        using redact_prefix [of cs "''pi_key=''" b] by auto
      with \<open>c = CHR ''a''\<close> False have "key_run s' = []" by (simp add: startswith_def)
      with s' show ?thesis by (simp add: masked_def redact_end)
    next
      case (Cons x a')
      with occ have "redact_keys cs = a' @ ''api_key='' @ b" by simp
      with IH show ?thesis by (simp add: no_key_shown_def)
    qed
    then show ?thesis unfolding eq no_key_shown_def by blast
  qed
qed

text \<open>The text that the module's error of a failed download carries.\<close>

fun error_text :: "factor_data_exc \<Rightarrow> string option" where
  "error_text (DownloadFailed desc e) = Some e"
| "error_text (NetworkError desc e) = Some e"
| "error_text _ = None"

lemma safe_download_masks:
  assumes "safe_download env url desc = Inl e" and "error_text e = Some txt"
  shows "no_key_shown txt"
  using assms by (auto simp: safe_download_def redact_url_and_key_def redact_keys_masks split: download.splits if_splits)

lemma fetch_csv_error:
  assumes "fetch_fred_csv env series start = Inl e" and "error_text e = Some txt"
  shows "\<exists>url desc. safe_download env url desc = Inl e"
proof (cases "safe_download env (fred_csv_url series start) (''FRED series '' @ series)")
  case (Inr raw)
  with assms show ?thesis by (auto simp: fetch_fred_csv_def split: option.splits list.splits)
qed (use assms in \<open>auto simp: fetch_fred_csv_def\<close>)

lemma fetch_api_error:
  assumes "fetch_fred_api env series start k = Inl e" and "error_text e = Some txt"
  shows "\<exists>url desc. safe_download env url desc = Inl e"
proof (cases "safe_download env (fred_api_url env series start k) (''FRED API series '' @ series)")
  case (Inr raw)
  with assms show ?thesis by (auto simp: fetch_fred_api_def lift_factor_def split: option.splits sum.splits)
qed (use assms in \<open>auto simp: fetch_fred_api_def\<close>)

lemma fetch_macro_source:
  obtains src where "fetch_macro env env_key series start =
      rbind src (\<lambda>obs. if snd obs = [] then Inl (NoValidData series) else Inr (macro_of series obs))"
    and "src = fetch_fred_csv env series start \<or> (\<exists>k. src = fetch_fred_api env series start k)"
proof (cases "map_option strip env_key = None \<or> map_option strip env_key = Some []")
  case True
  then show ?thesis by (intro that [of "fetch_fred_csv env series start"]) (auto simp: fetch_macro_def)
next
  case False
  then obtain c cs where "map_option strip env_key = Some (c # cs)"
    by (cases "map_option strip env_key") (auto simp: neq_Nil_conv)
  then show ?thesis by (intro that [of "fetch_fred_api env series start (c # cs)"]) (auto simp: fetch_macro_def)
qed

lemma fetch_macro_error:
  assumes "fetch_macro env env_key series start = Inl e" and "error_text e = Some txt"
  shows "\<exists>url desc. safe_download env url desc = Inl e"
proof -
  obtain src where eq: "fetch_macro env env_key series start =
      rbind src (\<lambda>obs. if snd obs = [] then Inl (NoValidData series) else Inr (macro_of series obs))"
    and src: "src = fetch_fred_csv env series start \<or> (\<exists>k. src = fetch_fred_api env series start k)"
    by (rule fetch_macro_source)
  with assms have "src = Inl e" by (cases src) (auto split: if_splits)
  with src assms(2) show ?thesis using fetch_csv_error fetch_api_error by metis
qed

section \<open>FRED series\<close>

lemma decode_encode_macro: "decode_macro (encode_macro m) = Inr m"
  by (simp add: decode_macro_def encode_macro_def)

lemma decode_encode_factor: "decode_factor (encode_factor f) = Inr f"
  by (simp add: decode_factor_def encode_factor_def)

lemma decode_encode_factors: "decode_factors (encode_factors fs) = Inr fs"
  unfolding encode_factors_def by (induction fs) (auto simp: decode_encode_factor)

lemma fred_key_not_blank: "\<not> blank (fred_key series start)"
  by (simp add: fred_key_def blank_iff is_ws_def code_of_def)

lemma french_key_not_blank: "\<not> blank ''french:ff3:monthly''" "\<not> blank ''french:ff5:monthly''"
  by (simp_all add: blank_iff is_ws_def code_of_def)

lemma read_observations_length:
  "read_observations st obs = Inr (ds, xs) \<Longrightarrow> length ds = length xs"
  by (induction obs arbitrary: ds xs) (auto simp: Let_def split: if_splits option.splits)

lemma read_fred_rows_length: "length (fst (read_fred_rows rows)) = length (snd (read_fred_rows rows))"
  by (induction rows) (auto simp: split_beta Let_def split: list.splits option.splits)

lemma fetch_csv_length: "fetch_fred_csv env series start = Inr obs \<Longrightarrow> length (fst obs) = length (snd obs)"
  by (cases "safe_download env (fred_csv_url series start) (''FRED series '' @ series)")
    (auto simp: fetch_fred_csv_def read_fred_rows_length split: option.splits list.splits)

lemma fetch_api_length: "fetch_fred_api env series start k = Inr obs \<Longrightarrow> length (fst obs) = length (snd obs)"
  by (cases "safe_download env (fred_api_url env series start k) (''FRED API series '' @ series)"; cases obs)
    (auto simp: fetch_fred_api_def lift_factor_def read_observations_length split: option.splits sum.splits)

lemma fetch_macro_ok:
  assumes "fetch_macro env env_key series start = Inr m"
  shows "ms_series_id m = series \<and> ms_values m \<noteq> [] \<and> length (ms_dates m) = length (ms_values m)"
proof -
  obtain src where eq: "fetch_macro env env_key series start =
      rbind src (\<lambda>obs. if snd obs = [] then Inl (NoValidData series) else Inr (macro_of series obs))"
    and src: "src = fetch_fred_csv env series start \<or> (\<exists>k. src = fetch_fred_api env series start k)"
    by (rule fetch_macro_source)
  with assms obtain obs where obs: "src = Inr obs" and m: "m = macro_of series obs" and ne: "snd obs \<noteq> []"
    by (cases src) (auto split: if_splits)
  have "length (fst obs) = length (snd obs)"
    using src obs fetch_csv_length fetch_api_length by metis
  with m ne show ?thesis by (simp add: macro_of_def)
qed

text \<open>C26: the contract of a FRED series. A blank or not allowlisted identifier is refused before the
  cache or the network is touched. No FactorDataError of a failed download shows an API key: after each
  \<open>api_key=\<close> of its text there is the mask or nothing (an exception that the download does not catch is
  no such error). A series fetched on a miss is the requested one,
  not empty and with one date for each value, and for a day the same request is answered from the
  cache with that series, whatever the network and the configured key.\<close>

theorem fred_series_contract:
  assumes json: "\<And>v raw. fe_dumps env v = Some raw \<Longrightarrow> fe_loads env raw = Some v"
    and got: "get_fred_series env env_key t t2 series_id start c = (r, c')"
  shows "(upper (strip series_id) \<notin> fst ` set FRED_SERIES_OWNERS \<longrightarrow>
      c' = c \<and> (\<forall>m. r \<noteq> Inr m) \<and> (\<forall>http key. get_fred_series (env\<lparr>fe_http := http\<rparr>) key t t2 series_id start c = (r, c))) \<and>
    (\<forall>e txt. r = Inl e \<and> error_text e = Some txt \<and>
       fst (cache_get (fe_sha env) (fe_loads env) t (fred_key (upper (strip series_id)) start) c) = Inr None \<longrightarrow> no_key_shown txt) \<and>
    (\<forall>m. r = Inr m \<and>
       fst (cache_get (fe_sha env) (fe_loads env) t (fred_key (upper (strip series_id)) start) c) = Inr None \<longrightarrow>
         ms_series_id m = upper (strip series_id) \<and> ms_values m \<noteq> [] \<and> length (ms_dates m) = length (ms_values m) \<and>
         (\<forall>t3 t4 http key. t3 < t2 + 86400 \<longrightarrow>
            get_fred_series (env\<lparr>fe_http := http\<rparr>) key t3 t4 series_id start c' = (Inr m, c')))"
proof -
  let ?series = "upper (strip series_id)"
  let ?read = "\<lambda>env key t t2. through_cache (fe_sha env) (fe_loads env) (fe_dumps env) FactorCache TTL_MACRO ''fred''
      (fred_key ?series start) t t2 decode_macro (fetch_macro env key ?series start) encode_macro"
  show ?thesis
  proof (cases "\<not> blank series_id \<and> ?series \<in> fst ` set FRED_SERIES_OWNERS")
    case False
    then have refused: "\<exists>e. (\<forall>env key t t2 c. get_fred_series env key t t2 series_id start c = (Inl e, c)) \<and> error_text e = None"
      by (cases "blank series_id") (auto simp: get_fred_series_def Let_def map_of_eq_None_iff [symmetric] split: option.splits)
    with got show ?thesis by auto
  next
    case True
    then obtain owner where "map_of FRED_SERIES_OWNERS ?series = Some owner"
      by (metis map_of_eq_None_iff not_Some_eq)
    with True have read: "get_fred_series env' key u u2 series_id start c0 = ?read env' key u u2 c0" for env' key u u2 c0
      by (simp add: get_fred_series_def Let_def)
    let ?miss = "fst (cache_get (fe_sha env) (fe_loads env) t (fred_key ?series start) c) = Inr None"
    have err: "no_key_shown shown" if "r = Inl e" "error_text e = Some shown" ?miss for e shown
    proof -
      from got [unfolded read] that have "fetch_macro env env_key ?series start = Inl e"
        by (auto simp: through_cache_def split: sum.splits prod.splits)
      from fetch_macro_error [OF this that(2)] show ?thesis using safe_download_masks that(2) by blast
    qed
    have ok: "fetch_macro env env_key ?series start = Inr m" if "r = Inr m" ?miss for m
      using got [unfolded read] that by (auto simp: through_cache_def split: sum.splits prod.splits)
    have again: "get_fred_series (env\<lparr>fe_http := http\<rparr>) key t3 t4 series_id start c' = (Inr m, c')"
      if "r = Inr m" ?miss "t3 < t2 + 86400" for m t3 t4 http key
      unfolding read using got [unfolded read] that
      by (auto simp: decode_encode_macro fred_key_not_blank TTL_MACRO_def
          intro!: through_cache_again [where fetched = "fetch_macro env env_key ?series start"] json)
    from True err fetch_macro_ok [OF ok] again show ?thesis by auto
  qed
qed

definition sample_factor_env :: factor_env where
  "sample_factor_env =
     \<lparr>fe_sha = (\<lambda>s. s), fe_loads = (\<lambda>_. None), fe_dumps = (\<lambda>_. None), fe_http = (\<lambda>u. UrlFailed u),
      fe_unzip = (\<lambda>_. None), fe_decode = (\<lambda>s. s), fe_urlencode = (\<lambda>_. ''api_key=s3cret''), fe_str = (\<lambda>_. [])\<rparr>"

lemma fred_series_contract_witness:
  "snd (get_fred_series sample_factor_env (Some ''s3cret'') 0 0 ''sp500'' ''2000-01-01'' new_cache) = new_cache"
proof -
  obtain r c' where got: "get_fred_series sample_factor_env (Some ''s3cret'') 0 0 ''sp500'' ''2000-01-01'' new_cache = (r, c')"
    by force
  have "upper (strip ''sp500'') = ''SP500''" by code_simp
  then have "upper (strip ''sp500'') \<notin> fst ` set FRED_SERIES_OWNERS" by (simp add: FRED_SERIES_OWNERS_def)
  moreover have "fe_loads sample_factor_env raw = Some v" if "fe_dumps sample_factor_env v = Some raw" for v raw
    using that by (simp add: sample_factor_env_def)
  ultimately have "c' = new_cache" using fred_series_contract [OF _ got] by blast
  with got show ?thesis by simp
qed

section \<open>The columns of a French file\<close>

text \<open>
  What the file means: its monthly rows are the non-blank lines of at least two cells up to the first
  that has no six-digit date; the observations of a column are its numbers in those rows.
\<close>

definition data_rows :: "string list \<Rightarrow> string list list" where
  "data_rows lines =
     takeWhile (\<lambda>r. monthly_date (hd r))
       (filter (\<lambda>r. 2 \<le> length r) (map cells_of (filter (\<lambda>l. strip l \<noteq> []) lines)))"

definition row_date :: "string list \<Rightarrow> string" where
  "row_date r = take 4 (hd r) @ ''-'' @ drop 4 (hd r)"

definition cell_value :: "nat \<Rightarrow> string list \<Rightarrow> pyfloat option" where
  "cell_value j r = (if j < length r then float_of_text (r ! j) else None)"

definition column_of :: "nat \<Rightarrow> string list list \<Rightarrow> (string \<times> pyfloat) list" where
  "column_of j rows =
     map (\<lambda>r. (row_date r, percent_of (the (cell_value j r)))) (filter (\<lambda>r. cell_value j r \<noteq> None) rows)"

definition with_obs :: "factor_data \<Rightarrow> (string \<times> pyfloat) list \<Rightarrow> factor_data" where
  "with_obs f obs = f\<lparr>fd_dates := fd_dates f @ map fst obs, fd_returns := fd_returns f @ map snd obs\<rparr>"

lemma with_obs_Nil [simp]: "with_obs f [] = f"
  by (simp add: with_obs_def)

lemma with_obs_with_obs [simp]: "with_obs (with_obs f a) b = with_obs f (a @ b)"
  by (simp add: with_obs_def)

lemma column_of_Nil [simp]: "column_of j [] = []"
  by (simp add: column_of_def)

lemma column_of_Cons: "column_of j (r # rs) = column_of j [r] @ column_of j rs"
  by (simp add: column_of_def)

definition column_for :: "(string \<times> nat) list \<Rightarrow> string \<Rightarrow> string list list \<Rightarrow> (string \<times> pyfloat) list" where
  "column_for idx k rows = (case map_of idx k of None \<Rightarrow> [] | Some j \<Rightarrow> column_of j rows)"

lemma add_cell_column:
  "add_cell (row_date r) r fs (k, j) = map (\<lambda>(k', f). (k', if k' = k then with_obs f (column_of j [r]) else f)) fs"
  by (auto simp: add_cell_def column_of_def cell_value_def with_obs_def add_observation_def intro!: map_idI [symmetric]
      split: option.splits)

lemma add_cells_column:
  "distinct (map fst idx) \<Longrightarrow>
   foldl (add_cell (row_date r) r) fs idx = map (\<lambda>(k, f). (k, with_obs f (column_for idx k [r]))) fs"
proof (induction idx arbitrary: fs)
  case Nil
  show ?case by (auto simp: column_for_def intro!: map_idI [symmetric])
next
  case (Cons c idx)
  obtain k j where c: "c = (k, j)" by force
  have "map_of idx k = None" using Cons.prems by (simp add: c map_of_eq_None_iff)
  with Cons show ?case by (auto simp: c add_cell_column column_for_def)
qed

lemma read_rows_columns:
  assumes "distinct (map fst idx)"
  shows "read_rows idx lines fs = map (\<lambda>(k, f). (k, with_obs f (column_for idx k (data_rows lines)))) fs"
proof (induction lines arbitrary: fs)
  case Nil
  show ?case by (auto simp: data_rows_def column_for_def intro!: map_idI [symmetric] split: option.splits)
next
  case (Cons line lines)
  let ?r = "cells_of line"
  have split: "column_for idx k (?r # rows) = column_for idx k [?r] @ column_for idx k rows" for k rows
    by (simp add: column_for_def column_of_Cons [of _ ?r rows] split: option.splits)
  consider "strip line = [] \<or> length ?r < 2" | "strip line \<noteq> []" "2 \<le> length ?r" "\<not> monthly_date (hd ?r)"
    | "strip line \<noteq> []" "2 \<le> length ?r" "monthly_date (hd ?r)" by linarith
  then show ?case
  proof cases
    case 1
    then have "data_rows (line # lines) = data_rows lines" by (auto simp: data_rows_def)
    with 1 Cons show ?thesis by simp
  next
    case 2
    then have "data_rows (line # lines) = []" by (simp add: data_rows_def)
    with 2 show ?thesis by (auto simp: Let_def column_for_def intro!: map_idI [symmetric] split: option.splits)
  next
    case 3
    then have rows: "data_rows (line # lines) = ?r # data_rows lines" by (simp add: data_rows_def)
    from 3 have "read_rows idx (line # lines) fs = read_rows idx lines (foldl (add_cell (row_date ?r) ?r) fs idx)"
      by (simp add: Let_def row_date_def)
    also have "\<dots> = map (\<lambda>(k, f). (k, with_obs f (column_for idx k (data_rows (line # lines))))) fs"
      unfolding rows split [where rows = "data_rows lines"] add_cells_column [OF assms] Cons.IH by auto
    finally show ?thesis .
  qed
qed

lemma find_header_columns:
  "find_header cols lines = Some (idx, rest) \<Longrightarrow> \<exists>parts. idx = column_indices cols parts"
  by (induction lines) (auto split: if_splits)

lemma column_indices_distinct: "distinct (map fst (column_indices cols parts))"
proof -
  have "distinct (map fst (foldl (\<lambda>d (j, p). if p \<in> set cols then dict_set d p j else d) d0 xs))"
    if "distinct (map fst d0)" for d0 :: "(string \<times> nat) list" and xs
    using that by (induction xs arbitrary: d0) (auto simp: distinct_dict_set)
  then show ?thesis by (simp add: column_indices_def)
qed

lemma column_indices_sound:
  "map_of (column_indices cols parts) c = Some j \<Longrightarrow> c \<in> set cols \<and> j < length parts \<and> parts ! j = c"
proof -
  have "map_of (foldl (\<lambda>d (j, p). if p \<in> set cols then dict_set d p j else d) d0 xs) c = Some j \<Longrightarrow>
      map_of d0 c = Some j \<or> (j, c) \<in> set xs \<and> c \<in> set cols" for d0 :: "(string \<times> nat) list" and xs
    by (induction xs arbitrary: d0) (fastforce split: if_splits prod.splits)+
  from this [of "[]" "enumerate 0 parts"] show "map_of (column_indices cols parts) c = Some j \<Longrightarrow> ?thesis"
    by (auto simp: column_indices_def in_set_enumerate_eq)
qed

lemma column_of_complete:
  assumes "\<forall>r \<in> set rows. cell_value j r \<noteq> None"
  shows "map fst (column_of j rows) = map row_date rows"
  using assms by (induction rows) (auto simp: column_of_def)

text \<open>Parsing a French file gives one entry for each expected column, in order, whose dates and returns
  are exactly the observations of that column in the file's monthly rows: the loop's appends build the
  columns of a table. At least one column is not empty, and a column whose every monthly cell is a
  number has the dates of all monthly rows, so that such columns are aligned.\<close>

lemma french_columns:
  assumes "parse_french_text cols content = Inr fs"
  shows "\<exists>idx rest. find_header cols (split_on newline (strip content)) = Some (idx, rest) \<and>
    map fst fs = cols \<and>
    (\<forall>(c, f) \<in> set fs. fd_name f = c \<and> zip (fd_dates f) (fd_returns f) = column_for idx c (data_rows rest) \<and>
       length (fd_dates f) = length (fd_returns f)) \<and>
    (\<exists>(c, f) \<in> set fs. fd_returns f \<noteq> []) \<and>
    (\<forall>(c, f) \<in> set fs. \<forall>j. map_of idx c = Some j \<and> (\<forall>r \<in> set (data_rows rest). cell_value j r \<noteq> None) \<longrightarrow>
       fd_dates f = map row_date (data_rows rest))"
proof -
  from assms obtain idx rest where h: "find_header cols (split_on newline (strip content)) = Some (idx, rest)"
    by (auto simp: parse_french_text_def split: option.splits)
  from find_header_columns [OF h] have "distinct (map fst idx)" by (auto simp: column_indices_distinct)
  from read_rows_columns [OF this] assms h
  have fs: "fs = map (\<lambda>c. (c, with_obs (empty_factor c) (column_for idx c (data_rows rest)))) cols"
    and ne: "\<exists>(c, f) \<in> set fs. fd_returns f \<noteq> []"
    by (auto simp: parse_french_text_def Let_def comp_def list_all_iff split: if_splits)
  have "map fst fs = cols" by (simp add: fs comp_def)
  moreover have "\<forall>(c, f) \<in> set fs. fd_name f = c \<and> zip (fd_dates f) (fd_returns f) = column_for idx c (data_rows rest) \<and>
       length (fd_dates f) = length (fd_returns f)"
    by (auto simp: fs with_obs_def empty_factor_def zip_map_fst_snd)
  moreover have "\<forall>(c, f) \<in> set fs. \<forall>j. map_of idx c = Some j \<and> (\<forall>r \<in> set (data_rows rest). cell_value j r \<noteq> None) \<longrightarrow>
       fd_dates f = map row_date (data_rows rest)"
    by (auto simp: fs with_obs_def empty_factor_def column_for_def column_of_complete)
  ultimately show ?thesis using h ne by blast
qed

lemma french_columns_witness:
  "\<exists>fs. parse_french_text [''SMB''] (''t,SMB'' @ [newline] @ ''202001,5'') = Inr fs \<and> map fst fs = [''SMB'']"
proof -
  let ?c = "''t,SMB'' @ [newline] @ ''202001,5''"
  have h: "find_header [''SMB''] (split_on newline (strip ?c)) = Some ([(''SMB'', 1)], [''202001,5''])" by code_simp
  have r: "data_rows [''202001,5''] = [[''202001'', ''5'']]" by code_simp
  have "strip ''5'' = ''5''" by code_simp
  then have "float_of_text ''5'' = Some (Fin 5)"
    by (simp add: float_of_text_def lower_def parse_mantissa_def parse_exponent_def is_exp_def digit_part_def
        is_digit_def code_of_def parse_dec_def digit_val_def power_of_ten_def float_limit_def lower_char_def Let_def)
  then have "parse_french_text [''SMB''] ?c = Inr [(''SMB'', with_obs (empty_factor ''SMB'') [(''2020-01'', percent_of (Fin 5))])]"
    unfolding parse_french_text_def h option.case prod.case
    by (simp add: read_rows_columns r column_for_def column_of_def cell_value_def row_date_def
        with_obs_def empty_factor_def del: read_rows.simps)
  with french_columns [OF this] show ?thesis by auto
qed

end
