(* ===== verification/Legacy_Import.thy ===== *)
theory Legacy_Import
  imports Csv
begin

text \<open>
  \<^verbatim>\<open>analytics/pae/data/csv_import.py\<close>: the broker statement importer kept beside the canonical one of
  \<^verbatim>\<open>storage/csv_import.py\<close>. Format detection, the CSV and the OFX/QFX parsers, and the entry points; the
  UTF-8 decoder is the parameter \<open>utf8\<close>. Over the code points 0 to 255, the euro sign that the number
  parser also drops does not occur.
\<close>

section \<open>Data\<close>

datatype BrokerFormat = INTERACTIVE_BROKERS | QUESTRADE | WEALTHSIMPLE | GENERIC | OFX | UNKNOWN

record imported_holding =
  ih_symbol :: string
  ih_quantity :: pyfloat
  ih_market_value :: pyfloat
  ih_cost_basis :: "pyfloat option"
  ih_currency :: string
  ih_yield_pct :: "pyfloat option"
  ih_account :: "string option"

datatype import_problem =
    CsvParseError
  | NoData
  | NoSymbolColumn
  | NoValueColumn
  | NoPositions
  | EmptySymbol nat
  | NotFiniteNumber nat string string
  | NegativeQuantity nat string
  | NegativeValue nat string
  | NothingHeld nat string

datatype import_notice =
    Truncated nat
  | CostUnknown nat string
  | QuantityDefaulted nat string
  | ValueDefaulted nat string

record portfolio_import =
  pm_format :: BrokerFormat
  pm_holdings :: "imported_holding list"
  pm_errors :: "import_problem list"
  pm_warnings :: "import_notice list"
  pm_total :: nat
  pm_imported :: nat

definition new_import :: "BrokerFormat \<Rightarrow> portfolio_import" where
  "new_import fmt =
     \<lparr>pm_format = fmt, pm_holdings = [], pm_errors = [], pm_warnings = [], pm_total = 0, pm_imported = 0\<rparr>"

definition import_complete :: "portfolio_import \<Rightarrow> bool" where
  "import_complete r = (pm_imported r > 0 \<and> pm_errors r = [])"

datatype csv_import_error = FileEmpty | FormatUnknown

definition MAX_ROWS :: nat where "MAX_ROWS = 100000"

section \<open>Columns and numbers\<close>

definition SYMBOL_KEYS :: "string list" where
  "SYMBOL_KEYS = [''symbol'', ''ticker'', ''instrument'', ''security'', ''stocksymbol'']"
definition QUANTITY_KEYS :: "string list" where
  "QUANTITY_KEYS = [''quantity'', ''qty'', ''shares'', ''units'', ''position'', ''amount'', ''openquantity'']"
definition MARKET_VALUE_KEYS :: "string list" where
  "MARKET_VALUE_KEYS = [''marketvalue'', ''value'', ''currentvalue'', ''positionvalue'', ''marketvaluebase'',
     ''totalvalue'', ''mktvalue'', ''currentmarketvalue'']"
definition COST_BASIS_KEYS :: "string list" where
  "COST_BASIS_KEYS = [''costbasis'', ''cost'', ''bookvalue'', ''totalcost'', ''averagecost'', ''acb'']"
definition CURRENCY_KEYS :: "string list" where "CURRENCY_KEYS = [''currency'', ''ccy'', ''curr'']"
definition YIELD_KEYS :: "string list" where "YIELD_KEYS = [''yield'', ''yieldpct'', ''dividendyield'', ''divyield'']"
definition ACCOUNT_KEYS :: "string list" where
  "ACCOUNT_KEYS = [''account'', ''accountid'', ''accountnumber'', ''acct'']"

definition norm_header :: "string \<Rightarrow> string" where
  "norm_header h = filter (\<lambda>c. is_digit c \<or> (97 \<le> code_of c \<and> code_of c \<le> 122)) (lower (strip h))"

definition number_noise :: "char \<Rightarrow> bool" where
  "number_noise c = (c = CHR '','' \<or> c = CHR ''$'' \<or> code_of c = 163 \<or> code_of c = 165 \<or> c = CHR ''%'' \<or> is_ws c)"

definition to_number :: "string option \<Rightarrow> pyfloat option" where
  "to_number raw =
     (case raw of
        None \<Rightarrow> None
      | Some r \<Rightarrow>
          let s = strip r;
              negative = (startswith s ''('' \<and> endswith s '')'');
              digits = filter (\<lambda>c. \<not> number_noise c) (if negative then butlast (tl s) else s)
          in if s = [] \<or> upper s \<in> {''N/A'', ''NA'', ''-'', ''--''} \<or> digits = [] then None
             else map_option (if negative then fl_neg else (\<lambda>x. x)) (float_of_text digits))"

section \<open>Format detection\<close>

definition line_break :: "char \<Rightarrow> bool" where
  "line_break c = (code_of c \<in> {10, 11, 12, 13, 28, 29, 30, 133})"

text \<open>\<open>text.splitlines()\<close>, up to the empty lines between the two characters of a CR LF.\<close>

fun split_lines :: "string \<Rightarrow> string list" where
  "split_lines [] = [[]]"
| "split_lines (c # cs) =
     (if line_break c then [] # split_lines cs
      else case split_lines cs of [] \<Rightarrow> [[c]] | l # ls \<Rightarrow> (c # l) # ls)"

definition detect_broker_format :: "string \<Rightarrow> BrokerFormat" where
  "detect_broker_format text =
     (let head = upper (take 4096 (lstrip text))
      in if str_in ''OFXHEADER'' head \<or> str_in ''<OFX>'' head \<or> str_in ''<INVSTMTRS>'' head then OFX
         else case find (\<lambda>l. strip l \<noteq> []) (split_lines text) of
             None \<Rightarrow> UNKNOWN
           | Some header \<Rightarrow>
               let keys = set (map norm_header (split_on CHR '','' header))
               in if ''financialinstrument'' \<in> keys \<or> ''positionvalue'' \<in> keys \<or>
                     (''symbol'' \<in> keys \<and> ''costbasis'' \<in> keys \<and> ''positionvalue'' \<in> keys) then INTERACTIVE_BROKERS
                  else if ''symbol'' \<in> keys \<and> ''currentmarketvalue'' \<in> keys then QUESTRADE
                  else if ''openquantity'' \<in> keys \<and> ''symbol'' \<in> keys then QUESTRADE
                  else if ''symbol'' \<in> keys \<and> ''bookvalue'' \<in> keys \<and> ''marketvalue'' \<in> keys then WEALTHSIMPLE
                  else if list_ex (\<lambda>k. k \<in> keys) SYMBOL_KEYS \<and>
                          (list_ex (\<lambda>k. k \<in> keys) MARKET_VALUE_KEYS \<or> list_ex (\<lambda>k. k \<in> keys) QUANTITY_KEYS)
                       then GENERIC else UNKNOWN)"

section \<open>Validation\<close>

definition not_finite :: "pyfloat option \<Rightarrow> bool" where
  "not_finite v = (case v of None \<Rightarrow> False | Some x \<Rightarrow> isnan x \<or> isinf x)"

definition negative_number :: "pyfloat option \<Rightarrow> bool" where
  "negative_number v = (case v of None \<Rightarrow> False | Some x \<Rightarrow> fl_lt x (Fin 0))"

definition core_problem :: "string \<Rightarrow> pyfloat option \<Rightarrow> pyfloat option \<Rightarrow> nat \<Rightarrow> import_problem option" where
  "core_problem tick q v n =
     (if tick = [] then Some (EmptySymbol n)
      else if not_finite q then Some (NotFiniteNumber n tick ''quantity'')
      else if not_finite v then Some (NotFiniteNumber n tick ''market_value'')
      else if negative_number q then Some (NegativeQuantity n tick)
      else if negative_number v then Some (NegativeValue n tick)
      else if v = None \<and> q = None then Some (NothingHeld n tick) else None)"

definition or_zero :: "pyfloat option \<Rightarrow> pyfloat" where
  "or_zero v = (case v of None \<Rightarrow> Fin 0 | Some x \<Rightarrow> x)"

definition add_error :: "import_problem \<Rightarrow> portfolio_import \<Rightarrow> portfolio_import" where
  "add_error e r = r\<lparr>pm_errors := pm_errors r @ [e]\<rparr>"

definition add_warnings :: "import_notice list \<Rightarrow> portfolio_import \<Rightarrow> portfolio_import" where
  "add_warnings ws r = r\<lparr>pm_warnings := pm_warnings r @ ws\<rparr>"

definition add_holding :: "imported_holding \<Rightarrow> portfolio_import \<Rightarrow> portfolio_import" where
  "add_holding h r = r\<lparr>pm_holdings := pm_holdings r @ [h], pm_imported := pm_imported r + 1\<rparr>"

definition count_row :: "portfolio_import \<Rightarrow> portfolio_import" where
  "count_row r = r\<lparr>pm_total := pm_total r + 1\<rparr>"

section \<open>CSV statements\<close>

fun first_index :: "('a \<Rightarrow> bool) \<Rightarrow> 'a list \<Rightarrow> nat option" where
  "first_index P [] = None"
| "first_index P (x # xs) = (if P x then Some 0 else map_option Suc (first_index P xs))"

definition column_index :: "string list \<Rightarrow> string list \<Rightarrow> nat option" where
  "column_index headers synonyms = first_index (\<lambda>h. h \<in> set synonyms) (map norm_header headers)"

definition row_cell :: "string list \<Rightarrow> nat option \<Rightarrow> string option" where
  "row_cell row idx = (case idx of None \<Rightarrow> None | Some i \<Rightarrow> if i < length row then Some (row ! i) else None)"

definition nonblank_row :: "string list \<Rightarrow> bool" where
  "nonblank_row row = list_ex (\<lambda>c. strip c \<noteq> []) row"

definition or_usd :: "string \<Rightarrow> string" where
  "or_usd s = (if s = [] then ''USD'' else s)"

definition read_currency :: "string option \<Rightarrow> string" where
  "read_currency raw = or_usd (upper (strip (or_usd (case raw of None \<Rightarrow> [] | Some r \<Rightarrow> r))))"

definition read_account :: "string option \<Rightarrow> string option" where
  "read_account raw = (case raw of None \<Rightarrow> None | Some r \<Rightarrow> if strip r = [] then None else Some (strip r))"

definition import_csv_row :: "string list \<Rightarrow> nat \<times> string list \<Rightarrow> portfolio_import \<Rightarrow> portfolio_import" where
  "import_csv_row headers nr r0 =
     (let n = fst nr; row = snd nr; field = (\<lambda>keys. row_cell row (column_index headers keys))
      in if \<not> nonblank_row row then r0
         else let r = count_row r0;
                  tick = upper (strip (case field SYMBOL_KEYS of None \<Rightarrow> [] | Some s \<Rightarrow> s));
                  q = to_number (field QUANTITY_KEYS);
                  v = to_number (field MARKET_VALUE_KEYS);
                  cost = to_number (field COST_BASIS_KEYS)
              in case core_problem tick q v n of
                  Some e \<Rightarrow> add_error e r
                | None \<Rightarrow>
                    add_holding
                      \<lparr>ih_symbol = tick, ih_quantity = or_zero q, ih_market_value = or_zero v,
                       ih_cost_basis = (if negative_number cost then None else cost),
                       ih_currency = read_currency (field CURRENCY_KEYS),
                       ih_yield_pct = to_number (field YIELD_KEYS),
                       ih_account = read_account (field ACCOUNT_KEYS)\<rparr>
                      (add_warnings
                        ((if negative_number cost then [CostUnknown n tick] else []) @
                         (if q = None then [QuantityDefaulted n tick] else []) @
                         (if v = None then [ValueDefaulted n tick] else [])) r))"

definition parse_csv_statement :: "string \<Rightarrow> BrokerFormat \<Rightarrow> portfolio_import" where
  "parse_csv_statement text fmt =
     (case csv_rows text of
        None \<Rightarrow> add_error CsvParseError (new_import fmt)
      | Some rows \<Rightarrow>
          (case first_index nonblank_row rows of
             None \<Rightarrow> add_error NoData (new_import fmt)
           | Some h \<Rightarrow>
               let headers = rows ! h; data = drop (h + 1) rows
               in if column_index headers SYMBOL_KEYS = None then add_error NoSymbolColumn (new_import fmt)
                  else if column_index headers MARKET_VALUE_KEYS = None \<and> column_index headers QUANTITY_KEYS = None
                  then add_error NoValueColumn (new_import fmt)
                  else fold (import_csv_row headers) (enumerate (h + 2) (take MAX_ROWS data))
                    (if length data > MAX_ROWS then add_warnings [Truncated (length data)] (new_import fmt)
                     else new_import fmt)))"

section \<open>OFX statements\<close>

text \<open>The text before the first occurrence of a tag, in any case, and the text after it.\<close>

fun cut_at :: "string \<Rightarrow> string \<Rightarrow> (string \<times> string) option" where
  "cut_at t [] = (if t = [] then Some ([], []) else None)"
| "cut_at t (c # cs) =
     (if startswith (lower (c # cs)) (lower t) then Some ([], drop (length t) (c # cs))
      else map_option (\<lambda>(a, b). (c # a, b)) (cut_at t cs))"

lemma cut_at_length: "cut_at t s = Some (a, b) \<Longrightarrow> length s = length a + length t + length b"
proof (induction s arbitrary: a)
  case (Cons c cs)
  show ?case
  proof (cases "startswith (lower (c # cs)) (lower t)")
    case True
    then have "length t \<le> length (c # cs)" by (auto simp: startswith_iff lower_def dest: arg_cong [where f = length])
    with True Cons.prems show ?thesis by auto
  qed (use Cons in auto)
qed (auto split: if_splits)

text \<open>\<open>findall\<close> of \<open><TAG>(.*?)</TAG>\<close>.\<close>

function ofx_blocks :: "string \<Rightarrow> string \<Rightarrow> string list" where
  "ofx_blocks tag s =
     (case cut_at (''<'' @ tag @ ''>'') s of
        None \<Rightarrow> []
      | Some (_, rest) \<Rightarrow>
          (case cut_at (''</'' @ tag @ ''>'') rest of
             None \<Rightarrow> []
           | Some (block, rest') \<Rightarrow> block # ofx_blocks tag rest'))"
  by pat_completeness auto
termination by (relation "measure (length \<circ> snd)") (auto dest!: cut_at_length)

definition ofx_tag :: "string \<Rightarrow> string \<Rightarrow> string option" where
  "ofx_tag block tag =
     (case cut_at (''<'' @ tag @ ''>'') block of
        None \<Rightarrow> None
      | Some (_, rest) \<Rightarrow>
          let v = strip (takeWhile (\<lambda>c. c \<noteq> CHR ''<'' \<and> code_of c \<noteq> 13 \<and> code_of c \<noteq> 10) rest)
          in if v = [] then None else Some v)"

definition first_tag :: "string \<Rightarrow> string list \<Rightarrow> string" where
  "first_tag block tags = (case List.map_filter (ofx_tag block) tags of [] \<Rightarrow> [] | v # _ \<Rightarrow> v)"

definition ofx_value :: "string \<Rightarrow> pyfloat option" where
  "ofx_value block =
     (case (to_number (ofx_tag block ''MKTVAL''), to_number (ofx_tag block ''UNITS''),
            to_number (ofx_tag block ''UNITPRICE'')) of
        (None, Some q, Some p) \<Rightarrow> Some (fl_mul q p)
      | (v, _, _) \<Rightarrow> v)"

definition import_ofx_block :: "nat \<times> string \<Rightarrow> portfolio_import \<Rightarrow> portfolio_import" where
  "import_ofx_block nb r0 =
     (let n = fst nb; block = snd nb; r = count_row r0;
          tick = upper (strip (first_tag block [''TICKER'', ''SECNAME'', ''UNIQUEID'']));
          q = to_number (ofx_tag block ''UNITS'');
          v = ofx_value block
      in case core_problem tick q v n of
           Some e \<Rightarrow> add_error e r
         | None \<Rightarrow>
             add_holding
               \<lparr>ih_symbol = tick, ih_quantity = or_zero q, ih_market_value = or_zero v, ih_cost_basis = None,
                ih_currency = (case ofx_tag block ''CURSYM'' of None \<Rightarrow> ''USD'' | Some c \<Rightarrow> c),
                ih_yield_pct = None, ih_account = None\<rparr> r)"

definition parse_ofx_statement :: "string \<Rightarrow> portfolio_import" where
  "parse_ofx_statement text =
     (let found = ofx_blocks ''INVPOS'' text;
          blocks = (if found = [] then ofx_blocks ''POSSTOCK'' text else found)
      in if blocks = [] then add_error NoPositions (new_import OFX)
         else fold import_ofx_block (enumerate 1 (take MAX_ROWS blocks))
           (if length blocks > MAX_ROWS then add_warnings [Truncated (length blocks)] (new_import OFX)
            else new_import OFX))"

section \<open>Entry points\<close>

definition parse_portfolio_text :: "string \<Rightarrow> BrokerFormat option \<Rightarrow> csv_import_error + portfolio_import" where
  "parse_portfolio_text text fmt =
     (if blank text then Inl FileEmpty
      else let detected = (case fmt of Some f \<Rightarrow> f | None \<Rightarrow> detect_broker_format text)
           in if detected = UNKNOWN then Inl FormatUnknown
              else if detected = OFX then Inr (parse_ofx_statement text)
              else Inr (parse_csv_statement text detected))"

datatype statement = Bytes string | Text string

definition decode_statement :: "(string \<Rightarrow> string option) \<Rightarrow> statement \<Rightarrow> string" where
  "decode_statement utf8 raw =
     (case raw of
        Text t \<Rightarrow> t
      | Bytes b \<Rightarrow> (case utf8 b of Some t \<Rightarrow> t | None \<Rightarrow> b))"

definition parse_portfolio_file ::
  "(string \<Rightarrow> string option) \<Rightarrow> string \<Rightarrow> statement \<Rightarrow> csv_import_error + portfolio_import" where
  "parse_portfolio_file utf8 filename raw =
     parse_portfolio_text (decode_statement utf8 raw)
       (if list_ex (endswith (lower filename)) [''.ofx'', ''.qfx''] then Some OFX else None)"

end
