(* ===== verification/Legacy_Correct.thy ===== *)
theory Legacy_Correct
  imports Legacy_Import
begin

text \<open>
  The correctness of \<^verbatim>\<open>analytics/pae/data/csv_import.py\<close>: which positions of the statement become
  holdings and which errors, and what is tested of a holding.
\<close>

section \<open>Every import is sound\<close>

definition imported_ok :: "imported_holding \<Rightarrow> bool" where
  "imported_ok h =
     (ih_symbol h \<noteq> [] \<and> is_finite (ih_quantity h) \<and> fl_le (Fin 0) (ih_quantity h) \<and>
      is_finite (ih_market_value h) \<and> fl_le (Fin 0) (ih_market_value h) \<and> \<not> negative_number (ih_cost_basis h))"

lemma or_zero_ok:
  "\<not> not_finite v \<Longrightarrow> \<not> negative_number v \<Longrightarrow> is_finite (or_zero v) \<and> fl_le (Fin 0) (or_zero v)"
  by (cases v; cases "the v") (auto simp: not_finite_def negative_number_def or_zero_def isnan_simps isinf_simps)

lemma core_problem_None:
  "core_problem s q v n = None \<Longrightarrow>
     s \<noteq> [] \<and> is_finite (or_zero q) \<and> fl_le (Fin 0) (or_zero q) \<and> is_finite (or_zero v) \<and> fl_le (Fin 0) (or_zero v)"
  using or_zero_ok [of q] or_zero_ok [of v] by (auto simp: core_problem_def split: if_splits)

lemma no_warnings: "add_warnings [] r = r"
  by (simp add: add_warnings_def)

lemma imported_ok_core:
  assumes "core_problem s q v n = None" and "\<not> negative_number cost"
  shows "imported_ok \<lparr>ih_symbol = s, ih_quantity = or_zero q, ih_market_value = or_zero v, ih_cost_basis = cost,
    ih_currency = cur, ih_yield_pct = y, ih_account = acc\<rparr>"
  using core_problem_None [OF assms(1)] assms(2) by (simp add: imported_ok_def)

lemma not_negative_None [simp]: "\<not> negative_number None"
  by (simp add: negative_number_def)

section \<open>The positions of a statement\<close>

text \<open>
  What a statement says, before any of it is judged: for each data row or OFX block, up to \<open>MAX_ROWS\<close>,
  its number, symbol, quantity and market value; with the number of all rows or blocks. A table
  without a header, a symbol column or any number column, and an OFX text without positions, say nothing.
\<close>

type_synonym position = "nat \<times> string \<times> pyfloat option \<times> pyfloat option"

definition csv_position :: "string list \<Rightarrow> nat \<times> string list \<Rightarrow> position" where
  "csv_position headers = (\<lambda>(n, row).
     (n, upper (strip (case row_cell row (column_index headers SYMBOL_KEYS) of None \<Rightarrow> [] | Some s \<Rightarrow> s)),
      to_number (row_cell row (column_index headers QUANTITY_KEYS)),
      to_number (row_cell row (column_index headers MARKET_VALUE_KEYS))))"

definition csv_positions :: "string \<Rightarrow> (nat \<times> position list) option" where
  "csv_positions content =
     (case csv_rows content of
        None \<Rightarrow> None
      | Some rows \<Rightarrow>
          (case first_index (\<lambda>row. \<exists>c \<in> set row. strip c \<noteq> []) rows of
             None \<Rightarrow> None
           | Some h \<Rightarrow>
               let headers = rows ! h; data = drop (h + 1) rows
               in if column_index headers SYMBOL_KEYS = None \<or>
                     column_index headers MARKET_VALUE_KEYS = None \<and> column_index headers QUANTITY_KEYS = None
                  then None
                  else Some (length data, map (csv_position headers)
                    (filter (\<lambda>(n, row). \<exists>c \<in> set row. strip c \<noteq> []) (enumerate (h + 2) (take MAX_ROWS data))))))"

definition ofx_position :: "nat \<times> string \<Rightarrow> position" where
  "ofx_position = (\<lambda>(n, block).
     (n, upper (strip (first_tag block [''TICKER'', ''SECNAME'', ''UNIQUEID''])),
      to_number (ofx_tag block ''UNITS''), ofx_value block))"

definition ofx_positions :: "string \<Rightarrow> (nat \<times> position list) option" where
  "ofx_positions content =
     (let found = ofx_blocks ''INVPOS'' content;
          blocks = (if found = [] then ofx_blocks ''POSSTOCK'' content else found)
      in if blocks = [] then None
         else Some (length blocks, map ofx_position (enumerate 1 (take MAX_ROWS blocks))))"

definition usable :: "pyfloat option \<Rightarrow> bool" where
  "usable v = (case v of None \<Rightarrow> True | Some x \<Rightarrow> is_finite x \<and> fl_le (Fin 0) x)"

definition position_ok :: "position \<Rightarrow> bool" where
  "position_ok = (\<lambda>(n, s, q, v). s \<noteq> [] \<and> usable q \<and> usable v \<and> (q \<noteq> None \<or> v \<noteq> None))"

fun problem_row :: "import_problem \<Rightarrow> nat option" where
  "problem_row (EmptySymbol n) = Some n"
| "problem_row (NotFiniteNumber n _ _) = Some n"
| "problem_row (NegativeQuantity n _) = Some n"
| "problem_row (NegativeValue n _) = Some n"
| "problem_row (NothingHeld n _) = Some n"
| "problem_row _ = None"

lemma usable_iff: "usable v \<longleftrightarrow> \<not> not_finite v \<and> \<not> negative_number v"
  by (cases v; cases "the v")
    (auto simp: usable_def not_finite_def negative_number_def isnan_simps isinf_simps)

lemma core_problem_position: "core_problem s q v n = None \<longleftrightarrow> position_ok (n, s, q, v)"
  by (auto simp: core_problem_def position_ok_def usable_iff)

lemma core_problem_row: "core_problem s q v n = Some e \<Longrightarrow> problem_row e = Some n"
  by (auto simp: core_problem_def split: if_splits)

text \<open>The state of an import after some positions.\<close>

definition imported_from :: "position list \<Rightarrow> portfolio_import \<Rightarrow> bool" where
  "imported_from ps r =
     (pm_total r = length ps \<and> pm_imported r = length (pm_holdings r) \<and> list_all imported_ok (pm_holdings r) \<and>
      map (\<lambda>h. (ih_symbol h, ih_quantity h, ih_market_value h)) (pm_holdings r) =
        map (\<lambda>(n, s, q, v). (s, or_zero q, or_zero v)) (filter position_ok ps) \<and>
      map problem_row (pm_errors r) = map (\<lambda>(n, _). Some n) (filter (\<lambda>p. \<not> position_ok p) ps))"

lemma imported_from_new: "imported_from [] (add_warnings ws (new_import fmt))"
  by (simp add: imported_from_def add_warnings_def new_import_def)

lemma imported_from_error:
  assumes "imported_from ps r" and "core_problem s q v n = Some e"
  shows "imported_from (ps @ [(n, s, q, v)]) (add_error e (count_row r))"
  using assms core_problem_position [of s q v n] core_problem_row [OF assms(2)]
  by (simp add: imported_from_def add_error_def count_row_def)

lemma imported_from_holding:
  assumes "imported_from ps r" and "core_problem s q v n = None" and "\<not> negative_number cost"
  shows "imported_from (ps @ [(n, s, q, v)]) (add_holding
    \<lparr>ih_symbol = s, ih_quantity = or_zero q, ih_market_value = or_zero v, ih_cost_basis = cost,
     ih_currency = cur, ih_yield_pct = y, ih_account = acc\<rparr> (add_warnings ws (count_row r)))"
  using assms core_problem_position [of s q v n] imported_ok_core [OF assms(2,3)]
  by (simp add: imported_from_def add_holding_def add_warnings_def count_row_def)

lemma imported_from_row:
  assumes "imported_from ps r"
  shows "imported_from
    (ps @ (if \<exists>c \<in> set (snd nr). strip c \<noteq> [] then [csv_position headers nr] else []))
    (import_csv_row headers nr r)"
  unfolding import_csv_row_def Let_def
  using assms imported_from_error imported_from_holding
  by (simp add: csv_position_def nonblank_row_def list_ex_iff case_prod_unfold split: option.split)

lemma imported_from_block:
  assumes "imported_from ps r"
  shows "imported_from (ps @ [ofx_position nb]) (import_ofx_block nb r)"
  unfolding import_ofx_block_def Let_def
  using assms imported_from_error imported_from_holding [where ws = "[]", unfolded no_warnings]
  by (simp add: ofx_position_def case_prod_unfold split: option.split)

lemma imported_from_rows:
  "imported_from ps r \<Longrightarrow>
     imported_from (ps @ map (csv_position headers) (filter (\<lambda>(n, row). \<exists>c \<in> set row. strip c \<noteq> []) xs))
       (fold (import_csv_row headers) xs r)"
proof (induction xs arbitrary: ps r)
  case (Cons x xs)
  from Cons.IH [OF imported_from_row [OF Cons.prems, of x headers]] show ?case
    by (cases x) (auto split: if_splits)
qed simp

lemma imported_from_blocks:
  "imported_from ps r \<Longrightarrow> imported_from (ps @ map ofx_position xs) (fold import_ofx_block xs r)"
proof (induction xs arbitrary: ps r)
  case (Cons x xs)
  from Cons.IH [OF imported_from_block [OF Cons.prems, of x]] show ?case by simp
qed simp

text \<open>The truncation notice.\<close>

definition truncated :: "portfolio_import \<Rightarrow> nat set" where
  "truncated r = {k. Truncated k \<in> set (pm_warnings r)}"

lemma truncated_simps [simp]:
  "truncated (add_error e r) = truncated r" "truncated (count_row r) = truncated r"
  "truncated (add_holding h r) = truncated r" "truncated (new_import f) = {}"
  "truncated (add_warnings ws r) = truncated r \<union> {k. Truncated k \<in> set ws}"
  by (auto simp: truncated_def add_error_def count_row_def add_holding_def new_import_def add_warnings_def)

lemma truncated_row [simp]: "truncated (import_csv_row headers nr r) = truncated r"
  by (simp add: import_csv_row_def Let_def split: option.split)

lemma truncated_block [simp]: "truncated (import_ofx_block nb r) = truncated r"
  by (simp add: import_ofx_block_def Let_def split: option.split)

lemma truncated_fold: "(\<And>x r. truncated (f x r) = truncated r) \<Longrightarrow> truncated (fold f xs r) = truncated r"
  by (induction xs arbitrary: r) simp_all

text \<open>A statement that is refused as a whole.\<close>

definition refused :: "portfolio_import \<Rightarrow> bool" where
  "refused r = (pm_total r = 0 \<and> pm_imported r = 0 \<and> pm_holdings r = [] \<and> (\<exists>e. pm_errors r = [e]))"

lemma refused_error: "refused (add_error e (new_import fmt))"
  by (simp add: refused_def add_error_def new_import_def)

definition accounts_for :: "(nat \<times> position list) option \<Rightarrow> portfolio_import \<Rightarrow> bool" where
  "accounts_for ps r =
     (case ps of
        None \<Rightarrow> refused r
      | Some (k, ps) \<Rightarrow> imported_from ps r \<and> truncated r = (if MAX_ROWS < k then {k} else {}))"

lemma nonblank_row_eq: "nonblank_row = (\<lambda>row. \<exists>c \<in> set row. strip c \<noteq> [])"
  by (rule ext) (simp add: nonblank_row_def list_ex_iff)

lemma new_import_warned: "new_import f = add_warnings [] (new_import f)"
  by (simp add: no_warnings)

lemma parse_csv_accounts: "accounts_for (csv_positions content) (parse_csv_statement content fmt)"
proof (cases "csv_rows content")
  case (Some rows)
  show ?thesis
  proof (cases "first_index nonblank_row rows")
    case (Some h)
    let ?hs = "rows ! h" and ?data = "drop (h + 1) rows"
    let ?xs = "enumerate (h + 2) (take MAX_ROWS ?data)"
    show ?thesis
    proof (cases "column_index ?hs SYMBOL_KEYS = None \<or>
        column_index ?hs MARKET_VALUE_KEYS = None \<and> column_index ?hs QUANTITY_KEYS = None")
      case True
      then have "csv_positions content = None" and "\<exists>e. parse_csv_statement content fmt = add_error e (new_import fmt)"
        using \<open>csv_rows content = Some rows\<close> Some
        by (auto simp: csv_positions_def parse_csv_statement_def nonblank_row_eq Let_def)
      then show ?thesis by (auto simp: accounts_for_def refused_error)
    next
      case False
      let ?ws = "if length ?data > MAX_ROWS then [Truncated (length ?data)] else []"
      have p: "parse_csv_statement content fmt =
          fold (import_csv_row ?hs) ?xs (add_warnings ?ws (new_import fmt))"
        using False \<open>csv_rows content = Some rows\<close> Some
        by (auto simp: parse_csv_statement_def no_warnings Let_def)
      have c: "csv_positions content = Some (length ?data, map (csv_position ?hs)
          (filter (\<lambda>(n, row). \<exists>c \<in> set row. strip c \<noteq> []) ?xs))"
        using False \<open>csv_rows content = Some rows\<close> Some
        by (auto simp: csv_positions_def nonblank_row_eq Let_def)
      have "truncated (parse_csv_statement content fmt) = (if MAX_ROWS < length ?data then {length ?data} else {})"
        unfolding p by (subst truncated_fold) simp_all
      with imported_from_rows [OF imported_from_new, of ?hs ?xs ?ws fmt] p c show ?thesis
        by (simp add: accounts_for_def)
    qed
  next
    case None
    with Some show ?thesis
      by (simp add: csv_positions_def parse_csv_statement_def accounts_for_def nonblank_row_eq refused_error)
  qed
qed (simp add: csv_positions_def parse_csv_statement_def accounts_for_def refused_error)

lemma parse_ofx_accounts: "accounts_for (ofx_positions content) (parse_ofx_statement content)"
proof -
  define blocks where "blocks =
    (if ofx_blocks ''INVPOS'' content = [] then ofx_blocks ''POSSTOCK'' content else ofx_blocks ''INVPOS'' content)"
  let ?xs = "enumerate 1 (take MAX_ROWS blocks)"
  let ?ws = "if length blocks > MAX_ROWS then [Truncated (length blocks)] else []"
  have p: "parse_ofx_statement content = (if blocks = [] then add_error NoPositions (new_import OFX)
      else fold import_ofx_block ?xs (add_warnings ?ws (new_import OFX)))"
    unfolding parse_ofx_statement_def Let_def blocks_def [symmetric] by (simp add: no_warnings)
  have c: "ofx_positions content =
      (if blocks = [] then None else Some (length blocks, map ofx_position ?xs))"
    unfolding ofx_positions_def Let_def blocks_def [symmetric] by simp
  have "truncated (fold import_ofx_block ?xs (add_warnings ?ws (new_import OFX))) =
      (if MAX_ROWS < length blocks then {length blocks} else {})"
    by (subst truncated_fold) simp_all
  with imported_from_blocks [OF imported_from_new, of ?xs ?ws OFX] show ?thesis
    by (simp add: p c accounts_for_def refused_error)
qed

lemma parse_ofx_format: "pm_format (parse_ofx_statement content) = OFX"
proof -
  have "pm_format (fold import_ofx_block xs r) = pm_format r" for xs r
    by (induction xs arbitrary: r)
      (simp_all add: import_ofx_block_def Let_def add_error_def add_holding_def count_row_def split: option.split)
  then show ?thesis
    by (simp add: parse_ofx_statement_def Let_def add_error_def add_warnings_def new_import_def)
qed

lemma parse_csv_format: "pm_format (parse_csv_statement content fmt) = fmt"
proof -
  have "pm_format (fold (import_csv_row hs) xs r) = pm_format r" for hs xs r
    by (induction xs arbitrary: r)
      (simp_all add: import_csv_row_def Let_def add_error_def add_holding_def add_warnings_def count_row_def
        split: option.split)
  then show ?thesis
    by (simp add: parse_csv_statement_def Let_def add_error_def add_warnings_def new_import_def split: option.split)
qed

lemma parse_file_accounts:
  assumes "parse_portfolio_file utf8 filename raw = Inr r"
  shows "accounts_for (if pm_format r = OFX then ofx_positions (decode_statement utf8 raw)
    else csv_positions (decode_statement utf8 raw)) r"
proof -
  let ?t = "decode_statement utf8 raw"
  from assms obtain f where "r = parse_ofx_statement ?t \<or> r = parse_csv_statement ?t f \<and> f \<noteq> OFX"
    by (auto simp: parse_portfolio_file_def parse_portfolio_text_def Let_def split: if_splits)
  then show ?thesis
    using parse_csv_accounts [of ?t f] parse_ofx_accounts [of ?t] by (auto simp: parse_ofx_format parse_csv_format)
qed

text \<open>C27: whatever the bytes of a statement, its import accounts for every position of the text: for every
  data row of the table with a cell that is not blank, or for every OFX position, of the first 100000. The
  positions with a symbol, with at least one of quantity and value, and with no number of the two that is
  infinite, NaN or negative are the holdings, in order and with exactly these numbers, a missing one as
  zero; every other position is one error with its row number; and rows past the bound are announced by a
  warning with their number. A statement without positions is refused with one error. No cost of a holding is
  negative; whether cost and yield are finite is not tested. A complete import has every
  position of a statement within the bound.\<close>

theorem legacy_import_sound:
  assumes "parse_portfolio_file utf8 filename raw = Inr r"
  shows "list_all (\<lambda>h. \<not> negative_number (ih_cost_basis h)) (pm_holdings r) \<and>
    (case (if pm_format r = OFX then ofx_positions (decode_statement utf8 raw)
           else csv_positions (decode_statement utf8 raw)) of
       None \<Rightarrow> pm_holdings r = [] \<and> pm_total r = 0 \<and> length (pm_errors r) = 1 \<and> \<not> import_complete r
     | Some (k, ps) \<Rightarrow>
         pm_total r = length ps \<and> pm_imported r = length (pm_holdings r) \<and>
         map (\<lambda>h. (ih_symbol h, ih_quantity h, ih_market_value h)) (pm_holdings r) =
           map (\<lambda>(n, s, q, v). (s, or_zero q, or_zero v)) (filter position_ok ps) \<and>
         map problem_row (pm_errors r) = map (\<lambda>(n, _). Some n) (filter (\<lambda>p. \<not> position_ok p) ps) \<and>
         (\<forall>i. Truncated i \<in> set (pm_warnings r) \<longleftrightarrow> i = k \<and> MAX_ROWS < k) \<and>
         (import_complete r \<longleftrightarrow> ps \<noteq> [] \<and> list_all position_ok ps))"
proof -
  note a = parse_file_accounts [OF assms]
  have cost: "list_all (\<lambda>h. \<not> negative_number (ih_cost_basis h)) hs" if "list_all imported_ok hs" for hs
    using that by (auto simp: list_all_iff imported_ok_def)
  show ?thesis
  proof (cases "if pm_format r = OFX then ofx_positions (decode_statement utf8 raw)
      else csv_positions (decode_statement utf8 raw)")
    case None
    with a show ?thesis unfolding None by (auto simp: accounts_for_def refused_def import_complete_def)
  next
    case (Some kps)
    obtain k ps where kps: "kps = (k, ps)" by fastforce
    from a have f: "imported_from ps r" and t: "truncated r = (if MAX_ROWS < k then {k} else {})"
      unfolding Some kps by (simp_all add: accounts_for_def)
    note f' = f [unfolded imported_from_def]
    have errs: "length (pm_errors r) = length (filter (\<lambda>p. \<not> position_ok p) ps)"
      using arg_cong [where f = length, OF conjunct2 [OF conjunct2 [OF conjunct2 [OF conjunct2 [OF f']]]]] by simp
    have hs: "length (pm_holdings r) = length (filter position_ok ps)"
      using arg_cong [where f = length, OF conjunct1 [OF conjunct2 [OF conjunct2 [OF conjunct2 [OF f']]]]] by simp
    have "pm_errors r = [] \<longleftrightarrow> list_all position_ok ps"
    proof -
      have "pm_errors r = [] \<longleftrightarrow> filter (\<lambda>p. \<not> position_ok p) ps = []" using errs by (metis length_0_conv)
      then show ?thesis by (simp add: list_all_iff filter_empty_conv)
    qed
    with f hs have "import_complete r \<longleftrightarrow> ps \<noteq> [] \<and> list_all position_ok ps"
      by (auto simp: import_complete_def imported_from_def list_all_iff)
    moreover have "Truncated i \<in> set (pm_warnings r) \<longleftrightarrow> i = k \<and> MAX_ROWS < k" for i
      using t by (auto simp: truncated_def split: if_splits)
    ultimately show ?thesis
      unfolding Some kps option.case prod.case using f [unfolded imported_from_def] cost by blast
  qed
qed

definition ofx_sample :: string where
  "ofx_sample = ''<INVPOS></INVPOS>''"

lemma ofx_sample_blocks: "ofx_blocks ''INVPOS'' ofx_sample = [[]]"
  unfolding ofx_sample_def by code_simp

lemma ofx_sample_rows:
  "import_ofx_block (1, []) (new_import OFX) =
     \<lparr>pm_format = OFX, pm_holdings = [], pm_errors = [EmptySymbol 1], pm_warnings = [], pm_total = 1,
      pm_imported = 0\<rparr>"
  by code_simp

lemma ofx_sample_parsed:
  "parse_portfolio_file (\<lambda>_. None) ''a.ofx'' (Text ofx_sample) = Inr
     \<lparr>pm_format = OFX, pm_holdings = [], pm_errors = [EmptySymbol 1], pm_warnings = [], pm_total = 1,
      pm_imported = 0\<rparr>"
proof -
  have "list_ex (endswith (lower ''a.ofx'')) [''.ofx'', ''.qfx'']" by code_simp
  moreover have "\<not> blank ofx_sample" unfolding ofx_sample_def by code_simp
  ultimately show ?thesis
    unfolding parse_portfolio_file_def parse_portfolio_text_def parse_ofx_statement_def
    by (simp only: decode_statement_def if_True if_False statement.case option.case Let_def ofx_sample_blocks)
      (simp add: MAX_ROWS_def ofx_sample_rows [simplified])
qed

theorem legacy_import_sound_witness:
  "\<exists>r. parse_portfolio_file (\<lambda>_. None) ''a.ofx'' (Text ofx_sample) = Inr r \<and> pm_errors r = [EmptySymbol 1] \<and>
     list_all imported_ok (pm_holdings r) \<and> pm_imported r = length (pm_holdings r)"
  using legacy_import_sound [OF ofx_sample_parsed] ofx_sample_parsed by auto

text \<open>A NaN yield passes: only the quantity and the market value are tested.\<close>

lemma nan_yield_imported:
  assumes "core_problem s q v n = None"
  shows "imported_ok \<lparr>ih_symbol = s, ih_quantity = or_zero q, ih_market_value = or_zero v, ih_cost_basis = None,
    ih_currency = c, ih_yield_pct = Some NaN, ih_account = a\<rparr>"
  using core_problem_None [OF assms] by (simp add: imported_ok_def negative_number_def)

end
