(* ===== verification/Pacing.thy ===== *)
theory Pacing
  imports Prelude
begin

text \<open>
  Clients that space their requests: \<open>_rate_limit\<close> of \<^verbatim>\<open>analytics/pae/data/yahoo.py\<close> and \<open>_pace\<close> of
  \<^verbatim>\<open>analytics/pae/data/edgar.py\<close>. Both read the clock, sleep when the last request is too recent, and read
  the clock again; the two readings of each call are arguments. The interface \<open>pacer\<close> is what the two have
  in common, and it bounds the requests in every window of time.
\<close>

section \<open>The two pacers\<close>

definition MIN_REQUEST_INTERVAL :: real where "MIN_REQUEST_INTERVAL = 5 / 10"
definition MIN_INTERVAL_SECONDS :: real where "MIN_INTERVAL_SECONDS = 11 / 100"

text \<open>How long to sleep, given the time of the last request and the first reading of the clock.\<close>

definition yahoo_sleep :: "real \<Rightarrow> real \<Rightarrow> real option" where
  "yahoo_sleep prev now =
     (let elapsed = now - prev
      in if elapsed < MIN_REQUEST_INTERVAL then Some (MIN_REQUEST_INTERVAL - elapsed) else None)"

definition edgar_sleep :: "real \<Rightarrow> real \<Rightarrow> real option" where
  "edgar_sleep prev now =
     (let wait = MIN_INTERVAL_SECONDS - (now - prev)
      in if wait > 0 then Some wait else None)"

text \<open>
  One call: the readings before and after the sleep. The time of the request is the second reading.
\<close>

type_synonym turn = "real \<times> real"

text \<open>
  What the standard library documents: \<open>sleep\<close> suspends for at least the given time, on a clock that
  does not go back.
\<close>

fun clock_ok :: "(real \<Rightarrow> real \<Rightarrow> real option) \<Rightarrow> real \<Rightarrow> turn list \<Rightarrow> bool" where
  "clock_ok pause prev [] = True"
| "clock_ok pause prev ((now, done_at) # ts) =
     (now + (case pause prev now of None \<Rightarrow> 0 | Some d \<Rightarrow> d) \<le> done_at \<and> clock_ok pause done_at ts)"

section \<open>The interface\<close>

text \<open>A pacer sleeps exactly when needed, and then long enough, to leave a gap after the last request.\<close>

locale pacer =
  fixes pause :: "real \<Rightarrow> real \<Rightarrow> real option"
    and gap :: real
  assumes gap_pos: "0 < gap"
    and sleeps: "pause prev now = Some d \<Longrightarrow> 0 < d \<and> now + d = prev + gap"
    and proceeds: "pause prev now = None \<Longrightarrow> prev + gap \<le> now"
begin

lemma turn_spaced:
  assumes "now + (case pause prev now of None \<Rightarrow> 0 | Some d \<Rightarrow> d) \<le> done_at"
  shows "prev + gap \<le> done_at"
  using assms by (auto split: option.splits dest: sleeps proceeds)

lemma request_spaced: "clock_ok pause prev ts \<Longrightarrow> i < length ts \<Longrightarrow> prev + (real i + 1) * gap \<le> snd (ts ! i)"
proof (induction ts arbitrary: prev i)
  case (Cons t ts)
  obtain now done_at where t: "t = (now, done_at)" by (cases t)
  from Cons.prems(1) have hd: "prev + gap \<le> done_at" and tl: "clock_ok pause done_at ts"
    using turn_spaced by (auto simp: t)
  show ?case
  proof (cases i)
    case 0
    with hd show ?thesis by (simp add: t)
  next
    case (Suc j)
    with Cons.prems(2) have "done_at + (real j + 1) * gap \<le> snd (ts ! j)" by (intro Cons.IH [OF tl]) simp
    with hd show ?thesis by (simp add: Suc t algebra_simps)
  qed
qed simp

lemma requests_spaced:
  "clock_ok pause prev ts \<Longrightarrow> i \<le> j \<Longrightarrow> j < length ts \<Longrightarrow> snd (ts ! i) + real (j - i) * gap \<le> snd (ts ! j)"
proof (induction ts arbitrary: prev i j)
  case (Cons t ts)
  obtain now done_at where t: "t = (now, done_at)" by (cases t)
  from Cons.prems(1) have tl: "clock_ok pause done_at ts" by (simp add: t)
  show ?case
  proof (cases i)
    case 0
    show ?thesis
    proof (cases j)
      case (Suc l)
      with Cons.prems(3) have "done_at + (real l + 1) * gap \<le> snd (ts ! l)"
        by (intro request_spaced [OF tl]) simp
      then show ?thesis by (simp add: 0 Suc t algebra_simps)
    qed (simp add: 0)
  next
    case (Suc k)
    with Cons.prems obtain l where l: "j = Suc l" "k \<le> l" "l < length ts" by (cases j) auto
    from Cons.IH [OF tl l(2,3)] show ?thesis by (simp add: Suc l)
  qed
qed simp

text \<open>No window shorter than \<open>n\<close> gaps holds more than \<open>n\<close> requests.\<close>

lemma window_bound:
  assumes ok: "clock_ok pause prev ts" and w: "w < real n * gap"
  shows "card {i. i < length ts \<and> s \<le> snd (ts ! i) \<and> snd (ts ! i) \<le> s + w} \<le> n"
proof (cases "{i. i < length ts \<and> s \<le> snd (ts ! i) \<and> snd (ts ! i) \<le> s + w} = {}")
  case True
  show ?thesis unfolding True by simp
next
  case False
  let ?A = "{i. i < length ts \<and> s \<le> snd (ts ! i) \<and> snd (ts ! i) \<le> s + w}"
  have fin: "finite ?A" by simp
  define m where "m = Min ?A"
  have m: "m \<in> ?A" unfolding m_def by (rule Min_in [OF fin False])
  have "?A \<subseteq> {m..<m + n}"
  proof
    fix i assume i: "i \<in> ?A"
    then have mi: "m \<le> i" unfolding m_def by (rule Min_le [OF fin])
    have "snd (ts ! m) + real (i - m) * gap \<le> snd (ts ! i)"
      using i by (intro requests_spaced [OF ok mi]) simp
    with i m have "real (i - m) * gap \<le> w" by simp
    with w have "real (i - m) * gap < real n * gap" by simp
    then have "i - m < n" using gap_pos by simp
    with mi show "i \<in> {m..<m + n}" by simp
  qed
  then have "card ?A \<le> card {m..<m + n}" by (intro card_mono) simp_all
  then show ?thesis by simp
qed

end

interpretation yahoo_pacer: pacer yahoo_sleep MIN_REQUEST_INTERVAL
  by unfold_locales (auto simp: yahoo_sleep_def MIN_REQUEST_INTERVAL_def Let_def split: if_splits)

interpretation edgar_pacer: pacer edgar_sleep MIN_INTERVAL_SECONDS
  by unfold_locales (auto simp: edgar_sleep_def MIN_INTERVAL_SECONDS_def Let_def split: if_splits)

section \<open>Sequences of turns\<close>

definition last_turn :: "real \<Rightarrow> turn list \<Rightarrow> real" where
  "last_turn prev ts = (if ts = [] then prev else snd (last ts))"

lemma clock_ok_append:
  "clock_ok pause prev (ts @ us) \<longleftrightarrow> clock_ok pause prev ts \<and> clock_ok pause (last_turn prev ts) us"
  by (induction pause prev ts rule: clock_ok.induct) (auto simp: last_turn_def)

lemma last_turn_append: "last_turn prev (ts @ us) = last_turn (last_turn prev ts) us"
  by (simp add: last_turn_def)

text \<open>The requests of a window of one second.\<close>

definition requests_within :: "real \<Rightarrow> turn list \<Rightarrow> nat" where
  "requests_within s ts = card {i. i < length ts \<and> s \<le> snd (ts ! i) \<and> snd (ts ! i) \<le> s + 1}"

lemma edgar_requests_within: "clock_ok edgar_sleep prev ts \<Longrightarrow> requests_within s ts \<le> 10"
  unfolding requests_within_def by (rule edgar_pacer.window_bound) (simp_all add: MIN_INTERVAL_SECONDS_def)

lemma yahoo_requests_within: "clock_ok yahoo_sleep prev ts \<Longrightarrow> requests_within s ts \<le> 3"
  unfolding requests_within_def by (rule yahoo_pacer.window_bound) (simp_all add: MIN_REQUEST_INTERVAL_def)

text \<open>
  The Yahoo client reads the wall clock: a step back makes it sleep for as long as the step, where
  EDGAR's reads the monotonic clock.
\<close>

lemma wall_clock_step_back: "0 \<le> step \<Longrightarrow> yahoo_sleep prev (prev - step) = Some (MIN_REQUEST_INTERVAL + step)"
  by (simp add: yahoo_sleep_def MIN_REQUEST_INTERVAL_def)

end
