(* ===== verification/Yahoo.thy ===== *)
theory Yahoo
  imports Cache Float_Text Pacing
begin

text \<open>
  \<^verbatim>\<open>analytics/pae/data/yahoo.py\<close>: quotes, price histories and instrument search with caching, retries and
  a minimal interval between requests. What yfinance answers to an attempt is an argument, with the
  readings of the clock around it: \<open>at_now\<close> before the sleep of the rate limit, and \<open>at_over\<close>, by how much
  the call overshoots it. The codec and the checksum of the cache are parameters. The field \<open>ya_log\<close>
  records requests and back-off sleeps; the code has no such field.
\<close>

section \<open>Data and errors\<close>

record quote_data =
  qd_symbol :: string
  qd_price :: pyfloat
  qd_currency :: pyval
  qd_change_pct :: pyfloat
  qd_volume :: int
  qd_market_cap :: pyval
  qd_name :: pyval
  qd_asset_type :: string
  qd_timestamp :: real

record price_history =
  ph_symbol :: string
  ph_dates :: "string list"
  ph_close_prices :: "pyfloat list"
  ph_returns :: "pyfloat list"
  ph_dividends :: "pyfloat list"
  ph_total_return :: pyfloat
  ph_annualized_return :: pyfloat
  ph_volatility :: pyfloat

text \<open>
  The ValueErrors of the guards, \<open>YahooError\<close> after the last retry with the text of the last exception,
  the other exceptions. \<open>QuoteUntyped\<close> stands for a cached value that this adapter did not write.
\<close>

datatype yahoo_exc =
    SymbolEmpty
  | InvalidPeriod string
  | InvalidInterval string
  | QueryEmpty
  | LimitOutOfRange int
  | RetriesExhausted string string
  | YahooPy py_exc
  | YahooCache cache_exc
  | QuoteUntyped

record yahoo_env =
  ye_sha :: "string \<Rightarrow> string"
  ye_loads :: "string \<Rightarrow> pyval option"
  ye_dumps :: "pyval \<Rightarrow> string option"

datatype yahoo_action = Sent turn | Backoff real

record yahoo =
  ya_cache :: data_cache
  ya_last :: real
  ya_log :: "yahoo_action list"

definition new_yahoo :: "data_cache \<Rightarrow> yahoo" where
  "new_yahoo c = \<lparr>ya_cache = c, ya_last = 0, ya_log = []\<rparr>"

section \<open>Rate limit and retries\<close>

definition MAX_RETRIES :: nat where "MAX_RETRIES = 3"
definition RETRY_BACKOFF :: real where "RETRY_BACKOFF = 2"

record 'raw attempt =
  at_now :: real
  at_over :: real
  at_answer :: "string + 'raw"

text \<open>\<open>_rate_limit\<close>: the two readings; the second is the new time of the last request.\<close>

definition rate_limit :: "real \<Rightarrow> 'raw attempt \<Rightarrow> turn" where
  "rate_limit prev a =
     (at_now a, at_now a + (case yahoo_sleep prev (at_now a) of None \<Rightarrow> 0 | Some d \<Rightarrow> d) + at_over a)"

text \<open>
  The loop of \<open>_fetch_with_retry\<close> from attempt \<open>n\<close> with \<open>k\<close> attempts left; \<open>check\<close> is the fetch function on
  the answer. The results are the value or the last error, what was done, and the last request time.
\<close>

fun retry_loop ::
  "(string + 'raw \<Rightarrow> string + 'v) \<Rightarrow> (nat \<Rightarrow> 'raw attempt) \<Rightarrow> nat \<Rightarrow> nat \<Rightarrow> string \<Rightarrow> real \<Rightarrow>
     (string + 'v) \<times> yahoo_action list \<times> real" where
  "retry_loop check tries 0 n err prev = (Inl err, [], prev)"
| "retry_loop check tries (Suc k) n err prev =
     (let t = rate_limit prev (tries n)
      in case check (at_answer (tries n)) of
           Inr v \<Rightarrow> (Inr v, [Sent t], snd t)
         | Inl e \<Rightarrow>
             let (r, acts, l) = retry_loop check tries k (n + 1) e (snd t)
             in (r, Sent t # (if n < MAX_RETRIES then [Backoff (RETRY_BACKOFF ^ n)] else []) @ acts, l))"

definition fetch_with_retry ::
  "(string + 'raw \<Rightarrow> string + 'v) \<Rightarrow> (nat \<Rightarrow> 'raw attempt) \<Rightarrow> string \<Rightarrow> real \<Rightarrow>
     (yahoo_exc + 'v) \<times> yahoo_action list \<times> real" where
  "fetch_with_retry check tries desc prev =
     (case retry_loop check tries MAX_RETRIES 1 [] prev of
        (Inl e, acts, l) \<Rightarrow> (Inl (RetriesExhausted desc e), acts, l)
      | (Inr v, acts, l) \<Rightarrow> (Inr v, acts, l))"

section \<open>Cached requests\<close>

text \<open>
  The pattern of the three methods: a hit of the cache is decoded and nothing is sent; otherwise the
  answer is fetched, built into the result and stored.
\<close>

definition missed :: "yahoo_env \<Rightarrow> real \<Rightarrow> string \<Rightarrow> data_cache \<Rightarrow> bool" where
  "missed env t k c =
     (case fst (cache_get (ye_sha env) (ye_loads env) t k c) of Inr None \<Rightarrow> True | _ \<Rightarrow> False)"

definition cached_request ::
  "yahoo_env \<Rightarrow> string \<Rightarrow> real \<Rightarrow> (pyval \<Rightarrow> yahoo_exc + 's) \<Rightarrow> (string + 'raw \<Rightarrow> string + 'v) \<Rightarrow>
     ('v \<Rightarrow> yahoo_exc + 's) \<Rightarrow> ('s \<Rightarrow> pyval) \<Rightarrow> string \<Rightarrow> (nat \<Rightarrow> 'raw attempt) \<Rightarrow> real \<Rightarrow> real \<Rightarrow> yahoo \<Rightarrow>
     (yahoo_exc + 's) \<times> yahoo" where
  "cached_request env k ttl decode check build encode desc tries t t2 y =
     (let (fetched, acts, l) = fetch_with_retry check tries desc (ya_last y);
          (out, c) = through_cache (ye_sha env) (ye_loads env) (ye_dumps env) YahooCache ttl ''yahoo'' k t t2
                       decode (rbind fetched build) encode (ya_cache y)
      in (out, if missed env t k (ya_cache y)
               then y\<lparr>ya_cache := c, ya_last := l, ya_log := ya_log y @ acts\<rparr>
               else y\<lparr>ya_cache := c\<rparr>))"

definition lift_yahoo :: "py_exc + 'a \<Rightarrow> yahoo_exc + 'a" where
  "lift_yahoo r = (case r of Inl e \<Rightarrow> Inl (YahooPy e) | Inr a \<Rightarrow> Inr a)"

section \<open>Quotes\<close>

definition TTL_QUOTES :: real where "TTL_QUOTES = 300"
definition TTL_DAILY_PRICES :: real where "TTL_DAILY_PRICES = 3600"
definition TTL_METADATA :: real where "TTL_METADATA = 604800"

type_synonym info = "(string \<times> pyval) list"

text \<open>\<open>int(v)\<close>: towards zero for a float, the integer literal of a text.\<close>

definition int_of_text :: "string \<Rightarrow> int option" where
  "int_of_text text =
     (let (neg, s) = split_sign (strip text)
      in case digit_part s of
           None \<Rightarrow> None
         | Some ds \<Rightarrow> if length ds > 4300 then None
             else Some (if neg then - int (parse_dec ds) else int (parse_dec ds)))"

fun int_of_value :: "pyval \<Rightarrow> py_exc + int" where
  "int_of_value (VInt n) = Inr n"
| "int_of_value (VBool b) = Inr (if b then 1 else 0)"
| "int_of_value (VFloat (Fin x)) = Inr (if x < 0 then \<lceil>x\<rceil> else \<lfloor>x\<rfloor>)"
| "int_of_value (VFloat NaN) = Inl ValueError"
| "int_of_value (VFloat _) = Inl OverflowError"
| "int_of_value (VStr s) = (case int_of_text s of None \<Rightarrow> Inl ValueError | Some n \<Rightarrow> Inr n)"
| "int_of_value _ = Inl TypeError"

definition info_get :: "info \<Rightarrow> string \<Rightarrow> pyval \<Rightarrow> pyval" where
  "info_get d k v = (case map_of d k of None \<Rightarrow> v | Some x \<Rightarrow> x)"

definition asset_type_map :: "(string \<times> string) list" where
  "asset_type_map =
    [(''EQUITY'', ''equity''), (''ETF'', ''etf''), (''MUTUALFUND'', ''fund''), (''FUTURE'', ''commodity''),
     (''CURRENCY'', ''forex''), (''CRYPTOCURRENCY'', ''crypto''), (''INDEX'', ''index'')]"

text \<open>The fetch function: an answer without a price is an error like any other, and retried.\<close>

definition quote_info :: "string \<Rightarrow> string + info \<Rightarrow> string + info" where
  "quote_info sy answer =
     (case answer of
        Inl e \<Rightarrow> Inl e
      | Inr d \<Rightarrow> if map_of d ''regularMarketPrice'' = None
                then Inl (''No quote data available for '' @ sy) else Inr d)"

definition quote_of :: "string \<Rightarrow> real \<Rightarrow> info \<Rightarrow> py_exc + quote_data" where
  "quote_of sy t d =
     rbind (case info_get d ''quoteType'' (VStr ''EQUITY'') of VStr s \<Rightarrow> Inr (upper s) | _ \<Rightarrow> Inl AttributeError) (\<lambda>qt.
     rbind (float_of_value (info_get d ''regularMarketPrice'' (VFloat (Fin 0)))) (\<lambda>price.
     rbind (float_of_value (info_get d ''regularMarketChangePercent'' (VFloat (Fin 0)))) (\<lambda>change.
     rbind (int_of_value (info_get d ''regularMarketVolume'' (VInt 0))) (\<lambda>vol.
     Inr \<lparr>qd_symbol = sy, qd_price = price, qd_currency = info_get d ''currency'' (VStr ''USD''),
          qd_change_pct = change, qd_volume = vol, qd_market_cap = info_get d ''marketCap'' VNone,
          qd_name = info_get d ''shortName'' (info_get d ''longName'' (VStr sy)),
          qd_asset_type = (case map_of asset_type_map qt of None \<Rightarrow> ''equity'' | Some a \<Rightarrow> a),
          qd_timestamp = t\<rparr>))))"

definition encode_quote :: "quote_data \<Rightarrow> pyval" where
  "encode_quote q = VDict [(''symbol'', VStr (qd_symbol q)), (''price'', VFloat (qd_price q)),
     (''currency'', qd_currency q), (''change_pct'', VFloat (qd_change_pct q)), (''volume'', VInt (qd_volume q)),
     (''market_cap'', qd_market_cap q), (''name'', qd_name q), (''asset_type'', VStr (qd_asset_type q)),
     (''timestamp'', VFloat (Fin (qd_timestamp q)))]"

definition decode_quote :: "pyval \<Rightarrow> yahoo_exc + quote_data" where
  "decode_quote v =
     (case v of
        VDict [(''symbol'', VStr sy), (''price'', VFloat p), (''currency'', cur), (''change_pct'', VFloat ch),
               (''volume'', VInt n), (''market_cap'', cap), (''name'', nm), (''asset_type'', VStr ty),
               (''timestamp'', VFloat (Fin t))] \<Rightarrow>
          Inr \<lparr>qd_symbol = sy, qd_price = p, qd_currency = cur, qd_change_pct = ch, qd_volume = n,
               qd_market_cap = cap, qd_name = nm, qd_asset_type = ty, qd_timestamp = t\<rparr>
      | _ \<Rightarrow> Inl QuoteUntyped)"

definition yahoo_get_quote ::
  "yahoo_env \<Rightarrow> (nat \<Rightarrow> info attempt) \<Rightarrow> real \<Rightarrow> real \<Rightarrow> real \<Rightarrow> string \<Rightarrow> yahoo \<Rightarrow>
     (yahoo_exc + quote_data) \<times> yahoo" where
  "yahoo_get_quote env tries t t1 t2 sym0 y =
     (if blank sym0 then (Inl SymbolEmpty, y)
      else let sy = upper (strip sym0)
           in cached_request env (''yahoo:quote:'' @ sy) TTL_QUOTES decode_quote (quote_info sy)
                (\<lambda>d. lift_yahoo (quote_of sy t1 d)) encode_quote (''Quote for '' @ sy) tries t t2 y)"

section \<open>Price histories\<close>

text \<open>The table of yfinance: one date and close for each row, and the dividends when it has them.\<close>

record hist =
  hi_dates :: "string list"
  hi_close :: "pyfloat list"
  hi_dividends :: "pyfloat list option"

text \<open>numpy's division does not raise.\<close>

definition np_div :: "pyfloat \<Rightarrow> pyfloat \<Rightarrow> pyfloat" where
  "np_div a b =
     (case fl_div a b of
        Inr q \<Rightarrow> q
      | Inl _ \<Rightarrow> if a = Fin 0 \<or> a = NaN then NaN else fl_inf (fl_negative a))"

definition zero_unless_finite :: "pyfloat \<Rightarrow> pyfloat" where
  "zero_unless_finite x = (if is_finite x then x else Fin 0)"

fun step_returns :: "pyfloat list \<Rightarrow> pyfloat list" where
  "step_returns (a # b # cs) = zero_unless_finite (np_div (fl_sub b a) a) # step_returns (b # cs)"
| "step_returns _ = []"

definition periods_per_year :: "string \<Rightarrow> nat" where
  "periods_per_year interval =
     (if interval = ''1d'' then 252 else if interval = ''1wk'' then 52 else if interval = ''1mo'' then 12 else 252)"

text \<open>\<open>x ** (p / n)\<close> under \<open>float\<close>: a negative base with a fractional exponent is a complex number.\<close>

definition frac_power :: "real \<Rightarrow> nat \<Rightarrow> nat \<Rightarrow> py_exc + real" where
  "frac_power x p n =
     (if 0 \<le> x then Inr (x powr (real p / real n))
      else if n dvd p then Inr (x ^ (p div n)) else Inl TypeError)"

definition sample_std :: "real list \<Rightarrow> real" where
  "sample_std xs =
     (let m = sum_list xs / real (length xs)
      in sqrt (sum_list (map (\<lambda>x. (x - m)\<^sup>2) xs) / real (length xs - 1)))"

text \<open>Total return, annualised return and volatility of the cleaned returns.\<close>

definition summary_stats :: "string \<Rightarrow> real list \<Rightarrow> py_exc + (real \<times> real \<times> real)" where
  "summary_stats interval rs =
     (if length rs \<ge> 2
      then let tot = prod_list (map (\<lambda>r. 1 + r) rs) - 1; ppy = periods_per_year interval
           in rbind (frac_power (1 + tot) ppy (length rs)) (\<lambda>g.
                Inr (tot, g - 1, sample_std rs * sqrt (real ppy)))
      else Inr (0, 0, 0))"

definition history_of :: "string \<Rightarrow> string \<Rightarrow> hist \<Rightarrow> py_exc + price_history" where
  "history_of sy interval h =
     (let rs = step_returns (hi_close h)
      in rbind (summary_stats interval (map the_fin rs)) (\<lambda>(tot, ann, vol).
           Inr \<lparr>ph_symbol = sy, ph_dates = hi_dates h, ph_close_prices = hi_close h, ph_returns = rs,
                ph_dividends = (case hi_dividends h of
                    None \<Rightarrow> replicate (length (hi_dates h)) (Fin 0) | Some ds \<Rightarrow> ds),
                ph_total_return = Fin (py_round tot 6), ph_annualized_return = Fin (py_round ann 6),
                ph_volatility = Fin (py_round vol 6)\<rparr>))"

definition history_rows :: "string \<Rightarrow> string + hist \<Rightarrow> string + hist" where
  "history_rows sy answer =
     (case answer of
        Inl e \<Rightarrow> Inl e
      | Inr h \<Rightarrow> if hi_dates h = [] then Inl (''No price history available for '' @ sy) else Inr h)"

definition encode_history :: "price_history \<Rightarrow> pyval" where
  "encode_history p = VDict [(''symbol'', VStr (ph_symbol p)), (''dates'', VList (map VStr (ph_dates p))),
     (''close_prices'', VList (map VFloat (ph_close_prices p))), (''returns'', VList (map VFloat (ph_returns p))),
     (''dividends'', VList (map VFloat (ph_dividends p))), (''total_return'', VFloat (ph_total_return p)),
     (''annualized_return'', VFloat (ph_annualized_return p)), (''volatility'', VFloat (ph_volatility p))]"

definition decode_history :: "pyval \<Rightarrow> yahoo_exc + price_history" where
  "decode_history v =
     (case v of
        VDict [(''symbol'', VStr sy), (''dates'', VList ds), (''close_prices'', VList cs), (''returns'', VList rs),
               (''dividends'', VList dv), (''total_return'', VFloat tot), (''annualized_return'', VFloat ann),
               (''volatility'', VFloat vol)] \<Rightarrow>
          (case (strings_of ds, floats_in cs, floats_in rs, floats_in dv) of
             (Some ds', Some cs', Some rs', Some dv') \<Rightarrow>
               Inr \<lparr>ph_symbol = sy, ph_dates = ds', ph_close_prices = cs', ph_returns = rs', ph_dividends = dv',
                    ph_total_return = tot, ph_annualized_return = ann, ph_volatility = vol\<rparr>
           | _ \<Rightarrow> Inl QuoteUntyped)
      | _ \<Rightarrow> Inl QuoteUntyped)"

definition valid_periods :: "string list" where
  "valid_periods = [''1mo'', ''3mo'', ''6mo'', ''1y'', ''2y'', ''5y'', ''10y'', ''max'']"

definition valid_intervals :: "string list" where
  "valid_intervals = [''1d'', ''1wk'', ''1mo'']"

definition yahoo_get_history ::
  "yahoo_env \<Rightarrow> (nat \<Rightarrow> hist attempt) \<Rightarrow> real \<Rightarrow> real \<Rightarrow> string \<Rightarrow> string \<Rightarrow> string \<Rightarrow> yahoo \<Rightarrow>
     (yahoo_exc + price_history) \<times> yahoo" where
  "yahoo_get_history env tries t t2 sym0 period interval y =
     (if blank sym0 then (Inl SymbolEmpty, y)
      else let sy = upper (strip sym0)
           in if period \<notin> set valid_periods then (Inl (InvalidPeriod period), y)
              else if interval \<notin> set valid_intervals then (Inl (InvalidInterval interval), y)
              else cached_request env (''yahoo:history:'' @ sy @ '':'' @ period @ '':'' @ interval) TTL_DAILY_PRICES
                     decode_history (history_rows sy) (\<lambda>h. lift_yahoo (history_of sy interval h)) encode_history
                     (''History for '' @ sy) tries t t2 y)"

section \<open>Search\<close>

text \<open>
  The fetch function of the search catches every exception: a failed request is a search without
  results, which is stored as such.
\<close>

definition search_entry :: "string \<Rightarrow> info \<Rightarrow> pyval" where
  "search_entry query d =
     VDict [(''symbol'', VStr (upper (strip query))), (''name'', info_get d ''shortName'' (VStr [])),
            (''type'', info_get d ''quoteType'' (VStr ''EQUITY'')), (''exchange'', info_get d ''exchange'' (VStr []))]"

definition search_results :: "string \<Rightarrow> string + info \<Rightarrow> string + pyval list" where
  "search_results query answer =
     Inr (case answer of
            Inl _ \<Rightarrow> []
          | Inr d \<Rightarrow> if map_of d ''shortName'' = None then [] else [search_entry query d])"

definition search_key :: "string \<Rightarrow> int \<Rightarrow> string" where
  "search_key query limit = ''yahoo:search:'' @ lower (strip query) @ '':'' @ dec_int limit"

definition yahoo_search ::
  "yahoo_env \<Rightarrow> (nat \<Rightarrow> info attempt) \<Rightarrow> real \<Rightarrow> real \<Rightarrow> string \<Rightarrow> int \<Rightarrow> yahoo \<Rightarrow> (yahoo_exc + pyval) \<times> yahoo" where
  "yahoo_search env tries t t2 query limit y =
     (if blank query then (Inl QueryEmpty, y)
      else if limit < 1 \<or> limit > 50 then (Inl (LimitOutOfRange limit), y)
      else cached_request env (search_key query limit) TTL_METADATA (\<lambda>v. Inr v) (search_results query)
             (\<lambda>rs. Inr (VList rs)) (\<lambda>v. v) (''Search for '' @ query) tries t t2 y)"

section \<open>Sequences of calls\<close>

text \<open>A call of the adapter, with the readings and the answers that it meets.\<close>

datatype yahoo_call =
    CallQuote "nat \<Rightarrow> info attempt" real real real string
  | CallHistory "nat \<Rightarrow> hist attempt" real real string string string
  | CallSearch "nat \<Rightarrow> info attempt" real real string int

fun yahoo_step :: "yahoo_env \<Rightarrow> yahoo_call \<Rightarrow> yahoo \<Rightarrow> yahoo" where
  "yahoo_step env (CallQuote tries t t1 t2 sy) y = snd (yahoo_get_quote env tries t t1 t2 sy y)"
| "yahoo_step env (CallHistory tries t t2 sy period interval) y =
     snd (yahoo_get_history env tries t t2 sy period interval y)"
| "yahoo_step env (CallSearch tries t t2 query limit) y = snd (yahoo_search env tries t t2 query limit y)"

definition yahoo_run :: "yahoo_env \<Rightarrow> yahoo_call list \<Rightarrow> yahoo \<Rightarrow> yahoo" where
  "yahoo_run env calls y = fold (yahoo_step env) calls y"

end
