(* ===== verification/Edgar.thy ===== *)
theory Edgar
  imports Yahoo Sources
begin

text \<open>
  \<^verbatim>\<open>analytics/pae/data/edgar.py\<close>: company identifiers and XBRL facts from SEC EDGAR, with caching and the
  fair-access interval. What the network answers is an argument of each call, with the readings of the
  clock as in Yahoo; \<open>se_str\<close> of the environment is \<open>str\<close> of a value that is no text. The time of the last
  request, a global variable of the module, is a field of the state; \<open>ed_turns\<close> records the requests,
  which the code does not.
\<close>

section \<open>Data, state and requests\<close>

record fact_point =
  fp_end :: string
  fp_value :: pyfloat
  fp_form :: string
  fp_filed :: string

record company_facts =
  cf_cik :: int
  cf_entity_name :: string
  cf_facts :: "(string \<times> fact_point list) list"
  cf_source :: string

text \<open>The decoded document; an error that the request function catches; a body that is not UTF-8.\<close>

datatype edgar_answer = Document pyval | RequestError string | NotUtf8

datatype edgar_exc =
    EdgarFailed string string
  | TickerUnknown string
  | EdgarPy py_exc
  | EdgarCache cache_exc

record edgar =
  ed_cache :: data_cache
  ed_last :: real
  ed_turns :: "turn list"

record edgar_request =
  er_now :: real
  er_over :: real
  er_answer :: edgar_answer

definition EDGAR_BASE :: string where "EDGAR_BASE = ''https://data.sec.gov''"
definition TICKERS_URL :: string where "TICKERS_URL = ''https://www.sec.gov/files/company_tickers.json''"
definition TTL_FACTS :: real where "TTL_FACTS = 86400"

definition new_edgar :: "data_cache \<Rightarrow> edgar" where
  "new_edgar c = \<lparr>ed_cache = c, ed_last = 0, ed_turns = []\<rparr>"

definition edgar_pace :: "real \<Rightarrow> edgar_request \<Rightarrow> turn" where
  "edgar_pace prev r =
     (er_now r, er_now r + (case edgar_sleep prev (er_now r) of None \<Rightarrow> 0 | Some d \<Rightarrow> d) + er_over r)"

text \<open>A failed decoding raises UnicodeDecodeError, a ValueError that \<open>_get_json\<close> does not catch.\<close>

definition edgar_get_json :: "edgar_request \<Rightarrow> string \<Rightarrow> edgar_exc + pyval" where
  "edgar_get_json r url =
     (case er_answer r of
        Document v \<Rightarrow> Inr v
      | RequestError e \<Rightarrow> Inl (EdgarFailed url e)
      | NotUtf8 \<Rightarrow> Inl (EdgarPy ValueError))"

definition lift_edgar :: "py_exc + 'a \<Rightarrow> edgar_exc + 'a" where
  "lift_edgar r = (case r of Inl e \<Rightarrow> Inl (EdgarPy e) | Inr a \<Rightarrow> Inr a)"

text \<open>A read through the cache; on a miss the request is paced and sent.\<close>

definition edgar_cached ::
  "source_env \<Rightarrow> string \<Rightarrow> string \<Rightarrow> (pyval \<Rightarrow> py_exc + 's) \<Rightarrow> (pyval \<Rightarrow> py_exc + 's) \<Rightarrow> ('s \<Rightarrow> pyval) \<Rightarrow>
     edgar_request \<Rightarrow> real \<Rightarrow> real \<Rightarrow> edgar \<Rightarrow> (edgar_exc + 's) \<times> edgar" where
  "edgar_cached env k url decode parse encode r t t2 s =
     (let (out, c) = through_cache (se_sha env) (se_loads env) (se_dumps env) EdgarCache TTL_FACTS ''sec-edgar''
                       k t t2 (\<lambda>v. lift_edgar (decode v))
                       (rbind (edgar_get_json r url) (\<lambda>v. lift_edgar (parse v))) encode (ed_cache s);
          turn = edgar_pace (ed_last s) r
      in (out, case fst (cache_get (se_sha env) (se_loads env) t k (ed_cache s)) of
                 Inr None \<Rightarrow> s\<lparr>ed_cache := c, ed_last := snd turn, ed_turns := ed_turns s @ [turn]\<rparr>
               | _ \<Rightarrow> s\<lparr>ed_cache := c\<rparr>))"

section \<open>Identifiers\<close>

fun dict_values :: "pyval \<Rightarrow> py_exc + pyval list" where
  "dict_values (VDict d) = Inr (map snd d)"
| "dict_values _ = Inl AttributeError"

fun dict_items :: "pyval \<Rightarrow> py_exc + (string \<times> pyval) list" where
  "dict_items (VDict d) = Inr d"
| "dict_items _ = Inl AttributeError"

text \<open>\<open>{row["ticker"].upper(): int(row["cik_str"]) for row in rows.values()}\<close>.\<close>

fun cik_rows :: "pyval list \<Rightarrow> (string \<times> pyval) list \<Rightarrow> py_exc + (string \<times> pyval) list" where
  "cik_rows [] m = Inr m"
| "cik_rows (row # rows) m =
     rbind (py_item row ''ticker'') (\<lambda>tk.
     rbind (case tk of VStr s \<Rightarrow> Inr (upper s) | _ \<Rightarrow> Inl AttributeError) (\<lambda>name.
     rbind (py_item row ''cik_str'') (\<lambda>ck.
     rbind (int_of_value ck) (\<lambda>n.
     cik_rows rows (dict_set m name (VInt n))))))"

definition cik_mapping :: "pyval \<Rightarrow> py_exc + pyval" where
  "cik_mapping rows = rbind (dict_values rows) (\<lambda>vs. rbind (cik_rows vs []) (\<lambda>m. Inr (VDict m)))"

definition resolve_cik :: "source_env \<Rightarrow> edgar_request \<Rightarrow> real \<Rightarrow> real \<Rightarrow> string \<Rightarrow> edgar \<Rightarrow> (edgar_exc + int) \<times> edgar" where
  "resolve_cik env r t t2 tk s =
     (let name = upper (strip tk);
          (mapping, s') = edgar_cached env ''edgar:tickers'' TICKERS_URL (\<lambda>v. Inr v) cik_mapping (\<lambda>v. v) r t t2 s
      in (rbind mapping (\<lambda>m.
            case py_item m name of
              Inl KeyError \<Rightarrow> Inl (TickerUnknown name)
            | Inl e \<Rightarrow> Inl (EdgarPy e)
            | Inr v \<Rightarrow> lift_edgar (int_of_value v)), s'))"

section \<open>Company facts\<close>

text \<open>\<open>f"{n:010d}"\<close>: at least ten characters, the sign in front of the zeros.\<close>

definition pad10 :: "int \<Rightarrow> string" where
  "pad10 n =
     (let ds = dec (nat \<bar>n\<bar>); w = (if n < 0 then 9 else 10)
      in (if n < 0 then ''-'' else []) @ replicate (w - length ds) CHR ''0'' @ ds)"

text \<open>\<open>"val" in item\<close>.\<close>

fun has_val :: "pyval \<Rightarrow> py_exc + bool" where
  "has_val (VDict d) = Inr (map_of d ''val'' \<noteq> None)"
| "has_val (VList vs) = Inr (VStr ''val'' \<in> set vs)"
| "has_val (VStr s) = Inr (str_in ''val'' s)"
| "has_val _ = Inl TypeError"

definition fact_of :: "(pyval \<Rightarrow> string) \<Rightarrow> pyval \<Rightarrow> py_exc + fact_point" where
  "fact_of st item =
     rbind (py_get item ''end'' (VStr [])) (\<lambda>en.
     rbind (py_item item ''val'') (\<lambda>v.
     rbind (float_of_value v) (\<lambda>x.
     rbind (py_get item ''form'' (VStr [])) (\<lambda>fm.
     rbind (py_get item ''filed'' (VStr [])) (\<lambda>fd.
     Inr \<lparr>fp_end = text_of st en, fp_value = x, fp_form = text_of st fm, fp_filed = text_of st fd\<rparr>)))))"

fun fact_points :: "(pyval \<Rightarrow> string) \<Rightarrow> pyval list \<Rightarrow> py_exc + fact_point list" where
  "fact_points st [] = Inr []"
| "fact_points st (item # items) =
     rbind (has_val item) (\<lambda>b.
     if b then rbind (fact_of st item) (\<lambda>p. rbind (fact_points st items) (\<lambda>ps. Inr (p # ps)))
     else fact_points st items)"

text \<open>The USD facts, or those of the first unit.\<close>

definition unit_series :: "pyval \<Rightarrow> py_exc + pyval" where
  "unit_series units =
     rbind (py_get units ''USD'' VNone) (\<lambda>usd.
     if truthy usd then Inr usd
     else rbind (dict_values units) (\<lambda>vs. Inr (case vs of [] \<Rightarrow> VList [] | v # _ \<Rightarrow> v)))"

fun concept_facts ::
  "(pyval \<Rightarrow> string) \<Rightarrow> (string \<times> pyval) list \<Rightarrow> (string \<times> fact_point list) list \<Rightarrow>
     py_exc + (string \<times> fact_point list) list" where
  "concept_facts st [] m = Inr m"
| "concept_facts st ((concept, payload) # rest) m =
     rbind (py_get payload ''units'' (VDict [])) (\<lambda>units.
     rbind (unit_series units) (\<lambda>series.
     rbind (iter_value series) (\<lambda>items.
     rbind (fact_points st items) (\<lambda>ps.
     concept_facts st rest (if ps = [] then m else dict_set m concept ps)))))"

definition parse_facts :: "(pyval \<Rightarrow> string) \<Rightarrow> int \<Rightarrow> string \<Rightarrow> pyval \<Rightarrow> py_exc + company_facts" where
  "parse_facts st cik taxonomy raw =
     rbind (py_get raw ''facts'' (VDict [])) (\<lambda>fs.
     rbind (py_get fs taxonomy (VDict [])) (\<lambda>tx.
     rbind (dict_items tx) (\<lambda>items.
     rbind (concept_facts st items []) (\<lambda>m.
     rbind (py_get raw ''entityName'' (VStr [])) (\<lambda>nm.
     Inr \<lparr>cf_cik = cik, cf_entity_name = text_of st nm, cf_facts = m, cf_source = ''sec-edgar''\<rparr>)))))"

definition point_to_dict :: "fact_point \<Rightarrow> pyval" where
  "point_to_dict p = VDict [(''end'', VStr (fp_end p)), (''value'', VFloat (fp_value p)),
     (''form'', VStr (fp_form p)), (''filed'', VStr (fp_filed p))]"

definition facts_to_dict :: "company_facts \<Rightarrow> pyval" where
  "facts_to_dict f = VDict [(''cik'', VInt (cf_cik f)), (''entity_name'', VStr (cf_entity_name f)),
     (''source'', VStr (cf_source f)),
     (''facts'', VDict (map (\<lambda>(concept, ps). (concept, VList (map point_to_dict ps))) (cf_facts f)))]"

definition point_from_dict :: "(pyval \<Rightarrow> string) \<Rightarrow> pyval \<Rightarrow> py_exc + fact_point" where
  "point_from_dict st p =
     rbind (py_item p ''end'') (\<lambda>en.
     rbind (py_item p ''value'') (\<lambda>v.
     rbind (float_of_value v) (\<lambda>x.
     rbind (py_get p ''form'' (VStr [])) (\<lambda>fm.
     rbind (py_get p ''filed'' (VStr [])) (\<lambda>fd.
     Inr \<lparr>fp_end = text_of st en, fp_value = x, fp_form = text_of st fm, fp_filed = text_of st fd\<rparr>)))))"

fun concepts_from_dict ::
  "(pyval \<Rightarrow> string) \<Rightarrow> (string \<times> pyval) list \<Rightarrow> (string \<times> fact_point list) list \<Rightarrow>
     py_exc + (string \<times> fact_point list) list" where
  "concepts_from_dict st [] m = Inr m"
| "concepts_from_dict st ((concept, v) # rest) m =
     rbind (iter_value v) (\<lambda>ps.
     rbind (traverse (point_from_dict st) ps) (\<lambda>fs.
     concepts_from_dict st rest (dict_set m concept fs)))"

definition facts_from_dict :: "(pyval \<Rightarrow> string) \<Rightarrow> pyval \<Rightarrow> py_exc + company_facts" where
  "facts_from_dict st data =
     rbind (py_item data ''cik'') (\<lambda>ck.
     rbind (int_of_value ck) (\<lambda>n.
     rbind (py_get data ''entity_name'' (VStr [])) (\<lambda>nm.
     rbind (py_get data ''source'' (VStr ''sec-edgar'')) (\<lambda>src.
     rbind (py_get data ''facts'' (VDict [])) (\<lambda>fs.
     rbind (dict_items fs) (\<lambda>items.
     rbind (concepts_from_dict st items []) (\<lambda>m.
     Inr \<lparr>cf_cik = n, cf_entity_name = text_of st nm, cf_facts = m, cf_source = text_of st src\<rparr>)))))))"

definition facts_key :: "int \<Rightarrow> string \<Rightarrow> string" where
  "facts_key cik taxonomy = ''edgar:facts:'' @ dec_int cik @ '':'' @ taxonomy"

definition facts_url :: "int \<Rightarrow> string" where
  "facts_url cik = EDGAR_BASE @ ''/api/xbrl/companyfacts/CIK'' @ pad10 cik @ ''.json''"

definition edgar_company_facts ::
  "source_env \<Rightarrow> edgar_request \<Rightarrow> real \<Rightarrow> real \<Rightarrow> int \<Rightarrow> string \<Rightarrow> edgar \<Rightarrow> (edgar_exc + company_facts) \<times> edgar" where
  "edgar_company_facts env r t t2 cik taxonomy s =
     edgar_cached env (facts_key cik taxonomy) (facts_url cik) (facts_from_dict (se_str env))
       (parse_facts (se_str env) cik taxonomy) facts_to_dict r t t2 s"

section \<open>Sequences of calls\<close>

datatype edgar_call =
    CallResolve edgar_request real real string
  | CallFacts edgar_request real real int string

fun edgar_step :: "source_env \<Rightarrow> edgar_call \<Rightarrow> edgar \<Rightarrow> edgar" where
  "edgar_step env (CallResolve r t t2 tk) s = snd (resolve_cik env r t t2 tk s)"
| "edgar_step env (CallFacts r t t2 cik taxonomy) s = snd (edgar_company_facts env r t t2 cik taxonomy s)"

definition edgar_run :: "source_env \<Rightarrow> edgar_call list \<Rightarrow> edgar \<Rightarrow> edgar" where
  "edgar_run env calls s = fold (edgar_step env) calls s"

end
