(* ===== verification/Providers_Correct.thy ===== *)
theory Providers_Correct
  imports Edgar
begin

text \<open>
  The correctness of the clients of \<^verbatim>\<open>analytics/pae/data/yahoo.py\<close> and \<^verbatim>\<open>analytics/pae/data/edgar.py\<close>:
  retries end, requests are spaced, histories are summarised correctly, and answers are cached.
\<close>

section \<open>Retries\<close>

definition turns_of :: "yahoo_action list \<Rightarrow> turn list" where
  "turns_of acts = List.map_filter (\<lambda>a. case a of Sent t \<Rightarrow> Some t | Backoff _ \<Rightarrow> None) acts"

definition waits_of :: "yahoo_action list \<Rightarrow> real list" where
  "waits_of acts = List.map_filter (\<lambda>a. case a of Sent _ \<Rightarrow> None | Backoff d \<Rightarrow> Some d) acts"

lemma turns_of_simps [simp]:
  "turns_of [] = []" "turns_of (Sent t # acts) = t # turns_of acts" "turns_of (Backoff d # acts) = turns_of acts"
  "turns_of (acts @ acts') = turns_of acts @ turns_of acts'"
  by (simp_all add: turns_of_def List.map_filter_def)

lemma waits_of_simps [simp]:
  "waits_of [] = []" "waits_of (Sent t # acts) = waits_of acts" "waits_of (Backoff d # acts) = d # waits_of acts"
  by (simp_all add: waits_of_def List.map_filter_def)

definition attempt_ok :: "(string + 'raw \<Rightarrow> string + 'v) \<Rightarrow> (nat \<Rightarrow> 'raw attempt) \<Rightarrow> nat \<Rightarrow> bool" where
  "attempt_ok check tries n = (case check (at_answer (tries n)) of Inl _ \<Rightarrow> False | Inr _ \<Rightarrow> True)"

text \<open>C34: a fetch always returns, after one, two or three attempts: with the value of the first attempt that
  succeeds, or, when all three fail, with \<open>YahooError\<close> and the error of the third. Between the attempts it
  waits two and then four seconds, and after the last one not at all.\<close>

theorem retry_returns:
  "\<exists>r acts l. fetch_with_retry check tries desc prev = (r, acts, l) \<and>
     r = (case check (at_answer (tries 1)) of Inr v \<Rightarrow> Inr v | Inl _ \<Rightarrow>
          case check (at_answer (tries 2)) of Inr v \<Rightarrow> Inr v | Inl _ \<Rightarrow>
          case check (at_answer (tries 3)) of Inr v \<Rightarrow> Inr v | Inl e \<Rightarrow> Inl (RetriesExhausted desc e)) \<and>
     length (turns_of acts) = (if attempt_ok check tries 1 then 1 else if attempt_ok check tries 2 then 2 else 3) \<and>
     waits_of acts = take (length (turns_of acts) - 1) [2, 4]"
proof -
  have three: "MAX_RETRIES = Suc (Suc (Suc 0))" by (simp add: MAX_RETRIES_def)
  show ?thesis
    by (cases "check (at_answer (tries 1))"; cases "check (at_answer (tries 2))"; cases "check (at_answer (tries 3))")
      (simp_all add: fetch_with_retry_def three attempt_ok_def RETRY_BACKOFF_def Let_def numeral_2_eq_2 numeral_3_eq_3)
qed

section \<open>Spacing\<close>

text \<open>The invariant: the recorded requests kept the interval, and the last one is remembered.\<close>

definition yahoo_paced :: "yahoo \<Rightarrow> bool" where
  "yahoo_paced y =
     (clock_ok yahoo_sleep 0 (turns_of (ya_log y)) \<and> ya_last y = last_turn 0 (turns_of (ya_log y)))"

text \<open>The documented behaviour of the clock: a sleep lasts at least as long as asked.\<close>

definition honest :: "(nat \<Rightarrow> 'raw attempt) \<Rightarrow> bool" where
  "honest tries = (\<forall>n. 0 \<le> at_over (tries n))"

lemma last_turn_Cons: "last_turn prev (t # ts) = last_turn (snd t) ts"
  by (simp add: last_turn_def)

lemma clock_ok_rate_limit:
  "0 \<le> at_over a \<Longrightarrow>
   clock_ok yahoo_sleep prev (rate_limit prev a # ts) = clock_ok yahoo_sleep (snd (rate_limit prev a)) ts"
  by (simp add: rate_limit_def)

lemma turns_of_backoff: "turns_of (if b then [Backoff d] else []) = []"
  by simp

lemma retry_loop_paced:
  assumes "honest tries"
  shows "retry_loop check tries k n err prev = (r, acts, l) \<Longrightarrow>
    clock_ok yahoo_sleep prev (turns_of acts) \<and> l = last_turn prev (turns_of acts) \<and> length (turns_of acts) \<le> k"
proof (induction k arbitrary: n err prev r acts l)
  case (Suc k)
  let ?t = "rate_limit prev (tries n)"
  have over: "0 \<le> at_over (tries n)" using assms by (simp add: honest_def)
  show ?case
  proof (cases "check (at_answer (tries n))")
    case (Inl e)
    obtain r' acts' l' where rest: "retry_loop check tries k (n + 1) e (snd ?t) = (r', acts', l')"
      by (cases "retry_loop check tries k (n + 1) e (snd ?t)")
    with Suc.prems have "acts = Sent ?t # (if n < MAX_RETRIES then [Backoff (RETRY_BACKOFF ^ n)] else []) @ acts'"
      and "l = l'" by (simp_all add: Inl Let_def del: append_Nil split: prod.splits)
    then have "turns_of acts = ?t # turns_of acts'" and "l = l'"
      by (simp_all only: turns_of_simps turns_of_backoff append_Nil)
    with Suc.IH [OF rest] show ?thesis by (simp add: clock_ok_rate_limit [OF over] last_turn_Cons)
  next
    case (Inr v)
    with Suc.prems have "turns_of acts = [?t]" and "l = snd ?t" by (auto simp: Let_def)
    then show ?thesis by (simp add: clock_ok_rate_limit [OF over] last_turn_def)
  qed
qed (simp add: last_turn_def)

lemma fetch_paced:
  assumes "honest tries" and "fetch_with_retry check tries desc prev = (r, acts, l)"
  shows "clock_ok yahoo_sleep prev (turns_of acts) \<and> l = last_turn prev (turns_of acts) \<and> length (turns_of acts) \<le> 3"
  using assms(2) retry_loop_paced [OF assms(1), of check MAX_RETRIES 1 "[]" prev]
  by (auto simp: fetch_with_retry_def MAX_RETRIES_def split: prod.splits sum.splits)

definition paced_step :: "yahoo \<Rightarrow> yahoo \<Rightarrow> bool" where
  "paced_step y y' = (yahoo_paced y' \<and> length (turns_of (ya_log y')) \<le> length (turns_of (ya_log y)) + 3)"

lemma cached_request_paced:
  assumes paced: "yahoo_paced y" and clock: "honest tries"
  shows "paced_step y (snd (cached_request env k ttl decode check build encode desc tries t t2 y))"
proof -
  obtain r acts l where f: "fetch_with_retry check tries desc (ya_last y) = (r, acts, l)"
    by (cases "fetch_with_retry check tries desc (ya_last y)")
  obtain out c where c: "through_cache (ye_sha env) (ye_loads env) (ye_dumps env) YahooCache ttl ''yahoo'' k t t2
      decode (rbind r build) encode (ya_cache y) = (out, c)"
    by (cases "through_cache (ye_sha env) (ye_loads env) (ye_dumps env) YahooCache ttl ''yahoo'' k t t2
      decode (rbind r build) encode (ya_cache y)")
  have "snd (cached_request env k ttl decode check build encode desc tries t t2 y) =
      (if missed env t k (ya_cache y) then y\<lparr>ya_cache := c, ya_last := l, ya_log := ya_log y @ acts\<rparr>
       else y\<lparr>ya_cache := c\<rparr>)" by (simp add: cached_request_def f c)
  with fetch_paced [OF clock f] paced show ?thesis
    by (simp add: yahoo_paced_def paced_step_def clock_ok_append last_turn_append)
qed

lemma paced_step_refl: "yahoo_paced y \<Longrightarrow> paced_step y y"
  by (simp add: paced_step_def)

fun honest_call :: "yahoo_call \<Rightarrow> bool" where
  "honest_call (CallQuote tries _ _ _ _) = honest tries"
| "honest_call (CallHistory tries _ _ _ _ _) = honest tries"
| "honest_call (CallSearch tries _ _ _ _) = honest tries"

lemma yahoo_step_paced:
  assumes "yahoo_paced y" and "honest_call call"
  shows "paced_step y (yahoo_step env call y)"
  using assms
  by (cases call)
    (simp_all add: yahoo_get_quote_def yahoo_get_history_def yahoo_search_def Let_def cached_request_paced paced_step_refl)

lemma yahoo_run_paced:
  assumes "yahoo_paced y" and "list_all honest_call calls"
  shows "yahoo_paced (yahoo_run env calls y) \<and>
    length (turns_of (ya_log (yahoo_run env calls y))) \<le> length (turns_of (ya_log y)) + 3 * length calls"
  using assms
proof (induction calls arbitrary: y)
  case (Cons call calls)
  then have "yahoo_paced (yahoo_step env call y)" and "list_all honest_call calls"
    and "length (turns_of (ya_log (yahoo_step env call y))) \<le> length (turns_of (ya_log y)) + 3"
    using yahoo_step_paced by (auto simp: paced_step_def)
  with Cons.IH [of "yahoo_step env call y"] show ?case by (simp add: yahoo_run_def)
qed (simp add: yahoo_run_def)

text \<open>The same for EDGAR.\<close>

definition edgar_paced :: "edgar \<Rightarrow> bool" where
  "edgar_paced s = (clock_ok edgar_sleep 0 (ed_turns s) \<and> ed_last s = last_turn 0 (ed_turns s))"

fun honest_request :: "edgar_call \<Rightarrow> bool" where
  "honest_request (CallResolve r _ _ _) = (0 \<le> er_over r)"
| "honest_request (CallFacts r _ _ _ _) = (0 \<le> er_over r)"

lemma edgar_cached_paced:
  assumes "edgar_paced s" and "0 \<le> er_over r"
  shows "edgar_paced (snd (edgar_cached env k url decode parse encode r t t2 s))"
  using assms
  by (simp add: edgar_cached_def edgar_paced_def edgar_pace_def clock_ok_append last_turn_def Let_def
      split: prod.split sum.split option.split)

lemma edgar_step_paced: "edgar_paced s \<Longrightarrow> honest_request call \<Longrightarrow> edgar_paced (edgar_step env call s)"
  by (cases call) (simp_all add: resolve_cik_def edgar_company_facts_def Let_def case_prod_beta edgar_cached_paced)

lemma edgar_run_paced: "edgar_paced s \<Longrightarrow> list_all honest_request calls \<Longrightarrow> edgar_paced (edgar_run env calls s)"
  unfolding edgar_run_def by (induction calls arbitrary: s) (simp_all add: edgar_step_paced)

text \<open>C7: the clients keep to the request rates they declare. Whatever calls are made, with whatever answers,
  failures and retries: EDGAR receives at most ten requests in any second, the limit of its fair-access
  rules, and Yahoo at most three, and at most three for each call.\<close>

theorem request_rates_bounded:
  assumes "list_all honest_call calls" and "list_all honest_request reqs"
  shows "requests_within s (ed_turns (edgar_run senv reqs (new_edgar c))) \<le> 10 \<and>
    requests_within s (turns_of (ya_log (yahoo_run env calls (new_yahoo c')))) \<le> 3 \<and>
    length (turns_of (ya_log (yahoo_run env calls (new_yahoo c')))) \<le> 3 * length calls"
proof -
  have "yahoo_paced (new_yahoo c')" and "edgar_paced (new_edgar c)"
    by (simp_all add: yahoo_paced_def edgar_paced_def new_yahoo_def new_edgar_def last_turn_def)
  then show ?thesis
    using yahoo_run_paced [of "new_yahoo c'" calls env] edgar_run_paced [of "new_edgar c" reqs senv] assms
    by (auto simp: yahoo_paced_def edgar_paced_def new_yahoo_def intro: edgar_requests_within yahoo_requests_within)
qed


section \<open>Histories\<close>

text \<open>The returns of positive closes, as real numbers.\<close>

fun rel_returns :: "real list \<Rightarrow> real list" where
  "rel_returns (a # b # cs) = (b - a) / a # rel_returns (b # cs)"
| "rel_returns _ = []"

lemma step_returns_finite: "list_all is_finite (step_returns cs)"
  by (induction cs rule: step_returns.induct) (simp_all add: zero_unless_finite_def)

lemma step_returns_length: "length (step_returns cs) = length cs - 1"
  by (induction cs rule: step_returns.induct) simp_all

lemma step_return_Fin: "a \<noteq> 0 \<Longrightarrow> zero_unless_finite (np_div (fl_sub (Fin b) (Fin a)) (Fin a)) = Fin ((b - a) / a)"
  by (simp add: np_div_def fl_sub_def zero_unless_finite_def)

lemma step_returns_Fin: "list_all (\<lambda>c. 0 < c) cs \<Longrightarrow> step_returns (map Fin cs) = map Fin (rel_returns cs)"
  by (induction cs rule: rel_returns.induct) (simp_all add: step_return_Fin)

lemma rel_returns_length: "length (rel_returns cs) = length cs - 1"
  by (induction cs rule: rel_returns.induct) simp_all

lemma rel_returns_telescope:
  "cs \<noteq> [] \<Longrightarrow> list_all (\<lambda>c. 0 < c) cs \<Longrightarrow> prod_list (map (\<lambda>r. 1 + r) (rel_returns cs)) = last cs / hd cs"
  by (induction cs rule: rel_returns.induct) (auto simp: field_simps)

lemma map_the_fin [simp]: "map the_fin (map Fin xs) = xs"
  by (induction xs) simp_all

text \<open>The summary of a price history with at least three closes, all positive, is right: it is never
  refused, the total return is the last close over the first one, less one, the annualised return is the
  rate that compounds to it over the period, and there is one finite return for each step. Each figure is
  rounded to six decimals.\<close>

lemma history_summary:
  assumes pos: "list_all (\<lambda>c. 0 < c) cs" and three: "3 \<le> length cs" and h: "hi_close h = map Fin cs"
  shows "\<exists>p. history_of sy interval h = Inr p \<and>
    ph_total_return p = Fin (py_round (last cs / hd cs - 1) 6) \<and>
    ph_annualized_return p =
      Fin (py_round ((last cs / hd cs) powr (real (periods_per_year interval) / real (length cs - 1)) - 1) 6) \<and>
    ph_returns p = map Fin (rel_returns cs) \<and> length (ph_returns p) = length cs - 1 \<and>
    (\<exists>v. 0 \<le> v \<and> ph_volatility p = Fin v)"
proof -
  have ne: "cs \<noteq> []" using three by auto
  have ratio: "prod_list (map (\<lambda>r. 1 + r) (rel_returns cs)) = last cs / hd cs"
    by (rule rel_returns_telescope [OF ne pos])
  have "0 < last cs" and "0 < hd cs" using pos ne by (simp_all add: list_all_iff)
  then have base: "0 \<le> last cs / hd cs" by simp
  have std: "0 \<le> sample_std xs" for xs
    by (auto simp: sample_std_def Let_def intro!: divide_nonneg_nonneg sum_list_nonneg)
  have stats: "summary_stats interval (rel_returns cs) =
      Inr (last cs / hd cs - 1, (last cs / hd cs) powr (real (periods_per_year interval) / real (length cs - 1)) - 1,
        sample_std (rel_returns cs) * sqrt (real (periods_per_year interval)))"
    using three base by (auto simp: summary_stats_def Let_def ratio frac_power_def rel_returns_length)
  have "map the_fin (step_returns (hi_close h)) = rel_returns cs"
    by (simp only: h step_returns_Fin [OF pos] map_the_fin)
  with stats show ?thesis
    by (simp add: history_of_def h step_returns_Fin [OF pos] Let_def rel_returns_length std)
qed

lemma history_summary_witness:
  "\<exists>p. history_of ''X'' ''1d'' \<lparr>hi_dates = [''a'', ''b'', ''c''], hi_close = map Fin [100, 50, 200], hi_dividends = None\<rparr> =
     Inr p \<and> ph_total_return p = Fin 1"
proof -
  have one: "py_round 1 6 = 1" using py_round_of_int [of 1 6] by simp
  from history_summary [of "[100, 50, 200]" "\<lparr>hi_dates = [''a'', ''b'', ''c''], hi_close = map Fin [100, 50, 200], hi_dividends = None\<rparr>" "''X''" "''1d''"]
  obtain p where "history_of ''X'' ''1d'' \<lparr>hi_dates = [''a'', ''b'', ''c''], hi_close = map Fin [100, 50, 200], hi_dividends = None\<rparr> = Inr p"
    and "ph_total_return p = Fin (py_round (200 / 100 - 1) 6)" by auto
  then show ?thesis by (auto simp: one)
qed

text \<open>A missing close in the middle: the two steps around it count as no change, and the move is lost.\<close>

lemma missing_close_hides_move:
  "history_of sy ''1d'' \<lparr>hi_dates = ds, hi_close = [Fin 100, NaN, Fin 200], hi_dividends = None\<rparr> = Inr p \<Longrightarrow>
   ph_total_return p = Fin 0"
  by (auto simp: history_of_def summary_stats_def zero_unless_finite_def np_div_def fl_sub_def frac_power_def Let_def)

text \<open>
  A history that ends at a negative close, as oil did in April 2020: over five steps the annualised
  return would be a complex number, and the TypeError is not caught.
\<close>

lemma negative_close_type_error:
  "history_of sy ''1d'' \<lparr>hi_dates = ds, hi_close = map Fin [10, 10, 10, 10, 10, - 37], hi_dividends = None\<rparr> = Inl TypeError"
  by (simp add: history_of_def summary_stats_def zero_unless_finite_def np_div_def fl_sub_def frac_power_def
      periods_per_year_def Let_def dvd_def) presburger

section \<open>Caching\<close>

lemma decode_encode_quote: "decode_quote (encode_quote q) = Inr q"
  by (simp add: decode_quote_def encode_quote_def)

lemma decode_encode_history: "decode_history (encode_history p) = Inr p"
  by (simp add: decode_history_def encode_history_def)

lemma missed_iff: "missed env t k c \<longleftrightarrow> fst (cache_get (ye_sha env) (ye_loads env) t k c) = Inr None"
  by (auto simp: missed_def split: sum.splits option.splits)

lemma cached_request_again:
  assumes json: "\<And>v raw. ye_dumps env v = Some raw \<Longrightarrow> ye_loads env raw = Some v"
    and first: "cached_request env k ttl decode check build encode desc tries t t2 y = (Inr s, y')"
    and miss: "missed env t k (ya_cache y)" and k: "\<not> blank k" and inverse: "decode (encode s) = Inr s"
    and soon: "t3 < t2 + ttl"
  shows "cached_request env k ttl decode check' build' encode desc' tries' t3 t4 y' = (Inr s, y')"
proof -
  obtain r acts l where f: "fetch_with_retry check tries desc (ya_last y) = (r, acts, l)"
    by (cases "fetch_with_retry check tries desc (ya_last y)")
  obtain r' acts' l' where f': "fetch_with_retry check' tries' desc' (ya_last y') = (r', acts', l')"
    by (cases "fetch_with_retry check' tries' desc' (ya_last y')")
  from first have tc: "through_cache (ye_sha env) (ye_loads env) (ye_dumps env) YahooCache ttl ''yahoo''
      k t t2 decode (rbind r build) encode (ya_cache y) = (Inr s, ya_cache y')"
    by (auto simp: cached_request_def f miss split: prod.splits)
  have m: "fst (cache_get (ye_sha env) (ye_loads env) t k (ya_cache y)) = Inr None" using miss by (simp add: missed_iff)
  have again: "through_cache (ye_sha env) (ye_loads env) (ye_dumps env) YahooCache ttl ''yahoo'' k t3 t4
      decode (rbind r' build') encode (ya_cache y') = (Inr s, ya_cache y')"
    by (rule through_cache_again [OF tc m k inverse json soon])
  have "\<not> missed env t3 k (ya_cache y')"
    using through_cache_stored [OF tc m k json soon] by (auto simp: missed_iff)
  then show ?thesis by (simp add: cached_request_def f' again)
qed

lemma yahoo_key_not_blank: "\<not> blank (CHR ''y'' # k)"
  by (simp add: blank_iff is_ws_def code_of_def)

text \<open>An answer that was fetched is kept: for five minutes a quote, for an hour a history and for a week
  a search, the same call returns the same answer, sends nothing and leaves the adapter as it is,
  whatever the providers would answer now.\<close>

lemma yahoo_answers_kept:
  assumes json: "\<And>v raw. ye_dumps env v = Some raw \<Longrightarrow> ye_loads env raw = Some v"
  shows "(yahoo_get_quote env tq t t1 t2 sy y = (Inr q, y') \<and> t3 < t2 + 300 \<and>
      missed env t (''yahoo:quote:'' @ upper (strip sy)) (ya_cache y) \<longrightarrow>
        yahoo_get_quote env tq' t3 t5 t4 sy y' = (Inr q, y')) \<and>
    (yahoo_get_history env th t t2 sy pd iv z = (Inr p, z') \<and> t3 < t2 + 3600 \<and>
      missed env t (''yahoo:history:'' @ upper (strip sy) @ '':'' @ pd @ '':'' @ iv) (ya_cache z) \<longrightarrow>
        yahoo_get_history env th' t3 t4 sy pd iv z' = (Inr p, z')) \<and>
    (yahoo_search env ts t t2 query limit w = (Inr v, w') \<and> t3 < t2 + 604800 \<and>
      missed env t (search_key query limit) (ya_cache w) \<longrightarrow>
        yahoo_search env ts' t3 t4 query limit w' = (Inr v, w'))"
proof (intro conjI impI; elim conjE)
  assume a: "yahoo_get_quote env tq t t1 t2 sy y = (Inr q, y')" "t3 < t2 + 300"
    "missed env t (''yahoo:quote:'' @ upper (strip sy)) (ya_cache y)"
  then have nb: "\<not> blank sy" and soon: "t3 < t2 + TTL_QUOTES"
    by (auto simp: yahoo_get_quote_def TTL_QUOTES_def split: if_splits)
  from a(1) nb have "cached_request env (''yahoo:quote:'' @ upper (strip sy)) TTL_QUOTES decode_quote
      (quote_info (upper (strip sy))) (\<lambda>d. lift_yahoo (quote_of (upper (strip sy)) t1 d)) encode_quote
      (''Quote for '' @ upper (strip sy)) tq t t2 y = (Inr q, y')"
    by (simp add: yahoo_get_quote_def Let_def)
  from cached_request_again [OF json this a(3) _ decode_encode_quote soon] nb
  show "yahoo_get_quote env tq' t3 t5 t4 sy y' = (Inr q, y')"
    by (simp add: yahoo_get_quote_def Let_def yahoo_key_not_blank)
next
  assume a: "yahoo_get_history env th t t2 sy pd iv z = (Inr p, z')" "t3 < t2 + 3600"
    "missed env t (''yahoo:history:'' @ upper (strip sy) @ '':'' @ pd @ '':'' @ iv) (ya_cache z)"
  then have nb: "\<not> blank sy" "pd \<in> set valid_periods" "iv \<in> set valid_intervals" and soon: "t3 < t2 + TTL_DAILY_PRICES"
    by (auto simp: yahoo_get_history_def TTL_DAILY_PRICES_def Let_def split: if_splits)
  from a(1) nb have "cached_request env (''yahoo:history:'' @ upper (strip sy) @ '':'' @ pd @ '':'' @ iv)
      TTL_DAILY_PRICES decode_history (history_rows (upper (strip sy)))
      (\<lambda>h. lift_yahoo (history_of (upper (strip sy)) iv h)) encode_history
      (''History for '' @ upper (strip sy)) th t t2 z = (Inr p, z')"
    by (simp add: yahoo_get_history_def Let_def)
  from cached_request_again [OF json this a(3) _ decode_encode_history soon] nb
  show "yahoo_get_history env th' t3 t4 sy pd iv z' = (Inr p, z')"
    by (simp add: yahoo_get_history_def Let_def yahoo_key_not_blank)
next
  assume a: "yahoo_search env ts t t2 query limit w = (Inr v, w')" "t3 < t2 + 604800"
    "missed env t (search_key query limit) (ya_cache w)"
  then have nb: "\<not> blank query" "\<not> (limit < 1 \<or> limit > 50)" and soon: "t3 < t2 + TTL_METADATA"
    by (auto simp: yahoo_search_def TTL_METADATA_def split: if_splits)
  from a(1) nb have "cached_request env (search_key query limit) TTL_METADATA (\<lambda>v. Inr v) (search_results query)
      (\<lambda>rs. Inr (VList rs)) (\<lambda>v. v) (''Search for '' @ query) ts t t2 w = (Inr v, w')"
    by (simp add: yahoo_search_def)
  from cached_request_again [OF json this a(3) _ refl soon] nb
  show "yahoo_search env ts' t3 t4 query limit w' = (Inr v, w')"
    by (simp add: yahoo_search_def search_key_def yahoo_key_not_blank)
qed

text \<open>A search whose request fails is answered, and kept for a week, as a search without results.\<close>

lemma failed_search_is_empty:
  assumes "\<not> blank query" and "1 \<le> limit" and "limit \<le> 50" and "missed env t (search_key query limit) (ya_cache w)"
    and "at_answer (ts 1) = Inl e" and "ye_dumps env (VList []) = Some raw" and "c_open (ya_cache w)"
  shows "fst (yahoo_search env ts t t2 query limit w) = Inr (VList [])"
proof -
  obtain c where c: "cache_get (ye_sha env) (ye_loads env) t (search_key query limit) (ya_cache w) = (Inr None, c)"
    using assms(4) by (cases "cache_get (ye_sha env) (ye_loads env) t (search_key query limit) (ya_cache w)")
      (auto simp: missed_iff)
  moreover from c assms(7) have "c_open c"
    by (auto simp: cache_get_def cache_delete_def split: if_splits option.splits)
  moreover have "fetch_with_retry (search_results query) ts desc prev = (Inr [], [Sent (rate_limit prev (ts 1))], snd (rate_limit prev (ts 1)))"
    for desc prev using assms(5) by (simp add: fetch_with_retry_def MAX_RETRIES_def numeral_3_eq_3 search_results_def Let_def)
  ultimately show ?thesis
    using assms(1-3,6)
    by (simp add: yahoo_search_def cached_request_def through_cache_def cache_put_def TTL_METADATA_def search_key_def
        yahoo_key_not_blank)
qed

definition sample_yahoo_env :: yahoo_env where
  "sample_yahoo_env = \<lparr>ye_sha = (\<lambda>s. s), ye_loads = (\<lambda>_. Some (VList [])),
     ye_dumps = (\<lambda>v. if v = VList [] then Some ''[]'' else None)\<rparr>"

definition failing_try :: "info attempt" where
  "failing_try = \<lparr>at_now = 1, at_over = 0, at_answer = Inl ''timeout''\<rparr>"

lemma yahoo_answers_kept_witness:
  "\<exists>w. yahoo_search sample_yahoo_env (\<lambda>_. failing_try) 1 2 ''oil'' 10 (new_yahoo new_cache) = (Inr (VList []), w) \<and>
     yahoo_search sample_yahoo_env (\<lambda>_. \<lparr>at_now = 4, at_over = 0, at_answer = Inr [(''shortName'', VStr ''Oil'')]\<rparr>)
       3 4 ''oil'' 10 w = (Inr (VList []), w)"
proof -
  have json: "ye_loads sample_yahoo_env raw = Some v" if "ye_dumps sample_yahoo_env v = Some raw" for v raw
    using that by (auto simp: sample_yahoo_env_def split: if_splits)
  have miss: "missed sample_yahoo_env 1 (search_key ''oil'' 10) (ya_cache (new_yahoo new_cache))"
    by (simp add: missed_def cache_get_def new_yahoo_def new_cache_def select_row_def tbl_lookup_def)
  obtain r w where first: "yahoo_search sample_yahoo_env (\<lambda>_. failing_try) 1 2 ''oil'' 10 (new_yahoo new_cache) = (r, w)"
    by (cases "yahoo_search sample_yahoo_env (\<lambda>_. failing_try) 1 2 ''oil'' 10 (new_yahoo new_cache)")
  have "\<not> blank ''oil''" by (simp add: blank_iff is_ws_def code_of_def)
  from failed_search_is_empty [OF this _ _ miss, of "\<lambda>_. failing_try" "''timeout''" "''[]''" 2] first
  have r: "r = Inr (VList [])"
    by (simp add: failing_try_def sample_yahoo_env_def new_yahoo_def new_cache_def)
  have "yahoo_search sample_yahoo_env (\<lambda>_. failing_try) 1 2 ''oil'' 10 (new_yahoo new_cache) = (Inr (VList []), w) \<and>
      3 < (2::real) + 604800 \<and> missed sample_yahoo_env 1 (search_key ''oil'' 10) (ya_cache (new_yahoo new_cache)) \<longrightarrow>
      yahoo_search sample_yahoo_env (\<lambda>_. \<lparr>at_now = 4, at_over = 0, at_answer = Inr [(''shortName'', VStr ''Oil'')]\<rparr>)
        3 4 ''oil'' 10 w = (Inr (VList []), w)"
    by (rule yahoo_answers_kept [THEN conjunct2, THEN conjunct2, OF json])
  with first r miss have "yahoo_search sample_yahoo_env
      (\<lambda>_. \<lparr>at_now = 4, at_over = 0, at_answer = Inr [(''shortName'', VStr ''Oil'')]\<rparr>) 3 4 ''oil'' 10 w = (Inr (VList []), w)"
    by simp
  with first r show ?thesis by auto
qed

section \<open>Company facts\<close>

lemma traverse_points: "traverse (point_from_dict st) (map point_to_dict ps) = Inr ps"
  by (induction ps) (simp_all add: point_from_dict_def point_to_dict_def dict_get_def)

lemma concepts_round_trip:
  "distinct (map fst (m @ fs)) \<Longrightarrow>
   concepts_from_dict st (map (\<lambda>(concept, ps). (concept, VList (map point_to_dict ps))) fs) m = Inr (m @ fs)"
proof (induction fs arbitrary: m)
  case (Cons f fs)
  obtain concept ps where f: "f = (concept, ps)" by (cases f)
  have "dict_set m concept ps = m @ [(concept, ps)]" using Cons.prems
    by (induction m) (auto simp: f)
  with Cons show ?case by (simp add: f traverse_points)
qed simp

lemma facts_round_trip: "distinct (map fst (cf_facts f)) \<Longrightarrow> facts_from_dict st (facts_to_dict f) = Inr f"
  using concepts_round_trip [of "[]" "cf_facts f" st]
  by (simp add: facts_from_dict_def facts_to_dict_def dict_get_def)

lemma concept_facts_distinct:
  "concept_facts st items m = Inr fs \<Longrightarrow> distinct (map fst m) \<Longrightarrow> distinct (map fst fs)"
proof (induction items arbitrary: m)
  case (Cons item items)
  obtain concept payload where "item = (concept, payload)" by (cases item)
  with Cons.prems obtain m' where "concept_facts st items m' = Inr fs" and "distinct (map fst m')"
    by (auto simp: distinct_dict_set split: if_splits)
  then show ?case by (rule Cons.IH)
qed simp

lemma parse_facts_distinct: "parse_facts st cik taxonomy raw = Inr f \<Longrightarrow> distinct (map fst (cf_facts f))"
  by (auto simp: parse_facts_def dest!: concept_facts_distinct)

lemma edgar_cached_parsed:
  assumes first: "edgar_cached env k url decode parse encode r t t2 s = (Inr f, s')"
    and miss: "fst (cache_get (se_sha env) (se_loads env) t k (ed_cache s)) = Inr None"
  shows "\<exists>v. parse v = Inr f"
    and "through_cache (se_sha env) (se_loads env) (se_dumps env) EdgarCache TTL_FACTS ''sec-edgar''
      k t t2 (\<lambda>v. lift_edgar (decode v)) (rbind (edgar_get_json r url) (\<lambda>v. lift_edgar (parse v))) encode (ed_cache s) =
      (Inr f, ed_cache s')"
proof -
  show tc: "through_cache (se_sha env) (se_loads env) (se_dumps env) EdgarCache TTL_FACTS ''sec-edgar''
      k t t2 (\<lambda>v. lift_edgar (decode v)) (rbind (edgar_get_json r url) (\<lambda>v. lift_edgar (parse v))) encode (ed_cache s) =
      (Inr f, ed_cache s')"
    using first by (auto simp: edgar_cached_def miss Let_def split: prod.splits)
  show "\<exists>v. parse v = Inr f"
    using tc miss by (cases "rbind (edgar_get_json r url) (\<lambda>v. lift_edgar (parse v))")
      (auto simp: through_cache_def lift_edgar_def split: prod.splits option.splits sum.splits)
qed

lemma edgar_cached_again:
  assumes json: "\<And>v raw. se_dumps env v = Some raw \<Longrightarrow> se_loads env raw = Some v"
    and first: "edgar_cached env k url decode parse encode r t t2 s = (Inr f, s')"
    and miss: "fst (cache_get (se_sha env) (se_loads env) t k (ed_cache s)) = Inr None"
    and k: "\<not> blank k" and inverse: "decode (encode f) = Inr f" and soon: "t3 < t2 + TTL_FACTS"
  shows "edgar_cached env k url' decode parse' encode r' t3 t4 s' = (Inr f, s')"
proof -
  note tc = edgar_cached_parsed(2) [OF first miss]
  have inv: "lift_edgar (decode (encode f)) = Inr f" using inverse by (simp add: lift_edgar_def)
  have again: "through_cache (se_sha env) (se_loads env) (se_dumps env) EdgarCache TTL_FACTS ''sec-edgar'' k t3 t4
      (\<lambda>v. lift_edgar (decode v)) (rbind (edgar_get_json r' url') (\<lambda>v. lift_edgar (parse' v))) encode (ed_cache s') =
      (Inr f, ed_cache s')"
    by (rule through_cache_again [OF tc miss k _ json soon]) (rule inv)
  obtain entry where "cache_get (se_sha env) (se_loads env) t3 k (ed_cache s') = (Inr (Some entry), ed_cache s')"
    using through_cache_stored [OF tc miss k json soon] by blast
  then show ?thesis by (simp add: edgar_cached_def again Let_def)
qed

text \<open>C35: for a day the facts of a company, once fetched, are what every later call returns, read back from
  their stored form without loss and without a request; and a ticker that was resolved, or was unknown, is
  answered from the same copy of EDGAR's mapping.\<close>

theorem edgar_answers_kept:
  assumes json: "\<And>v raw. se_dumps env v = Some raw \<Longrightarrow> se_loads env raw = Some v"
    and soon: "t3 < t2 + 86400"
  shows "(edgar_company_facts env r t t2 cik taxonomy s = (Inr f, s') \<and>
      fst (cache_get (se_sha env) (se_loads env) t (facts_key cik taxonomy) (ed_cache s)) = Inr None \<longrightarrow>
        facts_from_dict (se_str env) (facts_to_dict f) = Inr f \<and>
        edgar_company_facts env r' t3 t4 cik taxonomy s' = (Inr f, s')) \<and>
    (edgar_cached env ''edgar:tickers'' TICKERS_URL Inr cik_mapping (\<lambda>v. v) r t t2 s = (Inr m, s'') \<and>
      fst (cache_get (se_sha env) (se_loads env) t ''edgar:tickers'' (ed_cache s)) = Inr None \<longrightarrow>
        resolve_cik env r' t3 t4 tk s'' =
          (case py_item m (upper (strip tk)) of
             Inl KeyError \<Rightarrow> Inl (TickerUnknown (upper (strip tk)))
           | Inl e \<Rightarrow> Inl (EdgarPy e)
           | Inr v \<Rightarrow> lift_edgar (int_of_value v), s''))"
proof (intro conjI impI; elim conjE)
  have soon': "t3 < t2 + TTL_FACTS" using soon by (simp add: TTL_FACTS_def)
  have k: "\<not> blank (facts_key cik taxonomy)" "\<not> blank ''edgar:tickers''"
    by (simp_all add: facts_key_def blank_iff is_ws_def code_of_def)
  {
    assume a: "edgar_company_facts env r t t2 cik taxonomy s = (Inr f, s')"
      "fst (cache_get (se_sha env) (se_loads env) t (facts_key cik taxonomy) (ed_cache s)) = Inr None"
    note first = a(1) [unfolded edgar_company_facts_def]
    show inverse: "facts_from_dict (se_str env) (facts_to_dict f) = Inr f"
      using edgar_cached_parsed(1) [OF first a(2)] facts_round_trip parse_facts_distinct by blast
    from edgar_cached_again [OF json first a(2) k(1) inverse soon']
    show "edgar_company_facts env r' t3 t4 cik taxonomy s' = (Inr f, s')" by (simp add: edgar_company_facts_def)
  next
    assume a: "edgar_cached env ''edgar:tickers'' TICKERS_URL Inr cik_mapping (\<lambda>v. v) r t t2 s = (Inr m, s'')"
      "fst (cache_get (se_sha env) (se_loads env) t ''edgar:tickers'' (ed_cache s)) = Inr None"
    from edgar_cached_again [OF json a k(2) refl soon']
    have "edgar_cached env ''edgar:tickers'' TICKERS_URL Inr cik_mapping (\<lambda>v. v) r' t3 t4 s'' = (Inr m, s'')" .
    then show "resolve_cik env r' t3 t4 tk s'' =
          (case py_item m (upper (strip tk)) of
             Inl KeyError \<Rightarrow> Inl (TickerUnknown (upper (strip tk)))
           | Inl e \<Rightarrow> Inl (EdgarPy e)
           | Inr v \<Rightarrow> lift_edgar (int_of_value v), s'')"
      by (simp add: resolve_cik_def Let_def)
  }
qed

definition sample_facts :: company_facts where
  "sample_facts = \<lparr>cf_cik = 7, cf_entity_name = [], cf_facts = [], cf_source = ''sec-edgar''\<rparr>"

definition sample_edgar_env :: source_env where
  "sample_edgar_env = \<lparr>se_sha = (\<lambda>s. s), se_loads = (\<lambda>_. Some (facts_to_dict sample_facts)),
     se_dumps = (\<lambda>v. if v = facts_to_dict sample_facts then Some ''{}'' else None), se_http = (\<lambda>_. None), se_str = (\<lambda>_. [])\<rparr>"

definition sample_request :: "edgar_answer \<Rightarrow> edgar_request" where
  "sample_request a = \<lparr>er_now = 1, er_over = 0, er_answer = a\<rparr>"

theorem edgar_answers_kept_witness:
  "\<exists>s. edgar_company_facts sample_edgar_env (sample_request (Document (VDict []))) 1 2 7 ''us-gaap'' (new_edgar new_cache) =
      (Inr sample_facts, s) \<and>
    edgar_company_facts sample_edgar_env (sample_request (RequestError ''down'')) 3 4 7 ''us-gaap'' s = (Inr sample_facts, s)"
proof -
  let ?k = "facts_key 7 ''us-gaap''"
  have json: "se_loads sample_edgar_env raw = Some v" if "se_dumps sample_edgar_env v = Some raw" for v raw
    using that by (auto simp: sample_edgar_env_def split: if_splits)
  have k: "\<not> blank ?k" by (simp add: facts_key_def blank_iff is_ws_def code_of_def)
  have get: "cache_get (se_sha sample_edgar_env) (se_loads sample_edgar_env) 1 ?k new_cache = (Inr None, new_cache)"
    by (simp add: cache_get_def new_cache_def select_row_def tbl_lookup_def)
  have parsed: "parse_facts (se_str sample_edgar_env) 7 ''us-gaap'' (VDict []) = Inr sample_facts"
    by (simp add: parse_facts_def dict_get_def sample_facts_def)
  have "fst (edgar_company_facts sample_edgar_env (sample_request (Document (VDict []))) 1 2 7 ''us-gaap'' (new_edgar new_cache)) =
      Inr sample_facts"
    using k parsed get
    by (simp add: edgar_company_facts_def edgar_cached_def through_cache_def new_edgar_def edgar_get_json_def
        sample_request_def lift_edgar_def cache_put_def TTL_FACTS_def Let_def)
      (simp add: sample_edgar_env_def new_cache_def)
  then obtain s where first: "edgar_company_facts sample_edgar_env (sample_request (Document (VDict []))) 1 2 7
      ''us-gaap'' (new_edgar new_cache) = (Inr sample_facts, s)"
    by (metis prod.collapse)
  have soon: "(3::real) < 2 + 86400" by simp
  have "fst (cache_get (se_sha sample_edgar_env) (se_loads sample_edgar_env) 1 ?k (ed_cache (new_edgar new_cache))) = Inr None"
    using get by (simp add: new_edgar_def)
  with edgar_answers_kept [of sample_edgar_env, OF json soon] first
  have "edgar_company_facts sample_edgar_env (sample_request (RequestError ''down'')) 3 4 7 ''us-gaap'' s = (Inr sample_facts, s)"
    by blast
  with first show ?thesis by blast
qed

theorem request_rates_bounded_witness:
  "requests_within 0 (ed_turns (edgar_run sample_edgar_env
     [CallFacts (sample_request (RequestError ''down'')) 1 2 7 ''us-gaap''] (new_edgar new_cache))) \<le> 10 \<and>
   requests_within 0 (turns_of (ya_log (yahoo_run sample_yahoo_env
     [CallSearch (\<lambda>_. failing_try) 1 2 ''oil'' 10] (new_yahoo new_cache)))) \<le> 3"
proof -
  have "list_all honest_call [CallSearch (\<lambda>_. failing_try) 1 2 ''oil'' 10]"
    and "list_all honest_request [CallFacts (sample_request (RequestError ''down'')) 1 2 7 ''us-gaap'']"
    by (simp_all add: honest_def failing_try_def sample_request_def)
  from request_rates_bounded [OF this] show ?thesis by blast
qed

end
