(* ===== verification/Registry.thy ===== *)
theory Registry
  imports Prelude
begin

text \<open>
  \<^verbatim>\<open>analytics/pae/data/registry.py\<close>: the registry of data classes and their ruled sources, and the gate
  that refuses a class without a compliant source.
\<close>

datatype SourceStatus = ADOPTED | CONDITIONAL | GAP

record source_entry =
  se_data_class :: string
  se_source :: string
  se_status :: SourceStatus
  se_terms_basis :: string
  se_notes :: string

text \<open>\<open>DataProviderGapError\<close>: the class is not ruled on at all, or it is a gap.\<close>

datatype gap_exc = NoRuling string | GapClass source_entry

definition REGISTRY :: "(string \<times> source_entry) list" where
  "REGISTRY =
   [(''prices'',
     \<lparr>se_data_class = ''prices'', se_source = [],
      se_status = GAP,
      se_terms_basis =
        ''First source = exchanges/CTA-UTP; market data is distributed under licence fees (SEC '' @
        ''rule filings document redistribution fees and enterprise licences). No free first '' @
        ''source exists.'',
      se_notes =
        ''Product path: price/return series the user supplies via import. Development-only Yahoo '' @
        ''access exists behind PAE_DEV_DATA=1 and is labelled non-primary wherever it surfaces.''\<rparr>),
    (''quotes_metadata'',
     \<lparr>se_data_class = ''quotes_metadata'', se_source = [],
      se_status = GAP,
      se_terms_basis =
        ''Same licensing system as prices; no free first source.'',
      se_notes =
        ''Symbol search degrades to the user's imported universe.''\<rparr>),
    (''factors'',
     \<lparr>se_data_class = ''factors'', se_source = ''Kenneth French Data Library (Dartmouth)'',
      se_status = CONDITIONAL,
      se_terms_basis =
        ''Free public download from the first source; Dartmouth's copyright statement bars '' @
        ''commercial redistribution without written permission.'',
      se_notes =
        ''Self-host use with attribution is the library's evident intent. Commercial/hosted '' @
        ''enablement waits on Dartmouth's permission.''\<rparr>),
    (''macro_us'',
     \<lparr>se_data_class = ''macro_us'', se_source = ''FRED (Federal Reserve Bank of St. Louis)'',
      se_status = ADOPTED,
      se_terms_basis =
        ''FRED API Terms of Use: free; third-party-owned series carry their owners' restrictions '' @
        ''and need owner permission beyond personal use.'',
      se_notes =
        ''Series allowlist discipline (see factors.FRED_SERIES_OWNERS): only '' @
        ''Federal-Reserve-owned series are served.''\<rparr>),
    (''rates_fx_cad'',
     \<lparr>se_data_class = ''rates_fx_cad'', se_source = ''Bank of Canada Valet API'',
      se_status = ADOPTED,
      se_terms_basis =
        ''Bank of Canada Terms of Use s.1: free use/copy/distribute with attribution, accuracy '' @
        ''diligence, and the s.1.3 duty to tell paid-tier purchasers the content is free on the '' @
        ''Bank's site.'',
      se_notes =
        ''Third-party-marked content excluded; request limits honoured.''\<rparr>),
    (''fundamentals_us'',
     \<lparr>se_data_class = ''fundamentals_us'', se_source = ''SEC EDGAR (data.sec.gov)'',
      se_status = ADOPTED,
      se_terms_basis =
        ''SEC EDGAR APIs: no key, public filings data; automated access under the SEC Privacy and '' @
        ''Security Policy (fair access).'',
      se_notes =
        ''Declared User-Agent; at most 10 requests/second.''\<rparr>),
    (''fundamentals_ca'',
     \<lparr>se_data_class = ''fundamentals_ca'', se_source = [],
      se_status = GAP,
      se_terms_basis =
        ''SEDAR+ publishes filings but offers no public API.'',
      se_notes =
        ''User-supplied filings via import remain possible.''\<rparr>),
    (''commodities'',
     \<lparr>se_data_class = ''commodities'', se_source = ''EIA (energy); exchanges/LBMA (the rest -- gap)'',
      se_status = CONDITIONAL,
      se_terms_basis =
        ''EIA Open Data API v2: free with a registered key; EIA data is US federal statistics '' @
        ''(first source). Fleet key held in the Secure Vault (custom.eia), verified live '' @
        ''2026-10-14 and 2026-10-26. Benchmark commodity prices beyond EIA energy are '' @
        ''administered/licensed products (e.g. LBMA Gold Price via IBA); no free first source for '' @
        ''those.'',
      se_notes =
        ''ENERGY ADOPTED: EIA spot prices (WTI, Brent, Henry Hub) serve via pae.data.eia using '' @
        ''the fleet's existing EIA key (PAE_EIA_API_KEY). Everything else in the class waits. '' @
        ''Fed-owned FRED commodity series, if any, serve via macro_us.''\<rparr>)]"

definition entry_for :: "string \<Rightarrow> gap_exc + source_entry" where
  "entry_for data_class =
     (case map_of REGISTRY data_class of
        Some e \<Rightarrow> Inr e
      | None \<Rightarrow> Inl (NoRuling data_class))"

definition require_available :: "string \<Rightarrow> gap_exc + source_entry" where
  "require_available data_class =
     rbind (entry_for data_class) (\<lambda>e. if se_status e = GAP then Inl (GapClass e) else Inr e)"

section \<open>Lemmas\<close>

lemma gap_classes:
  "require_available c = Inr e \<Longrightarrow> c \<notin> {''prices'', ''quotes_metadata'', ''fundamentals_ca''}"
  by (auto simp: require_available_def entry_for_def REGISTRY_def split: if_splits)

lemma registry_keys: "map_of REGISTRY c = Some e \<Longrightarrow> se_data_class e = c"
  by (auto simp: REGISTRY_def split: if_splits)

lemma gap_has_no_source: "map_of REGISTRY c = Some e \<Longrightarrow> se_status e = GAP \<longleftrightarrow> se_source e = []"
  by (auto simp: REGISTRY_def split: if_splits)

end
