(* ===== verification/Adapter.thy ===== *)
theory Adapter
  imports Registry
begin

text \<open>
  \<^verbatim>\<open>analytics/pae/data/commodities.py\<close> and \<^verbatim>\<open>analytics/pae/data/adapter.py\<close>: the ticker tables, the
  commodity adapter over the quote provider, and the unified data adapter with its development gate,
  its health records, search and snapshot. What a provider answers to the
  n-th request is the parameter \<open>prov\<close> at n, an exception or a value; the clock is the parameter
  \<open>clk\<close>, read at the adapter's tick count. The field \<open>ad_log\<close> records the requests sent to the
  providers; the code has no such field.
\<close>

section \<open>Tickers\<close>

record ticker_info =
  ti_symbol :: string
  ti_name :: string
  ti_category :: string

definition ticker :: "string \<Rightarrow> string \<Rightarrow> string \<Rightarrow> ticker_info" where
  "ticker s n c = \<lparr>ti_symbol = s, ti_name = n, ti_category = c\<rparr>"

definition COMMODITY_TICKERS :: "(string \<times> ticker_info) list" where
  "COMMODITY_TICKERS =
    [(''crude_oil'', ticker ''CL=F'' ''WTI Crude Oil'' ''energy''),
     (''brent_oil'', ticker ''BZ=F'' ''Brent Crude Oil'' ''energy''),
     (''natural_gas'', ticker ''NG=F'' ''Natural Gas'' ''energy''),
     (''heating_oil'', ticker ''HO=F'' ''Heating Oil'' ''energy''),
     (''gasoline'', ticker ''RB=F'' ''RBOB Gasoline'' ''energy''),
     (''gold'', ticker ''GC=F'' ''Gold'' ''precious_metals''),
     (''silver'', ticker ''SI=F'' ''Silver'' ''precious_metals''),
     (''platinum'', ticker ''PL=F'' ''Platinum'' ''precious_metals''),
     (''palladium'', ticker ''PA=F'' ''Palladium'' ''precious_metals''),
     (''corn'', ticker ''ZC=F'' ''Corn'' ''agricultural''),
     (''wheat'', ticker ''ZW=F'' ''Wheat'' ''agricultural''),
     (''soybeans'', ticker ''ZS=F'' ''Soybeans'' ''agricultural''),
     (''sugar'', ticker ''SB=F'' ''Sugar'' ''agricultural''),
     (''coffee'', ticker ''KC=F'' ''Coffee'' ''agricultural''),
     (''cotton'', ticker ''CT=F'' ''Cotton'' ''agricultural''),
     (''copper'', ticker ''HG=F'' ''Copper'' ''industrial_metals'')]"

definition FOREX_TICKERS :: "(string \<times> ticker_info) list" where
  "FOREX_TICKERS =
    [(''usd_cad'', ticker ''USDCAD=X'' ''USD/CAD'' ''forex''),
     (''eur_usd'', ticker ''EURUSD=X'' ''EUR/USD'' ''forex''),
     (''gbp_usd'', ticker ''GBPUSD=X'' ''GBP/USD'' ''forex''),
     (''usd_jpy'', ticker ''USDJPY=X'' ''USD/JPY'' ''forex''),
     (''aud_usd'', ticker ''AUDUSD=X'' ''AUD/USD'' ''forex''),
     (''usd_chf'', ticker ''USDCHF=X'' ''USD/CHF'' ''forex''),
     (''eur_cad'', ticker ''EURCAD=X'' ''EUR/CAD'' ''forex''),
     (''gbp_cad'', ticker ''GBPCAD=X'' ''GBP/CAD'' ''forex''),
     (''usd_inr'', ticker ''USDINR=X'' ''USD/INR'' ''forex''),
     (''cad_inr'', ticker ''CADINR=X'' ''CAD/INR'' ''forex'')]"

definition INDEX_TICKERS :: "(string \<times> ticker_info) list" where
  "INDEX_TICKERS =
    [(''sp500'', ticker ''^GSPC'' ''S&P 500'' ''index''),
     (''nasdaq'', ticker ''^IXIC'' ''NASDAQ Composite'' ''index''),
     (''dow'', ticker ''^DJI'' ''Dow Jones Industrial Average'' ''index''),
     (''tsx'', ticker ''^GSPTSE'' ''S&P/TSX Composite'' ''index''),
     (''russell2000'', ticker ''^RUT'' ''Russell 2000'' ''index''),
     (''vix'', ticker ''^VIX'' ''CBOE Volatility Index'' ''index''),
     (''ftse100'', ticker ''^FTSE'' ''FTSE 100'' ''index''),
     (''nikkei'', ticker ''^N225'' ''Nikkei 225'' ''index'')]"

section \<open>Requests and errors\<close>

datatype 'v request =
    YahooQuote string
  | YahooHistory string string string
  | YahooSearch string int
  | FrenchFactors string
  | FredRiskFree
  | FredSeries string string
  | EdgarResolve string
  | EdgarFacts 'v
  | BankSeries string "int option"
  | EiaEnergy string int

datatype exc_class = YahooError | CommodityError | FactorDataError | EdgarError | BocError | EiaError
  | ProviderValueError | OtherError

type_synonym provider_exc = "exc_class \<times> string"

datatype adapter_exc =
    GapError gap_exc
  | FetchFailed string string
  | CommodityGap
  | InvalidModel string
  | Uncaught exc_class string

text \<open>\<open>DataAdapterError\<close> and \<open>ValueError\<close>, the exceptions that the aggregating calls catch.\<close>

fun adapter_or_value_error :: "adapter_exc \<Rightarrow> bool" where
  "adapter_or_value_error (Uncaught k _) = (k = ProviderValueError)"
| "adapter_or_value_error _ = True"

fun adapter_error :: "adapter_exc \<Rightarrow> bool" where
  "adapter_error (Uncaught _ _) = False"
| "adapter_error (InvalidModel _) = False"
| "adapter_error _ = True"

section \<open>State\<close>

record source_health =
  sh_source :: string
  sh_healthy :: bool
  sh_last_check :: real
  sh_last_error :: string
  sh_latency_ms :: real
  sh_total_requests :: nat
  sh_total_errors :: nat

definition new_health :: "string \<Rightarrow> source_health" where
  "new_health s = \<lparr>sh_source = s, sh_healthy = True, sh_last_check = 0, sh_last_error = [],
     sh_latency_ms = 0, sh_total_requests = 0, sh_total_errors = 0\<rparr>"

definition error_rate :: "source_health \<Rightarrow> real" where
  "error_rate h = (if sh_total_requests h = 0 then 0
     else real (sh_total_errors h) / real (sh_total_requests h))"

record 'v data_adapter =
  ad_dev :: bool
  ad_health :: "(string \<times> source_health) list"
  ad_ticks :: nat
  ad_log :: "'v request list"

definition source_names :: "string list" where
  "source_names = [''yahoo'', ''french'', ''fred'', ''sec-edgar'', ''bank-of-canada'', ''eia'']"

text \<open>\<open>__init__\<close>: development mode is the environment variable PAE_DEV_DATA being exactly 1.\<close>

definition new_adapter :: "string option \<Rightarrow> 'v data_adapter" where
  "new_adapter dev_var =
     \<lparr>ad_dev = (dev_var = Some ''1''), ad_health = map (\<lambda>s. (s, new_health s)) source_names,
      ad_ticks = 0, ad_log = []\<rparr>"

type_synonym clock = "nat \<Rightarrow> real"
type_synonym 'v provider = "nat \<Rightarrow> 'v request \<Rightarrow> provider_exc + 'v"

definition tick :: "'v data_adapter \<Rightarrow> 'v data_adapter" where
  "tick a = a\<lparr>ad_ticks := ad_ticks a + 1\<rparr>"

definition log_request :: "'v request \<Rightarrow> 'v data_adapter \<Rightarrow> 'v data_adapter" where
  "log_request r a = a\<lparr>ad_log := ad_log a @ [r]\<rparr>"

text \<open>The answer to the request sent next.\<close>

definition ask :: "(nat \<Rightarrow> 'v request \<Rightarrow> 'w) \<Rightarrow> 'v request \<Rightarrow> 'v data_adapter \<Rightarrow> 'w" where
  "ask prov r a = prov (length (ad_log a)) r"

definition update_health :: "bool \<Rightarrow> string \<Rightarrow> real \<Rightarrow> real \<Rightarrow> source_health \<Rightarrow> source_health" where
  "update_health success err latency now h =
     h\<lparr>sh_total_requests := sh_total_requests h + 1, sh_last_check := now, sh_latency_ms := latency,
       sh_healthy := success, sh_last_error := (if success then [] else err),
       sh_total_errors := sh_total_errors h + (if success then 0 else 1)\<rparr>"

definition track_request ::
  "clock \<Rightarrow> string \<Rightarrow> bool \<Rightarrow> string \<Rightarrow> real \<Rightarrow> 'v data_adapter \<Rightarrow> 'v data_adapter" where
  "track_request clk source success err latency a =
     (let h = (case map_of (ad_health a) source of Some h \<Rightarrow> h | None \<Rightarrow> new_health source)
      in tick (a\<lparr>ad_health := dict_set (ad_health a) source
                  (update_health success err latency (clk (ad_ticks a)) h)\<rparr>))"

section \<open>Fetching\<close>

definition require_prices_class :: "string \<Rightarrow> 'v data_adapter \<Rightarrow> adapter_exc option" where
  "require_prices_class c a =
     (if ad_dev a then None
      else case require_available c of Inl g \<Rightarrow> Some (GapError g) | Inr _ \<Rightarrow> None)"

text \<open>The requests of one call, in order: each may use the value of the one before.\<close>

fun run_requests ::
  "'v provider \<Rightarrow> ('v \<Rightarrow> 'v request) list \<Rightarrow> 'v request \<Rightarrow> 'v data_adapter \<Rightarrow>
     (provider_exc + 'v) \<times> 'v data_adapter" where
  "run_requests prov [] r a = (ask prov r a, log_request r a)"
| "run_requests prov (f # fs) r a =
     (case ask prov r a of
        Inl e \<Rightarrow> (Inl e, log_request r a)
      | Inr v \<Rightarrow> run_requests prov fs (f v) (log_request r a))"

text \<open>The pattern of every tracked call: time it, record the outcome, wrap the caught exceptions.\<close>

definition tracked ::
  "clock \<Rightarrow> 'v provider \<Rightarrow> string \<Rightarrow> exc_class list \<Rightarrow> ('v \<Rightarrow> 'v request) list \<Rightarrow> 'v request \<Rightarrow>
     'v data_adapter \<Rightarrow> (adapter_exc + 'v) \<times> 'v data_adapter" where
  "tracked clk prov source caught nexts r a =
     (let start = clk (ad_ticks a); (res, a1) = run_requests prov nexts r (tick a)
      in case res of
           Inr v \<Rightarrow>
             let latency = (clk (ad_ticks a1) - start) * 1000
             in (Inr v, track_request clk source True [] latency (tick a1))
         | Inl (k, msg) \<Rightarrow>
             if k \<in> set caught then (Inl (FetchFailed source msg), track_request clk source False msg 0 a1)
             else (Inl (Uncaught k msg), a1))"

definition get_quote where
  "get_quote clk prov symbol a =
     (case require_prices_class ''quotes_metadata'' a of
        Some e \<Rightarrow> (Inl e, a)
      | None \<Rightarrow> tracked clk prov ''yahoo'' [YahooError, ProviderValueError] [] (YahooQuote symbol) a)"

fun get_quotes where
  "get_quotes clk prov [] results a = (Inr results, a)"
| "get_quotes clk prov (s # ss) results a =
     (case get_quote clk prov s a of
        (Inr v, a1) \<Rightarrow> get_quotes clk prov ss (dict_set results (upper (strip s)) v) a1
      | (Inl e, a1) \<Rightarrow>
          if adapter_or_value_error e then get_quotes clk prov ss results a1 else (Inl e, a1))"

definition get_history where
  "get_history clk prov symbol period interval a =
     (case require_prices_class ''prices'' a of
        Some e \<Rightarrow> (Inl e, a)
      | None \<Rightarrow> tracked clk prov ''yahoo'' [YahooError, ProviderValueError] []
          (YahooHistory symbol period interval) a)"

definition get_factors where
  "get_factors clk prov model a =
     (if model \<notin> {''ff3'', ''ff5''} then (Inl (InvalidModel model), a)
      else tracked clk prov ''french'' [FactorDataError] [] (FrenchFactors model) a)"

definition get_risk_free_rate where
  "get_risk_free_rate clk prov a = tracked clk prov ''fred'' [FactorDataError] [] FredRiskFree a"

definition get_macro_series where
  "get_macro_series clk prov series_id start_date a =
     tracked clk prov ''fred'' [FactorDataError, ProviderValueError] [] (FredSeries series_id start_date) a"

definition get_company_facts where
  "get_company_facts clk prov symbol a =
     tracked clk prov ''sec-edgar'' [EdgarError] [EdgarFacts] (EdgarResolve symbol) a"

definition get_cad_series where
  "get_cad_series clk prov name recent a =
     tracked clk prov ''bank-of-canada'' [BocError] [] (BankSeries name recent) a"

definition get_fx_rate_cad where
  "get_fx_rate_cad clk prov pair a = get_cad_series clk prov (''FX'' @ upper (strip pair)) None a"

definition get_energy_price where
  "get_energy_price clk prov key len a = tracked clk prov ''eia'' [EiaError] [] (EiaEnergy key len) a"

section \<open>Commodities, forex, indices\<close>

record 'v commodity_quote =
  cq_quote :: 'v
  cq_name :: string
  cq_category :: string
  cq_key :: string

definition resolve_ticker :: "string \<Rightarrow> (string \<times> ticker_info) list \<Rightarrow> provider_exc + ticker_info" where
  "resolve_ticker key table =
     (if blank key then Inl (ProviderValueError, ''key must not be empty'')
      else case map_of table (lower (strip key)) of
          None \<Rightarrow> Inl (ProviderValueError, ''Unknown key'')
        | Some info \<Rightarrow> Inr info)"

definition ticker_quote ::
  "'v provider \<Rightarrow> (string \<times> ticker_info) list \<Rightarrow> string \<Rightarrow> 'v data_adapter \<Rightarrow>
     (provider_exc + 'v commodity_quote) \<times> 'v data_adapter" where
  "ticker_quote prov table key a =
     (case resolve_ticker key table of
        Inl e \<Rightarrow> (Inl e, a)
      | Inr info \<Rightarrow>
          (case ask prov (YahooQuote (ti_symbol info)) a of
             Inr q \<Rightarrow> (Inr \<lparr>cq_quote = q, cq_name = ti_name info, cq_category = ti_category info, cq_key = key\<rparr>,
                       log_request (YahooQuote (ti_symbol info)) a)
           | Inl (k, msg) \<Rightarrow>
               (Inl (if k = YahooError then CommodityError else k, msg),
                log_request (YahooQuote (ti_symbol info)) a)))"

text \<open>The histories of a ticker, and the lists of the tickers.\<close>

definition ticker_history ::
  "'v provider \<Rightarrow> (string \<times> ticker_info) list \<Rightarrow> string \<Rightarrow> string \<Rightarrow> string \<Rightarrow> 'v data_adapter \<Rightarrow>
     (provider_exc + 'v) \<times> 'v data_adapter" where
  "ticker_history prov table key period interval a =
     (case resolve_ticker key table of
        Inl e \<Rightarrow> (Inl e, a)
      | Inr info \<Rightarrow>
          (case ask prov (YahooHistory (ti_symbol info) period interval) a of
             Inr v \<Rightarrow> (Inr v, log_request (YahooHistory (ti_symbol info) period interval) a)
           | Inl (k, msg) \<Rightarrow>
               (Inl (if k = YahooError then CommodityError else k, msg),
                log_request (YahooHistory (ti_symbol info) period interval) a)))"

definition get_commodity_history where
  "get_commodity_history prov key period interval a = ticker_history prov COMMODITY_TICKERS key period interval a"

definition get_forex_history where
  "get_forex_history prov key period interval a = ticker_history prov FOREX_TICKERS key period interval a"

definition list_tickers :: "(string \<times> ticker_info) list \<Rightarrow> (string \<times> string) list list" where
  "list_tickers table =
     map (\<lambda>(key, info). [(''key'', key), (''symbol'', ti_symbol info), (''name'', ti_name info),
       (''category'', ti_category info)]) table"

definition list_commodities where "list_commodities = list_tickers COMMODITY_TICKERS"
definition list_forex where "list_forex = list_tickers FOREX_TICKERS"
definition list_indices where "list_indices = list_tickers INDEX_TICKERS"

text \<open>\<open>get_all_..._quotes\<close>: past the failures that are caught.\<close>

fun all_quotes ::
  "'v provider \<Rightarrow> (string \<times> ticker_info) list \<Rightarrow> string list \<Rightarrow> 'v data_adapter \<Rightarrow>
     (provider_exc + 'v commodity_quote list) \<times> 'v data_adapter" where
  "all_quotes prov table [] a = (Inr [], a)"
| "all_quotes prov table (k # ks) a =
     (case ticker_quote prov table k a of
        (Inr q, a1) \<Rightarrow>
          (case all_quotes prov table ks a1 of
             (Inl e, a2) \<Rightarrow> (Inl e, a2)
           | (Inr qs, a2) \<Rightarrow> (Inr (q # qs), a2))
      | (Inl e, a1) \<Rightarrow>
          if fst e \<in> {CommodityError, ProviderValueError} then all_quotes prov table ks a1 else (Inl e, a1))"

definition wrap_commodity ::
  "string \<Rightarrow> (provider_exc + 'c) \<times> 'v data_adapter \<Rightarrow> (adapter_exc + 'c) \<times> 'v data_adapter" where
  "wrap_commodity what r =
     (case fst r of
        Inr q \<Rightarrow> Inr q
      | Inl (k, msg) \<Rightarrow>
          Inl (if k \<in> {CommodityError, ProviderValueError} then FetchFailed what msg else Uncaught k msg),
      snd r)"

definition get_commodity where
  "get_commodity prov key a =
     (if \<not> ad_dev a then (Inl CommodityGap, a)
      else wrap_commodity ''commodity'' (ticker_quote prov COMMODITY_TICKERS key a))"

definition get_forex where
  "get_forex prov key a =
     (case require_prices_class ''prices'' a of
        Some e \<Rightarrow> (Inl e, a)
      | None \<Rightarrow> wrap_commodity ''forex'' (ticker_quote prov FOREX_TICKERS key a))"

definition get_index where
  "get_index prov key a =
     (case require_prices_class ''quotes_metadata'' a of
        Some e \<Rightarrow> (Inl e, a)
      | None \<Rightarrow> wrap_commodity ''index'' (ticker_quote prov INDEX_TICKERS key a))"

section \<open>Search\<close>

datatype 'v search_hit = Known ticker_info string string | Found 'v

definition known_hits :: "string \<Rightarrow> (string \<times> ticker_info) list \<Rightarrow> string \<Rightarrow> 'v search_hit list" where
  "known_hits kind table q =
     map (\<lambda>(key, info). Known info kind key)
       (filter (\<lambda>(key, info). str_in q key \<or> str_in q (lower (ti_name info))) table)"

text \<open>\<open>results[:limit]\<close>: a negative limit counts from the end.\<close>

definition slice_to :: "int \<Rightarrow> 'a list \<Rightarrow> 'a list" where
  "slice_to limit xs = (if limit \<ge> 0 then take (nat limit) xs else take (length xs - nat (- limit)) xs)"

definition search ::
  "(nat \<Rightarrow> 'v request \<Rightarrow> provider_exc + 'v list) \<Rightarrow> string \<Rightarrow> int \<Rightarrow> 'v data_adapter \<Rightarrow>
     (adapter_exc + 'v search_hit list) \<times> 'v data_adapter" where
  "search finder query limit a =
     (if blank query then (Inr [], a)
      else if \<not> ad_dev a then (Inr [], a)
      else let q = lower (strip query);
               known = known_hits ''commodity'' COMMODITY_TICKERS q @
                 known_hits ''forex'' FOREX_TICKERS q @ known_hits ''index'' INDEX_TICKERS q;
               a1 = log_request (YahooSearch query limit) a
           in case ask finder (YahooSearch query limit) a of
                Inr fs \<Rightarrow> (Inr (slice_to limit (known @ map Found fs)), a1)
              | Inl (k, msg) \<Rightarrow>
                  if k \<in> {YahooError, ProviderValueError} then (Inr (slice_to limit known), a1)
                  else (Inl (Uncaught k msg), a1))"

section \<open>Snapshot and health\<close>

datatype snapshot_error =
    QuoteError string adapter_exc
  | ClassWaits string
  | ClassFailed string string
  | IndexError string string
  | RiskFreeError adapter_exc

record 'v market_snapshot =
  ms_timestamp :: real
  ms_quotes :: "(string \<times> 'v) list"
  ms_commodities :: "'v commodity_quote list"
  ms_forex :: "'v commodity_quote list"
  ms_indices :: "'v commodity_quote list"
  ms_risk_free :: "'v option"
  ms_errors :: "snapshot_error list"

type_synonym 'v snapshot_result = "(adapter_exc + 'v market_snapshot) \<times> 'v data_adapter"

fun snapshot_quotes ::
  "clock \<Rightarrow> 'v provider \<Rightarrow> string list \<Rightarrow> 'v market_snapshot \<Rightarrow> 'v data_adapter \<Rightarrow> 'v snapshot_result" where
  "snapshot_quotes clk prov [] snap a = (Inr snap, a)"
| "snapshot_quotes clk prov (s # ss) snap a =
     (case get_quote clk prov s a of
        (Inr v, a1) \<Rightarrow>
          snapshot_quotes clk prov ss (snap\<lparr>ms_quotes := dict_set (ms_quotes snap) (upper (strip s)) v\<rparr>) a1
      | (Inl e, a1) \<Rightarrow>
          if adapter_or_value_error e
          then snapshot_quotes clk prov ss (snap\<lparr>ms_errors := ms_errors snap @ [QuoteError s e]\<rparr>) a1
          else (Inl e, a1))"

fun snapshot_indices ::
  "'v provider \<Rightarrow> string list \<Rightarrow> 'v market_snapshot \<Rightarrow> 'v data_adapter \<Rightarrow> 'v snapshot_result" where
  "snapshot_indices prov [] snap a = (Inr snap, a)"
| "snapshot_indices prov (k # ks) snap a =
     (case ticker_quote prov INDEX_TICKERS k a of
        (Inr q, a1) \<Rightarrow> snapshot_indices prov ks (snap\<lparr>ms_indices := ms_indices snap @ [q]\<rparr>) a1
      | (Inl (c, msg), a1) \<Rightarrow>
          if c \<in> {CommodityError, ProviderValueError}
          then snapshot_indices prov ks (snap\<lparr>ms_errors := ms_errors snap @ [IndexError k msg]\<rparr>) a1
          else (Inl (Uncaught c msg), a1))"

text \<open>Commodities and forex in bulk: \<open>except Exception\<close> catches whatever the calls raise.\<close>

definition snapshot_commodities ::
  "'v provider \<Rightarrow> 'v market_snapshot \<Rightarrow> 'v data_adapter \<Rightarrow> 'v market_snapshot \<times> 'v data_adapter" where
  "snapshot_commodities prov snap a =
     (if \<not> ad_dev a then (snap\<lparr>ms_errors := ms_errors snap @ [ClassWaits ''Commodities'']\<rparr>, a)
      else case all_quotes prov COMMODITY_TICKERS (map fst COMMODITY_TICKERS) a of
          (Inr qs, a1) \<Rightarrow> (snap\<lparr>ms_commodities := qs\<rparr>, a1)
        | (Inl e, a1) \<Rightarrow> (snap\<lparr>ms_errors := ms_errors snap @ [ClassFailed ''Commodities'' (snd e)]\<rparr>, a1))"

definition snapshot_forex ::
  "'v provider \<Rightarrow> 'v market_snapshot \<Rightarrow> 'v data_adapter \<Rightarrow> 'v market_snapshot \<times> 'v data_adapter" where
  "snapshot_forex prov snap a =
     (if \<not> ad_dev a then (snap\<lparr>ms_errors := ms_errors snap @ [ClassWaits ''Forex'']\<rparr>, a)
      else case all_quotes prov FOREX_TICKERS (map fst FOREX_TICKERS) a of
          (Inr qs, a1) \<Rightarrow> (snap\<lparr>ms_forex := qs\<rparr>, a1)
        | (Inl e, a1) \<Rightarrow> (snap\<lparr>ms_errors := ms_errors snap @ [ClassFailed ''Forex'' (snd e)]\<rparr>, a1))"

definition snapshot_risk_free ::
  "clock \<Rightarrow> 'v provider \<Rightarrow> 'v market_snapshot \<Rightarrow> 'v data_adapter \<Rightarrow> 'v snapshot_result" where
  "snapshot_risk_free clk prov snap a =
     (case get_risk_free_rate clk prov a of
        (Inr v, a1) \<Rightarrow> (Inr (snap\<lparr>ms_risk_free := Some v\<rparr>), a1)
      | (Inl e, a1) \<Rightarrow>
          if adapter_error e then (Inr (snap\<lparr>ms_errors := ms_errors snap @ [RiskFreeError e]\<rparr>), a1)
          else (Inl e, a1))"

definition get_market_snapshot ::
  "clock \<Rightarrow> 'v provider \<Rightarrow> string list option \<Rightarrow> bool \<Rightarrow> bool \<Rightarrow> bool \<Rightarrow> 'v data_adapter \<Rightarrow>
     (adapter_exc + 'v market_snapshot) \<times> 'v data_adapter" where
  "get_market_snapshot clk prov symbols commodities forex indices a0 =
     (let snap0 = \<lparr>ms_timestamp = clk (ad_ticks a0), ms_quotes = [], ms_commodities = [], ms_forex = [],
                   ms_indices = [], ms_risk_free = None, ms_errors = []\<rparr>
      in case snapshot_quotes clk prov (case symbols of None \<Rightarrow> [] | Some ss \<Rightarrow> ss) snap0 (tick a0) of
           (Inl e, a) \<Rightarrow> (Inl e, a)
         | (Inr snap1, a1) \<Rightarrow>
             let (snap2, a2) = (if commodities then snapshot_commodities prov snap1 a1 else (snap1, a1));
                 (snap3, a3) = (if forex then snapshot_forex prov snap2 a2 else (snap2, a2));
                 (r4, a4) = (if indices
                     then if \<not> ad_dev a3
                          then (Inr (snap3\<lparr>ms_errors := ms_errors snap3 @ [ClassWaits ''Indices'']\<rparr>), a3)
                          else snapshot_indices prov [''sp500'', ''tsx'', ''vix'', ''nasdaq''] snap3 a3
                     else (Inr snap3, a3))
             in (case r4 of Inl e \<Rightarrow> (Inl e, a4) | Inr snap4 \<Rightarrow> snapshot_risk_free clk prov snap4 a4))"

definition health_status :: "'v data_adapter \<Rightarrow> string" where
  "health_status a = (if list_all (\<lambda>(_, h). sh_healthy h) (ad_health a) then ''healthy'' else ''degraded'')"

definition health_report :: "'v data_adapter \<Rightarrow> (string \<times> source_health \<times> real) list" where
  "health_report a = map (\<lambda>(n, h).
     (n, h\<lparr>sh_latency_ms := py_round (sh_latency_ms h) 1\<rparr>, py_round (error_rate h) 3)) (ad_health a)"

section \<open>Operations as steps\<close>

datatype ad_op =
    GetQuote string
  | GetQuotes "string list"
  | GetHistory string string string
  | GetFactors string
  | GetRiskFree
  | GetMacro string string
  | GetFacts string
  | GetCad string "int option"
  | GetFx string
  | GetEnergy string int
  | GetCommodity string
  | GetForex string
  | GetIndex string
  | Search string int
  | Snapshot "string list option" bool bool bool

fun exec_ad ::
  "clock \<Rightarrow> 'v provider \<Rightarrow> (nat \<Rightarrow> 'v request \<Rightarrow> provider_exc + 'v list) \<Rightarrow> ad_op \<Rightarrow> 'v data_adapter \<Rightarrow> 'v data_adapter" where
  "exec_ad clk prov finder (GetQuote s) a = snd (get_quote clk prov s a)"
| "exec_ad clk prov finder (GetQuotes ss) a = snd (get_quotes clk prov ss [] a)"
| "exec_ad clk prov finder (GetHistory s p i) a = snd (get_history clk prov s p i a)"
| "exec_ad clk prov finder (GetFactors m) a = snd (get_factors clk prov m a)"
| "exec_ad clk prov finder GetRiskFree a = snd (get_risk_free_rate clk prov a)"
| "exec_ad clk prov finder (GetMacro s d) a = snd (get_macro_series clk prov s d a)"
| "exec_ad clk prov finder (GetFacts t) a = snd (get_company_facts clk prov t a)"
| "exec_ad clk prov finder (GetCad n r) a = snd (get_cad_series clk prov n r a)"
| "exec_ad clk prov finder (GetFx p) a = snd (get_fx_rate_cad clk prov p a)"
| "exec_ad clk prov finder (GetEnergy k n) a = snd (get_energy_price clk prov k n a)"
| "exec_ad clk prov finder (GetCommodity k) a = snd (get_commodity prov k a)"
| "exec_ad clk prov finder (GetForex k) a = snd (get_forex prov k a)"
| "exec_ad clk prov finder (GetIndex k) a = snd (get_index prov k a)"
| "exec_ad clk prov finder (Search q n) a = snd (search finder q n a)"
| "exec_ad clk prov finder (Snapshot ss c f i) a = snd (get_market_snapshot clk prov ss c f i a)"

inductive ad_reachable ::
  "clock \<Rightarrow> 'v provider \<Rightarrow> (nat \<Rightarrow> 'v request \<Rightarrow> provider_exc + 'v list) \<Rightarrow> string option \<Rightarrow> 'v data_adapter \<Rightarrow> bool"
  for clk prov finder dev where
  ad_start: "ad_reachable clk prov finder dev (new_adapter dev)"
| ad_step: "ad_reachable clk prov finder dev a \<Longrightarrow>
     ad_reachable clk prov finder dev (exec_ad clk prov finder op a)"

end
