(* ===== verification/Adapter_Correct.thy ===== *)
theory Adapter_Correct
  imports Adapter
begin

text \<open>
  The adapter's invariant: its health records, and the requests it sends outside development mode.
  Every operation is built from requests, tracking and the gate, so the invariant is shown for those
  and carried through.
\<close>

section \<open>Invariant\<close>

fun not_yahoo :: "'v request \<Rightarrow> bool" where
  "not_yahoo (YahooQuote _) = False"
| "not_yahoo (YahooHistory _ _ _) = False"
| "not_yahoo (YahooSearch _ _) = False"
| "not_yahoo _ = True"

definition health_ok :: "string \<times> source_health \<Rightarrow> bool" where
  "health_ok p \<longleftrightarrow> sh_source (snd p) = fst p \<and> sh_total_errors (snd p) \<le> sh_total_requests (snd p) \<and>
     (sh_healthy (snd p) \<longrightarrow> sh_last_error (snd p) = [])"

definition tracked_total :: "(string \<times> source_health) list \<Rightarrow> nat" where
  "tracked_total d = (\<Sum>p\<leftarrow>d. sh_total_requests (snd p))"

definition health_inv :: "(string \<times> source_health) list \<Rightarrow> bool" where
  "health_inv d \<longleftrightarrow> map fst d = source_names \<and> list_all health_ok d"

definition ad_inv :: "'v data_adapter \<Rightarrow> bool" where
  "ad_inv a \<longleftrightarrow> health_inv (ad_health a) \<and> tracked_total (ad_health a) \<le> length (ad_log a) \<and>
     (\<not> ad_dev a \<longrightarrow> list_all not_yahoo (ad_log a))"

text \<open>What every operation does to the adapter: it keeps the mode and the invariant.\<close>

definition ad_keeps :: "'v data_adapter \<Rightarrow> 'v data_adapter \<Rightarrow> bool" where
  "ad_keeps a b \<longleftrightarrow> ad_dev b = ad_dev a \<and> (ad_inv a \<longrightarrow> ad_inv b)"

lemma keeps_refl [simp, intro]: "ad_keeps a a"
  by (simp add: ad_keeps_def)

lemma keeps_trans [trans]: "ad_keeps a b \<Longrightarrow> ad_keeps b c \<Longrightarrow> ad_keeps a c"
  by (simp add: ad_keeps_def)

section \<open>Health records\<close>

lemma dict_set_keys: "k \<in> fst ` set d \<Longrightarrow> map fst (dict_set d k v) = map fst d"
  by (induction d) force+

lemma dict_set_all: "list_all P d \<Longrightarrow> P (k, v) \<Longrightarrow> list_all P (dict_set d k v)"
  by (induction d) auto

lemma dict_set_total:
  "map_of d k = Some h \<Longrightarrow> sh_total_requests h' = sh_total_requests h + 1 \<Longrightarrow>
     tracked_total (dict_set d k h') = tracked_total d + 1"
  by (induction d) (auto simp: tracked_total_def split: if_splits)

lemma update_health_ok:
  "health_ok (s, h) \<Longrightarrow> health_ok (s, update_health success err latency now h)"
  by (simp add: health_ok_def update_health_def)

lemma update_health_requests [simp]:
  "sh_total_requests (update_health success err latency now h) = sh_total_requests h + 1"
  by (simp add: update_health_def)

lemma health_inv_update:
  assumes inv_d: "health_inv d" and known: "s \<in> set source_names"
  shows "\<exists>h. map_of d s = Some h \<and> health_inv (dict_set d s (update_health success err latency now h)) \<and>
     tracked_total (dict_set d s (update_health success err latency now h)) = tracked_total d + 1"
proof -
  from inv_d known have mem: "s \<in> fst ` set d"
    by (metis health_inv_def list.set_map)
  then obtain h where h: "map_of d s = Some h"
    by (metis not_None_eq map_of_eq_None_iff)
  with inv_d have "health_ok (s, h)"
    by (auto simp: health_inv_def list_all_iff dest: map_of_SomeD)
  with inv_d mem have "health_inv (dict_set d s (update_health success err latency now h))"
    by (simp add: health_inv_def dict_set_keys dict_set_all update_health_ok)
  with h show ?thesis by (simp add: dict_set_total)
qed

section \<open>Building blocks\<close>

lemma tick_simps [simp]:
  "ad_dev (tick a) = ad_dev a" "ad_log (tick a) = ad_log a" "ad_health (tick a) = ad_health a"
  by (simp_all add: tick_def)

lemma log_request_simps [simp]:
  "ad_dev (log_request r a) = ad_dev a" "ad_log (log_request r a) = ad_log a @ [r]"
  "ad_health (log_request r a) = ad_health a"
  by (simp_all add: log_request_def)

lemma tick_keeps [simp]: "ad_keeps a (tick a)"
  by (simp add: ad_keeps_def ad_inv_def)

lemma log_keeps: "ad_dev a \<or> not_yahoo r \<Longrightarrow> ad_keeps a (log_request r a)"
  by (auto simp: ad_keeps_def ad_inv_def)

text \<open>A call sends at least one request before it is tracked, so the totals never exceed the log.\<close>

definition mid_inv :: "'v data_adapter \<Rightarrow> bool" where
  "mid_inv a \<longleftrightarrow> ad_inv a \<and> tracked_total (ad_health a) < length (ad_log a)"

lemma mid_tick [simp]: "mid_inv (tick a) = mid_inv a"
  by (simp add: mid_inv_def ad_inv_def)

lemma run_requests_mid:
  assumes "run_requests prov fs r a = (res, b)" "ad_inv a" "ad_dev a \<or> not_yahoo r"
    "\<forall>f \<in> set fs. \<forall>v. ad_dev a \<or> not_yahoo (f v)"
  shows "mid_inv b \<and> ad_dev b = ad_dev a"
  using assms
proof (induction fs arbitrary: r a)
  case Nil
  then show ?case by (auto simp: mid_inv_def ad_inv_def)
next
  case (Cons f fs)
  show ?case
  proof (cases "ask prov r a")
    case (Inl e)
    with Cons.prems show ?thesis by (auto simp: mid_inv_def ad_inv_def)
  next
    case (Inr v)
    have "ad_inv (log_request r a)"
      using Cons.prems log_keeps[of a r] by (simp add: ad_keeps_def)
    then show ?thesis
      using Cons.IH[of "f v" "log_request r a"] Cons.prems Inr by simp
  qed
qed

lemma run_requests_dev: "run_requests prov fs r a = (res, b) \<Longrightarrow> ad_dev b = ad_dev a"
  by (induction fs arbitrary: r a) (auto split: sum.splits)

lemma track_dev [simp]: "ad_dev (track_request clk s success err latency a) = ad_dev a"
  by (simp add: track_request_def Let_def)

lemma track_inv:
  assumes "mid_inv a" "s \<in> set source_names"
  shows "ad_inv (track_request clk s success err latency a)"
proof -
  have "health_inv (ad_health a)"
    using assms by (simp add: mid_inv_def ad_inv_def)
  from health_inv_update[OF this assms(2), of success err latency "clk (ad_ticks a)"]
  obtain h where "map_of (ad_health a) s = Some h"
    "health_inv (dict_set (ad_health a) s (update_health success err latency (clk (ad_ticks a)) h))"
    "tracked_total (dict_set (ad_health a) s (update_health success err latency (clk (ad_ticks a)) h))
       = tracked_total (ad_health a) + 1"
    by blast
  with assms(1) show ?thesis
    by (simp add: track_request_def mid_inv_def ad_inv_def Let_def)
qed

lemma tracked_keeps:
  assumes "s \<in> set source_names" "ad_dev a \<or> not_yahoo r" "\<forall>f \<in> set fs. \<forall>v. ad_dev a \<or> not_yahoo (f v)"
  shows "ad_keeps a (snd (tracked clk prov s caught fs r a))"
proof -
  obtain res b where run: "run_requests prov fs r (tick a) = (res, b)" by fastforce
  then have dev: "ad_dev b = ad_dev a" using run_requests_dev by fastforce
  have mid: "mid_inv b" if "ad_inv a"
    using run_requests_mid[OF run] that assms tick_keeps[of a] by (simp add: ad_keeps_def)
  show ?thesis
  proof (cases res)
    case (Inl e)
    then show ?thesis
      using run dev mid assms(1)
      by (auto simp: tracked_def Let_def ad_keeps_def track_inv mid_inv_def split: prod.splits)
  next
    case (Inr v)
    then show ?thesis
      using run dev mid assms(1) by (simp add: tracked_def Let_def ad_keeps_def track_inv)
  qed
qed

section \<open>Operations\<close>

lemma source_names_mem [simp]:
  "''yahoo'' \<in> set source_names" "''french'' \<in> set source_names" "''fred'' \<in> set source_names"
  "''sec-edgar'' \<in> set source_names" "''bank-of-canada'' \<in> set source_names" "''eia'' \<in> set source_names"
  by (simp_all add: source_names_def)

text \<open>Outside development mode the gate answers for prices and quotes whatever is asked.\<close>

lemma gate_closed:
  "\<not> ad_dev a \<Longrightarrow> c \<in> {''prices'', ''quotes_metadata''} \<Longrightarrow>
     \<exists>e. require_prices_class c a = Some (GapError (GapClass e)) \<and> se_data_class e = c"
  by (auto simp: require_prices_class_def require_available_def entry_for_def REGISTRY_def)

lemma gate_passes: "require_prices_class c a = None \<Longrightarrow> c \<in> {''prices'', ''quotes_metadata''} \<Longrightarrow> ad_dev a"
  using gate_closed by fastforce

lemma quote_keeps: "ad_keeps a (snd (get_quote clk prov s a))"
  using gate_passes[of "''quotes_metadata''" a]
  by (auto simp: get_quote_def tracked_keeps split: option.split)

lemma quotes_keeps: "ad_keeps a (snd (get_quotes clk prov ss res a))"
proof (induction ss arbitrary: res a)
  case (Cons s ss)
  obtain r b where q: "get_quote clk prov s a = (r, b)" by fastforce
  then have ab: "ad_keeps a b" using quote_keeps[of a clk prov s] by simp
  have "ad_keeps a (snd (get_quotes clk prov ss res' b))" for res'
    by (rule keeps_trans[OF ab Cons.IH])
  then show ?case
    using q ab by (simp split: sum.split)
qed simp

lemma history_keeps: "ad_keeps a (snd (get_history clk prov s p i a))"
  using gate_passes[of "''prices''" a]
  by (auto simp: get_history_def tracked_keeps split: option.split)

lemma first_source_keeps:
  "ad_keeps a (snd (get_factors clk prov m a))"
  "ad_keeps a (snd (get_risk_free_rate clk prov a))"
  "ad_keeps a (snd (get_macro_series clk prov s d a))"
  "ad_keeps a (snd (get_company_facts clk prov t a))"
  "ad_keeps a (snd (get_cad_series clk prov n r a))"
  "ad_keeps a (snd (get_energy_price clk prov k l a))"
  by (simp_all add: get_factors_def get_risk_free_rate_def get_macro_series_def get_company_facts_def
        get_cad_series_def get_energy_price_def tracked_keeps)

lemma fx_keeps: "ad_keeps a (snd (get_fx_rate_cad clk prov p a))"
  by (simp add: get_fx_rate_cad_def first_source_keeps)

lemma ticker_keeps: "ad_dev a \<Longrightarrow> ad_keeps a (snd (ticker_quote prov table key a))"
  by (auto simp: ticker_quote_def log_keeps split: sum.splits)

lemma all_quotes_keeps: "ad_dev a \<Longrightarrow> ad_keeps a (snd (all_quotes prov table ks a))"
proof (induction ks arbitrary: a)
  case (Cons k ks)
  obtain r b where q: "ticker_quote prov table k a = (r, b)" by fastforce
  with Cons.prems have ab: "ad_keeps a b" using ticker_keeps[of a prov table k] by simp
  then have "ad_dev b" using Cons.prems by (simp add: ad_keeps_def)
  then have "ad_keeps a (snd (all_quotes prov table ks b))"
    by (rule keeps_trans[OF ab Cons.IH])
  then show ?case
    using q ab by (auto split: sum.splits prod.splits)
qed simp

lemma wrap_keeps [simp]: "snd (wrap_commodity what r) = snd r"
  by (simp add: wrap_commodity_def)

lemma commodity_class_keeps:
  "ad_keeps a (snd (get_commodity prov k a))"
  "ad_keeps a (snd (get_forex prov k a))"
  "ad_keeps a (snd (get_index prov k a))"
  using gate_passes[of "''prices''" a] gate_passes[of "''quotes_metadata''" a]
  by (auto simp: get_commodity_def get_forex_def get_index_def ticker_keeps split: option.split)

lemma search_keeps: "ad_keeps a (snd (search finder q n a))"
  by (auto simp: search_def Let_def log_keeps split: sum.splits)

section \<open>Snapshot\<close>

lemma snapshot_quotes_keeps: "ad_keeps a (snd (snapshot_quotes clk prov ss snap a))"
proof (induction ss arbitrary: snap a)
  case (Cons s ss)
  obtain r b where q: "get_quote clk prov s a = (r, b)" by fastforce
  then have ab: "ad_keeps a b" using quote_keeps[of a clk prov s] by simp
  have "ad_keeps a (snd (snapshot_quotes clk prov ss res' b))" for res'
    by (rule keeps_trans[OF ab Cons.IH])
  then show ?case
    using q ab by (simp split: sum.split)
qed simp

lemma snapshot_indices_keeps: "ad_dev a \<Longrightarrow> ad_keeps a (snd (snapshot_indices prov ks snap a))"
proof (induction ks arbitrary: snap a)
  case (Cons k ks)
  obtain r b where q: "ticker_quote prov INDEX_TICKERS k a = (r, b)" by fastforce
  with Cons.prems have ab: "ad_keeps a b" using ticker_keeps[of a prov INDEX_TICKERS k] by simp
  then have "ad_dev b" using Cons.prems by (simp add: ad_keeps_def)
  then have rest: "ad_keeps a (snd (snapshot_indices prov ks snap' b))" for snap'
    by (rule keeps_trans[OF ab Cons.IH])
  show ?case
  proof (cases r)
    case (Inl e)
    obtain c m where "e = (c, m)" by fastforce
    with Inl q ab rest show ?thesis by simp
  qed (use q rest in simp)
qed simp

lemma snapshot_bulk_keeps:
  "ad_keeps a (snd (snapshot_commodities prov snap a))"
  "ad_keeps a (snd (snapshot_forex prov snap a))"
  using all_quotes_keeps[of a prov COMMODITY_TICKERS "map fst COMMODITY_TICKERS"]
    all_quotes_keeps[of a prov FOREX_TICKERS "map fst FOREX_TICKERS"]
  by (auto simp: snapshot_commodities_def snapshot_forex_def split: sum.splits prod.splits)

lemma snapshot_risk_free_keeps: "ad_keeps a (snd (snapshot_risk_free clk prov snap a))"
  using first_source_keeps(2)[of a clk prov]
  by (auto simp: snapshot_risk_free_def split: sum.splits prod.splits)

lemma market_snapshot_keeps:
  fixes a :: "'a data_adapter"
  shows "ad_keeps a (snd (get_market_snapshot clk prov ss c f i a))"
proof -
  define snap0 :: "'a market_snapshot" where "snap0 = \<lparr>ms_timestamp = clk (ad_ticks a), ms_quotes = [], ms_commodities = [],
    ms_forex = [], ms_indices = [], ms_risk_free = None, ms_errors = []\<rparr>"
  obtain r1 a1 where q: "snapshot_quotes clk prov (case ss of None \<Rightarrow> [] | Some xs \<Rightarrow> xs) snap0 (tick a) = (r1, a1)"
    by fastforce
  then have k1: "ad_keeps a a1"
    using snapshot_quotes_keeps[of "tick a" clk prov _ snap0] tick_keeps[of a] keeps_trans
    by (metis snd_conv)
  show ?thesis
  proof (cases r1)
    case (Inl e)
    with q k1 show ?thesis by (simp add: get_market_snapshot_def Let_def flip: snap0_def)
  next
    case (Inr snap1)
    obtain snap2 a2 where s2: "(if c then snapshot_commodities prov snap1 a1 else (snap1, a1)) = (snap2, a2)"
      by fastforce
    then have k2: "ad_keeps a1 a2"
      using snapshot_bulk_keeps(1)[of a1 prov snap1] by (auto split: if_splits)
    obtain snap3 a3 where s3: "(if f then snapshot_forex prov snap2 a2 else (snap2, a2)) = (snap3, a3)"
      by fastforce
    then have k3: "ad_keeps a2 a3"
      using snapshot_bulk_keeps(2)[of a2 prov snap2] by (auto split: if_splits)
    obtain r4 a4 where s4: "(if i
         then if \<not> ad_dev a3
              then (Inr (snap3\<lparr>ms_errors := ms_errors snap3 @ [ClassWaits ''Indices'']\<rparr>), a3)
              else snapshot_indices prov [''sp500'', ''tsx'', ''vix'', ''nasdaq''] snap3 a3
         else (Inr snap3, a3)) = (r4, a4)" by fastforce
    then have k4: "ad_keeps a3 a4"
      using snapshot_indices_keeps[of a3 prov "[''sp500'', ''tsx'', ''vix'', ''nasdaq'']" snap3]
      by (auto split: if_splits)
    have run: "get_market_snapshot clk prov ss c f i a =
        (case r4 of Inl e \<Rightarrow> (Inl e, a4) | Inr snap4 \<Rightarrow> snapshot_risk_free clk prov snap4 a4)"
      using q Inr s2 s3 s4 by (simp add: get_market_snapshot_def Let_def flip: snap0_def)
    have "ad_keeps a a4" using k1 k2 k3 k4 keeps_trans by blast
    then show ?thesis
      using keeps_trans snapshot_risk_free_keeps[of a4 clk prov] unfolding run
      by (cases r4) auto
  qed
qed

section \<open>Reachable adapters\<close>

lemma exec_keeps: "ad_keeps a (exec_ad clk prov finder op a)"
  by (cases op) (simp_all add: quote_keeps quotes_keeps history_keeps first_source_keeps fx_keeps
      commodity_class_keeps search_keeps market_snapshot_keeps)

lemma new_adapter_inv: "ad_inv (new_adapter dev)"
  by (simp add: ad_inv_def new_adapter_def health_inv_def health_ok_def new_health_def
      tracked_total_def source_names_def)

lemma reachable_inv: "ad_reachable clk prov finder dev a \<Longrightarrow> ad_inv a \<and> ad_dev a = (dev = Some ''1'')"
proof (induction rule: ad_reachable.induct)
  case ad_start
  show ?case by (simp add: new_adapter_inv) (simp add: new_adapter_def)
next
  case (ad_step a op)
  then show ?case using exec_keeps[of a clk prov finder op] by (simp add: ad_keeps_def)
qed

lemma error_rate_bounds: "health_ok p \<Longrightarrow> 0 \<le> error_rate (snd p) \<and> error_rate (snd p) \<le> 1"
  by (simp add: error_rate_def health_ok_def divide_le_eq_1)

lemma gated_calls:
  assumes "\<not> ad_dev a"
  shows "\<exists>e. get_quote clk prov s a = (Inl (GapError (GapClass e)), a)"
    "\<exists>e. get_history clk prov s p i a = (Inl (GapError (GapClass e)), a)"
    "get_commodity prov k a = (Inl CommodityGap, a)"
    "\<exists>e. get_forex prov k a = (Inl (GapError (GapClass e)), a)"
    "\<exists>e. get_index prov k a = (Inl (GapError (GapClass e)), a)"
    "search finder q n a = (Inr [], a)"
  using gate_closed[OF assms, of "''prices''"] gate_closed[OF assms, of "''quotes_metadata''"] assms
  by (auto simp: get_quote_def get_history_def get_commodity_def get_forex_def get_index_def search_def)

text \<open>C21: Over every sequence of adapter operations and whatever the providers answer: each of the six
  sources keeps exactly one health record, with no more errors than requests, an error rate between 0 and
  1 and no error text while it is healthy, and no more requests are recorded than were sent. Unless
  PAE_DEV_DATA was exactly 1 when the adapter was made, no quote, history or search request has been sent
  to Yahoo, every quote, history, commodity, forex and index call is refused with the state unchanged
  and search finds nothing.\<close>

theorem adapter_gate_and_health:
  assumes "ad_reachable clk prov finder dev a"
  shows "map fst (ad_health a) = source_names \<and>
    (\<forall>(n, h) \<in> set (ad_health a). sh_source h = n \<and> sh_total_errors h \<le> sh_total_requests h \<and>
       0 \<le> error_rate h \<and> error_rate h \<le> 1 \<and> (sh_healthy h \<longrightarrow> sh_last_error h = [])) \<and>
    (\<Sum>(n, h)\<leftarrow>ad_health a. sh_total_requests h) \<le> length (ad_log a) \<and>
    (dev \<noteq> Some ''1'' \<longrightarrow> list_all not_yahoo (ad_log a) \<and>
       (\<forall>s. \<exists>e. get_quote clk prov s a = (Inl (GapError (GapClass e)), a)) \<and>
       (\<forall>s p i. \<exists>e. get_history clk prov s p i a = (Inl (GapError (GapClass e)), a)) \<and>
       (\<forall>k. get_commodity prov k a = (Inl CommodityGap, a)) \<and>
       (\<forall>k. \<exists>e. get_forex prov k a = (Inl (GapError (GapClass e)), a)) \<and>
       (\<forall>k. \<exists>e. get_index prov k a = (Inl (GapError (GapClass e)), a)) \<and>
       (\<forall>q n. search finder q n a = (Inr [], a)))"
proof (intro conjI impI)
  from reachable_inv[OF assms] have inv_a: "ad_inv a" and dev: "ad_dev a = (dev = Some ''1'')" by auto
  show "map fst (ad_health a) = source_names"
    using inv_a by (simp add: ad_inv_def health_inv_def)
  show "\<forall>(n, h) \<in> set (ad_health a). sh_source h = n \<and> sh_total_errors h \<le> sh_total_requests h \<and>
      0 \<le> error_rate h \<and> error_rate h \<le> 1 \<and> (sh_healthy h \<longrightarrow> sh_last_error h = [])"
    using inv_a error_rate_bounds by (fastforce simp: ad_inv_def health_inv_def list_all_iff health_ok_def)
  show "(\<Sum>(n, h)\<leftarrow>ad_health a. sh_total_requests h) \<le> length (ad_log a)"
    using inv_a by (simp add: ad_inv_def tracked_total_def case_prod_unfold)
  assume "dev \<noteq> Some ''1''"
  with dev have "\<not> ad_dev a" by simp
  then show "list_all not_yahoo (ad_log a)" using inv_a by (simp add: ad_inv_def)
qed (use reachable_inv[OF assms] gated_calls in auto)

text \<open>A run in product mode: a refused quote, then the risk-free rate, which fails.\<close>

definition sample_provider :: "nat provider" where
  "sample_provider n r = Inl (FactorDataError, ''offline'')"

definition sample_run :: "nat data_adapter" where
  "sample_run = exec_ad (\<lambda>_. 0) sample_provider (\<lambda>_ _. Inr []) GetRiskFree
     (exec_ad (\<lambda>_. 0) sample_provider (\<lambda>_ _. Inr []) (GetQuote ''AAPL'') (new_adapter (Some ''true'')))"

lemma sample_run_log: "ad_log sample_run = [FredRiskFree]"
  using gate_closed[of "new_adapter (Some ''true'') :: nat data_adapter" "''quotes_metadata''"]
  by (auto simp: sample_run_def get_quote_def get_risk_free_rate_def tracked_def ask_def sample_provider_def
      track_request_def Let_def new_adapter_def tick_def log_request_def)

lemma adapter_gate_and_health_witness:
  "ad_log sample_run = [FredRiskFree] \<and>
   (\<Sum>(n, h)\<leftarrow>ad_health sample_run. sh_total_requests h) \<le> 1 \<and>
   get_commodity sample_provider ''gold'' sample_run = (Inl CommodityGap, sample_run)"
proof -
  have "ad_reachable (\<lambda>_. 0) sample_provider (\<lambda>_ _. Inr []) (Some ''true'') sample_run"
    unfolding sample_run_def by (intro ad_step ad_start)
  from adapter_gate_and_health[OF this] sample_run_log show ?thesis by simp
qed

end
