(* ===== verification/Endpoints.thy ===== *)
theory Endpoints
  imports Return_Series Csv Carry Brinson Optimize Factor
begin

text \<open>
  The REST handlers of \<^verbatim>\<open>analytics/pae/server.py\<close> over the storage, the CSV import and the models:
  request bodies with their declared field limits, the handlers, and the mapping of exceptions to
  statuses. \<open>Status n\<close> is an HTTP error the code answers with, \<open>Crash\<close> an exception that no handler
  maps. The Rust engine is the parameter \<open>engine\<close>. A generated identifier and clock reading are the
  argument \<open>stamp\<close>.
\<close>

section \<open>Errors\<close>

datatype rest_exc = Status nat | Crash

text \<open>The exception handlers of the application: ValidationError, NotFoundError, DatabaseError.\<close>

fun rest_of_db :: "db_exc \<Rightarrow> rest_exc" where
  "rest_of_db (ValidationErr _) = Status 400"
| "rest_of_db (NotFoundErr _) = Status 404"
| "rest_of_db _ = Crash"

fun rest_of_series :: "series_exc \<Rightarrow> rest_exc" where
  "rest_of_series (Http n) = Status n"
| "rest_of_series (Py _) = Crash"

definition answer :: "('a \<Rightarrow> 'b) \<Rightarrow> (db_exc + 'a) \<times> db \<Rightarrow> (rest_exc + 'b) \<times> db" where
  "answer f r = (case fst r of Inl e \<Rightarrow> Inl (rest_of_db e) | Inr a \<Rightarrow> Inr (f a), snd r)"

definition lift_crash :: "'e + 'a \<Rightarrow> rest_exc + 'a" where
  "lift_crash r = (case r of Inl _ \<Rightarrow> Inl Crash | Inr a \<Rightarrow> Inr a)"

definition length_ok :: "nat \<Rightarrow> nat \<Rightarrow> string \<Rightarrow> bool" where
  "length_ok lo hi s = (lo \<le> length s \<and> length s \<le> hi)"

type_synonym stamp = "string \<times> string"

section \<open>Portfolios and accounts\<close>

record portfolio_item =
  pi_summary :: portfolio_summary
  pi_name :: string
  pi_description :: string
  pi_id :: string

definition rest_list_portfolios :: "db \<Rightarrow> rest_exc + portfolio_item list" where
  "rest_list_portfolios d =
     lift_crash (traverse (\<lambda>p. rbind (get_portfolio_summary (pf_id p) d) (\<lambda>s.
        Inr \<lparr>pi_summary = s, pi_name = pf_name p, pi_description = pf_description p, pi_id = pf_id p\<rparr>))
       (get_portfolios d))"

definition rest_create_portfolio ::
  "stamp \<Rightarrow> string \<Rightarrow> string \<Rightarrow> db \<Rightarrow> (rest_exc + string \<times> string) \<times> db" where
  "rest_create_portfolio st name description d =
     (if \<not> length_ok 1 200 name then (Inl (Status 422), d)
      else answer (\<lambda>p. (pf_id p, pf_name p))
        (insert_portfolio \<lparr>pf_id = fst st, pf_name = name, pf_description = description,
           pf_created_at = snd st, pf_updated_at = snd st\<rparr> d))"

definition rest_delete_portfolio :: "string \<Rightarrow> db \<Rightarrow> (rest_exc + string) \<times> db" where
  "rest_delete_portfolio pid d = answer (\<lambda>_. pid) (delete_portfolio pid d)"

definition rest_list_accounts :: "db \<Rightarrow> (string \<times> string \<times> string \<times> string \<times> string) list" where
  "rest_list_accounts d =
     map (\<lambda>a. (acc_id a, acc_name a, acc_type a, acc_broker a, acc_currency a)) (get_accounts d)"

definition rest_create_account ::
  "stamp \<Rightarrow> string \<Rightarrow> string \<Rightarrow> string \<Rightarrow> string \<Rightarrow> db \<Rightarrow> (rest_exc + string \<times> string) \<times> db" where
  "rest_create_account st name account_type broker currency d =
     (if \<not> length_ok 1 200 name then (Inl (Status 422), d)
      else answer (\<lambda>a. (acc_id a, acc_name a))
        (insert_account \<lparr>acc_id = fst st, acc_name = name, acc_type = account_type, acc_broker = broker,
           acc_currency = currency, acc_created_at = snd st\<rparr> d))"

section \<open>Holdings\<close>

record holding_create =
  hc_portfolio_id :: string
  hc_account_id :: string
  hc_symbol :: string
  hc_name :: string
  hc_asset_class :: string
  hc_quantity :: pyfloat
  hc_market_value :: pyfloat
  hc_cost_basis :: pyfloat
  hc_yield_pct :: pyfloat
  hc_currency :: string
  hc_returns :: "pyfloat list"

record holding_patch =
  hp_symbol :: "string option"
  hp_name :: "string option"
  hp_asset_class :: "string option"
  hp_quantity :: "pyfloat option"
  hp_market_value :: "pyfloat option"
  hp_cost_basis :: "pyfloat option"
  hp_yield_pct :: "pyfloat option"
  hp_currency :: "string option"
  hp_returns :: "pyfloat list option"

definition json_floats :: "(pyval \<Rightarrow> string) \<Rightarrow> pyfloat list \<Rightarrow> string" where
  "json_floats dumps rs = dumps (VList (map VFloat rs))"

definition holding_of :: "(pyval \<Rightarrow> string) \<Rightarrow> stamp \<Rightarrow> holding_create \<Rightarrow> holding" where
  "holding_of dumps st req =
     \<lparr>h_id = fst st, h_portfolio_id = hc_portfolio_id req, h_account_id = hc_account_id req,
      h_symbol = upper (hc_symbol req), h_name = hc_name req, h_asset_class = hc_asset_class req,
      h_quantity = hc_quantity req, h_market_value = hc_market_value req, h_cost_basis = hc_cost_basis req,
      h_weight = Fin 0, h_yield_pct = hc_yield_pct req, h_currency = hc_currency req,
      h_returns_json = json_floats dumps (hc_returns req), h_created_at = snd st, h_updated_at = snd st\<rparr>"

definition rest_create_holding ::
  "(string \<Rightarrow> pyval option) \<Rightarrow> (pyval \<Rightarrow> string) \<Rightarrow> stamp \<Rightarrow> holding_create \<Rightarrow> db \<Rightarrow>
     (rest_exc + string \<times> string) \<times> db" where
  "rest_create_holding loads dumps st req d =
     (if \<not> length_ok 1 20 (hc_symbol req) then (Inl (Status 422), d)
      else answer (\<lambda>h. (h_id h, h_symbol h)) (insert_holding loads (holding_of dumps st req) d))"

text \<open>\<open>if req.f is not None: existing.f = req.f\<close>\<close>

definition set_if :: "'v option \<Rightarrow> ('v \<Rightarrow> 'h \<Rightarrow> 'h) \<Rightarrow> 'h \<Rightarrow> 'h" where
  "set_if v f h = (case v of None \<Rightarrow> h | Some x \<Rightarrow> f x h)"

definition apply_patch :: "(pyval \<Rightarrow> string) \<Rightarrow> holding_patch \<Rightarrow> holding \<Rightarrow> holding" where
  "apply_patch dumps p h =
     set_if (hp_returns p) (\<lambda>x h. h\<lparr>h_returns_json := json_floats dumps x\<rparr>)
     (set_if (hp_currency p) (\<lambda>x h. h\<lparr>h_currency := x\<rparr>)
     (set_if (hp_yield_pct p) (\<lambda>x h. h\<lparr>h_yield_pct := x\<rparr>)
     (set_if (hp_cost_basis p) (\<lambda>x h. h\<lparr>h_cost_basis := x\<rparr>)
     (set_if (hp_market_value p) (\<lambda>x h. h\<lparr>h_market_value := x\<rparr>)
     (set_if (hp_quantity p) (\<lambda>x h. h\<lparr>h_quantity := x\<rparr>)
     (set_if (hp_asset_class p) (\<lambda>x h. h\<lparr>h_asset_class := x\<rparr>)
     (set_if (hp_name p) (\<lambda>x h. h\<lparr>h_name := x\<rparr>)
     (set_if (hp_symbol p) (\<lambda>x h. h\<lparr>h_symbol := upper x\<rparr>) h))))))))"

definition rest_update_holding ::
  "(string \<Rightarrow> pyval option) \<Rightarrow> (pyval \<Rightarrow> string) \<Rightarrow> string \<Rightarrow> string \<Rightarrow> holding_patch \<Rightarrow> db \<Rightarrow>
     (rest_exc + string) \<times> db" where
  "rest_update_holding loads dumps now hid p d =
     (case get_holding_by_id hid d of
        Inl e \<Rightarrow> (Inl (rest_of_db e), d)
      | Inr existing \<Rightarrow> answer (\<lambda>_. hid) (update_holding loads now (apply_patch dumps p existing) d))"

definition rest_delete_holding :: "string \<Rightarrow> db \<Rightarrow> (rest_exc + string) \<times> db" where
  "rest_delete_holding hid d = answer (\<lambda>_. hid) (delete_holding hid d)"

record holding_view =
  hv_id :: string
  hv_symbol :: string
  hv_name :: string
  hv_asset_class :: string
  hv_quantity :: pyfloat
  hv_market_value :: pyfloat
  hv_cost_basis :: pyfloat
  hv_weight_pct :: pyfloat
  hv_yield_pct :: pyfloat
  hv_currency :: string
  hv_unrealized_pnl :: pyfloat
  hv_returns_count :: nat

record holdings_page =
  hg_holdings :: "holding_view list"
  hg_total_market_value :: pyfloat
  hg_count :: nat

text \<open>\<open>len(v)\<close>\<close>

fun value_length :: "pyval \<Rightarrow> py_exc + nat" where
  "value_length (VList vs) = Inr (length vs)"
| "value_length (VStr s) = Inr (length s)"
| "value_length (VDict d) = Inr (length d)"
| "value_length _ = Inl TypeError"

definition share_pct :: "pyfloat \<Rightarrow> pyfloat \<Rightarrow> py_exc + pyfloat" where
  "share_pct v tot =
     (if fl_lt (Fin 0) tot then rbind (fl_div v tot) (\<lambda>q. Inr (fl_mul q (Fin 100))) else Inr (Fin 0))"

definition holding_view_of ::
  "(string \<Rightarrow> pyval option) \<Rightarrow> pyfloat \<Rightarrow> holding \<Rightarrow> py_exc + holding_view" where
  "holding_view_of loads tot h =
     rbind (share_pct (h_market_value h) tot) (\<lambda>weight.
     rbind (value_length (case loads (h_returns_json h) of Some v \<Rightarrow> v | None \<Rightarrow> VList [])) (\<lambda>n.
       Inr \<lparr>hv_id = h_id h, hv_symbol = h_symbol h, hv_name = h_name h, hv_asset_class = h_asset_class h,
            hv_quantity = h_quantity h, hv_market_value = fl_round (h_market_value h) 2,
            hv_cost_basis = fl_round (h_cost_basis h) 2, hv_weight_pct = fl_round weight 2,
            hv_yield_pct = h_yield_pct h, hv_currency = h_currency h,
            hv_unrealized_pnl = fl_round (fl_sub (h_market_value h) (h_cost_basis h)) 2,
            hv_returns_count = n\<rparr>))"

definition rest_list_holdings ::
  "(string \<Rightarrow> pyval option) \<Rightarrow> string option \<Rightarrow> string option \<Rightarrow> db \<Rightarrow> rest_exc + holdings_page" where
  "rest_list_holdings loads pid aid d =
     (let hs = get_holdings pid aid d; tot = fl_sum (map h_market_value hs)
      in lift_crash (rbind (traverse (holding_view_of loads tot) hs) (\<lambda>vs.
           Inr \<lparr>hg_holdings = vs, hg_total_market_value = fl_round tot 2, hg_count = length vs\<rparr>)))"

section \<open>CSV preview\<close>

record preview_holding =
  pv_symbol :: string
  pv_name :: string
  pv_asset_class :: string
  pv_quantity :: pyfloat
  pv_market_value :: pyfloat
  pv_cost_basis :: pyfloat
  pv_yield_pct :: pyfloat
  pv_weight_pct :: pyfloat
  pv_currency :: string

record import_preview =
  ip_format :: string
  ip_rows_parsed :: nat
  ip_rows_skipped :: nat
  ip_holdings :: "preview_holding list"
  ip_warnings :: "(nat \<times> row_warning) list"
  ip_errors :: "(nat \<times> row_error) list"

definition MAX_UPLOAD :: nat where "MAX_UPLOAD = 10 * 1024 * 1024"

text \<open>\<open>content.decode\<close>: UTF-8, else Latin-1, which maps every byte to the character of its number.\<close>

definition decode_upload :: "(string \<Rightarrow> string option) \<Rightarrow> string \<Rightarrow> string" where
  "decode_upload utf8 content = (case utf8 content of Some t \<Rightarrow> t | None \<Rightarrow> content)"

definition preview_of :: "holding \<Rightarrow> preview_holding" where
  "preview_of h =
     \<lparr>pv_symbol = h_symbol h, pv_name = h_name h, pv_asset_class = h_asset_class h,
      pv_quantity = h_quantity h, pv_market_value = h_market_value h, pv_cost_basis = h_cost_basis h,
      pv_yield_pct = h_yield_pct h, pv_weight_pct = fl_round (fl_mul (h_weight h) (Fin 100)) 2,
      pv_currency = h_currency h\<rparr>"

definition rest_import_csv ::
  "generator \<Rightarrow> (string \<Rightarrow> string option) \<Rightarrow> string \<Rightarrow> string \<Rightarrow> string \<Rightarrow> string \<Rightarrow> rest_exc + import_preview" where
  "rest_import_csv gen utf8 filename content pid aid =
     (if \<not> list_ex (endswith (lower filename)) [''.csv'', ''.tsv'', ''.txt''] then Inl (Status 400)
      else if length content > MAX_UPLOAD then Inl (Status 400)
      else let r = import_csv_string gen (decode_upload utf8 content) pid aid
           in Inr \<lparr>ip_format = im_format r, ip_rows_parsed = im_rows_parsed r,
                   ip_rows_skipped = im_rows_skipped r, ip_holdings = map preview_of (im_holdings r),
                   ip_warnings = im_warnings r, ip_errors = im_errors r\<rparr>)"

section \<open>Models\<close>

definition carry_input :: "holding \<Rightarrow> (string \<times> pyval) list" where
  "carry_input h =
     [(''symbol'', VStr (h_symbol h)), (''market_value'', VFloat (h_market_value h)),
      (''yield_pct'', VFloat (h_yield_pct h))]"

definition rest_compute_carry :: "string \<Rightarrow> pyfloat \<Rightarrow> pyfloat \<Rightarrow> db \<Rightarrow> rest_exc + portfolio_carry" where
  "rest_compute_carry pid tm rate d =
     (let hs = get_holdings (Some pid) None d
      in if hs = [] then Inl (Status 404)
         else lift_crash (analyze_carry (map carry_input hs) tm rate))"

record optimize_request =
  or_portfolio_id :: "string option"
  or_symbols :: "string list option"
  or_expected_returns :: "pyfloat list option"
  or_covariance :: "pyfloat list list option"
  or_risk_free_rate :: pyfloat
  or_frontier_points :: int

fun rest_of_opt :: "opt_exc \<Rightarrow> rest_exc" where
  "rest_of_opt (OptValueError _) = Status 400"
| "rest_of_opt (OptRaise e) = (if e = ValueError then Status 400 else Crash)"
| "rest_of_opt _ = Status 422"

fun truthy_list :: "'a list option \<Rightarrow> 'a list option" where
  "truthy_list (Some (x # xs)) = Some (x # xs)"
| "truthy_list _ = None"

definition optimize_inputs ::
  "(string \<Rightarrow> pyval option) \<Rightarrow> optimize_request \<Rightarrow> db \<Rightarrow>
     rest_exc + (string list \<times> pyfloat list \<times> pyfloat list list)" where
  "optimize_inputs loads req d =
     (case truthy_list (or_portfolio_id req) of
        Some pid \<Rightarrow>
          (let hs = get_holdings (Some pid) None d
           in if hs = [] then Inl (Status 404)
              else case holdings_to_inputs loads (map (\<lambda>h. (h_symbol h, h_returns_json h)) hs) of
                  Inl e \<Rightarrow> Inl (rest_of_opt e)
                | Inr (syms, mu, cov) \<Rightarrow> Inr (syms, map Fin mu, map (map Fin) cov))
      | None \<Rightarrow>
          (case (truthy_list (or_symbols req), truthy_list (or_expected_returns req), truthy_list (or_covariance req)) of
             (Some syms, Some mu, Some cov) \<Rightarrow> Inr (syms, mu, cov)
           | _ \<Rightarrow> Inl (Status 400)))"

definition rest_optimize ::
  "numerics \<Rightarrow> (string \<Rightarrow> pyval option) \<Rightarrow> optimize_request \<Rightarrow> db \<Rightarrow> rest_exc + optimization_result" where
  "rest_optimize num loads req d =
     (if or_frontier_points req < 2 \<or> 100 < or_frontier_points req then Inl (Status 422)
      else rbind (optimize_inputs loads req d) (\<lambda>(syms, mu, cov).
        case optimize num syms mu cov (or_risk_free_rate req) (or_frontier_points req) of
          Inl e \<Rightarrow> Inl (rest_of_opt e)
        | Inr r \<Rightarrow> Inr r))"

record attribution_segment =
  as_segment :: string
  as_weight :: pyfloat
  as_return :: pyfloat

definition segment_value :: "attribution_segment \<Rightarrow> pyval" where
  "segment_value s =
     VDict [(''segment'', VStr (as_segment s)), (''weight'', VFloat (as_weight s)), (''return'', VFloat (as_return s))]"

fun rest_of_brinson :: "brinson_exc \<Rightarrow> rest_exc" where
  "rest_of_brinson (Raised e) = (if e = ValueError then Status 422 else Crash)"
| "rest_of_brinson _ = Status 422"

definition rest_attribution ::
  "attribution_segment list \<Rightarrow> attribution_segment list \<Rightarrow> rest_exc + brinson_attribution" where
  "rest_attribution ps bs =
     (if ps = [] \<or> bs = [] \<or> \<not> list_all (\<lambda>s. length_ok 1 200 (as_segment s)) (ps @ bs) then Inl (Status 422)
      else case attribute (map segment_value ps) (map segment_value bs) of
          Inl e \<Rightarrow> Inl (rest_of_brinson e)
        | Inr r \<Rightarrow> Inr r)"

text \<open>The factor endpoint: \<open>factors\<close> is the downloaded set of series, None when it is unavailable.\<close>

definition factor_names :: "string list" where
  "factor_names = [''Mkt-RF'', ''SMB'', ''HML'', ''RMW'', ''CMA'']"

record factor_response =
  fr_n_periods :: nat
  fr_result :: factor_decomposition
  fr_portfolio_cumulative :: "pyfloat list"
  fr_benchmark_cumulative :: "pyfloat list"

definition rest_factor ::
  "(mat \<Rightarrow> fl_mat option) \<Rightarrow> (string \<Rightarrow> pyval option) \<Rightarrow> (string \<Rightarrow> pyfloat list) option \<Rightarrow> string \<Rightarrow> db \<Rightarrow>
     rest_exc + factor_response" where
  "rest_factor inv_fn loads factors pid d =
     (case portfolio_period_returns loads pid d of
        Inl e \<Rightarrow> Inl (rest_of_series e)
      | Inr (portfolio, n) \<Rightarrow>
          (case factors of
             None \<Rightarrow> Inl (Status 502)
           | Some f \<Rightarrow>
               let m = min n (Min (set (map (length \<circ> f) factor_names)))
               in if m < 12 then Inl (Status 422)
                  else let port = last_n m portfolio;
                           rets = map (\<lambda>name. (name, last_n m (f name))) factor_names
                       in case decompose inv_fn port rets of
                            Inl _ \<Rightarrow> Inl (Status 422)
                          | Inr r \<Rightarrow>
                              Inr \<lparr>fr_n_periods = m, fr_result = r, fr_portfolio_cumulative = cumulative_growth port,
                                   fr_benchmark_cumulative =
                                     cumulative_growth (map2 fl_add (last_n m (f ''Mkt-RF'')) (last_n m (f ''RF'')))\<rparr>))"

section \<open>The Rust engine\<close>

datatype engine_request =
    RiskRequest "engine_holding list"
  | MetricsRequest "engine_holding list"
  | MonteCarloRequest "engine_holding list" int int pyfloat
  | StressRequest "engine_holding list" string "pyval option"

datatype engine_reply =
    ConnectFailed
  | TimedOut
  | ErrorStatus nat
  | NotJson
  | Reply pyval

type_synonym engine = "engine_request \<Rightarrow> engine_reply"

text \<open>\<open>_proxy_engine_post\<close>: only a failed connection and an error status are mapped.\<close>

fun proxy_reply :: "engine_reply \<Rightarrow> rest_exc + pyval" where
  "proxy_reply ConnectFailed = Inl (Status 502)"
| "proxy_reply (ErrorStatus n) = Inl (Status n)"
| "proxy_reply (Reply v) = Inr v"
| "proxy_reply _ = Inl Crash"

definition rest_engine ::
  "(string \<Rightarrow> pyval option) \<Rightarrow> engine \<Rightarrow> string \<Rightarrow> (engine_holding list \<Rightarrow> rest_exc + engine_request) \<Rightarrow> db \<Rightarrow>
     rest_exc + pyval" where
  "rest_engine loads eng pid request d =
     rbind (lift_crash (get_holdings_for_engine loads pid d)) (\<lambda>hs.
       if hs = [] then Inl (Status 404) else rbind (request hs) (\<lambda>r. proxy_reply (eng r)))"

definition rest_risk where
  "rest_risk loads eng pid d = rest_engine loads eng pid (\<lambda>hs. Inr (RiskRequest hs)) d"

definition rest_metrics where
  "rest_metrics loads eng pid d = rest_engine loads eng pid (\<lambda>hs. Inr (MetricsRequest hs)) d"

definition rest_montecarlo where
  "rest_montecarlo loads eng pid sims months d =
     (if sims < 100 \<or> 100000 < sims \<or> months < 1 \<or> 120 < months then Inl (Status 422)
      else rest_engine loads eng pid (\<lambda>hs.
        rbind (lift_crash (get_portfolio_summary pid d)) (\<lambda>s.
          Inr (MonteCarloRequest hs sims months (ps_total_market_value s)))) d)"

definition rest_stress where
  "rest_stress loads eng pid scenario d = rest_engine loads eng pid (\<lambda>hs. Inr (StressRequest hs scenario None)) d"

end
