(* ===== verification/Pke_Text.thy ===== *)
theory Pke_Text
  imports Prelude "HOL-Library.Char_ord" "HOL-Library.List_Lexorder"
begin

text \<open>
  The text side of the knowledge base, \<^verbatim>\<open>analytics/pae/pke/ingest.py\<close> and
  \<^verbatim>\<open>analytics/pae/pke/embeddings.py\<close>: frontmatter, chunking, themes, chunk identifiers, the ingestion
  of files and directories, and the embedding of chunks. The regular expressions are written out as
  the scans they perform. The SHA-256 digest, the file system and the embedding model are parameters.
\<close>

section \<open>Regular expressions\<close>

text \<open>
  \<open>\s*\n\<close> read greedily: through the last newline of the whitespace run at the front, if it has one.
\<close>

definition through_newline :: "string \<Rightarrow> string option" where
  "through_newline s =
     (let run = takeWhile is_ws s
      in if newline \<in> set run
         then Some (rev (takeWhile (\<lambda>c. c \<noteq> newline) (rev run)) @ dropWhile is_ws s)
         else None)"

lemma through_newline_split:
  "through_newline s = Some t \<Longrightarrow> \<exists>r. s = r @ newline # t \<and> (\<forall>c \<in> set r. is_ws c)"
proof -
  assume t: "through_newline s = Some t"
  let ?run = "takeWhile is_ws s"
  let ?k = "dropWhile (\<lambda>c. c \<noteq> newline) (rev ?run)"
  have nl: "newline \<in> set ?run" and t': "t = rev (takeWhile (\<lambda>c. c \<noteq> newline) (rev ?run)) @ dropWhile is_ws s"
    using t by (auto simp: through_newline_def Let_def split: if_splits)
  have ne: "?k \<noteq> []" using nl by auto
  then have "hd ?k = newline" using hd_dropWhile[OF ne] by simp
  with ne have k: "?k = newline # tl ?k" by (metis list.collapse)
  have "rev ?run = takeWhile (\<lambda>c. c \<noteq> newline) (rev ?run) @ newline # tl ?k"
    using k takeWhile_dropWhile_id[of "\<lambda>c. c \<noteq> newline" "rev ?run"] by simp
  from arg_cong[OF this, of rev]
  have run: "?run = rev (tl ?k) @ newline # rev (takeWhile (\<lambda>c. c \<noteq> newline) (rev ?run))"
    by simp
  have "s = ?run @ dropWhile is_ws s" by simp
  also have "\<dots> = rev (tl ?k) @ newline # t" unfolding t' by (subst run) simp
  finally have "s = rev (tl ?k) @ newline # t" .
  moreover have "\<forall>c \<in> set (rev (tl ?k)). is_ws c"
  proof
    fix c assume "c \<in> set (rev (tl ?k))"
    then have "c \<in> set ?run" by (subst run) simp
    then show "is_ws c" by (auto dest: set_takeWhileD)
  qed
  ultimately show ?thesis by blast
qed

lemma through_newline_length: "through_newline s = Some t \<Longrightarrow> length t < length s"
  using through_newline_split by fastforce

text \<open>\<open>re.split(r"\n\s*\n", text)\<close>\<close>

function split_paragraphs :: "string \<Rightarrow> string \<Rightarrow> string list" where
  "split_paragraphs acc [] = [rev acc]"
| "split_paragraphs acc (c # cs) =
     (if c = newline
      then case through_newline cs of
          Some rest \<Rightarrow> rev acc # split_paragraphs [] rest
        | None \<Rightarrow> split_paragraphs (c # acc) cs
      else split_paragraphs (c # acc) cs)"
  by pat_completeness auto
termination
  by (relation "measure (\<lambda>(acc, s). length s)") (auto dest: through_newline_length)

text \<open>\<open>re.split(r"(?<=[.!?])\s+", para)\<close>\<close>

definition ends_sentence :: "string \<Rightarrow> bool" where
  "ends_sentence acc = (acc \<noteq> [] \<and> hd acc \<in> set ''.!?'')"

function split_sentences :: "string \<Rightarrow> string \<Rightarrow> string list" where
  "split_sentences acc [] = [rev acc]"
| "split_sentences acc (c # cs) =
     (if is_ws c \<and> ends_sentence acc then rev acc # split_sentences [] (dropWhile is_ws cs)
      else split_sentences (c # acc) cs)"
  by pat_completeness auto
termination
  by (relation "measure (\<lambda>(acc, s). length s)") (auto simp: length_dropWhile_le le_imp_less_Suc)

section \<open>Chunks\<close>

definition word_count :: "string \<Rightarrow> nat" where
  "word_count s = length (words s)"

type_synonym chunking = "string list \<times> string"

definition close_chunk :: "chunking \<Rightarrow> string list" where
  "close_chunk st = (if snd st \<noteq> [] then fst st @ [strip (snd st)] else fst st)"

text \<open>The inner loop: one sentence of an oversized paragraph.\<close>

definition sentence_step :: "nat \<Rightarrow> string \<Rightarrow> chunking \<Rightarrow> chunking" where
  "sentence_step limit sent st =
     (if word_count (snd st) + word_count sent \<le> limit
      then (fst st, if snd st = [] then sent else snd st @ '' '' @ sent)
      else (close_chunk st, sent))"

text \<open>The outer loop: one paragraph.\<close>

definition paragraph_step :: "nat \<Rightarrow> string \<Rightarrow> chunking \<Rightarrow> chunking" where
  "paragraph_step limit raw st =
     (let para = strip raw
      in if para = [] then st
         else if word_count (snd st) + word_count para \<le> limit
         then (fst st, if snd st = [] then para else snd st @ [newline, newline] @ para)
         else let chunks = close_chunk st
              in if word_count para > limit
                 then fold (sentence_step limit) (split_sentences [] para) (chunks, [])
                 else (chunks, para))"

definition chunk_text :: "string \<Rightarrow> int \<Rightarrow> py_exc + string list" where
  "chunk_text txt max_tokens =
     (if max_tokens < 1 then Inl ValueError
      else if blank txt then Inr []
      else let st = fold (paragraph_step (nat max_tokens)) (split_paragraphs [] (strip txt)) ([], [])
           in Inr (if strip (snd st) \<noteq> [] then fst st @ [strip (snd st)] else fst st))"

section \<open>Lemmas: words\<close>

lemma words_acc_break: "is_ws w \<Longrightarrow> words_acc acc (a @ w # b) = words_acc acc a @ words_acc [] b"
  by (induction a arbitrary: acc) auto

lemma words_break: "is_ws w \<Longrightarrow> words (a @ w # b) = words a @ words b"
  by (simp add: words_def words_acc_break)

lemma words_Nil [simp]: "words [] = []"
  by (simp add: words_def)

lemma words_ws_Cons: "is_ws w \<Longrightarrow> words (w # b) = words b"
  using words_break[of w "[]" b] by simp

lemma words_ws: "\<forall>c \<in> set r. is_ws c \<Longrightarrow> words (r @ s) = words s"
  by (induction r) (auto simp: words_ws_Cons)

lemma words_append_ws: "\<forall>c \<in> set r. is_ws c \<Longrightarrow> words (s @ r) = words s"
proof (cases r)
  case (Cons w t)
  moreover assume "\<forall>c \<in> set r. is_ws c"
  ultimately show ?thesis using words_ws[of t "[]"] by (simp add: words_break)
qed simp

lemma words_dropWhile [simp]: "words (dropWhile is_ws s) = words s"
proof -
  have "\<forall>c \<in> set (takeWhile is_ws s). is_ws c" by (auto dest: set_takeWhileD)
  from words_ws[OF this, of "dropWhile is_ws s"] show ?thesis by simp
qed

lemma words_rstrip [simp]: "words (rstrip s) = words s"
proof -
  have "s = rstrip s @ rev (takeWhile is_ws (rev s))"
    unfolding rstrip_def by (metis rev_append rev_rev_ident takeWhile_dropWhile_id)
  moreover have "\<forall>c \<in> set (rev (takeWhile is_ws (rev s))). is_ws c"
    by (auto dest: set_takeWhileD)
  ultimately show ?thesis using words_append_ws by metis
qed

lemma words_strip [simp]: "words (strip s) = words s"
  by (simp add: strip_def lstrip_def)

lemma word_count_strip [simp]: "word_count (strip s) = word_count s"
  by (simp add: word_count_def)

lemma is_ws_newline [simp]: "is_ws newline"
  by (simp add: is_ws_def newline_def code_of_def)

lemma is_ws_space [simp]: "is_ws CHR '' ''"
  by (simp add: is_ws_def code_of_def)

lemma words_split_paragraphs: "concat (map words (split_paragraphs acc s)) = words (rev acc @ s)"
proof (induction acc s rule: split_paragraphs.induct)
  case (2 acc c cs)
  show ?case
  proof (cases "c = newline \<and> through_newline cs \<noteq> None")
    case True
    then obtain rest where c: "c = newline" and rest: "through_newline cs = Some rest" by auto
    from through_newline_split[OF rest] obtain r where
      r: "cs = r @ newline # rest" "\<forall>x \<in> set r. is_ws x" by blast
    have "words (rev acc @ newline # cs) = words (rev acc) @ words rest"
      using r words_ws[of r "newline # rest"] by (simp add: words_break words_ws_Cons)
    with 2 show ?thesis by (simp add: c rest)
  next
    case False
    with 2 show ?thesis by (auto split: option.split)
  qed
qed simp

lemma words_split_sentences: "concat (map words (split_sentences acc s)) = words (rev acc @ s)"
  by (induction acc s rule: split_sentences.induct) (auto simp: words_break)

lemma words_Nil_iff: "words s = [] \<longleftrightarrow> (\<forall>c \<in> set s. is_ws c)"
proof -
  have "words_acc acc s = [] \<longleftrightarrow> acc = [] \<and> (\<forall>c \<in> set s. is_ws c)" for acc
    by (induction s arbitrary: acc) auto
  then show ?thesis by (simp add: words_def)
qed

lemma word_count_0_iff: "word_count s = 0 \<longleftrightarrow> words s = []"
  by (simp add: word_count_def)

section \<open>Lemmas: chunking\<close>

definition chunking_words :: "chunking \<Rightarrow> string list" where
  "chunking_words st = concat (map words (fst st)) @ words (snd st)"

lemma close_chunk_words [simp]: "concat (map words (close_chunk st)) = chunking_words st"
  by (simp add: close_chunk_def chunking_words_def)

lemma sentence_step_words: "chunking_words (sentence_step limit sent st) = chunking_words st @ words sent"
  by (simp add: sentence_step_def words_break) (simp add: chunking_words_def words_break)

lemma fold_sentence_words:
  "chunking_words (fold (sentence_step limit) ss st) = chunking_words st @ concat (map words ss)"
  by (induction ss arbitrary: st) (simp_all add: sentence_step_words)

lemma paragraph_step_words: "chunking_words (paragraph_step limit raw st) = chunking_words st @ words raw"
proof -
  let ?p = "strip raw"
  have "chunking_words (close_chunk st, p) = chunking_words st @ words p" for p
    by (simp add: chunking_words_def[of "(close_chunk st, p)"])
  moreover have "words raw = []" if "?p = []"
    using that words_strip[of raw] by simp
  moreover have "words (snd st @ newline # newline # ?p) = words (snd st) @ words raw"
    by (simp add: words_break words_ws_Cons)
  ultimately show ?thesis
    by (simp add: paragraph_step_def Let_def fold_sentence_words words_split_sentences)
      (simp add: chunking_words_def)
qed

lemma fold_paragraph_words:
  "chunking_words (fold (paragraph_step limit) ps st) = chunking_words st @ concat (map words ps)"
  by (induction ps arbitrary: st) (simp_all add: paragraph_step_words)

text \<open>No piece of a stripped paragraph is blank.\<close>

lemma split_sentences_nonblank:
  assumes "(\<exists>c \<in> set acc. \<not> is_ws c) \<or> (s \<noteq> [] \<and> \<not> is_ws (hd s))" "s = [] \<or> \<not> is_ws (last s)"
  shows "\<forall>q \<in> set (split_sentences acc s). words q \<noteq> []"
  using assms
proof (induction acc s rule: split_sentences.induct)
  case (1 acc)
  then show ?case by (auto simp: words_Nil_iff)
next
  case (2 acc c cs)
  show ?case
  proof (cases "is_ws c \<and> ends_sentence acc")
    case True
    then have "cs \<noteq> []" using 2(4) by auto
    with 2(4) have cs: "cs \<noteq> []" "\<not> is_ws (last cs)" by simp_all
    then have ne: "dropWhile is_ws cs \<noteq> []" by (auto intro: last_in_set)
    have "last (dropWhile is_ws cs) = last cs"
      by (metis ne last_appendR takeWhile_dropWhile_id)
    with True cs ne have "\<forall>q \<in> set (split_sentences [] (dropWhile is_ws cs)). words q \<noteq> []"
      by (intro 2(1)) (auto simp: hd_dropWhile)
    with True 2(3) show ?thesis by (auto simp: words_Nil_iff)
  next
    case False
    have "\<forall>q \<in> set (split_sentences (c # acc) cs). words q \<noteq> []"
      using 2(3,4) by (intro 2(2)[OF False]) (auto split: if_splits)
    with False show ?thesis by auto
  qed
qed

lemma strip_ends: "strip s \<noteq> [] \<Longrightarrow> \<not> is_ws (hd (strip s)) \<and> \<not> is_ws (last (strip s))"
proof -
  assume ne: "strip s \<noteq> []"
  let ?t = "dropWhile is_ws (rev (lstrip s))"
  have t: "strip s = rev ?t" by (simp add: strip_def rstrip_def)
  with ne have "?t \<noteq> []" by simp
  from hd_dropWhile[OF this] have "\<not> is_ws (last (strip s))"
    using t \<open>?t \<noteq> []\<close> by (simp add: last_rev)
  moreover have "lstrip s \<noteq> []" using ne by (auto simp: strip_def rstrip_def)
  then have "\<not> is_ws (hd (lstrip s))" unfolding lstrip_def by (rule hd_dropWhile)
  moreover have "hd (strip s) = hd (lstrip s)"
  proof -
    have "lstrip s = strip s @ rev (takeWhile is_ws (rev (lstrip s)))"
      unfolding strip_def rstrip_def by (metis rev_append rev_rev_ident takeWhile_dropWhile_id)
    with ne show ?thesis by (metis hd_append2)
  qed
  ultimately show ?thesis by simp
qed

text \<open>A chunk is not blank and within the limit, or it is one sentence.\<close>

definition chunk_ok :: "nat \<Rightarrow> string set \<Rightarrow> string \<Rightarrow> bool" where
  "chunk_ok limit S c \<longleftrightarrow> words c \<noteq> [] \<and> (word_count c \<le> limit \<or> (\<exists>s \<in> S. words c = words s))"

definition chunking_ok :: "nat \<Rightarrow> string set \<Rightarrow> chunking \<Rightarrow> bool" where
  "chunking_ok limit S st \<longleftrightarrow>
     list_all (chunk_ok limit S) (fst st) \<and> (snd st = [] \<or> chunk_ok limit S (snd st))"

lemma chunk_ok_strip [simp]: "chunk_ok limit S (strip c) = chunk_ok limit S c"
  by (simp add: chunk_ok_def)

lemma close_chunk_ok: "chunking_ok limit S st \<Longrightarrow> list_all (chunk_ok limit S) (close_chunk st)"
  by (auto simp: close_chunk_def chunking_ok_def)

lemma sentence_step_ok:
  assumes "chunking_ok limit S st" "sent \<in> S" "words sent \<noteq> []"
  shows "chunking_ok limit S (sentence_step limit sent st)"
proof -
  have "chunk_ok limit S sent" using assms by (auto simp: chunk_ok_def)
  then show ?thesis
    using assms(1,3) close_chunk_ok[OF assms(1)]
    by (auto simp: sentence_step_def chunking_ok_def chunk_ok_def words_break word_count_def)
qed

lemma fold_sentence_ok:
  assumes "chunking_ok limit S st" "set ss \<subseteq> S" "\<forall>s \<in> set ss. words s \<noteq> []"
  shows "chunking_ok limit S (fold (sentence_step limit) ss st)"
  using assms by (induction ss arbitrary: st) (simp_all add: sentence_step_ok)

lemma paragraph_step_ok:
  assumes "chunking_ok limit S st" "set (split_sentences [] (strip raw)) \<subseteq> S"
  shows "chunking_ok limit S (paragraph_step limit raw st)"
proof (cases "strip raw = []")
  case False
  let ?p = "strip raw"
  note ends = strip_ends[OF False]
  have ne: "words ?p \<noteq> []"
    using ends False by (auto simp: words_Nil_iff simp del: words_strip)
  have "\<forall>s \<in> set (split_sentences [] ?p). words s \<noteq> []"
    by (rule split_sentences_nonblank) (use ends False in auto)
  then have "chunking_ok limit S (fold (sentence_step limit) (split_sentences [] ?p) (close_chunk st, []))"
    using close_chunk_ok[OF assms(1)] assms(2) by (intro fold_sentence_ok) (auto simp: chunking_ok_def)
  then show ?thesis
    using assms(1) close_chunk_ok[OF assms(1)] False ne
    by (auto simp: paragraph_step_def Let_def chunking_ok_def chunk_ok_def words_break words_ws_Cons word_count_def)
qed (use assms in \<open>simp add: paragraph_step_def\<close>)

lemma fold_paragraph_ok:
  assumes "chunking_ok limit S st" "\<forall>p \<in> set ps. set (split_sentences [] (strip p)) \<subseteq> S"
  shows "chunking_ok limit S (fold (paragraph_step limit) ps st)"
  using assms by (induction ps arbitrary: st) (simp_all add: paragraph_step_ok)

text \<open>The sentences of a text, as the code splits it.\<close>

definition sentences_of :: "string \<Rightarrow> string list" where
  "sentences_of txt = concat (map (\<lambda>p. split_sentences [] (strip p)) (split_paragraphs [] (strip txt)))"

text \<open>C24: chunking loses, repeats and reorders no word: the words of the chunks, in order, are the words of the
  text. No chunk is blank, and each has at most the requested number of words or is a single sentence.
  It fails exactly for a limit below one.\<close>

theorem chunk_text_partitions_words:
  "case chunk_text txt n of
     Inl e \<Rightarrow> e = ValueError \<and> n < 1
   | Inr cs \<Rightarrow> 1 \<le> n \<and> concat (map words cs) = words txt \<and>
       list_all (\<lambda>c. words c \<noteq> [] \<and>
         (int (word_count c) \<le> n \<or> list_ex (\<lambda>s. words c = words s) (sentences_of txt))) cs"
proof (cases "n < 1")
  case True
  then show ?thesis by (simp add: chunk_text_def)
next
  case n: False
  show ?thesis
  proof (cases "blank txt")
    case True
    then have "words txt = []" by (simp add: words_Nil_iff blank_iff)
    with n True show ?thesis by (simp add: chunk_text_def)
  next
    case False
    define st where "st = fold (paragraph_step (nat n)) (split_paragraphs [] (strip txt)) ([], [])"
    have "chunking_words st = words txt"
      by (simp add: st_def fold_paragraph_words words_split_paragraphs)
        (simp add: chunking_words_def)
    moreover have "words (snd st) = []" if "strip (snd st) = []"
      using that words_strip[of "snd st"] by simp
    moreover have "chunking_ok (nat n) (set (sentences_of txt)) st"
      unfolding st_def by (rule fold_paragraph_ok) (auto simp: chunking_ok_def sentences_of_def)
    ultimately show ?thesis
      using n False
      by (auto simp: chunk_text_def Let_def chunking_ok_def chunk_ok_def chunking_words_def list_ex_iff
          list_all_iff nat_le_iff simp flip: st_def)
  qed
qed

end
