(* ===== verification/Pke_Ingest.thy ===== *)
theory Pke_Ingest
  imports Pke_Text
begin

text \<open>
  \<^verbatim>\<open>analytics/pae/pke/ingest.py\<close> and \<^verbatim>\<open>analytics/pae/pke/embeddings.py\<close> above the text level:
  frontmatter, themes, chunk identifiers, files, directories, embeddings. The digest \<open>sha\<close>, the text
  of a value \<open>str\<close>, the file system (\<open>probe\<close>, \<open>read\<close>) and the model are parameters.
\<close>

section \<open>Frontmatter\<close>

text \<open>
  The expression \<open>^---\s*\n(.*?)\n---\s*\n(.*)$\<close>. The opening line break may be any newline of the
  whitespace after the dashes, the last one first; the closing is the first place that fits.
\<close>

fun closing_fence :: "string \<Rightarrow> string \<Rightarrow> (string \<times> string) option" where
  "closing_fence acc [] = None"
| "closing_fence acc (c # cs) =
     (case (if startswith (c # cs) (newline # ''---'') then through_newline (drop 3 cs) else None) of
        Some body \<Rightarrow> Some (rev acc, body)
      | None \<Rightarrow> closing_fence (c # acc) cs)"

text \<open>The starts after each newline of the leading whitespace, the farthest first.\<close>

fun fence_starts :: "string \<Rightarrow> string list" where
  "fence_starts [] = []"
| "fence_starts (c # cs) =
     (if \<not> is_ws c then [] else fence_starts cs @ (if c = newline then [cs] else []))"

fun first_some :: "('a \<Rightarrow> 'b option) \<Rightarrow> 'a list \<Rightarrow> 'b option" where
  "first_some f [] = None"
| "first_some f (x # xs) = (case f x of Some y \<Rightarrow> Some y | None \<Rightarrow> first_some f xs)"

definition match_frontmatter :: "string \<Rightarrow> (string \<times> string) option" where
  "match_frontmatter txt =
     (if startswith txt ''---'' then first_some (closing_fence []) (fence_starts (drop 3 txt)) else None)"

definition strip_char :: "char \<Rightarrow> string \<Rightarrow> string" where
  "strip_char q s = rev (dropWhile (\<lambda>c. c = q) (rev (dropWhile (\<lambda>c. c = q) s)))"

definition double_quote :: char where "double_quote = char_of (34 :: nat)"
definition single_quote :: char where "single_quote = char_of (39 :: nat)"

definition unquote :: "string \<Rightarrow> string" where
  "unquote s = strip_char single_quote (strip_char double_quote (strip s))"

definition metadata_value :: "string \<Rightarrow> pyval" where
  "metadata_value raw =
     (let v = unquote raw
      in if startswith v ''['' \<and> endswith v '']''
         then VList (map (VStr \<circ> unquote) (split_on CHR '','' (butlast (drop 1 v))))
         else VStr v)"

definition metadata_line :: "string \<Rightarrow> (string \<times> pyval) list \<Rightarrow> (string \<times> pyval) list" where
  "metadata_line line meta =
     (if CHR '':'' \<in> set line
      then dict_set meta (strip (takeWhile (\<lambda>c. c \<noteq> CHR '':'') line))
             (metadata_value (drop 1 (dropWhile (\<lambda>c. c \<noteq> CHR '':'') line)))
      else meta)"

definition parse_frontmatter :: "string \<Rightarrow> (string \<times> pyval) list \<times> string" where
  "parse_frontmatter txt =
     (case match_frontmatter txt of
        None \<Rightarrow> ([], txt)
      | Some (raw, body) \<Rightarrow> (fold metadata_line (split_on newline (strip raw)) [], body))"

section \<open>Chunks\<close>

definition THEMES :: "string list" where
  "THEMES = [''risk'', ''valuation'', ''behavioral_bias'', ''capital_allocation'', ''regime_analysis'',
     ''decision_framework'', ''quantitative_method'', ''macro_economics'', ''leadership'', ''general'']"

definition MAX_FILE_SIZE_BYTES :: nat where "MAX_FILE_SIZE_BYTES = 10 * 1024 * 1024"
definition MIN_CHUNK_WORDS :: nat where "MIN_CHUNK_WORDS = 10"

record knowledge_chunk =
  kc_id :: string
  kc_source :: pyval
  kc_author :: pyval
  kc_date :: pyval
  kc_themes :: "string list"
  kc_text :: string
  kc_embedding :: "real list"

definition keyword_map :: "(string \<times> string list) list" where
  "keyword_map =
    [(''risk'', [''risk'', ''volatility'', ''drawdown'', ''var'', ''loss'']),
     (''valuation'', [''valuation'', ''price'', ''earnings'', ''p/e'', ''multiple'']),
     (''behavioral_bias'', [''bias'', ''anchoring'', ''overconfidence'', ''fear'', ''greed'']),
     (''capital_allocation'', [''allocation'', ''capital'', ''deploy'', ''dividend'', ''buyback'']),
     (''regime_analysis'', [''regime'', ''cycle'', ''recession'', ''expansion'', ''crisis'']),
     (''decision_framework'', [''decision'', ''framework'', ''process'', ''checklist'']),
     (''quantitative_method'', [''regression'', ''factor'', ''correlation'', ''monte carlo'']),
     (''macro_economics'', [''inflation'', ''interest rate'', ''gdp'', ''unemployment''])]"

definition classify_themes :: "string \<Rightarrow> string list" where
  "classify_themes txt =
     (let low = lower txt;
          detected = map fst (filter (\<lambda>(t, kws). list_ex (\<lambda>kw. str_in kw low) kws) keyword_map)
      in if detected \<noteq> [] then detected else [''general''])"

definition generate_chunk_id :: "(string \<Rightarrow> string) \<Rightarrow> (pyval \<Rightarrow> string) \<Rightarrow> pyval \<Rightarrow> string \<Rightarrow> string" where
  "generate_chunk_id sha str source txt = take 16 (sha (str source @ '':'' @ take 200 txt))"

section \<open>Files\<close>

datatype probe_result = ProbeMissing | ProbeNotFile | ProbeSize nat | ProbeOSError string
datatype read_result =
  ReadText string | ReadGone | ReadDenied | ReadNotUtf8 string | ReadOSError string

datatype ingest_error =
    FileNotFound string
  | PathNotFile string
  | FileTooLarge nat
  | CannotAccess string
  | PermissionDenied string
  | NotUtf8 string
  | FailedToRead string
  | FileEmpty

record ingestion_result =
  ir_source_file :: string
  ir_chunks_created :: nat
  ir_themes_detected :: "string list"
  ir_errors :: "ingest_error list"
  ir_chunks :: "knowledge_chunk list"

definition ingest_failure :: "string \<Rightarrow> ingest_error \<Rightarrow> ingestion_result" where
  "ingest_failure path e =
     \<lparr>ir_source_file = path, ir_chunks_created = 0, ir_themes_detected = [], ir_errors = [e], ir_chunks = []\<rparr>"

text \<open>\<open>Path.stem\<close>: the last component without its suffix.\<close>

definition path_name :: "string \<Rightarrow> string" where
  "path_name p = last (split_on CHR ''/'' p)"

definition path_stem :: "string \<Rightarrow> string" where
  "path_stem p =
     (let n = path_name p; suffix = takeWhile (\<lambda>c. c \<noteq> CHR ''.'') (rev n);
          i = length n - length suffix - 1
      in if CHR ''.'' \<in> set n \<and> 0 < i \<and> suffix \<noteq> [] then take i n else n)"

definition meta_get :: "(string \<times> pyval) list \<Rightarrow> string \<Rightarrow> pyval \<Rightarrow> pyval" where
  "meta_get meta k def = (case dict_get meta k of Some v \<Rightarrow> v | None \<Rightarrow> def)"

text \<open>The themes of the frontmatter: a list of strings, or one string.\<close>

fun theme_list :: "pyval \<Rightarrow> string list" where
  "theme_list (VStr s) = [s]"
| "theme_list (VList vs) = map (\<lambda>v. case v of VStr s \<Rightarrow> s | _ \<Rightarrow> []) vs"
| "theme_list _ = []"

definition make_chunk ::
  "(string \<Rightarrow> string) \<Rightarrow> (pyval \<Rightarrow> string) \<Rightarrow> (string \<times> pyval) list \<Rightarrow> string \<Rightarrow> string \<Rightarrow> knowledge_chunk" where
  "make_chunk sha str meta stem ct =
     (let source = meta_get meta ''source'' (VStr stem); themes = theme_list (meta_get meta ''themes'' (VList []))
      in \<lparr>kc_id = generate_chunk_id sha str source ct, kc_source = source,
          kc_author = meta_get meta ''author'' (VStr ''Unknown''), kc_date = meta_get meta ''date'' (VStr []),
          kc_themes = (if themes \<noteq> [] then themes else classify_themes ct), kc_text = ct, kc_embedding = []\<rparr>)"

definition ingest_text ::
  "(string \<Rightarrow> string) \<Rightarrow> (pyval \<Rightarrow> string) \<Rightarrow> string \<Rightarrow> string \<Rightarrow> ingestion_result" where
  "ingest_text sha str path txt =
     (if strip txt = [] then ingest_failure path FileEmpty
      else let (meta, body) = parse_frontmatter txt;
               kept = filter (\<lambda>ct. \<not> word_count ct < MIN_CHUNK_WORDS)
                 (case chunk_text body 400 of Inr cs \<Rightarrow> cs | Inl _ \<Rightarrow> []);
               chunks = map (make_chunk sha str meta (path_stem path)) kept
           in \<lparr>ir_source_file = path, ir_chunks_created = length chunks,
               ir_themes_detected = sort (remdups (concat (map kc_themes chunks))),
               ir_errors = [], ir_chunks = chunks\<rparr>)"

definition ingest_markdown ::
  "(string \<Rightarrow> string) \<Rightarrow> (pyval \<Rightarrow> string) \<Rightarrow> (string \<Rightarrow> probe_result) \<Rightarrow> (string \<Rightarrow> read_result) \<Rightarrow>
     string \<Rightarrow> ingestion_result" where
  "ingest_markdown sha str probe rd path =
     (case probe path of
        ProbeMissing \<Rightarrow> ingest_failure path (FileNotFound path)
      | ProbeNotFile \<Rightarrow> ingest_failure path (PathNotFile path)
      | ProbeOSError e \<Rightarrow> ingest_failure path (CannotAccess e)
      | ProbeSize n \<Rightarrow>
          if n > MAX_FILE_SIZE_BYTES then ingest_failure path (FileTooLarge n)
          else (case rd path of
                  ReadGone \<Rightarrow> ingest_failure path (FileNotFound path)
                | ReadDenied \<Rightarrow> ingest_failure path (PermissionDenied path)
                | ReadNotUtf8 e \<Rightarrow> ingest_failure path (NotUtf8 e)
                | ReadOSError e \<Rightarrow> ingest_failure path (FailedToRead e)
                | ReadText txt \<Rightarrow> ingest_text sha str path txt))"

datatype dir_listing = DirMissing | DirNotDir | DirOSError | DirFiles "string list"

definition ingest_directory ::
  "(string \<Rightarrow> string) \<Rightarrow> (pyval \<Rightarrow> string) \<Rightarrow> (string \<Rightarrow> probe_result) \<Rightarrow> (string \<Rightarrow> read_result) \<Rightarrow>
     dir_listing \<Rightarrow> py_exc + ingestion_result list" where
  "ingest_directory sha str probe rd listing =
     (case listing of
        DirMissing \<Rightarrow> Inl ValueError
      | DirNotDir \<Rightarrow> Inl ValueError
      | DirOSError \<Rightarrow> Inr []
      | DirFiles fs \<Rightarrow> Inr (map (ingest_markdown sha str probe rd) (sort fs)))"

section \<open>Embeddings\<close>

text \<open>What an embedding function raises: \<open>EmbeddingsUnavailableError\<close>, which its callers catch, or another
  exception, which they let through.\<close>

datatype model_exc = EmbeddingsUnavailable | OtherException string

type_synonym embed_fn = "string list \<Rightarrow> model_exc + real list list"

definition EMBEDDING_DIM :: nat where "EMBEDDING_DIM = 384"

definition l2_normalize :: "real list \<Rightarrow> real list" where
  "l2_normalize v =
     (let norm = sqrt (\<Sum>x\<leftarrow>v. x * x) in if norm = 0 then v else map (\<lambda>x. x / norm) v)"

definition embed_texts :: "embed_fn \<Rightarrow> string list \<Rightarrow> model_exc + real list list" where
  "embed_texts emb texts =
     (if texts = [] then Inr []
      else rbind (emb texts) (\<lambda>vs.
        if length vs \<noteq> length texts then Inl EmbeddingsUnavailable else Inr (map l2_normalize vs)))"

definition embed_chunks :: "embed_fn \<Rightarrow> knowledge_chunk list \<Rightarrow> model_exc + knowledge_chunk list" where
  "embed_chunks emb chunks =
     (if chunks = [] then Inr []
      else rbind (embed_texts emb (map kc_text chunks)) (\<lambda>vs.
        Inr (map2 (\<lambda>c v. c\<lparr>kc_embedding := v\<rparr>) chunks vs)))"

end
