(* ===== verification/Codec.thy ===== *)
theory Codec
  imports Prelude
begin

text \<open>
  The byte encodings the knowledge store uses: UTF-8 of texts over the code points 0 to 255, and
  base64 with validation, both as functions on byte strings (a byte is a character), with their
  round trips.
\<close>

section \<open>UTF-8\<close>

definition utf8_char :: "char \<Rightarrow> string" where
  "utf8_char c = (let n = code_of c
     in if n < 128 then [c] else [char_of (192 + n div 64), char_of (128 + n mod 64)])"

definition utf8_encode :: "string \<Rightarrow> string" where
  "utf8_encode s = concat (map utf8_char s)"

text \<open>
  Decoding stops with an error at the first byte sequence that is not the encoding of a character;
  a sequence of three or four bytes, valid for a code point above 255, is outside the model's texts
  and also an error here.
\<close>

fun utf8_decode :: "string \<Rightarrow> string option" where
  "utf8_decode [] = Some []"
| "utf8_decode (b # bs) =
     (if code_of b < 128 then map_option ((#) b) (utf8_decode bs)
      else case bs of
          [] \<Rightarrow> None
        | b' # bs' \<Rightarrow>
            if 194 \<le> code_of b \<and> code_of b < 196 \<and> 128 \<le> code_of b' \<and> code_of b' < 192
            then map_option ((#) (char_of ((code_of b - 192) * 64 + (code_of b' - 128)))) (utf8_decode bs')
            else None)"

lemma code_of_less: "code_of c < 256"
  unfolding code_of_def by (simp add: of_char_of)

lemma char_of_code [simp]: "char_of (code_of c) = c"
  by (simp add: code_of_def)

lemma code_of_char: "n < 256 \<Longrightarrow> code_of (char_of n) = n"
  by (simp add: code_of_def)

lemma utf8_char_decode: "utf8_decode (utf8_char c @ s) = map_option ((#) c) (utf8_decode s)"
proof (cases "code_of c < 128")
  case True
  then show ?thesis by (simp add: utf8_char_def)
next
  case False
  let ?n = "code_of c"
  have n: "?n < 256" by (rule code_of_less)
  have hi: "code_of (char_of (192 + ?n div 64)) = 192 + ?n div 64"
    using n by (intro code_of_char) linarith
  have lo: "code_of (char_of (128 + ?n mod 64)) = 128 + ?n mod 64"
    by (intro code_of_char) (use mod_less_divisor[of 64 ?n] in linarith)
  have "2 \<le> ?n div 64" using False by linarith
  moreover have "?n div 64 < 4" using n by linarith
  ultimately show ?thesis using False by (simp add: utf8_char_def Let_def hi lo)
qed

theorem utf8_roundtrip [simp]: "utf8_decode (utf8_encode s) = Some s"
  by (induction s) (simp_all add: utf8_encode_def utf8_char_decode)

section \<open>Base64\<close>

definition b64_char :: "nat \<Rightarrow> char" where
  "b64_char n =
     (if n < 26 then char_of (65 + n) else if n < 52 then char_of (97 + (n - 26))
      else if n < 62 then char_of (48 + (n - 52)) else if n = 62 then CHR ''+'' else CHR ''/'')"

definition b64_val :: "char \<Rightarrow> nat option" where
  "b64_val c = (let n = code_of c
     in if 65 \<le> n \<and> n \<le> 90 then Some (n - 65) else if 97 \<le> n \<and> n \<le> 122 then Some (n - 97 + 26)
        else if 48 \<le> n \<and> n \<le> 57 then Some (n - 48 + 52)
        else if n = 43 then Some 62 else if n = 47 then Some 63 else None)"

definition pad :: char where "pad = CHR ''=''"

fun b64encode :: "string \<Rightarrow> string" where
  "b64encode [] = []"
| "b64encode [a] =
     [b64_char (code_of a div 4), b64_char (code_of a mod 4 * 16), pad, pad]"
| "b64encode [a, b] =
     [b64_char (code_of a div 4), b64_char (code_of a mod 4 * 16 + code_of b div 16),
      b64_char (code_of b mod 16 * 4), pad]"
| "b64encode (a # b # c # s) =
     [b64_char (code_of a div 4), b64_char (code_of a mod 4 * 16 + code_of b div 16),
      b64_char (code_of b mod 16 * 4 + code_of c div 64), b64_char (code_of c mod 64)] @ b64encode s"

text \<open>
  \<open>b64decode(s, validate=True)\<close>: only the alphabet, in groups of four, with padding in the last group
  alone. The unused low bits before the padding are ignored, as the code's library does.
\<close>

fun b64decode :: "string \<Rightarrow> string option" where
  "b64decode [] = Some []"
| "b64decode (w # x # y # z # s) =
     (case (b64_val w, b64_val x) of
        (Some p, Some q) \<Rightarrow>
          if y = pad then
            (if z = pad \<and> s = [] then Some [char_of (p * 4 + q div 16)] else None)
          else (case b64_val y of
                  None \<Rightarrow> None
                | Some r \<Rightarrow>
                    if z = pad then
                      (if s = [] then Some [char_of (p * 4 + q div 16), char_of (q mod 16 * 16 + r div 4)]
                       else None)
                    else (case b64_val z of
                            None \<Rightarrow> None
                          | Some t \<Rightarrow>
                              map_option
                                (\<lambda>u. char_of (p * 4 + q div 16) # char_of (q mod 16 * 16 + r div 4) #
                                     char_of (r mod 4 * 64 + t) # u)
                                (b64decode s)))
      | _ \<Rightarrow> None)"
| "b64decode _ = None"

lemma b64_val_char [simp]: "n < 64 \<Longrightarrow> b64_val (b64_char n) = Some n"
proof -
  assume "n < 64"
  moreover have "code_of CHR ''+'' = 43" "code_of CHR ''/'' = 47" by (simp_all add: code_of_def)
  ultimately show ?thesis
    by (auto simp: b64_val_def b64_char_def Let_def code_of_char)
qed

lemma b64_char_not_pad [simp]: "n < 64 \<Longrightarrow> b64_char n \<noteq> pad"
proof
  assume "n < 64" "b64_char n = pad"
  then have "b64_val pad = Some n" using b64_val_char by metis
  then show False by (simp add: pad_def b64_val_def code_of_def)
qed

lemma six_bits:
  "code_of a div 4 < 64" "code_of a mod 4 * 16 < 64" "code_of a mod 4 * 16 + code_of b div 16 < 64"
  "code_of b mod 16 * 4 < 64" "code_of b mod 16 * 4 + code_of c div 64 < 64" "code_of c mod 64 < 64"
  using code_of_less[of a] code_of_less[of b] code_of_less[of c] by linarith+

lemma b64_group:
  "code_of a div 4 * 4 + (code_of a mod 4 * 16) div 16 = code_of a"
  "code_of a div 4 * 4 + (code_of a mod 4 * 16 + code_of b div 16) div 16 = code_of a"
  "(code_of a mod 4 * 16 + code_of b div 16) mod 16 * 16 + (code_of b mod 16 * 4) div 4 = code_of b"
  "(code_of a mod 4 * 16 + code_of b div 16) mod 16 * 16 + (code_of b mod 16 * 4 + code_of c div 64) div 4
     = code_of b"
  "(code_of a mod 4 * 16 + code_of b div 16) mod 16 * 16 + code_of b mod 16 = code_of b"
  "(code_of b mod 16 * 4 + code_of c div 64) mod 4 * 64 + code_of c mod 64 = code_of c"
proof -
  have "code_of b div 16 < 16" "code_of c div 64 < 4"
    using code_of_less[of b] code_of_less[of c] by linarith+
  then show
    "code_of a div 4 * 4 + (code_of a mod 4 * 16) div 16 = code_of a"
    "code_of a div 4 * 4 + (code_of a mod 4 * 16 + code_of b div 16) div 16 = code_of a"
    "(code_of a mod 4 * 16 + code_of b div 16) mod 16 * 16 + (code_of b mod 16 * 4) div 4 = code_of b"
    "(code_of a mod 4 * 16 + code_of b div 16) mod 16 * 16 + (code_of b mod 16 * 4 + code_of c div 64) div 4
       = code_of b"
    "(code_of a mod 4 * 16 + code_of b div 16) mod 16 * 16 + code_of b mod 16 = code_of b"
    "(code_of b mod 16 * 4 + code_of c div 64) mod 4 * 64 + code_of c mod 64 = code_of c"
    by simp_all
qed

theorem b64_roundtrip [simp]: "b64decode (b64encode s) = Some s"
  by (induction s rule: b64encode.induct) (simp_all add: six_bits b64_group del: div_mult_self1 div_mult_self2
    div_mult_self3 div_mult_self4 mod_mult_self1 mod_mult_self2 mod_mult_self3 mod_mult_self4)

section \<open>Codecs\<close>

text \<open>What a stored text relies on: decoding inverts encoding, so no two values share an encoding.\<close>

locale codec =
  fixes encode :: "'a \<Rightarrow> 'b" and decode :: "'b \<Rightarrow> 'a option"
  assumes decode_encode: "decode (encode x) = Some x"
begin

lemma encode_inject [simp]: "encode x = encode y \<longleftrightarrow> x = y"
  by (metis decode_encode option.inject)

lemma decode_image: "decode ` range encode = range Some"
  by (auto simp: image_iff decode_encode)

end

interpretation utf8: codec utf8_encode utf8_decode
  by unfold_locales simp

interpretation base64: codec b64encode b64decode
  by unfold_locales simp

text \<open>Two codecs in sequence.\<close>

lemma codec_compose:
  assumes "codec e1 d1" and "codec e2 d2"
  shows "codec (e2 \<circ> e1) (\<lambda>t. Option.bind (d2 t) d1)"
  using assms by (simp add: codec_def)

end
