(* ===== verification/Pke_Store.thy ===== *)
theory Pke_Store
  imports Pke_Ingest Codec Tables
begin

text \<open>
  The knowledge base of \<^verbatim>\<open>analytics/pae/pke/store.py\<close> and its retrieval, \<^verbatim>\<open>analytics/pae/pke/retrieve.py\<close>:
  the chunk table, the vector index, the metadata, the encryption of texts at rest, both searches and
  the fallback between them. Parameters: the AEAD cipher, the random nonces (\<open>rnd\<close> at the number of
  the draw), the clock, the embedding model and the nearest-neighbour query of the vector extension.
  A store is the SQLite file (rows, vectors, metadata) with the key and the extension flag of the
  process that has opened it. Themes are kept as the list that their JSON text encodes.
\<close>

section \<open>State\<close>

datatype pke_exc =
    DekLength
  | NoDek
  | BadBase64
  | DecryptFailed
  | BadUtf8
  | BindFailed
  | VecDimension
  | EmbedderRaised string
  | VecUnavailable
  | LimitTooSmall
  | OffsetNegative
  | TopKTooSmall
  | ThemeEmpty
  | ThemeUnknown "string list"
  | ContextEmpty

text \<open>\<open>PkeEncryptionError\<close>\<close>

definition is_encryption_error :: "pke_exc \<Rightarrow> bool" where
  "is_encryption_error e = (e = NoDek \<or> e = BadBase64 \<or> e = DecryptFailed)"

record cipher =
  ci_seal :: "string \<Rightarrow> string \<Rightarrow> string \<Rightarrow> string"
  ci_open :: "string \<Rightarrow> string \<Rightarrow> string \<Rightarrow> string option"

record pke_row =
  pr_id :: string
  pr_source :: string
  pr_author :: string
  pr_date :: string
  pr_themes :: "string list"
  pr_text :: string
  pr_nonce :: "string option"
  pr_created :: string

record kstore =
  ks_rows :: "pke_row list"
  ks_vecs :: "(string \<times> real list) list"
  ks_meta :: "(string \<times> string) list"
  ks_dek :: "string option"
  ks_vec :: bool
  ks_draws :: nat

record pke_file =
  pf_rows :: "pke_row list"
  pf_vecs :: "(string \<times> real list) list"
  pf_meta :: "(string \<times> string) list"

definition empty_pke_file :: pke_file where
  "empty_pke_file = \<lparr>pf_rows = [], pf_vecs = [], pf_meta = []\<rparr>"

definition DEK_BYTES :: nat where "DEK_BYTES = 32"

text \<open>\<open>__init__\<close> and \<open>_init_schema\<close>: \<open>INSERT OR IGNORE\<close> of the schema version.\<close>

definition open_store :: "string option \<Rightarrow> bool \<Rightarrow> nat \<Rightarrow> pke_file \<Rightarrow> pke_exc + kstore" where
  "open_store dek vec draws f =
     (if (case dek of None \<Rightarrow> False | Some k \<Rightarrow> length k \<noteq> DEK_BYTES) then Inl DekLength
      else Inr \<lparr>ks_rows = pf_rows f, ks_vecs = pf_vecs f,
        ks_meta = (if dict_get (pf_meta f) ''schema_version'' = None
                   then pf_meta f @ [(''schema_version'', ''1'')] else pf_meta f),
        ks_dek = dek, ks_vec = vec, ks_draws = draws\<rparr>)"

text \<open>\<open>default_store_path\<close>, with the home directory.\<close>

definition default_store_path :: "string option \<Rightarrow> string \<Rightarrow> string" where
  "default_store_path pae_home home =
     (case map_option strip pae_home of
        Some (c # cs) \<Rightarrow> (c # cs) @ ''/data/pke.db''
      | _ \<Rightarrow> home @ ''/.local/share/pae/pke.db'')"

section \<open>Encryption\<close>

definition encrypt_text :: "cipher \<Rightarrow> string \<Rightarrow> string \<Rightarrow> string \<Rightarrow> string" where
  "encrypt_text ci dek nonce txt = b64encode (ci_seal ci dek nonce (utf8_encode txt))"

definition decrypt_text :: "cipher \<Rightarrow> string option \<Rightarrow> string \<Rightarrow> string \<Rightarrow> pke_exc + string" where
  "decrypt_text ci dek ciphertext nonce =
     (case dek of
        None \<Rightarrow> Inl NoDek
      | Some k \<Rightarrow>
          (case b64decode ciphertext of
             None \<Rightarrow> Inl BadBase64
           | Some ct \<Rightarrow>
               (case ci_open ci k nonce ct of
                  None \<Rightarrow> Inl DecryptFailed
                | Some bytes \<Rightarrow>
                    (case utf8_decode bytes of None \<Rightarrow> Inl BadUtf8 | Some t \<Rightarrow> Inr t))))"

definition maybe_decrypt :: "cipher \<Rightarrow> string option \<Rightarrow> pke_row \<Rightarrow> pke_exc + string" where
  "maybe_decrypt ci dek r =
     (case pr_nonce r of None \<Rightarrow> Inr (pr_text r) | Some n \<Rightarrow> decrypt_text ci dek (pr_text r) n)"

section \<open>Writes\<close>

text \<open>Binding: a frontmatter value that is a list is no SQL value.\<close>

fun bind_text :: "pyval \<Rightarrow> pke_exc + string" where
  "bind_text (VStr s) = Inr s"
| "bind_text _ = Inl BindFailed"

text \<open>The nonce and the stored text of the next chunk.\<close>

definition stored_text :: "cipher \<Rightarrow> (nat \<Rightarrow> string) \<Rightarrow> string option \<Rightarrow> nat \<Rightarrow> string \<Rightarrow> string \<times> string option" where
  "stored_text ci rnd dek n txt =
     (case dek of None \<Rightarrow> (txt, None) | Some k \<Rightarrow> (encrypt_text ci k (rnd n) txt, Some (rnd n)))"

definition chunk_row ::
  "cipher \<Rightarrow> (nat \<Rightarrow> string) \<Rightarrow> string option \<Rightarrow> string \<Rightarrow> nat \<Rightarrow> knowledge_chunk \<Rightarrow> pke_exc + pke_row" where
  "chunk_row ci rnd dek now n c =
     rbind (bind_text (kc_source c)) (\<lambda>src.
     rbind (bind_text (kc_author c)) (\<lambda>auth.
     rbind (bind_text (kc_date c)) (\<lambda>dt.
       let (txt, nonce) = stored_text ci rnd dek n (kc_text c)
       in Inr \<lparr>pr_id = kc_id c, pr_source = src, pr_author = auth, pr_date = dt, pr_themes = kc_themes c,
               pr_text = txt, pr_nonce = nonce, pr_created = now\<rparr>)))"

text \<open>The loop of the first transaction, with the number of nonces drawn.\<close>

fun add_rows ::
  "cipher \<Rightarrow> (nat \<Rightarrow> string) \<Rightarrow> string option \<Rightarrow> string \<Rightarrow> knowledge_chunk list \<Rightarrow> pke_row list \<Rightarrow> nat \<Rightarrow>
     (pke_exc + pke_row list) \<times> nat" where
  "add_rows ci rnd dek now [] rows n = (Inr rows, n)"
| "add_rows ci rnd dek now (c # cs) rows n =
     (let n' = (if dek = None then n else n + 1)
      in case chunk_row ci rnd dek now n c of
           Inl e \<Rightarrow> (Inl e, n')
         | Inr r \<Rightarrow> add_rows ci rnd dek now cs (tbl_replace pr_id r rows) n')"

text \<open>The loop of the second transaction: delete and insert the vector of each embedded chunk.\<close>

fun add_vectors ::
  "knowledge_chunk list \<Rightarrow> (string \<times> real list) list \<Rightarrow> pke_exc + (string \<times> real list) list" where
  "add_vectors [] vecs = Inr vecs"
| "add_vectors (c # cs) vecs =
     (if kc_embedding c = [] then add_vectors cs vecs
      else if length (kc_embedding c) \<noteq> EMBEDDING_DIM then Inl VecDimension
      else add_vectors cs (tbl_replace fst (kc_id c, kc_embedding c) vecs))"

definition set_meta :: "string \<Rightarrow> string \<Rightarrow> kstore \<Rightarrow> kstore" where
  "set_meta k v s = s\<lparr>ks_meta := dict_set (ks_meta s) k v\<rparr>"

definition get_meta :: "string \<Rightarrow> kstore \<Rightarrow> string option" where
  "get_meta k s = dict_get (ks_meta s) k"

text \<open>What a call of \<open>add_chunks\<close> reads of its environment.\<close>

record add_env =
  ae_now :: string
  ae_embed :: bool
  ae_model :: string
  ae_fn :: embed_fn

definition index_chunks :: "add_env \<Rightarrow> knowledge_chunk list \<Rightarrow> kstore \<Rightarrow> (pke_exc + nat) \<times> kstore" where
  "index_chunks env chunks s =
     (if ae_embed env \<and> ks_vec s
      then case embed_chunks (ae_fn env) chunks of
          Inl EmbeddingsUnavailable \<Rightarrow> (Inr (length chunks), s)
        | Inl (OtherException e) \<Rightarrow> (Inl (EmbedderRaised e), s)
        | Inr cs \<Rightarrow>
            (case add_vectors cs (ks_vecs s) of
               Inl e \<Rightarrow> (Inl e, s)
             | Inr vs \<Rightarrow>
                 (Inr (length chunks),
                  set_meta ''embedding_dim'' (dec EMBEDDING_DIM)
                    (set_meta ''embedding_model'' (ae_model env) (s\<lparr>ks_vecs := vs\<rparr>))))
      else (Inr (length chunks), s))"

definition add_chunks ::
  "cipher \<Rightarrow> (nat \<Rightarrow> string) \<Rightarrow> add_env \<Rightarrow> knowledge_chunk list \<Rightarrow> kstore \<Rightarrow> (pke_exc + nat) \<times> kstore" where
  "add_chunks ci rnd env chunks s =
     (if chunks = [] then (Inr 0, s)
      else case add_rows ci rnd (ks_dek s) (ae_now env) chunks (ks_rows s) (ks_draws s) of
          (Inl e, n) \<Rightarrow> (Inl e, s\<lparr>ks_draws := n\<rparr>)
        | (Inr rows, n) \<Rightarrow> index_chunks env chunks (s\<lparr>ks_rows := rows, ks_draws := n\<rparr>))"

section \<open>Reads\<close>

definition count_chunks :: "kstore \<Rightarrow> nat" where
  "count_chunks s = length (ks_rows s)"

definition count_cleartext_chunks :: "kstore \<Rightarrow> nat" where
  "count_cleartext_chunks s = length (filter (\<lambda>r. pr_nonce r = None) (ks_rows s))"

definition count_vectors :: "kstore \<Rightarrow> nat" where
  "count_vectors s = (if ks_vec s then length (ks_vecs s) else 0)"

record chunk_view =
  cv_id :: string
  cv_source :: string
  cv_author :: string
  cv_date :: string
  cv_themes :: "string list"
  cv_text :: "string option"
  cv_encrypted :: bool

definition view_of :: "pke_row \<Rightarrow> string option \<Rightarrow> bool \<Rightarrow> chunk_view" where
  "view_of r txt enc =
     \<lparr>cv_id = pr_id r, cv_source = pr_source r, cv_author = pr_author r, cv_date = pr_date r,
      cv_themes = pr_themes r, cv_text = txt, cv_encrypted = enc\<rparr>"

text \<open>A descending sort that keeps the order of equal elements.\<close>

definition sort_desc :: "('a \<Rightarrow> 'b::linorder) \<Rightarrow> 'a list \<Rightarrow> 'a list" where
  "sort_desc f xs = rev (sort_key f (rev xs))"

definition list_view :: "cipher \<Rightarrow> string option \<Rightarrow> pke_row \<Rightarrow> pke_exc + chunk_view" where
  "list_view ci dek r =
     (let enc = (pr_nonce r \<noteq> None)
      in if enc \<and> dek = None then Inr (view_of r None enc)
         else rbind (maybe_decrypt ci dek r) (\<lambda>t. Inr (view_of r (Some t) enc)))"

definition list_chunks :: "cipher \<Rightarrow> int \<Rightarrow> int \<Rightarrow> kstore \<Rightarrow> pke_exc + chunk_view list" where
  "list_chunks ci limit offset s =
     (if limit < 1 then Inl LimitTooSmall
      else if offset < 0 then Inl OffsetNegative
      else traverse (list_view ci (ks_dek s))
        (take (nat limit) (drop (nat offset) (sort_desc pr_created (sort_key pr_id (ks_rows s))))))"

definition get_chunk :: "cipher \<Rightarrow> string \<Rightarrow> kstore \<Rightarrow> pke_exc + chunk_view option" where
  "get_chunk ci i s =
     (case tbl_lookup pr_id (ks_rows s) i of
        None \<Rightarrow> Inr None
      | Some r \<Rightarrow> rbind (maybe_decrypt ci (ks_dek s) r) (\<lambda>t. Inr (Some (view_of r (Some t) False))))"

text \<open>\<open>re.findall(r"[a-z0-9]+", s)\<close>\<close>

definition is_token_char :: "char \<Rightarrow> bool" where
  "is_token_char c = (is_digit c \<or> (97 \<le> code_of c \<and> code_of c \<le> 122))"

fun tokens_acc :: "string \<Rightarrow> string \<Rightarrow> string list" where
  "tokens_acc acc [] = (if acc = [] then [] else [rev acc])"
| "tokens_acc acc (c # cs) =
     (if is_token_char c then tokens_acc (c # acc) cs
      else if acc = [] then tokens_acc [] cs else rev acc # tokens_acc [] cs)"

definition token_list :: "string \<Rightarrow> string list" where
  "token_list txt = remdups (tokens_acc [] (lower txt))"

text \<open>The theme filter: a chunk passes when it carries one of the themes; no themes, no filter.\<close>

definition theme_ok :: "string list \<Rightarrow> pke_row \<Rightarrow> bool" where
  "theme_ok themes r = (themes = [] \<or> list_ex (\<lambda>t. t \<in> set themes) (pr_themes r))"

definition overlap :: "string list \<Rightarrow> string \<Rightarrow> nat" where
  "overlap qs txt = length (filter (\<lambda>t. t \<in> set (token_list txt)) qs)"

fun score_rows ::
  "cipher \<Rightarrow> string option \<Rightarrow> string list \<Rightarrow> pke_row list \<Rightarrow> pke_exc + (string \<times> real) list" where
  "score_rows ci dek qs [] = Inr []"
| "score_rows ci dek qs (r # rs) =
     rbind (maybe_decrypt ci dek r) (\<lambda>t.
     rbind (score_rows ci dek qs rs) (\<lambda>sc.
       Inr (if overlap qs t > 0 then (pr_id r, real (overlap qs t) / real (length qs)) # sc else sc)))"

definition keyword_search ::
  "cipher \<Rightarrow> string \<Rightarrow> int \<Rightarrow> string list \<Rightarrow> kstore \<Rightarrow> pke_exc + (string \<times> real) list" where
  "keyword_search ci query top_k themes s =
     (let qs = token_list query
      in if qs = [] \<or> top_k < 1 then Inr []
         else rbind (score_rows ci (ks_dek s) qs (filter (theme_ok themes) (ks_rows s))) (\<lambda>sc.
                Inr (take (nat top_k) (sort_desc snd sc))))"

text \<open>
  The vector query: \<open>knn\<close> gives, for the index, the query vector, the allowed chunks and the count, the
  hits with their cosine distances in ascending order.
\<close>

type_synonym knn = "(string \<times> real list) list \<Rightarrow> real list \<Rightarrow> string list option \<Rightarrow> nat \<Rightarrow> (string \<times> real) list"

definition vector_search ::
  "knn \<Rightarrow> real list \<Rightarrow> int \<Rightarrow> string list \<Rightarrow> kstore \<Rightarrow> pke_exc + (string \<times> real) list" where
  "vector_search knn q top_k themes s =
     (if \<not> ks_vec s then Inl VecUnavailable
      else if top_k < 1 then Inl TopKTooSmall
      else let allowed = (if themes = [] then None
                          else Some (map pr_id (filter (theme_ok themes) (ks_rows s))))
           in Inr (map (\<lambda>(i, d). (i, max 0 (min 1 (1 - d)))) (knn (ks_vecs s) q allowed (nat top_k))))"

section \<open>Retrieval\<close>

record retrieval_result =
  rr_id :: string
  rr_source :: string
  rr_author :: string
  rr_text :: string
  rr_themes :: "string list"
  rr_score :: real

fun to_results :: "cipher \<Rightarrow> kstore \<Rightarrow> (string \<times> real) list \<Rightarrow> pke_exc + retrieval_result list" where
  "to_results ci s [] = Inr []"
| "to_results ci s ((i, score) # rest) =
     rbind (get_chunk ci i s) (\<lambda>v.
     rbind (to_results ci s rest) (\<lambda>rs.
       Inr (case v of
              None \<Rightarrow> rs
            | Some c \<Rightarrow>
                \<lparr>rr_id = cv_id c, rr_source = cv_source c, rr_author = cv_author c,
                 rr_text = (case cv_text c of Some t \<Rightarrow> t | None \<Rightarrow> []), rr_themes = cv_themes c,
                 rr_score = score\<rparr> # rs)))"

definition try_vectors ::
  "knn \<Rightarrow> embed_fn \<Rightarrow> string \<Rightarrow> int \<Rightarrow> string list \<Rightarrow> kstore \<Rightarrow> pke_exc + (string \<times> real) list option" where
  "try_vectors knn emb query top_k themes s =
     (if \<not> ks_vec s \<or> count_vectors s = 0 then Inr None
      else case embed_texts emb [query] of
          Inl EmbeddingsUnavailable \<Rightarrow> Inr None
        | Inl (OtherException e) \<Rightarrow> Inl (EmbedderRaised e)
        | Inr vs \<Rightarrow> rbind (vector_search knn (hd vs) top_k themes s) (\<lambda>r. Inr (Some r)))"

definition run_retrieval ::
  "cipher \<Rightarrow> knn \<Rightarrow> embed_fn \<Rightarrow> string \<Rightarrow> int \<Rightarrow> string list \<Rightarrow> kstore \<Rightarrow> pke_exc + retrieval_result list" where
  "run_retrieval ci knn emb query top_k themes s =
     rbind (try_vectors knn emb query top_k themes s) (\<lambda>r.
     rbind (case r of Some sc \<Rightarrow> Inr sc | None \<Rightarrow> keyword_search ci query top_k themes s)
       (to_results ci s))"

definition retrieve_by_theme ::
  "cipher \<Rightarrow> knn \<Rightarrow> embed_fn \<Rightarrow> string \<Rightarrow> int \<Rightarrow> kstore \<Rightarrow> pke_exc + retrieval_result list" where
  "retrieve_by_theme ci knn emb theme top_k s =
     (if blank theme then Inl ThemeEmpty
      else if theme \<notin> set THEMES then Inl (ThemeUnknown [theme])
      else if top_k < 1 then Inl TopKTooSmall
      else run_retrieval ci knn emb theme top_k [theme] s)"

definition retrieve_by_context ::
  "cipher \<Rightarrow> knn \<Rightarrow> embed_fn \<Rightarrow> string \<Rightarrow> string list \<Rightarrow> int \<Rightarrow> kstore \<Rightarrow> pke_exc + retrieval_result list" where
  "retrieve_by_context ci knn emb context themes top_k s =
     (let unknown = filter (\<lambda>t. t \<notin> set THEMES) themes
      in if blank context then Inl ContextEmpty
         else if top_k < 1 then Inl TopKTooSmall
         else if unknown \<noteq> [] then Inl (ThemeUnknown unknown)
         else run_retrieval ci knn emb context top_k themes s)"

definition ANALYTICAL_CONTEXT_THEMES :: "(string \<times> string list) list" where
  "ANALYTICAL_CONTEXT_THEMES =
    [(''monte_carlo'', [''risk'', ''quantitative_method'']),
     (''stress_test'', [''risk'', ''regime_analysis'']),
     (''factor_decomposition'', [''quantitative_method'', ''valuation'']),
     (''carry_analysis'', [''capital_allocation'', ''risk'']),
     (''correlation'', [''risk'', ''regime_analysis'']),
     (''optimization'', [''capital_allocation'', ''quantitative_method'']),
     (''decision_journal'', [''behavioral_bias'', ''decision_framework'']),
     (''premortem'', [''decision_framework'', ''behavioral_bias'']),
     (''confidence_calibration'', [''behavioral_bias'', ''decision_framework'']),
     (''margin_review'', [''capital_allocation'', ''risk'']),
     (''tax_analysis'', [''capital_allocation'']),
     (''macro_overlay'', [''macro_economics'', ''regime_analysis''])]"

end
