(* ===== verification/Pke_Correct.thy ===== *)
theory Pke_Correct
  imports Pke_Store
begin

text \<open>
  The knowledge base is correct: an encrypted store is a refinement of the cleartext store with the
  same contents, what it keeps at rest is sealed under fresh nonces, and the keyword search returns
  the best-matching chunks.
\<close>

section \<open>The cleartext view of a store\<close>

definition good_cipher :: "cipher \<Rightarrow> bool" where
  "good_cipher ci \<longleftrightarrow> (\<forall>k n m. ci_open ci k n (ci_seal ci k n m) = Some m)"

definition readable_row :: "cipher \<Rightarrow> string option \<Rightarrow> pke_row \<Rightarrow> bool" where
  "readable_row ci dek r = (\<exists>t. maybe_decrypt ci dek r = Inr t)"

definition plain_text :: "cipher \<Rightarrow> string option \<Rightarrow> pke_row \<Rightarrow> string" where
  "plain_text ci dek r = (case maybe_decrypt ci dek r of Inr t \<Rightarrow> t | Inl _ \<Rightarrow> [])"

definition reveal_row :: "cipher \<Rightarrow> string option \<Rightarrow> pke_row \<Rightarrow> pke_row" where
  "reveal_row ci dek r = r\<lparr>pr_text := plain_text ci dek r, pr_nonce := None\<rparr>"

definition readable :: "cipher \<Rightarrow> kstore \<Rightarrow> bool" where
  "readable ci s = list_all (readable_row ci (ks_dek s)) (ks_rows s)"

definition reveal :: "cipher \<Rightarrow> kstore \<Rightarrow> kstore" where
  "reveal ci s = s\<lparr>ks_rows := map (reveal_row ci (ks_dek s)) (ks_rows s), ks_dek := None\<rparr>"

lemma readable_decrypt: "readable_row ci dek r \<Longrightarrow> maybe_decrypt ci dek r = Inr (plain_text ci dek r)"
  by (auto simp: readable_row_def plain_text_def)

lemma reveal_row_simps [simp]:
  "pr_id (reveal_row ci dek r) = pr_id r" "pr_source (reveal_row ci dek r) = pr_source r"
  "pr_author (reveal_row ci dek r) = pr_author r" "pr_date (reveal_row ci dek r) = pr_date r"
  "pr_themes (reveal_row ci dek r) = pr_themes r" "pr_created (reveal_row ci dek r) = pr_created r"
  "pr_text (reveal_row ci dek r) = plain_text ci dek r" "pr_nonce (reveal_row ci dek r) = None"
  by (simp_all add: reveal_row_def)

lemma reveal_simps [simp]:
  "ks_dek (reveal ci s) = None" "ks_vecs (reveal ci s) = ks_vecs s" "ks_meta (reveal ci s) = ks_meta s"
  "ks_vec (reveal ci s) = ks_vec s" "ks_rows (reveal ci s) = map (reveal_row ci (ks_dek s)) (ks_rows s)"
  "ks_draws (reveal ci s) = ks_draws s"
  by (simp_all add: reveal_def)

lemma maybe_decrypt_reveal [simp]: "maybe_decrypt ci dek' (reveal_row ci dek r) = Inr (plain_text ci dek r)"
  by (simp add: maybe_decrypt_def)

lemma theme_ok_reveal [simp]: "theme_ok themes (reveal_row ci dek r) = theme_ok themes r"
  by (simp add: theme_ok_def)

section \<open>Writes refine\<close>

text \<open>Decrypting what was stored gives the text back.\<close>

lemma decrypt_encrypt: "good_cipher ci \<Longrightarrow> decrypt_text ci (Some k) (encrypt_text ci k n txt) n = Inr txt"
  by (simp add: decrypt_text_def encrypt_text_def good_cipher_def)

lemma stored_readable:
  assumes "good_cipher ci" "pr_text r = fst (stored_text ci rnd dek n txt)"
    "pr_nonce r = snd (stored_text ci rnd dek n txt)"
  shows "maybe_decrypt ci dek r = Inr txt"
  using assms by (cases dek) (simp_all add: stored_text_def maybe_decrypt_def decrypt_encrypt)

lemma chunk_row_reveal:
  assumes "good_cipher ci"
  shows "case chunk_row ci rnd dek now n c of
     Inl e \<Rightarrow> chunk_row ci rnd None now n' c = Inl e
   | Inr r \<Rightarrow> chunk_row ci rnd None now n' c = Inr (reveal_row ci dek r) \<and> readable_row ci dek r"
proof (cases "chunk_row ci rnd dek now n c")
  case (Inl e)
  then show ?thesis by (auto simp: chunk_row_def rbind_eq_Inl split: prod.splits)
next
  case (Inr r)
  then have "pr_text r = fst (stored_text ci rnd dek n (kc_text c))"
    "pr_nonce r = snd (stored_text ci rnd dek n (kc_text c))"
    by (auto simp: chunk_row_def case_prod_beta)
  from stored_readable[OF assms this] have "maybe_decrypt ci dek r = Inr (kc_text c)" .
  then show ?thesis
    using Inr by (auto simp: chunk_row_def case_prod_beta stored_text_def readable_row_def plain_text_def reveal_row_def)
qed

lemma tbl_replace_reveal:
  "map (reveal_row ci dek) (tbl_replace pr_id r rows) =
     tbl_replace pr_id (reveal_row ci dek r) (map (reveal_row ci dek) rows)"
  by (simp add: tbl_replace_def filter_map o_def)

lemma tbl_replace_all: "list_all P rows \<Longrightarrow> P r \<Longrightarrow> list_all P (tbl_replace key r rows)"
  by (auto simp: tbl_replace_def list_all_iff)

lemma add_rows_reveal:
  assumes "good_cipher ci" "list_all (readable_row ci dek) rows"
  shows "case fst (add_rows ci rnd dek now cs rows n) of
     Inl e \<Rightarrow> fst (add_rows ci rnd None now cs (map (reveal_row ci dek) rows) n') = Inl e
   | Inr rows' \<Rightarrow>
       fst (add_rows ci rnd None now cs (map (reveal_row ci dek) rows) n') = Inr (map (reveal_row ci dek) rows') \<and>
       list_all (readable_row ci dek) rows'"
  using assms(2)
proof (induction cs arbitrary: rows n n')
  case (Cons c cs)
  note row = chunk_row_reveal[OF assms(1), where rnd = rnd and dek = dek and now = now and n = n and c = c and n' = n']
  show ?case
  proof (cases "chunk_row ci rnd dek now n c")
    case (Inl e)
    with row show ?thesis by simp
  next
    case (Inr r)
    with row have r: "chunk_row ci rnd None now n' c = Inr (reveal_row ci dek r)" "readable_row ci dek r"
      by simp_all
    with Cons.prems have "list_all (readable_row ci dek) (tbl_replace pr_id r rows)"
      by (simp add: tbl_replace_all)
    note IH = Cons.IH[OF this, where n = "if dek = None then n else n + 1" and n' = n']
    have "add_rows ci rnd dek now (c # cs) rows n =
        add_rows ci rnd dek now cs (tbl_replace pr_id r rows) (if dek = None then n else n + 1)"
      by (simp only: add_rows.simps Let_def Inr sum.case)
    moreover have "add_rows ci rnd None now (c # cs) (map (reveal_row ci dek) rows) n' =
        add_rows ci rnd None now cs (map (reveal_row ci dek) (tbl_replace pr_id r rows)) n'"
      by (simp add: r tbl_replace_reveal)
    ultimately show ?thesis using IH by (simp only:)
  qed
qed simp

lemma index_chunks_rows [simp]: "ks_rows (snd (index_chunks env cs s)) = ks_rows s"
  by (auto simp: index_chunks_def set_meta_def split: option.splits sum.splits model_exc.splits)

lemma index_chunks_dek [simp]: "ks_dek (snd (index_chunks env cs s)) = ks_dek s"
  by (auto simp: index_chunks_def set_meta_def split: option.splits sum.splits model_exc.splits)

text \<open>Indexing reads neither the rows nor the key.\<close>

lemma index_chunks_frame:
  "index_chunks env cs (s\<lparr>ks_rows := rows, ks_dek := dek, ks_draws := n\<rparr>) =
     (fst (index_chunks env cs s), (snd (index_chunks env cs s))\<lparr>ks_rows := rows, ks_dek := dek, ks_draws := n\<rparr>)"
  by (simp add: index_chunks_def set_meta_def split: option.splits sum.splits model_exc.splits)

lemma add_chunks_dek [simp]: "ks_dek (snd (add_chunks ci rnd env cs s)) = ks_dek s"
  by (auto simp: add_chunks_def split: prod.splits sum.splits)

lemma reveal_draws [simp]: "reveal ci (s\<lparr>ks_draws := n\<rparr>) = (reveal ci s)\<lparr>ks_draws := n\<rparr>"
  by (simp add: reveal_def)

text \<open>Adding chunks, seen through the cleartext view, is adding them to the cleartext store.\<close>

lemma add_chunks_reveal:
  assumes ci: "good_cipher ci" and rd: "readable ci s"
    and a: "add_chunks ci rnd env cs s = (r, s')" and b: "add_chunks ci rnd env cs (reveal ci s) = (r0, s0)"
  shows "r = r0 \<and> readable ci s' \<and> reveal ci s' = s0\<lparr>ks_draws := ks_draws s'\<rparr>"
proof (cases "cs = []")
  case True
  with a b rd show ?thesis by (auto simp: add_chunks_def)
next
  case ne: False
  let ?dek = "ks_dek s" and ?rows = "ks_rows s"
  obtain res n where A: "add_rows ci rnd ?dek (ae_now env) cs ?rows (ks_draws s) = (res, n)" by fastforce
  obtain res0 n0 where B:
    "add_rows ci rnd None (ae_now env) cs (map (reveal_row ci ?dek) ?rows) (ks_draws s) = (res0, n0)" by fastforce
  have rows: "list_all (readable_row ci ?dek) ?rows" using rd by (simp add: readable_def)
  note rel = add_rows_reveal[OF ci rows, where rnd = rnd and now = "ae_now env" and cs = cs
    and n = "ks_draws s" and n' = "ks_draws s", unfolded A B fst_conv]
  show ?thesis
  proof (cases res)
    case (Inl e)
    with rel have "res0 = Inl e" by simp
    with a b Inl ne A B rd show ?thesis by (auto simp: add_chunks_def readable_def)
  next
    case (Inr rows')
    with rel have res0: "res0 = Inr (map (reveal_row ci ?dek) rows')" "list_all (readable_row ci ?dek) rows'"
      by simp_all
    define t where "t = s\<lparr>ks_rows := rows', ks_draws := n\<rparr>"
    have t0: "(reveal ci s)\<lparr>ks_rows := map (reveal_row ci ?dek) rows', ks_draws := n0\<rparr> =
        t\<lparr>ks_rows := map (reveal_row ci ?dek) rows', ks_dek := None, ks_draws := n0\<rparr>"
      by (simp add: t_def reveal_def)
    have "(r, s') = index_chunks env cs t" using a ne A Inr by (simp add: add_chunks_def t_def)
    moreover have "(r0, s0) = index_chunks env cs
        (t\<lparr>ks_rows := map (reveal_row ci ?dek) rows', ks_dek := None, ks_draws := n0\<rparr>)"
      using b ne B res0 by (simp add: add_chunks_def flip: t0)
    ultimately have r: "r0 = r" "s0 = s'\<lparr>ks_rows := map (reveal_row ci ?dek) rows', ks_dek := None, ks_draws := n0\<rparr>"
      unfolding index_chunks_frame by (metis prod.inject fst_conv snd_conv)+
    have "s' = snd (index_chunks env cs t)" using a ne A Inr by (simp add: add_chunks_def t_def)
    then have s': "ks_rows s' = rows'" "ks_dek s' = ?dek" by (simp_all add: t_def)
    with r res0 show ?thesis by (simp add: readable_def reveal_def)
  qed
qed

section \<open>Reads refine\<close>

lemma find_map_reveal:
  "find (\<lambda>r. pr_id r = i) (map (reveal_row ci dek) rows) = map_option (reveal_row ci dek) (find (\<lambda>r. pr_id r = i) rows)"
  by (induction rows) auto

lemma view_of_reveal [simp]: "view_of (reveal_row ci dek r) t e = view_of r t e"
  by (simp add: view_of_def)

lemma readable_in: "readable ci s \<Longrightarrow> r \<in> set (ks_rows s) \<Longrightarrow> maybe_decrypt ci (ks_dek s) r = Inr (plain_text ci (ks_dek s) r)"
  by (auto simp: readable_def list_all_iff intro: readable_decrypt)

lemma get_chunk_reveal: "readable ci s \<Longrightarrow> get_chunk ci i (reveal ci s) = get_chunk ci i s"
proof -
  assume rd: "readable ci s"
  have "maybe_decrypt ci (ks_dek s) r = Inr (plain_text ci (ks_dek s) r)"
    if "find (\<lambda>r. pr_id r = i) (ks_rows s) = Some r" for r
    using that rd by (auto simp: find_Some_iff intro: readable_in)
  then show ?thesis
    by (simp add: get_chunk_def tbl_lookup_def find_map_reveal split: option.split)
qed

lemma score_rows_reveal:
  assumes "\<And>r. r \<in> set rows \<Longrightarrow> maybe_decrypt ci dek r = Inr (plain_text ci dek r)"
  shows "score_rows ci None qs (map (reveal_row ci dek) rows) = score_rows ci dek qs rows"
  using assms by (induction rows) (simp_all cong: if_cong)

lemma keyword_search_reveal:
  "readable ci s \<Longrightarrow> keyword_search ci q k themes (reveal ci s) = keyword_search ci q k themes s"
proof -
  assume "readable ci s"
  then have "score_rows ci None qs (map (reveal_row ci (ks_dek s)) (filter (theme_ok themes) (ks_rows s))) =
      score_rows ci (ks_dek s) qs (filter (theme_ok themes) (ks_rows s))" for qs
    by (intro score_rows_reveal) (simp add: readable_in)
  then show ?thesis by (simp add: keyword_search_def Let_def filter_map o_def)
qed

lemma vector_search_reveal: "vector_search knn q k themes (reveal ci s) = vector_search knn q k themes s"
  by (simp add: vector_search_def filter_map o_def)

lemma to_results_reveal: "readable ci s \<Longrightarrow> to_results ci (reveal ci s) sc = to_results ci s sc"
  by (induction ci s sc rule: to_results.induct) (simp_all add: get_chunk_reveal)

lemma run_retrieval_reveal:
  "readable ci s \<Longrightarrow> run_retrieval ci knn emb q k themes (reveal ci s) = run_retrieval ci knn emb q k themes s"
proof -
  assume rd: "readable ci s"
  have "try_vectors knn emb q k themes (reveal ci s) = try_vectors knn emb q k themes s"
    by (simp add: try_vectors_def count_vectors_def vector_search_reveal split: sum.split model_exc.split)
  moreover have "to_results ci (reveal ci s) = to_results ci s"
    using to_results_reveal[OF rd] by (intro ext)
  ultimately show ?thesis by (simp add: run_retrieval_def keyword_search_reveal[OF rd] cong: option.case_cong)
qed

lemma sort_desc_map: "sort_desc f (map g xs) = map g (sort_desc (f \<circ> g) xs)"
  by (simp add: sort_desc_def sort_key_map rev_map)

lemma set_sort_desc [simp]: "set (sort_desc f xs) = set xs"
  by (simp add: sort_desc_def)

lemma traverse_ok: "(\<And>x. x \<in> set xs \<Longrightarrow> f x = Inr (g x)) \<Longrightarrow> traverse f xs = Inr (map g xs)"
  by (induction xs) auto

lemma list_view_reveal:
  "readable_row ci dek r \<Longrightarrow>
     \<exists>v. list_view ci dek r = Inr v \<and> list_view ci None (reveal_row ci dek r) = Inr (v\<lparr>cv_encrypted := False\<rparr>)"
proof -
  assume "readable_row ci dek r"
  then have t: "maybe_decrypt ci dek r = Inr (plain_text ci dek r)" by (rule readable_decrypt)
  moreover have "\<not> (pr_nonce r \<noteq> None \<and> dek = None)"
    using t by (auto simp: maybe_decrypt_def decrypt_text_def split: option.splits)
  ultimately show ?thesis by (auto simp: list_view_def Let_def view_of_def)
qed

lemma traverse_map_rel:
  assumes "\<And>x. x \<in> set xs \<Longrightarrow> \<exists>v. f x = Inr v \<and> g x = Inr (h v)"
  shows "\<exists>vs. traverse f xs = Inr vs \<and> traverse g xs = Inr (map h vs)"
  using assms
proof (induction xs)
  case (Cons x xs)
  then obtain v vs where "f x = Inr v" "g x = Inr (h v)" "traverse f xs = Inr vs" "traverse g xs = Inr (map h vs)"
    by (metis list.set_intros)
  then show ?case by simp
qed simp

lemma traverse_map: "traverse f (map g xs) = traverse (f \<circ> g) xs"
  by (induction xs) simp_all

lemma list_chunks_reveal:
  assumes "readable ci s"
  shows "case list_chunks ci limit offset s of
     Inl e \<Rightarrow> list_chunks ci limit offset (reveal ci s) = Inl e
   | Inr vs \<Rightarrow> list_chunks ci limit offset (reveal ci s) = Inr (map (\<lambda>v. v\<lparr>cv_encrypted := False\<rparr>) vs)"
proof -
  let ?xs = "take (nat limit) (drop (nat offset) (sort_desc pr_created (sort_key pr_id (ks_rows s))))"
  have "set ?xs \<subseteq> set (ks_rows s)"
    using set_take_subset set_drop_subset by fastforce
  then have "readable_row ci (ks_dek s) r" if "r \<in> set ?xs" for r
    using that assms by (auto simp: readable_def list_all_iff)
  then have "\<exists>v. list_view ci (ks_dek s) r = Inr v \<and>
      (list_view ci None \<circ> reveal_row ci (ks_dek s)) r = Inr (v\<lparr>cv_encrypted := False\<rparr>)" if "r \<in> set ?xs" for r
    using that list_view_reveal by simp
  from traverse_map_rel[of ?xs "list_view ci (ks_dek s)" _ "\<lambda>v. v\<lparr>cv_encrypted := False\<rparr>", OF this] obtain vs where "traverse (list_view ci (ks_dek s)) ?xs = Inr vs"
    "traverse (list_view ci None) (map (reveal_row ci (ks_dek s)) ?xs) = Inr (map (\<lambda>v. v\<lparr>cv_encrypted := False\<rparr>) vs)"
    by (auto simp: traverse_map o_def)
  then show ?thesis
    by (simp add: list_chunks_def sort_key_map sort_desc_map o_def take_map drop_map)
qed

lemma retrieve_reveal:
  "readable ci s \<Longrightarrow> retrieve_by_context ci knn emb q themes k (reveal ci s) = retrieve_by_context ci knn emb q themes k s"
  "readable ci s \<Longrightarrow> retrieve_by_theme ci knn emb th k (reveal ci s) = retrieve_by_theme ci knn emb th k s"
  by (simp_all add: retrieve_by_context_def retrieve_by_theme_def run_retrieval_reveal Let_def)

text \<open>C2: an encrypted knowledge base refines the cleartext one. For a cipher whose opening inverts its sealing
  and a store whose rows can be read, let the reveal of the store be the keyless store with the texts in
  clear. Adding chunks succeeds or fails alike on both, keeps the rows readable and leads to stores with
  the same reveal (up to the number of nonces drawn); and fetching, searching by keywords or by vectors,
  listing (apart from the encryption flag) and retrieving give the same results on both.\<close>

theorem encrypted_store_refines_cleartext:
  assumes "good_cipher ci" and "readable ci s"
  shows "(let (r, s') = add_chunks ci rnd env cs s; (r0, s0) = add_chunks ci rnd env cs (reveal ci s)
      in r = r0 \<and> readable ci s' \<and> reveal ci s' = s0\<lparr>ks_draws := ks_draws s'\<rparr>) \<and>
    get_chunk ci i s = get_chunk ci i (reveal ci s) \<and>
    keyword_search ci q k themes s = keyword_search ci q k themes (reveal ci s) \<and>
    vector_search knn v k themes s = vector_search knn v k themes (reveal ci s) \<and>
    (case list_chunks ci l off s of
       Inl e \<Rightarrow> list_chunks ci l off (reveal ci s) = Inl e
     | Inr vs \<Rightarrow> list_chunks ci l off (reveal ci s) = Inr (map (\<lambda>v. v\<lparr>cv_encrypted := False\<rparr>) vs)) \<and>
    retrieve_by_context ci knn emb q themes k s = retrieve_by_context ci knn emb q themes k (reveal ci s) \<and>
    retrieve_by_theme ci knn emb q k s = retrieve_by_theme ci knn emb q k (reveal ci s)"
proof (intro conjI)
  show "let (r, s') = add_chunks ci rnd env cs s; (r0, s0) = add_chunks ci rnd env cs (reveal ci s)
      in r = r0 \<and> readable ci s' \<and> reveal ci s' = s0\<lparr>ks_draws := ks_draws s'\<rparr>"
    using add_chunks_reveal[OF assms prod.collapse[symmetric] prod.collapse[symmetric]]
    by (simp add: case_prod_beta Let_def)
qed (use assms(2) in \<open>simp_all add: get_chunk_reveal keyword_search_reveal vector_search_reveal
        retrieve_reveal list_chunks_reveal\<close>)

section \<open>At rest\<close>

text \<open>The states of a store that was created empty and opened with a key.\<close>

inductive ks_reachable :: "cipher \<Rightarrow> (nat \<Rightarrow> string) \<Rightarrow> string \<Rightarrow> kstore \<Rightarrow> bool" for ci rnd dek where
  ks_opened: "open_store (Some dek) vec 0 empty_pke_file = Inr s \<Longrightarrow> ks_reachable ci rnd dek s"
| ks_added: "ks_reachable ci rnd dek s \<Longrightarrow> ks_reachable ci rnd dek (snd (add_chunks ci rnd env cs s))"

definition sealed_with :: "cipher \<Rightarrow> (nat \<Rightarrow> string) \<Rightarrow> string \<Rightarrow> nat \<Rightarrow> pke_row \<Rightarrow> bool" where
  "sealed_with ci rnd dek i r \<longleftrightarrow> pr_nonce r = Some (rnd i) \<and> (\<exists>t. pr_text r = encrypt_text ci dek (rnd i) t)"

text \<open>The rows are sealed, each under a draw of its own below \<open>n\<close>.\<close>

definition rows_sealed :: "cipher \<Rightarrow> (nat \<Rightarrow> string) \<Rightarrow> string \<Rightarrow> nat \<Rightarrow> pke_row list \<Rightarrow> bool" where
  "rows_sealed ci rnd dek n rows \<longleftrightarrow>
     (\<exists>ps. rows = map fst ps \<and> distinct (map snd ps) \<and> (\<forall>(r, i) \<in> set ps. i < n \<and> sealed_with ci rnd dek i r))"

lemma rows_sealed_replace:
  assumes "rows_sealed ci rnd dek n rows" "sealed_with ci rnd dek n r"
  shows "rows_sealed ci rnd dek (Suc n) (tbl_replace pr_id r rows)"
proof -
  obtain ps where ps: "rows = map fst ps" "distinct (map snd ps)"
    "\<forall>(r, i) \<in> set ps. i < n \<and> sealed_with ci rnd dek i r"
    using assms(1) by (auto simp: rows_sealed_def)
  let ?qs = "filter (\<lambda>p. pr_id (fst p) \<noteq> pr_id r) ps @ [(r, n)]"
  have "tbl_replace pr_id r rows = map fst ?qs"
    by (simp add: tbl_replace_def ps(1) filter_map o_def)
  moreover have "distinct (map snd ?qs)"
    using ps(2,3) by (auto simp: distinct_map_filter)
  moreover have "\<forall>(r, i) \<in> set ?qs. i < Suc n \<and> sealed_with ci rnd dek i r"
    using ps(3) assms(2) by auto
  ultimately show ?thesis unfolding rows_sealed_def by blast
qed

lemma rows_sealed_mono: "rows_sealed ci rnd dek n rows \<Longrightarrow> n \<le> m \<Longrightarrow> rows_sealed ci rnd dek m rows"
  unfolding rows_sealed_def by fastforce

lemma chunk_row_sealed: "chunk_row ci rnd (Some dek) now n c = Inr r \<Longrightarrow> sealed_with ci rnd dek n r"
  by (auto simp: chunk_row_def stored_text_def sealed_with_def)

lemma add_rows_sealed:
  assumes "rows_sealed ci rnd dek n rows" "add_rows ci rnd (Some dek) now cs rows n = (res, m)"
  shows "n \<le> m \<and> (\<forall>rows'. res = Inr rows' \<longrightarrow> rows_sealed ci rnd dek m rows' \<and>
      (distinct (map pr_id rows) \<longrightarrow> distinct (map pr_id rows')))"
  using assms
proof (induction cs arbitrary: rows n)
  case (Cons c cs)
  show ?case
  proof (cases "chunk_row ci rnd (Some dek) now n c")
    case (Inr r)
    have "rows_sealed ci rnd dek (Suc n) (tbl_replace pr_id r rows)"
      by (rule rows_sealed_replace[OF Cons.prems(1) chunk_row_sealed[OF Inr]])
    from Cons.IH[OF this] Cons.prems(2) Inr show ?thesis
      by (auto simp: tbl_replace_def distinct_map_filter)
  qed (use Cons.prems in auto)
qed auto

lemma index_chunks_draws [simp]: "ks_draws (snd (index_chunks env cs s)) = ks_draws s"
  by (auto simp: index_chunks_def set_meta_def split: option.splits sum.splits model_exc.splits)

definition store_inv :: "cipher \<Rightarrow> (nat \<Rightarrow> string) \<Rightarrow> string \<Rightarrow> kstore \<Rightarrow> bool" where
  "store_inv ci rnd dek s \<longleftrightarrow> ks_dek s = Some dek \<and> rows_sealed ci rnd dek (ks_draws s) (ks_rows s) \<and>
     distinct (map pr_id (ks_rows s))"

lemma add_chunks_inv:
  assumes "store_inv ci rnd dek s"
  shows "store_inv ci rnd dek (snd (add_chunks ci rnd env cs s))"
proof (cases "cs = []")
  case True
  with assms show ?thesis by (simp add: add_chunks_def)
next
  case False
  obtain res m where A: "add_rows ci rnd (Some dek) (ae_now env) cs (ks_rows s) (ks_draws s) = (res, m)"
    by fastforce
  have s: "rows_sealed ci rnd dek (ks_draws s) (ks_rows s)" using assms by (simp add: store_inv_def)
  note sealed = add_rows_sealed[OF s A]
  show ?thesis
  proof (cases res)
    case (Inl e)
    with A False assms sealed show ?thesis
      by (auto simp: add_chunks_def store_inv_def intro: rows_sealed_mono)
  next
    case (Inr rows')
    with A False assms sealed show ?thesis by (simp add: add_chunks_def store_inv_def)
  qed
qed

lemma reachable_store_inv: "ks_reachable ci rnd dek s \<Longrightarrow> store_inv ci rnd dek s"
proof (induction rule: ks_reachable.induct)
  case (ks_opened vec s)
  then have "s = \<lparr>ks_rows = [], ks_vecs = [], ks_meta = [(''schema_version'', ''1'')], ks_dek = Some dek,
      ks_vec = vec, ks_draws = 0\<rparr>"
    by (auto simp: open_store_def empty_pke_file_def dict_get_def split: if_splits)
  then show ?case by (simp add: store_inv_def rows_sealed_def)
next
  case (ks_added s env cs)
  from ks_added.IH show ?case by (rule add_chunks_inv)
qed

text \<open>C8: in every state a store with a key can reach from an empty file, each chunk's text is kept only as the
  base64 of its sealing under the key and a random nonce that was drawn for it; no chunk is in clear, no two
  rows share an identifier, and when the drawn nonces never repeat no two rows share a nonce. With a cipher
  whose opening inverts its sealing every row can be read back.\<close>

theorem texts_sealed_at_rest:
  assumes "ks_reachable ci rnd dek s" and "inj_on rnd {..<ks_draws s}"
  shows "count_cleartext_chunks s = 0 \<and>
    (\<forall>r \<in> set (ks_rows s). \<exists>i t. i < ks_draws s \<and> pr_nonce r = Some (rnd i) \<and>
       pr_text r = b64encode (ci_seal ci dek (rnd i) (utf8_encode t))) \<and>
    distinct (map pr_id (ks_rows s)) \<and> distinct (map pr_nonce (ks_rows s)) \<and>
    (good_cipher ci \<longrightarrow> readable ci s)"
proof -
  from reachable_store_inv[OF assms(1)] have dek: "ks_dek s = Some dek"
    and sealed: "rows_sealed ci rnd dek (ks_draws s) (ks_rows s)" and ids: "distinct (map pr_id (ks_rows s))"
    by (auto simp: store_inv_def)
  from sealed obtain ps where ps: "ks_rows s = map fst ps" "distinct (map snd ps)"
    "\<forall>(r, i) \<in> set ps. i < ks_draws s \<and> sealed_with ci rnd dek i r"
    by (auto simp: rows_sealed_def)
  have each: "\<exists>i t. i < ks_draws s \<and> pr_nonce r = Some (rnd i) \<and> pr_text r = encrypt_text ci dek (rnd i) t"
    if "r \<in> set (ks_rows s)" for r
    using that ps by (fastforce simp: sealed_with_def)
  then have "\<forall>r \<in> set (ks_rows s). pr_nonce r \<noteq> None" by fastforce
  then have "count_cleartext_chunks s = 0" by (simp add: count_cleartext_chunks_def)
  moreover have "distinct (map pr_nonce (ks_rows s))"
  proof -
    have "map pr_nonce (ks_rows s) = map (Some \<circ> rnd) (map snd ps)"
      using ps(1,3) by (auto simp: sealed_with_def)
    moreover have "distinct (map (Some \<circ> rnd) (map snd ps))"
    proof -
      have "set (map snd ps) \<subseteq> {..<ks_draws s}" using ps(3) by auto
      from inj_on_subset[OF assms(2) this] have "inj_on (Some \<circ> rnd) (set (map snd ps))"
        by (simp add: inj_on_def)
      with ps(2) show ?thesis by (simp only: distinct_map[of "Some \<circ> rnd"])
    qed
    ultimately show ?thesis by simp
  qed
  moreover have "good_cipher ci \<longrightarrow> readable ci s"
  proof
    assume "good_cipher ci"
    have "maybe_decrypt ci (Some dek) r \<noteq> Inl e" if "r \<in> set (ks_rows s)" for r e
      using each[OF that] decrypt_encrypt[OF \<open>good_cipher ci\<close>] by (auto simp: maybe_decrypt_def)
    then show "readable ci s"
      unfolding readable_def readable_row_def dek list_all_iff by (metis old.sum.exhaust)
  qed
  ultimately show ?thesis using each ids by (simp add: encrypt_text_def)
qed

text \<open>A concrete store: a cipher that frames the text with key and nonce, and one chunk.\<close>

definition sample_cipher :: cipher where
  "sample_cipher = \<lparr>ci_seal = \<lambda>k n m. k @ n @ m,
     ci_open = \<lambda>k n c. if startswith c (k @ n) then Some (drop (length k + length n) c) else None\<rparr>"

definition sample_dek :: string where "sample_dek = replicate 32 CHR ''k''"

definition sample_nonces :: "nat \<Rightarrow> string" where
  "sample_nonces i = replicate (12 - length (dec i)) CHR ''0'' @ dec i"

definition sample_chunk :: knowledge_chunk where
  "sample_chunk = \<lparr>kc_id = ''c1'', kc_source = VStr ''notes'', kc_author = VStr ''me'', kc_date = VStr [],
     kc_themes = [''risk''], kc_text = ''Risk is volatility'', kc_embedding = []\<rparr>"

definition sample_add_env :: add_env where
  "sample_add_env = \<lparr>ae_now = ''t0'', ae_embed = False, ae_model = ''m'', ae_fn = \<lambda>_. Inl EmbeddingsUnavailable\<rparr>"

definition sample_empty :: kstore where
  "sample_empty = \<lparr>ks_rows = [], ks_vecs = [], ks_meta = [(''schema_version'', ''1'')], ks_dek = Some sample_dek,
     ks_vec = False, ks_draws = 0\<rparr>"

definition sample_store :: kstore where
  "sample_store = snd (add_chunks sample_cipher sample_nonces sample_add_env [sample_chunk] sample_empty)"

lemma sample_good: "good_cipher sample_cipher"
  by (simp add: good_cipher_def sample_cipher_def startswith_def)

lemma sample_store_eq:
  "ks_rows sample_store = [\<lparr>pr_id = ''c1'', pr_source = ''notes'', pr_author = ''me'', pr_date = [],
     pr_themes = [''risk''], pr_text = encrypt_text sample_cipher sample_dek (sample_nonces 0) ''Risk is volatility'',
     pr_nonce = Some (sample_nonces 0), pr_created = ''t0''\<rparr>]"
  "ks_draws sample_store = 1" "ks_dek sample_store = Some sample_dek"
  by (simp_all add: sample_store_def sample_empty_def add_chunks_def sample_add_env_def sample_chunk_def
      chunk_row_def stored_text_def tbl_replace_def index_chunks_def)

lemma sample_reachable: "ks_reachable sample_cipher sample_nonces sample_dek sample_store"
  unfolding sample_store_def
proof (rule ks_added, rule ks_opened)
  show "open_store (Some sample_dek) False 0 empty_pke_file = Inr sample_empty"
    by (simp add: open_store_def sample_dek_def DEK_BYTES_def empty_pke_file_def dict_get_def sample_empty_def)
qed

lemma sample_readable: "readable sample_cipher sample_store"
  by (simp add: readable_def sample_store_eq readable_row_def maybe_decrypt_def decrypt_encrypt[OF sample_good])

lemma encrypted_store_refines_cleartext_witness:
  "get_chunk sample_cipher ''c1'' sample_store = get_chunk sample_cipher ''c1'' (reveal sample_cipher sample_store) \<and>
   map pr_text (ks_rows (reveal sample_cipher sample_store)) = [''Risk is volatility''] \<and>
   keyword_search sample_cipher ''risk'' 5 [] sample_store =
     keyword_search sample_cipher ''risk'' 5 [] (reveal sample_cipher sample_store)"
  using encrypted_store_refines_cleartext[OF sample_good sample_readable]
  by (simp add: sample_store_eq plain_text_def maybe_decrypt_def decrypt_encrypt[OF sample_good])

lemma texts_sealed_at_rest_witness:
  "length (ks_rows sample_store) = 1 \<and> count_cleartext_chunks sample_store = 0"
proof -
  have "inj_on sample_nonces {..<ks_draws sample_store}"
    by (simp add: inj_on_def sample_store_eq)
  from texts_sealed_at_rest[OF sample_reachable this] show ?thesis by (simp add: sample_store_eq)
qed

section \<open>Keyword search\<close>

lemma score_rows_eq:
  assumes "list_all (readable_row ci dek) rows"
  shows "score_rows ci dek qs rows =
    Inr (map (\<lambda>r. (pr_id r, real (overlap qs (plain_text ci dek r)) / real (length qs)))
      (filter (\<lambda>r. 0 < overlap qs (plain_text ci dek r)) rows))"
  using assms by (induction rows) (simp_all add: readable_decrypt)

lemma sort_desc_sorted: "sorted (rev (map f (sort_desc f xs)))"
  by (simp add: sort_desc_def rev_map)

lemma mset_sort_desc [simp]: "mset (sort_desc f xs) = mset xs"
  by (simp add: sort_desc_def)

lemma overlap_le: "overlap qs t \<le> length qs"
  by (simp add: overlap_def)

lemma sorted_desc_split:
  assumes "sorted (rev (map f xs))" "x \<in> set (take k xs)" "y \<in> set (drop k xs)"
  shows "f y \<le> f x"
proof -
  have "sorted (rev (map f (drop k xs)) @ rev (map f (take k xs)))"
    using assms(1) by (metis append_take_drop_id map_append rev_append)
  with assms(2,3) show ?thesis by (auto simp: sorted_append)
qed

text \<open>The relevance of a chunk to a query: the share of the query's tokens that its text has.\<close>

definition relevance :: "cipher \<Rightarrow> string option \<Rightarrow> string \<Rightarrow> pke_row \<Rightarrow> real" where
  "relevance ci dek q r =
     real (overlap (token_list q) (plain_text ci dek r)) / real (length (token_list q))"

text \<open>C25: the keyword search of a readable store returns at most the requested number of hits in descending order
  of relevance. Each hit is a stored chunk that passes the theme filter, with its relevance, positive
  and at most one, as its score; a passing chunk that shares a token with the query is left out only
  when the result is full of hits at least as relevant.\<close>

theorem keyword_search_best_matches:
  assumes "readable ci s" and "token_list q \<noteq> []" and "1 \<le> k"
  shows "\<exists>hits. keyword_search ci q k themes s = Inr hits \<and> length hits \<le> nat k \<and>
    sorted (rev (map snd hits)) \<and>
    (\<forall>(i, x) \<in> set hits. 0 < x \<and> x \<le> 1 \<and>
       (\<exists>r \<in> set (ks_rows s). theme_ok themes r \<and> pr_id r = i \<and> relevance ci (ks_dek s) q r = x)) \<and>
    (\<forall>r \<in> set (ks_rows s). theme_ok themes r \<and> 0 < relevance ci (ks_dek s) q r \<longrightarrow>
       (pr_id r, relevance ci (ks_dek s) q r) \<in> set hits \<or>
       (length hits = nat k \<and> (\<forall>(i, x) \<in> set hits. relevance ci (ks_dek s) q r \<le> x)))"
proof -
  let ?dek = "ks_dek s" and ?qs = "token_list q"
  let ?rel = "relevance ci ?dek q"
  define sc where "sc = map (\<lambda>r. (pr_id r, ?rel r))
    (filter (\<lambda>r. 0 < overlap ?qs (plain_text ci ?dek r)) (filter (theme_ok themes) (ks_rows s)))"
  define sorted_sc where "sorted_sc = sort_desc snd sc"
  have "list_all (readable_row ci ?dek) (filter (theme_ok themes) (ks_rows s))"
    using assms(1) by (simp add: readable_def list_all_iff)
  from score_rows_eq[OF this] have run: "keyword_search ci q k themes s = Inr (take (nat k) sorted_sc)"
    using assms(2,3) by (simp add: keyword_search_def Let_def sorted_sc_def sc_def relevance_def)
  have pos: "0 < ?rel r \<longleftrightarrow> 0 < overlap ?qs (plain_text ci ?dek r)" for r
    using assms(2) by (simp add: relevance_def zero_less_divide_iff)
  have le1: "?rel r \<le> 1" for r
    using assms(2) overlap_le[of ?qs] by (simp add: relevance_def divide_le_eq_1)
  have srt: "sorted (rev (map snd sorted_sc))" unfolding sorted_sc_def by (rule sort_desc_sorted)
  have mem: "p \<in> set sorted_sc \<longleftrightarrow>
      (\<exists>r \<in> set (ks_rows s). theme_ok themes r \<and> 0 < ?rel r \<and> p = (pr_id r, ?rel r))" for p
    by (auto simp: sorted_sc_def sc_def pos)
  show ?thesis
  proof (intro exI[of _ "take (nat k) sorted_sc"] conjI ballI impI)
    show "keyword_search ci q k themes s = Inr (take (nat k) sorted_sc)" by (rule run)
    show "length (take (nat k) sorted_sc) \<le> nat k" by simp
    show "sorted (rev (map snd (take (nat k) sorted_sc)))"
      using srt by (metis append_take_drop_id map_append rev_append sorted_append)
  next
    fix p assume "p \<in> set (take (nat k) sorted_sc)"
    then have "p \<in> set sorted_sc" by (rule in_set_takeD)
    then show "case p of (i, x) \<Rightarrow> 0 < x \<and> x \<le> 1 \<and>
       (\<exists>r \<in> set (ks_rows s). theme_ok themes r \<and> pr_id r = i \<and> ?rel r = x)"
      using le1 unfolding mem by auto
  next
    fix r assume r: "r \<in> set (ks_rows s)" "theme_ok themes r \<and> 0 < ?rel r"
    then have "(pr_id r, ?rel r) \<in> set sorted_sc" using mem by blast
    then have "(pr_id r, ?rel r) \<in> set (take (nat k) sorted_sc) \<or> (pr_id r, ?rel r) \<in> set (drop (nat k) sorted_sc)"
      by (metis Un_iff append_take_drop_id set_append)
    moreover have "length (take (nat k) sorted_sc) = nat k \<and>
        (\<forall>(i, x) \<in> set (take (nat k) sorted_sc). ?rel r \<le> x)"
      if d: "(pr_id r, ?rel r) \<in> set (drop (nat k) sorted_sc)"
    proof -
      have "nat k < length sorted_sc" using d by (metis drop_all empty_iff list.set(1) not_le)
      moreover have "?rel r \<le> x" if "(i, x) \<in> set (take (nat k) sorted_sc)" for i x
        using sorted_desc_split[OF srt that d] by simp
      ultimately show ?thesis by auto
    qed
    ultimately show "(pr_id r, ?rel r) \<in> set (take (nat k) sorted_sc) \<or>
       (length (take (nat k) sorted_sc) = nat k \<and> (\<forall>(i, x) \<in> set (take (nat k) sorted_sc). ?rel r \<le> x))"
      by blast
  qed
qed

lemma sample_tokens: "token_list ''Risk'' = [''risk'']"
  by code_simp

lemma keyword_search_best_matches_witness:
  "\<exists>hits. keyword_search sample_cipher ''Risk'' 1 [] sample_store = Inr hits \<and> length hits \<le> 1"
  using keyword_search_best_matches[OF sample_readable, of "''Risk''" 1 "[]"] by (auto simp: sample_tokens)

end
