(* ===== verification/Knowledge_Api.thy ===== *)
theory Knowledge_Api
  imports Endpoints Pke_Correct
begin

text \<open>
  The read-only knowledge endpoints of \<^verbatim>\<open>analytics/pae/server.py\<close> over the knowledge store, which the
  server opens for each request without a key. The argument \<open>file\<close> is the knowledge base on disk, None
  before its first ingestion.
\<close>

section \<open>Endpoints\<close>









section \<open>What the endpoints disclose\<close>



















end
