(* ===== verification/Tools.thy ===== *)
theory Tools
  imports Endpoints
begin

text \<open>
  The agent tools of \<^verbatim>\<open>analytics/pae/mcp/tools.py\<close>, one definition for each method of \<open>PAETools\<close>, with
  its arguments at their declared types, and the dashboard, which the REST route shares.
\<close>

section \<open>Errors\<close>

datatype tool_msg =
    DbMsg db_exc
  | NoHoldings string
  | EngineUnreachable
  | EngineStatus nat
  | EngineNonObject
  | FactorMsg factor_exc
  | MissingInputs
  | OptMsg opt_exc
  | BrinsonMsg brinson_exc
  | InvalidEntry "entry_error list"

text \<open>\<open>PAEToolError\<close> with its message, TypeError, or any other exception.\<close>

datatype tool_exc = ToolFail tool_msg | ToolTypeError | ToolOther

definition tool_of_py :: "py_exc \<Rightarrow> tool_exc" where
  "tool_of_py e = (if e = TypeError then ToolTypeError else ToolOther)"

definition tool_of_db :: "db_exc \<Rightarrow> tool_exc" where
  "tool_of_db e = (if is_database_error e then ToolFail (DbMsg e) else ToolOther)"

definition lift_tool :: "py_exc + 'a \<Rightarrow> tool_exc + 'a" where
  "lift_tool r = (case r of Inl e \<Rightarrow> Inl (tool_of_py e) | Inr a \<Rightarrow> Inr a)"

definition tool_answer :: "('a \<Rightarrow> 'b) \<Rightarrow> (db_exc + 'a) \<times> db \<Rightarrow> (tool_exc + 'b) \<times> db" where
  "tool_answer f r = (case fst r of Inl e \<Rightarrow> Inl (tool_of_db e) | Inr a \<Rightarrow> Inr (f a), snd r)"

section \<open>Engine tools\<close>

definition resolve_engine_url :: "string option \<Rightarrow> string option \<Rightarrow> string option \<Rightarrow> string" where
  "resolve_engine_url explicit pae_env rust_env =
     (case filter (\<lambda>v. v \<noteq> None \<and> v \<noteq> Some []) [explicit, pae_env, rust_env] of
        Some u # _ \<Rightarrow> u
      | _ \<Rightarrow> ''http://localhost:3001'')"

text \<open>\<open>_post_engine\<close>\<close>

fun tool_reply :: "engine_reply \<Rightarrow> tool_exc + pyval" where
  "tool_reply ConnectFailed = Inl (ToolFail EngineUnreachable)"
| "tool_reply TimedOut = Inl (ToolFail EngineUnreachable)"
| "tool_reply (ErrorStatus n) = Inl (ToolFail (EngineStatus n))"
| "tool_reply NotJson = Inl ToolOther"
| "tool_reply (Reply (VDict d)) = Inr (VDict d)"
| "tool_reply (Reply _) = Inl (ToolFail EngineNonObject)"

definition tool_engine_holdings ::
  "(string \<Rightarrow> pyval option) \<Rightarrow> string \<Rightarrow> db \<Rightarrow> tool_exc + engine_holding list" where
  "tool_engine_holdings loads pid d =
     rbind (lift_tool (get_holdings_for_engine loads pid d)) (\<lambda>hs.
       if hs = [] then Inl (ToolFail (NoHoldings pid)) else Inr hs)"

definition tool_compute_risk where
  "tool_compute_risk loads (eng :: engine) pid d =
     rbind (tool_engine_holdings loads pid d) (\<lambda>hs. tool_reply (eng (RiskRequest hs)))"

definition tool_monte_carlo where
  "tool_monte_carlo loads (eng :: engine) pid sims months d =
     rbind (tool_engine_holdings loads pid d) (\<lambda>hs.
     rbind (lift_tool (get_portfolio_summary pid d)) (\<lambda>s.
       tool_reply (eng (MonteCarloRequest hs sims months (ps_total_market_value s)))))"

definition tool_stress_test where
  "tool_stress_test loads (eng :: engine) pid scenario shocks d =
     rbind (tool_engine_holdings loads pid d) (\<lambda>hs.
       tool_reply (eng (StressRequest hs scenario (Some (case shocks of None \<Rightarrow> VNone | Some v \<Rightarrow> v)))))"

section \<open>Analytics tools\<close>

definition tool_factor_decompose ::
  "(mat \<Rightarrow> fl_mat option) \<Rightarrow> pyfloat list \<Rightarrow> (string \<times> pyfloat list) list \<Rightarrow> tool_exc + factor_decomposition" where
  "tool_factor_decompose inv_fn prs frs =
     (case decompose inv_fn prs frs of Inl e \<Rightarrow> Inl (ToolFail (FactorMsg e)) | Inr r \<Rightarrow> Inr r)"

fun tool_of_opt :: "opt_exc \<Rightarrow> tool_exc" where
  "tool_of_opt (OptRaise e) = (if e = ValueError then ToolFail (OptMsg (OptRaise e)) else tool_of_py e)"
| "tool_of_opt e = ToolFail (OptMsg e)"

definition tool_optimize_inputs ::
  "(string \<Rightarrow> pyval option) \<Rightarrow> optimize_request \<Rightarrow> db \<Rightarrow>
     tool_exc + (string list \<times> pyfloat list \<times> pyfloat list list)" where
  "tool_optimize_inputs loads req d =
     (case truthy_list (or_portfolio_id req) of
        Some pid \<Rightarrow>
          (let hs = get_holdings (Some pid) None d
           in if hs = [] then Inl (ToolFail (NoHoldings pid))
              else case holdings_to_inputs loads (map (\<lambda>h. (h_symbol h, h_returns_json h)) hs) of
                  Inl e \<Rightarrow> Inl (tool_of_opt e)
                | Inr (syms, mu, cov) \<Rightarrow> Inr (syms, map Fin mu, map (map Fin) cov))
      | None \<Rightarrow>
          (case (truthy_list (or_symbols req), truthy_list (or_expected_returns req), truthy_list (or_covariance req)) of
             (Some syms, Some mu, Some cov) \<Rightarrow> Inr (syms, mu, cov)
           | _ \<Rightarrow> Inl (ToolFail MissingInputs)))"

definition tool_optimize ::
  "numerics \<Rightarrow> (string \<Rightarrow> pyval option) \<Rightarrow> optimize_request \<Rightarrow> db \<Rightarrow> tool_exc + optimization_result" where
  "tool_optimize num loads req d =
     rbind (tool_optimize_inputs loads req d) (\<lambda>(syms, mu, cov).
       case optimize num syms mu cov (or_risk_free_rate req) (or_frontier_points req) of
         Inl e \<Rightarrow> Inl (tool_of_opt e)
       | Inr r \<Rightarrow> Inr r)"

definition tool_brinson :: "pyval list \<Rightarrow> pyval list \<Rightarrow> tool_exc + brinson_attribution" where
  "tool_brinson ps bs =
     (case attribute ps bs of
        Inl (Raised e) \<Rightarrow> Inl (if e = ValueError then ToolFail (BrinsonMsg (Raised e)) else tool_of_py e)
      | Inl e \<Rightarrow> Inl (ToolFail (BrinsonMsg e))
      | Inr r \<Rightarrow> Inr r)"

text \<open>\<open>journal_log\<close> builds the entry of its arguments, validates it and stores it.\<close>

definition tool_journal_log ::
  "(pyval \<Rightarrow> string) \<Rightarrow> decision_entry \<Rightarrow> db \<Rightarrow> (tool_exc + string \<times> string) \<times> db" where
  "tool_journal_log dumps e d =
     (case validate_entry e of
        Inl x \<Rightarrow> (Inl (tool_of_py x), d)
      | Inr errors \<Rightarrow>
          if errors \<noteq> [] then (Inl (ToolFail (InvalidEntry errors)), d)
          else tool_answer (\<lambda>e. (entry_id e, timestamp e)) (insert_journal_entry dumps e d))"

section \<open>Holdings tools\<close>

text \<open>The tool has no field limits; its \<open>returns\<close> default to none.\<close>

definition tool_holdings_create ::
  "(string \<Rightarrow> pyval option) \<Rightarrow> (pyval \<Rightarrow> string) \<Rightarrow> stamp \<Rightarrow> holding_create \<Rightarrow> db \<Rightarrow>
     (tool_exc + string \<times> string) \<times> db" where
  "tool_holdings_create loads dumps st req d =
     tool_answer (\<lambda>h. (h_id h, h_symbol h)) (insert_holding loads (holding_of dumps st req) d)"

definition tool_holdings_list ::
  "(string \<Rightarrow> pyval option) \<Rightarrow> string option \<Rightarrow> string option \<Rightarrow> db \<Rightarrow> tool_exc + holdings_page" where
  "tool_holdings_list loads pid aid d =
     (let hs = get_holdings pid aid d; tot = fl_sum (map h_market_value hs)
      in lift_tool (rbind (traverse (holding_view_of loads tot) hs) (\<lambda>vs.
           Inr \<lparr>hg_holdings = vs, hg_total_market_value = fl_round tot 2, hg_count = length vs\<rparr>)))"

definition tool_holdings_update ::
  "(string \<Rightarrow> pyval option) \<Rightarrow> (pyval \<Rightarrow> string) \<Rightarrow> string \<Rightarrow> string \<Rightarrow> holding_patch \<Rightarrow> db \<Rightarrow>
     (tool_exc + string) \<times> db" where
  "tool_holdings_update loads dumps now hid p d =
     (case get_holding_by_id hid d of
        Inl e \<Rightarrow> (Inl (case e of NotFoundErr _ \<Rightarrow> ToolFail (DbMsg e) | _ \<Rightarrow> ToolOther), d)
      | Inr existing \<Rightarrow> tool_answer (\<lambda>_. hid) (update_holding loads now (apply_patch dumps p existing) d))"

definition tool_holdings_delete :: "string \<Rightarrow> db \<Rightarrow> (tool_exc + string) \<times> db" where
  "tool_holdings_delete hid d =
     (case delete_holding hid d of
        (Inl e, d') \<Rightarrow> (Inl (case e of NotFoundErr _ \<Rightarrow> ToolFail (DbMsg e) | _ \<Rightarrow> ToolOther), d')
      | (Inr _, d') \<Rightarrow> (Inr hid, d'))"

section \<open>Dashboard\<close>

record top_holding =
  th_symbol :: string
  th_name :: string
  th_market_value :: pyfloat
  th_weight_pct :: pyfloat
  th_yield_pct :: pyfloat
  th_unrealized_pnl :: pyfloat

record dashboard =
  da_summary :: portfolio_summary
  da_allocation :: "(string \<times> pyfloat) list"
  da_top_holdings :: "top_holding list"
  da_holding_count :: nat

definition add_allocation :: "(string \<times> pyfloat) list \<Rightarrow> holding \<Rightarrow> (string \<times> pyfloat) list" where
  "add_allocation alloc h =
     dict_set alloc (h_asset_class h)
       (fl_add (case dict_get alloc (h_asset_class h) of Some v \<Rightarrow> v | None \<Rightarrow> Fin 0) (h_market_value h))"

definition allocation_of :: "holding list \<Rightarrow> (string \<times> pyfloat) list" where
  "allocation_of hs = foldl add_allocation [] hs"

text \<open>\<open>sorted(holdings, key=market_value, reverse=True)\<close>: descending, equal values in their order.\<close>

fun insert_by_value :: "holding \<Rightarrow> holding list \<Rightarrow> holding list" where
  "insert_by_value h [] = [h]"
| "insert_by_value h (x # xs) =
     (if fl_lt (h_market_value x) (h_market_value h) then h # x # xs else x # insert_by_value h xs)"

definition by_value :: "holding list \<Rightarrow> holding list" where
  "by_value hs = foldl (\<lambda>acc h. insert_by_value h acc) [] hs"

definition top_view :: "pyfloat \<Rightarrow> holding \<Rightarrow> py_exc + top_holding" where
  "top_view tot h =
     rbind (share_pct (h_market_value h) tot) (\<lambda>w.
       Inr \<lparr>th_symbol = h_symbol h, th_name = h_name h, th_market_value = fl_round (h_market_value h) 2,
            th_weight_pct = fl_round w 2, th_yield_pct = h_yield_pct h,
            th_unrealized_pnl = fl_round (fl_sub (h_market_value h) (h_cost_basis h)) 2\<rparr>)"

definition dashboard_summary :: "string \<Rightarrow> db \<Rightarrow> py_exc + dashboard" where
  "dashboard_summary pid d =
     rbind (get_portfolio_summary pid d) (\<lambda>s.
     let hs = get_holdings (Some pid) None d; tot = ps_total_market_value s
     in rbind (traverse (\<lambda>(k, v). rbind (share_pct v tot) (\<lambda>w. Inr (k, fl_round w 2))) (allocation_of hs)) (\<lambda>alloc.
        rbind (traverse (top_view tot) (take 10 (by_value hs))) (\<lambda>top.
          Inr \<lparr>da_summary = s, da_allocation = alloc, da_top_holdings = top, da_holding_count = length hs\<rparr>)))"

definition tool_dashboard :: "string \<Rightarrow> db \<Rightarrow> tool_exc + dashboard" where
  "tool_dashboard pid d = lift_tool (dashboard_summary pid d)"

definition rest_dashboard :: "string \<Rightarrow> db \<Rightarrow> rest_exc + dashboard" where
  "rest_dashboard pid d = lift_crash (dashboard_summary pid d)"

end
