(* ===== verification/Agent.thy ===== *)
theory Agent
  imports Tools "HOL-Library.Monad_Syntax"
begin

text \<open>
  The agent surface: \<open>run_agent_tool\<close> of \<^verbatim>\<open>analytics/pae/mcp/tools.py\<close>, which dispatches a call by the
  tool's name with untyped arguments, and the A2A endpoint of \<^verbatim>\<open>analytics/pae/server.py\<close>, which takes
  the call out of a message and wraps the outcome in a task.
\<close>

section \<open>Dispatch\<close>

text \<open>The tools with the names of their required and optional parameters.\<close>

definition TOOL_PARAMS :: "(string \<times> string list \<times> string list) list" where
  "TOOL_PARAMS =
    [(''compute_risk'', [''portfolio_id''], []),
     (''monte_carlo'', [''portfolio_id''], [''num_simulations'', ''time_horizon_months'']),
     (''stress_test'', [''portfolio_id'', ''scenario''], [''custom_shocks'']),
     (''factor_decompose'', [''portfolio_returns'', ''factor_returns''], []),
     (''optimize_portfolio'', [],
       [''symbols'', ''expected_returns'', ''covariance'', ''portfolio_id'', ''risk_free_rate'', ''frontier_points'']),
     (''brinson_attribution'', [''portfolio_segments'', ''benchmark_segments''], []),
     (''journal_log'', [''action''],
       [''symbols_affected'', ''rationale'', ''alternatives_considered'', ''thesis'', ''confidence'',
        ''time_horizon'', ''what_could_go_wrong'', ''max_acceptable_loss_pct'', ''emotional_state'',
        ''market_context'', ''trigger'', ''outcome_30d'', ''outcome_90d'', ''outcome_180d'',
        ''outcome_notes'', ''was_thesis_correct'']),
     (''holdings_create'', [''portfolio_id'', ''symbol''],
       [''name'', ''asset_class'', ''quantity'', ''market_value'', ''cost_basis'', ''yield_pct'', ''currency'',
        ''account_id'', ''returns'']),
     (''holdings_list'', [], [''portfolio_id'', ''account_id'']),
     (''holdings_update'', [''holding_id''],
       [''symbol'', ''name'', ''asset_class'', ''quantity'', ''market_value'', ''cost_basis'', ''yield_pct'',
        ''currency'', ''returns'']),
     (''holdings_delete'', [''holding_id''], []),
     (''dashboard_summary'', [''portfolio_id''], [])]"

definition TOOL_NAMES :: "string list" where
  "TOOL_NAMES = map fst TOOL_PARAMS"

type_synonym params = "(string \<times> pyval) list"

fun as_dict :: "pyval \<Rightarrow> params option" where
  "as_dict (VDict d) = Some d"
| "as_dict _ = None"

text \<open>\<open>fn(**params)\<close> binds exactly when every required name is given and no other name is unknown.\<close>

definition params_bind :: "string \<Rightarrow> params \<Rightarrow> bool" where
  "params_bind tool ps =
     (case map_of TOOL_PARAMS tool of
        None \<Rightarrow> False
      | Some (required, optional) \<Rightarrow>
          list_all (\<lambda>k. k \<in> fst ` set ps) required \<and> list_all (\<lambda>k. k \<in> set (required @ optional)) (map fst ps))"

section \<open>The call fn(**params)\<close>

datatype tool_value =
    EngineValue pyval
  | FactorValue factor_decomposition
  | OptimizeValue optimization_result
  | BrinsonValue brinson_attribution
  | LoggedValue string string
  | CreatedValue string string
  | ListValue holdings_page
  | UpdatedValue string
  | DeletedValue string
  | DashboardValue dashboard

text \<open>What a tool call reads beside its arguments: the codec, the engine, the numerics, and the
  identifier and clock reading of a new record.\<close>

record tool_env =
  te_loads :: "string \<Rightarrow> pyval option"
  te_dumps :: "pyval \<Rightarrow> string"
  te_engine :: engine
  te_inverse :: "mat \<Rightarrow> fl_mat option"
  te_numerics :: numerics
  te_stamp :: stamp

text \<open>An argument at its declared type; \<open>arg\<close> is None when the value given is of another type.\<close>

definition arg :: "params \<Rightarrow> string \<Rightarrow> (pyval \<Rightarrow> 'a option) \<Rightarrow> 'a option \<Rightarrow> 'a option" where
  "arg ps k conv dflt = (case dict_get ps k of None \<Rightarrow> dflt | Some v \<Rightarrow> conv v)"

fun as_str :: "pyval \<Rightarrow> string option" where
  "as_str (VStr s) = Some s"
| "as_str _ = None"

fun as_integer :: "pyval \<Rightarrow> int option" where
  "as_integer (VInt n) = Some n"
| "as_integer _ = None"

fun as_number :: "pyval \<Rightarrow> pyfloat option" where
  "as_number (VFloat f) = Some f"
| "as_number (VInt n) = (if - (2 ^ 63) \<le> n \<and> n < 2 ^ 63 then Some (Fin (of_int n)) else None)"
| "as_number _ = None"

fun as_float :: "pyval \<Rightarrow> pyfloat option" where
  "as_float (VFloat f) = Some f"
| "as_float _ = None"

fun as_list :: "(pyval \<Rightarrow> 'a option) \<Rightarrow> pyval \<Rightarrow> 'a list option" where
  "as_list conv (VList vs) = those (map conv vs)"
| "as_list conv _ = None"

fun as_optional :: "(pyval \<Rightarrow> 'a option) \<Rightarrow> pyval \<Rightarrow> 'a option option" where
  "as_optional conv VNone = Some None"
| "as_optional conv v = map_option Some (conv v)"

fun as_bool :: "pyval \<Rightarrow> bool option" where
  "as_bool (VBool b) = Some b"
| "as_bool _ = None"

definition as_series :: "pyval \<Rightarrow> (string \<times> pyfloat list) list option" where
  "as_series v = Option.bind (as_dict v) (\<lambda>d.
     those (map (\<lambda>(k, w). map_option (Pair k) (as_list as_number w)) d))"

definition returned :: "('a \<Rightarrow> tool_value) \<Rightarrow> ('e + 'a) \<times> db \<Rightarrow> ('e + tool_value) \<times> db" where
  "returned f r = (case fst r of Inl e \<Rightarrow> Inl e | Inr a \<Rightarrow> Inr (f a), snd r)"

type_synonym bound_call = "(db \<Rightarrow> (tool_exc + tool_value) \<times> db) option"

definition call_compute_risk :: "tool_env \<Rightarrow> params \<Rightarrow> bound_call" where
  "call_compute_risk env ps = do {
     pid \<leftarrow> arg ps ''portfolio_id'' as_str None;
     Some (\<lambda>d. returned EngineValue (tool_compute_risk (te_loads env) (te_engine env) pid d, d)) }"

definition call_monte_carlo :: "tool_env \<Rightarrow> params \<Rightarrow> bound_call" where
  "call_monte_carlo env ps = do {
     pid \<leftarrow> arg ps ''portfolio_id'' as_str None;
     sims \<leftarrow> arg ps ''num_simulations'' as_integer (Some 10000);
     months \<leftarrow> arg ps ''time_horizon_months'' as_integer (Some 12);
     Some (\<lambda>d. returned EngineValue (tool_monte_carlo (te_loads env) (te_engine env) pid sims months d, d)) }"

definition call_stress_test :: "tool_env \<Rightarrow> params \<Rightarrow> bound_call" where
  "call_stress_test env ps = do {
     pid \<leftarrow> arg ps ''portfolio_id'' as_str None;
     scenario \<leftarrow> arg ps ''scenario'' as_str None;
     shocks \<leftarrow> arg ps ''custom_shocks'' (as_optional Some) (Some None);
     Some (\<lambda>d. returned EngineValue (tool_stress_test (te_loads env) (te_engine env) pid scenario shocks d, d)) }"

definition call_factor_decompose :: "tool_env \<Rightarrow> params \<Rightarrow> bound_call" where
  "call_factor_decompose env ps = do {
     prs \<leftarrow> arg ps ''portfolio_returns'' (as_list as_number) None;
     frs \<leftarrow> arg ps ''factor_returns'' as_series None;
     Some (\<lambda>d. returned FactorValue (tool_factor_decompose (te_inverse env) prs frs, d)) }"

definition call_optimize_portfolio :: "tool_env \<Rightarrow> params \<Rightarrow> bound_call" where
  "call_optimize_portfolio env ps = do {
     syms \<leftarrow> arg ps ''symbols'' (as_optional (as_list as_str)) (Some None);
     mu \<leftarrow> arg ps ''expected_returns'' (as_optional (as_list as_number)) (Some None);
     cov \<leftarrow> arg ps ''covariance'' (as_optional (as_list (as_list as_number))) (Some None);
     pid \<leftarrow> arg ps ''portfolio_id'' (as_optional as_str) (Some None);
     rf \<leftarrow> arg ps ''risk_free_rate'' as_number (Some (Fin 0));
     n \<leftarrow> arg ps ''frontier_points'' as_integer (Some 25);
     Some (\<lambda>d. returned OptimizeValue (tool_optimize (te_numerics env) (te_loads env)
       \<lparr>or_portfolio_id = pid, or_symbols = syms, or_expected_returns = mu, or_covariance = cov,
        or_risk_free_rate = rf, or_frontier_points = n\<rparr> d, d)) }"

text \<open>What iterating the segments gives: a string its characters, a dict its keys, an empty value nothing;
  a number cannot be iterated.\<close>

fun as_segments :: "pyval \<Rightarrow> pyval list option" where
  "as_segments (VList vs) = Some vs"
| "as_segments (VStr s) = Some (map (\<lambda>c. VStr [c]) s)"
| "as_segments (VDict d) = Some (map (\<lambda>(k, _). VStr k) d)"
| "as_segments v = (if truthy v then None else Some [])"

definition call_brinson_attribution :: "tool_env \<Rightarrow> params \<Rightarrow> bound_call" where
  "call_brinson_attribution env ps = do {
     pseg \<leftarrow> arg ps ''portfolio_segments'' as_segments None;
     bseg \<leftarrow> arg ps ''benchmark_segments'' as_segments None;
     Some (\<lambda>d. returned BrinsonValue (tool_brinson pseg bseg, d)) }"

definition or_empty :: "'a list option \<Rightarrow> 'a list" where
  "or_empty v = (case v of None \<Rightarrow> [] | Some vs \<Rightarrow> vs)"

text \<open>The journal validates the values it inspects itself: they are passed as they are.\<close>

definition call_journal_log :: "tool_env \<Rightarrow> params \<Rightarrow> bound_call" where
  "call_journal_log env ps = do {
     act \<leftarrow> arg ps ''action'' as_str None;
     syms \<leftarrow> arg ps ''symbols_affected'' (as_optional (as_list Some)) (Some None);
     rat \<leftarrow> arg ps ''rationale'' as_str (Some []);
     alts \<leftarrow> arg ps ''alternatives_considered'' (as_optional (as_list Some)) (Some None);
     the \<leftarrow> arg ps ''thesis'' as_str (Some []);
     conf \<leftarrow> arg ps ''confidence'' Some (Some (VInt 5));
     hor \<leftarrow> arg ps ''time_horizon'' as_str (Some []);
     wrong \<leftarrow> arg ps ''what_could_go_wrong'' as_str (Some []);
     loss \<leftarrow> arg ps ''max_acceptable_loss_pct'' Some (Some (VFloat (Fin 0)));
     emo \<leftarrow> arg ps ''emotional_state'' Some (Some (VStr ''neutral''));
     mkt \<leftarrow> arg ps ''market_context'' as_str (Some []);
     trg \<leftarrow> arg ps ''trigger'' as_str (Some []);
     o30 \<leftarrow> arg ps ''outcome_30d'' Some (Some VNone);
     o90 \<leftarrow> arg ps ''outcome_90d'' Some (Some VNone);
     o180 \<leftarrow> arg ps ''outcome_180d'' Some (Some VNone);
     notes \<leftarrow> arg ps ''outcome_notes'' as_str (Some []);
     cor \<leftarrow> arg ps ''was_thesis_correct'' (as_optional as_bool) (Some None);
     Some (\<lambda>d. returned (\<lambda>(i, t). LoggedValue i t) (tool_journal_log (te_dumps env)
       \<lparr>entry_id = fst (te_stamp env), timestamp = snd (te_stamp env), action = act,
        symbols_affected = or_empty syms, rationale = rat, alternatives_considered = or_empty alts,
        thesis = the, confidence = conf, time_horizon = hor, what_could_go_wrong = wrong,
        max_acceptable_loss_pct = loss, emotional_state = emo, market_context = mkt, trigger = trg,
        outcome_30d = o30, outcome_90d = o90, outcome_180d = o180, outcome_notes = notes,
        was_thesis_correct = cor\<rparr> d)) }"

definition call_holdings_create :: "tool_env \<Rightarrow> params \<Rightarrow> bound_call" where
  "call_holdings_create env ps = do {
     pid \<leftarrow> arg ps ''portfolio_id'' as_str None;
     sym \<leftarrow> arg ps ''symbol'' as_str None;
     nam \<leftarrow> arg ps ''name'' as_str (Some []);
     cls \<leftarrow> arg ps ''asset_class'' as_str (Some ''equity'');
     qty \<leftarrow> arg ps ''quantity'' as_number (Some (Fin 0));
     val \<leftarrow> arg ps ''market_value'' as_number (Some (Fin 0));
     cost \<leftarrow> arg ps ''cost_basis'' as_number (Some (Fin 0));
     yld \<leftarrow> arg ps ''yield_pct'' as_number (Some (Fin 0));
     cur \<leftarrow> arg ps ''currency'' as_str (Some ''CAD'');
     aid \<leftarrow> arg ps ''account_id'' as_str (Some []);
     rets \<leftarrow> arg ps ''returns'' (as_optional (as_list as_float)) (Some None);
     Some (\<lambda>d. returned (\<lambda>(i, s). CreatedValue i s) (tool_holdings_create (te_loads env) (te_dumps env) (te_stamp env)
       \<lparr>hc_portfolio_id = pid, hc_account_id = aid, hc_symbol = sym, hc_name = nam, hc_asset_class = cls,
        hc_quantity = qty, hc_market_value = val, hc_cost_basis = cost, hc_yield_pct = yld,
        hc_currency = cur, hc_returns = or_empty rets\<rparr> d)) }"

definition call_holdings_list :: "tool_env \<Rightarrow> params \<Rightarrow> bound_call" where
  "call_holdings_list env ps = do {
     pid \<leftarrow> arg ps ''portfolio_id'' (as_optional as_str) (Some None);
     aid \<leftarrow> arg ps ''account_id'' (as_optional as_str) (Some None);
     Some (\<lambda>d. returned ListValue (tool_holdings_list (te_loads env) pid aid d, d)) }"

definition call_holdings_update :: "tool_env \<Rightarrow> params \<Rightarrow> bound_call" where
  "call_holdings_update env ps = do {
     hid \<leftarrow> arg ps ''holding_id'' as_str None;
     sym \<leftarrow> arg ps ''symbol'' (as_optional as_str) (Some None);
     nam \<leftarrow> arg ps ''name'' (as_optional as_str) (Some None);
     cls \<leftarrow> arg ps ''asset_class'' (as_optional as_str) (Some None);
     qty \<leftarrow> arg ps ''quantity'' (as_optional as_number) (Some None);
     val \<leftarrow> arg ps ''market_value'' (as_optional as_number) (Some None);
     cost \<leftarrow> arg ps ''cost_basis'' (as_optional as_number) (Some None);
     yld \<leftarrow> arg ps ''yield_pct'' (as_optional as_number) (Some None);
     cur \<leftarrow> arg ps ''currency'' (as_optional as_str) (Some None);
     rets \<leftarrow> arg ps ''returns'' (as_optional (as_list as_float)) (Some None);
     Some (\<lambda>d. returned UpdatedValue (tool_holdings_update (te_loads env) (te_dumps env) (snd (te_stamp env)) hid
       \<lparr>hp_symbol = sym, hp_name = nam, hp_asset_class = cls, hp_quantity = qty, hp_market_value = val,
        hp_cost_basis = cost, hp_yield_pct = yld, hp_currency = cur, hp_returns = rets\<rparr> d)) }"

definition call_holdings_delete :: "tool_env \<Rightarrow> params \<Rightarrow> bound_call" where
  "call_holdings_delete env ps = do {
     hid \<leftarrow> arg ps ''holding_id'' as_str None;
     Some (\<lambda>d. returned DeletedValue (tool_holdings_delete hid d)) }"

definition call_dashboard_summary :: "tool_env \<Rightarrow> params \<Rightarrow> bound_call" where
  "call_dashboard_summary env ps = do {
     pid \<leftarrow> arg ps ''portfolio_id'' as_str None;
     Some (\<lambda>d. returned DashboardValue (tool_dashboard pid d, d)) }"

definition TOOL_CALLS :: "(string \<times> (tool_env \<Rightarrow> params \<Rightarrow> bound_call)) list" where
  "TOOL_CALLS =
    [(''compute_risk'', call_compute_risk), (''monte_carlo'', call_monte_carlo),
     (''stress_test'', call_stress_test), (''factor_decompose'', call_factor_decompose),
     (''optimize_portfolio'', call_optimize_portfolio),
     (''brinson_attribution'', call_brinson_attribution), (''journal_log'', call_journal_log),
     (''holdings_create'', call_holdings_create), (''holdings_list'', call_holdings_list),
     (''holdings_update'', call_holdings_update), (''holdings_delete'', call_holdings_delete),
     (''dashboard_summary'', call_dashboard_summary)]"

section \<open>Arguments of other types\<close>

text \<open>
  The tools do not check the types of their arguments; what happens then depends on the first
  operation that meets the value. The definitions below follow the tools to the exceptions that their
  own code and the binding of an SQL parameter raise. Only what a package makes of a value it accepts
  (the column affinity of SQLite, the conversions of numpy, the engine) is left to the parameter
  \<open>untyped\<close> of \<open>agent_call\<close>.
\<close>

fun first_error :: "tool_exc option list \<Rightarrow> tool_exc option" where
  "first_error [] = None"
| "first_error (None # es) = first_error es"
| "first_error (Some e # es) = Some e"

definition raises_if :: "bool \<Rightarrow> tool_exc \<Rightarrow> tool_exc option" where
  "raises_if b e = (if b then Some e else None)"

definition invalid :: "validation_msg \<Rightarrow> tool_exc" where
  "invalid m = ToolFail (DbMsg (ValidationErr m))"

definition unbindable :: "pyval \<Rightarrow> bool" where
  "unbindable v = (case bind_value v of Inl _ \<Rightarrow> True | Inr _ \<Rightarrow> False)"

text \<open>A NOT NULL column refuses None, and NaN, which SQLite stores as NULL.\<close>

definition not_null_refuses :: "pyval \<Rightarrow> bool" where
  "not_null_refuses v = (case bind_value v of Inl _ \<Rightarrow> True | Inr b \<Rightarrow> b = BNull)"

text \<open>\<open>value < 0\<close>: a bool and a number can be compared, nothing else can.\<close>

fun below_zero :: "(pyfloat \<Rightarrow> validation_msg) \<Rightarrow> pyval \<Rightarrow> tool_exc option" where
  "below_zero msg (VFloat f) = raises_if (fl_lt f (Fin 0)) (invalid (msg f))"
| "below_zero msg (VInt n) = raises_if (n < 0) (invalid (msg (Fin (of_int n))))"
| "below_zero msg (VBool _) = None"
| "below_zero msg _ = Some ToolTypeError"

text \<open>\<open>_validate_holding\<close> on values of any type; the symbol has been upper-cased, the returns are the
  output of \<open>json.dumps\<close>.\<close>

definition checked_holding ::
  "(string \<Rightarrow> pyval option) \<Rightarrow> string \<Rightarrow> pyval \<Rightarrow> pyval \<Rightarrow> pyval \<Rightarrow> string \<Rightarrow> tool_exc option" where
  "checked_holding loads symb pid val qty rj = first_error
     [raises_if (blank symb) (invalid SymbolEmpty),
      raises_if (\<not> truthy pid) (invalid PortfolioIdRequired),
      below_zero MarketValueNegative val,
      below_zero QuantityNegative qty,
      (case loads rj of
         None \<Rightarrow> Some (invalid ReturnsInvalidJson)
       | Some (VList vs) \<Rightarrow> map_option (\<lambda>i. invalid (ReturnsNotNumber i)) (first_not_number 0 vs)
       | Some _ \<Rightarrow> Some (invalid ReturnsNotArray))]"

definition given :: "params \<Rightarrow> string \<Rightarrow> pyval \<Rightarrow> pyval" where
  "given ps k dflt = (case dict_get ps k of None \<Rightarrow> dflt | Some v \<Rightarrow> v)"

definition given_or_kept :: "params \<Rightarrow> string \<Rightarrow> pyval \<Rightarrow> pyval" where
  "given_or_kept ps k old = (let v = given ps k VNone in if v = VNone then old else v)"

definition create_error :: "tool_env \<Rightarrow> params \<Rightarrow> tool_exc option" where
  "create_error env ps =
     (case given ps ''symbol'' VNone of
        VStr s \<Rightarrow>
          (let pid = given ps ''portfolio_id'' VNone;
               val = given ps ''market_value'' (VFloat (Fin 0));
               qty = given ps ''quantity'' (VFloat (Fin 0));
               rets = given ps ''returns'' VNone;
               aid = given ps ''account_id'' (VStr [])
           in first_error
             [checked_holding (te_loads env) (upper s) pid val qty
                (te_dumps env (if truthy rets then rets else VList [])),
              raises_if (truthy aid \<and> unbindable aid) ToolOther,
              raises_if (list_ex not_null_refuses
                [pid, given ps ''name'' (VStr []), given ps ''asset_class'' (VStr ''equity''), qty, val,
                 given ps ''cost_basis'' (VFloat (Fin 0)), given ps ''yield_pct'' (VFloat (Fin 0)),
                 given ps ''currency'' (VStr ''CAD'')]) ToolOther])
      | _ \<Rightarrow> Some ToolOther)"

definition update_error :: "tool_env \<Rightarrow> params \<Rightarrow> db \<Rightarrow> tool_exc option" where
  "update_error env ps d =
     (case given ps ''holding_id'' VNone of
        VStr hid \<Rightarrow>
          (case get_holding_by_id hid d of
             Inl e \<Rightarrow> Some (case e of NotFoundErr _ \<Rightarrow> ToolFail (DbMsg e) | _ \<Rightarrow> ToolOther)
           | Inr h \<Rightarrow>
               (case given_or_kept ps ''symbol'' (VStr (h_symbol h)) of
                  VStr s \<Rightarrow>
                    (let val = given_or_kept ps ''market_value'' (VFloat (h_market_value h));
                         qty = given_or_kept ps ''quantity'' (VFloat (h_quantity h));
                         rets = given ps ''returns'' VNone;
                         symb = (if given ps ''symbol'' VNone = VNone then s else upper s)
                     in first_error
                       [checked_holding (te_loads env) symb (VStr (h_portfolio_id h)) val qty
                          (if rets = VNone then h_returns_json h else te_dumps env rets),
                        raises_if (list_ex not_null_refuses
                          [given_or_kept ps ''name'' (VStr (h_name h)),
                           given_or_kept ps ''asset_class'' (VStr (h_asset_class h)), qty, val,
                           given_or_kept ps ''cost_basis'' (VFloat (h_cost_basis h)),
                           given_or_kept ps ''yield_pct'' (VFloat (h_yield_pct h)),
                           given_or_kept ps ''currency'' (VStr (h_currency h))]) ToolOther])
                | _ \<Rightarrow> Some ToolOther))
      | v \<Rightarrow> raises_if (unbindable v) ToolOther)"

text \<open>\<open>journal_log\<close> validates the entry first; \<open>int(was_thesis_correct)\<close> is part of the tuple of the INSERT.\<close>

definition journal_error :: "params \<Rightarrow> tool_exc option" where
  "journal_error ps =
     (case validate_entry ((default_entry [] [])
         \<lparr>confidence := given ps ''confidence'' (VInt 5),
          max_acceptable_loss_pct := given ps ''max_acceptable_loss_pct'' (VFloat (Fin 0)),
          emotional_state := given ps ''emotional_state'' (VStr ''neutral''),
          outcome_30d := given ps ''outcome_30d'' VNone, outcome_90d := given ps ''outcome_90d'' VNone,
          outcome_180d := given ps ''outcome_180d'' VNone\<rparr>) of
        Inl x \<Rightarrow> Some (tool_of_py x)
      | Inr errors \<Rightarrow> first_error
          [raises_if (errors \<noteq> []) (ToolFail (InvalidEntry errors)),
           (case given ps ''was_thesis_correct'' VNone of
              VList _ \<Rightarrow> Some ToolTypeError | VDict _ \<Rightarrow> Some ToolTypeError | _ \<Rightarrow> None),
           raises_if (list_ex not_null_refuses (given ps ''action'' VNone # map (\<lambda>k. given ps k (VStr []))
             [''rationale'', ''thesis'', ''time_horizon'', ''what_could_go_wrong'', ''market_context'',
              ''trigger'', ''outcome_notes''])) ToolOther])"

definition engine_error :: "tool_env \<Rightarrow> params \<Rightarrow> db \<Rightarrow> tool_exc option" where
  "engine_error env ps d =
     (case given ps ''portfolio_id'' VNone of
        VStr pid \<Rightarrow> (case tool_engine_holdings (te_loads env) pid d of Inl e \<Rightarrow> Some e | Inr _ \<Rightarrow> None)
      | v \<Rightarrow> raises_if (truthy v \<and> unbindable v) ToolOther)"

definition brinson_error :: "params \<Rightarrow> tool_exc option" where
  "brinson_error ps =
     (case as_segments (given ps ''portfolio_segments'' VNone) of
        None \<Rightarrow> Some ToolTypeError
      | Some pseg \<Rightarrow>
          (case validate_segments pseg ''portfolio'' of
             Inl _ \<Rightarrow> (case tool_brinson pseg [] of Inl e \<Rightarrow> Some e | Inr _ \<Rightarrow> None)
           | Inr _ \<Rightarrow>
               raises_if (as_segments (given ps ''benchmark_segments'' VNone) = None) ToolTypeError))"

definition factor_error :: "params \<Rightarrow> tool_exc option" where
  "factor_error ps = raises_if
     (arg ps ''portfolio_returns'' (as_list as_number) None \<noteq> None \<and>
      as_dict (given ps ''factor_returns'' VNone) = None) ToolOther"

definition optimize_error :: "params \<Rightarrow> tool_exc option" where
  "optimize_error ps =
     (let pid = given ps ''portfolio_id'' VNone
      in if truthy pid then raises_if (unbindable pid) ToolOther
         else raises_if (\<not> list_all (\<lambda>k. truthy (given ps k VNone)) [''symbols'', ''expected_returns'', ''covariance''])
                (ToolFail MissingInputs))"

definition mistyped_error :: "tool_env \<Rightarrow> string \<Rightarrow> params \<Rightarrow> db \<Rightarrow> tool_exc option" where
  "mistyped_error env tool ps d =
     (if tool \<in> {''compute_risk'', ''monte_carlo'', ''stress_test''} then engine_error env ps d
      else if tool = ''factor_decompose'' then factor_error ps
      else if tool = ''optimize_portfolio'' then optimize_error ps
      else if tool = ''brinson_attribution'' then brinson_error ps
      else if tool = ''journal_log'' then journal_error ps
      else if tool = ''holdings_create'' then create_error env ps
      else if tool = ''holdings_list''
      then raises_if (list_ex (\<lambda>k. truthy (given ps k VNone) \<and> unbindable (given ps k VNone))
             [''portfolio_id'', ''account_id'']) ToolOther
      else if tool = ''holdings_update'' then update_error env ps d
      else if tool = ''holdings_delete'' then raises_if (unbindable (given ps ''holding_id'' VNone)) ToolOther
      else raises_if (unbindable (given ps ''portfolio_id'' VNone)) ToolOther)"

definition agent_call ::
  "tool_env \<Rightarrow> (string \<Rightarrow> params \<Rightarrow> db \<Rightarrow> (tool_exc + tool_value) \<times> db) \<Rightarrow>
     string \<Rightarrow> params \<Rightarrow> db \<Rightarrow> (tool_exc + tool_value) \<times> db" where
  "agent_call env untyped tool ps d =
     (case Option.bind (map_of TOOL_CALLS tool) (\<lambda>f. f env ps) of
        Some c \<Rightarrow> c d
      | None \<Rightarrow>
          (case mistyped_error env tool ps d of
             Some e \<Rightarrow> (Inl e, d)
           | None \<Rightarrow> untyped tool ps d))"

section \<open>run_agent_tool\<close>

datatype agent_error =
    UnknownTool string
  | InvalidParameters string
  | ToolMessage tool_msg
  | FailedUnexpectedly string
  | MessageNotObject
  | PartsNotList
  | ParamsNotObject
  | NoDataPart

type_synonym 'v tool_body = "string \<Rightarrow> params \<Rightarrow> db \<Rightarrow> (tool_exc + 'v) \<times> db"

definition run_agent_tool :: "'v tool_body \<Rightarrow> string \<Rightarrow> params \<Rightarrow> db \<Rightarrow> (agent_error + 'v) \<times> db" where
  "run_agent_tool call tool ps d =
     (if tool \<notin> set TOOL_NAMES then (Inl (UnknownTool tool), d)
      else if \<not> params_bind tool ps then (Inl (InvalidParameters tool), d)
      else case call tool ps d of
          (Inr v, d') \<Rightarrow> (Inr v, d')
        | (Inl e, d') \<Rightarrow>
            (Inl (case e of
                    ToolTypeError \<Rightarrow> InvalidParameters tool
                  | ToolFail m \<Rightarrow> ToolMessage m
                  | ToolOther \<Rightarrow> FailedUnexpectedly tool), d'))"

section \<open>A2A messages\<close>

text \<open>\<open>_parse_a2a_tool_call\<close>: the first usable data part.\<close>

fun tool_string :: "pyval option \<Rightarrow> string option" where
  "tool_string (Some (VStr (c # cs))) = Some (c # cs)"
| "tool_string _ = None"

fun parse_message_parts :: "pyval list \<Rightarrow> agent_error + string \<times> params" where
  "parse_message_parts [] = Inl NoDataPart"
| "parse_message_parts (part # rest) =
     (case as_dict part of
        None \<Rightarrow> parse_message_parts rest
      | Some p \<Rightarrow>
          if dict_get p ''type'' \<noteq> Some (VStr ''data'') then parse_message_parts rest
          else (case Option.bind (dict_get p ''data'') as_dict of
                  None \<Rightarrow> parse_message_parts rest
                | Some data \<Rightarrow>
                    (case tool_string (dict_get data ''tool'') of
                       None \<Rightarrow> parse_message_parts rest
                     | Some tool \<Rightarrow>
                         (case dict_get data ''params'' of
                            None \<Rightarrow> Inr (tool, [])
                          | Some v \<Rightarrow>
                              (case as_dict v of None \<Rightarrow> Inl ParamsNotObject | Some ps \<Rightarrow> Inr (tool, ps))))))"

definition parse_a2a_tool_call :: "params \<Rightarrow> agent_error + string \<times> params" where
  "parse_a2a_tool_call body =
     (case Option.bind (dict_get body ''message'') as_dict of
        None \<Rightarrow> Inl MessageNotObject
      | Some msg \<Rightarrow>
          (case dict_get msg ''parts'' of
             Some (VList (p # ps)) \<Rightarrow> parse_message_parts (p # ps)
           | _ \<Rightarrow> Inl PartsNotList))"

record 'v a2a_task =
  ta_id :: string
  ta_state :: string
  ta_artifact :: string
  ta_outcome :: "agent_error + 'v"
  ta_message :: "agent_error option"

definition a2a_task_response :: "string \<Rightarrow> string \<Rightarrow> string \<Rightarrow> agent_error + 'v \<Rightarrow> 'v a2a_task" where
  "a2a_task_response tid state tool outcome =
     \<lparr>ta_id = tid, ta_state = state, ta_artifact = tool, ta_outcome = outcome,
      ta_message = (if state \<noteq> ''completed'' then (case outcome of Inl e \<Rightarrow> Some e | Inr _ \<Rightarrow> None) else None)\<rparr>"

definition a2a_message_send :: "'v tool_body \<Rightarrow> string \<Rightarrow> params \<Rightarrow> db \<Rightarrow> 'v a2a_task \<times> db" where
  "a2a_message_send call tid body d =
     (case parse_a2a_tool_call body of
        Inl e \<Rightarrow> (a2a_task_response tid ''failed'' ''unknown'' (Inl e), d)
      | Inr (tool, ps) \<Rightarrow>
          let (outcome, d') = run_agent_tool call tool ps d;
              state = (case outcome of Inr _ \<Rightarrow> ''completed'' | Inl _ \<Rightarrow> ''failed'')
          in (a2a_task_response tid state tool outcome, d'))"

end
