(* ===== verification/Api_Correct.thy ===== *)
theory Api_Correct
  imports Agent Db_Correct
begin

text \<open>
  The correctness of the two faces of the application: the REST handlers and the agent tools answer
  every sequence of holdings calls alike, an update patches exactly the given fields, an agent
  message completes exactly when its tool ran, and the dashboard accounts for every holding.
\<close>

section \<open>Calls on the holdings\<close>

datatype holding_call =
    CreateCall stamp holding_create
  | UpdateCall string string holding_patch
  | DeleteCall string
  | ListCall "string option" "string option"
  | DashboardCall string

fun rest_call ::
  "(string \<Rightarrow> pyval option) \<Rightarrow> (pyval \<Rightarrow> string) \<Rightarrow> holding_call \<Rightarrow> db \<Rightarrow> (rest_exc + tool_value) \<times> db" where
  "rest_call loads dumps (CreateCall st req) d =
     returned (\<lambda>(i, s). CreatedValue i s) (rest_create_holding loads dumps st req d)"
| "rest_call loads dumps (UpdateCall now hid p) d =
     returned UpdatedValue (rest_update_holding loads dumps now hid p d)"
| "rest_call loads dumps (DeleteCall hid) d = returned DeletedValue (rest_delete_holding hid d)"
| "rest_call loads dumps (ListCall pid aid) d = returned ListValue (rest_list_holdings loads pid aid d, d)"
| "rest_call loads dumps (DashboardCall pid) d = returned DashboardValue (rest_dashboard pid d, d)"

fun tool_call ::
  "(string \<Rightarrow> pyval option) \<Rightarrow> (pyval \<Rightarrow> string) \<Rightarrow> holding_call \<Rightarrow> db \<Rightarrow> (tool_exc + tool_value) \<times> db" where
  "tool_call loads dumps (CreateCall st req) d =
     returned (\<lambda>(i, s). CreatedValue i s) (tool_holdings_create loads dumps st req d)"
| "tool_call loads dumps (UpdateCall now hid p) d =
     returned UpdatedValue (tool_holdings_update loads dumps now hid p d)"
| "tool_call loads dumps (DeleteCall hid) d = returned DeletedValue (tool_holdings_delete hid d)"
| "tool_call loads dumps (ListCall pid aid) d = returned ListValue (tool_holdings_list loads pid aid d, d)"
| "tool_call loads dumps (DashboardCall pid) d = returned DashboardValue (tool_dashboard pid d, d)"

fun run_calls :: "('c \<Rightarrow> 's \<Rightarrow> 'r \<times> 's) \<Rightarrow> 'c list \<Rightarrow> 's \<Rightarrow> 'r list \<times> 's" where
  "run_calls step [] d = ([], d)"
| "run_calls step (c # cs) d =
     (let (r, d1) = step c d; (rs, d2) = run_calls step cs d1 in (r # rs, d2))"

text \<open>
  Two services over one state that take every admissible call to the same state, with related
  answers, agree on every sequence of admissible calls.
\<close>

locale lockstep =
  fixes admissible :: "'c \<Rightarrow> bool"
    and related :: "'r \<Rightarrow> 't \<Rightarrow> bool"
    and step_a :: "'c \<Rightarrow> 's \<Rightarrow> 'r \<times> 's"
    and step_b :: "'c \<Rightarrow> 's \<Rightarrow> 't \<times> 's"
  assumes step: "admissible c \<Longrightarrow> related (fst (step_a c s)) (fst (step_b c s)) \<and> snd (step_a c s) = snd (step_b c s)"
begin

lemma runs_agree:
  assumes "list_all admissible cs"
  shows "list_all2 related (fst (run_calls step_a cs s)) (fst (run_calls step_b cs s)) \<and>
    snd (run_calls step_a cs s) = snd (run_calls step_b cs s)"
  using assms
proof (induction cs arbitrary: s)
  case (Cons c cs)
  obtain r s1 where r: "step_a c s = (r, s1)" by force
  obtain t s2 where t: "step_b c s = (t, s2)" by force
  from step [of c s] Cons.prems r t have "related r t" "s1 = s2" by auto
  with Cons.IH [of s1] Cons.prems show ?case by (simp add: r t split_beta)
qed simp

lemma runs_length: "length (fst (run_calls step_a cs s)) = length cs"
  by (induction cs arbitrary: s) (simp_all add: split_beta)

end

text \<open>The same value; or a status against a tool error with a message; or both unexpected.\<close>

fun same_outcome :: "rest_exc + 'a \<Rightarrow> tool_exc + 'a \<Rightarrow> bool" where
  "same_outcome (Inr a) (Inr b) = (a = b)"
| "same_outcome (Inl (Status _)) (Inl (ToolFail _)) = True"
| "same_outcome (Inl Crash) (Inl (ToolFail _)) = False"
| "same_outcome (Inl Crash) (Inl _) = True"
| "same_outcome _ _ = False"

text \<open>The field limits that only the REST body declares.\<close>

fun within_limits :: "holding_call \<Rightarrow> bool" where
  "within_limits (CreateCall st req) = length_ok 1 20 (hc_symbol req)"
| "within_limits _ = True"

lemma same_outcome_db: "same_outcome (Inl (rest_of_db e)) (Inl (tool_of_db e))"
  by (cases e) (auto simp: tool_of_db_def)

lemma tool_of_py_cases: "tool_of_py e = ToolTypeError \<or> tool_of_py e = ToolOther"
  by (simp add: tool_of_py_def)

lemma same_outcome_answer:
  "same_outcome (fst (returned g (answer f r))) (fst (returned g (tool_answer f r))) \<and>
   snd (returned g (answer f r)) = snd (returned g (tool_answer f r))"
  by (cases "fst r") (simp_all add: returned_def answer_def tool_answer_def same_outcome_db)

lemma same_outcome_lift:
  "same_outcome (fst (returned g (lift_crash r, d))) (fst (returned g (lift_tool r, d))) \<and>
   snd (returned g (lift_crash r, d)) = snd (returned g (lift_tool r, d))"
  using tool_of_py_cases
  by (cases r) (auto simp: returned_def lift_crash_def lift_tool_def tool_of_py_def)

lemma delete_error: "fst (delete_holding hid d) = Inl e \<Longrightarrow> e = NotFoundErr hid"
  by (auto simp: delete_holding_eq split: if_splits)

lemma get_holding_error: "get_holding_by_id hid d = Inl e \<Longrightarrow> e = NotFoundErr hid"
  by (auto simp: get_holding_by_id_def split: option.splits)

lemma same_outcome_call:
  assumes "within_limits c"
  shows "same_outcome (fst (rest_call loads dumps c d)) (fst (tool_call loads dumps c d)) \<and>
    snd (rest_call loads dumps c d) = snd (tool_call loads dumps c d)"
proof (cases c)
  case (CreateCall st req)
  with assms show ?thesis
    by (simp add: rest_create_holding_def tool_holdings_create_def same_outcome_answer)
next
  case (UpdateCall now hid p)
  show ?thesis
  proof (cases "get_holding_by_id hid d")
    case (Inl e)
    with get_holding_error [OF Inl] UpdateCall show ?thesis
      by (simp add: rest_update_holding_def tool_holdings_update_def returned_def)
  qed (simp add: UpdateCall rest_update_holding_def tool_holdings_update_def same_outcome_answer)
next
  case (DeleteCall hid)
  obtain r d' where r: "delete_holding hid d = (r, d')" by force
  show ?thesis
  proof (cases r)
    case (Inl e)
    with delete_error [of hid d e] r DeleteCall show ?thesis
      by (simp add: rest_delete_holding_def tool_holdings_delete_def returned_def answer_def)
  qed (simp add: DeleteCall r rest_delete_holding_def tool_holdings_delete_def returned_def answer_def)
qed (simp_all add: rest_list_holdings_def tool_holdings_list_def rest_dashboard_def
    tool_dashboard_def Let_def same_outcome_lift)

interpretation tools: lockstep within_limits same_outcome "rest_call loads dumps" "tool_call loads dumps"
  for loads dumps
  by unfold_locales (rule same_outcome_call)

section \<open>The same calls as agent messages\<close>

definition opt_param :: "string \<Rightarrow> ('a \<Rightarrow> pyval) \<Rightarrow> 'a option \<Rightarrow> string \<times> pyval" where
  "opt_param k f v = (k, case v of None \<Rightarrow> VNone | Some x \<Rightarrow> f x)"

definition floats :: "pyfloat list \<Rightarrow> pyval" where
  "floats rs = VList (map VFloat rs)"

fun agent_params :: "holding_call \<Rightarrow> string \<times> params" where
  "agent_params (CreateCall st req) = (''holdings_create'',
     [(''portfolio_id'', VStr (hc_portfolio_id req)), (''symbol'', VStr (hc_symbol req)),
      (''name'', VStr (hc_name req)), (''asset_class'', VStr (hc_asset_class req)),
      (''quantity'', VFloat (hc_quantity req)), (''market_value'', VFloat (hc_market_value req)),
      (''cost_basis'', VFloat (hc_cost_basis req)), (''yield_pct'', VFloat (hc_yield_pct req)),
      (''currency'', VStr (hc_currency req)), (''account_id'', VStr (hc_account_id req)),
      (''returns'', floats (hc_returns req))])"
| "agent_params (UpdateCall now hid p) = (''holdings_update'',
     [(''holding_id'', VStr hid), opt_param ''symbol'' VStr (hp_symbol p), opt_param ''name'' VStr (hp_name p),
      opt_param ''asset_class'' VStr (hp_asset_class p), opt_param ''quantity'' VFloat (hp_quantity p),
      opt_param ''market_value'' VFloat (hp_market_value p), opt_param ''cost_basis'' VFloat (hp_cost_basis p),
      opt_param ''yield_pct'' VFloat (hp_yield_pct p), opt_param ''currency'' VStr (hp_currency p),
      opt_param ''returns'' floats (hp_returns p)])"
| "agent_params (DeleteCall hid) = (''holdings_delete'', [(''holding_id'', VStr hid)])"
| "agent_params (ListCall pid aid) = (''holdings_list'',
     [opt_param ''portfolio_id'' VStr pid, opt_param ''account_id'' VStr aid])"
| "agent_params (DashboardCall pid) = (''dashboard_summary'', [(''portfolio_id'', VStr pid)])"

definition agent_body :: "holding_call \<Rightarrow> params" where
  "agent_body c =
     [(''message'', VDict [(''role'', VStr ''user''), (''parts'', VList [VDict [(''type'', VStr ''data''),
        (''data'', VDict [(''tool'', VStr (fst (agent_params c))), (''params'', VDict (snd (agent_params c)))])]])])]"

fun call_stamp :: "holding_call \<Rightarrow> stamp" where
  "call_stamp (CreateCall st req) = st"
| "call_stamp (UpdateCall now hid p) = ([], now)"
| "call_stamp _ = ([], [])"

definition message_call ::
  "tool_env \<Rightarrow> (string \<Rightarrow> params \<Rightarrow> db \<Rightarrow> (tool_exc + tool_value) \<times> db) \<Rightarrow> string \<Rightarrow> holding_call \<Rightarrow> db \<Rightarrow>
     tool_value a2a_task \<times> db" where
  "message_call env untyped tid c d =
     a2a_message_send (agent_call (env\<lparr>te_stamp := call_stamp c\<rparr>) untyped) tid (agent_body c) d"

text \<open>A message completes with the REST answer's value, or fails where the REST request does.\<close>

fun same_answer :: "rest_exc + tool_value \<Rightarrow> tool_value a2a_task \<Rightarrow> bool" where
  "same_answer (Inr v) t = (ta_state t = ''completed'' \<and> ta_outcome t = Inr v \<and> ta_message t = None)"
| "same_answer (Inl (Status _)) t =
     (ta_state t = ''failed'' \<and> (\<exists>m. ta_outcome t = Inl (ToolMessage m) \<and> ta_message t = Some (ToolMessage m)))"
| "same_answer (Inl Crash) t =
     (ta_state t = ''failed'' \<and> (\<exists>e. ta_outcome t = Inl e \<and> ta_message t = Some e \<and> (\<forall>m. e \<noteq> ToolMessage m)))"

lemma those_floats [simp]: "those (map (as_float \<circ> VFloat) rs) = Some rs"
  by (induction rs) simp_all

lemma arg_Cons [simp]: "arg ((k', v) # ps) k conv dflt = (if k' = k then conv v else arg ps k conv dflt)"
  by (simp add: arg_def dict_get_def)

lemma as_optional_value: "v \<noteq> VNone \<Longrightarrow> as_optional conv v = map_option Some (conv v)"
  by (cases v) simp_all

lemma as_optional_param [simp]:
  assumes "\<And>x. conv (f x) = Some x" and "\<And>x. f x \<noteq> VNone"
  shows "as_optional conv (case v of None \<Rightarrow> VNone | Some x \<Rightarrow> f x) = Some v"
  using assms by (cases v) (simp_all add: as_optional_value)

lemma parse_agent_body: "parse_a2a_tool_call (agent_body c) = Inr (agent_params c)"
  by (cases c) (simp_all add: parse_a2a_tool_call_def agent_body_def dict_get_def)

lemma agent_params_known: "fst (agent_params c) \<in> set TOOL_NAMES"
  by (cases c) (simp_all add: TOOL_NAMES_def TOOL_PARAMS_def)

lemma agent_params_bind: "params_bind (fst (agent_params c)) (snd (agent_params c))"
  by (cases c) (simp_all add: params_bind_def TOOL_PARAMS_def opt_param_def)

lemma holding_create_eta:
  "\<lparr>hc_portfolio_id = hc_portfolio_id r, hc_account_id = hc_account_id r, hc_symbol = hc_symbol r,
    hc_name = hc_name r, hc_asset_class = hc_asset_class r, hc_quantity = hc_quantity r,
    hc_market_value = hc_market_value r, hc_cost_basis = hc_cost_basis r, hc_yield_pct = hc_yield_pct r,
    hc_currency = hc_currency r, hc_returns = hc_returns r\<rparr> = (r :: holding_create)"
  by simp

lemma holding_patch_eta:
  "\<lparr>hp_symbol = hp_symbol p, hp_name = hp_name p, hp_asset_class = hp_asset_class p,
    hp_quantity = hp_quantity p, hp_market_value = hp_market_value p, hp_cost_basis = hp_cost_basis p,
    hp_yield_pct = hp_yield_pct p, hp_currency = hp_currency p, hp_returns = hp_returns p\<rparr> = (p :: holding_patch)"
  by simp

lemma agent_call_tool:
  "agent_call (env\<lparr>te_stamp := call_stamp c\<rparr>) untyped (fst (agent_params c)) (snd (agent_params c)) d =
     tool_call (te_loads env) (te_dumps env) c d"
  by (cases c)
    (simp_all add: agent_call_def TOOL_CALLS_def opt_param_def floats_def or_empty_def
      call_holdings_create_def call_holdings_update_def call_holdings_delete_def
      call_holdings_list_def call_dashboard_summary_def holding_create_eta holding_patch_eta)

lemma run_agent_tool_params:
  "run_agent_tool call (fst (agent_params c)) (snd (agent_params c)) d =
     (case call (fst (agent_params c)) (snd (agent_params c)) d of
        (Inr v, d') \<Rightarrow> (Inr v, d')
      | (Inl e, d') \<Rightarrow> (Inl (case e of ToolTypeError \<Rightarrow> InvalidParameters (fst (agent_params c))
          | ToolFail m \<Rightarrow> ToolMessage m | ToolOther \<Rightarrow> FailedUnexpectedly (fst (agent_params c))), d'))"
  by (simp only: run_agent_tool_def agent_params_known agent_params_bind not_True_eq_False if_False)

lemma same_answer_call:
  assumes "within_limits c"
  shows "same_answer (fst (rest_call (te_loads env) (te_dumps env) c d)) (fst (message_call env untyped tid c d)) \<and>
    snd (rest_call (te_loads env) (te_dumps env) c d) = snd (message_call env untyped tid c d)"
proof -
  obtain r d1 where r: "rest_call (te_loads env) (te_dumps env) c d = (r, d1)" by force
  obtain t d2 where t: "tool_call (te_loads env) (te_dumps env) c d = (t, d2)" by force
  from tools.step [OF assms, of "te_loads env" "te_dumps env" d] r t
  have o: "same_outcome r t" and "d1 = d2" by auto
  have m: "message_call env untyped tid c d =
      (let (outcome, d') = run_agent_tool (agent_call (env\<lparr>te_stamp := call_stamp c\<rparr>) untyped)
         (fst (agent_params c)) (snd (agent_params c)) d
       in (a2a_task_response tid (case outcome of Inr _ \<Rightarrow> ''completed'' | Inl _ \<Rightarrow> ''failed'')
         (fst (agent_params c)) outcome, d'))"
    by (simp add: message_call_def a2a_message_send_def parse_agent_body split_beta Let_def)
  from o show ?thesis unfolding m run_agent_tool_params agent_call_tool r t
    using \<open>d1 = d2\<close>
    by (elim same_outcome.elims(2)) (auto simp: a2a_task_response_def split: tool_exc.splits)
qed

interpretation agent: lockstep within_limits same_answer "rest_call (te_loads env) (te_dumps env)"
  "message_call env untyped tid" for env untyped tid
  by unfold_locales (rule same_answer_call)

text \<open>C1: the REST API and the agent surface are the same application. Run any sequence of create,
  update, delete, list and dashboard calls whose new symbols keep to the length limit of the REST
  body, once as REST requests and once as A2A messages (parsed, dispatched by the tool's name, bound
  to the tool's parameters): the final databases are equal, and the n-th message completes with the
  value that the n-th request answers, fails with a message for the caller where the request has an
  error status, and fails without one where the request ends in an unhandled exception.\<close>

theorem rest_agent_equivalent:
  assumes "list_all within_limits cs"
  shows "list_all2 same_answer (fst (run_calls (rest_call (te_loads env) (te_dumps env)) cs d))
      (fst (run_calls (message_call env untyped tid) cs d)) \<and>
    snd (run_calls (rest_call (te_loads env) (te_dumps env)) cs d) =
      snd (run_calls (message_call env untyped tid) cs d)"
  using assms by (rule agent.runs_agree)

definition sample_tool_env :: tool_env where
  "sample_tool_env =
     \<lparr>te_loads = sample_loads, te_dumps = (\<lambda>_. ''[]''), te_engine = (\<lambda>_. ConnectFailed),
      te_inverse = (\<lambda>_. None), te_numerics = sample_num, te_stamp = ([], [])\<rparr>"

definition sample_calls :: "holding_call list" where
  "sample_calls =
     [CreateCall (''h9'', ''t1'')
        \<lparr>hc_portfolio_id = ''p'', hc_account_id = [], hc_symbol = ''gld'', hc_name = [], hc_asset_class = ''equity'',
         hc_quantity = Fin 1, hc_market_value = Fin 5, hc_cost_basis = Fin 1, hc_yield_pct = Fin 0,
         hc_currency = ''CAD'', hc_returns = []\<rparr>,
      DeleteCall ''h9'', DeleteCall ''h9'', ListCall None None]"

lemma rest_agent_equivalent_witness:
  "list_all2 same_answer
      (fst (run_calls (rest_call (te_loads sample_tool_env) (te_dumps sample_tool_env)) sample_calls sample_db))
      (fst (run_calls (message_call sample_tool_env (\<lambda>_ _ d. (Inl ToolOther, d)) ''t'') sample_calls sample_db)) \<and>
    length (fst (run_calls (rest_call (te_loads sample_tool_env) (te_dumps sample_tool_env)) sample_calls sample_db)) = 4"
proof -
  have "list_all within_limits sample_calls" by (simp add: sample_calls_def length_ok_def)
  from rest_agent_equivalent [OF this, where env = sample_tool_env and d = sample_db and tid = "''t''"
      and untyped = "\<lambda>_ _ d. (Inl ToolOther, d)"]
  show ?thesis by (simp add: sample_calls_def split_beta)
qed

section \<open>Updates\<close>

text \<open>The holding an update means to store: the given fields replaced, the symbol in upper case.\<close>

definition patched :: "(pyval \<Rightarrow> string) \<Rightarrow> holding_patch \<Rightarrow> string \<Rightarrow> holding \<Rightarrow> holding" where
  "patched dumps p now h =
     \<lparr>h_id = h_id h, h_portfolio_id = h_portfolio_id h, h_account_id = h_account_id h,
      h_symbol = (case hp_symbol p of Some s \<Rightarrow> upper s | None \<Rightarrow> h_symbol h),
      h_name = (case hp_name p of Some s \<Rightarrow> s | None \<Rightarrow> h_name h),
      h_asset_class = (case hp_asset_class p of Some s \<Rightarrow> s | None \<Rightarrow> h_asset_class h),
      h_quantity = (case hp_quantity p of Some v \<Rightarrow> v | None \<Rightarrow> h_quantity h),
      h_market_value = (case hp_market_value p of Some v \<Rightarrow> v | None \<Rightarrow> h_market_value h),
      h_cost_basis = (case hp_cost_basis p of Some v \<Rightarrow> v | None \<Rightarrow> h_cost_basis h),
      h_weight = h_weight h,
      h_yield_pct = (case hp_yield_pct p of Some v \<Rightarrow> v | None \<Rightarrow> h_yield_pct h),
      h_currency = (case hp_currency p of Some s \<Rightarrow> s | None \<Rightarrow> h_currency h),
      h_returns_json = (case hp_returns p of Some rs \<Rightarrow> dumps (VList (map VFloat rs)) | None \<Rightarrow> h_returns_json h),
      h_created_at = h_created_at h, h_updated_at = now\<rparr>"

lemma set_if_rec:
  "set_if v (\<lambda>x h. h\<lparr>h_symbol := f x\<rparr>) h = h\<lparr>h_symbol := (case v of None \<Rightarrow> h_symbol h | Some x \<Rightarrow> f x)\<rparr>"
  "set_if v (\<lambda>x h. h\<lparr>h_name := f x\<rparr>) h = h\<lparr>h_name := (case v of None \<Rightarrow> h_name h | Some x \<Rightarrow> f x)\<rparr>"
  "set_if v (\<lambda>x h. h\<lparr>h_asset_class := f x\<rparr>) h = h\<lparr>h_asset_class := (case v of None \<Rightarrow> h_asset_class h | Some x \<Rightarrow> f x)\<rparr>"
  "set_if u (\<lambda>x h. h\<lparr>h_quantity := x\<rparr>) h = h\<lparr>h_quantity := (case u of None \<Rightarrow> h_quantity h | Some x \<Rightarrow> x)\<rparr>"
  "set_if u (\<lambda>x h. h\<lparr>h_market_value := x\<rparr>) h = h\<lparr>h_market_value := (case u of None \<Rightarrow> h_market_value h | Some x \<Rightarrow> x)\<rparr>"
  "set_if u (\<lambda>x h. h\<lparr>h_cost_basis := x\<rparr>) h = h\<lparr>h_cost_basis := (case u of None \<Rightarrow> h_cost_basis h | Some x \<Rightarrow> x)\<rparr>"
  "set_if u (\<lambda>x h. h\<lparr>h_yield_pct := x\<rparr>) h = h\<lparr>h_yield_pct := (case u of None \<Rightarrow> h_yield_pct h | Some x \<Rightarrow> x)\<rparr>"
  "set_if v (\<lambda>x h. h\<lparr>h_currency := f x\<rparr>) h = h\<lparr>h_currency := (case v of None \<Rightarrow> h_currency h | Some x \<Rightarrow> f x)\<rparr>"
  "set_if w (\<lambda>x h. h\<lparr>h_returns_json := g x\<rparr>) h = h\<lparr>h_returns_json := (case w of None \<Rightarrow> h_returns_json h | Some x \<Rightarrow> g x)\<rparr>"
  by (simp_all add: set_if_def split: option.splits)

lemma apply_patch_patched: "(apply_patch dumps p h)\<lparr>h_updated_at := now\<rparr> = patched dumps p now h"
  by (simp add: apply_patch_def set_if_rec patched_def json_floats_def cong: option.case_cong)

lemma apply_patch_id [simp]: "h_id (apply_patch dumps p h) = h_id h"
  by (simp add: apply_patch_def set_if_rec)

lemma validate_updated [simp]: "validate_holding loads (h\<lparr>h_updated_at := t\<rparr>) = validate_holding loads h"
  by (simp add: validate_holding_def)

lemma validate_error: "validate_holding loads h = Inl e \<Longrightarrow> \<exists>m. e = ValidationErr m"
  by (auto simp: validate_holding_def split: if_splits option.splits pyval.splits)

lemma row_of_patched:
  assumes "row_ok loads r"
  shows "set_columns (patched dumps p now (of_row r)) r = to_row (patched dumps p now (of_row r))"
  using assms by (auto simp: set_columns_def to_row_def patched_def of_row_def row_ok_def split: option.splits)

text \<open>C22: what a holding update does, in every case. An unknown identifier is answered with 404, a
  patched holding that is not valid with 400, and a NaN ends in an unhandled error, all without any
  change; otherwise the row of the identifier becomes exactly the old holding with the given fields
  replaced and the update time set, and no other row and no other table changes.\<close>

theorem holding_update_effect:
  assumes "db_wf loads d"
  shows "rest_update_holding loads dumps now hid p d =
    (case tbl_lookup h_id (holdings d) hid of
       None \<Rightarrow> (Inl (Status 404), d)
     | Some r \<Rightarrow>
         let h = patched dumps p now (of_row r)
         in if validate_holding loads h \<noteq> Inr () then (Inl (Status 400), d)
            else if has_nan h then (Inl Crash, d)
            else (Inr hid, d\<lparr>holdings := map (\<lambda>x. if x = r then to_row h else x) (holdings d)\<rparr>))"
proof (cases "tbl_lookup h_id (holdings d) hid")
  case None
  then show ?thesis by (simp add: rest_update_holding_def get_holding_by_id_def)
next
  case (Some r)
  then have id: "h_id r = hid" and mem: "r \<in> set (holdings d)"
    using assms by (auto simp: db_wf_def tbl_lookup_row)
  then have ok: "row_ok loads r" using assms by (auto simp: db_wf_def list_all_iff)
  let ?h = "patched dumps p now (of_row r)"
  have same: "x = r" if "x \<in> set (holdings d)" "h_id x = hid" for x
    using that mem id assms by (auto simp: db_wf_def tbl_wf_def distinct_map inj_on_def)
  have upd: "tbl_update h_id hid (set_columns ?h) (holdings d) = map (\<lambda>x. if x = r then to_row ?h else x) (holdings d)"
    unfolding tbl_update_def
  proof (rule map_cong [OF refl])
    fix x assume "x \<in> set (holdings d)"
    then have "h_id x = hid \<longleftrightarrow> x = r" using same id by blast
    then show "(if h_id x = hid then set_columns ?h x else x) = (if x = r then to_row ?h else x)"
      by (simp add: row_of_patched [OF ok])
  qed
  have v: "validate_holding loads (apply_patch dumps p (of_row r)) = validate_holding loads ?h"
    and n: "has_nan (apply_patch dumps p (of_row r)) = has_nan ?h"
    by (simp_all flip: apply_patch_patched)
  have step: "rest_update_holding loads dumps now hid p d =
      answer (\<lambda>_. hid) (update_holding loads now (apply_patch dumps p (of_row r)) d)"
    by (simp add: rest_update_holding_def get_holding_by_id_def Some)
  have upd_id: "h_id ?h = hid" "hid \<in> h_id ` set (holdings d)"
    using id mem by (auto simp: patched_def)
  show ?thesis
  proof (cases "validate_holding loads ?h")
    case (Inl e)
    from validate_error [OF Inl] obtain m where "e = ValidationErr m" ..
    with Inl show ?thesis
      by (simp add: Some step update_holding_eq v answer_def Let_def)
  next
    case (Inr u)
    then show ?thesis unfolding step
      by (simp add: Some update_holding_eq v answer_def apply_patch_patched upd_id upd id Let_def)
  qed
qed

lemma holding_update_effect_witness:
  "fst (rest_update_holding sample_loads (\<lambda>_. []) ''t1'' ''h1''
     \<lparr>hp_symbol = None, hp_name = None, hp_asset_class = None, hp_quantity = Some (Fin 2), hp_market_value = None,
      hp_cost_basis = None, hp_yield_pct = None, hp_currency = None, hp_returns = None\<rparr> sample_db) = Inr ''h1''"
proof -
  have "blank ''XIU'' = False" by (simp add: blank_iff is_ws_def code_of_def)
  then show ?thesis
    by (subst holding_update_effect [OF sample_db_wf])
      (simp add: sample_db_def tbl_lookup_def sample_holding_def sample_loads_def Let_def validate_holding_def
        patched_def of_row_def to_row_def has_nan_def)
qed

text \<open>A new holding of a portfolio that does not exist is not answered with an error status: the
  violated foreign key is not an error of the module and escapes.\<close>

lemma create_holding_unknown_portfolio:
  assumes "validate_holding loads (holding_of dumps st req) = Inr ()" and "length_ok 1 20 (hc_symbol req)"
    and "hc_portfolio_id req \<notin> pf_id ` set (portfolios d)"
  shows "rest_create_holding loads dumps st req d = (Inl Crash, d)"
  using assms
  by (simp add: rest_create_holding_def insert_holding_eq fk_ok_def to_row_def
      holding_of_def answer_def)

section \<open>Agent messages\<close>

text \<open>The call a message asks for: its first data part that names a tool, if that part's parameters
  are an object.\<close>

definition part_call :: "pyval \<Rightarrow> (string \<times> pyval) option" where
  "part_call part = Option.bind (as_dict part) (\<lambda>p.
     if dict_get p ''type'' = Some (VStr ''data'')
     then Option.bind (Option.bind (dict_get p ''data'') as_dict) (\<lambda>data.
       map_option (\<lambda>tool. (tool, case dict_get data ''params'' of None \<Rightarrow> VDict [] | Some v \<Rightarrow> v))
         (tool_string (dict_get data ''tool'')))
     else None)"

definition requested_call :: "params \<Rightarrow> (string \<times> params) option" where
  "requested_call body =
     Option.bind (Option.bind (dict_get body ''message'') as_dict) (\<lambda>msg.
     Option.bind (Option.bind (dict_get msg ''parts'') (as_list Some)) (\<lambda>parts.
       case List.map_filter part_call parts of
         [] \<Rightarrow> None
       | (tool, v) # _ \<Rightarrow> map_option (Pair tool) (as_dict v)))"

lemma those_Some [simp]: "those (map Some xs) = Some xs"
  by (induction xs) simp_all

lemma parse_parts_first:
  "parse_message_parts parts =
     (case List.map_filter part_call parts of
        [] \<Rightarrow> Inl NoDataPart
      | (tool, v) # _ \<Rightarrow> (case as_dict v of None \<Rightarrow> Inl ParamsNotObject | Some ps \<Rightarrow> Inr (tool, ps)))"
proof (induction parts)
  case (Cons part rest)
  then show ?case
    by (auto simp: part_call_def List.map_filter_simps bind_eq_None_conv split: option.splits
        bind_splits)
qed (simp add: List.map_filter_simps)

lemma parse_requested:
  "(case parse_a2a_tool_call body of Inr c \<Rightarrow> Some c | Inl _ \<Rightarrow> None) = requested_call body"
proof (cases "Option.bind (dict_get body ''message'') as_dict")
  case (Some msg)
  show ?thesis
  proof (cases "dict_get msg ''parts''")
    case (Some v)
    then show ?thesis
      using \<open>Option.bind (dict_get body ''message'') as_dict = Some msg\<close>
      by (cases v)
        (auto simp: parse_a2a_tool_call_def requested_call_def parse_parts_first List.map_filter_simps
          simp del: parse_message_parts.simps split: list.splits option.splits)
  qed (use Some in \<open>simp add: parse_a2a_tool_call_def requested_call_def\<close>)
qed (simp add: parse_a2a_tool_call_def requested_call_def)

text \<open>A failed call of a tool at its declared types leaves the database as it was.\<close>

lemma failed_unchanged:
  "fst (insert_holding loads h d) = Inl e \<Longrightarrow> snd (insert_holding loads h d) = d"
  "fst (update_holding loads now h d) = Inl e \<Longrightarrow> snd (update_holding loads now h d) = d"
  "fst (delete_holding hid d) = Inl e \<Longrightarrow> snd (delete_holding hid d) = d"
  "fst (insert_journal_entry dumps x d) = Inl e \<Longrightarrow> snd (insert_journal_entry dumps x d) = d"
  by (auto simp: insert_holding_def update_holding_def delete_holding_def insert_journal_entry_def Let_def
      dest: transaction_failed_snd split: sum.splits)

definition keeps_on_failure :: "(db \<Rightarrow> ('e + 'a) \<times> db) \<Rightarrow> bool" where
  "keeps_on_failure f = (\<forall>d e. fst (f d) = Inl e \<longrightarrow> snd (f d) = d)"

lemma keeps_query: "keeps_on_failure (\<lambda>d. returned w (q d, d))"
  by (simp add: keeps_on_failure_def returned_def)

lemma keeps_returned: "keeps_on_failure f \<Longrightarrow> keeps_on_failure (\<lambda>d. returned w (f d))"
  by (auto simp: keeps_on_failure_def returned_def split: sum.splits)

lemma keeps_tool_answer:
  "(\<And>d e. fst (f d) = Inl e \<Longrightarrow> snd (f d) = d) \<Longrightarrow> keeps_on_failure (\<lambda>d. tool_answer w (f d))"
  by (auto simp: keeps_on_failure_def tool_answer_def split: sum.splits)

lemma keeps_create: "keeps_on_failure (tool_holdings_create loads dumps st req)"
  unfolding tool_holdings_create_def by (rule keeps_tool_answer) (rule failed_unchanged)

lemma keeps_update: "keeps_on_failure (tool_holdings_update loads dumps now hid p)"
  by (auto simp: keeps_on_failure_def tool_holdings_update_def tool_answer_def
      dest: failed_unchanged split: sum.splits)

lemma keeps_delete: "keeps_on_failure (tool_holdings_delete hid)"
  using failed_unchanged(3)
  by (auto simp: keeps_on_failure_def tool_holdings_delete_def split: sum.splits prod.splits) (metis fst_conv snd_conv)+

lemma keeps_log: "keeps_on_failure (tool_journal_log dumps x)"
  by (auto simp: keeps_on_failure_def tool_journal_log_def tool_answer_def
      dest: failed_unchanged split: sum.splits if_splits)

lemma keeps_agent_call:
  assumes "\<And>tool ps. keeps_on_failure (untyped tool ps)"
  shows "keeps_on_failure (agent_call env untyped tool ps)"
proof (cases "Option.bind (map_of TOOL_CALLS tool) (\<lambda>f. f env ps)")
  case None
  with assms show ?thesis
    by (auto simp: agent_call_def keeps_on_failure_def split: option.splits)
next
  case (Some c)
  then obtain f where f: "map_of TOOL_CALLS tool = Some f" and c: "f env ps = Some c"
    by (auto simp: bind_eq_Some_conv)
  from f have "f \<in> set (map snd TOOL_CALLS)" by (force dest: map_of_SomeD)
  then have "keeps_on_failure c" using c
    by (auto simp: TOOL_CALLS_def call_compute_risk_def call_monte_carlo_def call_stress_test_def
        call_factor_decompose_def call_optimize_portfolio_def call_brinson_attribution_def
        call_journal_log_def call_holdings_create_def call_holdings_list_def call_holdings_update_def
        call_holdings_delete_def call_dashboard_summary_def bind_eq_Some_conv
        intro!: keeps_query keeps_returned keeps_create keeps_update keeps_delete keeps_log)
  with Some show ?thesis by (simp add: agent_call_def keeps_on_failure_def)
qed

text \<open>A market value that is a text reaches the comparison with 0 and is reported as a wrong parameter; an
  identifier that SQLite cannot bind ends in the message for unexpected failures. Both change nothing.\<close>

lemma text_market_value_refused:
  assumes "pid \<noteq> []" and "\<not> blank (upper s)"
  shows "run_agent_tool (agent_call env untyped) ''holdings_create''
      [(''portfolio_id'', VStr pid), (''symbol'', VStr s), (''market_value'', VStr v)] d =
    (Inl (InvalidParameters ''holdings_create''), d)"
  using assms
  by (simp add: run_agent_tool_def TOOL_NAMES_def params_bind_def TOOL_PARAMS_def agent_call_def
      TOOL_CALLS_def call_holdings_create_def mistyped_error_def create_error_def given_def
      dict_get_def checked_holding_def raises_if_def Let_def)

lemma unbindable_id_refused:
  "run_agent_tool (agent_call env untyped) ''holdings_delete'' [(''holding_id'', VList vs)] d =
    (Inl (FailedUnexpectedly ''holdings_delete''), d)"
  by (simp add: run_agent_tool_def TOOL_NAMES_def params_bind_def TOOL_PARAMS_def agent_call_def
      TOOL_CALLS_def call_holdings_delete_def mistyped_error_def given_def dict_get_def raises_if_def
      unbindable_def)

lemma run_agent_tool_cases:
  assumes "keeps_on_failure (call tool ps)"
  shows "(\<exists>v d'. run_agent_tool call tool ps d = (Inr v, d') \<and> tool \<in> set TOOL_NAMES \<and> params_bind tool ps \<and>
      call tool ps d = (Inr v, d')) \<or>
    (\<exists>e. run_agent_tool call tool ps d = (Inl e, d) \<and>
      \<not> (tool \<in> set TOOL_NAMES \<and> params_bind tool ps \<and> (\<exists>v d'. call tool ps d = (Inr v, d'))))"
proof (cases "tool \<in> set TOOL_NAMES \<and> params_bind tool ps")
  case True
  obtain r d' where r: "call tool ps d = (r, d')" by force
  show ?thesis
  proof (cases r)
    case (Inl e)
    with assms r have "d' = d" by (auto simp: keeps_on_failure_def dest: spec [of _ d])
    with True r Inl show ?thesis by (simp add: run_agent_tool_def)
  qed (use True r in \<open>simp add: run_agent_tool_def\<close>)
qed (auto simp: run_agent_tool_def)

text \<open>C23: the outcome of an agent message. Its task completes, with the tool's value, exactly when the
  message's first usable part names a known tool with parameters that bind to it and the tool
  succeeds; any other message, however malformed, yields a failed task that carries its error, and
  leaves the database as it was. (The tools never change anything when they fail, also when they fail
  on an argument of another type; the hypothesis asks the same of the calls whose arguments a package
  converts.)\<close>

theorem agent_message_outcome:
  assumes "\<And>tool ps. keeps_on_failure (untyped tool ps)"
    and "a2a_message_send (agent_call env untyped) tid body d = (task, d')"
  shows "ta_id task = tid \<and>
    (case ta_outcome task of
       Inr v \<Rightarrow> ta_state task = ''completed'' \<and> ta_message task = None \<and>
         (\<exists>ps. requested_call body = Some (ta_artifact task, ps) \<and> ta_artifact task \<in> set TOOL_NAMES \<and>
           params_bind (ta_artifact task) ps \<and> agent_call env untyped (ta_artifact task) ps d = (Inr v, d'))
     | Inl e \<Rightarrow> ta_state task = ''failed'' \<and> ta_message task = Some e \<and> d' = d \<and>
         \<not> (\<exists>tool ps v d'. requested_call body = Some (tool, ps) \<and> tool \<in> set TOOL_NAMES \<and>
             params_bind tool ps \<and> agent_call env untyped tool ps d = (Inr v, d')))"
proof (cases "parse_a2a_tool_call body")
  case (Inl e)
  then have "requested_call body = None" by (simp flip: parse_requested)
  with Inl assms(2) show ?thesis by (auto simp: a2a_message_send_def a2a_task_response_def)
next
  case (Inr c)
  obtain tool ps where c: "c = (tool, ps)" by force
  with Inr have req: "requested_call body = Some (tool, ps)" by (simp flip: parse_requested)
  have "keeps_on_failure (agent_call env untyped tool ps)" by (rule keeps_agent_call [OF assms(1)])
  from run_agent_tool_cases [where call = "agent_call env untyped", OF this, of d]
  show ?thesis
    using assms(2) by (auto simp: a2a_message_send_def Inr c req a2a_task_response_def)
qed

lemma agent_message_outcome_witness:
  "snd (a2a_message_send (agent_call sample_tool_env (\<lambda>_ _ d. (Inl ToolOther, d))) ''t'' [(''message'', VNone)] sample_db) =
     sample_db"
proof -
  let ?u = "\<lambda>(_ :: string) (_ :: params) d. (Inl ToolOther :: tool_exc + tool_value, d :: db)"
  have u: "keeps_on_failure (?u tool ps)" for tool ps by (simp add: keeps_on_failure_def)
  obtain task d' where t: "a2a_message_send (agent_call sample_tool_env ?u) ''t'' [(''message'', VNone)] sample_db = (task, d')"
    by force
  have "requested_call [(''message'', VNone)] = None" by (simp add: requested_call_def dict_get_def)
  with agent_message_outcome [OF u t] t show ?thesis by (auto split: sum.splits)
qed

section \<open>The dashboard\<close>

abbreviation value_of :: "holding \<Rightarrow> real" where
  "value_of h \<equiv> the_fin (h_market_value h)"

definition class_value :: "holding list \<Rightarrow> string \<Rightarrow> real" where
  "class_value hs c = (\<Sum>h\<leftarrow>filter (\<lambda>h. h_asset_class h = c) hs. value_of h)"

lemma allocation_snoc: "allocation_of (hs @ [h]) = add_allocation (allocation_of hs) h"
  by (simp add: allocation_of_def)

lemma allocation_lookup:
  "\<forall>h \<in> set hs. is_finite (h_market_value h) \<Longrightarrow>
   map_of (allocation_of hs) c = (if c \<in> h_asset_class ` set hs then Some (Fin (class_value hs c)) else None)"
proof (induction hs rule: rev_induct)
  case (snoc h hs)
  from snoc.prems obtain v where v: "h_market_value h = Fin v" by (auto simp: is_finite_iff)
  have zero: "class_value hs c = 0" if "c \<notin> h_asset_class ` set hs"
    using that by (auto simp: class_value_def filter_empty_conv intro!: arg_cong [of _ "[]" "\<lambda>xs. sum_list (map value_of xs)", simplified])
  show ?case
  proof (cases "h_asset_class h = c")
    case True
    with snoc v zero show ?thesis
      by (auto simp: allocation_snoc add_allocation_def dict_get_def class_value_def)
  qed (use snoc in \<open>simp add: allocation_snoc add_allocation_def class_value_def\<close>)
qed (simp add: allocation_of_def)

lemma allocation_distinct: "distinct (map fst (allocation_of hs))"
  by (induction hs rule: rev_induct)
    (simp_all add: allocation_of_def add_allocation_def distinct_dict_set)

lemma mset_insert_by_value [simp]: "mset (insert_by_value h hs) = add_mset h (mset hs)"
  by (induction hs) simp_all

lemma set_insert_by_value [simp]: "set (insert_by_value h hs) = insert h (set hs)"
  by (induction hs) auto

lemma by_value_snoc: "by_value (hs @ [h]) = insert_by_value h (by_value hs)"
  by (simp add: by_value_def)

lemma mset_by_value [simp]: "mset (by_value hs) = mset hs"
  by (induction hs rule: rev_induct) (simp_all add: by_value_snoc, simp add: by_value_def)

lemma sorted_insert_by_value:
  assumes "\<forall>x \<in> insert h (set hs). is_finite (h_market_value x)" and "sorted (map (\<lambda>x. - value_of x) hs)"
  shows "sorted (map (\<lambda>x. - value_of x) (insert_by_value h hs))"
  using assms by (induction hs) (auto simp: is_finite_iff)

lemma filter_insert_by_value:
  assumes "\<forall>x \<in> insert h (set hs). is_finite (h_market_value x)" and "sorted (map (\<lambda>x. - value_of x) hs)"
  shows "filter (\<lambda>x. v = - value_of x) (insert_by_value h hs) =
    filter (\<lambda>x. v = - value_of x) hs @ (if v = - value_of h then [h] else [])"
  using assms
proof (induction hs)
  case (Cons x xs)
  show ?case
  proof (cases "value_of x < value_of h")
    case True
    with Cons.prems(2) have "\<forall>y \<in> set (x # xs). value_of y < value_of h" by auto
    then have "filter (\<lambda>y. - value_of h = - value_of y) (x # xs) = []" by (force simp: filter_empty_conv)
    with True Cons.prems(1) show ?thesis by (auto simp: is_finite_iff)
  next
    case False
    with Cons show ?thesis by (auto simp: is_finite_iff)
  qed
qed simp

lemma by_value_sorted:
  assumes "\<forall>h \<in> set hs. is_finite (h_market_value h)"
  shows "by_value hs = sort_key (\<lambda>h. - value_of h) hs"
proof -
  have "sorted (map (\<lambda>h. - value_of h) (by_value hs)) \<and>
      (\<forall>v. filter (\<lambda>x. v = - value_of x) (by_value hs) = filter (\<lambda>x. v = - value_of x) hs)"
    using assms
  proof (induction hs rule: rev_induct)
    case (snoc h hs)
    have fin: "\<forall>x \<in> insert h (set (by_value hs)). is_finite (h_market_value x)"
      using snoc.prems mset_by_value [of hs] by (auto simp del: mset_by_value dest!: mset_eq_setD)
    with snoc show ?case
      by (simp add: by_value_snoc sorted_insert_by_value filter_insert_by_value)
  qed (simp add: by_value_def)
  then have sorted: "sorted (map (\<lambda>h. - value_of h) (by_value hs))"
    and stable: "filter (\<lambda>x. v = - value_of x) (by_value hs) = filter (\<lambda>x. v = - value_of x) hs" for v
    by simp_all
  show ?thesis
    by (rule properties_for_sort_key [symmetric]) (use sorted stable [of "- value_of k" for k] in simp_all)
qed

text \<open>A value's share of the (rounded) total in per cent, rounded to two decimals.\<close>

definition pct_of :: "real \<Rightarrow> real \<Rightarrow> pyfloat" where
  "pct_of v tot = Fin (if 0 < tot then py_round (v / tot * 100) 2 else 0)"

definition top_row :: "real \<Rightarrow> holding \<Rightarrow> top_holding" where
  "top_row tot h =
     \<lparr>th_symbol = h_symbol h, th_name = h_name h, th_market_value = Fin (py_round (value_of h) 2),
      th_weight_pct = pct_of (value_of h) tot, th_yield_pct = h_yield_pct h,
      th_unrealized_pnl = fl_round (fl_sub (h_market_value h) (h_cost_basis h)) 2\<rparr>"

lemma share_pct_Fin:
  "share_pct (Fin v) (Fin tot) = Inr (Fin (if 0 < tot then v / tot * 100 else 0))"
  by (simp add: share_pct_def)

lemma traverse_top_view:
  "\<forall>h \<in> set hs. is_finite (h_market_value h) \<Longrightarrow>
   traverse (top_view (Fin tot)) hs = Inr (map (top_row tot) hs)"
  by (induction hs) (auto simp: top_view_def top_row_def pct_of_def is_finite_iff share_pct_Fin)

lemma traverse_shares:
  "\<forall>(k, v) \<in> set xs. is_finite v \<Longrightarrow>
   traverse (\<lambda>(k, v). rbind (share_pct v (Fin tot)) (\<lambda>w. Inr (k, fl_round w 2))) xs =
     Inr (map (\<lambda>(k, v). (k, pct_of (the_fin v) tot)) xs)"
  by (induction xs) (auto simp: pct_of_def is_finite_iff share_pct_Fin)

lemma map_of_map_snd: "map_of (map (\<lambda>(k, v). (k, f v)) xs) c = map_option f (map_of xs c)"
  by (induction xs) auto


lemma sql_sum_map_Fin:
  "list_all is_finite (map f xs) \<Longrightarrow> sql_sum (map f xs) = Fin (\<Sum>x\<leftarrow>xs. the_fin (f x))"
  by (simp only: sql_sum_def fl_sum_map_Fin) simp

lemma map_fst_map_snd [simp]: "map (fst \<circ> (\<lambda>(k, v). (k, f v))) xs = map fst xs"
  by (induction xs) auto

text \<open>C33: the dashboard of a portfolio whose values are finite accounts for every holding, and never
  raises: its allocation has one entry for each asset class held, the share of the class's holdings
  in the total; its top list is the ten holdings of the highest value, highest first, equal values in
  the order of their symbols; its count is the number of holdings.\<close>

theorem dashboard_accounts_for_holdings:
  assumes "pid \<noteq> []"
    and fin: "\<forall>r \<in> set (holdings d). is_finite (h_market_value r) \<and> is_finite (h_cost_basis r)"
  shows "\<exists>da. dashboard_summary pid d = Inr da \<and>
    (let hs = get_holdings (Some pid) None d; tot = py_round (\<Sum>h\<leftarrow>hs. value_of h) 2
     in da_holding_count da = length hs \<and>
        distinct (map fst (da_allocation da)) \<and>
        map_of (da_allocation da) = (\<lambda>c. if c \<in> h_asset_class ` set hs then Some (pct_of (class_value hs c) tot) else None) \<and>
        da_top_holdings da = map (top_row tot) (take 10 (sort_key (\<lambda>h. - value_of h) hs)))"
proof -
  let ?hs = "get_holdings (Some pid) None d"
  let ?rows = "filter (\<lambda>r. h_portfolio_id r = pid) (holdings d)"
  have hs: "?hs = map of_row (sort_key h_symbol ?rows)"
    using assms(1) by (cases pid) (simp_all add: get_holdings_def filter_ok_def eq_commute)
  have fhs: "\<forall>h \<in> set ?hs. is_finite (h_market_value h)" using fin by (auto simp: hs)
  have mset: "mset (map value_of ?hs) = mset (map (\<lambda>r. the_fin (h_market_value r)) ?rows)"
    by (simp add: hs comp_def)
  have sums: "(\<Sum>r\<leftarrow>?rows. the_fin (h_market_value r)) = (\<Sum>h\<leftarrow>?hs. value_of h)"
    using mset by (simp only: flip: sum_mset_sum_list)
  have mkt: "sql_sum (map h_market_value ?rows) = Fin (\<Sum>h\<leftarrow>?hs. value_of h)"
    unfolding sums [symmetric] by (rule sql_sum_map_Fin) (use fin in \<open>simp add: list_all_iff\<close>)
  have cost: "sql_sum (map h_cost_basis ?rows) = Fin (\<Sum>r\<leftarrow>?rows. the_fin (h_cost_basis r))"
    by (rule sql_sum_map_Fin) (use fin in \<open>simp add: list_all_iff\<close>)
  obtain s where s: "get_portfolio_summary pid d = Inr s"
    and tot: "ps_total_market_value s = Fin (py_round (\<Sum>h\<leftarrow>?hs. value_of h) 2)"
    by (cases "0 < (\<Sum>r\<leftarrow>?rows. the_fin (h_cost_basis r))")
      (simp_all add: get_portfolio_summary_def mkt cost Let_def fl_sub_def)
  let ?tot = "py_round (\<Sum>h\<leftarrow>?hs. value_of h) 2"
  have alloc: "\<forall>(k, v) \<in> set (allocation_of ?hs). is_finite v"
  proof clarify
    fix k v assume "(k, v) \<in> set (allocation_of ?hs)"
    with allocation_distinct have "map_of (allocation_of ?hs) k = Some v" by (rule map_of_is_SomeI)
    then show "is_finite v" by (auto simp: allocation_lookup [OF fhs] split: if_splits)
  qed
  have top: "\<forall>h \<in> set (take 10 (by_value ?hs)). is_finite (h_market_value h)"
    using fhs by (auto simp: by_value_sorted dest: in_set_takeD)
  have "dashboard_summary pid d =
      Inr \<lparr>da_summary = s,
           da_allocation = map (\<lambda>(k, v). (k, pct_of (the_fin v) ?tot)) (allocation_of ?hs),
           da_top_holdings = map (top_row ?tot) (take 10 (by_value ?hs)), da_holding_count = length ?hs\<rparr>"
    by (simp add: dashboard_summary_def s tot Let_def traverse_shares [OF alloc] traverse_top_view [OF top])
  then show ?thesis
    by (simp add: Let_def allocation_distinct map_of_map_snd allocation_lookup [OF fhs] by_value_sorted [OF fhs] fun_eq_iff)
qed

lemma dashboard_accounts_for_holdings_witness:
  "\<exists>da. dashboard_summary ''p'' sample_db = Inr da \<and> da_holding_count da = 2"
proof -
  have "\<forall>r \<in> set (holdings sample_db). is_finite (h_market_value r) \<and> is_finite (h_cost_basis r)"
    by (simp add: sample_db_def to_row_def sample_holding_def)
  from dashboard_accounts_for_holdings [OF _ this, of "''p''"]
  obtain da where "dashboard_summary ''p'' sample_db = Inr da"
    and "da_holding_count da = length (get_holdings (Some ''p'') None sample_db)" by (auto simp: Let_def)
  then show ?thesis
    by (simp add: get_holdings_def sample_db_def to_row_def sample_holding_def filter_ok_def)
qed

end
