(* ===== verification/Service.thy ===== *)
theory Service
  imports Agent Auth
begin

text \<open>
  The life cycle and the static surfaces of \<^verbatim>\<open>analytics/pae/server.py\<close>: start-up with the agent token and
  the default portfolio, the configured origins, the health check, the discovery documents behind the
  agent token, and the choice of file paths. The environment, the fresh token and the stamp of the
  default portfolio are arguments, as in Auth and Endpoints.
\<close>

section \<open>Configuration\<close>

definition env_default :: "env \<Rightarrow> string \<Rightarrow> string \<Rightarrow> string" where
  "env_default env k v = (case env k of None \<Rightarrow> v | Some x \<Rightarrow> x)"

definition DB_PATH :: "env \<Rightarrow> string" where "DB_PATH env = env_default env ''PAE_DB_PATH'' ''data/pae.db''"
definition RUST_ENGINE_URL :: "env \<Rightarrow> string" where
  "RUST_ENGINE_URL env = env_default env ''PAE_ENGINE_URL'' ''http://localhost:3001''"

definition cors_origins :: "env \<Rightarrow> string list" where
  "cors_origins env =
     filter (\<lambda>x. x \<noteq> []) (map strip (split_on CHR '','' (env_default env ''PAE_CORS_ORIGINS''
       ''http://localhost:8000,http://127.0.0.1:8000,http://localhost,http://127.0.0.1'')))"

section \<open>Start-up\<close>

text \<open>
  The global database object of the server, None until the start; the stored tables, which outlive it;
  and the files that hold the agent token.
\<close>

record service =
  sv_up :: bool
  sv_db :: db
  sv_files :: files

definition default_portfolio :: "stamp \<Rightarrow> portfolio" where
  "default_portfolio st =
     \<lparr>pf_id = fst st, pf_name = ''Default'', pf_description = [], pf_created_at = snd st, pf_updated_at = snd st\<rparr>"

text \<open>\<open>lifespan\<close> up to the \<open>yield\<close>.\<close>

definition start_service :: "env \<Rightarrow> string \<Rightarrow> stamp \<Rightarrow> service \<Rightarrow> (db_exc + unit) \<times> service" where
  "start_service env fresh st s =
     (let d = initialize (sv_db s);
          fs = snd (get_or_create_agent_token env fresh (sv_files s));
          (r, d') = (if get_portfolios d = []
                     then (case insert_portfolio (default_portfolio st) d of
                             (Inl e, d1) \<Rightarrow> (Inl e, d1) | (Inr _, d1) \<Rightarrow> (Inr (), d1))
                     else (Inr (), d))
      in (r, \<lparr>sv_up = True, sv_db = d', sv_files = fs\<rparr>))"

section \<open>Handlers\<close>

definition get_db :: "service \<Rightarrow> rest_exc + db" where
  "get_db s = (if sv_up s then Inr (sv_db s) else Inl (Status 503))"

record service_report =
  sr_status :: string
  sr_service :: string
  sr_db_path :: string
  sr_portfolios :: nat

definition health :: "env \<Rightarrow> service \<Rightarrow> rest_exc + service_report" where
  "health env s =
     rbind (get_db s) (\<lambda>d. Inr \<lparr>sr_status = ''ok'', sr_service = ''pae-python'', sr_db_path = DB_PATH env,
       sr_portfolios = length (get_portfolios d)\<rparr>)"

text \<open>A route that depends on the agent token.\<close>

definition with_agent_token ::
  "env \<Rightarrow> string \<Rightarrow> string option \<Rightarrow> (service \<Rightarrow> rest_exc + 'a) \<Rightarrow> service \<Rightarrow> (rest_exc + 'a) \<times> service" where
  "with_agent_token env fresh authorization route s =
     (case require_agent_token env fresh (sv_files s) authorization of
        (Pass, fs) \<Rightarrow> (route s, s\<lparr>sv_files := fs\<rparr>)
      | (Unauthorized, fs) \<Rightarrow> (Inl (Status 401), s\<lparr>sv_files := fs\<rparr>)
      | (Raise _, fs) \<Rightarrow> (Inl Crash, s\<lparr>sv_files := fs\<rparr>))"

definition A2A_MESSAGE_ENDPOINT :: string where "A2A_MESSAGE_ENDPOINT = ''/api/v1/a2a/message/send''"

record agent_card_doc =
  ac_name :: string
  ac_version :: string
  ac_protocol :: string
  ac_url :: string
  ac_skills :: "string list"

text \<open>The card, with the identifiers of its skills; the descriptions are left out.\<close>

definition AGENT_CARD :: agent_card_doc where
  "AGENT_CARD = \<lparr>ac_name = ''PAE'', ac_version = ''0.1.0'', ac_protocol = ''A2A'', ac_url = A2A_MESSAGE_ENDPOINT,
     ac_skills = TOOL_NAMES\<rparr>"

definition agent_card where
  "agent_card env fresh authorization s = with_agent_token env fresh authorization (\<lambda>_. Inr AGENT_CARD) s"

definition PAE_SURFACES :: "(string \<times> string) list" where
  "PAE_SURFACES =
    [(''rest'', ''/api/v1''), (''mcp'', ''stdio via `python -m pae.mcp` (analytics/pae/mcp)''),
     (''a2a'', A2A_MESSAGE_ENDPOINT)]"

definition PAE_LINKS :: "(string \<times> string) list" where
  "PAE_LINKS =
    [(''llms_txt'', ''/llms.txt''), (''agent_card'', ''/.well-known/agent.json''), (''tools_manifest'', ''/api/v1/tools'')]"

definition pae_discovery where
  "pae_discovery env fresh authorization s =
     with_agent_token env fresh authorization (\<lambda>_. Inr (PAE_SURFACES, PAE_LINKS)) s"

text \<open>
  The manifest of the tools: the registered tools are those of the dispatch, each with the schema that
  the third-party MCP package derives, the parameter \<open>schema\<close>.
\<close>

definition tool_manifest :: "(string \<Rightarrow> pyval) \<Rightarrow> (string \<times> pyval) list" where
  "tool_manifest schema = map (\<lambda>t. (t, schema t)) TOOL_NAMES"

definition tools_manifest where
  "tools_manifest schema env fresh authorization s =
     with_agent_token env fresh authorization (\<lambda>_. Inr (tool_manifest schema, length TOOL_NAMES)) s"

section \<open>Properties\<close>

lemma initialize_portfolios [simp]: "portfolios (initialize d) = portfolios d"
  by (simp add: initialize_def apply_migrations_def migrate_v2_account_nullable_def Let_def)

lemma strip_idem: "strip (strip s) = strip s"
proof -
  have l: "lstrip (rstrip t) = rstrip t" if "lstrip t = t" for t
  proof (cases "rstrip t")
    case (Cons c cs)
    have "t = rstrip t @ rev (takeWhile is_ws (rev t))"
      by (metis rev_append rev_rev_ident rstrip_def takeWhile_dropWhile_id)
    then have t: "t = c # (cs @ rev (takeWhile is_ws (rev t)))" by (simp add: Cons)
    then have "dropWhile is_ws t \<noteq> []" using that by (auto simp: lstrip_def)
    from hd_dropWhile [OF this] that t have "\<not> is_ws c" by (metis list.sel(1) lstrip_def)
    then show ?thesis by (simp add: Cons lstrip_def)
  qed (simp add: lstrip_def)
  have r: "rstrip (rstrip t) = rstrip t" for t by (simp add: rstrip_def)
  have "lstrip (lstrip s) = lstrip s" by (simp add: lstrip_def)
  from l [OF this] r show ?thesis by (simp add: strip_def)
qed

lemma initialize_idem: "initialize (initialize d) = initialize d"
proof -
  have v: "SCHEMA_VERSION \<in> set (versions (initialize d)) \<or> SCHEMA_VERSION \<le> Max (set (versions (initialize d))) \<and>
      versions (initialize d) \<noteq> []"
    by (auto simp: initialize_def apply_migrations_def Let_def SCHEMA_VERSION_def)
  then have "versions (initialize d) \<noteq> []" and "SCHEMA_VERSION \<le> Max (set (versions (initialize d)))"
    by auto
  then show ?thesis
    unfolding initialize_def [of "initialize d"] by (simp add: apply_migrations_def Let_def)
qed

lemma token_files_kept: "snd (get_or_create_agent_token env fresh' (snd (get_or_create_agent_token env fresh fs))) =
    snd (get_or_create_agent_token env fresh fs)"
  by (auto simp: get_or_create_agent_token_def Let_def split: option.splits)

lemma insert_default:
  "portfolios d = [] \<Longrightarrow>
   insert_portfolio (default_portfolio st) d = (Inr (default_portfolio st), d\<lparr>portfolios := [default_portfolio st]\<rparr>)"
  by (simp add: insert_portfolio_eq default_portfolio_def)

lemma get_portfolios_Nil [simp]: "get_portfolios d = [] \<longleftrightarrow> portfolios d = []"
  by (metis get_portfolios_def length_0_conv length_sort)

lemma length_get_portfolios: "length (get_portfolios d) = length (portfolios d)"
  by (simp add: get_portfolios_def)

lemma start_service_result:
  "start_service env fresh st s =
     (Inr (), \<lparr>sv_up = True,
        sv_db = (if portfolios (sv_db s) = [] then (initialize (sv_db s))\<lparr>portfolios := [default_portfolio st]\<rparr>
                 else initialize (sv_db s)),
        sv_files = snd (get_or_create_agent_token env fresh (sv_files s))\<rparr>)"
  by (simp add: start_service_def Let_def insert_default)

lemma initialize_with_portfolios: "initialize ((initialize d)\<lparr>portfolios := ps\<rparr>) = (initialize d)\<lparr>portfolios := ps\<rparr>"
proof -
  have "initialize (d'\<lparr>portfolios := ps\<rparr>) = (initialize d')\<lparr>portfolios := ps\<rparr>" for d'
    by (simp add: initialize_def apply_migrations_def migrate_v2_account_nullable_def Let_def)
  then show ?thesis by (simp add: initialize_idem)
qed

text \<open>The service always starts, on any stored tables and files. Before the start the health check
  answers 503; afterwards it counts at least one portfolio: the stored ones, all kept, or a default one
  when there were none. Starting again, with whatever fresh token and identifier, changes nothing. And
  when the start has created the token file, the token in it opens the agent surfaces.\<close>

lemma service_starts:
  assumes "start_service env fresh st s = (r, s')"
  shows "r = Inr () \<and>
    health env (s\<lparr>sv_up := False\<rparr>) = Inl (Status 503) \<and>
    (\<exists>h. health env s' = Inr h \<and> 1 \<le> sr_portfolios h) \<and>
    portfolios (sv_db s') = (if portfolios (sv_db s) = [] then [default_portfolio st] else portfolios (sv_db s)) \<and>
    start_service env fresh' st' s' = (Inr (), s') \<and>
    (good_token fresh \<and> list_all is_ascii fresh \<and> strip (env_get env ''PAE_AGENT_TOKEN'') = [] \<and>
       sv_files s (agent_token_path env) = None \<longrightarrow>
       agent_card env fresh' (Some (''Bearer '' @ fresh)) s' = (Inr AGENT_CARD, s'))"
proof -
  have s': "r = Inr ()" "s' = \<lparr>sv_up = True,
        sv_db = (if portfolios (sv_db s) = [] then (initialize (sv_db s))\<lparr>portfolios := [default_portfolio st]\<rparr>
                 else initialize (sv_db s)),
        sv_files = snd (get_or_create_agent_token env fresh (sv_files s))\<rparr>"
    using assms by (simp_all add: start_service_result)
  have up: "\<exists>h. health env s' = Inr h \<and> 1 \<le> sr_portfolios h"
    by (cases "portfolios (sv_db s)") (simp_all add: s' health_def get_db_def length_get_portfolios)
  have again: "start_service env fresh' st' s' = (Inr (), s')"
    by (simp add: start_service_result s' token_files_kept initialize_idem initialize_with_portfolios)
  have card: "agent_card env fresh' (Some (''Bearer '' @ fresh)) s' = (Inr AGENT_CARD, s')"
    if "good_token fresh \<and> list_all is_ascii fresh \<and> strip (env_get env ''PAE_AGENT_TOKEN'') = [] \<and>
       sv_files s (agent_token_path env) = None"
  proof -
    have tok: "get_or_create_agent_token env fresh' (sv_files s') = (fresh, sv_files s')"
      using that by (simp add: s' get_or_create_agent_token_def Let_def good_token_def)
    have "strip fresh = fresh" using that strip_idem [of "fresh @ [newline]"] by (simp add: good_token_def)
    then have "bearer (Some (''Bearer '' @ fresh)) = fresh" by (simp add: bearer_def startswith_def)
    with tok that show ?thesis
      by (simp add: agent_card_def with_agent_token_def require_agent_token_def check_secret_def compare_digest_def
          good_token_def)
  qed
  show ?thesis using up again card by (simp add: s' health_def get_db_def)
qed

lemma service_starts_witness:
  "\<exists>s'. start_service (\<lambda>_. None) ''abc'' (''id'', ''now'') \<lparr>sv_up = False, sv_db = empty_db, sv_files = (\<lambda>_. None)\<rparr> =
     (Inr (), s') \<and> length (portfolios (sv_db s')) = 1 \<and>
     fst (agent_card (\<lambda>_. None) ''xyz'' (Some (''Bearer '' @ ''abc'')) s') = Inr AGENT_CARD"
proof -
  let ?s = "\<lparr>sv_up = False, sv_db = empty_db, sv_files = (\<lambda>_. None)\<rparr>"
  obtain s' where st: "start_service (\<lambda>_. None) ''abc'' (''id'', ''now'') ?s = (Inr (), s')"
    by (simp add: start_service_result)
  have "good_token ''abc'' \<and> list_all is_ascii ''abc'' \<and> strip (env_get (\<lambda>_. None) ''PAE_AGENT_TOKEN'') = [] \<and>
      sv_files ?s (agent_token_path (\<lambda>_. None)) = None"
    by (simp add: good_token_letters env_get_def is_ascii_def code_of_def)
  moreover have "portfolios (sv_db ?s) = []" by (simp add: empty_db_def)
  ultimately show ?thesis
    using st service_starts [OF st, where fresh' = "''xyz''"] by simp
qed

end
