(* ===== verification/Versions.thy ===== *)
theory Versions
  imports Codec "HOL-Library.List_Lexorder" "HOL-Library.Char_ord"
begin

text \<open>
  The engine's append-only version store, \<^verbatim>\<open>engine/src/versioning/\<close>, with the handlers of
  \<^verbatim>\<open>engine/src/api/versioning_api.rs\<close> that the demo seed calls. SHA-256, base64 of the Rust crate and the
  outcome of the write to SQLite are parameters; a clock reading is an argument. A byte is a character.
\<close>

section \<open>Records\<close>

text \<open>The author, which is the user in every append of the API, and the size field, always 0, are left out.\<close>

datatype entity_type =
    EntHoldings | EntPosition | EntDecisionEntry | EntCalibrationRecord | EntKnowledgeChunk
  | EntKnowledgeAnnotation | EntConfiguration | EntStressTestConfig | EntMonteCarloConfig | EntCarrySnapshot

record versioned_record =
  vr_hash :: string
  vr_entity :: string
  vr_type :: entity_type
  vr_version :: nat
  vr_created :: real
  vr_content :: string
  vr_nonce :: string
  vr_summary :: "string option"
  vr_tags :: "string list"
  vr_parent :: "string option"

text \<open>The index of the store: an entry for each entity, its versions in order.\<close>

type_synonym version_store = "(string \<times> versioned_record list) list"

definition versions_of :: "version_store \<Rightarrow> string \<Rightarrow> versioned_record list" where
  "versions_of s e = (case map_of s e of None \<Rightarrow> [] | Some vs \<Rightarrow> vs)"

text \<open>The bytes of a 64-bit number, the lowest first.\<close>

definition le_bytes :: "nat \<Rightarrow> string" where
  "le_bytes v = map (\<lambda>i. char_of (v div 256 ^ i mod 256)) [0..<8]"

definition compute_hash :: "(string \<Rightarrow> string) \<Rightarrow> string \<Rightarrow> nat \<Rightarrow> string \<Rightarrow> string" where
  "compute_hash sha e v content = sha (e @ le_bytes v @ content)"

definition record_intact :: "(string \<Rightarrow> string) \<Rightarrow> versioned_record \<Rightarrow> bool" where
  "record_intact sha r = (vr_hash r = compute_hash sha (vr_entity r) (vr_version r) (vr_content r))"

section \<open>The store\<close>

datatype version_exc = BadRequest string | PersistenceError

definition next_record ::
  "(string \<Rightarrow> string) \<Rightarrow> real \<Rightarrow> string \<Rightarrow> entity_type \<Rightarrow> string \<Rightarrow> string \<Rightarrow> string option \<Rightarrow> string list \<Rightarrow>
     versioned_record list \<Rightarrow> versioned_record" where
  "next_record sha now e ty content nonce summary tags vs =
     \<lparr>vr_hash = compute_hash sha e (length vs + 1) content, vr_entity = e, vr_type = ty,
      vr_version = length vs + 1, vr_created = now, vr_content = content, vr_nonce = nonce,
      vr_summary = summary, vr_tags = tags,
      vr_parent = (if vs = [] then None else Some (vr_hash (last vs)))\<rparr>"

text \<open>\<open>append\<close>: the entry of the entity is made before the write, whose failure leaves it empty.\<close>

definition append_record ::
  "(string \<Rightarrow> string) \<Rightarrow> bool \<Rightarrow> real \<Rightarrow> string \<Rightarrow> entity_type \<Rightarrow> string \<Rightarrow> string \<Rightarrow> string option \<Rightarrow> string list \<Rightarrow>
     version_store \<Rightarrow> (version_exc + string) \<times> version_store" where
  "append_record sha persisted now e ty content nonce summary tags s =
     (let vs = versions_of s e;
          r = next_record sha now e ty content nonce summary tags vs
      in if persisted then (Inr (vr_hash r), dict_set s e (vs @ [r]))
         else (Inl PersistenceError, dict_set s e vs))"

definition get_latest :: "version_store \<Rightarrow> string \<Rightarrow> versioned_record option" where
  "get_latest s e = (let vs = versions_of s e in if vs = [] then None else Some (last vs))"

definition latest_at :: "real \<Rightarrow> entity_type list \<Rightarrow> versioned_record list \<Rightarrow> versioned_record option" where
  "latest_at as_of types vs =
     find (\<lambda>r. vr_created r \<le> as_of \<and> (types = [] \<or> vr_type r \<in> set types)) (rev vs)"

definition snapshot_records :: "version_store \<Rightarrow> real \<Rightarrow> entity_type list \<Rightarrow> string list \<Rightarrow> versioned_record list" where
  "snapshot_records s as_of types ids =
     sort_key vr_entity
       (List.map_filter (\<lambda>(e, vs). if ids = [] \<or> e \<in> set ids then latest_at as_of types vs else None) s)"

fun chain_from :: "(string \<Rightarrow> string) \<Rightarrow> string option \<Rightarrow> versioned_record list \<Rightarrow> bool" where
  "chain_from sha parent [] = True"
| "chain_from sha parent (r # rs) =
     (record_intact sha r \<and> vr_parent r = parent \<and> chain_from sha (Some (vr_hash r)) rs)"

definition verify_chain :: "(string \<Rightarrow> string) \<Rightarrow> version_store \<Rightarrow> string \<Rightarrow> bool" where
  "verify_chain sha s e = chain_from sha None (versions_of s e)"

section \<open>Handlers\<close>

record append_request =
  ar_entity :: string
  ar_type :: string
  ar_content_b64 :: string
  ar_nonce_b64 :: string
  ar_summary :: "string option"
  ar_tags :: "string list"

definition entity_types :: "(string \<times> entity_type) list" where
  "entity_types =
    [(''holdings'', EntHoldings), (''position'', EntPosition), (''decision_entry'', EntDecisionEntry),
     (''calibration_record'', EntCalibrationRecord), (''knowledge_chunk'', EntKnowledgeChunk),
     (''knowledge_annotation'', EntKnowledgeAnnotation), (''configuration'', EntConfiguration),
     (''stress_test_config'', EntStressTestConfig), (''monte_carlo_config'', EntMonteCarloConfig),
     (''carry_snapshot'', EntCarrySnapshot)]"

definition parse_entity_type :: "string \<Rightarrow> version_exc + entity_type" where
  "parse_entity_type t =
     (case map_of entity_types t of None \<Rightarrow> Inl (BadRequest ''INVALID_ENTITY_TYPE'') | Some ty \<Rightarrow> Inr ty)"

definition decode_b64 :: "(string \<Rightarrow> string option) \<Rightarrow> string \<Rightarrow> version_exc + string" where
  "decode_b64 b64 x = (case b64 x of None \<Rightarrow> Inl (BadRequest ''INVALID_BASE64'') | Some y \<Rightarrow> Inr y)"

record version_env =
  vn_sha :: "string \<Rightarrow> string"
  vn_b64 :: "string \<Rightarrow> string option"

definition append_version ::
  "version_env \<Rightarrow> bool \<Rightarrow> real \<Rightarrow> append_request \<Rightarrow> version_store \<Rightarrow> (version_exc + string \<times> nat) \<times> version_store" where
  "append_version env persisted now req s =
     (if ar_entity req = [] then (Inl (BadRequest ''EMPTY_ENTITY_ID''), s)
      else if ar_content_b64 req = [] then (Inl (BadRequest ''EMPTY_CONTENT''), s)
      else if ar_nonce_b64 req = [] then (Inl (BadRequest ''EMPTY_NONCE''), s)
      else case parse_entity_type (ar_type req) of
        Inl e \<Rightarrow> (Inl e, s)
      | Inr ty \<Rightarrow>
          (case decode_b64 (vn_b64 env) (ar_content_b64 req) of
             Inl e \<Rightarrow> (Inl e, s)
           | Inr content \<Rightarrow>
               (case decode_b64 (vn_b64 env) (ar_nonce_b64 req) of
                  Inl e \<Rightarrow> (Inl e, s)
                | Inr nonce \<Rightarrow>
                    (case append_record (vn_sha env) persisted now (ar_entity req) ty content nonce
                            (ar_summary req) (ar_tags req) s of
                       (Inl e, s') \<Rightarrow> (Inl e, s')
                     | (Inr h, s') \<Rightarrow>
                         (Inr (h, case get_latest s' (ar_entity req) of None \<Rightarrow> 1 | Some r \<Rightarrow> vr_version r), s')))))"

text \<open>\<open>get_snapshot\<close> as of now: the entity and version of each record.\<close>

definition get_snapshot ::
  "real \<Rightarrow> string list \<Rightarrow> string list \<Rightarrow> version_store \<Rightarrow> version_exc + versioned_record list" where
  "get_snapshot now types ids s = rbind (traverse parse_entity_type types) (\<lambda>ts. Inr (snapshot_records s now ts ids))"

definition verify_integrity :: "(string \<Rightarrow> string) \<Rightarrow> string \<Rightarrow> version_store \<Rightarrow> version_exc + bool \<times> nat" where
  "verify_integrity sha e s =
     (if e = [] then Inl (BadRequest ''EMPTY_ENTITY_ID'') else Inr (verify_chain sha s e, length (versions_of s e)))"

section \<open>Properties\<close>

lemma versions_of_dict_set: "versions_of (dict_set s k vs) e = (if e = k then vs else versions_of s e)"
  by (induction s k vs rule: dict_set.induct) (auto simp: versions_of_def)

lemma chain_from_append:
  "chain_from sha p (rs @ [r]) \<longleftrightarrow>
     chain_from sha p rs \<and> record_intact sha r \<and> vr_parent r = (if rs = [] then p else Some (vr_hash (last rs)))"
  by (induction rs arbitrary: p) auto

text \<open>A history of an entity: its records are numbered from one and their chain verifies.\<close>

definition good_history :: "(string \<Rightarrow> string) \<Rightarrow> string \<Rightarrow> versioned_record list \<Rightarrow> bool" where
  "good_history sha e vs \<longleftrightarrow>
     chain_from sha None vs \<and> map vr_version vs = [1..<length vs + 1] \<and> (\<forall>r \<in> set vs. vr_entity r = e)"

lemma good_history_Nil [simp]: "good_history sha e []"
  by (simp add: good_history_def)

lemma good_history_next:
  "good_history sha e vs \<Longrightarrow> good_history sha e (vs @ [next_record sha now e ty content nonce summary tags vs])"
  by (auto simp: good_history_def chain_from_append next_record_def record_intact_def)

definition good_store :: "(string \<Rightarrow> string) \<Rightarrow> version_store \<Rightarrow> bool" where
  "good_store sha s \<longleftrightarrow> distinct (map fst s) \<and> (\<forall>e. good_history sha e (versions_of s e))"

lemma entity_keys_distinct: "distinct (map fst s) \<Longrightarrow> distinct (map fst (dict_set s k v))"
proof (induction s k v rule: dict_set.induct)
  case (2 k' v' d k v)
  have "set (map fst (dict_set d k v)) \<subseteq> insert k (set (map fst d))" for d :: "('a \<times> 'b) list"
    by (induction d k v rule: dict_set.induct) auto
  with 2 show ?case by fastforce
qed simp

text \<open>What an append does to the history of each entity.\<close>

lemma append_version_cases:
  obtains (kept) err where "append_version env ok now req s = (Inl err, s)"
  | (unwritten) "append_version env ok now req s =
      (Inl PersistenceError, dict_set s (ar_entity req) (versions_of s (ar_entity req)))"
  | (appended) r where "append_version env ok now req s =
      (Inr (vr_hash r, vr_version r), dict_set s (ar_entity req) (versions_of s (ar_entity req) @ [r]))"
    "\<exists>ty content nonce. r = next_record (vn_sha env) now (ar_entity req) ty content nonce (ar_summary req) (ar_tags req)
        (versions_of s (ar_entity req))"
proof -
  show ?thesis
  proof (cases "\<exists>e. append_version env ok now req s = (Inl e, s)")
    case False
    then obtain ty content nonce where "append_version env ok now req s =
        (case append_record (vn_sha env) ok now (ar_entity req) ty content nonce (ar_summary req) (ar_tags req) s of
           (Inl e, s') \<Rightarrow> (Inl e, s')
         | (Inr h, s') \<Rightarrow> (Inr (h, case get_latest s' (ar_entity req) of None \<Rightarrow> 1 | Some r \<Rightarrow> vr_version r), s'))"
      unfolding append_version_def by (auto split: if_splits sum.splits)
    then show ?thesis
      using unwritten appended
      by (cases ok) (auto simp: append_record_def Let_def get_latest_def versions_of_dict_set)
  qed (use kept in blast)
qed

type_synonym append_call = "bool \<times> real \<times> append_request"

definition append_run :: "version_env \<Rightarrow> append_call list \<Rightarrow> version_store \<Rightarrow> version_store" where
  "append_run env calls s = fold (\<lambda>(ok, now, req) s. snd (append_version env ok now req s)) calls s"

lemma append_version_good:
  assumes "good_store (vn_sha env) s"
  shows "good_store (vn_sha env) (snd (append_version env ok now req s)) \<and>
    (\<exists>new. versions_of (snd (append_version env ok now req s)) e = versions_of s e @ new)"
  by (cases rule: append_version_cases [of env ok now req s])
    (use assms in \<open>auto simp: good_store_def versions_of_dict_set entity_keys_distinct intro: good_history_next\<close>)

lemma append_run_good:
  "good_store (vn_sha env) s \<Longrightarrow> good_store (vn_sha env) (append_run env calls s) \<and>
    (\<exists>new. versions_of (append_run env calls s) e = versions_of s e @ new)"
proof (induction calls arbitrary: s)
  case (Cons c calls)
  obtain ok now req where c: "c = (ok, now, req)" by (cases c)
  let ?s = "snd (append_version env ok now req s)"
  from append_version_good [OF Cons.prems] obtain new where
    good: "good_store (vn_sha env) ?s" and new: "versions_of ?s e = versions_of s e @ new" by blast
  from Cons.IH [OF good] new show ?case by (auto simp: append_run_def c)
qed (simp add: append_run_def)

lemma good_store_Nil [simp]: "good_store sha []"
  by (simp add: good_store_def versions_of_def)

lemma versions_of_member:
  "distinct (map fst s) \<Longrightarrow> (e, vs) \<in> set s \<Longrightarrow> versions_of s e = vs"
  by (simp add: versions_of_def)

lemma latest_at_all:
  assumes "\<forall>r \<in> set vs. vr_created r \<le> now"
  shows "latest_at now [] vs = (if vs = [] then None else Some (last vs))"
  using assms by (cases vs rule: rev_cases) (auto simp: latest_at_def)

lemma snapshot_rows:
  assumes "\<forall>(e, vs) \<in> set s. \<forall>r \<in> set vs. vr_created r \<le> now"
  shows "List.map_filter (\<lambda>(e, vs). if [] = [] \<or> e \<in> set [] then latest_at now [] vs else None) s =
    map (\<lambda>(e, vs). last vs) (filter (\<lambda>(e, vs). vs \<noteq> []) s)"
  using assms
proof (induction s)
  case (Cons x s)
  then show ?case by (cases x) (simp add: List.map_filter_simps latest_at_all)
qed (simp add: List.map_filter_simps)

definition created_by :: "real \<Rightarrow> version_store \<Rightarrow> bool" where
  "created_by now s = (\<forall>e. \<forall>r \<in> set (versions_of s e). vr_created r \<le> now)"

lemma distinct_map_sort_key: "distinct (map f xs) \<Longrightarrow> distinct (map f (sort_key g xs))"
  by (simp add: distinct_map)

lemma snapshot_latest:
  assumes good: "good_store sha s" and by_now: "created_by now s"
  shows "set (snapshot_records s now [] []) = {last (versions_of s e) | e. versions_of s e \<noteq> []} \<and>
    sorted (map vr_entity (snapshot_records s now [] [])) \<and> distinct (map vr_entity (snapshot_records s now [] []))"
proof -
  have dist: "distinct (map fst s)" using good by (simp add: good_store_def)
  have mem: "versions_of s e = vs" if "(e, vs) \<in> set s" for e vs
    by (rule versions_of_member [OF dist that])
  have entity: "\<forall>(e, vs) \<in> set s. \<forall>r \<in> set vs. vr_created r \<le> now \<and> vr_entity r = e"
    using good by_now mem by (fastforce simp: good_store_def good_history_def created_by_def)
  then have now: "\<forall>(e, vs) \<in> set s. \<forall>r \<in> set vs. vr_created r \<le> now" by fastforce
  let ?rows = "filter (\<lambda>(e, vs). vs \<noteq> []) s"
  have snap: "snapshot_records s now [] [] = sort_key vr_entity (map (\<lambda>(e, vs). last vs) ?rows)"
    using snapshot_rows [OF now] by (simp add: snapshot_records_def)
  have "vr_entity (last vs) = e" if "(e, vs) \<in> set s" and "vs \<noteq> []" for e vs
  proof -
    have "last vs \<in> set vs" using that(2) by simp
    with entity that(1) show ?thesis by blast
  qed
  then have "vr_entity (case x of (e, vs) \<Rightarrow> last vs) = fst x" if "x \<in> set ?rows" for x
    using that by (cases x) simp
  then have "map vr_entity (map (\<lambda>(e, vs). last vs) ?rows) = map fst ?rows" by simp
  moreover have "distinct (map fst ?rows)" using dist by (rule distinct_map_filter)
  ultimately have "distinct (map vr_entity (map (\<lambda>(e, vs). last vs) ?rows))" by (simp only:)
  then have d: "distinct (map vr_entity (snapshot_records s now [] []))"
    unfolding snap by (rule distinct_map_sort_key)
  have "(\<lambda>(e, vs). last vs) ` set ?rows = {last (versions_of s e) | e. versions_of s e \<noteq> []}"
  proof (intro subset_antisym subsetI; clarsimp)
    fix e vs assume "(e, vs) \<in> set s" "vs \<noteq> []"
    then show "\<exists>e. last vs = last (versions_of s e) \<and> versions_of s e \<noteq> []" using mem by metis
  next
    fix e assume "versions_of s e \<noteq> []"
    then obtain vs where "(e, vs) \<in> set s" "vs = versions_of s e"
      by (auto simp: versions_of_def dest: map_of_SomeD split: option.splits)
    with \<open>versions_of s e \<noteq> []\<close> show "last (versions_of s e) \<in> (\<lambda>(e, vs). last vs) ` {x \<in> set s. case x of (e, vs) \<Rightarrow> vs \<noteq> []}"
      by (intro image_eqI [of _ _ "(e, vs)"]) auto
  qed
  with d show ?thesis by (simp add: snap)
qed

text \<open>C36: in a store that only appends have made, every entity's history verifies as a chain and is numbered
  from one without gaps, later appends leave it as a prefix of the new history, and a snapshot taken after
  the last append has exactly the latest version of each entity, in the order of their identifiers.\<close>

theorem version_histories_sound:
  assumes s: "append_run env calls [] = s"
  shows "(e \<noteq> [] \<longrightarrow> verify_integrity (vn_sha env) e s = Inr (True, length (versions_of s e))) \<and>
    map vr_version (versions_of s e) = [1..<length (versions_of s e) + 1] \<and>
    (\<exists>new. versions_of (append_run env later s) e = versions_of s e @ new) \<and>
    (created_by now s \<longrightarrow>
       (\<exists>snap. get_snapshot now [] [] s = Inr snap \<and> sorted (map vr_entity snap) \<and> distinct (map vr_entity snap) \<and>
          set snap = {last (versions_of s e) | e. versions_of s e \<noteq> []}))"
proof -
  have good: "good_store (vn_sha env) s" using append_run_good [of env "[]" calls] by (simp add: s)
  then have "chain_from (vn_sha env) None (versions_of s e) \<and>
      map vr_version (versions_of s e) = [1..<length (versions_of s e) + 1]"
    by (simp add: good_store_def good_history_def)
  moreover have "\<exists>new. versions_of (append_run env later s) e = versions_of s e @ new"
    using append_run_good [OF good] by blast
  ultimately show ?thesis
    using snapshot_latest [OF good, of now] by (simp add: verify_integrity_def verify_chain_def get_snapshot_def)
qed

definition sample_append :: "string \<Rightarrow> append_request" where
  "sample_append c = \<lparr>ar_entity = ''v'', ar_type = ''holdings'', ar_content_b64 = c, ar_nonce_b64 = ''n'',
     ar_summary = None, ar_tags = []\<rparr>"

theorem version_histories_sound_witness:
  "\<exists>s. s = append_run \<lparr>vn_sha = (\<lambda>x. x), vn_b64 = Some\<rparr> [(True, 1, sample_append ''a''), (True, 2, sample_append ''b'')] [] \<and>
     length (versions_of s ''v'') = 2 \<and> verify_integrity (\<lambda>x. x) ''v'' s = Inr (True, 2)"
proof -
  let ?env = "\<lparr>vn_sha = (\<lambda>x. x), vn_b64 = Some\<rparr> :: version_env"
  let ?calls = "[(True, 1, sample_append ''a''), (True, 2, sample_append ''b'')]"
  have two: "length (versions_of (append_run ?env ?calls []) ''v'') = 2"
    by (simp add: append_run_def append_version_def sample_append_def parse_entity_type_def entity_types_def
        decode_b64_def append_record_def Let_def versions_of_def)
  with version_histories_sound [of ?env ?calls _ "''v''", OF refl] show ?thesis by simp
qed

text \<open>
  The hash of a version covers its entity, number and content, but not the hash of its parent: the content
  of an earlier version can be replaced, with its hash and the next record's pointer to it, and the chain
  still verifies with the same hash at its head.
\<close>

lemma chain_does_not_bind_history:
  assumes "chain_from sha None [r1, r2]" and "h = compute_hash sha (vr_entity r1) (vr_version r1) content"
  shows "chain_from sha None [r1\<lparr>vr_content := content, vr_hash := h\<rparr>, r2\<lparr>vr_parent := Some h\<rparr>] \<and>
    vr_hash (r2\<lparr>vr_parent := Some h\<rparr>) = vr_hash r2"
  using assms by (simp add: record_intact_def)

end
