(* ===== verification/Seed.thy ===== *)
theory Seed
  imports Endpoints Service Versions Guard
begin

text \<open>
  The demo seed \<^verbatim>\<open>scripts/seed_demo.py\<close>, a client of both servers: it waits for their health checks, appends
  demo records to the engine's version store and reads them back, and creates the demo portfolio through
  the REST handlers. A request that the server answers with an error status raises \<open>HTTPError\<close>, which
  ends the script. The random draws, JSON, base64, SHA-256, the clock and the identifiers that the
  servers generate are arguments. What is printed is left out.
\<close>

section \<open>Sample data\<close>

record sample_position =
  sp_symbol :: string
  sp_name :: string
  sp_asset_class :: string
  sp_quantity :: real
  sp_market_value :: real
  sp_cost_basis :: real
  sp_currency :: string
  sp_yield_pct :: real

definition SAMPLE_POSITIONS_V1 :: "sample_position list" where
  "SAMPLE_POSITIONS_V1 =
    [\<lparr>sp_symbol = ''CASH-CAD'', sp_name = ''Sample cash (CAD)'', sp_asset_class = ''cash'', sp_quantity = 5000,
      sp_market_value = 5000, sp_cost_basis = 5000, sp_currency = ''CAD'', sp_yield_pct = 21 / 10\<rparr>,
     \<lparr>sp_symbol = ''DEMO-EQ'', sp_name = ''Sample equity fund'', sp_asset_class = ''equity'', sp_quantity = 120,
      sp_market_value = 9840, sp_cost_basis = 9000, sp_currency = ''CAD'', sp_yield_pct = 16 / 10\<rparr>,
     \<lparr>sp_symbol = ''DEMO-BD'', sp_name = ''Sample bond fund'', sp_asset_class = ''fixed_income'', sp_quantity = 200,
      sp_market_value = 10150, sp_cost_basis = 10000, sp_currency = ''CAD'', sp_yield_pct = 34 / 10\<rparr>]"

definition SAMPLE_POSITIONS_V2 :: "sample_position list" where
  "SAMPLE_POSITIONS_V2 =
    map (\<lambda>p. if sp_symbol p = ''CASH-CAD'' then p\<lparr>sp_quantity := 4500, sp_market_value := 4500\<rparr>
             else if sp_symbol p = ''DEMO-EQ'' then p\<lparr>sp_quantity := 130, sp_market_value := 10660\<rparr>
             else p) SAMPLE_POSITIONS_V1"

definition SAMPLE_SERIES_PARAMS :: "(string \<times> real \<times> real) list" where
  "SAMPLE_SERIES_PARAMS =
    [(''CASH-CAD'', 15 / 10000, 15 / 10000), (''DEMO-EQ'', 75 / 10000, 42 / 1000), (''DEMO-BD'', 28 / 10000, 9 / 1000)]"

definition SAMPLE_PERIODS :: nat where "SAMPLE_PERIODS = 36"

text \<open>The draws of the seeded generator, in order: \<open>gauss i mu sigma\<close> is its draw number \<open>i\<close>.\<close>

fun draw_series :: "(nat \<Rightarrow> real \<Rightarrow> real \<Rightarrow> real) \<Rightarrow> nat \<Rightarrow> (string \<times> real \<times> real) list \<Rightarrow> (string \<times> real list) list" where
  "draw_series gauss k [] = []"
| "draw_series gauss k ((symbol, mu, sigma) # ps) =
     (symbol, map (\<lambda>i. py_round (gauss i mu sigma) 6) [k..<k + SAMPLE_PERIODS]) #
       draw_series gauss (k + SAMPLE_PERIODS) ps"

definition synthetic_returns :: "(nat \<Rightarrow> real \<Rightarrow> real \<Rightarrow> real) \<Rightarrow> (string \<times> real list) list" where
  "synthetic_returns gauss = draw_series gauss 0 SAMPLE_SERIES_PARAMS"

section \<open>Waiting for a server\<close>

datatype seed_exc = HttpStatus nat | ProbeBroken | WaitTimedOut | SnapshotMissing "string set" | NoSeries string

text \<open>A probe answers, fails with an error that the loop catches, or with another one.\<close>

datatype probe = Answers | Refused | Broken

text \<open>
  \<open>wait_healthy\<close>: \<open>clock k\<close> is the reading of the clock before probe \<open>k\<close>. The loop ends only if the clock
  gets to the deadline, so the value None stands for a loop that runs forever.
\<close>

partial_function (option) wait_loop ::
  "(nat \<Rightarrow> probe) \<Rightarrow> (nat \<Rightarrow> real) \<Rightarrow> real \<Rightarrow> nat \<Rightarrow> (seed_exc + nat) option" where
  "wait_loop probes clock deadline k =
     (if clock k < deadline
      then (case probes k of
              Answers \<Rightarrow> Some (Inr k)
            | Broken \<Rightarrow> Some (Inl ProbeBroken)
            | Refused \<Rightarrow> wait_loop probes clock deadline (k + 1))
      else Some (Inl WaitTimedOut))"

definition wait_healthy :: "(nat \<Rightarrow> probe) \<Rightarrow> (nat \<Rightarrow> real) \<Rightarrow> real \<Rightarrow> real \<Rightarrow> (seed_exc + nat) option" where
  "wait_healthy probes clock start timeout = wait_loop probes clock (start + timeout) 0"

section \<open>The engine half\<close>

text \<open>\<open>DEMO_NONCE_B64\<close>\<close>

definition DEMO_NONCE_B64 :: string where "DEMO_NONCE_B64 = b64encode (replicate 12 (char_of (0::nat)))"

definition then_do ::
  "(seed_exc + 'a) \<times> 's \<Rightarrow> ('a \<Rightarrow> 's \<Rightarrow> (seed_exc + 'b) \<times> 's) \<Rightarrow> (seed_exc + 'b) \<times> 's" where
  "then_do r f = (case r of (Inl e, s) \<Rightarrow> (Inl e, s) | (Inr a, s) \<Rightarrow> f a s)"

fun version_status :: "version_exc \<Rightarrow> nat" where
  "version_status (BadRequest _) = 400"
| "version_status PersistenceError = 500"

definition engine_call :: "(version_exc + 'a) \<times> 's \<Rightarrow> (seed_exc + 'a) \<times> 's" where
  "engine_call r = (case r of (Inl e, s) \<Rightarrow> (Inl (HttpStatus (version_status e)), s) | (Inr a, s) \<Rightarrow> (Inr a, s))"

definition demo_request :: "(pyval \<Rightarrow> string) \<Rightarrow> string \<Rightarrow> string \<Rightarrow> pyval \<Rightarrow> string \<Rightarrow> string list \<Rightarrow> append_request" where
  "demo_request dumps e ty content summary tags =
     \<lparr>ar_entity = e, ar_type = ty, ar_content_b64 = b64encode (utf8_encode (dumps content)),
      ar_nonce_b64 = DEMO_NONCE_B64, ar_summary = Some summary, ar_tags = tags\<rparr>"

definition demo_vault_doc :: pyval where
  "demo_vault_doc =
     VDict [(''kind'', VStr ''vault_manifest''), (''name'', VStr ''Demo Vault''), (''demo'', VBool True),
       (''note'', VStr ''Seeded sample data for first-run exploration. All figures are fictional.'')]"

definition position_doc :: "sample_position \<Rightarrow> pyval" where
  "position_doc p =
     VDict [(''symbol'', VStr (sp_symbol p)), (''name'', VStr (sp_name p)), (''asset_class'', VStr (sp_asset_class p)),
       (''quantity'', VFloat (Fin (sp_quantity p))), (''market_value'', VFloat (Fin (sp_market_value p))),
       (''cost_basis'', VFloat (Fin (sp_cost_basis p))), (''currency'', VStr (sp_currency p)),
       (''yield_pct'', VFloat (Fin (sp_yield_pct p)))]"

definition holdings_doc :: "sample_position list \<Rightarrow> pyval" where
  "holdings_doc ps =
     VDict [(''kind'', VStr ''holdings_snapshot''), (''portfolio'', VStr ''Demo Portfolio''),
       (''currency'', VStr ''CAD''), (''demo'', VBool True), (''positions'', VList (map position_doc ps))]"

definition demo_decision_doc :: pyval where
  "demo_decision_doc =
     VDict [(''kind'', VStr ''decision_entry''), (''demo'', VBool True),
       (''title'', VStr ''Sample decision journal entry''),
       (''rationale'', VStr ''Placeholder entry showing the journal's shape: the reasoning is recorded before the action, in the author's own words.''),
       (''confidence'', VInt 3), (''emotional_state'', VStr ''calm'')]"

definition seed_requests :: "(pyval \<Rightarrow> string) \<Rightarrow> append_request list" where
  "seed_requests dumps =
    [demo_request dumps ''demo-vault'' ''configuration'' demo_vault_doc ''Demo seed: vault manifest'' [''demo'', ''seed''],
     demo_request dumps ''demo-portfolio'' ''holdings'' (holdings_doc SAMPLE_POSITIONS_V1)
       ''Demo seed: initial sample positions'' [''demo'', ''seed''],
     demo_request dumps ''demo-portfolio'' ''holdings'' (holdings_doc SAMPLE_POSITIONS_V2)
       ''Demo seed: sample position quantities updated'' [''demo'', ''seed''],
     demo_request dumps ''demo-decision-001'' ''decision_entry'' demo_decision_doc
       ''Demo seed: sample decision journal entry'' [''demo'', ''seed'']]"

text \<open>
  The appends one after the other; \<open>net i\<close> says of append \<open>i\<close> whether the engine could write it, and when.
\<close>

fun append_all ::
  "version_env \<Rightarrow> (nat \<Rightarrow> bool \<times> real) \<Rightarrow> nat \<Rightarrow> append_request list \<Rightarrow> version_store \<Rightarrow>
     (seed_exc + unit) \<times> version_store" where
  "append_all env net i [] s = (Inr (), s)"
| "append_all env net i (req # reqs) s =
     then_do (engine_call (append_version env (fst (net i)) (snd (net i)) req s)) (\<lambda>_. append_all env net (i + 1) reqs)"

definition demo_entities :: "string set" where
  "demo_entities = {''demo-vault'', ''demo-portfolio'', ''demo-decision-001''}"

definition seed_engine ::
  "version_env \<Rightarrow> (pyval \<Rightarrow> string) \<Rightarrow> (nat \<Rightarrow> bool \<times> real) \<Rightarrow> real \<Rightarrow> version_store \<Rightarrow> (seed_exc + bool \<times> nat) \<times> version_store" where
  "seed_engine env dumps net now s =
     then_do (append_all env net 0 (seed_requests dumps) s) (\<lambda>_ s.
     then_do (engine_call (get_snapshot now [] [] s, s)) (\<lambda>snap s.
       let missing = demo_entities - vr_entity ` set snap
       in if missing \<noteq> {} then (Inl (SnapshotMissing missing), s)
          else engine_call (verify_integrity (vn_sha env) ''demo-portfolio'' s, s)))"

section \<open>The analytics half\<close>

fun status_of :: "rest_exc \<Rightarrow> nat" where
  "status_of (Status n) = n"
| "status_of Crash = 500"

record seed_env =
  sn_env :: env
  sn_loads :: "string \<Rightarrow> pyval option"
  sn_dumps :: "pyval \<Rightarrow> string"
  sn_mapped :: bool
  sn_gauss :: "nat \<Rightarrow> real \<Rightarrow> real \<Rightarrow> real"

text \<open>
  A request of the script, as \<open>urllib\<close> sends it: the Host header is the authority of the URL, there is no
  Origin and no key. It passes the guard of the server, whose \<open>ipaddress\<close> treats mapped addresses as
  \<open>sn_mapped\<close> says, and then \<open>require_api_key\<close>.
\<close>

definition url_authority :: "string \<Rightarrow> string" where
  "url_authority url =
     (case after_scheme url of None \<Rightarrow> [] | Some rest \<Rightarrow> takeWhile (\<lambda>c. c \<notin> set ''/?#'') rest)"

definition request_scope :: "string \<Rightarrow> string \<Rightarrow> scope" where
  "request_scope meth url =
     \<lparr>sc_type = ''http'', sc_host = Some (url_authority url), sc_origin = None, sc_server = None,
      sc_method = Some meth\<rparr>"

definition keyless ::
  "seed_env \<Rightarrow> string \<Rightarrow> string \<Rightarrow> (db \<Rightarrow> (rest_exc + 'a) \<times> db) \<Rightarrow> db \<Rightarrow> (seed_exc + 'a) \<times> db" where
  "keyless env meth url route d =
     (case loopback_guard (sn_mapped env) (request_scope meth url) of
        Forward \<Rightarrow>
          (case require_api_key (sn_env env) None None of
             Pass \<Rightarrow> (case route d of (Inl e, d') \<Rightarrow> (Inl (HttpStatus (status_of e)), d') | (Inr a, d') \<Rightarrow> (Inr a, d'))
           | Unauthorized \<Rightarrow> (Inl (HttpStatus 401), d)
           | Raise _ \<Rightarrow> (Inl (HttpStatus 500), d))
      | _ \<Rightarrow> (Inl (HttpStatus 403), d))"

definition position_body :: "string \<Rightarrow> real list \<Rightarrow> sample_position \<Rightarrow> holding_create" where
  "position_body pid returns p =
     \<lparr>hc_portfolio_id = pid, hc_account_id = [], hc_symbol = sp_symbol p, hc_name = sp_name p,
      hc_asset_class = sp_asset_class p, hc_quantity = Fin (sp_quantity p), hc_market_value = Fin (sp_market_value p),
      hc_cost_basis = Fin (sp_cost_basis p), hc_yield_pct = Fin (sp_yield_pct p), hc_currency = sp_currency p,
      hc_returns = map Fin returns\<rparr>"

text \<open>\<open>sts i\<close>: the identifier and time that the server gives holding \<open>i\<close>. \<open>url\<close> is \<open>ANALYTICS_URL\<close>.\<close>

fun seed_positions ::
  "string \<Rightarrow> seed_env \<Rightarrow> string \<Rightarrow> (nat \<Rightarrow> stamp) \<Rightarrow> nat \<Rightarrow> sample_position list \<Rightarrow> db \<Rightarrow> (seed_exc + unit) \<times> db" where
  "seed_positions url env pid sts i [] d = (Inr (), d)"
| "seed_positions url env pid sts i (p # ps) d =
     (case map_of (synthetic_returns (sn_gauss env)) (sp_symbol p) of
        None \<Rightarrow> (Inl (NoSeries (sp_symbol p)), d)
      | Some rs \<Rightarrow>
          then_do (keyless env ''POST'' (url @ ''/api/v1/holdings'')
              (rest_create_holding (sn_loads env) (sn_dumps env) (sts i) (position_body pid rs p)) d)
            (\<lambda>_. seed_positions url env pid sts (i + 1) ps))"

text \<open>The result says whether the portfolio was created; it is not when one of its name exists.\<close>

definition seed_analytics :: "string \<Rightarrow> seed_env \<Rightarrow> stamp \<Rightarrow> (nat \<Rightarrow> stamp) \<Rightarrow> db \<Rightarrow> (seed_exc + bool) \<times> db" where
  "seed_analytics url env st sts d =
     then_do (keyless env ''GET'' (url @ ''/api/v1/portfolios'') (\<lambda>d. (rest_list_portfolios d, d)) d) (\<lambda>listing d.
       if \<exists>p \<in> set listing. pi_name p = ''Demo Portfolio'' then (Inr False, d)
       else then_do (keyless env ''POST'' (url @ ''/api/v1/portfolios'')
              (rest_create_portfolio st ''Demo Portfolio''
                 ''Seeded sample portfolio (fictional data) for first-run exploration.'') d) (\<lambda>created d.
            then_do (seed_positions url env (fst created) sts 0 SAMPLE_POSITIONS_V1 d) (\<lambda>_ d. (Inr True, d))))"

section \<open>The script\<close>

definition strip_slashes :: "string \<Rightarrow> string" where
  "strip_slashes s = rev (dropWhile (\<lambda>c. c = CHR ''/'') (rev s))"

definition ANALYTICS_URL :: "env \<Rightarrow> string" where
  "ANALYTICS_URL env = strip_slashes (env_default env ''PAE_ANALYTICS_URL'' [])"

record health_run =
  hl_probes :: "nat \<Rightarrow> probe"
  hl_clock :: "nat \<Rightarrow> real"
  hl_start :: real

definition await :: "health_run \<Rightarrow> (seed_exc + nat) option" where
  "await w = wait_healthy (hl_probes w) (hl_clock w) (hl_start w) 90"

text \<open>
  \<open>main\<close>; None if a wait never ends. The environment of the script is the first argument, those of the
  servers are in \<open>venv\<close> and \<open>env\<close>.
\<close>

definition seed_main ::
  "env \<Rightarrow> health_run \<Rightarrow> health_run \<Rightarrow> version_env \<Rightarrow> seed_env \<Rightarrow> (nat \<Rightarrow> bool \<times> real) \<Rightarrow> real \<Rightarrow> stamp \<Rightarrow> (nat \<Rightarrow> stamp) \<Rightarrow>
     version_store \<times> db \<Rightarrow> ((seed_exc + bool) \<times> version_store \<times> db) option" where
  "seed_main script w1 w2 venv env net now st sts state =
     (let (s, d) = state
      in case await w1 of
           None \<Rightarrow> None
         | Some (Inl e) \<Rightarrow> Some (Inl e, s, d)
         | Some (Inr _) \<Rightarrow>
             (case seed_engine venv (sn_dumps env) net now s of
                (Inl e, s') \<Rightarrow> Some (Inl e, s', d)
              | (Inr _, s') \<Rightarrow>
                  if ANALYTICS_URL script = [] then Some (Inr False, s', d)
                  else case await w2 of
                      None \<Rightarrow> None
                    | Some (Inl e) \<Rightarrow> Some (Inl e, s', d)
                    | Some (Inr _) \<Rightarrow>
                        (let (r, d') = seed_analytics (ANALYTICS_URL script) env st sts d in Some (r, s', d'))))"

end
