(* ===== verification/Seed_Correct.thy ===== *)
theory Seed_Correct
  imports Seed
begin

text \<open>
  What the demo seed promises: the wait for a server ends, the engine half leaves a verified history and
  reads it back, and the analytics half creates one demo portfolio, once.
\<close>

section \<open>Waiting\<close>

lemma wait_loop_skips:
  assumes "k \<le> n" and "\<And>j. k \<le> j \<Longrightarrow> j < n \<Longrightarrow> clock j < deadline \<and> probes j = Refused"
  shows "wait_loop probes clock deadline k = wait_loop probes clock deadline n"
  using assms
proof (induction "n - k" arbitrary: k)
  case (Suc d)
  then have "clock k < deadline \<and> probes k = Refused" by simp
  then have "wait_loop probes clock deadline k = wait_loop probes clock deadline (k + 1)"
    by (subst wait_loop.simps) simp
  also have "\<dots> = wait_loop probes clock deadline n" by (rule Suc.hyps(1)) (use Suc.hyps(2) Suc.prems in auto)
  finally show ?case .
qed simp

text \<open>The wait for a server always ends. Because every refused probe is followed by a sleep of two seconds,
  at most 45 probes are refused within the 90 seconds; the outcome is that of the first probe that is not
  refused, or the time-out when the deadline comes first.\<close>

lemma wait_healthy_returns:
  assumes start: "start \<le> clock 0"
    and sleeps: "\<And>k. probes k = Refused \<Longrightarrow> clock k + 2 \<le> clock (k + 1)"
  shows "\<exists>n \<le> 45. (\<forall>k < n. probes k = Refused) \<and>
    wait_healthy probes clock start 90 =
      Some (if start + 90 \<le> clock n then Inl WaitTimedOut else if probes n = Answers then Inr n else Inl ProbeBroken) \<and>
    (clock n < start + 90 \<longrightarrow> probes n \<noteq> Refused)"
proof -
  define stop where "stop = (\<lambda>k. \<not> (clock k < start + 90 \<and> probes k = Refused))"
  have late: "start + 2 * real k \<le> clock k" if "\<And>j. j < k \<Longrightarrow> \<not> stop j" for k
    using that
  proof (induction k)
    case (Suc k)
    have "start + 2 * real k \<le> clock k" by (rule Suc.IH) (simp add: Suc.prems)
    moreover have "clock k + 2 \<le> clock (k + 1)" using Suc.prems [of k] sleeps by (simp add: stop_def)
    ultimately show ?case by simp
  qed (use start in simp)
  have "\<exists>n \<le> 45. stop n"
  proof (rule ccontr)
    assume "\<not> ?thesis"
    then have all: "\<not> stop n" if "n \<le> 45" for n using that by blast
    then have "start + 2 * real 45 \<le> clock 45" by (intro late) simp
    with all [of 45] show False by (simp add: stop_def)
  qed
  then obtain m where "m \<le> 45" and "stop m" by blast
  define n where "n = (LEAST n. stop n)"
  have n: "stop n" "n \<le> m" "\<And>j. j < n \<Longrightarrow> \<not> stop j"
    unfolding n_def using LeastI [of stop, OF \<open>stop m\<close>] Least_le [of stop, OF \<open>stop m\<close>] not_less_Least [of _ stop] by blast+
  have "wait_loop probes clock (start + 90) 0 = wait_loop probes clock (start + 90) n"
    by (rule wait_loop_skips) (use n(3) in \<open>auto simp: stop_def\<close>)
  also have "\<dots> = Some (if start + 90 \<le> clock n then Inl WaitTimedOut else if probes n = Answers then Inr n else Inl ProbeBroken)"
    using n(1) by (subst wait_loop.simps) (auto simp: stop_def split: probe.splits)
  finally show ?thesis
    using n \<open>m \<le> 45\<close> by (intro exI [of _ n]) (auto simp: wait_healthy_def stop_def)
qed

lemma wait_healthy_returns_witness:
  "wait_healthy (\<lambda>k. if k < 3 then Refused else Answers) (\<lambda>k. 2 * real k) 0 90 = Some (Inr 3)"
proof -
  let ?p = "\<lambda>k::nat. if k < 3 then Refused else Answers"
  have start: "(0::real) \<le> 2 * real 0" and sleeps: "2 * real k + 2 \<le> 2 * real (k + 1)" if "?p k = Refused" for k
    by simp_all
  obtain n where n: "n \<le> 45" "\<forall>k<n. ?p k = Refused"
    "wait_healthy ?p (\<lambda>k. 2 * real k) 0 90 =
      Some (if 0 + 90 \<le> 2 * real n then Inl WaitTimedOut else if ?p n = Answers then Inr n else Inl ProbeBroken)"
    "2 * real n < 0 + 90 \<longrightarrow> ?p n \<noteq> Refused"
    using wait_healthy_returns [where start = 0 and clock = "\<lambda>k. 2 * real k" and probes = ?p] by auto
  have "n \<le> 3" using n(2) by (metis not_le probe.distinct(1) less_irrefl)
  moreover from this n(4) have "3 \<le> n" by (auto split: if_splits)
  ultimately have "n = 3" by simp
  with n(3) show ?thesis by simp
qed

section \<open>The engine half\<close>

definition good_b64 :: "(string \<Rightarrow> string option) \<Rightarrow> bool" where
  "good_b64 b64 = (\<forall>x. b64 (b64encode x) = Some x)"

lemma b64encode_Nil: "b64encode x = [] \<longleftrightarrow> x = []"
  by (cases x rule: b64encode.cases) simp_all

lemma utf8_encode_Nil: "utf8_encode s = [] \<longleftrightarrow> s = []"
  by (cases s) (simp_all add: utf8_encode_def utf8_char_def Let_def)

abbreviation doc_bytes :: "(pyval \<Rightarrow> string) \<Rightarrow> pyval \<Rightarrow> string" where
  "doc_bytes dumps v \<equiv> utf8_encode (dumps v)"

definition content_of :: "version_env \<Rightarrow> append_request \<Rightarrow> string" where
  "content_of env req = the (vn_b64 env (ar_content_b64 req))"

definition accepted :: "version_env \<Rightarrow> append_request \<Rightarrow> bool" where
  "accepted env req \<longleftrightarrow> ar_entity req \<noteq> [] \<and> ar_content_b64 req \<noteq> [] \<and> ar_nonce_b64 req \<noteq> [] \<and>
     map_of entity_types (ar_type req) \<noteq> None \<and> vn_b64 env (ar_content_b64 req) \<noteq> None \<and> vn_b64 env (ar_nonce_b64 req) \<noteq> None"

lemma append_accepted:
  assumes "accepted env req"
  obtains r where "append_version env True now req s =
      (Inr (vr_hash r, vr_version r), dict_set s (ar_entity req) (versions_of s (ar_entity req) @ [r]))"
    and "vr_content r = content_of env req" and "vr_created r = now"
proof -
  let ?e = "ar_entity req"
  obtain ty content nonce where "map_of entity_types (ar_type req) = Some ty"
    and "vn_b64 env (ar_content_b64 req) = Some content" and "vn_b64 env (ar_nonce_b64 req) = Some nonce"
    using assms by (auto simp: accepted_def)
  with assms show ?thesis
    by (intro that [of "next_record (vn_sha env) now ?e ty content nonce (ar_summary req) (ar_tags req) (versions_of s ?e)"])
      (simp_all add: accepted_def append_version_def parse_entity_type_def decode_b64_def append_record_def Let_def
        get_latest_def versions_of_dict_set content_of_def next_record_def)
qed

lemma append_all_accepted:
  assumes "list_all (accepted env) reqs" and net: "\<And>i. fst (net i) \<and> snd (net i) \<le> now"
    and "good_store (vn_sha env) s" and "created_by now s"
  shows "\<exists>s'. append_all env net i reqs s = (Inr (), s') \<and> good_store (vn_sha env) s' \<and> created_by now s' \<and>
    (\<forall>e. \<exists>new. versions_of s' e = versions_of s e @ new \<and>
       map vr_content new = map (content_of env) (filter (\<lambda>r. ar_entity r = e) reqs))"
  using assms(1,3,4)
proof (induction reqs arbitrary: i s)
  case (Cons req reqs)
  let ?e = "ar_entity req"
  have ok: "fst (net i)" and time: "snd (net i) \<le> now" using net by simp_all
  obtain r where app: "append_version env True (snd (net i)) req s =
      (Inr (vr_hash r, vr_version r), dict_set s ?e (versions_of s ?e @ [r]))"
    and r: "vr_content r = content_of env req" "vr_created r = snd (net i)"
    using Cons.prems by (auto intro: append_accepted)
  let ?s = "dict_set s ?e (versions_of s ?e @ [r])"
  have good: "good_store (vn_sha env) ?s"
    using append_version_good [OF Cons.prems(2), of True "snd (net i)" req] by (simp add: app)
  have by_now: "created_by now ?s"
    using Cons.prems(3) time r(2) by (auto simp: created_by_def versions_of_dict_set)
  obtain s' where rest: "append_all env net (i + 1) reqs ?s = (Inr (), s')" "good_store (vn_sha env) s'" "created_by now s'"
    and grown: "\<forall>e. \<exists>new. versions_of s' e = versions_of ?s e @ new \<and>
       map vr_content new = map (content_of env) (filter (\<lambda>r. ar_entity r = e) reqs)"
    using Cons.IH [OF _ good by_now] Cons.prems(1) by fastforce
  have "\<exists>new. versions_of s' e = versions_of s e @ new \<and>
       map vr_content new = map (content_of env) (filter (\<lambda>r. ar_entity r = e) (req # reqs))" for e
  proof -
    from grown obtain new where new: "versions_of s' e = versions_of ?s e @ new"
      "map vr_content new = map (content_of env) (filter (\<lambda>r. ar_entity r = e) reqs)" by blast
    show ?thesis
    proof (cases "e = ?e")
      case True
      with new r(1) show ?thesis by (intro exI [of _ "r # new"]) (simp add: versions_of_dict_set)
    qed (use new in \<open>auto simp: versions_of_dict_set\<close>)
  qed
  with rest show ?case by (simp add: app ok then_do_def engine_call_def)
qed simp

lemma seed_requests_accepted:
  assumes "good_b64 (vn_b64 env)" and "\<And>v. dumps v \<noteq> []"
  shows "list_all (accepted env) (seed_requests dumps)"
  using assms
  by (simp add: seed_requests_def accepted_def demo_request_def entity_types_def good_b64_def DEMO_NONCE_B64_def
      b64encode_Nil utf8_encode_Nil)

lemma content_of_demo [simp]:
  "good_b64 (vn_b64 env) \<Longrightarrow> content_of env (demo_request dumps e ty v sm tags) = utf8_encode (dumps v)"
  by (simp add: content_of_def demo_request_def good_b64_def)

lemma demo_request_entity [simp]: "ar_entity (demo_request dumps e ty v sm tags) = e"
  by (simp add: demo_request_def)

text \<open>The contents that the seed appends to the history of an entity.\<close>

definition seeded :: "(pyval \<Rightarrow> string) \<Rightarrow> string \<Rightarrow> string list" where
  "seeded dumps e = map (\<lambda>v. utf8_encode (dumps v))
     (if e = ''demo-vault'' then [demo_vault_doc]
      else if e = ''demo-portfolio'' then [holdings_doc SAMPLE_POSITIONS_V1, holdings_doc SAMPLE_POSITIONS_V2]
      else if e = ''demo-decision-001'' then [demo_decision_doc] else [])"

lemma seed_requests_contents:
  "good_b64 (vn_b64 env) \<Longrightarrow>
   map (content_of env) (filter (\<lambda>r. ar_entity r = e) (seed_requests dumps)) = seeded dumps e"
  by (simp add: seed_requests_def seeded_def)

lemma filter_unique:
  assumes "x \<in> set xs" and "distinct (map f xs)" and "f x = k"
  shows "filter (\<lambda>y. f y = k) xs = [x]"
  using assms
proof (induction xs)
  case (Cons y xs)
  have none: "filter (\<lambda>z. f z = f y) xs = []" using Cons.prems(2) by (auto simp: filter_empty_conv image_iff)
  show ?case
  proof (cases "x = y")
    case True
    with none Cons.prems(3) show ?thesis by simp
  next
    case False
    with Cons.prems have "x \<in> set xs" by simp
    moreover from this Cons.prems have "f y \<noteq> k" by auto
    ultimately show ?thesis using Cons by simp
  qed
qed simp

text \<open>With an engine that can write, the engine half always succeeds, on whatever the store holds: it
  adds to the history of each demo entity the documents of the seed, in order, and to no other; the
  snapshot it reads back has every demo entity once, at its newest version; and the chain of the demo
  portfolio that it reports verifies. Run again, it adds versions and no entities.\<close>

lemma seed_engine_verified:
  assumes env: "good_b64 (vn_b64 env)" "\<And>v. dumps v \<noteq> []"
    and net: "\<And>i. fst (net i) \<and> snd (net i) \<le> now"
    and store: "append_run env calls [] = s" "created_by now s"
  shows "\<exists>s'. seed_engine env dumps net now s = (Inr (True, length (versions_of s ''demo-portfolio'') + 2), s') \<and>
    (\<forall>e. \<exists>new. versions_of s' e = versions_of s e @ new \<and> map vr_content new = seeded dumps e) \<and>
    (\<forall>e \<in> demo_entities. filter (\<lambda>r. vr_entity r = e) (snapshot_records s' now [] []) = [last (versions_of s' e)])"
proof -
  have "good_store (vn_sha env) s" using append_run_good [of env "[]" calls] store(1) by simp
  note run = append_all_accepted [where net = net and reqs = "seed_requests dumps" and i = 0,
      OF seed_requests_accepted [where dumps = dumps, OF env] net this store(2)]
  obtain s' where s': "append_all env net 0 (seed_requests dumps) s = (Inr (), s')" "good_store (vn_sha env) s'" "created_by now s'"
    and grown: "\<forall>e. \<exists>new. versions_of s' e = versions_of s e @ new \<and> map vr_content new = seeded dumps e"
    using run by (auto simp: seed_requests_contents [OF env(1)])
  note snap = snapshot_latest [OF s'(2,3)]
  have some: "versions_of s' e \<noteq> []" if "e \<in> demo_entities" for e
    using grown [rule_format, of e] that by (auto simp: demo_entities_def seeded_def)
  have entity: "vr_entity (last (versions_of s' e)) = e" if "versions_of s' e \<noteq> []" for e
    using s'(2) last_in_set [OF that] by (simp add: good_store_def good_history_def)
  have "demo_entities \<subseteq> vr_entity ` set (snapshot_records s' now [] [])"
    using snap some entity by (force simp: image_iff)
  then have missing: "demo_entities - vr_entity ` set (snapshot_records s' now [] []) = {}" by blast
  have chain: "verify_chain (vn_sha env) s' ''demo-portfolio''"
    using s'(2) by (simp add: good_store_def good_history_def verify_chain_def)
  obtain new where new: "versions_of s' ''demo-portfolio'' = versions_of s ''demo-portfolio'' @ new"
    "map vr_content new = seeded dumps ''demo-portfolio''" using grown by blast
  from arg_cong [OF new(2), of length] have "length new = 2" by (simp add: seeded_def)
  then have "seed_engine env dumps net now s = (Inr (True, length (versions_of s ''demo-portfolio'') + 2), s')"
    using s'(1) missing chain new(1)
    by (simp add: seed_engine_def then_do_def engine_call_def get_snapshot_def verify_integrity_def)
  moreover have "filter (\<lambda>r. vr_entity r = e) (snapshot_records s' now [] []) = [last (versions_of s' e)]"
    if "e \<in> demo_entities" for e
  proof (rule filter_unique)
    show "last (versions_of s' e) \<in> set (snapshot_records s' now [] [])" using snap some [OF that] by blast
    show "distinct (map vr_entity (snapshot_records s' now [] []))" using snap by blast
    show "vr_entity (last (versions_of s' e)) = e" by (rule entity [OF some [OF that]])
  qed
  ultimately show ?thesis using grown by blast
qed

section \<open>The analytics half\<close>

lemma portfolio_summary_defined: "\<exists>r. get_portfolio_summary pid d = Inr r"
proof -
  have "\<exists>q. fl_div x c = Inr q" if "fl_lt (Fin 0) c" for x c
    using that by (cases c) auto
  then show ?thesis
    by (auto simp: get_portfolio_summary_def Let_def)
qed

lemma listing_names:
  obtains items where "rest_list_portfolios d = Inr items" and "pi_name ` set items = pf_name ` set (portfolios d)"
proof -
  have "\<forall>p :: portfolio. \<exists>r. get_portfolio_summary (pf_id p) d = Inr r" using portfolio_summary_defined by blast
  from choice [OF this] obtain s where s: "\<And>p :: portfolio. get_portfolio_summary (pf_id p) d = Inr (s p)" by blast
  have "rest_list_portfolios d = Inr (map (\<lambda>p. \<lparr>pi_summary = s p, pi_name = pf_name p,
      pi_description = pf_description p, pi_id = pf_id p\<rparr>) (get_portfolios d))"
    by (simp add: rest_list_portfolios_def lift_crash_def traverse_Inr_map s)
  then show ?thesis by (rule that) (simp add: image_image get_portfolios_def)
qed

text \<open>The guard lets the requests through exactly when the URL of the server is a loopback one.\<close>

lemma after_scheme_append: "after_scheme u = Some r \<Longrightarrow> after_scheme (u @ v) = Some (r @ v)"
proof (induction u)
  case (Cons c u)
  show ?case
  proof (cases "startswith (c # u) ''://''")
    case True
    then have "startswith ((c # u) @ v) ''://''" by (auto simp: startswith_iff)
    moreover from True have "3 \<le> length (c # u)" by (auto simp: startswith_iff)
    ultimately show ?thesis using Cons.prems True by (simp add: drop_append)
  next
    case False
    with Cons.prems have u: "after_scheme u = Some r" by simp
    have "\<not> startswith ((c # u) @ v) ''://''" if "3 \<le> length (c # u)"
      using False that by (auto simp: startswith_def)
    moreover have "3 \<le> length u" using u
    proof (induction u)
      case (Cons d u)
      then show ?case by (cases "startswith (d # u) ''://''") (auto simp: startswith_iff)
    qed simp
    ultimately show ?thesis using Cons.IH [OF u] by simp
  qed
qed simp

lemma url_authority_path:
  assumes "after_scheme url \<noteq> None"
  shows "url_authority (url @ CHR ''/'' # path) = url_authority url"
proof -
  from assms obtain r where r: "after_scheme url = Some r" by blast
  have "takeWhile P (xs @ CHR ''/'' # ys) = takeWhile P xs" if "\<not> P (CHR ''/'')" for P and xs ys :: string
    using that by (induction xs) auto
  with r show ?thesis by (simp add: url_authority_def after_scheme_append)
qed

definition local_url :: "seed_env \<Rightarrow> string \<Rightarrow> bool" where
  "local_url env url =
     (after_scheme url \<noteq> None \<and> is_loopback_authority (sn_mapped env) (url_authority url))"

lemma guard_local:
  "local_url env url \<Longrightarrow> loopback_guard (sn_mapped env) (request_scope meth (url @ CHR ''/'' # path)) = Forward"
  by (simp add: local_url_def loopback_guard_def request_scope_def url_authority_path)

lemma keyless_open:
  assumes "env_get (sn_env env) ''PAE_API_KEY'' = []" and "local_url env url"
  shows "keyless env meth (url @ CHR ''/'' # path) route d =
    (case route d of (Inl e, d') \<Rightarrow> (Inl (HttpStatus (status_of e)), d') | (Inr a, d') \<Rightarrow> (Inr a, d'))"
  using assms by (simp add: keyless_def require_api_key_def guard_local)

text \<open>Seeding a server under another name is refused at the first request.\<close>

lemma seed_refused_elsewhere:
  assumes "after_scheme url \<noteq> None" and "\<not> is_loopback_authority (sn_mapped env) (url_authority url)"
  shows "seed_analytics url env st sts d = (Inl (HttpStatus 403), d)"
  using assms
  by (simp add: seed_analytics_def keyless_def loopback_guard_def request_scope_def url_authority_path then_do_def)

lemma analytics_skips:
  assumes key: "env_get (sn_env env) ''PAE_API_KEY'' = []" and here: "local_url env url"
    and n: "n = ''Demo Portfolio''"
    and there: "n \<in> pf_name ` set (portfolios d)"
  shows "seed_analytics url env st sts d = (Inr False, d)"
proof -
  obtain items where items: "rest_list_portfolios d = Inr items" and "pi_name ` set items = pf_name ` set (portfolios d)"
    by (rule listing_names)
  with there have "n \<in> pi_name ` set items" by simp
  then have "\<exists>p \<in> set items. pi_name p = n" by blast
  then show ?thesis unfolding n using items by (simp add: seed_analytics_def keyless_open [OF key here] then_do_def)
qed

lemma draw_series_of:
  "s \<in> fst ` set ps \<Longrightarrow> \<exists>rs. map_of (draw_series gauss k ps) s = Some rs \<and> length rs = SAMPLE_PERIODS"
proof (induction ps arbitrary: k)
  case (Cons p ps)
  obtain symbol mu sigma where p: "p = (symbol, mu, sigma)" by (cases p)
  show ?case
  proof (cases "s = symbol")
    case False
    with Cons.prems have "s \<in> fst ` set ps" by (simp add: p)
    from Cons.IH [OF this, of "k + SAMPLE_PERIODS"] False show ?thesis by (simp add: p)
  qed (simp add: p)
qed simp

lemma series_of_seed:
  assumes "p \<in> set SAMPLE_POSITIONS_V1"
  obtains rs where "map_of (synthetic_returns gauss) (sp_symbol p) = Some rs" and "length rs = SAMPLE_PERIODS"
proof -
  have "sp_symbol p \<in> fst ` set SAMPLE_SERIES_PARAMS"
    using assms unfolding SAMPLE_SERIES_PARAMS_def by (auto simp: SAMPLE_POSITIONS_V1_def)
  from draw_series_of [OF this, of gauss 0] that show ?thesis by (auto simp: synthetic_returns_def)
qed

text \<open>The documented behaviour of JSON, for the texts of the demo series.\<close>

definition series_json :: "seed_env \<Rightarrow> bool" where
  "series_json env = (\<forall>(s, rs) \<in> set (synthetic_returns (sn_gauss env)).
     sn_loads env (json_floats (sn_dumps env) (map Fin rs)) = Some (VList (map VFloat (map Fin rs))))"

lemma series_jsonD: "series_json env \<Longrightarrow> map_of (synthetic_returns (sn_gauss env)) s = Some rs \<Longrightarrow>
    sn_loads env (json_floats (sn_dumps env) (map Fin rs)) = Some (VList (map VFloat (map Fin rs)))"
  by (auto simp: series_json_def dest: map_of_SomeD)

lemma position_facts:
  assumes "p \<in> set SAMPLE_POSITIONS_V1"
  shows "length_ok 1 20 (sp_symbol p) \<and> upper (sp_symbol p) = sp_symbol p \<and> \<not> blank (sp_symbol p) \<and>
    0 \<le> sp_market_value p \<and> 0 \<le> sp_quantity p"
  using assms
  by (auto simp: SAMPLE_POSITIONS_V1_def length_ok_def upper_def upper_char_def code_of_def blank_iff is_ws_def)

lemma first_not_number_floats: "(\<And>x. is_number (f x)) \<Longrightarrow> first_not_number i (map f rs) = None"
  by (induction rs arbitrary: i) simp_all

lemma create_position:
  assumes json: "loads (json_floats dumps (map Fin rs)) = Some (VList (map VFloat (map Fin rs)))"
    and p: "p \<in> set SAMPLE_POSITIONS_V1" and pid: "pid \<noteq> []" "pid \<in> pf_id ` set (portfolios d)"
    and fresh: "fst st \<notin> h_id ` set (holdings d)"
    and h: "h = to_row (holding_of dumps st (position_body pid rs p))"
  shows "rest_create_holding loads dumps st (position_body pid rs p) d =
    (Inr (fst st, sp_symbol p), d\<lparr>holdings := holdings d @ [h]\<rparr>)"
proof -
  let ?h = "holding_of dumps st (position_body pid rs p)"
  note facts = position_facts [OF p]
  have "validate_holding loads ?h = Inr ()"
    using facts pid(1) json
    by (simp add: validate_holding_def holding_of_def position_body_def first_not_number_floats)
  moreover have "\<not> has_nan (to_row ?h) \<and> fk_ok d (to_row ?h) \<and> h_id ?h \<notin> h_id ` set (holdings d)"
    using pid(2) fresh
    by (simp add: has_nan_def fk_ok_def to_row_def holding_of_def position_body_def)
  ultimately show ?thesis
    using facts
    by (simp add: rest_create_holding_def insert_holding_eq h answer_def position_body_def)
      (simp add: holding_of_def)
qed

definition seeded_row :: "seed_env \<Rightarrow> string \<Rightarrow> stamp \<Rightarrow> sample_position \<Rightarrow> holding_row" where
  "seeded_row env pid st p = to_row (holding_of (sn_dumps env) st
     (position_body pid (the (map_of (synthetic_returns (sn_gauss env)) (sp_symbol p))) p))"

fun seeded_rows :: "seed_env \<Rightarrow> string \<Rightarrow> (nat \<Rightarrow> stamp) \<Rightarrow> nat \<Rightarrow> sample_position list \<Rightarrow> holding_row list" where
  "seeded_rows env pid sts i [] = []"
| "seeded_rows env pid sts i (p # ps) = seeded_row env pid (sts i) p # seeded_rows env pid sts (i + 1) ps"

lemma seeded_row_id [simp]: "h_id (seeded_row env pid st p) = fst st"
  by (simp add: seeded_row_def to_row_def holding_of_def)

lemma seed_positions_rows:
  assumes key: "env_get (sn_env env) ''PAE_API_KEY'' = []" and here: "local_url env url"
    and json: "series_json env"
    and ids: "inj (fst \<circ> sts)" and pid: "pid \<noteq> []" "pid \<in> pf_id ` set (portfolios d)"
    and ps: "set ps \<subseteq> set SAMPLE_POSITIONS_V1" and fresh: "\<And>j. i \<le> j \<Longrightarrow> fst (sts j) \<notin> h_id ` set (holdings d)"
  shows "seed_positions url env pid sts i ps d = (Inr (), d\<lparr>holdings := holdings d @ seeded_rows env pid sts i ps\<rparr>)"
  using pid(2) ps fresh
proof (induction ps arbitrary: i d)
  case (Cons p ps)
  have p: "p \<in> set SAMPLE_POSITIONS_V1" using Cons.prems(2) by simp
  obtain rs where rs: "map_of (synthetic_returns (sn_gauss env)) (sp_symbol p) = Some rs" by (rule series_of_seed [OF p])
  let ?h = "seeded_row env pid (sts i) p"
  let ?d = "d\<lparr>holdings := holdings d @ [?h]\<rparr>"
  have h: "?h = to_row (holding_of (sn_dumps env) (sts i) (position_body pid rs p))" by (simp add: seeded_row_def rs)
  have new: "fst (sts i) \<notin> h_id ` set (holdings d)" by (rule Cons.prems(3)) simp
  have "fst (sts j) \<notin> h_id ` set (holdings ?d)" if "i + 1 \<le> j" for j
  proof -
    have "fst (sts j) \<noteq> fst (sts i)" using that injD [OF ids, of j i] by auto
    with Cons.prems(3) [of j] that show ?thesis by simp
  qed
  with Cons.IH [of ?d "i + 1"] Cons.prems(1,2)
  have "seed_positions url env pid sts (i + 1) ps ?d = (Inr (), ?d\<lparr>holdings := holdings ?d @ seeded_rows env pid sts (i + 1) ps\<rparr>)"
    by simp
  then show ?case
    by (simp add: rs keyless_open [OF key here] create_position [where rs = rs and st = "sts i" and d = d and pid = pid and dumps = "sn_dumps env" and loads = "sn_loads env", OF series_jsonD [OF json rs] p pid(1) Cons.prems(1) new h] then_do_def)
qed simp

text \<open>C37: on a loopback server without an API key and without a portfolio of that name, the analytics half
  creates exactly one portfolio, ''Demo Portfolio'', with the three sample holdings of its own, valued
  24,990 in all, and changes nothing else; run again, it leaves everything as it is.\<close>

theorem seed_analytics_once:
  assumes key: "env_get (sn_env env) ''PAE_API_KEY'' = []" and here: "local_url env url"
    and json: "series_json env"
    and ids: "inj (fst \<circ> sts)" "\<And>j. fst (sts j) \<notin> h_id ` set (holdings d)"
    and pid: "fst st \<noteq> []" "fst st \<notin> pf_id ` set (portfolios d)"
    and absent: "''Demo Portfolio'' \<notin> pf_name ` set (portfolios d)"
  shows "\<exists>p rows d'. seed_analytics url env st sts d = (Inr True, d') \<and>
    d' = d\<lparr>portfolios := portfolios d @ [p], holdings := holdings d @ rows\<rparr> \<and>
    pf_id p = fst st \<and> pf_name p = ''Demo Portfolio'' \<and>
    map h_symbol rows = [''CASH-CAD'', ''DEMO-EQ'', ''DEMO-BD''] \<and>
    (\<forall>r \<in> set rows. h_portfolio_id r = fst st) \<and> fl_sum (map h_market_value rows) = Fin 24990 \<and>
    seed_analytics url env st' sts' d' = (Inr False, d')"
proof -
  let ?p = "\<lparr>pf_id = fst st, pf_name = ''Demo Portfolio'',
      pf_description = ''Seeded sample portfolio (fictional data) for first-run exploration.'',
      pf_created_at = snd st, pf_updated_at = snd st\<rparr>"
  let ?d1 = "d\<lparr>portfolios := portfolios d @ [?p]\<rparr>"
  let ?rows = "seeded_rows env (fst st) sts 0 SAMPLE_POSITIONS_V1"
  let ?d2 = "?d1\<lparr>holdings := holdings d @ ?rows\<rparr>"
  obtain items where items: "rest_list_portfolios d = Inr items" "pi_name ` set items = pf_name ` set (portfolios d)"
    by (rule listing_names)
  have none: "\<not> (\<exists>q \<in> set items. pi_name q = ''Demo Portfolio'')"
    using absent unfolding items(2) [symmetric] by (metis imageI)
  have create: "rest_create_portfolio st ''Demo Portfolio''
      ''Seeded sample portfolio (fictional data) for first-run exploration.'' d = (Inr (fst st, ''Demo Portfolio''), ?d1)"
    using pid(2) by (simp add: rest_create_portfolio_def length_ok_def insert_portfolio_eq answer_def)
  have "seed_positions url env (fst st) sts 0 SAMPLE_POSITIONS_V1 ?d1 = (Inr (), ?d1\<lparr>holdings := holdings ?d1 @ ?rows\<rparr>)"
    by (rule seed_positions_rows [OF key here json ids(1) pid(1)]) (use ids(2) in simp_all)
  then have run: "seed_analytics url env st sts d = (Inr True, ?d2)"
    using items(1) none create by (simp add: seed_analytics_def keyless_open [OF key here] then_do_def)
  have again: "seed_analytics url env st' sts' ?d2 = (Inr False, ?d2)"
    by (rule analytics_skips [OF key here refl]) simp
  have rows: "map h_symbol ?rows = [''CASH-CAD'', ''DEMO-EQ'', ''DEMO-BD'']"
    "\<forall>r \<in> set ?rows. h_portfolio_id r = fst st" "fl_sum (map h_market_value ?rows) = Fin 24990"
    by (simp_all add: SAMPLE_POSITIONS_V1_def seeded_row_def to_row_def holding_of_def position_body_def fl_sum_def
        upper_def upper_char_def code_of_def)
  from run again rows show ?thesis by (intro exI [of _ ?p] exI [of _ ?rows] exI [of _ ?d2]) simp
qed

lemma seed_engine_verified_witness:
  "\<exists>s'. seed_engine \<lparr>vn_sha = (\<lambda>x. x), vn_b64 = b64decode\<rparr> (\<lambda>_. ''{}'') (\<lambda>_. (True, 1)) 1 [] = (Inr (True, 2), s')"
proof -
  have env: "good_b64 (vn_b64 \<lparr>vn_sha = (\<lambda>x. x), vn_b64 = b64decode\<rparr>)" by (simp add: good_b64_def)
  have "append_run \<lparr>vn_sha = (\<lambda>x. x), vn_b64 = b64decode\<rparr> [] [] = []" and "created_by 1 []"
    by (simp_all add: append_run_def created_by_def versions_of_def)
  from seed_engine_verified [where dumps = "\<lambda>_. ''{}''" and net = "\<lambda>_. (True, 1)", OF env _ _ this]
  show ?thesis by (auto simp: versions_of_def)
qed

definition sample_seed_env :: seed_env where
  "sample_seed_env = \<lparr>sn_env = (\<lambda>_. None), sn_loads = (\<lambda>_. Some (VList (replicate 36 (VFloat (Fin 0))))),
     sn_dumps = (\<lambda>_. ''[]''), sn_mapped = True, sn_gauss = (\<lambda>_ _ _. 0)\<rparr>"

lemma zero_draws: "(s, rs) \<in> set (draw_series (\<lambda>_ _ _. 0) k ps) \<Longrightarrow> rs = replicate SAMPLE_PERIODS 0"
proof (induction ps arbitrary: k)
  case (Cons p ps)
  have "py_round 0 6 = 0" using py_round_of_int [of 0 6] by simp
  then have "map (\<lambda>i. py_round 0 6) [k..<k + SAMPLE_PERIODS] = replicate SAMPLE_PERIODS 0"
    by (simp add: map_replicate_const)
  moreover obtain symbol mu sigma where "p = (symbol, mu, sigma)" by (cases p)
  ultimately show ?case using Cons by auto
qed simp

theorem seed_analytics_once_witness:
  "\<exists>d'. seed_analytics ''http://localhost:3002'' sample_seed_env (''p'', ''t'') (\<lambda>i. (replicate i (CHR ''h''), ''t'')) empty_db = (Inr True, d') \<and>
     length (portfolios d') = 1 \<and> length (holdings d') = 3"
proof -
  have key: "env_get (sn_env sample_seed_env) ''PAE_API_KEY'' = []" by (simp add: sample_seed_env_def env_get_def)
  have here: "local_url sample_seed_env ''http://localhost:3002''" unfolding sample_seed_env_def by code_simp
  have json: "series_json sample_seed_env"
    using zero_draws [of _ _ 0 SAMPLE_SERIES_PARAMS]
    by (fastforce simp: series_json_def sample_seed_env_def synthetic_returns_def SAMPLE_PERIODS_def)
  have ids: "inj (fst \<circ> (\<lambda>i. (replicate i (CHR ''h''), ''t'')))" by (simp add: inj_def)
  have fresh: "fst (''p'', ''t'') \<noteq> []" "fst (''p'', ''t'') \<notin> pf_id ` set (portfolios empty_db)"
    "''Demo Portfolio'' \<notin> pf_name ` set (portfolios empty_db)"
    "\<And>j. fst (replicate j (CHR ''h''), ''t'') \<notin> h_id ` set (holdings empty_db)" by (simp_all add: empty_db_def)
  note once = seed_analytics_once [where d = empty_db and st = "(''p'', ''t'')" and sts = "\<lambda>i. (replicate i (CHR ''h''), ''t'')"
      and st' = "(''q'', ''t'')" and sts' = "\<lambda>i. (''q'', ''t'')", OF key here json ids fresh(4) fresh(1,2,3)]
  then obtain p rows d' where "seed_analytics ''http://localhost:3002'' sample_seed_env (''p'', ''t'') (\<lambda>i. (replicate i (CHR ''h''), ''t'')) empty_db = (Inr True, d')"
    and "d' = empty_db\<lparr>portfolios := portfolios empty_db @ [p], holdings := holdings empty_db @ rows\<rparr>"
    and "map h_symbol rows = [''CASH-CAD'', ''DEMO-EQ'', ''DEMO-BD'']" by (elim exE conjE) (rule that)
  moreover from arg_cong [OF this(3), of length] have "length rows = 3" by simp
  ultimately show ?thesis by (simp add: empty_db_def)
qed

end
