(* ===== verification/Risk_Metrics.thy ===== *)
theory Risk_Metrics
  imports Yahoo
begin

text \<open>
  The risk metrics of a return series, twice: the functions of the engine, \<^verbatim>\<open>engine/src/risk/metrics.rs\<close>, and
  their mirrors in \<^verbatim>\<open>tools/build_workbook.py\<close>, which the workbook's cached values and its verification use.
  Returns are finite, so exact reals; a power that is no real number is NaN in Rust and a complex number
  in Python. The mirrors are shown to compute what the engine computes.
\<close>

section \<open>The engine\<close>

definition mean_of :: "real list \<Rightarrow> real" where
  "mean_of rs = sum_list rs / real (length rs)"

definition volatility :: "real list \<Rightarrow> real" where
  "volatility rs =
     (if length rs < 2 then 0
      else let mean = mean_of rs;
               variance = sum_list (map (\<lambda>r. (r - mean) ^ 2) rs) / real (length rs - 1)
           in sqrt variance)"

definition sharpe_ratio :: "real list \<Rightarrow> real \<Rightarrow> real" where
  "sharpe_ratio rs risk_free_annual =
     (if length rs < 2 then 0
      else let mean = mean_of rs; vol = volatility rs
           in if vol = 0 then 0 else (mean - risk_free_annual / 12) / vol)"

definition sortino_ratio :: "real list \<Rightarrow> real \<Rightarrow> real" where
  "sortino_ratio rs risk_free_annual =
     (if length rs < 2 then 0
      else let mean = mean_of rs; rf = risk_free_annual / 12;
               downside = map (\<lambda>r. (r - rf) ^ 2) (filter (\<lambda>r. r < rf) rs)
           in if downside = [] then 0
              else let dev = sqrt (mean_of downside)
                   in if dev = 0 then 0 else (mean - rf) / dev)"

text \<open>\<open>as usize\<close> gives 0 for a negative number.\<close>

definition value_at_risk :: "real list \<Rightarrow> real \<Rightarrow> real" where
  "value_at_risk rs alpha =
     (if rs = [] then 0
      else let sorted = sort rs;
               index = min (nat \<lfloor>alpha * real (length sorted)\<rfloor>) (length sorted - 1)
           in - (sorted ! index))"

definition conditional_var :: "real list \<Rightarrow> real \<Rightarrow> real" where
  "conditional_var rs alpha =
     (if rs = [] then 0
      else let sorted = sort rs;
               cutoff = min (max (nat \<lfloor>alpha * real (length sorted)\<rfloor>) 1) (length sorted);
               tail = take cutoff sorted
           in if tail = [] then 0 else - (sum_list tail / real (length tail)))"

text \<open>The wealth after each period, from 1.\<close>

fun cumulate :: "real \<Rightarrow> real list \<Rightarrow> real list" where
  "cumulate c [] = [c]"
| "cumulate c (r # rs) = c # cumulate (c * (1 + r)) rs"

fun drawdown_loop :: "real list \<Rightarrow> real \<Rightarrow> real \<Rightarrow> real" where
  "drawdown_loop [] peak max_dd = max_dd"
| "drawdown_loop (v # vs) peak max_dd =
     (let peak' = (if v > peak then v else peak);
          dd = (peak' - v) / peak'
      in drawdown_loop vs peak' (if peak' > 0 \<and> dd > max_dd then dd else max_dd))"

definition max_drawdown :: "real list \<Rightarrow> real" where
  "max_drawdown rs =
     (if rs = [] then 0 else let cumulative = cumulate 1 rs in drawdown_loop cumulative (hd cumulative) 0)"

definition total_return :: "real list \<Rightarrow> real" where
  "total_return rs = foldl (\<lambda>acc r. acc * (1 + r)) 1 rs - 1"

text \<open>\<open>powf\<close> with the exponent \<open>p / n\<close>: NaN for a negative base unless the exponent is whole.\<close>

definition powf :: "real \<Rightarrow> nat \<Rightarrow> nat \<Rightarrow> pyfloat" where
  "powf x p n =
     (if 0 \<le> x then Fin (x powr (real p / real n))
      else if n dvd p then Fin (x ^ (p div n)) else NaN)"

definition annualized_return :: "real list \<Rightarrow> nat \<Rightarrow> pyfloat" where
  "annualized_return rs ppy =
     (if rs = [] \<or> ppy = 0 then Fin 0
      else let years = real (length rs) / real ppy
           in if years = 0 then Fin 0
              else fl_sub (powf (1 + total_return rs) ppy (length rs)) (Fin 1))"

section \<open>The mirrors\<close>

definition m_volatility :: "real list \<Rightarrow> real" where
  "m_volatility rs = (if length rs < 2 then 0 else sample_std rs)"

definition m_sharpe :: "real list \<Rightarrow> real \<Rightarrow> real" where
  "m_sharpe rs risk_free_annual =
     (if length rs < 2 then 0
      else let vol = m_volatility rs
           in if vol = 0 then 0 else (mean_of rs - risk_free_annual / 12) / vol)"

definition m_sortino :: "real list \<Rightarrow> real \<Rightarrow> real" where
  "m_sortino rs risk_free_annual =
     (if length rs < 2 then 0
      else let rf_p = risk_free_annual / 12; mean = mean_of rs;
               dd = [(r - rf_p) ^ 2. r \<leftarrow> rs, r < rf_p]
           in if dd = [] then 0
              else let ddev = sqrt (sum_list dd / real (length dd))
                   in if ddev = 0 then 0 else (mean - rf_p) / ddev)"

definition drawdown_step :: "real \<times> real \<Rightarrow> real \<Rightarrow> real \<times> real" where
  "drawdown_step s v =
     (let peak = max (fst s) v
      in (peak, if peak > 0 then max (snd s) ((peak - v) / peak) else snd s))"

definition m_max_drawdown :: "real list \<Rightarrow> real" where
  "m_max_drawdown rs =
     (if rs = [] then 0
      else let cum = cumulate 1 rs in snd (foldl drawdown_step (hd cum, 0) cum))"

text \<open>\<open>s[i]\<close> of a list: a negative index counts from the end; None is an IndexError.\<close>

definition list_item :: "'a list \<Rightarrow> int \<Rightarrow> 'a option" where
  "list_item xs i =
     (let j = (if i < 0 then i + int (length xs) else i)
      in if 0 \<le> j \<and> j < int (length xs) then Some (xs ! nat j) else None)"

definition m_var :: "real list \<Rightarrow> real \<Rightarrow> real option" where
  "m_var rs alpha =
     (if rs = [] then Some 0
      else let s = sort rs;
               idx = min \<lfloor>alpha * real (length s)\<rfloor> (int (length s) - 1)
           in map_option uminus (list_item s idx))"

definition m_cvar :: "real list \<Rightarrow> real \<Rightarrow> real" where
  "m_cvar rs alpha =
     (if rs = [] then 0
      else let s = sort rs;
               cut = min (max 1 \<lfloor>alpha * real (length s)\<rfloor>) (int (length s));
               tail = take (nat cut) s
           in - sum_list tail / real (length tail))"

definition m_total_return :: "real list \<Rightarrow> real" where
  "m_total_return rs = foldl (\<lambda>tot r. tot * (1 + r)) 1 rs - 1"

text \<open>None is a complex number.\<close>

definition py_power :: "real \<Rightarrow> nat \<Rightarrow> nat \<Rightarrow> real option" where
  "py_power x p n =
     (if 0 \<le> x then Some (x powr (real p / real n))
      else if n dvd p then Some (x ^ (p div n)) else None)"

definition m_annualized_return :: "real list \<Rightarrow> nat \<Rightarrow> real option" where
  "m_annualized_return rs ppy =
     (if rs = [] \<or> ppy = 0 then Some 0
      else map_option (\<lambda>g. g - 1) (py_power (1 + m_total_return rs) ppy (length rs)))"

text \<open>The power and the return as Python computes them, complex numbers included: the power of a negative
  number has the argument \<open>pi\<close> times the exponent.\<close>

definition py_power_value :: "real \<Rightarrow> nat \<Rightarrow> nat \<Rightarrow> complex" where
  "py_power_value x p n =
     (case py_power x p n of
        Some y \<Rightarrow> complex_of_real y
      | None \<Rightarrow> rcis (\<bar>x\<bar> powr (real p / real n)) (pi * (real p / real n)))"

definition m_annualized_value :: "real list \<Rightarrow> nat \<Rightarrow> complex" where
  "m_annualized_value rs ppy =
     (if rs = [] \<or> ppy = 0 then 0 else py_power_value (1 + m_total_return rs) ppy (length rs) - 1)"

lemma m_annualized_value_real:
  "m_annualized_return rs ppy = Some a \<Longrightarrow> m_annualized_value rs ppy = complex_of_real a"
  by (auto simp: m_annualized_return_def m_annualized_value_def py_power_value_def split: if_splits)

section \<open>Properties\<close>

lemma drawdown_loop_fold: "drawdown_loop vs peak mdd = snd (foldl drawdown_step (peak, mdd) vs)"
proof (induction vs arbitrary: peak mdd)
  case (Cons v vs)
  have "drawdown_step (peak, mdd) v =
      (let peak' = (if v > peak then v else peak); dd = (peak' - v) / peak'
       in (peak', if peak' > 0 \<and> dd > mdd then dd else mdd))"
    by (auto simp: drawdown_step_def Let_def max_def)
  then show ?case by (simp add: Cons.IH Let_def)
qed simp

lemma list_item_nat: "n < length xs \<Longrightarrow> list_item xs (int n) = Some (xs ! n)"
  by (simp add: list_item_def)

lemma m_var_engine:
  assumes "0 \<le> alpha"
  shows "m_var rs alpha = Some (value_at_risk rs alpha)"
proof (cases "rs = []")
  case False
  let ?n = "length rs" let ?k = "nat \<lfloor>alpha * real ?n\<rfloor>"
  have floor: "\<lfloor>alpha * real ?n\<rfloor> = int ?k" using assms by simp
  have pred: "int ?n - 1 = int (?n - 1)" using False by (simp add: of_nat_diff Suc_leI)
  have idx: "min \<lfloor>alpha * real ?n\<rfloor> (int ?n - 1) = int (min ?k (?n - 1))"
    using floor pred by (metis of_nat_min)
  have "min ?k (?n - 1) < length (sort rs)" using False by (simp add: min_less_iff_disj)
  then have "list_item (sort rs) (int (min ?k (?n - 1))) = Some (sort rs ! min ?k (?n - 1))" by (rule list_item_nat)
  with False show ?thesis
    by (simp only: m_var_def value_at_risk_def Let_def length_sort idx if_False option.map)
qed (simp add: m_var_def value_at_risk_def)

lemma nat_clip: "nat (min (max 1 z) (int n)) = min (max (nat z) 1) n"
  by (cases "0 \<le> z") (auto simp: min_def max_def)

lemma m_cvar_engine: "m_cvar rs alpha = conditional_var rs alpha"
proof (cases "rs = []")
  case False
  let ?n = "length rs"
  have "nat (min (max 1 \<lfloor>alpha * real ?n\<rfloor>) (int ?n)) = min (max (nat \<lfloor>alpha * real ?n\<rfloor>) 1) ?n"
    by (rule nat_clip)
  moreover have "sort rs \<noteq> []" using False by (metis length_sort length_0_conv)
  then have "take (min (max (nat \<lfloor>alpha * real ?n\<rfloor>) 1) ?n) (sort rs) \<noteq> []" using False by (simp add: less_max_iff_disj)
  ultimately show ?thesis using False
    by (simp add: m_cvar_def conditional_var_def Let_def)
qed (simp add: m_cvar_def conditional_var_def)

lemma m_volatility_engine: "m_volatility rs = volatility rs"
  by (simp add: m_volatility_def volatility_def sample_std_def mean_of_def Let_def)

lemma m_sharpe_engine: "m_sharpe rs rf = sharpe_ratio rs rf"
  by (simp add: m_sharpe_def sharpe_ratio_def m_volatility_engine Let_def)

lemma m_sortino_engine: "m_sortino rs rf = sortino_ratio rs rf"
proof -
  have dd: "[(r - c) ^ 2. r \<leftarrow> rs, r < c] = map (\<lambda>r. (r - c) ^ 2) (filter (\<lambda>r. r < c) rs)" for c :: real
    by (induction rs) simp_all
  show ?thesis by (simp only: m_sortino_def sortino_ratio_def dd Let_def mean_of_def)
qed

lemma m_total_return_engine: "m_total_return rs = total_return rs"
  by (simp add: m_total_return_def total_return_def)

lemma m_max_drawdown_engine: "m_max_drawdown rs = max_drawdown rs"
  by (simp add: m_max_drawdown_def max_drawdown_def drawdown_loop_fold Let_def)

text \<open>C19: the mirrors of the workbook compute exactly the engine's metrics, for every return series, risk-free
  rate and non-negative tail share; where the engine's annualised return is NaN, the mirror's is a complex
  number.\<close>

theorem mirrors_match_engine:
  assumes "0 \<le> alpha"
  shows "m_volatility rs = volatility rs \<and> m_sharpe rs rf = sharpe_ratio rs rf \<and> m_sortino rs rf = sortino_ratio rs rf \<and>
    m_max_drawdown rs = max_drawdown rs \<and> m_var rs alpha = Some (value_at_risk rs alpha) \<and>
    m_cvar rs alpha = conditional_var rs alpha \<and> m_total_return rs = total_return rs \<and>
    annualized_return rs ppy = (case m_annualized_return rs ppy of None \<Rightarrow> NaN | Some v \<Rightarrow> Fin v)"
proof -
  have ann: "annualized_return rs ppy = (case m_annualized_return rs ppy of None \<Rightarrow> NaN | Some v \<Rightarrow> Fin v)"
    by (auto simp: annualized_return_def m_annualized_return_def Let_def powf_def py_power_def total_return_def
        m_total_return_def fl_sub_def)
  show ?thesis
    using m_volatility_engine m_sharpe_engine m_sortino_engine m_max_drawdown_engine m_var_engine [OF assms] m_cvar_engine
      m_total_return_engine ann by blast
qed

theorem mirrors_match_engine_witness:
  "m_var [1 / 50, - 1 / 25] (1 / 20) = Some (value_at_risk [1 / 50, - 1 / 25] (1 / 20)) \<and>
   m_cvar [1 / 50, - 1 / 25] (1 / 20) = conditional_var [1 / 50, - 1 / 25] (1 / 20)"
  using mirrors_match_engine [of "1 / 20" "[1 / 50, - 1 / 25]" 0 12] by simp

definition drawdown_of :: "real list \<Rightarrow> nat \<Rightarrow> nat \<Rightarrow> real" where
  "drawdown_of w i j = (w ! i - w ! j) / w ! i"

text \<open>After a prefix of the wealth, the state has its peak and its largest fall.\<close>

definition largest_fall :: "real list \<Rightarrow> real \<Rightarrow> bool" where
  "largest_fall w m \<longleftrightarrow> (\<forall>i j. i \<le> j \<and> j < length w \<longrightarrow> drawdown_of w i j \<le> m) \<and>
     (\<exists>i j. i \<le> j \<and> j < length w \<and> m = drawdown_of w i j)"

lemma drawdown_of_append [simp]: "i < length w \<Longrightarrow> j < length w \<Longrightarrow> drawdown_of (w @ [v]) i j = drawdown_of w i j"
  by (simp add: drawdown_of_def nth_append)

lemma drawdown_state:
  assumes "w \<noteq> []" and "list_all (\<lambda>v. 0 < v) w"
  shows "\<exists>peak m. foldl drawdown_step (hd w, 0) w = (peak, m) \<and> peak \<in> set w \<and> (\<forall>v \<in> set w. v \<le> peak) \<and> largest_fall w m"
  using assms
proof (induction w rule: rev_induct)
  case (snoc v w)
  have v: "0 < v" using snoc.prems by simp
  show ?case
  proof (cases "w = []")
    case True
    then show ?thesis using v by (simp add: drawdown_step_def largest_fall_def drawdown_of_def)
  next
    case False
    with snoc obtain peak m where st: "foldl drawdown_step (hd w, 0) w = (peak, m)" and p: "peak \<in> set w" "\<forall>x \<in> set w. x \<le> peak"
      and m: "largest_fall w m" by auto
    have pos: "0 < x" if "x \<in> set w" for x using snoc.prems(2) that by (auto simp: list_all_iff)
    let ?p = "max peak v" let ?m = "max m ((?p - v) / ?p)"
    have q: "0 < ?p" using v by (simp add: less_max_iff_disj)
    have state: "foldl drawdown_step (hd (w @ [v]), 0) (w @ [v]) = (?p, ?m)"
      using False st v by (simp add: drawdown_step_def Let_def less_max_iff_disj)
    have "drawdown_of (w @ [v]) i j \<le> ?m" if ij: "i \<le> j" "j < length (w @ [v])" for i j
    proof (cases "j < length w")
      case True
      with ij m show ?thesis by (simp add: largest_fall_def le_max_iff_disj)
    next
      case last: False
      then have j: "j = length w" using ij by simp
      have le: "(w @ [v]) ! i \<le> ?p" and gt: "0 < (w @ [v]) ! i"
        using ij p(2) pos v j by (auto simp: nth_append le_max_iff_disj)
      have "v / ?p \<le> v / (w @ [v]) ! i" using le gt v by (simp add: frac_le)
      then have "drawdown_of (w @ [v]) i j \<le> (?p - v) / ?p"
        using gt q by (simp add: drawdown_of_def j diff_divide_distrib)
      then show ?thesis by simp
    qed
    moreover have "\<exists>i j. i \<le> j \<and> j < length (w @ [v]) \<and> ?m = drawdown_of (w @ [v]) i j"
    proof (cases "?m = m")
      case True
      from m obtain i j where "i \<le> j" "j < length w" "m = drawdown_of w i j" by (auto simp: largest_fall_def)
      with True show ?thesis by (intro exI [of _ i] exI [of _ j]) simp
    next
      case new: False
      then have mdd: "?m = (?p - v) / ?p" by (simp add: max_def split: if_splits)
      from p(1) obtain i where i: "i < length w" "w ! i = peak" by (auto simp: in_set_conv_nth)
      show ?thesis
      proof (cases "v \<le> peak")
        case True
        with i mdd show ?thesis
          by (intro exI [of _ i] exI [of _ "length w"]) (simp add: drawdown_of_def nth_append max_def)
      next
        case False
        with mdd show ?thesis
          by (intro exI [of _ "length w"]) (simp add: drawdown_of_def max_def)
      qed
    qed
    ultimately have "largest_fall (w @ [v]) ?m" by (simp add: largest_fall_def)
    moreover have "?p \<in> set (w @ [v])" and "\<forall>x \<in> set (w @ [v]). x \<le> ?p"
      using p by (auto simp: max_def)
    ultimately show ?thesis using state by blast
  qed
qed simp

lemma cumulate_not_Nil [simp]: "cumulate c rs \<noteq> []"
  by (cases rs) simp_all

lemma cumulate_positive: "0 < c \<Longrightarrow> list_all (\<lambda>r. - 1 < r) rs \<Longrightarrow> list_all (\<lambda>v. 0 < v) (cumulate c rs)"
  by (induction rs arbitrary: c) simp_all

lemma sum_list_le_nth:
  assumes "sorted xs" and "c \<le> k + 1" and "k < length xs"
  shows "sum_list (take c xs) \<le> real (length (take c xs)) * xs ! k"
proof -
  have "x \<le> xs ! k" if "x \<in> set (take c xs)" for x
    using that assms by (auto simp: in_set_conv_nth intro!: sorted_nth_mono)
  then have "sum_list (map (\<lambda>x. x) (take c xs)) \<le> sum_list (map (\<lambda>_. xs ! k) (take c xs))"
    by (intro sum_list_mono) simp
  then show ?thesis by (simp add: sum_list_triv)
qed

text \<open>C40: for returns above -100%, the maximum drawdown is the largest relative fall from any wealth to a
  later one, and at most 1; and whatever the returns, the expected shortfall is never below the value
  at risk of the same tail share.\<close>

theorem risk_metrics_meaning:
  assumes above: "list_all (\<lambda>r. - 1 < r) rs" and ne: "rs \<noteq> []" and alpha: "0 \<le> alpha"
  shows "largest_fall (cumulate 1 rs) (max_drawdown rs) \<and> 0 \<le> max_drawdown rs \<and> max_drawdown rs < 1 \<and>
    value_at_risk rs alpha \<le> conditional_var rs alpha \<and> 0 \<le> volatility rs"
proof -
  let ?w = "cumulate 1 rs"
  have pos: "list_all (\<lambda>v. 0 < v) ?w" using above by (simp add: cumulate_positive)
  from drawdown_state [OF cumulate_not_Nil pos] have fall: "largest_fall ?w (max_drawdown rs)"
    using ne by (auto simp: max_drawdown_def drawdown_loop_fold Let_def)
  have len: "0 < length ?w" by simp
  have "0 = drawdown_of ?w 0 0" by (simp add: drawdown_of_def)
  with fall len have low: "0 \<le> max_drawdown rs" by (metis largest_fall_def le_refl)
  from fall obtain i j where ij: "i \<le> j" "j < length ?w" "max_drawdown rs = drawdown_of ?w i j"
    by (auto simp: largest_fall_def)
  have "0 < ?w ! i" and "0 < ?w ! j" using pos ij(1,2) by (auto simp: list_all_length)
  then have high: "max_drawdown rs < 1" by (simp add: ij(3) drawdown_of_def)
  let ?n = "length rs" let ?k = "nat \<lfloor>alpha * real ?n\<rfloor>"
  have "min (max ?k 1) ?n \<le> min ?k (?n - 1) + 1" and "min ?k (?n - 1) < length (sort rs)"
    using ne by (auto simp: min_def max_def Suc_leI le_less_trans [OF _ diff_Suc_less])
  from sum_list_le_nth [OF sorted_sort this]
  have "sum_list (take (min (max ?k 1) ?n) (sort rs)) \<le>
      real (length (take (min (max ?k 1) ?n) (sort rs))) * sort rs ! min ?k (?n - 1)" .
  moreover have "0 < length (take (min (max ?k 1) ?n) (sort rs))" using ne by (simp add: less_max_iff_disj)
  ultimately have "sum_list (take (min (max ?k 1) ?n) (sort rs)) / real (length (take (min (max ?k 1) ?n) (sort rs))) \<le>
      sort rs ! min ?k (?n - 1)" by (simp only: divide_le_eq of_nat_0_less_iff mult.commute) simp
  then have "value_at_risk rs alpha \<le> conditional_var rs alpha"
    using ne \<open>0 < length (take (min (max ?k 1) ?n) (sort rs))\<close>
    by (auto simp: value_at_risk_def conditional_var_def Let_def)
  moreover have "0 \<le> volatility rs"
    by (auto simp: volatility_def Let_def intro!: divide_nonneg_nonneg sum_list_nonneg)
  ultimately show ?thesis using fall low high by blast
qed

theorem risk_metrics_meaning_witness:
  "max_drawdown [1 / 10, - 1 / 2] < 1 \<and> value_at_risk [1 / 10, - 1 / 2] (1 / 20) \<le> conditional_var [1 / 10, - 1 / 2] (1 / 20)"
  using risk_metrics_meaning [of "[1 / 10, - 1 / 2]" "1 / 20"] by simp

end
