(* ===== verification/Workbook.thy ===== *)
theory Workbook
  imports Risk_Metrics
begin

text \<open>
  The spreadsheet companion: \<^verbatim>\<open>tools/build_workbook.py\<close>, which writes a workbook of formulas with their cached
  values, and \<^verbatim>\<open>tools/verify_workbook.py\<close>, which checks one. A formula is a term whose text is the text the
  script writes; what it evaluates to follows the documentation of the spreadsheet functions. The
  builder takes the sample data as an argument. Texts that no formula reads, formats and the file format
  are left out.
\<close>

section \<open>Formulas\<close>

datatype sheet = DISCLOSURE | INPUT_Holdings | RETURNS | RISK | FACTORS | SCENARIOS | DASHBOARD

type_synonym coord = "char \<times> nat"

text \<open>A reference with its column and row, each absolute or not.\<close>

datatype ref = Ref bool char bool nat

datatype operator = Add | Sub | Mul | Div | Power | Less | Equal

datatype function_name =
    SUM_RANGE | SUMPRODUCT | STDEV | SQRT | AVERAGE | IF_ELSE | COUNTIF | MAXIMUM | INDEX | INT_PART | COUNT | SMALL | ROWS | SUMIF

datatype formula =
    Lit nat
  | Hundredths nat
  | At "sheet option" ref
  | Area "sheet option" ref ref
  | Op operator formula formula
  | Negative formula
  | Paren formula
  | Below formula
  | Span formula formula
  | Fn function_name "formula list"

fun show_sheet :: "sheet \<Rightarrow> string" where
  "show_sheet DISCLOSURE = ''DISCLOSURE''"
| "show_sheet INPUT_Holdings = ''INPUT_Holdings''"
| "show_sheet RETURNS = ''RETURNS''"
| "show_sheet RISK = ''RISK''"
| "show_sheet FACTORS = ''FACTORS''"
| "show_sheet SCENARIOS = ''SCENARIOS''"
| "show_sheet DASHBOARD = ''DASHBOARD''"

fun show_ref :: "ref \<Rightarrow> string" where
  "show_ref (Ref ac c ar r) = (if ac then ''$'' else []) @ [c] @ (if ar then ''$'' else []) @ dec r"

fun show_on :: "sheet option \<Rightarrow> string" where
  "show_on None = []"
| "show_on (Some s) = show_sheet s @ ''!''"

fun show_op :: "operator \<Rightarrow> string" where
  "show_op Add = ''+''" | "show_op Sub = ''-''" | "show_op Mul = ''*''" | "show_op Div = ''/''"
| "show_op Power = ''^''" | "show_op Less = ''<''" | "show_op Equal = ''=''"

fun show_fn :: "function_name \<Rightarrow> string" where
  "show_fn SUM_RANGE = ''SUM''" | "show_fn SUMPRODUCT = ''SUMPRODUCT''" | "show_fn STDEV = ''STDEV''"
| "show_fn SQRT = ''SQRT''" | "show_fn AVERAGE = ''AVERAGE''" | "show_fn IF_ELSE = ''IF''"
| "show_fn COUNTIF = ''COUNTIF''" | "show_fn MAXIMUM = ''MAX''" | "show_fn INDEX = ''INDEX''"
| "show_fn INT_PART = ''INT''" | "show_fn COUNT = ''COUNT''" | "show_fn SMALL = ''SMALL''"
| "show_fn ROWS = ''ROWS''" | "show_fn SUMIF = ''SUMIF''"

fun commas :: "string list \<Rightarrow> string" where
  "commas [] = []"
| "commas [x] = x"
| "commas (x # y # xs) = x @ '','' @ commas (y # xs)"

fun show_formula :: "formula \<Rightarrow> string" where
  "show_formula (Lit n) = dec n"
| "show_formula (Hundredths n) = ''0.'' @ (if n < 10 then ''0'' else []) @ dec n"
| "show_formula (At s r) = show_on s @ show_ref r"
| "show_formula (Area s a b) = show_on s @ show_ref a @ '':'' @ show_ref b"
| "show_formula (Op oper f g) = show_formula f @ show_op oper @ show_formula g"
| "show_formula (Negative f) = ''-'' @ show_formula f"
| "show_formula (Paren f) = ''('' @ show_formula f @ '')''"
| "show_formula (Below f) = [CHR 0x22, CHR ''<'', CHR 0x22, CHR ''&''] @ show_formula f"
| "show_formula (Span f g) = show_formula f @ '':'' @ show_formula g"
| "show_formula (Fn fn args) = show_fn fn @ ''('' @ commas (map show_formula args) @ '')''"

definition formula_text :: "formula \<Rightarrow> string" where
  "formula_text f = ''='' @ show_formula f"

section \<open>Evaluation\<close>

text \<open>The value of a cell: a number, a text, nothing, or an error such as \<open>#DIV/0!\<close>.\<close>

datatype sheet_value = N real | T string | Blank | Err

text \<open>The numbers of a range; texts and blanks are not counted, an error is passed on.\<close>

definition numbers :: "sheet_value list \<Rightarrow> real list" where
  "numbers vs = List.map_filter (\<lambda>v. case v of N x \<Rightarrow> Some x | _ \<Rightarrow> None) vs"

definition on_numbers :: "(real list \<Rightarrow> sheet_value) \<Rightarrow> sheet_value list \<Rightarrow> sheet_value" where
  "on_numbers f vs = (if Err \<in> set vs then Err else f (numbers vs))"

definition sheet_power :: "real \<Rightarrow> real \<Rightarrow> sheet_value" where
  "sheet_power x y =
     (if y = real_of_int \<lfloor>y\<rfloor> then (if x = 0 \<and> y \<le> 0 then Err else N (x powi \<lfloor>y\<rfloor>))
      else if 0 < x then N (x powr y) else if x = 0 \<and> 0 < y then N 0 else Err)"

fun apply_op :: "operator \<Rightarrow> sheet_value \<Rightarrow> sheet_value \<Rightarrow> sheet_value" where
  "apply_op oper (N x) (N y) =
     (case oper of
        Add \<Rightarrow> N (x + y) | Sub \<Rightarrow> N (x - y) | Mul \<Rightarrow> N (x * y)
      | Div \<Rightarrow> (if y = 0 then Err else N (x / y))
      | Power \<Rightarrow> sheet_power x y
      | Less \<Rightarrow> N (if x < y then 1 else 0)
      | Equal \<Rightarrow> N (if x = y then 1 else 0))"
| "apply_op oper _ _ = Err"

text \<open>An operator on ranges works element by element, a single value is repeated.\<close>

definition broadcast :: "(sheet_value \<Rightarrow> sheet_value \<Rightarrow> sheet_value) \<Rightarrow> sheet_value list \<Rightarrow> sheet_value list \<Rightarrow> sheet_value list" where
  "broadcast f xs ys =
     (if length ys = 1 then map (\<lambda>x. f x (hd ys)) xs
      else if length xs = 1 then map (\<lambda>y. f (hd xs) y) ys
      else map2 f xs ys)"

fun one_number :: "sheet_value list \<Rightarrow> real option" where
  "one_number [N x] = Some x"
| "one_number _ = None"

text \<open>Element number \<open>k\<close> of a range, from 1.\<close>

definition item :: "sheet_value list \<Rightarrow> real \<Rightarrow> sheet_value" where
  "item xs k = (let i = \<lfloor>k\<rfloor> in if 1 \<le> i \<and> nat i \<le> length xs then xs ! (nat i - 1) else Err)"

definition same_text :: "sheet_value \<Rightarrow> sheet_value \<Rightarrow> bool" where
  "same_text a b = (case (a, b) of (T s, T t) \<Rightarrow> lower s = lower t | _ \<Rightarrow> False)"

fun apply_fn :: "function_name \<Rightarrow> sheet_value list list \<Rightarrow> sheet_value" where
  "apply_fn SUM_RANGE [xs] = on_numbers (\<lambda>ns. N (sum_list ns)) xs"
| "apply_fn SUMPRODUCT [xs] = on_numbers (\<lambda>ns. N (sum_list ns)) xs"
| "apply_fn SUMPRODUCT [xs, ys] = on_numbers (\<lambda>ns. N (sum_list ns)) (map2 (apply_op Mul) xs ys)"
| "apply_fn STDEV [xs] = on_numbers (\<lambda>ns. if length ns < 2 then Err else N (sample_std ns)) xs"
| "apply_fn SQRT [xs] = (case one_number xs of Some x \<Rightarrow> if x < 0 then Err else N (sqrt x) | None \<Rightarrow> Err)"
| "apply_fn AVERAGE [xs] = on_numbers (\<lambda>ns. if ns = [] then Err else N (mean_of ns)) xs"
| "apply_fn IF_ELSE [c, [a], [b]] = (case one_number c of Some x \<Rightarrow> if x \<noteq> 0 then a else b | None \<Rightarrow> Err)"
| "apply_fn COUNTIF [xs, c] =
     (case one_number c of Some x \<Rightarrow> N (real (length (filter (\<lambda>v. v < x) (numbers xs)))) | None \<Rightarrow> Err)"
| "apply_fn MAXIMUM [xs] = on_numbers (\<lambda>ns. if ns = [] then N 0 else N (Max (set ns))) xs"
| "apply_fn MAXIMUM [xs, ys] = on_numbers (\<lambda>ns. if ns = [] then N 0 else N (Max (set ns))) (xs @ ys)"
| "apply_fn INDEX [xs, k] = (case one_number k of Some x \<Rightarrow> item xs x | None \<Rightarrow> Err)"
| "apply_fn INT_PART [xs] = (case one_number xs of Some x \<Rightarrow> N (real_of_int \<lfloor>x\<rfloor>) | None \<Rightarrow> Err)"
| "apply_fn COUNT [xs] = N (real (length (numbers xs)))"
| "apply_fn SMALL [xs, k] =
     (case one_number k of
        Some x \<Rightarrow> on_numbers (\<lambda>ns. item (map N (sort ns)) x) xs
      | None \<Rightarrow> Err)"
| "apply_fn ROWS [xs] = N (real (length xs))"
| "apply_fn SUMIF [keys, [k], xs] =
     on_numbers (\<lambda>ns. N (sum_list ns)) (map snd (filter (\<lambda>p. same_text (fst p) k) (zip keys xs)))"
| "apply_fn _ _ = Err"

text \<open>A part of a range, from element \<open>a\<close> to element \<open>b\<close> in either order.\<close>

definition range_part :: "sheet_value list \<Rightarrow> real \<Rightarrow> real \<Rightarrow> sheet_value list" where
  "range_part xs a b =
     (let i = nat \<lfloor>min a b\<rfloor>; j = nat \<lfloor>max a b\<rfloor>
      in if 1 \<le> i \<and> j \<le> length xs then take (j + 1 - i) (drop (i - 1) xs) else [Err])"

text \<open>The cells of a column from row \<open>a\<close> to row \<open>b\<close>; every range of the script is one.\<close>

definition col_range :: "(coord \<Rightarrow> sheet_value) \<Rightarrow> char \<Rightarrow> nat \<Rightarrow> nat \<Rightarrow> sheet_value list" where
  "col_range w c a b = map (\<lambda>k. w (c, k)) [a..<b + 1]"

text \<open>
  The values of the cells are the first argument, the sheet of the formula the second. \<open>Below\<close> is the criterion
  of \<open>COUNTIF\<close>, a text made of a number and read back; the number is kept as it is.
\<close>

fun eval_formula :: "(sheet \<Rightarrow> coord \<Rightarrow> sheet_value) \<Rightarrow> sheet \<Rightarrow> formula \<Rightarrow> sheet_value list" where
  "eval_formula w s (Lit n) = [N (real n)]"
| "eval_formula w s (Hundredths n) = [N (real n / 100)]"
| "eval_formula w s (At on (Ref _ c _ r)) = [w (case on of None \<Rightarrow> s | Some t \<Rightarrow> t) (c, r)]"
| "eval_formula w s (Area on (Ref _ c _ r) (Ref _ _ _ r')) = col_range (w (case on of None \<Rightarrow> s | Some t \<Rightarrow> t)) c r r'"
| "eval_formula w s (Op oper f g) = broadcast (apply_op oper) (eval_formula w s f) (eval_formula w s g)"
| "eval_formula w s (Negative f) = map (apply_op Sub (N 0)) (eval_formula w s f)"
| "eval_formula w s (Paren f) = eval_formula w s f"
| "eval_formula w s (Below f) = eval_formula w s f"
| "eval_formula w s (Span (Fn INDEX [xs, a]) (Fn INDEX [_, b])) =
     (case (one_number (eval_formula w s a), one_number (eval_formula w s b)) of
        (Some i, Some j) \<Rightarrow> range_part (eval_formula w s xs) i j
      | _ \<Rightarrow> [Err])"
| "eval_formula w s (Span _ _) = [Err]"
| "eval_formula w s (Fn fn args) = [apply_fn fn (map (eval_formula w s) args)]"

section \<open>Sheets\<close>

datatype sheet_cell = Text string | Num real | Formula formula real

type_synonym cells = "coord \<Rightarrow> sheet_cell option"

definition shown_value :: "sheet_cell option \<Rightarrow> sheet_value" where
  "shown_value c = (case c of None \<Rightarrow> Blank | Some (Text t) \<Rightarrow> T t | Some (Num x) \<Rightarrow> N x | Some (Formula _ x) \<Rightarrow> N x)"

text \<open>One row of cells for each element of a list.\<close>

fun fill_rows :: "(nat \<Rightarrow> 'a \<Rightarrow> char \<Rightarrow> sheet_cell option) \<Rightarrow> nat \<Rightarrow> 'a list \<Rightarrow> cells \<Rightarrow> cells" where
  "fill_rows row r [] w = w"
| "fill_rows row r (x # xs) w =
     fill_rows row (r + 1) xs (\<lambda>(c, k). if k = r \<and> row r x c \<noteq> None then row r x c else w (c, k))"

definition put :: "char \<Rightarrow> nat \<Rightarrow> sheet_cell \<Rightarrow> cells \<Rightarrow> cells" where
  "put c r x w = w((c, r) \<mapsto> x)"

abbreviation col_A :: char where "col_A \<equiv> CHR ''A''"
abbreviation col_B :: char where "col_B \<equiv> CHR ''B''"
abbreviation col_C :: char where "col_C \<equiv> CHR ''C''"
abbreviation col_D :: char where "col_D \<equiv> CHR ''D''"
abbreviation col_E :: char where "col_E \<equiv> CHR ''E''"
abbreviation col_F :: char where "col_F \<equiv> CHR ''F''"
abbreviation col_G :: char where "col_G \<equiv> CHR ''G''"

abbreviation rel :: "char \<Rightarrow> nat \<Rightarrow> ref" where "rel c r \<equiv> Ref False c False r"
abbreviation fixed :: "char \<Rightarrow> nat \<Rightarrow> ref" where "fixed c r \<equiv> Ref True c True r"
abbreviation here :: "char \<Rightarrow> nat \<Rightarrow> formula" where "here c r \<equiv> At None (rel c r)"
abbreviation rows_of :: "char \<Rightarrow> nat \<Rightarrow> nat \<Rightarrow> formula" where "rows_of c r k \<equiv> Area None (rel c r) (rel c k)"

text \<open>The data of the script.\<close>

record wb_holding =
  wh_symbol :: string
  wh_class :: string
  wh_quantity :: real
  wh_price :: real
  wh_cost :: real
  wh_yield :: real

record wb_data =
  wd_holdings :: "wb_holding list"
  wd_returns :: "(string \<times> real) list"
  wd_risk_free :: real
  wd_factors :: "(string \<times> real \<times> real) list"
  wd_alpha :: real
  wd_shocks :: "(string \<times> real list) list"

definition SHOCK_CLASSES :: "string list" where
  "SHOCK_CLASSES = [''Equity'', ''Fixed Income'', ''Commodity'', ''Real Estate'', ''Preferred'', ''Cash'']"

definition wb_market_value :: "wb_holding \<Rightarrow> real" where
  "wb_market_value h = wh_quantity h * wh_price h"

definition nav_of :: "wb_data \<Rightarrow> real" where
  "nav_of d = sum_list (map wb_market_value (wd_holdings d))"

definition cost_of :: "wb_data \<Rightarrow> real" where
  "cost_of d = sum_list (map wh_cost (wd_holdings d))"

definition rets_of :: "wb_data \<Rightarrow> real list" where
  "rets_of d = map snd (wd_returns d)"

section \<open>The builders\<close>

text \<open>
  The errors of the script on data for which a cached value has no meaning. A complex annualised return
  is written as it is by the script and is an error of the model.
\<close>

datatype wb_exc = DivisionByZero | NoReturns | IndexOut | ComplexValue | KeyMissing string

fun holding_cell :: "nat \<Rightarrow> wb_holding \<Rightarrow> char \<Rightarrow> sheet_cell option" where
  "holding_cell r h c =
     (if c = col_A then Some (Text (wh_symbol h))
      else if c = col_B then Some (Text (wh_class h))
      else if c = col_C then Some (Num (wh_quantity h))
      else if c = col_D then Some (Num (wh_price h))
      else if c = col_E then Some (Formula (Op Mul (here col_C r) (here col_D r)) (wb_market_value h))
      else if c = col_F then Some (Num (wh_cost h))
      else if c = col_G then Some (Num (wh_yield h))
      else None)"

definition build_holdings :: "wb_data \<Rightarrow> wb_exc + cells" where
  "build_holdings d =
     (let hs = wd_holdings d; r = 4 + length hs; tot_mv = nav_of d
      in if tot_mv = 0 then Inl DivisionByZero
         else Inr (put col_A r (Text ''TOTAL'')
              (put col_E r (Formula (Fn SUM_RANGE [rows_of col_E 4 (r - 1)]) tot_mv)
              (put col_F r (Formula (Fn SUM_RANGE [rows_of col_F 4 (r - 1)]) (cost_of d))
              (put col_G r (Formula (Op Div (Fn SUMPRODUCT [rows_of col_E 4 (r - 1), rows_of col_G 4 (r - 1)]) (here col_E r))
                     (sum_list (map (\<lambda>h. wh_quantity h * wh_price h * wh_yield h) hs) / tot_mv))
              (fill_rows holding_cell 4 hs Map.empty))))))"

text \<open>The drawdown column, from the peak 0.\<close>

fun helper_drawdowns :: "real \<Rightarrow> real \<Rightarrow> real list \<Rightarrow> real list" where
  "helper_drawdowns cum pk [] = []"
| "helper_drawdowns cum pk (x # xs) =
     (let cum' = cum * (1 + x); pk' = max pk cum'
      in (if pk' > 0 then (pk' - cum') / pk' else 0) # helper_drawdowns cum' pk' xs)"

definition return_cell ::
  "real list \<Rightarrow> real list \<Rightarrow> real list \<Rightarrow> nat \<Rightarrow> string \<times> real \<Rightarrow> char \<Rightarrow> sheet_cell option" where
  "return_cell wealth dd srt r p c =
     (let i = r - 4
      in if c = col_A then Some (Num (real (i + 1)))
         else if c = col_B then Some (Text (fst p))
         else if c = col_C then Some (Num (snd p))
         else if c = col_D then
           Some (Formula (if r = 4 then Op Mul (Lit 1) (Paren (Op Add (Lit 1) (here col_C r)))
                          else Op Mul (here col_D (r - 1)) (Paren (Op Add (Lit 1) (here col_C r)))) (wealth ! (i + 1)))
         else if c = col_E then
           Some (if r = 4 then Formula (here col_D r) (wealth ! (i + 1))
                 else Formula (Fn MAXIMUM [here col_E (r - 1), here col_D r])
                        (max (wealth ! (i + 1)) (Max (set (take (i + 1) (drop 1 wealth))))))
         else if c = col_F then
           Some (Formula (Fn IF_ELSE [Op Equal (here col_E r) (Lit 0), Lit 0,
                    Op Div (Paren (Op Sub (here col_E r) (here col_D r))) (here col_E r)]) (dd ! i))
         else if c = col_G then
           Some (Formula (Fn SMALL [Area None (fixed col_C 4) (fixed col_C 27),
                    Fn ROWS [Area None (fixed col_G 4) (rel col_G r)]]) (srt ! i))
         else None)"

definition build_returns :: "wb_data \<Rightarrow> cells" where
  "build_returns d =
     (let rets = rets_of d
      in fill_rows (return_cell (cumulate 1 rets) (helper_drawdowns 1 0 rets) (sort rets)) 4 (wd_returns d) Map.empty)"

definition return_range :: formula where "return_range = Area (Some RETURNS) (rel col_C 4) (rel col_C 27)"
definition sorted_range :: formula where "sorted_range = Area (Some RETURNS) (rel col_G 4) (rel col_G 27)"
definition month_rf :: formula where "month_rf = Op Div (At None (fixed col_B 3)) (Lit 12)"
definition tail_count :: formula where "tail_count = Fn INT_PART [Op Mul (Hundredths 5) (Fn COUNT [return_range])]"

definition months_below :: "real list \<Rightarrow> real \<Rightarrow> real list" where
  "months_below rets rf = filter (\<lambda>x. x < rf / 12) rets"

text \<open>The rows of the RISK sheet; the value at risk and the annualised return are computed by the caller.\<close>

definition risk_rows :: "wb_data \<Rightarrow> real \<Rightarrow> real \<Rightarrow> (string \<times> formula \<times> real) list" where
  "risk_rows d var ann =
     (let rets = rets_of d; rf = wd_risk_free d
      in [(''Monthly volatility'', Fn STDEV [return_range], m_volatility rets),
          (''Annualized volatility'', Op Mul (here col_B 5) (Fn SQRT [Lit 12]), m_volatility rets * sqrt 12),
          (''Mean monthly return'', Fn AVERAGE [return_range], mean_of rets),
          (''Sharpe ratio'', Fn IF_ELSE [Op Equal (here col_B 5) (Lit 0), Lit 0,
             Op Div (Paren (Op Sub (here col_B 7) month_rf)) (here col_B 5)], m_sharpe rets rf),
          (''Downside deviation'', Fn SQRT [Op Div
             (Fn SUMPRODUCT [Op Mul (Paren (Op Less return_range month_rf)) (Op Power (Paren (Op Sub return_range month_rf)) (Lit 2))])
             (Fn COUNTIF [return_range, Below month_rf])],
             sqrt (sum_list (map (\<lambda>x. (x - rf / 12) ^ 2) (months_below rets rf)) / real (length (months_below rets rf)))),
          (''Sortino ratio'', Fn IF_ELSE [Op Equal (Fn COUNTIF [return_range, Below month_rf]) (Lit 0), Lit 0,
             Op Div (Paren (Op Sub (here col_B 7) month_rf)) (here col_B 9)], m_sortino rets rf),
          (''Max drawdown'', Fn MAXIMUM [Area (Some RETURNS) (rel col_F 4) (rel col_F 27)], m_max_drawdown rets),
          (''VaR 95% (monthly)'', Negative (Fn INDEX [sorted_range, Op Add tail_count (Lit 1)]), var),
          (''CVaR 95% (monthly)'', Negative (Fn AVERAGE [Span (Fn INDEX [sorted_range, Lit 2])
             (Fn INDEX [sorted_range, Op Add (Lit 1) (Fn MAXIMUM [Lit 1, tail_count])])]), m_cvar rets (5 / 100)),
          (''Total return (24 mo)'', Op Sub (Fn INDEX [Area (Some RETURNS) (rel col_D 4) (rel col_D 27), Fn COUNT [return_range]])
             (Lit 1), m_total_return rets),
          (''Annualized return'', Op Sub (Op Power (Paren (Op Add (Lit 1) (here col_B 14)))
             (Paren (Op Div (Lit 12) (Fn COUNT [return_range])))) (Lit 1), ann)])"

fun labelled_cell :: "nat \<Rightarrow> string \<times> formula \<times> real \<Rightarrow> char \<Rightarrow> sheet_cell option" where
  "labelled_cell r (label, f, v) c =
     (if c = col_A then Some (Text label) else if c = col_B then Some (Formula f v) else None)"

definition build_risk :: "wb_data \<Rightarrow> wb_exc + cells" where
  "build_risk d =
     (let rets = rets_of d
      in if rets = [] then Inl NoReturns
         else if months_below rets (wd_risk_free d) = [] then Inl DivisionByZero
         else case (m_var rets (5 / 100), m_annualized_return rets 12) of
             (Some var, Some ann) \<Rightarrow>
               Inr (fill_rows labelled_cell 5 (risk_rows d var ann) (put col_B 3 (Num (wd_risk_free d)) Map.empty))
           | (None, _) \<Rightarrow> Inl IndexOut
           | (_, None) \<Rightarrow> Inl ComplexValue)"

fun factor_cell :: "nat \<Rightarrow> string \<times> real \<times> real \<Rightarrow> char \<Rightarrow> sheet_cell option" where
  "factor_cell r (name, beta, fret) c =
     (if c = col_A then Some (Text name)
      else if c = col_B then Some (Num beta)
      else if c = col_C then Some (Num fret)
      else if c = col_D then Some (Formula (Op Mul (here col_B r) (here col_C r)) (beta * fret))
      else None)"

definition build_factors :: "wb_data \<Rightarrow> cells" where
  "build_factors d =
     (let fs = wd_factors d; r = 4 + length fs
      in put col_D (r + 1) (Formula (Fn SUM_RANGE [rows_of col_D 4 r])
             (sum_list (map (\<lambda>(_, b, f). b * f) fs) + wd_alpha d))
         (put col_D r (Formula (here col_B r) (wd_alpha d))
         (put col_B r (Num (wd_alpha d))
         (fill_rows factor_cell 4 fs Map.empty))))"

definition class_weight :: "wb_data \<Rightarrow> string \<Rightarrow> real" where
  "class_weight d cls =
     sum_list (map wb_market_value (filter (\<lambda>h. wh_class h = cls) (wd_holdings d))) / nav_of d"

definition scenario_impact :: "wb_data \<Rightarrow> real list \<Rightarrow> real" where
  "scenario_impact d shocks = sum_list (map2 (\<lambda>cls x. class_weight d cls * x) SHOCK_CLASSES shocks)"

text \<open>\<open>chr(ord("C") + j)\<close>\<close>

definition shock_column :: "nat \<Rightarrow> char" where "shock_column j = char_of (67 + j)"

definition class_cell :: "wb_data \<Rightarrow> nat \<Rightarrow> string \<Rightarrow> char \<Rightarrow> sheet_cell option" where
  "class_cell d r cls c =
     (let j = of_char c - (67::nat)
      in if c = col_A then Some (Text cls)
         else if c = col_B then
           Some (Formula (Op Div (Fn SUMIF [Area (Some INPUT_Holdings) (fixed col_B 4) (fixed col_B 11),
                     At None (Ref True col_A False r), Area (Some INPUT_Holdings) (fixed col_E 4) (fixed col_E 11)])
                   (At (Some DASHBOARD) (fixed col_B 4))) (class_weight d cls))
         else if (67::nat) \<le> of_char c \<and> j < length (wd_shocks d) then Some (Num (snd (wd_shocks d ! j) ! (r - 4)))
         else None)"

definition impact_cell :: "wb_data \<Rightarrow> nat \<Rightarrow> nat \<Rightarrow> string \<times> real list \<Rightarrow> char \<Rightarrow> sheet_cell option" where
  "impact_cell d r rr s c =
     (let col = shock_column (rr - (r + 2)); imp = scenario_impact d (snd s)
      in if c = col_A then Some (Text (fst s))
         else if c = col_B then
           Some (Formula (Fn SUMPRODUCT [Area None (fixed col_B 4) (fixed col_B (r - 1)),
                     Area None (Ref False col True 4) (Ref False col True (r - 1))]) imp)
         else if c = col_C then Some (Formula (Op Mul (here col_B rr) (At (Some DASHBOARD) (fixed col_B 4))) (imp * nav_of d))
         else None)"

definition build_scenarios :: "wb_data \<Rightarrow> cells" where
  "build_scenarios d =
     (let r = 4 + length SHOCK_CLASSES
      in fill_rows (impact_cell d r) (r + 2) (wd_shocks d) (fill_rows (class_cell d) 4 SHOCK_CLASSES Map.empty))"

definition named_impact :: "wb_data \<Rightarrow> string \<Rightarrow> wb_exc + real" where
  "named_impact d s = (case map_of (wd_shocks d) s of None \<Rightarrow> Inl (KeyMissing s) | Some x \<Rightarrow> Inr (scenario_impact d x))"

definition dashboard_cards :: "wb_data \<Rightarrow> real \<Rightarrow> real \<Rightarrow> real \<Rightarrow> real \<Rightarrow> (string \<times> formula \<times> real) list" where
  "dashboard_cards d var gfc covid rate =
     (let nav = nav_of d; tot_cb = cost_of d; rets = rets_of d; rf = wd_risk_free d;
          risk = (\<lambda>r. At (Some RISK) (rel col_B r)); scen = (\<lambda>r. At (Some SCENARIOS) (rel col_B r))
      in [(''NAV (CAD)'', Fn SUM_RANGE [Area (Some INPUT_Holdings) (rel col_E 4) (rel col_E 11)], nav),
          (''Total cost basis (CAD)'', Fn SUM_RANGE [Area (Some INPUT_Holdings) (rel col_F 4) (rel col_F 11)], tot_cb),
          (''P&L (CAD)'', Op Sub (here col_B 4) (here col_B 5), nav - tot_cb),
          (''P&L %'', Fn IF_ELSE [Op Equal (here col_B 5) (Lit 0), Lit 0, Op Div (here col_B 6) (here col_B 5)],
             (nav - tot_cb) / tot_cb),
          (''Annualized volatility'', risk 6, m_volatility rets * sqrt 12),
          (''Sharpe ratio'', risk 8, m_sharpe rets rf),
          (''Sortino ratio'', risk 10, m_sortino rets rf),
          (''Max drawdown'', risk 11, m_max_drawdown rets),
          (''VaR 95% (monthly)'', risk 12, var),
          (''CVaR 95% (monthly)'', risk 13, m_cvar rets (5 / 100)),
          (''GFC 2008 impact'', scen 12, gfc),
          (''COVID 2020 impact'', scen 13, covid),
          (''Rate shock impact'', scen 14, rate)])"

definition build_dashboard :: "wb_data \<Rightarrow> wb_exc + cells" where
  "build_dashboard d =
     (if cost_of d = 0 then Inl DivisionByZero
      else case m_var (rets_of d) (5 / 100) of
          None \<Rightarrow> Inl IndexOut
        | Some var \<Rightarrow>
            rbind (named_impact d ''GFC 2008 (2008-style)'') (\<lambda>gfc.
            rbind (named_impact d ''COVID 2020 (2020-style)'') (\<lambda>covid.
            rbind (named_impact d ''Rate shock (2022-style)'') (\<lambda>rate.
              Inr (fill_rows labelled_cell 4 (dashboard_cards d var gfc covid rate) Map.empty)))))"

text \<open>The statement on the DISCLOSURE sheet that the verification looks for.\<close>

definition no_encryption :: string where
  "no_encryption =
     ''Unlike the PAE application, this spreadsheet is NOT encrypted and '' @
     ''provides NO zero-knowledge guarantees. Anything you type into this '' @
     ''workbook (holdings, returns, notes) is stored in PLAIN TEXT inside '' @
     ''this file. Do NOT enter passwords, account numbers, or any data you '' @
     ''would not want readable by anyone who obtains this file.''"

definition build_disclosure :: cells where
  "build_disclosure = put col_A 7 (Text no_encryption) Map.empty"

text \<open>\<open>main\<close>, with the cached values in the cells.\<close>

type_synonym workbook = "sheet \<Rightarrow> cells"

definition build_workbook :: "wb_data \<Rightarrow> wb_exc + workbook" where
  "build_workbook d =
     rbind (build_holdings d) (\<lambda>hold.
     rbind (build_risk d) (\<lambda>risk.
     rbind (build_dashboard d) (\<lambda>dash.
       Inr (\<lambda>s. case s of
          DISCLOSURE \<Rightarrow> build_disclosure | INPUT_Holdings \<Rightarrow> hold | RETURNS \<Rightarrow> build_returns d | RISK \<Rightarrow> risk
        | FACTORS \<Rightarrow> build_factors d | SCENARIOS \<Rightarrow> build_scenarios d | DASHBOARD \<Rightarrow> dash))))"

text \<open>The names of the sheets, in the order in which the builders create them.\<close>

definition built_sheets :: "string list" where
  "built_sheets = [''DISCLOSURE'', ''INPUT_Holdings'', ''RETURNS'', ''RISK'', ''FACTORS'', ''SCENARIOS'', ''DASHBOARD'']"

section \<open>The sample data\<close>

definition SAMPLE_HOLDINGS :: "wb_holding list" where
  "SAMPLE_HOLDINGS =
    map (\<lambda>(sym, cls, q, p, c, y). \<lparr>wh_symbol = sym, wh_class = cls, wh_quantity = q, wh_price = p, wh_cost = c, wh_yield = y\<rparr>)
     [(''RY'', ''Equity'', 100, 150, 12000, 38 / 1000), (''VCN'', ''Equity'', 200, 45, 8000, 29 / 1000),
      (''XEF'', ''Equity'', 150, 77 / 2, 5200, 27 / 1000), (''VAB'', ''Fixed Income'', 300, 26, 8100, 34 / 1000),
      (''ZPR'', ''Preferred'', 250, 21 / 2, 2800, 51 / 1000), (''CASH'', ''Cash'', 1, 12000, 12000, 45 / 1000),
      (''VRE'', ''Real Estate'', 180, 22, 3600, 42 / 1000), (''CGL.C'', ''Commodity'', 120, 28, 3000, 0)]"

definition WORKBOOK_RETURNS :: "(string \<times> real) list" where
  "WORKBOOK_RETURNS =
    [(''2024-01'', 21 / 1000), (''2024-02'', - 14 / 1000), (''2024-03'', 32 / 1000), (''2024-04'', 8 / 1000),
     (''2024-05'', - 27 / 1000), (''2024-06'', 15 / 1000), (''2024-07'', 44 / 1000), (''2024-08'', - 9 / 1000),
     (''2024-09'', 12 / 1000), (''2024-10'', - 38 / 1000), (''2024-11'', 25 / 1000), (''2024-12'', 18 / 1000),
     (''2025-01'', - 12 / 1000), (''2025-02'', 29 / 1000), (''2025-03'', 7 / 1000), (''2025-04'', - 21 / 1000),
     (''2025-05'', 36 / 1000), (''2025-06'', 11 / 1000), (''2025-07'', - 5 / 1000), (''2025-08'', 23 / 1000),
     (''2025-09'', - 31 / 1000), (''2025-10'', 17 / 1000), (''2025-11'', 9 / 1000), (''2025-12'', 14 / 1000)]"

definition SAMPLE_DATA :: wb_data where
  "SAMPLE_DATA =
    \<lparr>wd_holdings = SAMPLE_HOLDINGS, wd_returns = WORKBOOK_RETURNS, wd_risk_free = 4 / 100,
     wd_factors = [(''Market'', 95 / 100, 80 / 1000), (''Size'', 20 / 100, 20 / 1000), (''Value'', 35 / 100, 35 / 1000),
       (''Momentum'', - 10 / 100, 40 / 1000), (''Quality'', 25 / 100, 25 / 1000)],
     wd_alpha = 5 / 1000,
     wd_shocks = [(''GFC 2008 (2008-style)'', [- 50 / 100, 5 / 100, - 35 / 100, - 30 / 100, - 25 / 100, 0]),
       (''COVID 2020 (2020-style)'', [- 34 / 100, 2 / 100, - 25 / 100, - 15 / 100, - 20 / 100, 0]),
       (''Rate shock (2022-style)'', [- 25 / 100, - 15 / 100, 10 / 100, - 10 / 100, - 15 / 100, 0])]\<rparr>"

section \<open>Verification\<close>

text \<open>\<open>NoNumber\<close> is the TypeError of an arithmetic operation on a cell that holds no number, \<open>MissingSheet\<close> the
  KeyError of a sheet that the file does not have. The cached values of the cells are texts and real
  numbers.\<close>

datatype verify_exc = Uncomputable wb_exc | NoNumber | MissingSheet

definition number_at :: "workbook \<Rightarrow> sheet \<Rightarrow> char \<Rightarrow> nat \<Rightarrow> real option" where
  "number_at w s c r = (case shown_value (w s (c, r)) of N x \<Rightarrow> Some x | _ \<Rightarrow> None)"

definition text_at :: "workbook \<Rightarrow> sheet \<Rightarrow> char \<Rightarrow> nat \<Rightarrow> string option" where
  "text_at w s c r = (case shown_value (w s (c, r)) of T t \<Rightarrow> Some t | _ \<Rightarrow> None)"

text \<open>The inputs that the verification reads from the workbook.\<close>

record wb_inputs =
  vi_qtys :: "real list"
  vi_prices :: "real list"
  vi_costs :: "real list"
  vi_yields :: "real list"
  vi_classes :: "string list"
  vi_rets :: "real list"
  vi_rf :: real
  vi_betas :: "real list"
  vi_frets :: "real list"
  vi_alpha :: real

definition numbers_at :: "workbook \<Rightarrow> sheet \<Rightarrow> char \<Rightarrow> nat \<Rightarrow> nat \<Rightarrow> verify_exc + real list" where
  "numbers_at w s c a b =
     traverse (\<lambda>r. case number_at w s c r of None \<Rightarrow> Inl NoNumber | Some x \<Rightarrow> Inr x) [a..<b]"

definition number_or_fail :: "workbook \<Rightarrow> sheet \<Rightarrow> char \<Rightarrow> nat \<Rightarrow> verify_exc + real" where
  "number_or_fail w s c r = (case number_at w s c r of None \<Rightarrow> Inl NoNumber | Some x \<Rightarrow> Inr x)"

definition read_inputs :: "workbook \<Rightarrow> verify_exc + wb_inputs" where
  "read_inputs w =
     rbind (numbers_at w INPUT_Holdings col_C 4 12) (\<lambda>qtys.
     rbind (numbers_at w INPUT_Holdings col_D 4 12) (\<lambda>prices.
     rbind (numbers_at w INPUT_Holdings col_F 4 12) (\<lambda>costs.
     rbind (numbers_at w INPUT_Holdings col_G 4 12) (\<lambda>yields.
     rbind (numbers_at w RETURNS col_C 4 28) (\<lambda>rets.
     rbind (number_or_fail w RISK col_B 3) (\<lambda>rf.
     rbind (numbers_at w FACTORS col_B 4 9) (\<lambda>betas.
     rbind (numbers_at w FACTORS col_C 4 9) (\<lambda>frets.
     rbind (number_or_fail w FACTORS col_B 9) (\<lambda>alpha.
       Inr \<lparr>vi_qtys = qtys, vi_prices = prices, vi_costs = costs, vi_yields = yields,
            vi_classes = map (\<lambda>r. case text_at w INPUT_Holdings col_B r of None \<Rightarrow> [] | Some t \<Rightarrow> t) [4..<12],
            vi_rets = rets, vi_rf = rf, vi_betas = betas, vi_frets = frets, vi_alpha = alpha\<rparr>)))))))))"

text \<open>A comparison: the sheet and cell, and the value it should have.\<close>

type_synonym comparison = "sheet \<times> char \<times> nat \<times> real"

definition inputs_nav :: "wb_inputs \<Rightarrow> real" where
  "inputs_nav i = sum_list (map2 (*) (vi_qtys i) (vi_prices i))"

definition inputs_weight :: "wb_inputs \<Rightarrow> string \<Rightarrow> real" where
  "inputs_weight i cls =
     sum_list (map (\<lambda>(q, p, c). q * p) (filter (\<lambda>(q, p, c). c = cls) (zip (vi_qtys i) (zip (vi_prices i) (vi_classes i))))) /
       inputs_nav i"

definition inputs_impact :: "wb_inputs \<Rightarrow> real list \<Rightarrow> real" where
  "inputs_impact i shocks = sum_list (map2 (\<lambda>cls x. inputs_weight i cls * x) SHOCK_CLASSES shocks)"

definition compare_holdings :: "wb_inputs \<Rightarrow> comparison list" where
  "compare_holdings i =
     map (\<lambda>k. (INPUT_Holdings, col_E, 4 + k, vi_qtys i ! k * vi_prices i ! k)) [0..<8] @
     [(INPUT_Holdings, col_E, 12, inputs_nav i), (INPUT_Holdings, col_F, 12, sum_list (vi_costs i)),
      (INPUT_Holdings, col_G, 12,
         sum_list (map (\<lambda>(q, p, y). q * p * y) (zip (vi_qtys i) (zip (vi_prices i) (vi_yields i)))) / inputs_nav i)]"

text \<open>The annualized return follows below: it may be a complex number.\<close>

definition compare_risk :: "wb_inputs \<Rightarrow> real \<Rightarrow> comparison list" where
  "compare_risk i var =
     (let rets = vi_rets i; rf = vi_rf i; dd = months_below rets rf
      in [(RISK, col_B, 5, m_volatility rets), (RISK, col_B, 6, m_volatility rets * sqrt 12), (RISK, col_B, 7, mean_of rets),
          (RISK, col_B, 8, m_sharpe rets rf),
          (RISK, col_B, 9, sqrt (sum_list (map (\<lambda>x. (x - rf / 12) ^ 2) dd) / real (length dd))),
          (RISK, col_B, 10, m_sortino rets rf), (RISK, col_B, 11, m_max_drawdown rets), (RISK, col_B, 12, var),
          (RISK, col_B, 13, m_cvar rets (5 / 100)), (RISK, col_B, 14, m_total_return rets)])"

text \<open>The loop over the rows of the RETURNS sheet.\<close>

fun compare_returns :: "real \<Rightarrow> real \<Rightarrow> nat \<Rightarrow> real list \<Rightarrow> comparison list" where
  "compare_returns cum pk r [] = []"
| "compare_returns cum pk r (x # xs) =
     (let cum' = cum * (1 + x); pk' = max pk cum'
      in [(RETURNS, col_D, r, cum'), (RETURNS, col_E, r, pk'),
          (RETURNS, col_F, r, if pk' \<noteq> 0 then (pk' - cum') / pk' else 0)] @ compare_returns cum' pk' (r + 1) xs)"

definition compare_sorted :: "wb_inputs \<Rightarrow> comparison list" where
  "compare_sorted i = map (\<lambda>k. (RETURNS, col_G, 4 + k, sort (vi_rets i) ! k)) [0..<24]"

definition compare_factors :: "wb_inputs \<Rightarrow> comparison list" where
  "compare_factors i =
     map (\<lambda>k. (FACTORS, col_D, 4 + k, vi_betas i ! k * vi_frets i ! k)) [0..<5] @
     [(FACTORS, col_D, 9, vi_alpha i),
      (FACTORS, col_D, 10, sum_list (map2 (*) (vi_betas i) (vi_frets i)) + vi_alpha i)]"

text \<open>The shocks are those of the script, not the ones in the workbook.\<close>

definition compare_scenarios :: "(string \<times> real list) list \<Rightarrow> wb_inputs \<Rightarrow> comparison list" where
  "compare_scenarios shocks i =
     map (\<lambda>k. (SCENARIOS, col_B, 4 + k, inputs_weight i (SHOCK_CLASSES ! k))) [0..<length SHOCK_CLASSES] @
     concat (map (\<lambda>j. let imp = inputs_impact i (snd (shocks ! j))
                       in [(SCENARIOS, col_B, 12 + j, imp), (SCENARIOS, col_C, 12 + j, imp * inputs_nav i)]) [0..<length shocks])"

definition compare_dashboard :: "wb_inputs \<Rightarrow> real \<Rightarrow> comparison list" where
  "compare_dashboard i var =
     (let nav = inputs_nav i; tot_cb = sum_list (vi_costs i); rets = vi_rets i; rf = vi_rf i
      in [(DASHBOARD, col_B, 4, nav), (DASHBOARD, col_B, 5, tot_cb), (DASHBOARD, col_B, 6, nav - tot_cb),
          (DASHBOARD, col_B, 7, (nav - tot_cb) / tot_cb), (DASHBOARD, col_B, 8, m_volatility rets * sqrt 12),
          (DASHBOARD, col_B, 9, m_sharpe rets rf), (DASHBOARD, col_B, 10, m_sortino rets rf),
          (DASHBOARD, col_B, 11, m_max_drawdown rets), (DASHBOARD, col_B, 12, var),
          (DASHBOARD, col_B, 13, m_cvar rets (5 / 100))])"

definition TOL :: real where "TOL = 1 / 1000000"

text \<open>All comparisons, in order. The expected values are complex numbers, all but one of them real.\<close>

definition real_expected :: "comparison \<Rightarrow> sheet \<times> char \<times> nat \<times> complex" where
  "real_expected = (\<lambda>(s, c, r, x). (s, c, r, complex_of_real x))"

definition comparisons :: "(string \<times> real list) list \<Rightarrow> wb_inputs \<Rightarrow> real \<Rightarrow> (sheet \<times> char \<times> nat \<times> complex) list" where
  "comparisons shocks i var =
     map real_expected (compare_holdings i @ compare_risk i var) @
     [(RISK, col_B, 15, m_annualized_value (vi_rets i) 12)] @
     map real_expected (compare_returns 1 0 4 (vi_rets i) @ compare_sorted i @
       compare_factors i @ compare_scenarios shocks i @ compare_dashboard i var)"

text \<open>\<open>close\<close>: whether the value of the cell is near enough; \<open>abs\<close> of a complex number is its modulus.\<close>

definition near :: "workbook \<Rightarrow> sheet \<times> char \<times> nat \<times> complex \<Rightarrow> verify_exc + bool" where
  "near w cmp =
     (case cmp of (s, c, r, expected) \<Rightarrow>
        rbind (number_or_fail w s c r) (\<lambda>got.
          Inr (cmod (complex_of_real got - expected) \<le> TOL * max 1 (cmod expected))))"

definition expected_formulas :: "(sheet \<times> char \<times> nat \<times> string) list" where
  "expected_formulas =
    [(RISK, col_B, 5, ''=STDEV(RETURNS!C4:C27)''), (RISK, col_B, 8, ''=IF(B5=0,0,(B7-$B$3/12)/B5)''),
     (RISK, col_B, 12, ''=-INDEX(RETURNS!G4:G27,INT(0.05*COUNT(RETURNS!C4:C27))+1)''),
     (DASHBOARD, col_B, 4, ''=SUM(INPUT_Holdings!E4:E11)''), (DASHBOARD, col_B, 9, ''=RISK!B8''),
     (SCENARIOS, col_B, 12, ''=SUMPRODUCT($B$4:$B$9,C$4:C$9)''),
     (RETURNS, col_G, 4, ''=SMALL($C$4:$C$27,ROWS($G$4:G4))''), (INPUT_Holdings, col_E, 4, ''=C4*D4''),
     (FACTORS, col_D, 4, ''=B4*C4'')]"

definition text_of_cell :: "sheet_cell option \<Rightarrow> string option" where
  "text_of_cell c = (case c of Some (Formula f _) \<Rightarrow> Some (formula_text f) | Some (Text t) \<Rightarrow> Some t | _ \<Rightarrow> None)"

definition formula_differs :: "workbook \<Rightarrow> sheet \<times> char \<times> nat \<times> string \<Rightarrow> bool" where
  "formula_differs w e = (case e of (s, c, r, want) \<Rightarrow> text_of_cell (w s (c, r)) \<noteq> Some want)"

text \<open>
  The scan for functions that Google Sheets does not have, over the cells \<open>dims\<close> of each sheet that the package
  finds in the file.
\<close>

definition BANNED :: "string list" where
  "BANNED = [''LET('', ''LAMBDA('', ''XLOOKUP('', ''FILTER('', ''SORT('', ''UNIQUE('', ''SEQUENCE('', ''MAP('', ''REDUCE('',
     ''SCAN('', ''BYROW('', ''BYCOL('', ''MAKEARRAY('']"

definition sheets :: "sheet list" where
  "sheets = [DISCLOSURE, INPUT_Holdings, RETURNS, RISK, FACTORS, SCENARIOS, DASHBOARD]"

definition banned_in :: "sheet_cell option \<Rightarrow> string list" where
  "banned_in c =
     (case text_of_cell c of
        None \<Rightarrow> []
      | Some v \<Rightarrow> if startswith v ''='' then filter (\<lambda>b. str_in b (upper v)) BANNED else [])"

definition banned_uses :: "(sheet \<Rightarrow> coord list) \<Rightarrow> workbook \<Rightarrow> (sheet \<times> coord \<times> string) list" where
  "banned_uses dims w =
     concat (map (\<lambda>s. concat (map (\<lambda>p. map (\<lambda>b. (s, p, b)) (banned_in (w s p))) (dims s))) sheets)"

text \<open>\<open>str(value or "")\<close> of the texts in the first column, joined.\<close>

definition disclosure_text :: "workbook \<Rightarrow> string" where
  "disclosure_text w =
     concat (map (\<lambda>r. case text_at w DISCLOSURE col_A r of None \<Rightarrow> '' '' | Some t \<Rightarrow> t @ '' '') [1..<40])"

datatype verify_failure =
  SheetOrder | Differs sheet char nat | FormulaDiffers sheet char nat | Banned "(sheet \<times> coord \<times> string) list" | NoDisclosure

text \<open>
  The check of a file with the sheets \<open>names\<close>. The scan covers the seven sheets: a file with further ones
  already fails for their order.
\<close>

definition verify_workbook ::
  "string list \<Rightarrow> (sheet \<Rightarrow> coord list) \<Rightarrow> (string \<times> real list) list \<Rightarrow> workbook \<Rightarrow> verify_exc + verify_failure list" where
  "verify_workbook names dims shocks w =
     (if \<not> list_all (\<lambda>s. show_sheet s \<in> set names) (tl sheets) then Inl MissingSheet
      else rbind (read_inputs w) (\<lambda>i.
        if inputs_nav i = 0 \<or> months_below (vi_rets i) (vi_rf i) = [] \<or> sum_list (vi_costs i) = 0
        then Inl (Uncomputable DivisionByZero)
        else case m_var (vi_rets i) (5 / 100) of
            Some var \<Rightarrow>
              rbind (traverse (near w) (comparisons shocks i var)) (\<lambda>oks.
                if show_sheet DISCLOSURE \<notin> set names then Inl MissingSheet
                else Inr ((if names = map show_sheet sheets then [] else [SheetOrder]) @
                  map (\<lambda>((s, c, r, _), _). Differs s c r) (filter (\<lambda>p. \<not> snd p) (zip (comparisons shocks i var) oks)) @
                  map (\<lambda>(s, c, r, _). FormulaDiffers s c r) (filter (formula_differs w) expected_formulas) @
                  (case banned_uses dims w of [] \<Rightarrow> [] | uses \<Rightarrow> [Banned uses]) @
                  (if str_in ''NOT encrypted'' (disclosure_text w) \<and> str_in ''PLAIN TEXT'' (disclosure_text w)
                   then [] else [NoDisclosure])))
          | None \<Rightarrow> Inl (Uncomputable IndexOut)))"

end
