(* ===== verification/Workbook_Sheets.thy ===== *)
theory Workbook_Sheets
  imports Workbook
begin

text \<open>
  What the sheets of a built workbook hold, cell by cell, and what the formulas of each sheet evaluate to with
  the cached values in the cells.
\<close>

section \<open>Cells and ranges\<close>

lemma put_apply: "put c r x w (c', r') = (if c' = c \<and> r' = r then Some x else w (c', r'))"
  by (simp add: put_def)

lemma fill_rows_apply:
  "fill_rows row r xs w (c, k) =
     (if r \<le> k \<and> k < r + length xs \<and> row k (xs ! (k - r)) c \<noteq> None then row k (xs ! (k - r)) c else w (c, k))"
proof (induction xs arbitrary: r w k)
  case (Cons x xs)
  show ?case
  proof (cases "k = r")
    case False
    then have "r + 1 \<le> k \<longleftrightarrow> r \<le> k" and "r + 1 \<le> k \<Longrightarrow> (x # xs) ! (k - r) = xs ! (k - (r + 1))"
      by (auto simp: nth_Cons')
    with False show ?thesis by (auto simp: Cons.IH)
  qed (simp add: Cons.IH)
qed auto

lemma shown_value_simps [simp]:
  "shown_value None = Blank" "shown_value (Some (Text t)) = T t" "shown_value (Some (Num x)) = N x"
  "shown_value (Some (Formula f x)) = N x"
  by (simp_all add: shown_value_def)

lemma col_range_eq:
  assumes "b + 1 = a + length xs" and "\<And>k. k < length xs \<Longrightarrow> w (c, a + k) = xs ! k"
  shows "col_range w c a b = xs"
  using assms by (auto simp: col_range_def intro!: nth_equalityI simp del: upt_Suc)

lemma numbers_map [simp]: "numbers (map (\<lambda>x. N (f x)) xs) = map f xs"
  by (induction xs) (simp_all add: numbers_def List.map_filter_simps)

lemma on_numbers_map [simp]: "on_numbers g (map (\<lambda>x. N (f x)) xs) = g (map f xs)"
  by (auto simp: on_numbers_def)

lemma on_numbers_N [simp]: "on_numbers g (map N xs) = g xs"
  using on_numbers_map [of g "\<lambda>x. x" xs] by simp

lemma on_numbers_comp [simp]: "on_numbers g (map (N \<circ> f) xs) = g (map f xs)"
  using on_numbers_N [of g "map f xs"] by simp

lemma numbers_N [simp]: "numbers (map N xs) = xs"
  using numbers_map [of "\<lambda>x. x" xs] by simp

lemma map2_N: "map2 (apply_op Mul) (map N xs) (map N ys) = map N (map2 (*) xs ys)"
  by (induction xs ys rule: list_induct2') simp_all

lemma broadcast_one [simp]: "broadcast f [x] [y] = [f x y]"
  by (simp add: broadcast_def)

lemma broadcast_right: "broadcast f xs [y] = map (\<lambda>x. f x y) xs"
  by (simp add: broadcast_def)

lemma item_nth:
  assumes "k < length xs" shows "item (map N xs) (real (k + 1)) = N (xs ! k)"
  using assms by (simp add: item_def Let_def nat_add_distrib)

section \<open>The data\<close>

text \<open>
  The data has the size that the fixed ranges of the script expect, the classes are spelled as on the
  SCENARIOS sheet, no return loses everything, and no text begins like a formula.
\<close>

definition shaped :: "wb_data \<Rightarrow> bool" where
  "shaped d \<longleftrightarrow>
     length (wd_holdings d) = 8 \<and> list_all (\<lambda>h. wh_class h \<in> set SHOCK_CLASSES) (wd_holdings d) \<and>
     length (wd_returns d) = 24 \<and> list_all (\<lambda>r. - 1 < r) (rets_of d) \<and>
     length (wd_factors d) = 5 \<and>
     map fst (wd_shocks d) = [''GFC 2008 (2008-style)'', ''COVID 2020 (2020-style)'', ''Rate shock (2022-style)''] \<and>
     list_all (\<lambda>s. length (snd s) = 6) (wd_shocks d) \<and>
     list_all (\<lambda>t. \<not> startswith t ''='') (map wh_symbol (wd_holdings d) @ map fst (wd_returns d) @ map fst (wd_factors d))"

lemma shaped_sample: "shaped SAMPLE_DATA"
  by (simp add: shaped_def SAMPLE_DATA_def SAMPLE_HOLDINGS_def WORKBOOK_RETURNS_def SHOCK_CLASSES_def rets_of_def startswith_def)

abbreviation cached :: "workbook \<Rightarrow> sheet \<Rightarrow> coord \<Rightarrow> sheet_value" where
  "cached w s p \<equiv> shown_value (w s p)"

text \<open>With the cached values in the cells, the formula of a cell evaluates to the cell's own cached value.\<close>

definition consistent :: "workbook \<Rightarrow> sheet \<Rightarrow> coord \<Rightarrow> bool" where
  "consistent w s p =
     (case w s p of Some (Formula f x) \<Rightarrow> eval_formula (\<lambda>s p. shown_value (w s p)) s f = [N x] | _ \<Rightarrow> True)"

lemma built:
  assumes "build_workbook d = Inr w"
  obtains hold risk dash where "build_holdings d = Inr hold" "build_risk d = Inr risk" "build_dashboard d = Inr dash"
    "w DISCLOSURE = build_disclosure" "w INPUT_Holdings = hold" "w RETURNS = build_returns d" "w RISK = risk"
    "w FACTORS = build_factors d" "w SCENARIOS = build_scenarios d" "w DASHBOARD = dash"
  using assms by (auto simp: build_workbook_def)

section \<open>INPUT_Holdings\<close>

lemma holdings_sheet:
  assumes "build_holdings d = Inr hold" and "length (wd_holdings d) = 8"
  shows "nav_of d \<noteq> 0"
    and "hold (c, k) =
      (if k = 12 then
         (if c = col_A then Some (Text ''TOTAL'')
          else if c = col_E then Some (Formula (Fn SUM_RANGE [rows_of col_E 4 11]) (nav_of d))
          else if c = col_F then Some (Formula (Fn SUM_RANGE [rows_of col_F 4 11]) (cost_of d))
          else if c = col_G then Some (Formula (Op Div (Fn SUMPRODUCT [rows_of col_E 4 11, rows_of col_G 4 11]) (here col_E 12))
              (sum_list (map (\<lambda>h. wh_quantity h * wh_price h * wh_yield h) (wd_holdings d)) / nav_of d))
          else None)
       else if 4 \<le> k \<and> k < 12 then holding_cell k (wd_holdings d ! (k - 4)) c else None)"
  using assms
  by (auto simp: build_holdings_def Let_def put_apply fill_rows_apply split: if_splits simp del: holding_cell.simps)

lemma holdings_columns:
  assumes "build_holdings d = Inr hold" and "length (wd_holdings d) = 8"
  shows "col_range (\<lambda>p. shown_value (hold p)) col_B 4 11 = map (\<lambda>h. T (wh_class h)) (wd_holdings d)"
    and "col_range (\<lambda>p. shown_value (hold p)) col_E 4 11 = map (\<lambda>h. N (wb_market_value h)) (wd_holdings d)"
    and "col_range (\<lambda>p. shown_value (hold p)) col_F 4 11 = map (\<lambda>h. N (wh_cost h)) (wd_holdings d)"
    and "col_range (\<lambda>p. shown_value (hold p)) col_G 4 11 = map (\<lambda>h. N (wh_yield h)) (wd_holdings d)"
  using assms(2) by (intro col_range_eq; simp add: holdings_sheet(2) [OF assms])+

lemma shapedD:
  assumes "shaped d"
  shows "length (wd_holdings d) = 8" "length (rets_of d) = 24" "length (wd_returns d) = 24" "list_all (\<lambda>r. - 1 < r) (rets_of d)"
    "length (wd_factors d) = 5" "length (wd_shocks d) = 3"
    "\<And>h. h \<in> set (wd_holdings d) \<Longrightarrow> wh_class h \<in> set SHOCK_CLASSES"
    "\<And>j. j < 3 \<Longrightarrow> length (snd (wd_shocks d ! j)) = 6"
proof -
  show shocks: "length (wd_shocks d) = 3"
    using assms arg_cong [of "map fst (wd_shocks d)" _ length] by (fastforce simp: shaped_def)
  show "\<And>j. j < 3 \<Longrightarrow> length (snd (wd_shocks d ! j)) = 6"
    using assms shocks by (simp add: shaped_def list_all_length)
qed (use assms in \<open>auto simp: shaped_def rets_of_def list_all_iff\<close>)

lemma holdings_consistent:
  assumes "build_holdings d = Inr (w INPUT_Holdings)" and "length (wd_holdings d) = 8"
  shows "consistent w INPUT_Holdings (c, k)"
proof -
  note cell = holdings_sheet(2) [OF assms] and cols = holdings_columns [OF assms]
  have nav: "nav_of d \<noteq> 0" by (rule holdings_sheet(1) [OF assms])
  have sums: "sum_list (map wb_market_value (wd_holdings d)) = nav_of d" "sum_list (map wh_cost (wd_holdings d)) = cost_of d"
    by (simp_all add: nav_of_def cost_of_def)
  have yields: "map2 (apply_op Mul) (map (\<lambda>h. N (wb_market_value h)) hs) (map (\<lambda>h. N (wh_yield h)) hs) =
      map (\<lambda>h. N (wh_quantity h * wh_price h * wh_yield h)) hs" for hs
    by (induction hs) (simp_all add: wb_market_value_def)
  show ?thesis
  proof (cases "k = 12")
    case True
    then show ?thesis using nav by (simp add: consistent_def cell cols sums yields)
  next
    case False
    then show ?thesis by (simp add: consistent_def cell wb_market_value_def)
  qed
qed

section \<open>RETURNS\<close>

lemma length_cumulate [simp]: "length (cumulate c rs) = Suc (length rs)"
  by (induction rs arbitrary: c) simp_all

lemma cumulate_nth: "cumulate c rs ! 0 = c" "i < length rs \<Longrightarrow> cumulate c rs ! Suc i = cumulate c rs ! i * (1 + rs ! i)"
proof -
  show zero: "cumulate c rs ! 0 = c" for c rs by (cases rs) simp_all
  show "i < length rs \<Longrightarrow> cumulate c rs ! Suc i = cumulate c rs ! i * (1 + rs ! i)"
  proof (induction rs arbitrary: c i)
    case (Cons r rs)
    then show ?case by (cases i) (simp_all add: zero)
  qed simp
qed

lemma length_helper_drawdowns [simp]: "length (helper_drawdowns c p rs) = length rs"
  by (induction rs arbitrary: c p) (simp_all add: Let_def)

text \<open>The running peak of the sheet: the wealth before the first month does not count.\<close>

definition peak_at :: "real list \<Rightarrow> nat \<Rightarrow> real" where
  "peak_at rs i = Max (set (take (i + 1) (tl (cumulate 1 rs))))"

lemma peak_at_Suc:
  assumes "Suc i < length rs"
  shows "peak_at rs (Suc i) = max (peak_at rs i) (cumulate 1 rs ! (i + 2))"
proof -
  have "take (Suc i + 1) (tl (cumulate 1 rs)) = take (i + 1) (tl (cumulate 1 rs)) @ [cumulate 1 rs ! (i + 2)]"
    using assms by (simp add: take_Suc_conv_app_nth nth_tl)
  moreover have "take (i + 1) (tl (cumulate 1 rs)) \<noteq> []" using assms by (cases rs) auto
  ultimately show ?thesis by (simp add: peak_at_def max.commute)
qed

lemma peak_at_0: "rs \<noteq> [] \<Longrightarrow> peak_at rs 0 = cumulate 1 rs ! 1"
  by (cases rs) (simp_all add: peak_at_def cumulate_nth(1) take_Suc hd_conv_nth)

lemma peak_at_ge:
  assumes "i < length rs" shows "cumulate 1 rs ! (i + 1) \<le> peak_at rs i"
proof (cases i)
  case 0
  with assms show ?thesis by (cases rs) (simp_all add: peak_at_0)
next
  case (Suc j)
  with assms show ?thesis by (simp add: peak_at_Suc)
qed

lemma helper_drawdowns_nth:
  assumes "i < length rs" and "0 < c" and "list_all (\<lambda>r. - 1 < r) rs" and "0 \<le> p"
  shows "helper_drawdowns c p rs ! i =
    (let m = max p (Max (set (take (i + 1) (tl (cumulate c rs))))) in (m - cumulate c rs ! (i + 1)) / m)"
  using assms
proof (induction rs arbitrary: c p i)
  case (Cons r rs)
  let ?c = "c * (1 + r)"
  have pos: "0 < ?c" using Cons.prems by simp
  have hd: "cumulate ?c rs = ?c # tl (cumulate ?c rs)" by (cases rs) simp_all
  show ?case
  proof (cases i)
    case 0
    have "take 1 (cumulate ?c rs) = [?c]" by (subst hd) simp
    then show ?thesis using 0 pos by (simp add: Let_def less_max_iff_disj cumulate_nth(1))
  next
    case (Suc j)
    then have j: "j < length rs" using Cons.prems(1) by simp
    have ne: "take (j + 1) (tl (cumulate ?c rs)) \<noteq> []" using j by (cases rs) auto
    have "take (i + 1) (cumulate ?c rs) = ?c # take (j + 1) (tl (cumulate ?c rs))"
      by (subst hd) (simp add: Suc)
    then have "Max (set (take (i + 1) (cumulate ?c rs))) = max ?c (Max (set (take (j + 1) (tl (cumulate ?c rs)))))"
      using ne by simp
    then show ?thesis
      using Cons.IH [OF j pos, of "max p ?c"] Cons.prems pos Suc by (simp add: Let_def max.assoc)
  qed
qed simp

lemma peak_positive:
  assumes "i < length rs" and "list_all (\<lambda>r. - 1 < r) rs"
  shows "0 < cumulate 1 rs ! (i + 1)" and "0 < peak_at rs i"
proof -
  show "0 < cumulate 1 rs ! (i + 1)" using assms cumulate_positive [of 1 rs] by (auto simp: list_all_length)
  then show "0 < peak_at rs i" using peak_at_ge [OF assms(1)] by simp
qed

lemma helper_drawdowns_peak:
  assumes "i < length rs" and "list_all (\<lambda>r. - 1 < r) rs"
  shows "helper_drawdowns 1 0 rs ! i = (peak_at rs i - cumulate 1 rs ! (i + 1)) / peak_at rs i"
  using helper_drawdowns_nth [of i rs 1 0] assms peak_positive [OF assms] by (simp add: peak_at_def Let_def max_def)

lemma peak_cell:
  assumes "i < length rs"
  shows "max (cumulate 1 rs ! (i + 1)) (Max (set (take (i + 1) (drop 1 (cumulate 1 rs))))) = peak_at rs i"
  using peak_at_ge [OF assms] by (simp add: peak_at_def drop_Suc max_def)

lemma returns_sheet:
  "build_returns d (c, k) =
     (if 4 \<le> k \<and> k < 4 + length (wd_returns d)
      then return_cell (cumulate 1 (rets_of d)) (helper_drawdowns 1 0 (rets_of d)) (sort (rets_of d)) k (wd_returns d ! (k - 4)) c
      else None)"
  by (auto simp: build_returns_def Let_def fill_rows_apply)

lemma returns_cells:
  assumes "shaped d" and "i < 24"
  shows "shown_value (build_returns d (col_C, 4 + i)) = N (rets_of d ! i)"
    and "shown_value (build_returns d (col_D, 4 + i)) = N (cumulate 1 (rets_of d) ! (i + 1))"
    and "shown_value (build_returns d (col_E, 4 + i)) = N (peak_at (rets_of d) i)"
    and "shown_value (build_returns d (col_F, 4 + i)) = N (helper_drawdowns 1 0 (rets_of d) ! i)"
    and "shown_value (build_returns d (col_G, 4 + i)) = N (sort (rets_of d) ! i)"
proof -
  note len = shapedD(2,3) [OF assms(1)]
  show "shown_value (build_returns d (col_C, 4 + i)) = N (rets_of d ! i)"
    using assms len by (simp add: returns_sheet return_cell_def Let_def rets_of_def)
  show "shown_value (build_returns d (col_E, 4 + i)) = N (peak_at (rets_of d) i)"
  proof (cases "i = 0")
    case True
    moreover have "rets_of d \<noteq> []" using len(1) by (metis list.size(3) zero_neq_numeral)
    ultimately show ?thesis using len by (simp add: returns_sheet return_cell_def Let_def peak_at_0)
  next
    case False
    then show ?thesis using assms len peak_cell [of i "rets_of d"] by (simp add: returns_sheet return_cell_def Let_def)
  qed
qed (use assms shapedD(2,3) [OF assms(1)] in \<open>simp_all add: returns_sheet return_cell_def Let_def\<close>)

lemma returns_columns:
  assumes "shaped d"
  shows "col_range (\<lambda>p. shown_value (build_returns d p)) col_C 4 27 = map N (rets_of d)"
    and "col_range (\<lambda>p. shown_value (build_returns d p)) col_D 4 27 = map N (tl (cumulate 1 (rets_of d)))"
    and "col_range (\<lambda>p. shown_value (build_returns d p)) col_F 4 27 = map N (helper_drawdowns 1 0 (rets_of d))"
    and "col_range (\<lambda>p. shown_value (build_returns d p)) col_G 4 27 = map N (sort (rets_of d))"
  using shapedD(2) [OF assms] returns_cells [OF assms]
  by (intro col_range_eq; simp add: nth_tl)+

lemma length_col_range [simp]: "length (col_range w c a b) = Suc b - a"
  by (simp add: col_range_def Suc_diff_le)

lemma returns_consistent:
  assumes "w RETURNS = build_returns d" and "shaped d"
  shows "consistent w RETURNS (c, k)"
proof (cases "4 \<le> k \<and> k < 28")
  case False
  then have "build_returns d (c, k) = None" using shapedD(3) [OF assms(2)] by (auto simp: returns_sheet)
  then show ?thesis by (simp add: consistent_def assms(1))
next
  case True
  define i where "i = k - 4"
  have k: "k = 4 + i" and i: "i < 24" using True unfolding i_def by linarith+
  note here = returns_cells [OF assms(2) i]
  note len = shapedD(2,3) [OF assms(2)]
  have pos: "0 < peak_at (rets_of d) i" using peak_positive(2) [of i "rets_of d"] i len shapedD(4) [OF assms(2)] by simp
  have env: "w RETURNS p = build_returns d p" for p by (simp add: assms(1))
  consider (D) "c = col_D" | (E) "c = col_E" | (F) "c = col_F" | (G) "c = col_G" | (none) "c \<notin> {col_D, col_E, col_F, col_G}"
    by blast
  then show ?thesis
  proof cases
    case D
    show ?thesis
    proof (cases i)
      case 0
      then show ?thesis using len here(1) cumulate_nth(1) [where c = 1 and rs = "rets_of d"] cumulate_nth(2) [where c = 1 and rs = "rets_of d" and i = 0]
        by (simp add: consistent_def env returns_sheet return_cell_def Let_def D k)
    next
      case (Suc j)
      then show ?thesis using len i here(1) returns_cells(2) [OF assms(2), of j] cumulate_nth(2) [where c = 1 and rs = "rets_of d" and i = i]
        by (simp add: consistent_def env return_cell_def Let_def returns_sheet [of d _ "5 + _"] D k)
    qed
  next
    case E
    show ?thesis
    proof (cases i)
      case 0
      then show ?thesis using len here(2) by (simp add: consistent_def env return_cell_def Let_def returns_sheet [of d col_E] E k)
    next
      case (Suc j)
      then show ?thesis
        using len i here(2) returns_cells(3) [OF assms(2), of j] peak_at_Suc [of j "rets_of d"] peak_cell [of i "rets_of d"]
        by (simp add: consistent_def env return_cell_def Let_def returns_sheet [of d _ "5 + _"] E k on_numbers_def numbers_def List.map_filter_simps)
    qed
  next
    case F
    then show ?thesis
      using len i pos here(2,3) helper_drawdowns_peak [of i "rets_of d"] shapedD(4) [OF assms(2)]
      by (simp add: consistent_def env return_cell_def Let_def returns_sheet [of d col_F] k)
  next
    case G
    then show ?thesis
      using len i returns_columns(1) [OF assms(2)] item_nth [of i "sort (rets_of d)"]
      by (simp add: consistent_def env return_cell_def Let_def returns_sheet [of d col_G] k)
  next
    case none
    then show ?thesis by (simp add: consistent_def env returns_sheet return_cell_def Let_def)
  qed
qed

section \<open>RISK\<close>

lemma risk_sheet:
  assumes "build_risk d = Inr risk"
  obtains var ann where "m_var (rets_of d) (5 / 100) = Some var" "m_annualized_return (rets_of d) 12 = Some ann"
    "months_below (rets_of d) (wd_risk_free d) \<noteq> []" "risk (col_B, 3) = Some (Num (wd_risk_free d))"
    "\<forall>c k. risk (c, k) =
       (if 5 \<le> k \<and> k < 16 \<and> labelled_cell k (risk_rows d var ann ! (k - 5)) c \<noteq> None
        then labelled_cell k (risk_rows d var ann ! (k - 5)) c
        else if c = col_B \<and> k = 3 then Some (Num (wd_risk_free d)) else None)"
proof -
  from assms obtain var ann where m: "m_var (rets_of d) (5 / 100) = Some var" "m_annualized_return (rets_of d) 12 = Some ann"
    "months_below (rets_of d) (wd_risk_free d) \<noteq> []"
    and risk: "risk = fill_rows labelled_cell 5 (risk_rows d var ann) (put col_B 3 (Num (wd_risk_free d)) Map.empty)"
    by (auto simp: build_risk_def Let_def split: if_splits option.splits)
  have len: "length (risk_rows d var ann) = 11" by (simp add: risk_rows_def Let_def)
  have "risk (c, k) =
       (if 5 \<le> k \<and> k < 16 \<and> labelled_cell k (risk_rows d var ann ! (k - 5)) c \<noteq> None
        then labelled_cell k (risk_rows d var ann ! (k - 5)) c
        else if c = col_B \<and> k = 3 then Some (Num (wd_risk_free d)) else None)" for c k
    by (simp add: risk fill_rows_apply len put_apply)
  moreover from this have "risk (col_B, 3) = Some (Num (wd_risk_free d))" by simp
  ultimately show ?thesis using that m by blast
qed

lemma below_map [simp]: "broadcast (apply_op oper) (map N xs) [N y] = map (\<lambda>x. apply_op oper (N x) (N y)) xs"
  by (simp add: broadcast_def)

lemma squares_below:
  assumes "length xs \<noteq> 1"
  shows "apply_fn SUMPRODUCT [broadcast (apply_op Mul) (map (\<lambda>x. apply_op Less (N x) (N c)) xs)
      (broadcast (apply_op Power) (map (\<lambda>x. apply_op Sub (N x) (N c)) xs) [N 2])] =
    N (sum_list (map (\<lambda>x. (x - c)\<^sup>2) (filter (\<lambda>x. x < c) xs)))"
proof -
  have "sheet_power x 2 = N (x\<^sup>2)" for x by (simp add: sheet_power_def)
  then have "broadcast (apply_op Power) (map (\<lambda>x. apply_op Sub (N x) (N c)) xs) [N 2] = map (\<lambda>x. N ((x - c)\<^sup>2)) xs"
    by (simp add: broadcast_right comp_def)
  moreover have "broadcast (apply_op Mul) (map (\<lambda>x. apply_op Less (N x) (N c)) xs) (map (\<lambda>x. N ((x - c)\<^sup>2)) xs) =
      map (\<lambda>x. N ((if x < c then 1 else 0) * (x - c)\<^sup>2)) xs"
    using assms by (simp add: broadcast_def map2_map_map)
  moreover have "sum_list (map (\<lambda>x. (if x < c then 1 else 0) * (x - c)\<^sup>2) xs) =
      sum_list (map (\<lambda>x. (x - c)\<^sup>2) (filter (\<lambda>x. x < c) xs))"
    by (induction xs) simp_all
  ultimately show ?thesis by simp
qed

lemma total_return_cell:
  assumes "rs \<noteq> []"
  shows "N (tl (cumulate 1 rs) ! (length rs - 1) - 1) = N (m_total_return rs)"
proof -
  have "foldl (\<lambda>t r. t * (1 + r)) c xs = cumulate c xs ! length xs" for c and xs :: "real list"
    by (induction xs arbitrary: c) simp_all
  moreover obtain n where "length rs = Suc n" using assms by (cases rs) auto
  ultimately show ?thesis by (simp add: m_total_return_def nth_tl)
qed

lemma total_return_above:
  assumes "list_all (\<lambda>r. - 1 < r) rs" shows "0 < 1 + m_total_return rs"
proof -
  have "0 < c \<Longrightarrow> list_all (\<lambda>r. - 1 < r) xs \<Longrightarrow> 0 < foldl (\<lambda>t r. t * (1 + r)) c xs" for c and xs :: "real list"
    by (induction xs arbitrary: c) simp_all
  from this [of 1 rs] assms show ?thesis by (simp add: m_total_return_def)
qed

lemma sheet_power_half: "0 < x \<Longrightarrow> sheet_power x (1 / 2) = N (x powr (1 / 2))"
  by (simp add: sheet_power_def)

text \<open>The drawdown column and the mirror's loop: the column starts at the wealth after the first month.\<close>

lemma drawdown_loop_helper:
  assumes "0 < c" and "list_all (\<lambda>r. - 1 < r) rs" and "0 \<le> p"
  shows "snd (foldl drawdown_step (p, m) (tl (cumulate c rs))) = fold max (helper_drawdowns c p rs) m"
  using assms
proof (induction rs arbitrary: c p m)
  case (Cons r rs)
  let ?c = "c * (1 + r)"
  have pos: "0 < ?c" using Cons.prems by simp
  have hd: "cumulate ?c rs = ?c # tl (cumulate ?c rs)" by (cases rs) simp_all
  have "snd (foldl drawdown_step (p, m) (cumulate ?c rs)) =
      snd (foldl drawdown_step (drawdown_step (p, m) ?c) (tl (cumulate ?c rs)))"
    by (subst hd) simp
  moreover have "drawdown_step (p, m) ?c = (max p ?c, max m ((max p ?c - ?c) / max p ?c))"
    using pos by (simp add: drawdown_step_def Let_def less_max_iff_disj)
  ultimately show ?case
    using Cons.IH [OF pos, of "max p ?c"] Cons.prems by (simp add: Let_def less_max_iff_disj pos max.commute)
qed simp

lemma max_drawdown_helper:
  assumes "list_all (\<lambda>r. - 1 < r) rs"
  shows "m_max_drawdown rs = fold max (helper_drawdowns 1 1 rs) 0"
proof (cases rs)
  case (Cons r xs)
  have "m_max_drawdown rs = snd (foldl drawdown_step (1, 0) (1 # tl (cumulate 1 rs)))"
    by (simp add: m_max_drawdown_def Cons)
  also have "\<dots> = snd (foldl drawdown_step (1, 0) (tl (cumulate 1 rs)))" by (simp add: drawdown_step_def)
  finally show ?thesis using drawdown_loop_helper [of 1 rs 1 0] assms by simp
qed (simp add: m_max_drawdown_def)

lemma helper_drawdowns_scale:
  assumes "0 < q" shows "helper_drawdowns (q * c) (q * p) rs = helper_drawdowns c p rs"
proof (induction rs arbitrary: c p)
  case (Cons r rs)
  have "max (q * p) (q * c * (1 + r)) = q * max p (c * (1 + r))"
    using assms by (simp add: max_mult_distrib_left mult.assoc)
  moreover have "(q * x - q * y) / (q * x) = (x - y) / x" for x y :: real
    using assms by (simp add: right_diff_distrib [symmetric])
  moreover have "0 < q * x \<longleftrightarrow> 0 < x" for x using assms by (simp add: zero_less_mult_iff)
  ultimately show ?case using Cons.IH by (simp add: Let_def mult.assoc)
qed simp

lemma drawdown_cell:
  assumes "list_all (\<lambda>r. - 1 < r) rs" and "rs \<noteq> []"
  shows "Max (set (helper_drawdowns 1 0 rs)) = m_max_drawdown (tl rs)"
    and "0 \<le> hd rs \<Longrightarrow> m_max_drawdown rs = m_max_drawdown (tl rs)"
proof -
  from assms(2) obtain r xs where rs: "rs = r # xs" by (cases rs) auto
  have pos: "0 < 1 + r" using assms rs by simp
  have rest: "helper_drawdowns (1 + r) (1 + r) xs = helper_drawdowns 1 1 xs"
    using helper_drawdowns_scale [OF pos, of 1 1 xs] by simp
  have mirror: "m_max_drawdown xs = fold max (helper_drawdowns 1 1 xs) 0"
    using assms rs by (intro max_drawdown_helper) simp
  have "helper_drawdowns 1 0 rs = 0 # helper_drawdowns 1 1 xs"
    using pos rest by (simp add: rs Let_def max_def)
  then show "Max (set (helper_drawdowns 1 0 rs)) = m_max_drawdown (tl rs)"
    by (simp only: Max.set_eq_fold mirror rs list.sel)
  assume "0 \<le> hd rs"
  then have "helper_drawdowns 1 1 rs = 0 # helper_drawdowns 1 1 xs"
    using rest by (simp add: rs Let_def max_def)
  then show "m_max_drawdown rs = m_max_drawdown (tl rs)"
    using max_drawdown_helper [OF assms(1)] mirror by (simp add: rs)
qed

section \<open>The formulas of the RISK sheet\<close>

lemma tail_share: "\<lfloor>(5::real) / 100 * 24\<rfloor> = 1" by (simp add: floor_eq_iff)

lemma deviation_below:
  assumes "months_below rs rf \<noteq> []"
  shows "0 < sum_list (map (\<lambda>x. (x - rf / 12)\<^sup>2) (months_below rs rf))"
proof -
  have "months_below rs rf = m # ms \<Longrightarrow> m < rf / 12" for m ms
    by (metis (mono_tags, lifting) filter_eq_ConsD months_below_def)
  with assms obtain m ms where m: "months_below rs rf = m # ms" "m < rf / 12" by (cases "months_below rs rf") auto
  have "0 \<le> sum_list (map (\<lambda>x. (x - rf / 12)\<^sup>2) ms)" by (intro sum_list_nonneg) auto
  moreover have "0 < (m - rf / 12)\<^sup>2" using m(2) by simp
  ultimately show ?thesis unfolding m(1) list.map sum_list.Cons by (intro add_pos_nonneg)
qed

lemma sortino_cell:
  assumes "months_below rs rf \<noteq> []" and "2 \<le> length rs"
  shows "m_sortino rs rf = (mean_of rs - rf / 12) /
      sqrt (sum_list (map (\<lambda>x. (x - rf / 12) ^ 2) (months_below rs rf)) / real (length (months_below rs rf)))"
    and "sqrt (sum_list (map (\<lambda>x. (x - rf / 12) ^ 2) (months_below rs rf)) / real (length (months_below rs rf))) \<noteq> 0"
proof -
  have dd: "[(r - rf / 12) ^ 2. r \<leftarrow> rs, r < rf / 12] = map (\<lambda>r. (r - rf / 12) ^ 2) (months_below rs rf)"
    unfolding months_below_def by (induction rs) simp_all
  show dev: "sqrt (sum_list (map (\<lambda>x. (x - rf / 12) ^ 2) (months_below rs rf)) / real (length (months_below rs rf))) \<noteq> 0"
    using deviation_below [OF assms(1)] assms(1) by simp
  show "m_sortino rs rf = (mean_of rs - rf / 12) /
      sqrt (sum_list (map (\<lambda>x. (x - rf / 12) ^ 2) (months_below rs rf)) / real (length (months_below rs rf)))"
    using assms dev unfolding m_sortino_def Let_def dd by simp
qed

text \<open>The evaluation of the ranges and of the cells that the formulas of RISK read.\<close>

definition risk_env :: "(sheet \<Rightarrow> coord \<Rightarrow> sheet_value) \<Rightarrow> real list \<Rightarrow> real \<Rightarrow> bool" where
  "risk_env v rs rf \<longleftrightarrow>
     col_range (v RETURNS) col_C 4 27 = map N rs \<and> col_range (v RETURNS) col_D 4 27 = map N (tl (cumulate 1 rs)) \<and>
     col_range (v RETURNS) col_F 4 27 = map N (helper_drawdowns 1 0 rs) \<and> col_range (v RETURNS) col_G 4 27 = map N (sort rs) \<and>
     v RISK (col_B, 3) = N rf \<and> v RISK (col_B, 5) = N (m_volatility rs) \<and> v RISK (col_B, 7) = N (mean_of rs) \<and>
     v RISK (col_B, 9) = N (sqrt (sum_list (map (\<lambda>x. (x - rf / 12) ^ 2) (months_below rs rf)) / real (length (months_below rs rf)))) \<and>
     v RISK (col_B, 14) = N (m_total_return rs)"

lemma risk_ranges:
  assumes "risk_env v rs rf"
  shows "eval_formula v s return_range = map N rs" and "eval_formula v s sorted_range = map N (sort rs)"
    and "eval_formula v RISK month_rf = [N (rf / 12)]"
  using assms by (simp_all add: risk_env_def return_range_def sorted_range_def month_rf_def)

lemma tail_count_value:
  assumes "risk_env v rs rf" and "length rs = 24"
  shows "eval_formula v s tail_count = [N 1]"
  using assms tail_share by (simp add: tail_count_def risk_ranges)

lemma var_of_24:
  assumes "length rs = 24" shows "m_var rs (5 / 100) = Some (- (sort rs ! 1))" and "m_cvar rs (5 / 100) = - (sort rs ! 0)"
proof -
  have ne: "rs \<noteq> []" and ne': "sort rs \<noteq> []" using assms by (auto, metis length_sort list.size(3) zero_neq_numeral)
  have "m_var rs (5 / 100) = map_option uminus (list_item (sort rs) (int 1))"
    using ne tail_share by (simp add: m_var_def assms)
  also have "\<dots> = Some (- (sort rs ! 1))" using assms by (subst list_item_nat) simp_all
  finally show "m_var rs (5 / 100) = Some (- (sort rs ! 1))" .
  have "take 1 (sort rs) = [sort rs ! 0]" using ne' by (cases "sort rs") simp_all
  then show "m_cvar rs (5 / 100) = - (sort rs ! 0)" using ne tail_share by (simp add: m_cvar_def assms)
qed

lemma risk_formulas:
  assumes env: "risk_env v (rets_of d) (wd_risk_free d)" and len: "length (rets_of d) = 24"
    and above: "list_all (\<lambda>r. - 1 < r) (rets_of d)" and below: "months_below (rets_of d) (wd_risk_free d) \<noteq> []"
    and var: "m_var (rets_of d) (5 / 100) = Some var" and ann: "m_annualized_return (rets_of d) 12 = Some ann"
    and i: "i < 11" "i \<noteq> 8" "i = 6 \<Longrightarrow> m_max_drawdown (rets_of d) = m_max_drawdown (tl (rets_of d))"
    and row: "risk_rows d var ann ! i = (label, f, x)"
  shows "eval_formula v RISK f = [N x]"
proof -
  let ?rs = "rets_of d" let ?rf = "wd_risk_free d"
  note ranges = risk_ranges [OF env]
  have cells: "v RISK (col_B, 5) = N (m_volatility ?rs)" "v RISK (col_B, 7) = N (mean_of ?rs)"
    "v RISK (col_B, 14) = N (m_total_return ?rs)"
    "v RISK (col_B, 9) = N (sqrt (sum_list (map (\<lambda>x. (x - ?rf / 12) ^ 2) (months_below ?rs ?rf)) / real (length (months_below ?rs ?rf))))"
    using env by (simp_all add: risk_env_def)
  have two: "2 \<le> length ?rs" and ne: "?rs \<noteq> []" and one: "length ?rs \<noteq> 1" using len by auto
  have vol: "m_volatility ?rs = sample_std ?rs" using two by (simp add: m_volatility_def)
  note row' = row [unfolded risk_rows_def Let_def]
  consider "i = 0" | "i = 1" | "i = 2" | "i = 3" | "i = 4" | "i = 5" | "i = 6" | "i = 7" | "i = 9" | "i = 10"
    using i(1,2) by (atomize_elim, presburger)
  then show ?thesis
  proof cases
    case 1
    with row' have "f = Fn STDEV [return_range]" "x = m_volatility ?rs" by simp_all
    then show ?thesis using two vol by (simp add: ranges)
  next
    case 2
    with row' have "f = Op Mul (here col_B 5) (Fn SQRT [Lit 12])" "x = m_volatility ?rs * sqrt 12" by simp_all
    then show ?thesis by (simp add: cells)
  next
    case 3
    with row' have "f = Fn AVERAGE [return_range]" "x = mean_of ?rs" by simp_all
    then show ?thesis using ne by (simp add: ranges)
  next
    case 4
    with row' have "f = Fn IF_ELSE [Op Equal (here col_B 5) (Lit 0), Lit 0,
             Op Div (Paren (Op Sub (here col_B 7) month_rf)) (here col_B 5)]" "x = m_sharpe ?rs ?rf" by simp_all
    then show ?thesis using two by (simp add: cells ranges m_sharpe_def Let_def)
  next
    case 5
    with row' have "f = Fn SQRT [Op Div
             (Fn SUMPRODUCT [Op Mul (Paren (Op Less return_range month_rf)) (Op Power (Paren (Op Sub return_range month_rf)) (Lit 2))])
             (Fn COUNTIF [return_range, Below month_rf])]"
      "x = sqrt (sum_list (map (\<lambda>x. (x - ?rf / 12) ^ 2) (months_below ?rs ?rf)) / real (length (months_below ?rs ?rf)))"
      by simp_all
    moreover have "0 \<le> sum_list (map (\<lambda>x. (x - ?rf / 12) ^ 2) (months_below ?rs ?rf)) / real (length (months_below ?rs ?rf))"
      by (intro divide_nonneg_nonneg sum_list_nonneg) auto
    ultimately show ?thesis
      using below squares_below [OF one, of "?rf / 12"] by (simp add: ranges months_below_def [symmetric] del: apply_fn.simps(2) less_divide_eq_numeral1)
  next
    case 6
    with row' have "f = Fn IF_ELSE [Op Equal (Fn COUNTIF [return_range, Below month_rf]) (Lit 0), Lit 0,
             Op Div (Paren (Op Sub (here col_B 7) month_rf)) (here col_B 9)]" "x = m_sortino ?rs ?rf" by simp_all
    then show ?thesis
      using below sortino_cell [OF below two]
      by (simp add: ranges cells months_below_def [symmetric] del: less_divide_eq_numeral1 real_sqrt_eq_zero_cancel_iff)
  next
    case 7
    with row' have "f = Fn MAXIMUM [Area (Some RETURNS) (rel col_F 4) (rel col_F 27)]" "x = m_max_drawdown ?rs" by simp_all
    moreover have "helper_drawdowns 1 0 ?rs \<noteq> []" using ne by (metis length_helper_drawdowns length_0_conv)
    ultimately show ?thesis using env drawdown_cell(1) [OF above ne] i(3) 7 by (simp add: risk_env_def)
  next
    case 8
    with row' have f: "f = Negative (Fn INDEX [sorted_range, Op Add tail_count (Lit 1)])" and x: "x = var" by simp_all
    have "var = - (sort ?rs ! 1)" using var var_of_24(1) [OF len] by simp
    then show ?thesis
      using len item_nth [of 1 "sort ?rs"] by (simp add: f x ranges tail_count_value [OF env len])
  next
    case 9
    with row' have "f = Op Sub (Fn INDEX [Area (Some RETURNS) (rel col_D 4) (rel col_D 27), Fn COUNT [return_range]]) (Lit 1)"
      "x = m_total_return ?rs" by simp_all
    then show ?thesis
      using env len total_return_cell [OF ne] item_nth [of 23 "tl (cumulate 1 ?rs)"] by (simp add: ranges risk_env_def)
  next
    case 10
    with row' have f: "f = Op Sub (Op Power (Paren (Op Add (Lit 1) (here col_B 14))) (Paren (Op Div (Lit 12) (Fn COUNT [return_range])))) (Lit 1)"
      and x: "x = ann" by simp_all
    note pos = total_return_above [OF above]
    have "ann = (1 + m_total_return ?rs) powr (1 / 2) - 1"
      using ann ne pos by (simp add: m_annualized_return_def py_power_def len)
    then show ?thesis using sheet_power_half [OF pos] by (simp add: f x cells ranges len)
  qed
qed

text \<open>The two exceptions: CVaR is the value at risk, and the drawdown misses the first month's fall.\<close>

lemma cvar_formula:
  assumes env: "risk_env v rs rf" and len: "length rs = 24"
  shows "eval_formula v RISK (Negative (Fn AVERAGE [Span (Fn INDEX [sorted_range, Lit 2])
      (Fn INDEX [sorted_range, Op Add (Lit 1) (Fn MAXIMUM [Lit 1, tail_count])])])) = [N (- (sort rs ! 1))]"
proof -
  have "range_part (map N (sort rs)) 2 2 = take 1 (drop 1 (map N (sort rs)))"
    using len by (simp add: range_part_def)
  also have "\<dots> = map N [sort rs ! 1]"
    using len by (simp add: take_Suc_conv_app_nth drop_map hd_drop_conv_nth take_Suc drop_Suc nth_tl)
  finally have "range_part (map N (sort rs)) 2 2 = map N [sort rs ! 1]" .
  then show ?thesis
    by (simp add: risk_ranges [OF env] tail_count_value [OF env len] on_numbers_def numbers_def List.map_filter_simps mean_of_def)
qed

lemma risk_env_built:
  assumes shaped: "shaped d" and ret: "w RETURNS = build_returns d"
    and risk: "\<And>c k. w RISK (c, k) =
       (if 5 \<le> k \<and> k < 16 \<and> labelled_cell k (risk_rows d var ann ! (k - 5)) c \<noteq> None
        then labelled_cell k (risk_rows d var ann ! (k - 5)) c
        else if c = col_B \<and> k = 3 then Some (Num (wd_risk_free d)) else None)"
  shows "risk_env (\<lambda>s p. shown_value (w s p)) (rets_of d) (wd_risk_free d)"
proof -
  have row: "shown_value (w RISK (col_B, k)) = N x" if "risk_rows d var ann ! (k - 5) = (l, f, x)" and "5 \<le> k" and "k < 16" for k l f x
    unfolding risk that(1) using that(2,3) by simp
  have "shown_value (w RISK (col_B, 3)) = N (wd_risk_free d)" by (simp add: risk)
  moreover have "shown_value (w RISK (col_B, 5)) = N (m_volatility (rets_of d))"
    by (rule row) (simp_all add: risk_rows_def Let_def)
  moreover have "shown_value (w RISK (col_B, 7)) = N (mean_of (rets_of d))"
    by (rule row) (simp_all add: risk_rows_def Let_def)
  moreover have "shown_value (w RISK (col_B, 9)) = N (sqrt (sum_list (map (\<lambda>x. (x - wd_risk_free d / 12) ^ 2)
      (months_below (rets_of d) (wd_risk_free d))) / real (length (months_below (rets_of d) (wd_risk_free d)))))"
    by (rule row) (simp_all add: risk_rows_def Let_def)
  moreover have "shown_value (w RISK (col_B, 14)) = N (m_total_return (rets_of d))"
    by (rule row) (simp_all add: risk_rows_def Let_def)
  ultimately show ?thesis
    unfolding risk_env_def using returns_columns [OF shaped] by (simp add: ret)
qed

section \<open>FACTORS, SCENARIOS and DASHBOARD\<close>

lemma factors_sheet:
  assumes "length (wd_factors d) = 5"
  shows "build_factors d (c, k) =
     (if k = 10 \<and> c = col_D then Some (Formula (Fn SUM_RANGE [rows_of col_D 4 9])
             (sum_list (map (\<lambda>(_, b, f). b * f) (wd_factors d)) + wd_alpha d))
      else if k = 9 \<and> c = col_D then Some (Formula (here col_B 9) (wd_alpha d))
      else if k = 9 \<and> c = col_B then Some (Num (wd_alpha d))
      else if 4 \<le> k \<and> k < 9 then factor_cell k (wd_factors d ! (k - 4)) c else None)"
  unfolding build_factors_def Let_def put_apply fill_rows_apply assms
  by (cases "k = 10"; cases "k = 9"; cases "factor_cell k (wd_factors d ! (k - 4)) c"; simp del: factor_cell.simps)

lemma factors_column:
  assumes "length (wd_factors d) = 5"
  shows "col_range (\<lambda>p. shown_value (build_factors d p)) col_D 4 9 = map (\<lambda>x. N x) (map (\<lambda>(_, b, f). b * f) (wd_factors d) @ [wd_alpha d])"
proof (rule col_range_eq)
  fix k
  assume "k < length (map N (map (\<lambda>(_, b, f). b * f) (wd_factors d) @ [wd_alpha d]))"
  then consider "k < 5" | "k = 5" using assms by fastforce
  then show "shown_value (build_factors d (col_D, 4 + k)) = map N (map (\<lambda>(_, b, f). b * f) (wd_factors d) @ [wd_alpha d]) ! k"
  proof cases
    case 1
    then show ?thesis using assms by (cases "wd_factors d ! k") (simp add: factors_sheet nth_append)
  next
    case 2
    then show ?thesis using assms by (simp add: factors_sheet nth_append)
  qed
qed (use assms in simp)

lemma factors_consistent:
  assumes "w FACTORS = build_factors d" and "length (wd_factors d) = 5"
  shows "consistent w FACTORS (c, k)"
proof -
  have env: "w FACTORS p = build_factors d p" for p by (simp add: assms(1))
  consider "k = 10" | "k = 9" | "4 \<le> k" "k < 9" | "k < 4 \<or> 10 < k" by linarith
  then show ?thesis
  proof cases
    case 1
    then show ?thesis
      using factors_column [OF assms(2)] by (simp add: consistent_def env factors_sheet [OF assms(2)] del: map_append)
  next
    case 2
    then show ?thesis by (simp add: consistent_def env factors_sheet [OF assms(2)])
  next
    case 3
    then show ?thesis by (cases "wd_factors d ! (k - 4)") (simp add: consistent_def env factors_sheet [OF assms(2)])
  next
    case 4
    then show ?thesis by (auto simp add: consistent_def env factors_sheet [OF assms(2)])
  qed
qed

lemma scenarios_sheet:
  assumes "length (wd_shocks d) = 3"
  shows "build_scenarios d (c, k) =
     (if 12 \<le> k \<and> k < 15 then impact_cell d 10 k (wd_shocks d ! (k - 12)) c
      else if 4 \<le> k \<and> k < 10 then class_cell d k (SHOCK_CLASSES ! (k - 4)) c else None)"
proof -
  have len: "length SHOCK_CLASSES = 6" by (simp add: SHOCK_CLASSES_def)
  show ?thesis
    unfolding build_scenarios_def Let_def fill_rows_apply assms len
    by (cases "impact_cell d 10 k (wd_shocks d ! (k - 12)) c"; cases "class_cell d k (SHOCK_CLASSES ! (k - 4)) c"; auto)
qed

lemma lower_classes:
  assumes "a \<in> set SHOCK_CLASSES" and "b \<in> set SHOCK_CLASSES"
  shows "lower a = lower b \<longleftrightarrow> a = b"
proof -
  have "distinct (map lower SHOCK_CLASSES)" by code_simp
  then have "inj_on lower (set SHOCK_CLASSES)" by (simp add: distinct_map)
  then show ?thesis using assms by (simp add: inj_on_eq_iff)
qed

lemma class_sum:
  assumes "\<And>h. h \<in> set hs \<Longrightarrow> wh_class h \<in> set SHOCK_CLASSES" and "cls \<in> set SHOCK_CLASSES"
  shows "apply_fn SUMIF [map (\<lambda>h. T (wh_class h)) hs, [T cls], map (\<lambda>h. N (wb_market_value h)) hs] =
    N (sum_list (map wb_market_value (filter (\<lambda>h. wh_class h = cls) hs)))"
proof -
  have "filter (\<lambda>p. same_text (fst p) (T cls)) (zip (map (\<lambda>h. T (wh_class h)) hs) (map (\<lambda>h. N (wb_market_value h)) hs)) =
      map (\<lambda>h. (T (wh_class h), N (wb_market_value h))) (filter (\<lambda>h. wh_class h = cls) hs)"
    using assms by (induction hs) (simp_all add: same_text_def lower_classes)
  then show ?thesis by (simp add: comp_def)
qed

lemma shock_columns: "shock_column 0 = col_C" "shock_column (Suc 0) = col_D" "shock_column 2 = col_E"
  by code_simp+

lemma shock_cell:
  assumes "length (wd_shocks d) = 3" and "j < 3" and "4 \<le> k" and "k < 10"
  shows "build_scenarios d (shock_column j, k) = Some (Num (snd (wd_shocks d ! j) ! (k - 4)))"
proof -
  consider "j = 0" | "j = Suc 0" | "j = 2" using assms(2) by linarith
  then show ?thesis using assms by cases (simp_all add: scenarios_sheet shock_columns class_cell_def Let_def)
qed

lemma scenarios_columns:
  assumes "shaped d"
  shows "col_range (\<lambda>p. shown_value (build_scenarios d p)) col_B 4 9 = map N (map (class_weight d) SHOCK_CLASSES)"
    and "j < 3 \<Longrightarrow> col_range (\<lambda>p. shown_value (build_scenarios d p)) (shock_column j) 4 9 = map N (snd (wd_shocks d ! j))"
proof -
  have len: "length SHOCK_CLASSES = 6" by (simp add: SHOCK_CLASSES_def)
  show "col_range (\<lambda>p. shown_value (build_scenarios d p)) col_B 4 9 = map N (map (class_weight d) SHOCK_CLASSES)"
    by (rule col_range_eq) (simp_all add: len scenarios_sheet shapedD(6) [OF assms] class_cell_def Let_def)
  show "j < 3 \<Longrightarrow> col_range (\<lambda>p. shown_value (build_scenarios d p)) (shock_column j) 4 9 = map N (snd (wd_shocks d ! j))"
    using shapedD(6,8) [OF assms] by (intro col_range_eq) (simp_all add: shock_cell)
qed

lemma weighted_product:
  "map2 (apply_op Mul) (map (N \<circ> f) cs) (map N xs) = map N (map2 (\<lambda>c x. f c * x) cs xs)"
  by (induction cs xs rule: list_induct2') simp_all

lemma scenarios_consistent:
  assumes hold: "build_holdings d = Inr (w INPUT_Holdings)" and scen: "w SCENARIOS = build_scenarios d"
    and nav: "shown_value (w DASHBOARD (col_B, 4)) = N (nav_of d)" and shaped: "shaped d"
  shows "consistent w SCENARIOS (c, k)"
proof -
  note cell = scenarios_sheet [OF shapedD(6) [OF shaped]] and cols = holdings_columns [OF hold shapedD(1) [OF shaped]]
  have env: "w SCENARIOS p = build_scenarios d p" for p by (simp add: scen)
  have ne: "nav_of d \<noteq> 0" by (rule holdings_sheet(1) [OF hold shapedD(1) [OF shaped]])
  consider (asset) "4 \<le> k" "k < 10" | (impact) "12 \<le> k" "k < 15" | (none) "\<not> (4 \<le> k \<and> k < 10)" "\<not> (12 \<le> k \<and> k < 15)" by blast
  then show ?thesis
  proof cases
    case asset
    let ?cls = "SHOCK_CLASSES ! (k - 4)"
    have cls: "?cls \<in> set SHOCK_CLASSES" using asset by (intro nth_mem) (simp add: SHOCK_CLASSES_def)
    have a: "shown_value (build_scenarios d (col_A, k)) = T ?cls" using asset by (simp add: cell class_cell_def Let_def)
    show ?thesis
    proof (cases "c = col_B")
      case True
      have "build_scenarios d (col_B, k) = Some (Formula (Op Div (Fn SUMIF [Area (Some INPUT_Holdings) (fixed col_B 4) (fixed col_B 11),
                     At None (Ref True col_A False k), Area (Some INPUT_Holdings) (fixed col_E 4) (fixed col_E 11)])
                   (At (Some DASHBOARD) (fixed col_B 4))) (class_weight d ?cls))"
        using asset by (simp add: cell class_cell_def Let_def)
      then show ?thesis
        using class_sum [OF shapedD(7) [OF shaped] cls] ne
        by (simp add: consistent_def env True nav cols a class_weight_def del: apply_fn.simps)
    next
      case False
      then show ?thesis using asset by (simp add: consistent_def env cell class_cell_def Let_def)
    qed
  next
    case impact
    define j where "j = k - 12"
    have j: "k = 12 + j" "j < 3" using impact unfolding j_def by linarith+
    obtain name xs where s: "wd_shocks d ! j = (name, xs)" by fastforce
    have env': "(\<lambda>p. shown_value (w SCENARIOS p)) = (\<lambda>p. shown_value (build_scenarios d p))" by (simp add: scen)
    have b: "shown_value (build_scenarios d (col_B, 12 + j)) = N (scenario_impact d xs)"
      using j(2) by (simp add: cell impact_cell_def Let_def s)
    show ?thesis
      using scenarios_columns(1) [OF shaped] scenarios_columns(2) [OF shaped j(2)] j(2) b
      by (simp add: consistent_def env j(1) cell impact_cell_def Let_def s nav weighted_product scenario_impact_def)
  next
    case none
    then show ?thesis by (auto simp add: consistent_def env cell)
  qed
qed

lemma dashboard_sheet:
  assumes "build_dashboard d = Inr dash"
  obtains var gfc covid rate where "cost_of d \<noteq> 0" "m_var (rets_of d) (5 / 100) = Some var"
    "named_impact d ''GFC 2008 (2008-style)'' = Inr gfc" "named_impact d ''COVID 2020 (2020-style)'' = Inr covid"
    "named_impact d ''Rate shock (2022-style)'' = Inr rate"
    "\<forall>c k. dash (c, k) = (if 4 \<le> k \<and> k < 17 then labelled_cell k (dashboard_cards d var gfc covid rate ! (k - 4)) c else None)"
proof -
  from assms obtain var gfc covid rate where m: "cost_of d \<noteq> 0" "m_var (rets_of d) (5 / 100) = Some var"
    "named_impact d ''GFC 2008 (2008-style)'' = Inr gfc" "named_impact d ''COVID 2020 (2020-style)'' = Inr covid"
    "named_impact d ''Rate shock (2022-style)'' = Inr rate"
    and dash: "dash = fill_rows labelled_cell 4 (dashboard_cards d var gfc covid rate) Map.empty"
    by (auto simp: build_dashboard_def split: if_splits option.splits)
  have len: "length (dashboard_cards d var gfc covid rate) = 13" by (simp add: dashboard_cards_def Let_def)
  have "dash (c, k) = (if 4 \<le> k \<and> k < 17 then labelled_cell k (dashboard_cards d var gfc covid rate ! (k - 4)) c else None)" for c k
    unfolding dash fill_rows_apply len
    by (cases "labelled_cell k (dashboard_cards d var gfc covid rate ! (k - 4)) c") simp_all
  with that m show ?thesis by blast
qed

lemma shaped_impacts:
  assumes "shaped d"
  shows "named_impact d ''GFC 2008 (2008-style)'' = Inr (scenario_impact d (snd (wd_shocks d ! 0)))"
    and "named_impact d ''COVID 2020 (2020-style)'' = Inr (scenario_impact d (snd (wd_shocks d ! 1)))"
    and "named_impact d ''Rate shock (2022-style)'' = Inr (scenario_impact d (snd (wd_shocks d ! 2)))"
proof -
  obtain a b c where s: "wd_shocks d = [(''GFC 2008 (2008-style)'', a), (''COVID 2020 (2020-style)'', b), (''Rate shock (2022-style)'', c)]"
    using assms by (auto simp: shaped_def map_eq_Cons_conv)
  show "named_impact d ''GFC 2008 (2008-style)'' = Inr (scenario_impact d (snd (wd_shocks d ! 0)))"
    and "named_impact d ''COVID 2020 (2020-style)'' = Inr (scenario_impact d (snd (wd_shocks d ! 1)))"
    and "named_impact d ''Rate shock (2022-style)'' = Inr (scenario_impact d (snd (wd_shocks d ! 2)))"
    by (simp_all add: named_impact_def s)
qed

text \<open>A built workbook of shaped data, with everything its cells hold.\<close>

definition holds_workbook :: "wb_data \<Rightarrow> workbook \<Rightarrow> real \<Rightarrow> real \<Rightarrow> bool" where
  "holds_workbook d w var ann \<longleftrightarrow>
     shaped d \<and> build_holdings d = Inr (w INPUT_Holdings) \<and> w RETURNS = build_returns d \<and> w FACTORS = build_factors d \<and>
     w SCENARIOS = build_scenarios d \<and> w DISCLOSURE = build_disclosure \<and> cost_of d \<noteq> 0 \<and>
     months_below (rets_of d) (wd_risk_free d) \<noteq> [] \<and>
     m_var (rets_of d) (5 / 100) = Some var \<and> m_annualized_return (rets_of d) 12 = Some ann \<and>
     (\<forall>c k. w RISK (c, k) =
       (if 5 \<le> k \<and> k < 16 \<and> labelled_cell k (risk_rows d var ann ! (k - 5)) c \<noteq> None
        then labelled_cell k (risk_rows d var ann ! (k - 5)) c
        else if c = col_B \<and> k = 3 then Some (Num (wd_risk_free d)) else None)) \<and>
     (\<forall>c k. w DASHBOARD (c, k) =
       (if 4 \<le> k \<and> k < 17
        then labelled_cell k (dashboard_cards d var (scenario_impact d (snd (wd_shocks d ! 0)))
               (scenario_impact d (snd (wd_shocks d ! 1))) (scenario_impact d (snd (wd_shocks d ! 2))) ! (k - 4)) c
        else None))"

lemma built_holds:
  assumes "build_workbook d = Inr w" and "shaped d"
  obtains var ann where "holds_workbook d w var ann"
proof -
  from built [OF assms(1)] obtain hold risk dash where b: "build_holdings d = Inr hold" "build_risk d = Inr risk"
    "build_dashboard d = Inr dash" "w DISCLOSURE = build_disclosure" "w INPUT_Holdings = hold" "w RETURNS = build_returns d"
    "w RISK = risk" "w FACTORS = build_factors d" "w SCENARIOS = build_scenarios d" "w DASHBOARD = dash" by blast
  obtain var ann where r: "m_var (rets_of d) (5 / 100) = Some var"
    "m_annualized_return (rets_of d) 12 = Some ann" "months_below (rets_of d) (wd_risk_free d) \<noteq> []" "risk (col_B, 3) = Some (Num (wd_risk_free d))"
    "\<forall>c k. risk (c, k) =
       (if 5 \<le> k \<and> k < 16 \<and> labelled_cell k (risk_rows d var ann ! (k - 5)) c \<noteq> None
        then labelled_cell k (risk_rows d var ann ! (k - 5)) c
        else if c = col_B \<and> k = 3 then Some (Num (wd_risk_free d)) else None)"
    by (rule risk_sheet [OF b(2)])
  obtain var' gfc covid rate where s: "cost_of d \<noteq> 0" "m_var (rets_of d) (5 / 100) = Some var'"
    "named_impact d ''GFC 2008 (2008-style)'' = Inr gfc" "named_impact d ''COVID 2020 (2020-style)'' = Inr covid"
    "named_impact d ''Rate shock (2022-style)'' = Inr rate"
    "\<forall>c k. dash (c, k) = (if 4 \<le> k \<and> k < 17 then labelled_cell k (dashboard_cards d var' gfc covid rate ! (k - 4)) c else None)"
    by (rule dashboard_sheet [OF b(3)])
  have eqs: "var' = var" "gfc = scenario_impact d (snd (wd_shocks d ! 0))" "covid = scenario_impact d (snd (wd_shocks d ! 1))"
    "rate = scenario_impact d (snd (wd_shocks d ! 2))"
    using s(2-5) r(1) shaped_impacts [OF assms(2)] by auto
  have "holds_workbook d w var ann"
    unfolding holds_workbook_def b(4-10) using assms(2) b(1) r(1-3) s(1) r(5) s(6) [unfolded eqs] by blast
  then show ?thesis by (rule that)
qed

lemma risk_value:
  assumes "holds_workbook d w var ann" and "5 \<le> k" and "k < 16" and "risk_rows d var ann ! (k - 5) = (l, f, x)"
  shows "w RISK (col_B, k) = Some (Formula f x)"
  using assms by (simp add: holds_workbook_def)

lemma dash_value:
  assumes "holds_workbook d w var ann" and "4 \<le> k" and "k < 17"
    and "dashboard_cards d var (scenario_impact d (snd (wd_shocks d ! 0)))
               (scenario_impact d (snd (wd_shocks d ! 1))) (scenario_impact d (snd (wd_shocks d ! 2))) ! (k - 4) = (l, f, x)"
  shows "w DASHBOARD (col_B, k) = Some (Formula f x)"
  using assms by (simp add: holds_workbook_def)

lemma holds_risk_env:
  assumes "holds_workbook d w var ann"
  shows "risk_env (\<lambda>s p. shown_value (w s p)) (rets_of d) (wd_risk_free d)"
  using assms by (intro risk_env_built [where var = var and ann = ann]) (simp_all only: holds_workbook_def)

lemma risk_consistent:
  assumes h: "holds_workbook d w var ann" and cell: "(c, k) \<noteq> (col_B, 13)"
    and fall: "(c, k) = (col_B, 11) \<Longrightarrow> m_max_drawdown (rets_of d) = m_max_drawdown (tl (rets_of d))"
  shows "consistent w RISK (c, k)"
proof (cases "c = col_B \<and> 5 \<le> k \<and> k < 16")
  case True
  then have c: "c = col_B" and k: "5 \<le> k" "k < 16" by simp_all
  obtain l f x where row: "risk_rows d var ann ! (k - 5) = (l, f, x)" by (metis surj_pair)
  have i: "k - 5 < 11" "k - 5 \<noteq> 8" "k - 5 = 6 \<Longrightarrow> m_max_drawdown (rets_of d) = m_max_drawdown (tl (rets_of d))"
    using k cell fall c by auto
  have shaped: "shaped d" using h by (simp add: holds_workbook_def)
  have "eval_formula (\<lambda>s p. shown_value (w s p)) RISK f = [N x]"
    using h by (intro risk_formulas [OF holds_risk_env [OF h] shapedD(2,4) [OF shaped] _ _ _ i row]) (simp_all add: holds_workbook_def)
  then show ?thesis using risk_value [OF h k row] by (simp add: consistent_def c)
next
  case False
  have "w RISK (c, k) =
       (if 5 \<le> k \<and> k < 16 \<and> labelled_cell k (risk_rows d var ann ! (k - 5)) c \<noteq> None
        then labelled_cell k (risk_rows d var ann ! (k - 5)) c
        else if c = col_B \<and> k = 3 then Some (Num (wd_risk_free d)) else None)"
    using h by (simp only: holds_workbook_def)
  then show ?thesis using False
    by (cases "risk_rows d var ann ! (k - 5)") (auto simp: consistent_def)
qed

lemma dash_consistent:
  assumes h: "holds_workbook d w var ann"
  shows "consistent w DASHBOARD (c, k)"
proof (cases "c = col_B \<and> 4 \<le> k \<and> k < 17")
  case True
  then have c: "c = col_B" and k: "4 \<le> k" "k < 17" by simp_all
  let ?cards = "dashboard_cards d var (scenario_impact d (snd (wd_shocks d ! 0)))
               (scenario_impact d (snd (wd_shocks d ! 1))) (scenario_impact d (snd (wd_shocks d ! 2)))"
  have hold: "build_holdings d = Inr (w INPUT_Holdings)" and shaped: "shaped d" and cost: "cost_of d \<noteq> 0"
    using h by (simp_all add: holds_workbook_def)
  note cols = holdings_columns [OF hold shapedD(1) [OF shaped]]
  have sums: "sum_list (map wb_market_value (wd_holdings d)) = nav_of d" "sum_list (map wh_cost (wd_holdings d)) = cost_of d"
    by (simp_all add: nav_of_def cost_of_def)
  have risk: "shown_value (w RISK (col_B, 6)) = N (m_volatility (rets_of d) * sqrt 12)"
    "shown_value (w RISK (col_B, 8)) = N (m_sharpe (rets_of d) (wd_risk_free d))"
    "shown_value (w RISK (col_B, 10)) = N (m_sortino (rets_of d) (wd_risk_free d))"
    "shown_value (w RISK (col_B, 11)) = N (m_max_drawdown (rets_of d))"
    "shown_value (w RISK (col_B, 12)) = N var" "shown_value (w RISK (col_B, 13)) = N (m_cvar (rets_of d) (5 / 100))"
    by (simp_all add: risk_value [OF h] risk_rows_def Let_def)
  have scen: "shown_value (w SCENARIOS (col_B, 12 + j)) = N (scenario_impact d (snd (wd_shocks d ! j)))" if "j < 3" for j
    using h that shapedD(6) [OF shaped] by (simp add: holds_workbook_def scenarios_sheet impact_cell_def Let_def)
  have own: "shown_value (w DASHBOARD (col_B, 4)) = N (nav_of d)" "shown_value (w DASHBOARD (col_B, 5)) = N (cost_of d)"
    "shown_value (w DASHBOARD (col_B, 6)) = N (nav_of d - cost_of d)"
    by (simp_all add: dash_value [OF h] dashboard_cards_def Let_def)
  obtain l f x where row: "?cards ! (k - 4) = (l, f, x)" by (metis surj_pair)
  note row' = row [unfolded dashboard_cards_def Let_def]
  consider "k = 4" | "k = 5" | "k = 6" | "k = 7" | "k = 8" | "k = 9" | "k = 10" | "k = 11" | "k = 12" | "k = 13" | "k = 14" | "k = 15" | "k = 16"
    using k by (atomize_elim, presburger)
  then have "eval_formula (\<lambda>s p. shown_value (w s p)) DASHBOARD f = [N x]"
  proof cases
    case 11 with row' show ?thesis using scen [of 0] by auto
  next
    case 12 with row' show ?thesis using scen [of 1] by auto
  next
    case 13 with row' show ?thesis using scen [of 2] by auto
  qed (use row' in \<open>auto simp: cols sums own risk cost\<close>)
  then show ?thesis using dash_value [OF h k row] by (simp add: consistent_def c)
next
  case False
  have "w DASHBOARD (c, k) =
       (if 4 \<le> k \<and> k < 17
        then labelled_cell k (dashboard_cards d var (scenario_impact d (snd (wd_shocks d ! 0)))
               (scenario_impact d (snd (wd_shocks d ! 1))) (scenario_impact d (snd (wd_shocks d ! 2))) ! (k - 4)) c
        else None)"
    using h by (simp only: holds_workbook_def)
  then show ?thesis using False
    by (cases "dashboard_cards d var (scenario_impact d (snd (wd_shocks d ! 0)))
               (scenario_impact d (snd (wd_shocks d ! 1))) (scenario_impact d (snd (wd_shocks d ! 2))) ! (k - 4)")
      (auto simp: consistent_def)
qed

end
