(* ===== verification/Workbook_Correct.thy ===== *)
theory Workbook_Correct
  imports Workbook_Sheets
begin

text \<open>
  The workbook is consistent: with the cached values in the cells, every formula evaluates to its own
  cached value, apart from two cells of the RISK sheet whose formulas are not the engine's metrics; every
  formula fits into its cell; and the verification script, which compares the cached values with the
  mirrors, accepts every workbook that the build script writes, those two cells included.
\<close>

section \<open>Consistency\<close>

text \<open>The build fails on no shaped data but that with no value, no cost or no month below the risk-free rate.\<close>

lemma workbook_builds:
  assumes "shaped d" and "nav_of d \<noteq> 0" and "cost_of d \<noteq> 0" and "months_below (rets_of d) (wd_risk_free d) \<noteq> []"
  shows "\<exists>w. build_workbook d = Inr w"
proof -
  have len: "length (rets_of d) = 24" and above: "list_all (\<lambda>r. - 1 < r) (rets_of d)" using shapedD(2,4) [OF assms(1)] .
  have ne: "rets_of d \<noteq> []" using len by auto
  have "\<exists>ann. m_annualized_return (rets_of d) 12 = Some ann"
    using total_return_above [OF above] ne by (simp add: m_annualized_return_def py_power_def)
  then show ?thesis
    using assms(2-4) ne var_of_24(1) [OF len] shaped_impacts [OF assms(1)]
    by (auto simp: build_workbook_def build_holdings_def build_risk_def build_dashboard_def Let_def)
qed

lemma sample_builds: "\<exists>w. build_workbook SAMPLE_DATA = Inr w"
  by (rule workbook_builds [OF shaped_sample])
    (simp_all add: nav_of_def cost_of_def rets_of_def months_below_def SAMPLE_DATA_def SAMPLE_HOLDINGS_def WORKBOOK_RETURNS_def wb_market_value_def)

lemma sample_returns:
  "hd (rets_of SAMPLE_DATA) = 21 / 1000" "sort (rets_of SAMPLE_DATA) ! 0 \<noteq> sort (rets_of SAMPLE_DATA) ! 1"
  by (simp_all add: rets_of_def SAMPLE_DATA_def WORKBOOK_RETURNS_def)


text \<open>C17: in every workbook that the script builds from data of the expected shape, each formula evaluates, with
  the cached values in the other cells, to its own cached value; the expected shortfall on RISK is left
  out, and the maximum drawdown there when the first month is a loss.\<close>

theorem formulas_match_cached:
  assumes "build_workbook d = Inr w" and "shaped d"
    and "(s, p) \<noteq> (RISK, (col_B, 13))" and "(s, p) = (RISK, (col_B, 11)) \<Longrightarrow> 0 \<le> hd (rets_of d)"
  shows "consistent w s p"
proof -
  from built_holds [OF assms(1,2)] obtain var ann where h: "holds_workbook d w var ann" .
  have sheets: "build_holdings d = Inr (w INPUT_Holdings)" "w RETURNS = build_returns d" "w FACTORS = build_factors d"
    "w SCENARIOS = build_scenarios d" "w DISCLOSURE = build_disclosure" using h by (simp_all add: holds_workbook_def)
  obtain c k where p: "p = (c, k)" by fastforce
  have ne: "rets_of d \<noteq> []" using shapedD(2) [OF assms(2)] by auto
  have fall: "m_max_drawdown (rets_of d) = m_max_drawdown (tl (rets_of d))" if "s = RISK" "(c, k) = (col_B, 11)"
    using assms(4) that drawdown_cell(2) [OF shapedD(4) [OF assms(2)] ne] p by simp
  have nav: "shown_value (w DASHBOARD (col_B, 4)) = N (nav_of d)"
    by (simp add: dash_value [OF h] dashboard_cards_def Let_def)
  show ?thesis
  proof (cases s)
    case DISCLOSURE
    then show ?thesis by (simp add: consistent_def p sheets build_disclosure_def put_apply)
  next
    case INPUT_Holdings
    then show ?thesis using holdings_consistent [where w = w and d = d, OF sheets(1) shapedD(1) [OF assms(2)]] p by simp
  next
    case RETURNS
    then show ?thesis using returns_consistent [where w = w and d = d, OF sheets(2) assms(2)] p by simp
  next
    case RISK
    then show ?thesis using risk_consistent [OF h _ fall] assms(3) p by simp
  next
    case FACTORS
    then show ?thesis using factors_consistent [where w = w and d = d, OF sheets(3) shapedD(5) [OF assms(2)]] p by simp
  next
    case SCENARIOS
    then show ?thesis using scenarios_consistent [where w = w and d = d, OF sheets(1,4) nav assms(2)] p by simp
  next
    case DASHBOARD
    then show ?thesis using dash_consistent [OF h] p by simp
  qed
qed

theorem formulas_match_cached_witness:
  "\<exists>w. build_workbook SAMPLE_DATA = Inr w \<and> consistent w RISK (col_B, 11) \<and> consistent w DASHBOARD (col_B, 13)"
proof -
  from sample_builds obtain w where w: "build_workbook SAMPLE_DATA = Inr w" ..
  show ?thesis
    using w formulas_match_cached [OF w shaped_sample, of RISK "(col_B, 11)"]
      formulas_match_cached [OF w shaped_sample, of DASHBOARD "(col_B, 13)"] sample_returns(1) by simp
qed

text \<open>C20: the two exceptions. The formula of the expected shortfall evaluates to the cached value at risk, and the
  cached expected shortfall, which is the engine's, differs from it unless the two lowest months are
  equal; the formula of the maximum drawdown is the engine's over the months after the first, so a
  fall in the first month is missed.\<close>

theorem risk_formula_gaps:
  assumes "build_workbook d = Inr w" and "shaped d"
  shows "\<exists>f x g y. w RISK (col_B, 13) = Some (Formula f x) \<and> x = conditional_var (rets_of d) (1 / 20) \<and>
      eval_formula (\<lambda>s p. shown_value (w s p)) RISK f = [N (value_at_risk (rets_of d) (1 / 20))] \<and>
      shown_value (w RISK (col_B, 12)) = N (value_at_risk (rets_of d) (1 / 20)) \<and>
      (consistent w RISK (col_B, 13) \<longleftrightarrow> sort (rets_of d) ! 0 = sort (rets_of d) ! 1) \<and>
      w RISK (col_B, 11) = Some (Formula g y) \<and> y = max_drawdown (rets_of d) \<and>
      eval_formula (\<lambda>s p. shown_value (w s p)) RISK g = [N (max_drawdown (tl (rets_of d)))]"
proof -
  from built_holds [OF assms] obtain var ann where h: "holds_workbook d w var ann" .
  note env = holds_risk_env [OF h] and len = shapedD(2) [OF assms(2)]
  let ?rs = "rets_of d"
  let ?f = "Negative (Fn AVERAGE [Span (Fn INDEX [sorted_range, Lit 2])
      (Fn INDEX [sorted_range, Op Add (Lit 1) (Fn MAXIMUM [Lit 1, tail_count])])])"
  let ?g = "Fn MAXIMUM [Area (Some RETURNS) (rel col_F 4) (rel col_F 27)]"
  have ne: "?rs \<noteq> []" using len by auto
  have share: "5 / 100 = (1 / 20 :: real)" by simp
  have f: "w RISK (col_B, 13) = Some (Formula ?f (m_cvar ?rs (5 / 100)))"
    and g: "w RISK (col_B, 11) = Some (Formula ?g (m_max_drawdown ?rs))"
    and v: "shown_value (w RISK (col_B, 12)) = N var"
    by (simp_all add: risk_value [OF h] risk_rows_def Let_def)
  have var: "value_at_risk ?rs (1 / 20) = - (sort ?rs ! 1)" and cvar: "conditional_var ?rs (1 / 20) = - (sort ?rs ! 0)"
    and vv: "var = - (sort ?rs ! 1)"
    using var_of_24 [OF len] m_var_engine [of "1 / 20" ?rs] m_cvar_engine [of ?rs "1 / 20"] h
    by (simp_all add: holds_workbook_def)
  have ef: "eval_formula (\<lambda>s p. shown_value (w s p)) RISK ?f = [N (- (sort ?rs ! 1))]" by (rule cvar_formula [OF env len])
  have "helper_drawdowns 1 0 ?rs \<noteq> []" using ne by (metis length_helper_drawdowns length_0_conv)
  then have eg: "eval_formula (\<lambda>s p. shown_value (w s p)) RISK ?g = [N (max_drawdown (tl ?rs))]"
    using env drawdown_cell(1) [OF shapedD(4) [OF assms(2)] ne] by (simp add: risk_env_def m_max_drawdown_engine)
  have cons: "consistent w RISK (col_B, 13) \<longleftrightarrow> sort ?rs ! 0 = sort ?rs ! 1"
    using f ef var_of_24(2) [OF len] by (auto simp: consistent_def)
  show ?thesis
    using f g v ef eg cons m_cvar_engine [of ?rs "1 / 20"] m_max_drawdown_engine [of ?rs]
    by (intro exI conjI) (auto simp: var vv share)
qed

theorem risk_formula_gaps_witness:
  "\<exists>w. build_workbook SAMPLE_DATA = Inr w \<and> \<not> consistent w RISK (col_B, 13)"
proof -
  from sample_builds obtain w where w: "build_workbook SAMPLE_DATA = Inr w" ..
  show ?thesis using w risk_formula_gaps [OF w shaped_sample] sample_returns(2) by blast
qed

section \<open>Extents\<close>

text \<open>
  How many values a formula has, known from its text alone, or none when it names a column that no sheet has
  or an operator or \<open>SUMPRODUCT\<close> is given ranges of different sizes. The part of a range between two \<open>INDEX\<close> results has a size known only when
  the formula is evaluated, and may only be an argument of a function.
\<close>

datatype extent = Fixed nat | Dynamic

fun extent_of :: "formula \<Rightarrow> extent option" where
  "extent_of (Lit n) = Some (Fixed 1)"
| "extent_of (Hundredths n) = Some (Fixed 1)"
| "extent_of (At on (Ref _ c _ r)) = (if c \<in> set ''ABCDEFG'' then Some (Fixed 1) else None)"
| "extent_of (Area on (Ref _ c _ r) (Ref _ c' _ r')) = (if c = c' \<and> c \<in> set ''ABCDEFG'' \<and> r \<le> r' then Some (Fixed (r' + 1 - r)) else None)"
| "extent_of (Op oper f g) =
     (case (extent_of f, extent_of g) of
        (Some (Fixed m), Some (Fixed n)) \<Rightarrow>
          if n = m \<or> n = 1 then Some (Fixed m) else if m = 1 then Some (Fixed n) else None
      | _ \<Rightarrow> None)"
| "extent_of (Negative f) = extent_of f"
| "extent_of (Paren f) = extent_of f"
| "extent_of (Below f) = extent_of f"
| "extent_of (Span f g) =
     (if extent_of f = Some (Fixed 1) \<and> extent_of g = Some (Fixed 1) then Some Dynamic else None)"
| "extent_of (Fn fn args) =
     (let es = map extent_of args
      in if None \<in> set es \<or> (fn = SUMPRODUCT \<and> \<not> list_all (\<lambda>e. e = hd es) es) then None else Some (Fixed 1))"

lemma length_broadcast:
  "length (broadcast f xs ys) =
     (if length ys = 1 then length xs else if length xs = 1 then length ys else min (length xs) (length ys))"
  by (simp add: broadcast_def)

lemma extent_sound:
  "extent_of f = Some (Fixed n) \<Longrightarrow> length (eval_formula v s f) = n"
proof (induction f arbitrary: n)
  case (Area on a b)
  then show ?case by (cases a; cases b) (auto split: if_splits)
next
  case (Op oper f g)
  then show ?case by (auto simp: length_broadcast split: option.splits extent.splits if_splits)
next
  case (At on r)
  then show ?case by (cases r) (simp split: if_splits)
qed (auto simp: Let_def split: if_splits)

lemma extents_risk:
  assumes "risk_rows d var ann ! i = (l, f, x)" and "i < 11"
  shows "extent_of f = Some (Fixed 1)"
proof -
  have "list_all (\<lambda>(l, f, x). extent_of f = Some (Fixed 1)) (risk_rows d var ann)"
    by (simp add: risk_rows_def Let_def return_range_def sorted_range_def month_rf_def tail_count_def)
  moreover have "length (risk_rows d var ann) = 11" by (simp add: risk_rows_def Let_def)
  ultimately show ?thesis using assms by (force simp: list_all_length)
qed

lemma extents_dashboard:
  assumes "dashboard_cards d var a b c ! i = (l, f, x)" and "i < 13"
  shows "extent_of f = Some (Fixed 1)"
proof -
  have "list_all (\<lambda>(l, f, x). extent_of f = Some (Fixed 1)) (dashboard_cards d var a b c)"
    by (simp add: dashboard_cards_def Let_def)
  moreover have "length (dashboard_cards d var a b c) = 13" by (simp add: dashboard_cards_def Let_def)
  ultimately show ?thesis using assms by (force simp: list_all_length)
qed

text \<open>What the check for formulas asks of a cell: a text that is none, or a formula with one value.\<close>

fun sound_cell :: "sheet_cell option \<Rightarrow> bool" where
  "sound_cell (Some (Text t)) = (\<not> startswith t ''='')"
| "sound_cell (Some (Formula f x)) = (extent_of f = Some (Fixed 1))"
| "sound_cell _ = True"

lemma sound_if [simp]: "sound_cell (if P then a else b) = (if P then sound_cell a else sound_cell b)"
  by simp

lemma shaped_texts:
  assumes "shaped d"
  shows "\<And>h. h \<in> set (wd_holdings d) \<Longrightarrow> \<not> startswith (wh_symbol h) ''=''"
    and "\<And>x. x \<in> set (wd_returns d) \<Longrightarrow> \<not> startswith (fst x) ''=''"
    and "\<And>x. x \<in> set (wd_factors d) \<Longrightarrow> \<not> startswith (fst x) ''=''"
    and "\<And>x. x \<in> set (wd_shocks d) \<Longrightarrow> \<not> startswith (fst x) ''=''"
    and "\<And>x. x \<in> set SHOCK_CLASSES \<Longrightarrow> \<not> startswith x ''=''"
proof -
  show cls: "\<And>x. x \<in> set SHOCK_CLASSES \<Longrightarrow> \<not> startswith x ''=''" by (auto simp: SHOCK_CLASSES_def startswith_def)
  fix x
  assume "x \<in> set (wd_shocks d)"
  then have "fst x \<in> set (map fst (wd_shocks d))" by simp
  then show "\<not> startswith (fst x) ''=''" using assms by (auto simp: shaped_def startswith_def)
qed (use assms in \<open>auto simp: shaped_def list_all_iff\<close>)

lemma sound_holdings:
  assumes "build_holdings d = Inr hold" and "shaped d"
  shows "sound_cell (hold (c, k))"
proof -
  have "sound_cell (holding_cell k (wd_holdings d ! (k - 4)) c)" if "4 \<le> k" "k < 12"
  proof -
    have h: "wd_holdings d ! (k - 4) \<in> set (wd_holdings d)" using that shapedD(1) [OF assms(2)] by (intro nth_mem) linarith
    show ?thesis using shaped_texts(1) [OF assms(2) h] shaped_texts(5) [OF assms(2) shapedD(7) [OF assms(2) h]] by simp
  qed
  then show ?thesis by (simp add: holdings_sheet(2) [OF assms(1) shapedD(1) [OF assms(2)]] startswith_def del: holding_cell.simps)
qed

lemma sound_returns:
  assumes "shaped d"
  shows "sound_cell (build_returns d (c, k))"
proof -
  have "wd_returns d ! (k - 4) \<in> set (wd_returns d)" if "4 \<le> k" "k < 4 + length (wd_returns d)"
    using that by (intro nth_mem) linarith
  from shaped_texts(2) [OF assms this] show ?thesis by (simp add: returns_sheet return_cell_def Let_def)
qed

lemma sound_factors:
  assumes "shaped d"
  shows "sound_cell (build_factors d (c, k))"
proof -
  have "sound_cell (factor_cell k (wd_factors d ! (k - 4)) c)" if "4 \<le> k" "k < 9"
  proof -
    have "wd_factors d ! (k - 4) \<in> set (wd_factors d)" using that shapedD(5) [OF assms] by (intro nth_mem) linarith
    from shaped_texts(3) [OF assms this] show ?thesis by (cases "wd_factors d ! (k - 4)") simp
  qed
  then show ?thesis by (simp add: factors_sheet [OF shapedD(5) [OF assms]] del: factor_cell.simps)
qed

lemma sound_scenarios:
  assumes "shaped d"
  shows "sound_cell (build_scenarios d (c, k))"
proof -
  note len = shapedD(6) [OF assms]
  have "sound_cell (class_cell d k (SHOCK_CLASSES ! (k - 4)) c)" if "4 \<le> k" "k < 10"
  proof -
    have "length SHOCK_CLASSES = 6" by (simp add: SHOCK_CLASSES_def)
    then have "SHOCK_CLASSES ! (k - 4) \<in> set SHOCK_CLASSES" using that by (intro nth_mem) linarith
    from shaped_texts(5) [OF assms this] show ?thesis by (simp add: class_cell_def Let_def)
  qed
  moreover have "sound_cell (impact_cell d 10 k (wd_shocks d ! (k - 12)) c)" if k: "12 \<le> k" "k < 15"
  proof -
    have "wd_shocks d ! (k - 12) \<in> set (wd_shocks d)" using that len by (intro nth_mem) linarith
    note name = shaped_texts(4) [OF assms this]
    consider "k - 12 = 0" | "k - 12 = Suc 0" | "k - 12 = 2" using k by linarith
    then show ?thesis using name by cases (simp_all add: impact_cell_def Let_def shock_columns)
  qed
  ultimately show ?thesis by (simp add: scenarios_sheet [OF len])
qed

lemma labels_plain:
  "risk_rows d var ann ! i = (l, f, x) \<Longrightarrow> i < 11 \<Longrightarrow> \<not> startswith l ''=''"
  "dashboard_cards d var a b c ! i = (l, f, x) \<Longrightarrow> i < 13 \<Longrightarrow> \<not> startswith l ''=''"
proof -
  have "list_all (\<lambda>(l, f, x). \<not> startswith l ''='') (risk_rows d var ann)" "length (risk_rows d var ann) = 11"
    by (simp_all add: risk_rows_def Let_def startswith_def)
  then show "risk_rows d var ann ! i = (l, f, x) \<Longrightarrow> i < 11 \<Longrightarrow> \<not> startswith l ''=''" by (force simp: list_all_length)
  have "list_all (\<lambda>(l, f, x). \<not> startswith l ''='') (dashboard_cards d var a b c)" "length (dashboard_cards d var a b c) = 13"
    by (simp_all add: dashboard_cards_def Let_def startswith_def)
  then show "dashboard_cards d var a b c ! i = (l, f, x) \<Longrightarrow> i < 13 \<Longrightarrow> \<not> startswith l ''=''" by (force simp: list_all_length)
qed

lemma sound_labelled: "\<not> startswith l ''='' \<Longrightarrow> extent_of f = Some (Fixed 1) \<Longrightarrow> sound_cell (labelled_cell k (l, f, x) c)"
  by simp

lemma sound_risk:
  assumes "holds_workbook d w var ann"
  shows "sound_cell (w RISK (c, k))"
proof -
  obtain l f x where row: "risk_rows d var ann ! (k - 5) = (l, f, x)" by (metis surj_pair)
  have cell: "w RISK (c, k) =
       (if 5 \<le> k \<and> k < 16 \<and> labelled_cell k (l, f, x) c \<noteq> None then labelled_cell k (l, f, x) c
        else if c = col_B \<and> k = 3 then Some (Num (wd_risk_free d)) else None)"
    using assms unfolding holds_workbook_def row [symmetric] by blast
  have "sound_cell (labelled_cell k (l, f, x) c)" if "5 \<le> k" "k < 16"
    using that by (intro sound_labelled labels_plain(1) [OF row] extents_risk [OF row]) simp_all
  then show ?thesis by (simp add: cell del: labelled_cell.simps)
qed

lemma sound_dashboard:
  assumes "holds_workbook d w var ann"
  shows "sound_cell (w DASHBOARD (c, k))"
proof -
  let ?cards = "dashboard_cards d var (scenario_impact d (snd (wd_shocks d ! 0)))
               (scenario_impact d (snd (wd_shocks d ! 1))) (scenario_impact d (snd (wd_shocks d ! 2)))"
  obtain l f x where row: "?cards ! (k - 4) = (l, f, x)" by (metis surj_pair)
  have cell: "w DASHBOARD (c, k) = (if 4 \<le> k \<and> k < 17 then labelled_cell k (l, f, x) c else None)"
    using assms unfolding holds_workbook_def row [symmetric] by blast
  have "sound_cell (labelled_cell k (l, f, x) c)" if "4 \<le> k" "k < 17"
    using that by (intro sound_labelled labels_plain(2) [OF row] extents_dashboard [OF row]) simp_all
  then show ?thesis by (simp add: cell del: labelled_cell.simps)
qed

lemma sound_workbook:
  assumes h: "holds_workbook d w var ann"
  shows "sound_cell (w s p)"
proof -
  obtain c k where p: "p = (c, k)" by fastforce
  have sheets: "build_holdings d = Inr (w INPUT_Holdings)" "w RETURNS = build_returns d" "w FACTORS = build_factors d"
    "w SCENARIOS = build_scenarios d" "w DISCLOSURE = build_disclosure" and shaped: "shaped d"
    using h by (simp_all add: holds_workbook_def)
  have "\<not> startswith no_encryption ''=''" by code_simp
  then show ?thesis
    using sound_holdings [OF sheets(1) shaped] sound_returns [OF shaped] sound_factors [OF shaped] sound_scenarios [OF shaped]
      sound_risk [OF h] sound_dashboard [OF h]
    by (cases s) (simp_all add: p sheets(2-) build_disclosure_def put_apply)
qed

text \<open>C39: every formula of a built workbook is well formed: its operators and \<open>SUMPRODUCT\<close> are given ranges of equal
  size or single values, and it has exactly one value, so that it fits into its cell, whatever numbers,
  texts, blanks or errors the cells it reads come to hold.\<close>

theorem formulas_fit:
  assumes "build_workbook d = Inr w" and "shaped d" and "w s p = Some (Formula f x)"
  shows "extent_of f = Some (Fixed 1) \<and> (\<exists>y. eval_formula v s f = [y])"
proof -
  from built_holds [OF assms(1,2)] obtain var ann where "holds_workbook d w var ann" .
  from sound_workbook [OF this, of s p] have fit: "extent_of f = Some (Fixed 1)" by (simp add: assms(3))
  then have "length (eval_formula v s f) = 1" by (rule extent_sound)
  then have "\<exists>y. eval_formula v s f = [y]" by (cases "eval_formula v s f") simp_all
  with fit show ?thesis by blast
qed

theorem formulas_fit_witness:
  "\<exists>w f x. build_workbook SAMPLE_DATA = Inr w \<and> w RISK (col_B, 13) = Some (Formula f x) \<and> extent_of f = Some (Fixed 1)"
proof -
  from sample_builds obtain w where w: "build_workbook SAMPLE_DATA = Inr w" ..
  from built_holds [OF w shaped_sample] obtain var ann where h: "holds_workbook SAMPLE_DATA w var ann" .
  obtain l f x where "risk_rows SAMPLE_DATA var ann ! (13 - 5) = (l, f, x)" by (metis surj_pair)
  from risk_value [OF h _ _ this] have cell: "w RISK (col_B, 13) = Some (Formula f x)" by simp
  show ?thesis using w cell formulas_fit [OF w shaped_sample cell] by blast
qed

section \<open>The scan for functions\<close>

text \<open>What stands before each opening bracket of a text, reversed; \<open>acc\<close> is what stands before the text.\<close>

fun before_brackets :: "string \<Rightarrow> string \<Rightarrow> string list" where
  "before_brackets acc [] = []"
| "before_brackets acc (c # cs) = (if c = CHR ''('' then [acc] else []) @ before_brackets (c # acc) cs"

lemma before_brackets_append:
  "before_brackets acc (s @ t) = before_brackets acc s @ before_brackets (rev s @ acc) t"
  by (induction s arbitrary: acc) simp_all

definition no_banned_name :: "string \<Rightarrow> bool" where
  "no_banned_name h = list_all (\<lambda>b. \<not> startswith h (tl (rev b))) BANNED"

definition unbanned :: "string \<Rightarrow> string \<Rightarrow> bool" where
  "unbanned acc t = list_all no_banned_name (before_brackets acc (upper t))"

text \<open>A place where no name can have begun: nothing, or a character that is no letter of a name.\<close>

definition fresh :: "string \<Rightarrow> bool" where
  "fresh acc = (case acc of [] \<Rightarrow> True | c # _ \<Rightarrow> c \<in> set ''=+-*/^<:,&('')"

lemma upper_append: "upper (s @ t) = upper s @ upper t"
  by (simp add: upper_def)

lemma unbanned_append: "unbanned acc (s @ t) \<longleftrightarrow> unbanned acc s \<and> unbanned (rev (upper s) @ acc) t"
  by (simp add: unbanned_def upper_append before_brackets_append)

lemma unbanned_Nil [simp]: "unbanned acc []"
  by (simp add: unbanned_def upper_def)

lemma banned_absent:
  assumes "unbanned [] t" and "b \<in> set BANNED"
  shows "\<not> str_in b (upper t)"
proof
  assume "str_in b (upper t)"
  then obtain u v where t: "upper t = u @ b @ v" by (auto simp: str_in_iff)
  have "\<forall>b \<in> set BANNED. b = rev (tl (rev b)) @ ''(''" by code_simp
  then obtain n where b: "b = n @ ''(''" "tl (rev b) = rev n" using assms(2) by (metis rev_rev_ident)
  have "rev n @ rev u \<in> set (before_brackets [] (upper t))" by (simp add: t b(1) before_brackets_append)
  then have "no_banned_name (rev n @ rev u)" using assms(1) by (simp add: unbanned_def list_all_iff)
  then have "\<not> startswith (rev n @ rev u) (tl (rev b))" using assms(2) by (simp add: no_banned_name_def list_all_iff)
  then show False by (simp add: b(2))
qed

definition quiet :: "string \<Rightarrow> bool" where
  "quiet t = (CHR ''('' \<notin> set (upper t))"

lemma quiet_append [simp]: "quiet (s @ t) \<longleftrightarrow> quiet s \<and> quiet t"
  by (auto simp: quiet_def upper_append)

lemma quiet_Nil [simp]: "quiet []"
  by (simp add: quiet_def upper_def)

lemma quiet_unbanned: "quiet t \<Longrightarrow> unbanned acc t"
proof -
  have "CHR ''('' \<notin> set u \<Longrightarrow> before_brackets a u = []" for a u by (induction u arbitrary: a) auto
  then show "quiet t \<Longrightarrow> unbanned acc t" by (simp add: quiet_def unbanned_def)
qed

lemma quiet_dec: "quiet (dec n)"
proof (induction n rule: dec.induct)
  case (1 n)
  have digits: "\<forall>k \<in> set [0..<10]. quiet [digit_char k]" by code_simp
  then have "quiet [digit_char k]" if "k < 10" for k using that by (simp del: upt_Suc upt_rec_numeral)
  then show ?case using 1 by (subst dec.simps) (simp add: quiet_append [of "dec (n div 10)"])
qed

lemma quiet_signs:
  "quiet ''$''" "quiet ''!''" "quiet '':''" "quiet '',''" "quiet '')''" "quiet ''-''" "quiet ''0''" "quiet ''0.''"
  "quiet [CHR 0x22, CHR ''<'', CHR 0x22, CHR ''&'']"
  by code_simp+

lemma quiet_sheet: "quiet (show_sheet s)"
  by (cases s; hypsubst; code_simp)

lemma quiet_op: "quiet (show_op oper)"
  by (cases oper; hypsubst; code_simp)

lemma quiet_fn: "quiet (show_fn fn)"
  by (cases fn; hypsubst; code_simp)

lemmas quiet_pieces = quiet_signs quiet_sheet quiet_op quiet_fn

lemma quiet_column: "c \<in> set ''ABCDEFG'' \<Longrightarrow> quiet [c]"
proof -
  have "\<forall>c \<in> set ''ABCDEFG''. quiet [c]" by code_simp
  then show "c \<in> set ''ABCDEFG'' \<Longrightarrow> quiet [c]" by blast
qed

lemma quiet_ref: "c \<in> set ''ABCDEFG'' \<Longrightarrow> quiet (show_ref (Ref ac c ar r))"
  using quiet_column [of c] quiet_append [of "[c]"] by (simp add: quiet_pieces quiet_dec del: append.append_Cons)

lemma quiet_colon: "quiet (CHR '':'' # t) \<longleftrightarrow> quiet t"
  using quiet_append [of "'':''" t] by (simp add: quiet_signs)

lemma quiet_on: "quiet (show_on on)"
  by (cases on) (simp_all add: quiet_pieces)

lemma fresh_unnamed: "fresh acc \<Longrightarrow> no_banned_name acc"
  by (cases acc) (auto simp: fresh_def no_banned_name_def BANNED_def startswith_def)

lemma upper_fn: "upper (show_fn fn) = show_fn fn"
  by (cases fn; hypsubst; code_simp)

lemma function_unnamed: "no_banned_name (rev (upper (show_fn fn)) @ acc)"
  unfolding upper_fn by (cases fn) (simp_all add: no_banned_name_def BANNED_def startswith_def)

lemma fresh_op: "fresh (rev (upper (t @ show_op oper)) @ acc)"
proof -
  have "fresh (rev (upper (show_op oper)) @ a)" for a
    by (cases oper) (simp_all add: fresh_def upper_def upper_char_def code_of_def Let_def)
  then show ?thesis by (simp add: upper_append)
qed

lemma fresh_sign: "c \<in> set ''=+-*/^<:,&('' \<Longrightarrow> fresh (rev (upper (t @ [c])) @ acc)"
proof -
  have "\<forall>c \<in> set ''=+-*/^<:,&(''. upper [c] = [c]" by code_simp
  then have "c \<in> set ''=+-*/^<:,&('' \<Longrightarrow> upper [c] = [c]" by blast
  then show "c \<in> set ''=+-*/^<:,&('' \<Longrightarrow> fresh (rev (upper (t @ [c])) @ acc)"
    unfolding upper_append by (simp only: rev_append) (simp add: fresh_def)
qed

lemma unbanned_commas:
  assumes "\<And>x a. x \<in> set xs \<Longrightarrow> fresh a \<Longrightarrow> unbanned a x" and "fresh acc"
  shows "unbanned acc (commas xs)"
  using assms
proof (induction xs arbitrary: acc rule: commas.induct)
  case (3 x y xs)
  have "fresh (rev (upper (x @ '','')) @ acc)" by (rule fresh_sign) simp
  with 3 have "unbanned (rev (upper (x @ '','')) @ acc) (commas (y # xs))" by simp
  with 3 show ?case using unbanned_append [of acc "x @ '',''"] by (simp add: unbanned_append quiet_unbanned quiet_pieces)
qed simp_all

lemma formula_unbanned:
  "extent_of f \<noteq> None \<Longrightarrow> fresh acc \<Longrightarrow> unbanned acc (show_formula f)"
proof (induction f arbitrary: acc rule: show_formula.induct)
  case (1 n)
  then show ?case by (simp add: quiet_unbanned quiet_dec)
next
  case (2 n)
  have "quiet (show_formula (Hundredths n))" by (simp add: quiet_dec quiet_signs del: append.append_Cons)
  then show ?case by (rule quiet_unbanned)
next
  case (3 s r)
  then show ?case by (cases r) (auto intro!: quiet_unbanned simp: quiet_on quiet_ref simp del: show_ref.simps split: if_splits)
next
  case (4 s a b)
  then show ?case
    by (cases a; cases b) (auto intro!: quiet_unbanned simp: quiet_on quiet_ref quiet_colon simp del: show_ref.simps split: if_splits)
next
  case (5 oper f g)
  then have "extent_of f \<noteq> None" "extent_of g \<noteq> None" by (auto split: option.splits extent.splits)
  with 5 fresh_op show ?case by (simp add: unbanned_append quiet_unbanned quiet_op upper_append)
next
  case (6 f)
  have "fresh (rev (upper ''-'') @ acc)" using fresh_sign [of "CHR ''-''" "[]" acc] by simp
  with 6 show ?case using unbanned_append [of acc "''-''"] by (simp add: quiet_unbanned quiet_signs)
next
  case (7 f)
  have bracket: "fresh (rev (upper ''('') @ acc)" using fresh_sign [of "CHR ''(''" "[]" acc] by simp
  have "unbanned acc ''(''" using 7 fresh_unnamed by (simp add: unbanned_def upper_def upper_char_def code_of_def)
  with 7 bracket show ?case using unbanned_append [of acc "''(''"] by (simp add: unbanned_append quiet_unbanned quiet_signs)
next
  case (8 f)
  let ?p = "[CHR 0x22, CHR ''<'', CHR 0x22, CHR ''&'']"
  have "fresh (rev (upper ?p) @ acc)" using fresh_sign [of "CHR ''&''" "[CHR 0x22, CHR ''<'', CHR 0x22]" acc] by simp
  with 8 show ?case using unbanned_append [of acc ?p] by (simp add: quiet_unbanned quiet_signs)
next
  case (9 f g)
  then have ok: "extent_of f \<noteq> None" "extent_of g \<noteq> None" by (auto split: if_splits)
  have "fresh (rev (upper (show_formula f @ '':'')) @ acc)" by (rule fresh_sign) simp
  with 9 ok show ?case
    using unbanned_append [of acc "show_formula f @ '':''"] by (simp add: unbanned_append quiet_unbanned quiet_signs)
next
  case (10 fn args)
  let ?acc = "rev (upper (show_fn fn)) @ acc"
  have ok: "extent_of a \<noteq> None" if "a \<in> set args" for a
  proof
    assume "extent_of a = None"
    then have "None \<in> set (map extent_of args)" using that by force
    then show False using 10(2) by (simp add: Let_def)
  qed
  have "unbanned ?acc ''(''" using function_unnamed by (simp add: unbanned_def upper_def upper_char_def code_of_def)
  moreover have "fresh (rev (upper ''('') @ ?acc)" using fresh_sign [of "CHR ''(''" "[]" ?acc] by simp
  then have "unbanned (rev (upper ''('') @ ?acc) (commas (map show_formula args))"
    using 10(1) ok by (intro unbanned_commas) auto
  ultimately have "unbanned ?acc (''('' @ commas (map show_formula args) @ '')'')"
    unfolding unbanned_append [of _ "''(''"] by (simp add: unbanned_append quiet_unbanned quiet_signs)
  then show ?case by (simp add: unbanned_append [of _ "show_fn fn"] quiet_unbanned quiet_fn)
qed

lemma formula_text_unbanned:
  assumes "extent_of f = Some (Fixed 1)" shows "unbanned [] (formula_text f)"
proof -
  have "fresh (rev (upper ''='') @ [])" using fresh_sign [of "CHR ''=''" "[]" "[]"] by simp
  with assms have "unbanned (rev (upper ''='') @ []) (show_formula f)" by (intro formula_unbanned) simp_all
  moreover have "unbanned [] ''=''" by code_simp
  ultimately show ?thesis unfolding formula_text_def unbanned_append by blast
qed

lemma nothing_banned:
  assumes "sound_cell c" shows "banned_in c = []"
proof -
  have "filter (\<lambda>b. str_in b (upper v)) BANNED = []" if v: "text_of_cell c = Some v" "startswith v ''=''" for v
  proof -
    from v assms obtain f where f: "v = formula_text f" "extent_of f = Some (Fixed 1)"
      by (cases c rule: sound_cell.cases) (auto simp: text_of_cell_def)
    from banned_absent [OF formula_text_unbanned [OF f(2)]] show ?thesis unfolding filter_empty_conv f(1) by blast
  qed
  then show ?thesis by (simp add: banned_in_def split: option.split)
qed

lemma none_banned:
  assumes "holds_workbook d w var ann" shows "banned_uses dims w = []"
  using nothing_banned [OF sound_workbook [OF assms]] by (simp add: banned_uses_def)

section \<open>The verification script\<close>

lemma numbers_at_eq:
  assumes "b = a + length xs" and "\<And>k. k < length xs \<Longrightarrow> shown_value (w s (c, a + k)) = N (xs ! k)"
  shows "numbers_at w s c a b = Inr xs"
  unfolding numbers_at_def traverse_Inr_iff using assms
  by (simp add: list_all2_conv_all_nth number_at_def del: upt_Suc)

lemma nearly:
  assumes "list_all (\<lambda>(s, c, r, e). shown_value (w s (c, r)) = N e) cmps"
  shows "traverse (near w) (map real_expected cmps) = Inr (map (\<lambda>_. True) cmps)"
proof -
  have "near w (real_expected (s, c, r, e)) = Inr True" if "shown_value (w s (c, r)) = N e" for s c r e
    using that by (simp add: near_def real_expected_def number_or_fail_def number_at_def TOL_def)
  then show ?thesis using assms by (induction cmps) auto
qed

text \<open>The inputs read from a workbook of data \<open>d\<close>, and what the script computes from them.\<close>

definition inputs_of :: "wb_data \<Rightarrow> wb_inputs" where
  "inputs_of d = \<lparr>vi_qtys = map wh_quantity (wd_holdings d), vi_prices = map wh_price (wd_holdings d),
     vi_costs = map wh_cost (wd_holdings d), vi_yields = map wh_yield (wd_holdings d), vi_classes = map wh_class (wd_holdings d),
     vi_rets = rets_of d, vi_rf = wd_risk_free d, vi_betas = map (fst \<circ> snd) (wd_factors d),
     vi_frets = map (snd \<circ> snd) (wd_factors d), vi_alpha = wd_alpha d\<rparr>"

lemma factor_fields:
  "shown_value (factor_cell k x col_B) = N (fst (snd x))" "shown_value (factor_cell k x col_C) = N (snd (snd x))"
  "shown_value (factor_cell k x col_D) = N (fst (snd x) * snd (snd x))"
  by (cases x; simp)+

lemma inputs_of_workbook:
  assumes h: "holds_workbook d w var ann"
  shows "read_inputs w = Inr (inputs_of d)"
proof -
  have hold: "build_holdings d = Inr (w INPUT_Holdings)" and shaped: "shaped d" and ret: "w RETURNS = build_returns d"
    and fac: "w FACTORS = build_factors d" using h by (simp_all add: holds_workbook_def)
  note len = shapedD(1-5) [OF shaped]
  note cell = holdings_sheet(2) [OF hold len(1)] and fcell = factors_sheet [OF len(5)]
  have "numbers_at w INPUT_Holdings col_C 4 12 = Inr (map wh_quantity (wd_holdings d))"
    "numbers_at w INPUT_Holdings col_D 4 12 = Inr (map wh_price (wd_holdings d))"
    "numbers_at w INPUT_Holdings col_F 4 12 = Inr (map wh_cost (wd_holdings d))"
    "numbers_at w INPUT_Holdings col_G 4 12 = Inr (map wh_yield (wd_holdings d))"
    by (rule numbers_at_eq; simp add: len(1) cell)+
  moreover have "numbers_at w RETURNS col_C 4 28 = Inr (rets_of d)"
    using returns_cells(1) [OF shaped] by (intro numbers_at_eq) (simp_all add: len ret)
  moreover have "numbers_at w FACTORS col_B 4 9 = Inr (map (fst \<circ> snd) (wd_factors d))"
    "numbers_at w FACTORS col_C 4 9 = Inr (map (snd \<circ> snd) (wd_factors d))"
    by (rule numbers_at_eq; simp add: len(5) fac fcell factor_fields del: factor_cell.simps)+
  moreover have "shown_value (w RISK (col_B, 3)) = N (wd_risk_free d)" using holds_risk_env [OF h] by (simp add: risk_env_def)
  moreover have "shown_value (w FACTORS (col_B, 9)) = N (wd_alpha d)" by (simp add: fac fcell)
  moreover have "map (\<lambda>r. case text_at w INPUT_Holdings col_B r of None \<Rightarrow> [] | Some t \<Rightarrow> t) [4..<12] = map wh_class (wd_holdings d)"
    by (rule nth_equalityI) (simp_all add: len(1) text_at_def cell del: upt_Suc upt_rec_numeral)
  ultimately show ?thesis by (simp only: read_inputs_def inputs_of_def rbind.simps number_or_fail_def number_at_def sheet_value.case option.case)
qed

lemma inputs_nav_of: "inputs_nav (inputs_of d) = nav_of d"
  by (simp add: inputs_nav_def inputs_of_def nav_of_def map2_map_map wb_market_value_def [abs_def])

lemma inputs_weight_of: "inputs_weight (inputs_of d) cls = class_weight d cls"
proof -
  have "sum_list (map (\<lambda>(q, p, c). q * p) (filter (\<lambda>(q, p, c). c = cls)
      (zip (map wh_quantity hs) (zip (map wh_price hs) (map wh_class hs))))) =
    sum_list (map wb_market_value (filter (\<lambda>h. wh_class h = cls) hs))" for hs
    by (induction hs) (simp_all add: wb_market_value_def)
  then show ?thesis by (simp add: inputs_weight_def class_weight_def inputs_nav_of) (simp add: inputs_of_def)
qed

lemma inputs_impact_of: "inputs_impact (inputs_of d) xs = scenario_impact d xs"
  by (simp add: inputs_impact_def scenario_impact_def inputs_weight_of)

lemma inputs_sums:
  "sum_list (map (\<lambda>(q, p, y). q * p * y) (zip (vi_qtys (inputs_of d)) (zip (vi_prices (inputs_of d)) (vi_yields (inputs_of d))))) =
     sum_list (map (\<lambda>h. wh_quantity h * wh_price h * wh_yield h) (wd_holdings d))"
  "sum_list (map2 (*) (vi_betas (inputs_of d)) (vi_frets (inputs_of d))) = sum_list (map (\<lambda>(_, b, f). b * f) (wd_factors d))"
  "sum_list (vi_costs (inputs_of d)) = cost_of d"
proof -
  have "sum_list (map (\<lambda>(q, p, y). q * p * y) (zip (map wh_quantity hs) (zip (map wh_price hs) (map wh_yield hs)))) =
     sum_list (map (\<lambda>h. wh_quantity h * wh_price h * wh_yield h) hs)" for hs
    by (induction hs) simp_all
  then show "sum_list (map (\<lambda>(q, p, y). q * p * y) (zip (vi_qtys (inputs_of d)) (zip (vi_prices (inputs_of d)) (vi_yields (inputs_of d))))) =
     sum_list (map (\<lambda>h. wh_quantity h * wh_price h * wh_yield h) (wd_holdings d))" by (simp add: inputs_of_def)
  have "sum_list (map2 (*) (map (fst \<circ> snd) fs) (map (snd \<circ> snd) fs)) = sum_list (map (\<lambda>(_, b, f). b * f) fs)"
    for fs :: "(string \<times> real \<times> real) list"
    by (induction fs) auto
  then show "sum_list (map2 (*) (vi_betas (inputs_of d)) (vi_frets (inputs_of d))) = sum_list (map (\<lambda>(_, b, f). b * f) (wd_factors d))"
    by (simp add: inputs_of_def)
  show "sum_list (vi_costs (inputs_of d)) = cost_of d" by (simp add: inputs_of_def cost_of_def)
qed

text \<open>Every comparison finds the value that it expects.\<close>

abbreviation finds :: "workbook \<Rightarrow> comparison list \<Rightarrow> bool" where
  "finds w cmps \<equiv> list_all (\<lambda>(s, c, r, e). shown_value (w s (c, r)) = N e) cmps"

lemma finds_holdings:
  assumes "holds_workbook d w var ann"
  shows "finds w (compare_holdings (inputs_of d))"
proof -
  have hold: "build_holdings d = Inr (w INPUT_Holdings)" and len: "length (wd_holdings d) = 8"
    using assms shapedD(1) by (auto simp: holds_workbook_def)
  note cell = holdings_sheet(2) [OF hold len]
  have "shown_value (w INPUT_Holdings (col_E, 4 + k)) = N (vi_qtys (inputs_of d) ! k * vi_prices (inputs_of d) ! k)" if "k < 8" for k
    using that len by (simp add: cell inputs_of_def wb_market_value_def)
  then show ?thesis
    by (simp add: compare_holdings_def list_all_iff inputs_sums inputs_nav_of cell del: upt_Suc upt_rec_numeral)
qed

lemma finds_risk:
  assumes "holds_workbook d w var ann"
  shows "finds w (compare_risk (inputs_of d) var @ [(RISK, col_B, 15, ann)])"
  unfolding compare_risk_def Let_def
  by (simp add: risk_value [OF assms] risk_rows_def Let_def inputs_of_def)

lemma finds_dashboard:
  assumes "holds_workbook d w var ann"
  shows "finds w (compare_dashboard (inputs_of d) var)"
  unfolding compare_dashboard_def Let_def inputs_sums inputs_nav_of
  by (simp add: dash_value [OF assms] dashboard_cards_def Let_def inputs_of_def)

lemma finds_returns:
  assumes h: "holds_workbook d w var ann"
  shows "finds w (compare_returns 1 0 4 (rets_of d))"
proof -
  let ?rs = "rets_of d" let ?wealth = "cumulate 1 ?rs"
  have shaped: "shaped d" and ret: "w RETURNS = build_returns d" using h by (simp_all add: holds_workbook_def)
  note len = shapedD(2) [OF shaped] and above = shapedD(4) [OF shaped]
  have "finds w (compare_returns (?wealth ! i) (if i = 0 then 0 else peak_at ?rs (i - 1)) (4 + i) (drop i ?rs))" if "i \<le> 24" for i
    using that
  proof (induction "24 - i" arbitrary: i)
    case 0
    then show ?case using len by simp
  next
    case (Suc n)
    then have i: "i < 24" by simp
    then have drop: "drop i ?rs = ?rs ! i # drop (Suc i) ?rs" using len by (simp add: Cons_nth_drop_Suc)
    have cum: "?wealth ! i * (1 + ?rs ! i) = ?wealth ! Suc i" using i len by (simp add: cumulate_nth(2))
    have ne: "?rs \<noteq> []" using len by auto
    have peak: "max (if i = 0 then 0 else peak_at ?rs (i - 1)) (?wealth ! Suc i) = peak_at ?rs i"
      using i len peak_at_0 [OF ne] peak_positive(1) [of 0 ?rs] above peak_at_Suc [of "i - 1" ?rs] by (cases i) simp_all
    note pos = peak_positive [of i ?rs]
    have "finds w (compare_returns (?wealth ! Suc i) (peak_at ?rs i) (4 + Suc i) (drop (Suc i) ?rs))"
      using Suc.hyps(1) [of "Suc i"] Suc.hyps(2) i by simp
    then show ?case
      using pos i len above returns_cells(2,3,4) [OF shaped i] helper_drawdowns_peak [of i ?rs]
      by (simp add: drop cum peak ret Let_def)
  qed
  from this [of 0] show ?thesis by (simp add: cumulate_nth(1))
qed

lemma finds_sorted:
  assumes h: "holds_workbook d w var ann"
  shows "finds w (compare_sorted (inputs_of d))"
proof -
  have shaped: "shaped d" and ret: "w RETURNS = build_returns d" using h by (simp_all add: holds_workbook_def)
  show ?thesis using returns_cells(5) [OF shaped]
    by (simp add: compare_sorted_def list_all_iff inputs_of_def ret del: upt_Suc upt_rec_numeral)
qed

lemma finds_factors:
  assumes h: "holds_workbook d w var ann"
  shows "finds w (compare_factors (inputs_of d))"
proof -
  have shaped: "shaped d" and fac: "w FACTORS = build_factors d" using h by (simp_all add: holds_workbook_def)
  note len = shapedD(5) [OF shaped] and cell = factors_sheet [OF shapedD(5) [OF shaped]]
  have "shown_value (w FACTORS (col_D, 4 + k)) = N (vi_betas (inputs_of d) ! k * vi_frets (inputs_of d) ! k)" if "k < 5" for k
    using that len by (simp add: fac cell inputs_of_def factor_fields del: factor_cell.simps)
  moreover have "shown_value (w FACTORS (col_D, 9)) = N (vi_alpha (inputs_of d))" by (simp add: fac cell inputs_of_def)
  moreover have "shown_value (w FACTORS (col_D, 10)) = N (sum_list (map2 (*) (vi_betas (inputs_of d)) (vi_frets (inputs_of d))) + vi_alpha (inputs_of d))"
    unfolding inputs_sums by (simp add: fac cell inputs_of_def)
  ultimately show ?thesis by (simp add: compare_factors_def list_all_iff del: upt_Suc upt_rec_numeral)
qed

lemma finds_scenarios:
  assumes h: "holds_workbook d w var ann"
  shows "finds w (compare_scenarios (wd_shocks d) (inputs_of d))"
proof -
  have shaped: "shaped d" and scen: "w SCENARIOS = build_scenarios d" using h by (simp_all add: holds_workbook_def)
  note len = shapedD(6) [OF shaped] and cell = scenarios_sheet [OF shapedD(6) [OF shaped]]
  have six: "length SHOCK_CLASSES = 6" by (simp add: SHOCK_CLASSES_def)
  have "shown_value (w SCENARIOS (col_B, 4 + k)) = N (class_weight d (SHOCK_CLASSES ! k))" if "k < 6" for k
    using that by (simp add: scen cell class_cell_def Let_def)
  moreover have "shown_value (w SCENARIOS (col_B, 12 + j)) = N (scenario_impact d (snd (wd_shocks d ! j)))"
    "shown_value (w SCENARIOS (col_C, 12 + j)) = N (scenario_impact d (snd (wd_shocks d ! j)) * nav_of d)" if "j < 3" for j
    using that by (simp_all add: scen cell impact_cell_def Let_def)
  ultimately show ?thesis
    by (auto simp: compare_scenarios_def list_all_iff len six Let_def inputs_weight_of inputs_impact_of inputs_nav_of del: upt_Suc upt_rec_numeral)
qed

text \<open>The texts of the formulas that the script looks for.\<close>

lemma expected_texts:
  "formula_text (Fn STDEV [return_range]) = ''=STDEV(RETURNS!C4:C27)''"
  "formula_text (Fn IF_ELSE [Op Equal (here col_B 5) (Lit 0), Lit 0, Op Div (Paren (Op Sub (here col_B 7) month_rf)) (here col_B 5)]) =
     ''=IF(B5=0,0,(B7-$B$3/12)/B5)''"
  "formula_text (Negative (Fn INDEX [sorted_range, Op Add tail_count (Lit 1)])) =
     ''=-INDEX(RETURNS!G4:G27,INT(0.05*COUNT(RETURNS!C4:C27))+1)''"
  "formula_text (Fn SUM_RANGE [Area (Some INPUT_Holdings) (rel col_E 4) (rel col_E 11)]) = ''=SUM(INPUT_Holdings!E4:E11)''"
  "formula_text (At (Some RISK) (rel col_B 8)) = ''=RISK!B8''"
  "formula_text (Fn SUMPRODUCT [Area None (fixed col_B 4) (fixed col_B 9), Area None (Ref False col_C True 4) (Ref False col_C True 9)]) =
     ''=SUMPRODUCT($B$4:$B$9,C$4:C$9)''"
  "formula_text (Fn SMALL [Area None (fixed col_C 4) (fixed col_C 27), Fn ROWS [Area None (fixed col_G 4) (rel col_G 4)]]) =
     ''=SMALL($C$4:$C$27,ROWS($G$4:G4))''"
  "formula_text (Op Mul (here col_C 4) (here col_D 4)) = ''=C4*D4''"
  "formula_text (Op Mul (here col_B 4) (here col_C 4)) = ''=B4*C4''"
  by code_simp+

lemma formulas_present:
  assumes h: "holds_workbook d w var ann"
  shows "filter (formula_differs w) expected_formulas = []"
proof -
  have hold: "build_holdings d = Inr (w INPUT_Holdings)" and shaped: "shaped d" and ret: "w RETURNS = build_returns d"
    and fac: "w FACTORS = build_factors d" and scen: "w SCENARIOS = build_scenarios d" using h by (simp_all add: holds_workbook_def)
  note len = shapedD [OF shaped]
  obtain x where f: "w FACTORS (col_D, 4) = Some (Formula (Op Mul (here col_B 4) (here col_C 4)) x)"
    using len(5) by (cases "wd_factors d ! 0") (simp add: fac factors_sheet)
  have cells: "text_of_cell (w RISK (col_B, 5)) = Some (formula_text (Fn STDEV [return_range]))"
    "text_of_cell (w RISK (col_B, 8)) = Some (formula_text (Fn IF_ELSE [Op Equal (here col_B 5) (Lit 0), Lit 0,
       Op Div (Paren (Op Sub (here col_B 7) month_rf)) (here col_B 5)]))"
    "text_of_cell (w RISK (col_B, 12)) = Some (formula_text (Negative (Fn INDEX [sorted_range, Op Add tail_count (Lit 1)])))"
    "text_of_cell (w DASHBOARD (col_B, 4)) = Some (formula_text (Fn SUM_RANGE [Area (Some INPUT_Holdings) (rel col_E 4) (rel col_E 11)]))"
    "text_of_cell (w DASHBOARD (col_B, 9)) = Some (formula_text (At (Some RISK) (rel col_B 8)))"
    "text_of_cell (w SCENARIOS (col_B, 12)) = Some (formula_text (Fn SUMPRODUCT [Area None (fixed col_B 4) (fixed col_B 9),
       Area None (Ref False col_C True 4) (Ref False col_C True 9)]))"
    "text_of_cell (w RETURNS (col_G, 4)) = Some (formula_text (Fn SMALL [Area None (fixed col_C 4) (fixed col_C 27),
       Fn ROWS [Area None (fixed col_G 4) (rel col_G 4)]]))"
    "text_of_cell (w INPUT_Holdings (col_E, 4)) = Some (formula_text (Op Mul (here col_C 4) (here col_D 4)))"
    "text_of_cell (w FACTORS (col_D, 4)) = Some (formula_text (Op Mul (here col_B 4) (here col_C 4)))"
    unfolding text_of_cell_def
    by (simp_all add: risk_value [OF h] risk_rows_def dash_value [OF h] dashboard_cards_def Let_def ret returns_sheet return_cell_def len
        scen scenarios_sheet impact_cell_def shock_columns holdings_sheet(2) [OF hold len(1)] f)
  show ?thesis
    unfolding filter_empty_conv expected_formulas_def formula_differs_def
    using cells [unfolded expected_texts] by (simp del: list.inject)
qed

lemma segment_of_concat:
  assumes "str_in p (f r)" and "r \<in> set rs"
  shows "str_in p (concat (map f rs))"
proof -
  from split_list [OF assms(2)] obtain xs ys where "rs = xs @ r # ys" by blast
  moreover from assms(1) obtain u v where "f r = u @ p @ v" by (auto simp: str_in_iff)
  ultimately have "concat (map f rs) = (concat (map f xs) @ u) @ p @ (v @ concat (map f ys))" by simp
  then show ?thesis unfolding str_in_iff by blast
qed

lemma statement_present:
  "str_in ''NOT encrypted'' no_encryption" "str_in ''PLAIN TEXT'' no_encryption"
  by code_simp+

lemma disclosure_present:
  assumes "w DISCLOSURE = build_disclosure" and "str_in p no_encryption"
  shows "str_in p (disclosure_text w)"
proof -
  have cell: "text_at w DISCLOSURE col_A 7 = Some no_encryption"
    by (simp add: text_at_def assms(1) build_disclosure_def put_apply)
  obtain u v where "no_encryption = u @ p @ v" using assms(2) unfolding str_in_iff by blast
  then have "no_encryption @ '' '' = u @ p @ (v @ '' '')" by simp
  then have "str_in p (no_encryption @ '' '')" unfolding str_in_iff by blast
  then show ?thesis
    unfolding disclosure_text_def
    by (intro segment_of_concat [where r = 7]) (simp_all add: cell del: upt_Suc upt_rec_numeral)
qed

lemma sheet_names: "map show_sheet sheets = built_sheets"
  by (simp add: sheets_def built_sheets_def)

lemma sheets_present: "list_all (\<lambda>s. show_sheet s \<in> set built_sheets) (tl sheets)" "show_sheet DISCLOSURE \<in> set built_sheets"
  unfolding sheet_names [symmetric] by (simp_all add: sheets_def)

lemma built_accepted:
  assumes "build_workbook d = Inr w" and "shaped d"
  shows "verify_workbook built_sheets dims (wd_shocks d) w = Inr []"
proof -
  from built_holds [OF assms] obtain var ann where h: "holds_workbook d w var ann" .
  let ?i = "inputs_of d"
  let ?cmps = "compare_holdings ?i @ (compare_risk ?i var @ [(RISK, col_B, 15, ann)]) @ compare_returns 1 0 4 (rets_of d) @
    compare_sorted ?i @ compare_factors ?i @ compare_scenarios (wd_shocks d) ?i @ compare_dashboard ?i var"
  have inputs: "vi_rets ?i = rets_of d" "vi_rf ?i = wd_risk_free d" by (simp_all add: inputs_of_def)
  have ok: "inputs_nav ?i \<noteq> 0" "months_below (rets_of d) (wd_risk_free d) \<noteq> []" "sum_list (vi_costs ?i) \<noteq> 0"
    "m_var (rets_of d) (5 / 100) = Some var" "m_annualized_return (rets_of d) 12 = Some ann"
    using h holdings_sheet(1) shapedD(1) [OF assms(2)] by (auto simp: holds_workbook_def inputs_nav_of inputs_sums)
  have cmps: "comparisons (wd_shocks d) ?i var = map real_expected ?cmps"
    by (simp add: comparisons_def inputs m_annualized_value_real [OF ok(5)] real_expected_def)
  have "finds w ?cmps"
    unfolding list_all_append [where xs = "compare_holdings ?i"]
      list_all_append [where xs = "compare_risk ?i var @ [(RISK, col_B, 15, ann)]"]
      list_all_append [where xs = "compare_returns 1 0 4 (rets_of d)"] list_all_append [where xs = "compare_sorted ?i"]
      list_all_append [where xs = "compare_factors ?i"] list_all_append [where xs = "compare_scenarios (wd_shocks d) ?i"]
    using finds_holdings [OF h] finds_risk [OF h] finds_returns [OF h] finds_sorted [OF h] finds_factors [OF h]
      finds_scenarios [OF h] finds_dashboard [OF h] by blast
  then have near: "traverse (near w) (map real_expected ?cmps) = Inr (map (\<lambda>_. True) ?cmps)" by (rule nearly)
  have none: "filter (\<lambda>p. \<not> snd p) (zip (map f xs) (map (\<lambda>_. True) xs)) = []"
    for f :: "comparison \<Rightarrow> sheet \<times> char \<times> nat \<times> complex" and xs
    by (induction xs) simp_all
  have disc: "w DISCLOSURE = build_disclosure" using h by (simp add: holds_workbook_def)
  show ?thesis
    unfolding verify_workbook_def inputs_of_workbook [OF h] rbind.simps inputs
    using ok by (simp only: cmps near none formulas_present [OF h] none_banned [OF h] list.case
        disclosure_present [where w = w, OF disc] statement_present sheet_names sheets_present
        rbind.simps option.case prod.case simp_thms if_True if_False list.map append_Nil)
qed

text \<open>C38: the verification accepts every workbook that the build script writes from data of the expected shape,
  so also those whose formulas for the expected shortfall and the maximum drawdown give another value
  than the cached one.\<close>

theorem verify_accepts:
  assumes "build_workbook d = Inr w" and "shaped d"
  shows "verify_workbook built_sheets dims (wd_shocks d) w = Inr []"
  by (rule built_accepted [OF assms])

theorem verify_accepts_witness:
  "\<exists>w. build_workbook SAMPLE_DATA = Inr w \<and> verify_workbook built_sheets (\<lambda>_. [(col_B, 5)]) (wd_shocks SAMPLE_DATA) w = Inr []"
proof -
  from sample_builds obtain w where w: "build_workbook SAMPLE_DATA = Inr w" ..
  show ?thesis using w verify_accepts [OF w shaped_sample] by blast
qed

text \<open>Within the tolerance of the script.\<close>

definition cell_near :: "workbook \<Rightarrow> sheet \<Rightarrow> char \<Rightarrow> nat \<Rightarrow> real \<Rightarrow> bool" where
  "cell_near w s c r e \<longleftrightarrow> (\<exists>x. shown_value (w s (c, r)) = N x \<and> \<bar>x - e\<bar> \<le> TOL * max 1 \<bar>e\<bar>)"

lemma near_True: "near w (real_expected (s, c, r, e)) = Inr True \<Longrightarrow> cell_near w s c r e"
  by (auto simp: near_def real_expected_def cell_near_def number_or_fail_def number_at_def
      simp flip: of_real_diff split: option.splits sheet_value.splits)

lemma none_differ:
  assumes "traverse f xs = Inr oks" and "map g (filter (\<lambda>p. \<not> snd p) (zip xs oks)) = []" and "x \<in> set xs"
  shows "f x = Inr True"
  using assms
proof (induction xs arbitrary: oks)
  case (Cons y ys)
  from Cons.prems(1) obtain b bs where b: "f y = Inr b" "traverse f ys = Inr bs" "oks = b # bs" by auto
  from Cons.prems(2) have "b" and "map g (filter (\<lambda>p. \<not> snd p) (zip ys bs)) = []"
    unfolding b(3) by (simp_all split: if_splits)
  with Cons b show ?case by auto
qed simp

text \<open>C18: whatever workbook the verification accepts, the numbers on its RISK sheet are, within the tolerance, the
  engine's metrics of the returns in it, its holdings add up to the net asset value on the dashboard,
  its sheets are the seven in their order, no formula uses a function that Google Sheets lacks, and the text of the sheet with the disclosure says that the file is not encrypted.\<close>

theorem verify_sound:
  assumes "verify_workbook names dims shocks w = Inr []"
  shows "\<exists>i. read_inputs w = Inr i \<and>
    cell_near w RISK col_B 5 (volatility (vi_rets i)) \<and> cell_near w RISK col_B 8 (sharpe_ratio (vi_rets i) (vi_rf i)) \<and>
    cell_near w RISK col_B 10 (sortino_ratio (vi_rets i) (vi_rf i)) \<and> cell_near w RISK col_B 11 (max_drawdown (vi_rets i)) \<and>
    cell_near w RISK col_B 12 (value_at_risk (vi_rets i) (1 / 20)) \<and> cell_near w RISK col_B 13 (conditional_var (vi_rets i) (1 / 20)) \<and>
    cell_near w RISK col_B 14 (total_return (vi_rets i)) \<and> cell_near w DASHBOARD col_B 4 (inputs_nav i) \<and>
    names = built_sheets \<and> banned_uses dims w = [] \<and> str_in ''NOT encrypted'' (disclosure_text w)"
proof -
  from assms have sheets: "list_all (\<lambda>s. show_sheet s \<in> set names) (tl sheets)"
    by (auto simp: verify_workbook_def split: if_splits)
  from assms obtain i where i: "read_inputs w = Inr i" by (auto simp: verify_workbook_def sheets)
  let ?rets = "vi_rets i"
  obtain var where v: "m_var ?rets (5 / 100) = Some var"
    using assms by (auto simp: verify_workbook_def sheets i split: if_splits option.splits)
  let ?cmps = "comparisons shocks i var"
  obtain oks where oks: "traverse (near w) ?cmps = Inr oks"
    and none: "map (\<lambda>((s, c, r, _), _). Differs s c r) (filter (\<lambda>p. \<not> snd p) (zip ?cmps oks)) = []"
    and disc: "str_in ''NOT encrypted'' (disclosure_text w)" and scan: "banned_uses dims w = []"
    and order: "names = map show_sheet sheets"
    using assms unfolding verify_workbook_def i rbind.simps v option.case prod.case
    by (auto simp only: rbind_eq_Inr Inl_Inr_False sum.inject append_is_Nil_conv list.distinct split: if_splits list.splits)
  have all_near: "cell_near w s c r e" if "real_expected (s, c, r, e) \<in> set ?cmps" for s c r e
    using none_differ [OF oks none that] by (rule near_True)
  have risk: "cell_near w RISK col_B r e" if "(RISK, col_B, r, e) \<in> set (compare_risk i var)" for r e
    using that by (intro all_near) (auto simp: comparisons_def)
  have var: "var = value_at_risk ?rets (1 / 20)" using v m_var_engine [of "1 / 20" ?rets] by simp
  have share: "5 / 100 = (1 / 20 :: real)" by simp
  note engine = m_volatility_engine m_sharpe_engine m_sortino_engine m_max_drawdown_engine m_cvar_engine m_total_return_engine
  note cells = compare_risk_def Let_def engine var share
  have "(DASHBOARD, col_B, 4, inputs_nav i) \<in> set (compare_dashboard i var)" by (simp add: compare_dashboard_def Let_def)
  then have "cell_near w DASHBOARD col_B 4 (inputs_nav i)" by (intro all_near) (auto simp: comparisons_def)
  then show ?thesis
    using i disc scan order sheet_names by (intro exI [of _ i] conjI risk) (simp_all add: cells)
qed

theorem verify_sound_witness:
  "\<exists>w i. build_workbook SAMPLE_DATA = Inr w \<and> read_inputs w = Inr i \<and>
     cell_near w RISK col_B 13 (conditional_var (vi_rets i) (1 / 20)) \<and> str_in ''NOT encrypted'' (disclosure_text w)"
proof -
  from sample_builds obtain w where w: "build_workbook SAMPLE_DATA = Inr w" ..
  show ?thesis using w verify_sound [OF built_accepted [OF w shaped_sample]] by blast
qed

end
