(* ===== verification/Pke_Open.thy ===== *)
theory Pke_Open
  imports Pke_Store Auth
begin

text \<open>
  What happens before the knowledge base is used: the schema of a file written before texts were encrypted
  (\<^verbatim>\<open>analytics/pae/pke/store.py\<close>) and the loading of the local embedding model
  (\<^verbatim>\<open>analytics/pae/pke/embeddings.py\<close>). The embedding package is a parameter: whether it is installed, what
  its constructor does and what the model returns.
\<close>

section \<open>The schema\<close>

text \<open>A row of a file that has no nonce column.\<close>

record old_row =
  or_id :: string
  or_source :: string
  or_author :: string
  or_date :: string
  or_themes :: "string list"
  or_text :: string
  or_created :: string

datatype stored_file =
    FreshFile
  | BeforeNonce "old_row list" "(string \<times> real list) list" "(string \<times> string) list"
  | WithNonce pke_file

text \<open>\<open>ALTER TABLE pke_chunks ADD COLUMN nonce BLOB\<close>: NULL in every row.\<close>

definition add_nonce :: "old_row \<Rightarrow> pke_row" where
  "add_nonce r = \<lparr>pr_id = or_id r, pr_source = or_source r, pr_author = or_author r, pr_date = or_date r,
     pr_themes = or_themes r, pr_text = or_text r, pr_nonce = None, pr_created = or_created r\<rparr>"

fun with_nonce :: "stored_file \<Rightarrow> pke_file" where
  "with_nonce FreshFile = empty_pke_file"
| "with_nonce (BeforeNonce rows vecs meta) = \<lparr>pf_rows = map add_nonce rows, pf_vecs = vecs, pf_meta = meta\<rparr>"
| "with_nonce (WithNonce f) = f"

definition open_stored :: "string option \<Rightarrow> bool \<Rightarrow> nat \<Rightarrow> stored_file \<Rightarrow> pke_exc + kstore" where
  "open_stored dek vec draws f = open_store dek vec draws (with_nonce f)"

text \<open>The file of an open store.\<close>

definition store_file :: "kstore \<Rightarrow> pke_file" where
  "store_file s = \<lparr>pf_rows = ks_rows s, pf_vecs = ks_vecs s, pf_meta = ks_meta s\<rparr>"

lemma schema_version_kept:
  "dict_get (if dict_get m k = None then m @ [(k, v)] else m) k \<noteq> None"
  by (auto simp: dict_get_def map_add_def split: option.splits)

text \<open>Opening is idempotent: what the first open has made of the file, every later open leaves as it is.\<close>

lemma open_stored_idempotent:
  assumes "open_stored dek vec draws f = Inr s"
  shows "open_stored dek vec draws (WithNonce (store_file s)) = Inr s"
  using assms schema_version_kept [of "pf_meta (with_nonce f)" "''schema_version''" "''1''"]
  by (auto simp: open_stored_def open_store_def store_file_def split: if_splits)

text \<open>The migration loses nothing, and with or without a key the old texts are read as they were stored.\<close>

lemma migration_keeps_texts:
  assumes "open_stored dek vec draws (BeforeNonce rows vecs meta) = Inr s"
  shows "map (maybe_decrypt ci dek) (ks_rows s) = map (\<lambda>r. Inr (or_text r)) rows \<and>
    map pr_id (ks_rows s) = map or_id rows \<and> ks_vecs s = vecs \<and> count_cleartext_chunks s = length rows"
proof -
  have "ks_rows s = map add_nonce rows" and "ks_vecs s = vecs"
    using assms by (auto simp: open_stored_def open_store_def split: if_splits)
  then show ?thesis by (simp add: maybe_decrypt_def add_nonce_def count_cleartext_chunks_def comp_def filter_map)
qed

section \<open>The embedding model\<close>

definition EMBEDDING_MODEL :: string where "EMBEDDING_MODEL = ''BAAI/bge-small-en-v1.5''"

text \<open>\<open>_HF_ONNX_REPO.replace("/", "--")\<close>\<close>

definition HF_ONNX_REPO :: string where "HF_ONNX_REPO = ''Qdrant/bge-small-en-v1.5-onnx-Q''"

definition repo_folder :: "string \<Rightarrow> string" where
  "repo_folder repo = ''models--'' @ concat (map (\<lambda>c. if c = CHR ''/'' then ''--'' else [c]) repo)"

definition default_cache_dir :: "env \<Rightarrow> string \<Rightarrow> string" where
  "default_cache_dir env tmp =
     (case env ''FASTEMBED_CACHE_PATH'' of Some (c # cs) \<Rightarrow> c # cs | _ \<Rightarrow> tmp @ ''/fastembed_cache'')"

text \<open>\<open>ls\<close>: the names in a directory, None for what is none.\<close>

definition embedding_model_available :: "env \<Rightarrow> string \<Rightarrow> (string \<Rightarrow> string list option) \<Rightarrow> bool" where
  "embedding_model_available env tmp ls =
     (case ls (default_cache_dir env tmp @ ''/'' @ repo_folder HF_ONNX_REPO) of None \<Rightarrow> False | Some names \<Rightarrow> names \<noteq> [])"

text \<open>What importing the package and constructing the model do.\<close>

datatype 'm package = NotInstalled | ConstructorRaises string | Constructs 'm

text \<open>\<open>_get_model\<close> with the module's singleton; the notice of a download is the second component.\<close>

definition get_model :: "'m package \<Rightarrow> bool \<Rightarrow> 'm option \<Rightarrow> (model_exc + 'm) \<times> bool \<times> 'm option" where
  "get_model pkg available model =
     (case model of
        Some m \<Rightarrow> (Inr m, False, model)
      | None \<Rightarrow>
          (case pkg of
             NotInstalled \<Rightarrow> (Inl EmbeddingsUnavailable, False, None)
           | ConstructorRaises e \<Rightarrow> (Inl (OtherException e), \<not> available, None)
           | Constructs m \<Rightarrow> (Inr m, \<not> available, Some m)))"

text \<open>\<open>embed_texts\<close> without an injected function; \<open>run\<close> is the model's \<open>embed\<close>.\<close>

definition embed_locally ::
  "('m \<Rightarrow> string list \<Rightarrow> real list list) \<Rightarrow> 'm package \<Rightarrow> bool \<Rightarrow> 'm option \<Rightarrow> string list \<Rightarrow>
     (model_exc + real list list) \<times> 'm option" where
  "embed_locally run pkg available model texts =
     (if texts = [] then (Inr [], model)
      else case get_model pkg available model of
          (Inl e, _, model') \<Rightarrow> (Inl e, model')
        | (Inr m, _, model') \<Rightarrow>
            (let vs = run m texts
             in (if length vs \<noteq> length texts then Inl EmbeddingsUnavailable else Inr (map l2_normalize vs), model')))"

text \<open>A loaded model is kept: whatever becomes of the package later, it is not loaded or downloaded again.\<close>

lemma model_loaded_once:
  assumes "get_model pkg available None = (Inr m, loading, model)"
  shows "get_model pkg' available' model = (Inr m, False, model)"
  using assms by (auto simp: get_model_def split: package.splits)

text \<open>A successful local embedding is the injected embedding of Pke_Ingest with the model as the function.\<close>

lemma embed_locally_sound:
  assumes "embed_locally run pkg available model texts = (Inr vs, Some m)"
  shows "embed_texts (\<lambda>ts. Inr (run m ts)) texts = Inr vs"
  using assms
  by (auto simp: embed_locally_def embed_texts_def get_model_def Let_def split: if_splits option.splits package.splits)

text \<open>
  Only a missing package is the error that the callers turn into a keyword search: when the constructor
  fails, as it does without a network before the first download, its exception escapes.
\<close>

lemma failed_load_escapes:
  assumes "texts \<noteq> []"
  shows "fst (embed_locally run (ConstructorRaises e) available None texts) = Inl (OtherException e)"
  using assms by (simp add: embed_locally_def get_model_def)

end
