(* ===== verification/Mcp.thy ===== *)
theory Mcp
  imports Service
begin

text \<open>
  The MCP entry points, \<^verbatim>\<open>analytics/pae/mcp/server.py\<close> and \<^verbatim>\<open>analytics/pae/mcp/__main__.py\<close>: which tools are
  registered with the package over which database, and what starting the server does to the stored tables.
  The package itself, with the transport and the schemas that it derives, is a parameter as in Service.
\<close>

definition SERVER_NAME :: string where "SERVER_NAME = ''pae''"
definition SERVER_VERSION :: string where "SERVER_VERSION = ''0.1.0''"
definition DEFAULT_DB_PATH :: string where "DEFAULT_DB_PATH = ''data/pae.db''"

text \<open>The database of the tools: the one supplied, or one opened at a path and not initialised.\<close>

datatype 'd tool_database = Supplied 'd | OpenedAt string

record 'd mcp_server =
  ms_name :: string
  ms_version :: string
  ms_database :: "'d tool_database"
  ms_engine_url :: "string option"
  ms_tools :: "string list"

definition create_mcp_server :: "env \<Rightarrow> 'd option \<Rightarrow> string option \<Rightarrow> 'd mcp_server" where
  "create_mcp_server env db engine_url =
     \<lparr>ms_name = SERVER_NAME, ms_version = SERVER_VERSION,
      ms_database = (case db of Some d \<Rightarrow> Supplied d | None \<Rightarrow> OpenedAt (env_default env ''PAE_DB_PATH'' DEFAULT_DB_PATH)),
      ms_engine_url = engine_url, ms_tools = TOOL_NAMES\<rparr>"

definition get_tool_manifest :: "(string \<Rightarrow> pyval) \<Rightarrow> env \<Rightarrow> (string \<times> pyval) list" where
  "get_tool_manifest schema env = map (\<lambda>t. (t, schema t)) (ms_tools (create_mcp_server env (None :: db option) None))"

text \<open>\<open>main\<close> up to \<open>run\<close>.\<close>

definition mcp_main :: "env \<Rightarrow> stamp \<Rightarrow> db \<Rightarrow> (db_exc + db mcp_server) \<times> db" where
  "mcp_main env st d =
     (let d0 = initialize d
      in if get_portfolios d0 = []
         then (case insert_portfolio (default_portfolio st) d0 of
                 (Inl e, d1) \<Rightarrow> (Inl e, d1)
               | (Inr _, d1) \<Rightarrow> (Inr (create_mcp_server env (Some d1) None), d1))
         else (Inr (create_mcp_server env (Some d0) None), d0))"

text \<open>Starting the MCP server does to the stored tables what starting the HTTP server does, and fails exactly when it fails.\<close>

lemma mcp_start_is_service_start:
  "snd (mcp_main env st d) = sv_db (snd (start_service env fresh st (s\<lparr>sv_db := d\<rparr>))) \<and>
   ((\<exists>e. fst (mcp_main env st d) = Inl e) \<longleftrightarrow> (\<exists>e. fst (start_service env fresh st (s\<lparr>sv_db := d\<rparr>)) = Inl e))"
  by (auto simp: mcp_main_def start_service_def Let_def split: prod.splits sum.splits if_splits)

text \<open>Every registered tool is registered once and is one that the agent's dispatch knows.\<close>

lemma registered_tools:
  "distinct (ms_tools (create_mcp_server env db url)) \<and>
   (\<forall>t \<in> set (ms_tools (create_mcp_server env db url)). fst (run_agent_tool call t ps d) \<noteq> Inl (UnknownTool t))"
proof -
  have "distinct TOOL_NAMES" by code_simp
  then show ?thesis by (auto simp: create_mcp_server_def run_agent_tool_def split: prod.splits sum.splits tool_exc.splits)
qed

text \<open>The manifest behind the agent token is that of the registered tools.\<close>

lemma manifest_of_registered: "get_tool_manifest schema env = tool_manifest schema"
  by (simp add: get_tool_manifest_def create_mcp_server_def tool_manifest_def)

end
