(* ===== verification/Spec2Isabelle.thy ===== *)
theory Spec2Isabelle
  imports Journal Brinson Carry Db_Correct Return_Series Guard Auth Optimize Factor Csv_Correct
    Sources Factor_Data_Correct Legacy_Correct Providers_Correct Adapter_Correct Knowledge_Api Api_Correct
    Seed_Correct Workbook_Correct Pke_Open
    Mcp
begin

text \<open>
  A verification development for PAE, the Personal Analytics Engine: the Python analytics server of
  \<^verbatim>\<open>analytics/pae/\<close>. The server stores portfolios in SQLite, computes return series, margin carry,
  attribution, factor exposures and optimal mixes from them, keeps a decision journal and an encrypted
  knowledge base, and serves all of it on the loopback interface twice: as a REST API for the user
  interface and as named tools for agents. This theory imports the whole development; the
  properties of the manifest stand in the theories of their components.

  \<^bold>\<open>The parts and their theories\<close>

  \<^item> Prelude: Python's values (\<open>pyfloat\<close>, \<open>pyval\<close>), strings, dictionaries, \<open>round\<close> and results
    \<open>error + value\<close>. Vectors: vectors and matrices as lists. Float_Text: \<open>float\<close> of a text. Tables: one
    table of the SQLite store with its primary key, behind the interface \<open>keyed_table\<close>. Codec: UTF-8 and
    Base64, behind the interface \<open>codec\<close>.
  \<^item> Journal (\<^verbatim>\<open>decision/journal.py\<close>): the journal entry, its validation, the calibration.
  \<^item> Brinson, Carry, Optimize, Factor (\<^verbatim>\<open>models/\<close>): the four analytics models.
  \<^item> Db and Db_Correct (\<^verbatim>\<open>storage/db.py\<close>): the record \<open>db\<close> has a field for each table; every method
    of \<open>PAEDatabase\<close> is a function from a database to an outcome and the next database, with keys, NOT
    NULL columns and foreign keys with their cascades. The body of a transaction is a sequence of
    statements (\<open>'a sql\<close>), each of which may change the pending state or raise; \<open>run_transaction\<close> runs it on
    a \<open>connection\<close>, whose record has the committed and the pending state, and commits or rolls back.
  \<^item> Csv and Csv_Correct (\<^verbatim>\<open>storage/csv_import.py\<close>, and the confirmation endpoint): format
    detection, row parsing and the import. The standard library's \<open>csv.reader\<close>, which both importers use, is
    a character machine in Csv.
  \<^item> Return_Series, Guard, Auth (\<^verbatim>\<open>server.py\<close>, \<^verbatim>\<open>auth.py\<close>): the portfolio's return series, the loopback
    guard as a function on requests, the two authorisation checks and the race for the token file as a
    step relation.
  \<^item> Cache (\<^verbatim>\<open>data/cache.py\<close>) behind the interface \<open>ttl_cache\<close>, its clients Sources (\<^verbatim>\<open>data/boc.py\<close>,
    \<^verbatim>\<open>data/eia.py\<close>) and Factor_Data with Factor_Data_Correct (\<^verbatim>\<open>data/factors.py\<close>), Registry (\<^verbatim>\<open>data/registry.py\<close>), and Adapter with
    Adapter_Correct (\<^verbatim>\<open>data/adapter.py\<close>, \<^verbatim>\<open>data/commodities.py\<close>).
    Legacy_Import and Legacy_Correct: the older statement importer \<^verbatim>\<open>data/csv_import.py\<close>.
  \<^item> Pacing: the two rate limits behind the interface \<open>pacer\<close>, with the bounds it gives; Yahoo
    (\<^verbatim>\<open>data/yahoo.py\<close>) and Edgar (\<^verbatim>\<open>data/edgar.py\<close>): the retries, the requests with their cache, the returns
    of a price history, the facts of a company. An adapter's record has a log of what it sent and how
    long it waited. Providers_Correct: their properties.
  \<^item> Pke_Text, Pke_Ingest, Pke_Store, Pke_Correct (\<^verbatim>\<open>pke/\<close>): chunking, ingestion, the store with
    encryption at rest and both searches; Pke_Open: the migration of a file older than encryption and the
    loading of the embedding model, whose exceptions (\<open>model_exc\<close>) the indexing of Pke_Store meets; Knowledge_Api: the two knowledge endpoints of \<^verbatim>\<open>server.py\<close>.
  \<^item> Endpoints (\<^verbatim>\<open>server.py\<close>): the REST handlers over the components above, with the mapping of exceptions
    to statuses. Tools and Agent (\<^verbatim>\<open>mcp/tools.py\<close>, and the A2A endpoint): the same operations as tools,
    their dispatch by name and the message endpoint. A call with an argument of another type than
    declared is followed to the exception that the tools or the binding of an SQL parameter raise
    (\<open>mistyped_error\<close>). Api_Correct: what the two faces share. Service:
    start-up, configuration, the health check and the documents behind the agent token. Mcp
    (\<^verbatim>\<open>mcp/server.py\<close>, \<^verbatim>\<open>mcp/__main__.py\<close>): the registered tools and the start of the MCP server.
  \<^item> Versions (\<^verbatim>\<open>engine/src/versioning/\<close>, \<^verbatim>\<open>engine/src/api/versioning_api.rs\<close>): the engine's append-only
    store and three of its handlers. Seed and Seed_Correct (\<^verbatim>\<open>scripts/seed_demo.py\<close>): the demo seed as a
    client of that store and, through the loopback guard and the key check, of the REST handlers.
  \<^item> Risk_Metrics (\<^verbatim>\<open>engine/src/risk/metrics.rs\<close>, \<^verbatim>\<open>tools/build_workbook.py\<close>): the engine's risk metrics and
    their mirrors in Python. Workbook (\<^verbatim>\<open>tools/build_workbook.py\<close>, \<^verbatim>\<open>tools/verify_workbook.py\<close>): the formulas
    of the workbook as terms with a printer and an evaluator, the builders of its sheets with the cached
    values, and the verification. The formulas are code of the repository in the formula language of
    spreadsheets; its operators and functions are modelled as documented, on exact reals; the verification compares with
    the value of Python's power, which is complex for a negative base. Workbook_Sheets:
    what each sheet holds; Workbook_Correct: the properties.

  \<^bold>\<open>How the code is modelled\<close>

  A dataclass or a table row is a record, an enumeration a datatype, an exception a constructor of an
  error datatype and a fallible function returns \<open>error + value\<close>, so that each \<open>raise\<close> and each
  exception that escapes is a branch. An object with state is a record passed and returned. Values
  that the code inspects dynamically are \<open>pyval\<close>. A float is a \<open>pyfloat\<close>: NaN, the infinities, and finite
  numbers as exact reals; the guards on the special values are modelled, the rounding of binary64 is
  not. Strings are over the code points 0 to 255. Clock readings, generated identifiers, nonces and
  tokens are arguments. What is not under \<^verbatim>\<open>src/\<close> is a parameter with its documented behaviour as a named
  hypothesis: the matrix inverse, the eigendecomposition and the SLSQP solver (\<open>numerics\<close>), SHA-256, the
  JSON codec, the HTTP transport, the Rust engine, the AEAD cipher (\<open>good_cipher\<close>), the embedding model,
  the nearest-neighbour query and the file system; and what SQLite, numpy and the engine make of a tool's
  argument of another type than declared (\<open>untyped\<close>).

  Loops are structural recursion, folds or recursion with a measure. The loops whose length
  the code bounds by a constant, the retries of Yahoo and the risk-parity iteration of Optimize, take that constant as their
  fuel. The wait of the demo seed, which ends only if the clock advances, is a partial function. No theorem
  is restricted to a bound.

  \<^bold>\<open>What the groups of lemmas show\<close>

  \<^item> Models: validation accepts exactly the documented inputs; the reported effects, carries, exposures
    and mixes satisfy their defining equations, are optimal or feasible, and sum as documented.
  \<^item> Storage: every reachable database is well-formed; a failed operation changes nothing; bulk
    insertion is all or nothing; what is stored is read back; the queries after a deletion show exactly its
    cascade.
  \<^item> Import: what each row of the text becomes, a holding, an error or a warning, stated over the rows of
    the reader; saving is atomic; the older importer turns exactly the usable positions of a statement into
    holdings and reports every other one. That reading inverts quoting (\<open>csv_rows_render\<close>) checks the model of
    the reader.
  \<^item> Access: exactly which requests pass the guard and the two checks; racing processes agree on a token, and
    the race ends with the token of its one creator in the file; the service starts on whatever is stored, and starting twice is starting once.
  \<^item> Data: the cache's lifetime semantics, cached series, the adapter's gate and health records; the
    contract of a FRED series (allowlist, masked keys, caching) and the columns of a French file.
  \<^item> Providers: a fetch always returns; the request rates stay within the declared limits whatever is
    called; the statistics of a history are those of its closes; stored facts are read back without loss.
  \<^item> Knowledge base: chunking keeps every word; the encrypted store refines the cleartext store under
    the abstraction that decrypts each row; texts are sealed at rest under distinct nonces; the
    endpoints disclose cleartext only.
  \<^item> Seed: the wait for a server ends, whatever it answers; the version store's histories verify and only
    grow; the seed's documents are read back from it, and the demo portfolio is created once.
  \<^item> Workbook: the mirrors are the engine's metrics; each formula evaluates to its cached value, with two
    exceptions that are characterised; formulas are well formed and name no banned function; the
    verification accepts what the build writes, and what it accepts shows the engine's metrics.
  \<^item> Faces: every sequence of holdings calls has the same effect and corresponding answers over REST and
    over agent messages; a message completes exactly when its tool ran; the dashboard accounts for
    every holding.

  \<^bold>\<open>Not modelled\<close>

  Request parsing beyond the declared field limits, routing, CORS handling and the serialisation of
  responses (third-party frameworks); the connection handling of the SQLite stores; the transport and the
  schemas of the MCP package; the layout, notes and file format of the workbook;
  the frozen entry point, the rest of the Rust engine, the TypeScript interface and the tests.
\<close>

end
